(* ===== verification/Prelude.thy ===== *)
theory Prelude
  imports Complex_Main "HOL-Library.Word"
begin

text \<open>
  What every component shares.  The C type \<open>double\<close> is the type \<open>fl\<close>: an exact real, one of the
  two infinities, or not-a-number.  Comparisons and arithmetic follow C: a comparison with NaN is
  false, NaN absorbs, and dividing by zero gives an infinity or NaN.  Rounding and the sign of zero
  are not modelled.  A formatted message is kept as its format string and its arguments.
\<close>

named_theorems frame \<comment> \<open>what an operation leaves unchanged\<close>

section \<open>The type double\<close>

datatype fl = Fin real | PInf | NInf | NaN

instantiation fl :: "{zero, one, plus, minus, uminus, times, inverse, ord, abs}"
begin

definition zero_fl :: fl where "0 = Fin 0"

definition one_fl :: fl where "1 = Fin 1"

fun uminus_fl :: "fl \<Rightarrow> fl" where
  "- Fin a = Fin (- a)"
| "- PInf = NInf"
| "- NInf = PInf"
| "- NaN = NaN"

fun plus_fl :: "fl \<Rightarrow> fl \<Rightarrow> fl" where
  "Fin a + Fin b = Fin (a + b)"
| "NaN + y = NaN"
| "x + NaN = NaN"
| "PInf + NInf = NaN"
| "NInf + PInf = NaN"
| "PInf + y = PInf"
| "x + PInf = PInf"
| "NInf + y = NInf"
| "x + NInf = NInf"

definition minus_fl :: "fl \<Rightarrow> fl \<Rightarrow> fl" where
  "x - y = x + (- (y::fl))"

fun times_fl :: "fl \<Rightarrow> fl \<Rightarrow> fl" where
  "Fin a * Fin b = Fin (a * b)"
| "NaN * y = NaN"
| "x * NaN = NaN"
| "PInf * Fin b = (if 0 < b then PInf else if b < 0 then NInf else NaN)"
| "NInf * Fin b = (if 0 < b then NInf else if b < 0 then PInf else NaN)"
| "Fin a * PInf = (if 0 < a then PInf else if a < 0 then NInf else NaN)"
| "Fin a * NInf = (if 0 < a then NInf else if a < 0 then PInf else NaN)"
| "PInf * PInf = PInf"
| "PInf * NInf = NInf"
| "NInf * PInf = NInf"
| "NInf * NInf = PInf"

fun inverse_fl :: "fl \<Rightarrow> fl" where
  "inverse (Fin a) = (if a = 0 then PInf else Fin (1 / a))"
| "inverse PInf = Fin 0"
| "inverse NInf = Fin 0"
| "inverse NaN = NaN"

fun divide_fl :: "fl \<Rightarrow> fl \<Rightarrow> fl" where
  "divide_fl (Fin a) (Fin b) =
     (if b \<noteq> 0 then Fin (a / b) else if 0 < a then PInf else if a < 0 then NInf else NaN)"
| "divide_fl (Fin a) NaN = NaN"
| "divide_fl (Fin a) PInf = Fin 0"
| "divide_fl (Fin a) NInf = Fin 0"
| "divide_fl NaN y = NaN"
| "divide_fl PInf (Fin b) = (if 0 \<le> b then PInf else NInf)"
| "divide_fl NInf (Fin b) = (if 0 \<le> b then NInf else PInf)"
| "divide_fl x y = NaN"

fun less_fl :: "fl \<Rightarrow> fl \<Rightarrow> bool" where
  "(Fin a < Fin b) = (a < b)"
| "(Fin a < PInf) = True"
| "(NInf < Fin b) = True"
| "(NInf < PInf) = True"
| "(x < (y::fl)) = False"

fun less_eq_fl :: "fl \<Rightarrow> fl \<Rightarrow> bool" where
  "(Fin a \<le> Fin b) = (a \<le> b)"
| "(NaN \<le> y) = False"
| "(x \<le> NaN) = False"
| "(x \<le> PInf) = True"
| "(NInf \<le> y) = True"
| "(x \<le> (y::fl)) = False"

fun abs_fl :: "fl \<Rightarrow> fl" where
  "\<bar>Fin a\<bar> = Fin \<bar>a\<bar>"
| "\<bar>PInf\<bar> = PInf"
| "\<bar>NInf\<bar> = PInf"
| "\<bar>NaN\<bar> = NaN"

instance ..

end

instance fl :: numeral
proof
  fix a b c :: fl
  show "(a + b) + c = a + (b + c)"
    by (cases a; cases b; cases c) simp_all
qed

lemma fl_numeral [simp]: "numeral n = Fin (numeral n)"
  by (induction n) (simp_all only: one_fl_def numeral.simps plus_fl.simps)

instance fl :: power ..

lemma fl_power [simp]: "Fin a ^ n = Fin (a ^ n)"
  by (induction n) (simp_all add: one_fl_def)

declare zero_fl_def [simp] one_fl_def [simp] minus_fl_def [simp]

lemma fl_less_NaN [simp]: "\<not> (x < NaN)" "\<not> (NaN < x)"
  by (cases x; simp)+

lemma fl_le_NaN [simp]: "\<not> (x \<le> NaN)" "\<not> (NaN \<le> x)"
  by (cases x; simp)+

lemma fl_NaN_arith [simp]: "x + NaN = NaN" "NaN + x = NaN" "x * NaN = NaN" "NaN * x = NaN"
  by (cases x; simp)+

lemma fl_less_irrefl [simp]: "\<not> (x < (x::fl))"
  by (cases x) simp_all

lemma fl_le_refl [simp]: "x \<noteq> NaN \<Longrightarrow> x \<le> (x::fl)"
  by (cases x) simp_all

lemma fl_less_imp_le: "x < y \<Longrightarrow> x \<le> (y::fl)"
  by (cases x; cases y) simp_all

lemma fl_less_trans: "x < y \<Longrightarrow> y < z \<Longrightarrow> x < (z::fl)"
  by (cases x; cases y; cases z) simp_all

lemma fl_le_less_trans: "x \<le> y \<Longrightarrow> y < z \<Longrightarrow> x < (z::fl)"
  by (cases x; cases y; cases z) simp_all

lemma fl_less_le_trans: "x < y \<Longrightarrow> y \<le> z \<Longrightarrow> x < (z::fl)"
  by (cases x; cases y; cases z) simp_all

lemma fl_le_trans: "x \<le> y \<Longrightarrow> y \<le> z \<Longrightarrow> x \<le> (z::fl)"
  by (cases x; cases y; cases z) simp_all

lemma fl_not_le_iff: "x \<noteq> NaN \<Longrightarrow> y \<noteq> NaN \<Longrightarrow> \<not> x \<le> y \<longleftrightarrow> y < (x::fl)"
  by (cases x; cases y) auto

lemma fl_not_less_iff: "x \<noteq> NaN \<Longrightarrow> y \<noteq> NaN \<Longrightarrow> \<not> x < y \<longleftrightarrow> y \<le> (x::fl)"
  by (cases x; cases y) auto

lemma fl_less_not_le: "x < y \<Longrightarrow> \<not> y \<le> (x::fl)"
  by (cases x; cases y) auto

subsection \<open>The math library\<close>

fun isnan :: "fl \<Rightarrow> bool" where
  "isnan NaN = True"
| "isnan _ = False"

fun isinf :: "fl \<Rightarrow> bool" where
  "isinf PInf = True"
| "isinf NInf = True"
| "isinf _ = False"

fun isfinite :: "fl \<Rightarrow> bool" where
  "isfinite (Fin _) = True"
| "isfinite _ = False"

text \<open>\<open>fmin\<close> and \<open>fmax\<close> ignore a NaN beside a number.\<close>

definition fmin :: "fl \<Rightarrow> fl \<Rightarrow> fl" where
  "fmin x y = (if isnan x then y else if isnan y then x else if x < y then x else y)"

definition fmax :: "fl \<Rightarrow> fl \<Rightarrow> fl" where
  "fmax x y = (if isnan x then y else if isnan y then x else if x < y then y else x)"

fun fl_sqrt :: "fl \<Rightarrow> fl" where
  "fl_sqrt (Fin a) = (if a < 0 then NaN else Fin (sqrt a))"
| "fl_sqrt PInf = PInf"
| "fl_sqrt _ = NaN"

fun fl_atan :: "fl \<Rightarrow> fl" where
  "fl_atan (Fin a) = Fin (arctan a)"
| "fl_atan PInf = Fin (pi / 2)"
| "fl_atan NInf = Fin (- pi / 2)"
| "fl_atan NaN = NaN"

fun fl_exp :: "fl \<Rightarrow> fl" where
  "fl_exp (Fin a) = Fin (exp a)"
| "fl_exp PInf = PInf"
| "fl_exp NInf = Fin 0"
| "fl_exp NaN = NaN"

fun fl_ln :: "fl \<Rightarrow> fl" where
  "fl_ln (Fin a) = (if 0 < a then Fin (ln a) else if a = 0 then NInf else NaN)"
| "fl_ln PInf = PInf"
| "fl_ln _ = NaN"

fun fl_sin :: "fl \<Rightarrow> fl" where
  "fl_sin (Fin a) = Fin (sin a)"
| "fl_sin _ = NaN"

fun fl_asin :: "fl \<Rightarrow> fl" where
  "fl_asin (Fin a) = (if -1 \<le> a \<and> a \<le> 1 then Fin (arcsin a) else NaN)"
| "fl_asin _ = NaN"

definition fl_sum :: "fl list \<Rightarrow> fl" where "fl_sum xs = foldl (+) 0 xs"

text \<open>\<open>!=\<close> of the language: a NaN differs from everything.\<close>

definition fl_differ :: "fl \<Rightarrow> fl \<Rightarrow> bool" where "fl_differ a b \<longleftrightarrow> isnan a \<or> isnan b \<or> a \<noteq> b"

text \<open>
  The conversion of a double to a C \<open>int\<close> truncates towards zero.  Out of range it is undefined
  in C; the model takes what the instruction of the target processor (64-bit ARM) computes: it
  saturates, and NaN gives 0.
\<close>

definition int_max :: int where "int_max = 2147483647"

definition int_min :: int where "int_min = - 2147483648"

definition real_trunc :: "real \<Rightarrow> int" where
  "real_trunc r = (if 0 \<le> r then \<lfloor>r\<rfloor> else \<lceil>r\<rceil>)"

fun fl_to_int :: "fl \<Rightarrow> int" where
  "fl_to_int (Fin r) = max int_min (min int_max (real_trunc r))"
| "fl_to_int PInf = int_max"
| "fl_to_int NInf = int_min"
| "fl_to_int NaN = 0"

text \<open>\<open>round\<close>: halves go away from zero.\<close>

definition real_round :: "real \<Rightarrow> int" where
  "real_round r = (if 0 \<le> r then \<lfloor>r + 1 / 2\<rfloor> else - \<lfloor>- r + 1 / 2\<rfloor>)"

fun fl_round :: "fl \<Rightarrow> fl" where
  "fl_round (Fin r) = Fin (of_int (real_round r))"
| "fl_round x = x"

definition int_to_fl :: "int \<Rightarrow> fl" where
  "int_to_fl i = Fin (of_int i)"

definition num :: "nat \<Rightarrow> fl" where "num k = int_to_fl (int k)"

lemma isnan_iff [simp]: "isnan x \<longleftrightarrow> x = NaN"
  by (cases x) simp_all

lemma isfinite_iff: "isfinite x \<longleftrightarrow> (\<exists>r. x = Fin r)"
  by (cases x) simp_all

lemma fmin_Fin [simp]: "fmin (Fin a) (Fin b) = Fin (min a b)"
  by (simp add: fmin_def min_def)

lemma fmax_Fin [simp]: "fmax (Fin a) (Fin b) = Fin (max a b)"
  by (simp add: fmax_def max_def)

lemma fmin_NaN [simp]: "fmin NaN y = y" "fmin x NaN = x"
  by (simp_all add: fmin_def)

lemma fmax_NaN [simp]: "fmax NaN y = y" "fmax x NaN = x"
  by (simp_all add: fmax_def)

text \<open>\<open>fmax lo (fmin hi x)\<close> always lands between finite limits, NaN and infinities included.\<close>

lemma fmax_fmin_range:
  assumes "lo \<le> hi"
  shows "\<exists>r. fmax (Fin lo) (fmin (Fin hi) x) = Fin r \<and> lo \<le> r \<and> r \<le> hi"
  using assms by (cases x) (auto simp: fmin_def fmax_def)

section \<open>Formatted text\<close>

text \<open>
  \<open>snprintf\<close> is kept symbolic: the format string of the source and the values it is given.  What
  the C library makes of them, and the cut at the size of the buffer, are not modelled.
\<close>

datatype fmt_arg = AFl fl | AInt int | AStr string

datatype msg = Msg string "fmt_arg list"

definition no_msg :: msg where "no_msg = Msg '''' []"

section \<open>Lists, options and functions\<close>

lemma nth_update_other: "i \<noteq> j \<Longrightarrow> (f(i := x)) j = f j"
  by simp

lemma take_Suc_snoc: "n < length xs \<Longrightarrow> take (Suc n) xs = take n xs @ [xs ! n]"
  by (rule take_Suc_conv_app_nth)

end
