(* ===== verification/Common.thy ===== *)
theory Common
  imports Prelude
begin

text \<open>
  \<open>include/pifire/common.h\<close> and the name tables of \<open>src/core/util.c\<close>: units of temperature, the
  modes and outputs of the grill, and the rules that turn a measured plant into a tuning.
\<close>

section \<open>Units\<close>

datatype pf_units = UnitsF | UnitsC

definition pf_c_to_f :: "fl \<Rightarrow> fl" where
  "pf_c_to_f c = c * 9 / 5 + 32"

definition pf_f_to_c :: "fl \<Rightarrow> fl" where
  "pf_f_to_c f = (f - 32) * 5 / 9"

definition pf_to_c :: "fl \<Rightarrow> pf_units \<Rightarrow> fl" where
  "pf_to_c v u = (if u = UnitsC then v else pf_f_to_c v)"

definition pf_from_c :: "fl \<Rightarrow> pf_units \<Rightarrow> fl" where
  "pf_from_c c u = (if u = UnitsC then c else pf_c_to_f c)"

definition pf_delta_to_c :: "fl \<Rightarrow> pf_units \<Rightarrow> fl" where
  "pf_delta_to_c d u = (if u = UnitsC then d else d * 5 / 9)"

definition pf_delta_from_c :: "fl \<Rightarrow> pf_units \<Rightarrow> fl" where
  "pf_delta_from_c d u = (if u = UnitsC then d else d * 9 / 5)"

definition pf_clamp :: "fl \<Rightarrow> fl \<Rightarrow> fl \<Rightarrow> fl" where
  "pf_clamp v lo hi = (if v < lo then lo else if hi < v then hi else v)"

text \<open>A temperature survives the trip through the user's units: converting to Celsius and back
  gives the reading itself, for every double, NaN and the infinities included; so do differences.\<close>

theorem units_roundtrip:
  "pf_from_c (pf_to_c v u) u = v \<and> pf_to_c (pf_from_c v u) u = v \<and>
   pf_delta_from_c (pf_delta_to_c v u) u = v \<and> pf_delta_to_c (pf_delta_from_c v u) u = v"
  by (cases v; cases u)
    (simp_all add: pf_from_c_def pf_to_c_def pf_c_to_f_def pf_f_to_c_def pf_delta_from_c_def
      pf_delta_to_c_def field_simps)

lemma pf_clamp_range: "Fin lo \<le> Fin hi \<Longrightarrow> v \<noteq> NaN \<Longrightarrow>
    \<exists>r. pf_clamp v (Fin lo) (Fin hi) = Fin r \<and> lo \<le> r \<and> r \<le> hi"
  by (cases v) (auto simp: pf_clamp_def)

section \<open>Modes and outputs\<close>

datatype pf_mode =
  STOP | MONITOR | PRIME | STARTUP | REIGNITE | SMOKE | HOLD | SHUTDOWN | MANUAL | ERROR

definition all_modes :: "pf_mode list" where
  "all_modes = [STOP, MONITOR, PRIME, STARTUP, REIGNITE, SMOKE, HOLD, SHUTDOWN, MANUAL, ERROR]"

fun pf_mode_name :: "pf_mode \<Rightarrow> string" where
  "pf_mode_name STOP = ''Stop''"
| "pf_mode_name MONITOR = ''Monitor''"
| "pf_mode_name PRIME = ''Prime''"
| "pf_mode_name STARTUP = ''Startup''"
| "pf_mode_name REIGNITE = ''Relight''"
| "pf_mode_name SMOKE = ''Smoke''"
| "pf_mode_name HOLD = ''Hold''"
| "pf_mode_name SHUTDOWN = ''Shutdown''"
| "pf_mode_name MANUAL = ''Manual''"
| "pf_mode_name ERROR = ''Error''"

text \<open>\<open>strcasecmp\<close> in the C locale: bytes are compared after \<open>tolower\<close>.\<close>

definition tolower_char :: "char \<Rightarrow> char" where
  "tolower_char ch =
     (let n = of_char ch :: nat in if 65 \<le> n \<and> n \<le> 90 then char_of (n + 32) else ch)"

definition strcase_eq :: "string \<Rightarrow> string \<Rightarrow> bool" where
  "strcase_eq s t = (map tolower_char s = map tolower_char t)"

definition pf_mode_from_name :: "string \<Rightarrow> pf_mode option" where
  "pf_mode_from_name s =
     (case List.find (\<lambda>m. strcase_eq s (pf_mode_name m)) all_modes of
        Some m \<Rightarrow> Some m
      | None \<Rightarrow> if strcase_eq s ''Reignite'' then Some REIGNITE else None)"

definition pf_mode_is_firing :: "pf_mode \<Rightarrow> bool" where
  "pf_mode_is_firing m = (m = STARTUP \<or> m = REIGNITE \<or> m = SMOKE \<or> m = HOLD)"

datatype pf_output = POWER | FAN | AUGER | IGNITER

definition all_outputs :: "pf_output list" where
  "all_outputs = [POWER, FAN, AUGER, IGNITER]"

fun pf_output_name :: "pf_output \<Rightarrow> string" where
  "pf_output_name POWER = ''power''"
| "pf_output_name FAN = ''fan''"
| "pf_output_name AUGER = ''auger''"
| "pf_output_name IGNITER = ''igniter''"

fun pf_output_index :: "pf_output \<Rightarrow> nat" where
  "pf_output_index POWER = 0"
| "pf_output_index FAN = 1"
| "pf_output_index AUGER = 2"
| "pf_output_index IGNITER = 3"

lemma all_outputs_UNIV [simp]: "set all_outputs = UNIV"
  by (auto simp: all_outputs_def) (metis pf_output.exhaust)

lemma strcase_eq_map: "strcase_eq s t \<Longrightarrow> strcase_eq s t' \<Longrightarrow> map tolower_char t = map tolower_char t'"
  by (simp add: strcase_eq_def)

text \<open>Parsing the printed name of a mode gives the mode back, in any mix of upper and lower
  case, and the old name of the relight mode is still read as it.\<close>

theorem mode_name_roundtrip:
  "strcase_eq s (pf_mode_name m) \<Longrightarrow> pf_mode_from_name s = Some m"
  by (cases m) (auto simp: pf_mode_from_name_def strcase_eq_def all_modes_def tolower_char_def)

theorem mode_name_roundtrip_witness: "pf_mode_from_name ''hOLD'' = Some HOLD"
  by (rule mode_name_roundtrip) code_simp

end
