(* ===== verification/Tuning.thy ===== *)
theory Tuning
  imports Common
begin

text \<open>
  The tuning rules of \<open>include/pifire/common.h\<close>: how a fitted plant or a relay measurement becomes a
  proportional band, an integral time and a derivative time.  The three results the C functions
  write through pointers are a triple here.
\<close>

datatype pf_tuning_rule = TYREUS_LUYBEN | TL_FAST_I | ZN_OVERSHOOT | COHEN_COON

definition pf_tuning_rule_selected :: pf_tuning_rule where
  "pf_tuning_rule_selected = TYREUS_LUYBEN"

definition pf_tuning_from_plant :: "fl \<Rightarrow> fl \<Rightarrow> fl \<Rightarrow> fl \<times> fl \<times> fl" where
  "pf_tuning_from_plant K tau theta =
     (if \<not> 0 < K \<or> \<not> 0 < tau \<or> \<not> 0 < theta then (0, 0, 0)
      else let tc = theta;
               kc = tau / (K * (tc + theta))
           in if \<not> 0 < kc then (0, 0, 0)
              else (1 / kc, fmin tau (4 * (tc + theta)), theta / 3))"

definition pf_tuning_from_relay_plant ::
    "pf_tuning_rule \<Rightarrow> fl \<Rightarrow> fl \<Rightarrow> fl \<Rightarrow> fl \<Rightarrow> fl \<Rightarrow> fl \<times> fl \<times> fl" where
  "pf_tuning_from_relay_plant selected Ku Pu K tau theta =
     (if \<not> 0 < Ku \<or> \<not> 0 < Pu then (0, 0, 0)
      else let rule = (if selected = COHEN_COON \<and> \<not> (0 < K \<and> 0 < tau \<and> 0 < theta)
                       then TL_FAST_I else selected);
               (kc, ti, td) = (case rule of
                   TL_FAST_I \<Rightarrow> (Ku / 2.2, Pu, Pu / 8)
                 | ZN_OVERSHOOT \<Rightarrow> (Ku / 3, Pu / 2, Pu / 3)
                 | COHEN_COON \<Rightarrow> let r = theta / tau in
                     ((tau / (K * theta)) * (4 / 3 + r / 4),
                      theta * (32 + 6 * r) / (13 + 8 * r),
                      4 * theta / (11 + 2 * r))
                 | TYREUS_LUYBEN \<Rightarrow> (Ku / 2.2, 2.2 * Pu, Pu / 6.3))
           in (1 / kc, ti, td))"

definition pf_tuning_from_relay :: "pf_tuning_rule \<Rightarrow> fl \<Rightarrow> fl \<Rightarrow> fl \<times> fl \<times> fl" where
  "pf_tuning_from_relay selected Ku Pu = pf_tuning_from_relay_plant selected Ku Pu 0 0 0"

text \<open>The constant of the source, which is not \<open>pi\<close> itself but its first twenty decimals.\<close>

definition c_pi :: real where "c_pi = 3.14159265358979323846"

definition C_PI :: fl where "C_PI = Fin c_pi"

definition pf_plant_from_relay :: "fl \<Rightarrow> fl \<Rightarrow> fl \<Rightarrow> (fl \<times> fl) option" where
  "pf_plant_from_relay Ku Pu K =
     (if \<not> 0 < Ku \<or> \<not> 0 < Pu \<or> \<not> 0 < K then None
      else let w = 2 * C_PI / Pu;
               kku = K * Ku
           in if kku \<le> 1.0001 then None
              else let t = fl_sqrt (kku * kku - 1) / w;
                       th = (C_PI - fl_atan (w * t)) / w
                   in if \<not> 0 < t \<or> \<not> 0 < th then None else Some (t, th))"

lemma c_pi_bounds: "3 < c_pi" "c_pi < 4"
  by (simp_all add: c_pi_def)

lemma fl_pos_cases: "0 < x \<longleftrightarrow> x = PInf \<or> (\<exists>r > 0. x = Fin r)"
  by (cases x) auto

text \<open>A tuning designed from a fitted plant is usable: whatever finite positive gain, time
  constant and dead time come in, the band, the integral time and the derivative time are finite and
  positive; and a plant the rule cannot use gives the triple of zeros that callers read as none.\<close>

theorem tuning_from_plant_positive:
  assumes "pf_tuning_from_plant (Fin K) (Fin tau) (Fin theta) = (pb, ti, td)"
  shows "if 0 < K \<and> 0 < tau \<and> 0 < theta
         then (\<exists>a b c. pb = Fin a \<and> ti = Fin b \<and> td = Fin c \<and> 0 < a \<and> 0 < b \<and> 0 < c)
         else (pb, ti, td) = (0, 0, 0)"
proof (cases "0 < K \<and> 0 < tau \<and> 0 < theta")
  case True
  then have kp: "0 < K * (theta + theta)" by simp
  with True assms
  have "pb = Fin (1 / (tau / (K * (theta + theta)))) \<and> ti = Fin (min tau (4 * (theta + theta))) \<and>
      td = Fin (theta / 3)"
    by (auto simp: pf_tuning_from_plant_def Let_def)
  moreover have "0 < 1 / (tau / (K * (theta + theta)))" "0 < min tau (4 * (theta + theta))" "0 < theta / 3"
    using True kp by simp_all
  ultimately show ?thesis unfolding if_P [OF True] by blast
next
  case False
  with assms show ?thesis by (auto simp: pf_tuning_from_plant_def)
qed

theorem tuning_from_plant_positive_witness:
  "\<exists>a b c. pf_tuning_from_plant 900 1470 90 = (Fin a, Fin b, Fin c) \<and> 0 < a \<and> 0 < b \<and> 0 < c"
proof -
  obtain pb ti td where "pf_tuning_from_plant (Fin 900) (Fin 1470) (Fin 90) = (pb, ti, td)"
    by (metis prod_cases3)
  from tuning_from_plant_positive [OF this] this show ?thesis by auto
qed

text \<open>The plant a relay test is turned into is the plant that was measured: a first-order lag
  with the dead time, evaluated at the frequency of the limit cycle, has the gain 1/Ku there and
  turns the phase by exactly the half circle the relay found.\<close>

theorem plant_from_relay_matches:
  assumes "pf_plant_from_relay (Fin Ku) (Fin Pu) (Fin K) = Some (t, th)"
  shows "\<exists>tau theta. t = Fin tau \<and> th = Fin theta \<and> 0 < tau \<and> 0 < theta \<and>
           K / sqrt (1 + (2 * c_pi / Pu * tau)\<^sup>2) = 1 / Ku \<and>
           2 * c_pi / Pu * theta + arctan (2 * c_pi / Pu * tau) = c_pi"
proof -
  define w where "w = 2 * c_pi / Pu"
  from assms have pos: "0 < Ku" "0 < Pu" "0 < K"
    by (auto simp: pf_plant_from_relay_def split: if_splits)
  with c_pi_bounds have w: "0 < w" by (simp add: w_def)
  define s where "s = sqrt (K * Ku * (K * Ku) - 1)"
  from assms pos have kku: "1 < K * Ku"
    by (auto simp: pf_plant_from_relay_def Let_def split: if_splits)
  then have big: "1 < K * Ku * (K * Ku)" using less_1_mult by blast
  with assms pos w have tth: "t = Fin (s / w)" "th = Fin ((c_pi - arctan (w * (s / w))) / w)"
    "Fin 0 < t" "Fin 0 < th"
    by (auto simp: pf_plant_from_relay_def C_PI_def Let_def w_def s_def split: if_splits)
  have s2: "s\<^sup>2 = K * Ku * (K * Ku) - 1" using big by (simp add: s_def)
  have "sqrt (1 + (w * (s / w))\<^sup>2) = sqrt ((K * Ku)\<^sup>2)"
    using w s2 by (simp add: power2_eq_square)
  also have "\<dots> = K * Ku" using pos by simp
  finally have gain: "K / sqrt (1 + (w * (s / w))\<^sup>2) = 1 / Ku" using pos by simp
  have phase: "w * ((c_pi - arctan (w * (s / w))) / w) + arctan (w * (s / w)) = c_pi"
    using w by simp
  show ?thesis
    unfolding w_def [symmetric]
    by (rule exI [of _ "s / w"], rule exI [of _ "(c_pi - arctan (w * (s / w))) / w"])
      (use gain phase tth in simp)
qed

lemma arctan_less_c_pi: "arctan x < c_pi"
  using arctan_ubound [of x] pi_less_4 c_pi_bounds by linarith

theorem plant_from_relay_matches_witness:
  "\<exists>tau. 0 < tau \<and> 1 / sqrt (1 + (2 * c_pi / 370 * tau)\<^sup>2) = 1 / 2"
proof -
  have "0 < c_pi" using c_pi_bounds by simp
  then obtain t th where "pf_plant_from_relay (Fin 2) (Fin 370) (Fin 1) = Some (t, th)"
    using arctan_less_c_pi [of "sqrt 3"] by (auto simp: pf_plant_from_relay_def C_PI_def Let_def)
  from plant_from_relay_matches [OF this] show ?thesis by auto
qed

end
