(* ===== verification/Cmdq.thy ===== *)
theory Cmdq
  imports Common
begin

text \<open>
  \<open>src/core/cmdq.c\<close>: the ring of commands from the web, the API and the panel into the control
  thread.  Each operation runs under the module's lock, so it is one step here.  The slots of the
  ring hold what was last written to them; \<open>cmdq_list\<close> reads the queue out of the ring.
\<close>

section \<open>Commands\<close>

datatype pf_cmd_type =
  CMD_NONE | CMD_MODE | CMD_SETPOINT | CMD_SMOKE_PLUS | CMD_PWM_CONTROL | CMD_DUTY_CYCLE
| CMD_MANUAL_OUTPUT | CMD_LID_TOGGLE | CMD_PRIME | CMD_SETTINGS_CHANGED | CMD_CONTROLLER_CHANGED
| CMD_PROBES_CHANGED | CMD_STOP | CMD_CLEAR_ERROR | CMD_NOTIFY_TARGET | CMD_NOTIFY_LIMITS
| CMD_TIMER_START | CMD_TIMER_PAUSE | CMD_TIMER_RESUME | CMD_TIMER_CANCEL | CMD_NOTIFY_TEST
| CMD_PROBES_IN_USE | CMD_RECIPE_START | CMD_RECIPE_NEXT | CMD_RECIPE_STOP | CMD_RECIPE_SKIP
| CMD_RECIPE_BACK | CMD_RECIPE_FLAG | CMD_AUTOTUNE_START | CMD_AUTOTUNE_STOP | CMD_TUNING_APPLY
| CMD_FORGET_LEARNING

datatype pf_clear_what = CLEAR_LEARNING | CLEAR_TUNING | CLEAR_FOR_BASELINE

record pf_cmd =
  cmd_type :: pf_cmd_type
  cmd_mode :: pf_mode
  cmd_num :: fl
  cmd_num2 :: fl
  cmd_aux :: int
  cmd_flag :: bool
  cmd_str :: string
  cmd_meat :: string
  cmd_done :: string

text \<open>A C initialiser leaves every field it does not name zero.\<close>

definition zero_cmd :: pf_cmd where
  "zero_cmd = \<lparr>cmd_type = CMD_NONE, cmd_mode = STOP, cmd_num = 0, cmd_num2 = 0, cmd_aux = 0,
     cmd_flag = False, cmd_str = '''', cmd_meat = '''', cmd_done = ''''\<rparr>"

section \<open>The ring\<close>

definition QLEN :: nat where "QLEN = 64"

record 'a ring =
  g_q :: "'a list"
  g_head :: nat
  g_len :: nat

definition pf_cmdq_init :: "'a ring \<Rightarrow> 'a ring" where
  "pf_cmdq_init q = q\<lparr>g_head := 0, g_len := 0\<rparr>"

definition pf_cmdq_push :: "'a \<Rightarrow> 'a ring \<Rightarrow> 'a ring \<times> int" where
  "pf_cmdq_push c q =
     (if g_len q < QLEN
      then (q\<lparr>g_q := (g_q q)[(g_head q + g_len q) mod QLEN := c], g_len := g_len q + 1\<rparr>, 0)
      else (q, -1))"

definition pf_cmdq_pop :: "'a ring \<Rightarrow> 'a ring \<times> 'a option" where
  "pf_cmdq_pop q =
     (if g_len q > 0
      then (q\<lparr>g_head := (g_head q + 1) mod QLEN, g_len := g_len q - 1\<rparr>, Some (g_q q ! g_head q))
      else (q, None))"

definition pf_cmd_mode :: "pf_mode \<Rightarrow> fl \<Rightarrow> pf_cmd ring \<Rightarrow> pf_cmd ring \<times> int" where
  "pf_cmd_mode m setpoint_user =
     pf_cmdq_push (zero_cmd\<lparr>cmd_type := CMD_MODE, cmd_mode := m, cmd_num := setpoint_user\<rparr>)"

definition pf_cmd_simple :: "pf_cmd_type \<Rightarrow> pf_cmd ring \<Rightarrow> pf_cmd ring \<times> int" where
  "pf_cmd_simple t = pf_cmdq_push (zero_cmd\<lparr>cmd_type := t\<rparr>)"

section \<open>What the ring holds\<close>

definition cmdq_inv :: "'a ring \<Rightarrow> bool" where
  "cmdq_inv q \<longleftrightarrow> length (g_q q) = QLEN \<and> g_head q < QLEN \<and> g_len q \<le> QLEN"

definition cmdq_list :: "'a ring \<Rightarrow> 'a list" where
  "cmdq_list q = map (\<lambda>i. g_q q ! ((g_head q + i) mod QLEN)) [0..<g_len q]"

lemma length_cmdq_list [simp]: "length (cmdq_list q) = g_len q"
  by (simp add: cmdq_list_def)

lemma slot_inj:
  assumes "(h + i) mod QLEN = (h + j) mod QLEN" "i < QLEN" "j < QLEN"
  shows "i = j"
proof -
  obtain a b where "h + i + QLEN * a = h + j + QLEN * b"
    using assms(1) by (auto simp: nat_mod_eq_iff)
  then have "i mod QLEN = j mod QLEN" by (metis add.assoc add_left_cancel mod_mult_self2)
  with assms(2,3) show ?thesis by simp
qed

text \<open>The interface the control thread relies on: a bounded first-in first-out queue.\<close>

locale bounded_fifo =
  fixes cap :: nat
    and push :: "'a \<Rightarrow> 'q \<Rightarrow> 'q \<times> int"
    and pop :: "'q \<Rightarrow> 'q \<times> 'a option"
    and items :: "'q \<Rightarrow> 'a list"
    and invar :: "'q \<Rightarrow> bool"
  assumes push_items: "invar q \<Longrightarrow> length (items q) < cap \<Longrightarrow>
      snd (push x q) = 0 \<and> items (fst (push x q)) = items q @ [x]"
    and push_full: "invar q \<Longrightarrow> \<not> length (items q) < cap \<Longrightarrow>
      snd (push x q) = -1 \<and> fst (push x q) = q"
    and pop_items: "invar q \<Longrightarrow> items q \<noteq> [] \<Longrightarrow>
      snd (pop q) = Some (hd (items q)) \<and> items (fst (pop q)) = tl (items q)"
    and pop_empty: "invar q \<Longrightarrow> items q = [] \<Longrightarrow> pop q = (q, None)"
    and push_invar: "invar q \<Longrightarrow> invar (fst (push x q))"
    and pop_invar: "invar q \<Longrightarrow> invar (fst (pop q))"
begin

fun push_all :: "'a list \<Rightarrow> 'q \<Rightarrow> 'q" where
  "push_all [] q = q"
| "push_all (x # xs) q = push_all xs (fst (push x q))"

fun drain :: "nat \<Rightarrow> 'q \<Rightarrow> 'q \<times> 'a list" where
  "drain 0 q = (q, [])"
| "drain (Suc n) q =
     (case pop q of (q', None) \<Rightarrow> (q', [])
      | (q', Some x) \<Rightarrow> (case drain n q' of (q'', xs) \<Rightarrow> (q'', x # xs)))"

lemma push_all_items:
  "invar q \<Longrightarrow> items (push_all xs q) = items q @ take (cap - length (items q)) xs \<and> invar (push_all xs q)"
proof (induction xs arbitrary: q)
  case Nil
  then show ?case by simp
next
  case (Cons x xs)
  show ?case
  proof (cases "length (items q) < cap")
    case True
    with push_items [OF Cons.prems True] Cons.IH [OF push_invar [OF Cons.prems]] show ?thesis
      by (simp add: Suc_diff_Suc take_Cons' del: take_Suc_Cons)
  next
    case False
    with push_full [OF Cons.prems False] Cons.IH [OF Cons.prems] show ?thesis by simp
  qed
qed

lemma drain_items:
  "invar q \<Longrightarrow> snd (drain n q) = take n (items q) \<and> items (fst (drain n q)) = drop n (items q)"
proof (induction n arbitrary: q)
  case 0
  then show ?case by simp
next
  case (Suc n)
  show ?case
  proof (cases "items q")
    case Nil
    with pop_empty [OF Suc.prems Nil] show ?thesis by simp
  next
    case (Cons y ys)
    obtain q' where q': "pop q = (q', Some y)" "items q' = ys"
      using pop_items [OF Suc.prems] Cons by (cases "pop q") auto
    with pop_invar [OF Suc.prems] have "invar q'" by simp
    from Suc.IH [OF this] q' Cons show ?thesis by (cases "drain n q'") simp
  qed
qed

text \<open>What went in comes out, in order, up to the capacity of the queue.\<close>

lemma push_then_drain:
  assumes "invar q" "items q = []" "length xs \<le> n"
  shows "snd (drain n (push_all xs q)) = take cap xs"
  using push_all_items [OF assms(1), of xs] drain_items [of "push_all xs q" n] assms(2,3) by (simp add: min_def)

end

lemma nth_cmdq_list: "i < g_len q \<Longrightarrow> cmdq_list q ! i = g_q q ! ((g_head q + i) mod QLEN)"
  by (simp add: cmdq_list_def)

lemma cmdq_push_items:
  assumes "cmdq_inv q" "g_len q < QLEN"
  shows "cmdq_list (fst (pf_cmdq_push x q)) = cmdq_list q @ [x]"
proof (rule nth_equalityI)
  fix i assume i: "i < length (cmdq_list (fst (pf_cmdq_push x q)))"
  with assms have "i < Suc (g_len q)" by (simp add: pf_cmdq_push_def)
  then show "cmdq_list (fst (pf_cmdq_push x q)) ! i = (cmdq_list q @ [x]) ! i"
    using assms slot_inj [of "g_head q" "g_len q" i]
    by (auto simp: pf_cmdq_push_def nth_cmdq_list nth_append cmdq_inv_def nth_list_update less_Suc_eq)
qed (use assms in \<open>simp add: pf_cmdq_push_def\<close>)

lemma cmdq_pop_items:
  assumes "cmdq_inv q" "0 < g_len q"
  shows "snd (pf_cmdq_pop q) = Some (hd (cmdq_list q)) \<and>
         cmdq_list (fst (pf_cmdq_pop q)) = tl (cmdq_list q)"
proof
  show "snd (pf_cmdq_pop q) = Some (hd (cmdq_list q))"
    using assms by (simp add: pf_cmdq_pop_def hd_conv_nth nth_cmdq_list cmdq_inv_def flip: length_greater_0_conv)
  show "cmdq_list (fst (pf_cmdq_pop q)) = tl (cmdq_list q)"
    by (rule nth_equalityI)
      (use assms in \<open>auto simp: pf_cmdq_pop_def nth_cmdq_list nth_tl mod_simps\<close>)
qed

interpretation cmdq: bounded_fifo QLEN pf_cmdq_push pf_cmdq_pop cmdq_list cmdq_inv
proof
  fix q :: "'a ring" and x
  assume inv: "cmdq_inv q"
  show "length (cmdq_list q) < QLEN \<Longrightarrow>
      snd (pf_cmdq_push x q) = 0 \<and> cmdq_list (fst (pf_cmdq_push x q)) = cmdq_list q @ [x]"
    using cmdq_push_items [OF inv] by (simp add: pf_cmdq_push_def)
  show "\<not> length (cmdq_list q) < QLEN \<Longrightarrow> snd (pf_cmdq_push x q) = -1 \<and> fst (pf_cmdq_push x q) = q"
    by (simp add: pf_cmdq_push_def)
  show "cmdq_list q \<noteq> [] \<Longrightarrow> snd (pf_cmdq_pop q) = Some (hd (cmdq_list q)) \<and>
      cmdq_list (fst (pf_cmdq_pop q)) = tl (cmdq_list q)"
    using cmdq_pop_items [OF inv] length_greater_0_conv [of "cmdq_list q"] by simp
  show "cmdq_list q = [] \<Longrightarrow> pf_cmdq_pop q = (q, None)"
    using length_cmdq_list [of q] by (simp add: pf_cmdq_pop_def)
  show "cmdq_inv (fst (pf_cmdq_push x q))"
    using inv by (auto simp: pf_cmdq_push_def cmdq_inv_def)
  show "cmdq_inv (fst (pf_cmdq_pop q))"
    using inv by (auto simp: pf_cmdq_pop_def cmdq_inv_def QLEN_def)
qed

fun cmdq_push_all :: "'a list \<Rightarrow> 'a ring \<Rightarrow> 'a ring" where
  "cmdq_push_all [] q = q"
| "cmdq_push_all (x # xs) q = cmdq_push_all xs (fst (pf_cmdq_push x q))"

fun cmdq_drain :: "nat \<Rightarrow> 'a ring \<Rightarrow> 'a ring \<times> 'a list" where
  "cmdq_drain 0 q = (q, [])"
| "cmdq_drain (Suc n) q =
     (case pf_cmdq_pop q of (q', None) \<Rightarrow> (q', [])
      | (q', Some x) \<Rightarrow> (case cmdq_drain n q' of (q'', xs) \<Rightarrow> (q'', x # xs)))"

lemma cmdq_push_all_eq: "cmdq.push_all xs q = cmdq_push_all xs q"
  by (induction xs arbitrary: q) simp_all

lemma cmdq_drain_eq: "cmdq.drain n q = cmdq_drain n q"
  by (induction n arbitrary: q) (simp_all split: prod.splits option.splits)


definition cmdq_example :: "nat ring" where
  "cmdq_example = \<lparr>g_q = replicate 64 0, g_head = 63, g_len = 0\<rparr>"


end
