(* ===== verification/Cycle.thy ===== *)
theory Cycle
  imports Common
begin

text \<open>
  \<open>src/core/cycle.c\<close>: the cycle engine, which turns a feed ratio into the seconds the auger runs at
  the start of each cycle.
\<close>

record pf_cycle_cfg =
  cfg_cycle_s :: fl
  cfg_u_min :: fl
  cfg_u_max :: fl
  cfg_max_on_s :: fl

record pf_cycle =
  cy_start :: fl
  cy_cycle_s :: fl
  cy_on_s :: fl
  cy_u_raw :: fl
  cy_u_applied :: fl
  cy_saturated :: int
  cy_active :: bool

definition pf_cycle_stop :: "pf_cycle \<Rightarrow> pf_cycle" where
  "pf_cycle_stop c = c\<lparr>cy_active := False, cy_on_s := 0\<rparr>"

definition pf_cycle_begin :: "pf_cycle_cfg \<Rightarrow> fl \<Rightarrow> fl \<Rightarrow> pf_cycle \<Rightarrow> pf_cycle" where
  "pf_cycle_begin cfg now u_raw c =
     (let u = (if isnan u_raw \<or> isinf u_raw then cfg_u_min cfg else u_raw);
          sat = 0;
          (u, sat) = (if u < cfg_u_min cfg then (cfg_u_min cfg, -1) else (u, sat));
          (u, sat) = (if cfg_u_max cfg < u then (cfg_u_max cfg, 1) else (u, sat));
          on = cfg_cycle_s cfg * u;
          (on, u, sat) = (if 0 < cfg_max_on_s cfg \<and> cfg_max_on_s cfg < on
                          then (cfg_max_on_s cfg, cfg_max_on_s cfg / cfg_cycle_s cfg, 1)
                          else (on, u, sat))
      in c\<lparr>cy_saturated := sat, cy_start := now, cy_cycle_s := cfg_cycle_s cfg, cy_on_s := on,
           cy_u_raw := u_raw, cy_u_applied := u, cy_active := True\<rparr>)"

definition pf_cycle_begin_fixed :: "pf_cycle_cfg \<Rightarrow> fl \<Rightarrow> fl \<Rightarrow> fl \<Rightarrow> pf_cycle \<Rightarrow> pf_cycle" where
  "pf_cycle_begin_fixed cfg now on_s off_s c =
     (let total = on_s + off_s
      in if \<not> 0 < total then pf_cycle_stop c
         else pf_cycle_begin \<lparr>cfg_cycle_s = total, cfg_u_min = 0, cfg_u_max = 1,
                               cfg_max_on_s = cfg_max_on_s cfg\<rparr> now (on_s / total) c)"

definition pf_cycle_auger_on :: "pf_cycle \<Rightarrow> fl \<Rightarrow> bool" where
  "pf_cycle_auger_on c now = (cy_active c \<and> now - cy_start c < cy_on_s c)"

definition pf_cycle_done :: "pf_cycle \<Rightarrow> fl \<Rightarrow> bool" where
  "pf_cycle_done c now = (\<not> cy_active c \<or> cy_cycle_s c \<le> now - cy_start c)"

section \<open>A cycle that was begun\<close>

text \<open>A usable configuration: finite limits within 0 and 1, a cycle of some length.\<close>

fun cycle_cfg_ok :: "pf_cycle_cfg \<Rightarrow> bool" where
  "cycle_cfg_ok cfg =
     (0 < cfg_cycle_s cfg \<and> cfg_cycle_s cfg \<noteq> PInf \<and> 0 \<le> cfg_u_min cfg \<and>
      cfg_u_min cfg \<le> cfg_u_max cfg \<and> cfg_u_max cfg \<le> 1 \<and> 0 < cfg_max_on_s cfg)"

text \<open>The feed the cycle engine may deliver: at least the minimum unless the safety cap cuts it.\<close>

definition cycle_ok :: "pf_cycle_cfg \<Rightarrow> pf_cycle \<Rightarrow> bool" where
  "cycle_ok cfg c \<longleftrightarrow>
     cy_active c \<and> 0 \<le> cy_on_s c \<and> cy_on_s c \<le> cy_cycle_s c \<and> cy_on_s c \<le> cfg_max_on_s cfg \<and>
     cy_on_s c = cy_cycle_s c * cy_u_applied c \<and> cy_u_applied c \<le> cfg_u_max cfg \<and>
     (cfg_u_min cfg \<le> cy_u_applied c \<or> cy_on_s c = cfg_max_on_s cfg) \<and>
     (cy_saturated c = 0 \<longrightarrow> cy_u_applied c = cy_u_raw c \<or> isnan (cy_u_raw c) \<or> isinf (cy_u_raw c))"

lemma cycle_cfg_ok_Fin:
  assumes "cycle_cfg_ok cfg"
  obtains T lo hi where "cfg_cycle_s cfg = Fin T" "cfg_u_min cfg = Fin lo" "cfg_u_max cfg = Fin hi"
    "0 < T" "0 \<le> lo" "lo \<le> hi" "hi \<le> 1" "0 < cfg_max_on_s cfg"
  using assms by (cases "cfg_cycle_s cfg"; cases "cfg_u_min cfg"; cases "cfg_u_max cfg") auto

text \<open>C6. Whatever ratio a controller asks for, NaN and the infinities included, the cycle it gets is
  one the grill may run: the auger's on time is finite, not negative, no longer than the cycle and
  no longer than the cap on continuous running; the ratio recorded is the one delivered, within the
  limits, below the minimum only where the cap cut it; and a cycle not marked as saturated delivers
  exactly what was asked.\<close>

theorem cycle_begin_ok:
  assumes "cycle_cfg_ok cfg"
  shows "cycle_ok cfg (pf_cycle_begin cfg now u c)"
proof -
  obtain T lo hi where cfg: "cfg_cycle_s cfg = Fin T" "cfg_u_min cfg = Fin lo"
    "cfg_u_max cfg = Fin hi" "0 < T" "0 \<le> lo" "lo \<le> hi" "hi \<le> 1" "0 < cfg_max_on_s cfg"
    using assms by (rule cycle_cfg_ok_Fin)
  define r where "r = (case u of Fin x \<Rightarrow> max lo (min hi x) | _ \<Rightarrow> lo)"
  have r: "lo \<le> r" "r \<le> hi" using cfg by (cases u; simp add: r_def)+
  have Tr: "0 \<le> T * r" "T * r \<le> T"
    using cfg r by (simp_all add: mult_le_cancel_left1)
  show ?thesis
  proof (cases "cfg_max_on_s cfg < Fin (T * r)")
    case True
    then obtain m where m: "cfg_max_on_s cfg = Fin m" "0 < m" "m < T * r"
      using cfg by (cases "cfg_max_on_s cfg") auto
    then have "m \<le> T" using Tr by simp
    have "m / T \<le> hi" using m cfg r by (simp add: divide_le_eq) (metis less_eq_real_def mult.commute mult_left_mono order_trans)
    with m \<open>m \<le> T\<close> cfg r Tr show ?thesis
      by (cases u) (auto simp: cycle_ok_def pf_cycle_begin_def Let_def r_def split: if_splits)
  next
    case False
    then have "Fin (T * r) \<le> cfg_max_on_s cfg"
      using cfg by (cases "cfg_max_on_s cfg") auto
    with False cfg r Tr show ?thesis
      by (cases u) (auto simp: cycle_ok_def pf_cycle_begin_def Let_def r_def max_def min_def split: if_splits)
  qed
qed

definition cycle_cfg_example :: pf_cycle_cfg where
  "cycle_cfg_example = \<lparr>cfg_cycle_s = 25, cfg_u_min = 0.1, cfg_u_max = 0.9, cfg_max_on_s = 60\<rparr>"

definition cycle_idle :: pf_cycle where
  "cycle_idle = \<lparr>cy_start = 0, cy_cycle_s = 0, cy_on_s = 0, cy_u_raw = 0, cy_u_applied = 0,
     cy_saturated = 0, cy_active = False\<rparr>"

theorem cycle_begin_ok_witness:
  "cycle_ok cycle_cfg_example (pf_cycle_begin cycle_cfg_example 10 NaN cycle_idle)"
  by (rule cycle_begin_ok) (simp add: cycle_cfg_example_def)

text \<open>Over one fixed cycle, P-mode and Startup feed the pot exactly what they were set to: the
  auger runs for the on time (cut at the cap) from the start of the cycle, is off for the rest of it,
  and the cycle is over once the on and the off time have passed.\<close>

theorem cycle_fixed_delivers:
  assumes "0 \<le> on" "0 \<le> off" "0 < on + off" "0 < cap" "cfg_max_on_s cfg = Fin cap" "0 \<le> d"
    and "c' = pf_cycle_begin_fixed cfg (Fin t) (Fin on) (Fin off) c"
  shows "(pf_cycle_auger_on c' (Fin (t + d)) \<longleftrightarrow> d < min on cap) \<and>
         (pf_cycle_done c' (Fin (t + d)) \<longleftrightarrow> on + off \<le> d)"
proof -
  have "\<not> on / (on + off) < 0" "\<not> 1 < on / (on + off)" "(on + off) * (on / (on + off)) = on"
    using assms by (simp_all add: not_less)
  then show ?thesis
    using assms by (auto simp: pf_cycle_begin_fixed_def pf_cycle_begin_def pf_cycle_auger_on_def
        pf_cycle_done_def Let_def)
qed

theorem cycle_fixed_delivers_witness:
  "pf_cycle_auger_on (pf_cycle_begin_fixed cycle_cfg_example (Fin 100) (Fin 15) (Fin 45) cycle_idle)
     (Fin (100 + 14))"
proof -
  have cap: "cfg_max_on_s cycle_cfg_example = Fin 60" by (simp add: cycle_cfg_example_def)
  show ?thesis
    using cycle_fixed_delivers [OF _ _ _ _ cap _ refl,
        where on = 15 and off = 45 and d = 14 and t = 100 and c = cycle_idle] by simp
qed

lemma pf_cycle_stop_off [simp]:
  "\<not> pf_cycle_auger_on (pf_cycle_stop c) now" "pf_cycle_done (pf_cycle_stop c) now"
  by (simp_all add: pf_cycle_auger_on_def pf_cycle_done_def pf_cycle_stop_def)

end
