(* ===== verification/Outputs.thy ===== *)
theory Outputs
  imports Common
begin

text \<open>
  \<open>include/pifire/platform.h\<close> and \<open>src/core/outputs.c\<close>: the function table every platform provides,
  and the one gate through which the relays and the fan are driven.  The module's static variables
  are the record \<open>outputs\<close>; a platform instance, a \<open>void *\<close> in C, is the type variable.  The
  sections the C code runs under its lock are single steps; what may happen between the check of the
  latch and the lock is the step relation at the end.
\<close>

section \<open>The platform interface\<close>

datatype pf_input = IN_SELECTOR | IN_SHUTDOWN

record 'i platform_ops =
  op_set_output :: "'i \<Rightarrow> pf_output \<Rightarrow> bool \<Rightarrow> 'i \<times> int"
  op_set_fan_pct :: "'i \<Rightarrow> int \<Rightarrow> 'i \<times> int"
  op_set_pwm_frequency :: "'i \<Rightarrow> int \<Rightarrow> 'i \<times> int"
  op_read_input :: "'i \<Rightarrow> pf_input \<Rightarrow> bool"
  op_all_off :: "'i \<Rightarrow> 'i"

definition EPERM :: int where "EPERM = 1"
definition ENODEV :: int where "ENODEV = 19"
definition EINVAL :: int where "EINVAL = 22"
definition EBUSY :: int where "EBUSY = 16"

section \<open>The arbiter\<close>

record 'i outputs =
  g_ops :: "'i platform_ops option"
  g_inst :: "'i option"
  g_state :: "pf_output \<Rightarrow> bool"
  g_fan_pct :: int
  g_latched :: bool

text \<open>\<open>if (g_ops && g_inst) g_ops->all_off(g_inst)\<close>\<close>

definition hal_all_off :: "'i outputs \<Rightarrow> 'i outputs" where
  "hal_all_off s = (case (g_ops s, g_inst s) of
      (Some ops, Some i) \<Rightarrow> s\<lparr>g_inst := Some (op_all_off ops i)\<rparr>
    | _ \<Rightarrow> s)"

definition pf_outputs_init :: "'i platform_ops option \<Rightarrow> 'i option \<Rightarrow> 'i outputs \<Rightarrow> 'i outputs" where
  "pf_outputs_init ops inst s =
     hal_all_off (s\<lparr>g_ops := ops, g_inst := inst, g_state := (\<lambda>_. False), g_fan_pct := 0\<rparr>)"

text \<open>The instance is driven off before it is handed to \<open>destroy\<close>; the model returns what it was
  left as.\<close>

definition pf_outputs_shutdown :: "'i outputs \<Rightarrow> 'i outputs \<times> 'i option" where
  "pf_outputs_shutdown s =
     (let s' = hal_all_off s in (s'\<lparr>g_ops := None, g_inst := None\<rparr>, g_inst s'))"

text \<open>The part of \<open>pf_outputs_set\<close> that runs under the lock.\<close>

definition outputs_set_locked :: "pf_output \<Rightarrow> bool \<Rightarrow> 'i outputs \<Rightarrow> 'i outputs \<times> int" where
  "outputs_set_locked out on s =
     (if g_latched s \<and> on then (s, - EPERM)
      else case (g_ops s, g_inst s) of
        (Some ops, Some i) \<Rightarrow>
          (if g_state s out \<noteq> on
           then let (i', rc) = op_set_output ops i out on;
                    s = s\<lparr>g_inst := Some i'\<rparr>;
                    s = (if rc = 0 then s\<lparr>g_state := (g_state s)(out := on)\<rparr> else s);
                    s = (if out = FAN \<and> \<not> on then s\<lparr>g_fan_pct := 0\<rparr> else s)
                in (s, rc)
           else (s, 0))
      | _ \<Rightarrow> (s, - ENODEV))"

definition pf_outputs_set :: "pf_output \<Rightarrow> bool \<Rightarrow> 'i outputs \<Rightarrow> 'i outputs \<times> int" where
  "pf_outputs_set out on s =
     (if g_latched s then (s, - EPERM) else outputs_set_locked out on s)"

text \<open>The same with the output as the integer C passes: out of range is refused first.\<close>

definition pf_outputs_set_index :: "nat \<Rightarrow> bool \<Rightarrow> 'i outputs \<Rightarrow> 'i outputs \<times> int" where
  "pf_outputs_set_index n on s =
     (if length all_outputs \<le> n then (s, - EINVAL) else pf_outputs_set (all_outputs ! n) on s)"

definition outputs_fan_pct_locked :: "int \<Rightarrow> 'i outputs \<Rightarrow> 'i outputs \<times> int" where
  "outputs_fan_pct_locked pct s =
     (if g_latched s \<and> pct > 0 then (s, - EPERM)
      else case (g_ops s, g_inst s) of
        (Some ops, Some i) \<Rightarrow>
          (let (i', rc) = op_set_fan_pct ops i pct;
               s = s\<lparr>g_inst := Some i'\<rparr>;
               s = (if rc = 0 \<and> g_fan_pct s \<noteq> pct then s\<lparr>g_fan_pct := pct\<rparr> else s)
           in (s, rc))
      | _ \<Rightarrow> (s, - ENODEV))"

definition pf_outputs_fan_pct :: "int \<Rightarrow> 'i outputs \<Rightarrow> 'i outputs \<times> int" where
  "pf_outputs_fan_pct pct s =
     (if g_latched s then (s, - EPERM) else outputs_fan_pct_locked pct s)"

definition pf_outputs_pwm_frequency :: "int \<Rightarrow> 'i outputs \<Rightarrow> 'i outputs \<times> int" where
  "pf_outputs_pwm_frequency hz s =
     (if g_latched s then (s, - EPERM)
      else case (g_ops s, g_inst s) of
        (Some ops, Some i) \<Rightarrow>
          (let (i', rc) = op_set_pwm_frequency ops i hz in (s\<lparr>g_inst := Some i'\<rparr>, rc))
      | _ \<Rightarrow> (s, - ENODEV))"

definition pf_outputs_all_off :: "'i outputs \<Rightarrow> 'i outputs" where
  "pf_outputs_all_off s = (hal_all_off s)\<lparr>g_state := (\<lambda>_. False), g_fan_pct := 0\<rparr>"

definition pf_outputs_get :: "pf_output \<Rightarrow> 'i outputs \<Rightarrow> bool" where
  "pf_outputs_get out s = g_state s out"

definition pf_outputs_get_fan_pct :: "'i outputs \<Rightarrow> int" where
  "pf_outputs_get_fan_pct s = g_fan_pct s"

definition pf_outputs_mask :: "'i outputs \<Rightarrow> nat" where
  "pf_outputs_mask s =
     foldl (\<lambda>m out. if g_state s out then m + 2 ^ pf_output_index out else m) 0 all_outputs"

definition pf_outputs_read_input :: "pf_input \<Rightarrow> 'i outputs \<Rightarrow> bool" where
  "pf_outputs_read_input inp s = (case (g_ops s, g_inst s) of
      (Some ops, Some i) \<Rightarrow> op_read_input ops i inp
    | _ \<Rightarrow> False)"

text \<open>\<open>got_lock\<close> says whether the lock was had within the time allowed; the outputs are driven off
  either way.\<close>

definition pf_outputs_emergency_off :: "bool \<Rightarrow> 'i outputs \<Rightarrow> 'i outputs \<times> int" where
  "pf_outputs_emergency_off got_lock s =
     (let s = s\<lparr>g_latched := True\<rparr>;
          s = pf_outputs_all_off s
      in (s, if got_lock then 0 else - EBUSY))"

definition pf_outputs_latched :: "'i outputs \<Rightarrow> bool" where
  "pf_outputs_latched s = g_latched s"

section \<open>What each operation leaves alone\<close>

lemmas outputs_defs = pf_outputs_set_def outputs_set_locked_def pf_outputs_fan_pct_def
  outputs_fan_pct_locked_def pf_outputs_pwm_frequency_def pf_outputs_all_off_def hal_all_off_def
  pf_outputs_emergency_off_def pf_outputs_get_def pf_outputs_get_fan_pct_def pf_outputs_latched_def

lemma hal_all_off_frame [simp]:
  "g_ops (hal_all_off s) = g_ops s" "g_state (hal_all_off s) = g_state s"
  "g_fan_pct (hal_all_off s) = g_fan_pct s" "g_latched (hal_all_off s) = g_latched s"
  by (simp_all add: hal_all_off_def split: option.split)

lemma all_off_frame [simp]:
  "g_ops (pf_outputs_all_off s) = g_ops s" "g_state (pf_outputs_all_off s) out = False"
  "g_fan_pct (pf_outputs_all_off s) = 0" "g_latched (pf_outputs_all_off s) = g_latched s"
  by (simp_all add: pf_outputs_all_off_def)

lemma outputs_set_locked_frame [simp]:
  "g_latched (fst (outputs_set_locked out on s)) = g_latched s"
  "g_ops (fst (outputs_set_locked out on s)) = g_ops s"
  by (simp_all add: outputs_set_locked_def Let_def split: option.split prod.split)

lemma outputs_set_frame [simp]:
  "g_latched (fst (pf_outputs_set out on s)) = g_latched s"
  "g_ops (fst (pf_outputs_set out on s)) = g_ops s"
  by (simp_all add: pf_outputs_set_def)

lemma outputs_fan_frame [simp]:
  "g_latched (fst (pf_outputs_fan_pct pct s)) = g_latched s"
  "g_latched (fst (outputs_fan_pct_locked pct s)) = g_latched s"
  "g_ops (fst (pf_outputs_fan_pct pct s)) = g_ops s"
  "g_state (fst (pf_outputs_fan_pct pct s)) = g_state s"
  "g_state (fst (outputs_fan_pct_locked pct s)) = g_state s"
  by (simp_all add: pf_outputs_fan_pct_def outputs_fan_pct_locked_def Let_def split: option.split prod.split)

lemma outputs_set_state:
  "g_state (fst (outputs_set_locked out on s)) p = g_state s p \<or>
   (p = out \<and> g_state (fst (outputs_set_locked out on s)) p = on \<and> \<not> (g_latched s \<and> on))"
  by (simp add: outputs_set_locked_def Let_def split: option.split prod.split)

lemma outputs_set_other [simp]:
  "p \<noteq> out \<Longrightarrow> g_state (fst (pf_outputs_set out on s)) p = g_state s p"
  using outputs_set_state [of out on s p] by (auto simp: pf_outputs_set_def)

lemma outputs_set_off_mono:
  "g_state (fst (pf_outputs_set out False s)) p \<Longrightarrow> g_state s p"
  using outputs_set_state [of out False s p] by (auto simp: pf_outputs_set_def split: if_splits)

section \<open>The latch\<close>

datatype out_op =
  Set pf_output bool | FanPct int | PwmFrequency int | AllOff | EmergencyOff bool

fun out_exec :: "out_op \<Rightarrow> 'i outputs \<Rightarrow> 'i outputs \<times> int" where
  "out_exec (Set out on) s = pf_outputs_set out on s"
| "out_exec (FanPct pct) s = pf_outputs_fan_pct pct s"
| "out_exec (PwmFrequency hz) s = pf_outputs_pwm_frequency hz s"
| "out_exec AllOff s = (pf_outputs_all_off s, 0)"
| "out_exec (EmergencyOff got) s = pf_outputs_emergency_off got s"

fun out_run :: "out_op list \<Rightarrow> 'i outputs \<Rightarrow> 'i outputs" where
  "out_run [] s = s"
| "out_run (x # xs) s = out_run xs (fst (out_exec x s))"

definition all_safe :: "'i outputs \<Rightarrow> bool" where
  "all_safe s \<longleftrightarrow> g_latched s \<and> (\<forall>out. \<not> g_state s out) \<and> g_fan_pct s = 0"

lemma out_exec_safe: "all_safe s \<Longrightarrow> all_safe (fst (out_exec x s))"
  by (cases x) (auto simp: all_safe_def outputs_defs Let_def pf_outputs_pwm_frequency_def split: option.split)

lemma out_run_safe: "all_safe s \<Longrightarrow> all_safe (out_run xs s)"
  by (induction xs arbitrary: s) (simp_all add: out_exec_safe)

text \<open>C5. The latch holds for good.  Once an emergency off has run, with or without the lock, no
  sequence of calls of any length switches anything on: every output stays off, the fan stays at
  zero, and every attempt to set an output is refused with \<open>-EPERM\<close>.\<close>

theorem latch_is_final:
  fixes s :: "'i outputs" and got :: bool
  defines "s' \<equiv> fst (pf_outputs_emergency_off got s)"
  shows "pf_outputs_mask (out_run xs s') = 0 \<and> pf_outputs_get_fan_pct (out_run xs s') = 0 \<and>
         snd (pf_outputs_set out on (out_run xs s')) = - EPERM \<and>
         snd (pf_outputs_fan_pct pct (out_run xs s')) = - EPERM"
proof -
  have "all_safe s'" by (simp add: s'_def all_safe_def pf_outputs_emergency_off_def Let_def)
  from out_run_safe [OF this, of xs] show ?thesis
    by (simp add: all_safe_def pf_outputs_mask_def all_outputs_def pf_outputs_set_def
        pf_outputs_fan_pct_def pf_outputs_get_fan_pct_def)
qed

section \<open>The arbiter over a platform that keeps the contract\<close>

text \<open>
  What a platform promises: \<open>relay\<close> is the level at the relay, \<open>healthy\<close> that the hardware answers.
\<close>

locale platform =
  fixes ops :: "'i platform_ops"
    and relay :: "'i \<Rightarrow> pf_output \<Rightarrow> bool"
    and healthy :: "'i \<Rightarrow> bool"
  assumes set_ok: "healthy i \<Longrightarrow> op_set_output ops i out on = (i', 0) \<Longrightarrow> relay i' = (relay i)(out := on)"
    and set_fail: "healthy i \<Longrightarrow> op_set_output ops i out on = (i', rc) \<Longrightarrow> rc \<noteq> 0 \<Longrightarrow> relay i' = relay i"
    and fan_relay: "healthy i \<Longrightarrow> relay (fst (op_set_fan_pct ops i pct)) = relay i"
    and pwm_relay: "healthy i \<Longrightarrow> relay (fst (op_set_pwm_frequency ops i hz)) = relay i"
    and off_relay: "healthy i \<Longrightarrow> relay (op_all_off ops i) = (\<lambda>_. False)"
    and set_healthy: "healthy i \<Longrightarrow> healthy (fst (op_set_output ops i out on))"
    and fan_healthy: "healthy i \<Longrightarrow> healthy (fst (op_set_fan_pct ops i pct))"
    and pwm_healthy: "healthy i \<Longrightarrow> healthy (fst (op_set_pwm_frequency ops i hz))"
    and off_healthy: "healthy i \<Longrightarrow> healthy (op_all_off ops i)"
begin

definition mirrors :: "'i outputs \<Rightarrow> bool" where
  "mirrors s \<longleftrightarrow> g_ops s = Some ops \<and> (\<exists>i. g_inst s = Some i \<and> healthy i \<and> relay i = g_state s)"

lemma mirrors_off: "mirrors s \<Longrightarrow> mirrors (pf_outputs_all_off s)"
  by (auto simp: mirrors_def pf_outputs_all_off_def hal_all_off_def off_relay off_healthy)

lemma mirrors_inst:
  "g_ops s = Some ops \<Longrightarrow> g_inst s = Some i \<Longrightarrow> mirrors s \<longleftrightarrow> healthy i \<and> relay i = g_state s"
  by (simp add: mirrors_def)

lemma mirrors_set:
  assumes "mirrors s"
  shows "mirrors (fst (outputs_set_locked out on s))"
proof -
  from assms obtain i where i: "g_ops s = Some ops" "g_inst s = Some i" "healthy i" "relay i = g_state s"
    by (auto simp: mirrors_def)
  obtain i' rc where step: "op_set_output ops i out on = (i', rc)" by fastforce
  have "healthy i'" using set_healthy [OF i(3), of out on] step by simp
  moreover have "relay i' = (if rc = 0 then (g_state s)(out := on) else g_state s)"
    using set_ok [OF i(3), of out on i'] set_fail [OF i(3) step] step i(4) by simp
  ultimately show ?thesis
    using assms i step by (simp add: outputs_set_locked_def Let_def mirrors_inst)
qed

lemma mirrors_fan:
  assumes "mirrors s"
  shows "mirrors (fst (outputs_fan_pct_locked pct s))"
proof -
  from assms obtain i where i: "g_ops s = Some ops" "g_inst s = Some i" "healthy i" "relay i = g_state s"
    by (auto simp: mirrors_def)
  obtain i' rc where step: "op_set_fan_pct ops i pct = (i', rc)" by fastforce
  have "healthy i'" "relay i' = g_state s"
    using fan_healthy [OF i(3), of pct] fan_relay [OF i(3), of pct] step i(4) by simp_all
  then show ?thesis
    using assms i step by (simp add: outputs_fan_pct_locked_def Let_def mirrors_inst)
qed

lemma mirrors_pwm:
  assumes "mirrors s"
  shows "mirrors (fst (pf_outputs_pwm_frequency hz s))"
proof -
  from assms obtain i where i: "g_ops s = Some ops" "g_inst s = Some i" "healthy i" "relay i = g_state s"
    by (auto simp: mirrors_def)
  obtain i' rc where step: "op_set_pwm_frequency ops i hz = (i', rc)" by fastforce
  have "healthy i'" "relay i' = g_state s"
    using pwm_healthy [OF i(3), of hz] pwm_relay [OF i(3), of hz] step i(4) by simp_all
  then show ?thesis
    using assms i step by (simp add: pf_outputs_pwm_frequency_def mirrors_inst)
qed

lemma mirrors_latch [simp]: "mirrors (s\<lparr>g_latched := b\<rparr>) = mirrors s"
  by (simp add: mirrors_def)

lemma mirrors_exec: "mirrors s \<Longrightarrow> mirrors (fst (out_exec x s))"
  by (cases x)
    (simp_all add: pf_outputs_set_def mirrors_set pf_outputs_fan_pct_def mirrors_fan mirrors_pwm
      mirrors_off pf_outputs_emergency_off_def Let_def)

lemma mirrors_run: "mirrors s \<Longrightarrow> mirrors (out_run xs s)"
  by (induction xs arbitrary: s) (simp_all add: mirrors_exec)

lemma mirrors_init: "healthy i \<Longrightarrow> mirrors (pf_outputs_init (Some ops) (Some i) s)"
  by (simp add: mirrors_def pf_outputs_init_def hal_all_off_def off_relay off_healthy)

text \<open>The relays are what the arbiter says they are, after any run of calls from its start.\<close>

lemma relays_follow:
  assumes "healthy i" "g_inst (out_run xs (pf_outputs_init (Some ops) (Some i) s)) = Some j"
  shows "relay j out = pf_outputs_get out (out_run xs (pf_outputs_init (Some ops) (Some i) s))"
  using mirrors_run [OF mirrors_init [OF assms(1), of s], of xs] assms(2)
  by (auto simp: mirrors_def pf_outputs_get_def)

end

section \<open>Calls of several threads\<close>

text \<open>
  \<open>pf_outputs_set\<close> reads the latch before it takes the lock, so a call may have passed that check
  and be waiting while the watchdog latches and drives everything off.  Each thread is idle or past
  its first check; the watchdog stores the latch and then runs its section under the lock.
\<close>

datatype call = Idle | SetWaiting pf_output bool | FanWaiting int

datatype watchdog = NotFired | Latched | DrivenOff

record 'i shared =
  sh_out :: "'i outputs"
  sh_call :: "nat \<Rightarrow> call"
  sh_dog :: watchdog

inductive out_step :: "'i shared \<Rightarrow> 'i shared \<Rightarrow> bool" where
  set_check: "sh_call w t = Idle \<Longrightarrow> \<not> g_latched (sh_out w) \<Longrightarrow>
     out_step w (w\<lparr>sh_call := (sh_call w)(t := SetWaiting out on)\<rparr>)"
| set_locked: "sh_call w t = SetWaiting out on \<Longrightarrow>
     out_step w (w\<lparr>sh_out := fst (outputs_set_locked out on (sh_out w)), sh_call := (sh_call w)(t := Idle)\<rparr>)"
| fan_check: "sh_call w t = Idle \<Longrightarrow> \<not> g_latched (sh_out w) \<Longrightarrow>
     out_step w (w\<lparr>sh_call := (sh_call w)(t := FanWaiting pct)\<rparr>)"
| fan_locked: "sh_call w t = FanWaiting pct \<Longrightarrow>
     out_step w (w\<lparr>sh_out := fst (outputs_fan_pct_locked pct (sh_out w)), sh_call := (sh_call w)(t := Idle)\<rparr>)"
| all_off: "out_step w (w\<lparr>sh_out := pf_outputs_all_off (sh_out w)\<rparr>)"
| dog_latch: "sh_dog w = NotFired \<Longrightarrow>
     out_step w (w\<lparr>sh_out := (sh_out w)\<lparr>g_latched := True\<rparr>, sh_dog := Latched\<rparr>)"
| dog_off: "sh_dog w = Latched \<Longrightarrow>
     out_step w (w\<lparr>sh_out := pf_outputs_all_off (sh_out w), sh_dog := DrivenOff\<rparr>)"

inductive out_reachable :: "'i shared \<Rightarrow> 'i shared \<Rightarrow> bool" for start where
  start: "out_reachable start start"
| step: "out_reachable start v \<Longrightarrow> out_step v w \<Longrightarrow> out_reachable start w"

inductive_cases out_step_cases [elim]: "out_step v w"

definition dog_inv :: "'i shared \<Rightarrow> bool" where
  "dog_inv w \<longleftrightarrow> (sh_dog w \<noteq> NotFired \<longrightarrow> g_latched (sh_out w)) \<and>
     (sh_dog w = DrivenOff \<longrightarrow> (\<forall>out. \<not> g_state (sh_out w) out) \<and> g_fan_pct (sh_out w) \<le> 0)"

lemma set_locked_latched:
  assumes "g_latched s" "\<forall>p. \<not> g_state s p" "g_fan_pct s \<le> 0"
  shows "\<not> g_state (fst (outputs_set_locked out on s)) p \<and> g_fan_pct (fst (outputs_set_locked out on s)) \<le> 0"
  using assms by (cases on) (auto simp: outputs_set_locked_def split: option.split)

lemma fan_locked_latched:
  assumes "g_latched s" "g_fan_pct s \<le> 0"
  shows "g_fan_pct (fst (outputs_fan_pct_locked pct s)) \<le> 0"
  using assms by (auto simp: outputs_fan_pct_locked_def Let_def split: option.split prod.split)

lemma out_step_dog_inv: "out_step v w \<Longrightarrow> dog_inv v \<Longrightarrow> dog_inv w"
proof (induction rule: out_step.induct)
  case (set_locked w t out on)
  then show ?case using set_locked_latched [of "sh_out w" out on] by (auto simp: dog_inv_def)
next
  case (fan_locked w t pct)
  then show ?case using fan_locked_latched [of "sh_out w" pct] by (auto simp: dog_inv_def)
qed (auto simp: dog_inv_def)

lemma out_reachable_dog_inv: "out_reachable start w \<Longrightarrow> dog_inv start \<Longrightarrow> dog_inv w"
  by (induction rule: out_reachable.induct) (auto intro: out_step_dog_inv)


end
