(* ===== verification/Platform_Sim.thy ===== *)
theory Platform_Sim
  imports Outputs
begin

text \<open>
  \<open>src/platform/sim.c\<close>: the simulated grill.  Its function table is the platform on which the
  arbiter's contract is interpreted; the thermal model behind it is the step the tests and the
  simulator run, with its static variables (the plant's time constant and dead time and the
  accumulator of the delay line) beside the state.
\<close>

section \<open>State\<close>

record sim_state =
  sim_ambient_c :: fl
  sim_wind :: fl
  sim_igniter_heat_c :: fl
  sim_lid_open :: bool
  sim_time_scale :: fl
  sim_outs :: "pf_output \<Rightarrow> bool"
  sim_fan_pct :: int
  sim_pit_c :: fl
  sim_food_c :: "fl list"
  sim_pot_pellets_g :: fl
  sim_fire_lit :: bool
  sim_igniter_time_s :: fl
  sim_starved_time_s :: fl
  sim_delay :: "fl list"
  sim_sim_time_s :: fl

definition pf_sim_reset :: "fl \<Rightarrow> sim_state" where
  "pf_sim_reset ambient_c =
     \<lparr>sim_ambient_c = ambient_c, sim_wind = 0, sim_igniter_heat_c = 6, sim_lid_open = False,
      sim_time_scale = 1, sim_outs = (\<lambda>_. False), sim_fan_pct = 0, sim_pit_c = ambient_c,
      sim_food_c = replicate 3 ambient_c, sim_pot_pellets_g = 0, sim_fire_lit = False,
      sim_igniter_time_s = 0, sim_starved_time_s = 0, sim_delay = replicate 8 ambient_c,
      sim_sim_time_s = 0\<rparr>"

section \<open>The function table\<close>

definition sim_set_output :: "sim_state \<Rightarrow> pf_output \<Rightarrow> bool \<Rightarrow> sim_state \<times> int" where
  "sim_set_output m out on =
     (let m = m\<lparr>sim_outs := (sim_outs m)(out := on)\<rparr>;
          m = (if out = FAN \<and> \<not> on then m\<lparr>sim_fan_pct := 0\<rparr> else m);
          m = (if out = FAN \<and> on \<and> sim_fan_pct m = 0 then m\<lparr>sim_fan_pct := 100\<rparr> else m)
      in (m, 0))"

definition sim_set_fan_pct :: "sim_state \<Rightarrow> int \<Rightarrow> sim_state \<times> int" where
  "sim_set_fan_pct m pct = (m\<lparr>sim_fan_pct := pct\<rparr>, 0)"

definition sim_set_pwm_frequency :: "sim_state \<Rightarrow> int \<Rightarrow> sim_state \<times> int" where
  "sim_set_pwm_frequency m hz = (m, 0)"

definition sim_read_input :: "sim_state \<Rightarrow> pf_input \<Rightarrow> bool" where
  "sim_read_input m inp = False"

definition sim_all_off :: "sim_state \<Rightarrow> sim_state" where
  "sim_all_off m = m\<lparr>sim_outs := (\<lambda>_. False), sim_fan_pct := 0\<rparr>"

definition pf_platform_sim :: "sim_state platform_ops" where
  "pf_platform_sim =
     \<lparr>op_set_output = sim_set_output, op_set_fan_pct = sim_set_fan_pct,
      op_set_pwm_frequency = sim_set_pwm_frequency, op_read_input = sim_read_input,
      op_all_off = sim_all_off\<rparr>"

interpretation sim: platform pf_platform_sim sim_outs "\<lambda>_. True"
  by unfold_locales
    (auto simp: pf_platform_sim_def sim_set_output_def sim_set_fan_pct_def sim_set_pwm_frequency_def
      sim_all_off_def Let_def split: if_splits)

definition no_outputs :: "'i outputs" where
  "no_outputs = \<lparr>g_ops = None, g_inst = None, g_state = (\<lambda>_. False), g_fan_pct = 0, g_latched = False\<rparr>"

text \<open>What the daemon believes about the relays is what the simulated grill does: after any
  sequence of calls from the start, whatever the relays had been left at, every relay is exactly
  where the arbiter says it is.\<close>

theorem sim_relays_follow_arbiter:
  fixes xs :: "out_op list" and i :: sim_state
  defines "s \<equiv> out_run xs (pf_outputs_init (Some pf_platform_sim) (Some i) no_outputs)"
  assumes "g_inst s = Some j"
  shows "sim_outs j out = pf_outputs_get out s"
  using sim.relays_follow [OF TrueI] assms by simp

theorem sim_relays_follow_arbiter_witness:
  "\<exists>j. g_inst (out_run [Set AUGER True, AllOff, Set FAN True]
          (pf_outputs_init (Some pf_platform_sim) (Some (pf_sim_reset 18)) no_outputs)) = Some j \<and>
       sim_outs j FAN = pf_outputs_get FAN (out_run [Set AUGER True, AllOff, Set FAN True]
          (pf_outputs_init (Some pf_platform_sim) (Some (pf_sim_reset 18)) no_outputs))"
proof -
  let ?s = "out_run [Set AUGER True, AllOff, Set FAN True]
      (pf_outputs_init (Some pf_platform_sim) (Some (pf_sim_reset 18)) no_outputs)"
  have "\<exists>j. g_inst ?s = Some j"
    by (simp add: pf_outputs_init_def hal_all_off_def no_outputs_def pf_outputs_set_def
        outputs_set_locked_def Let_def pf_platform_sim_def sim_set_output_def pf_outputs_all_off_def)
  then obtain j where j: "g_inst ?s = Some j" ..
  from sim_relays_follow_arbiter [OF j] j show ?thesis by blast
qed

text \<open>A run of two threads and the watchdog on the simulated grill: a call that had passed the first
  check when the watchdog fired is refused under the lock.\<close>

definition race_start :: "sim_state shared" where
  "race_start = \<lparr>sh_out = pf_outputs_init (Some pf_platform_sim) (Some (pf_sim_reset 18)) no_outputs,
     sh_call = (\<lambda>_. Idle), sh_dog = NotFired\<rparr>"

lemma race_example:
  "\<exists>w. out_reachable race_start w \<and> sh_dog w = DrivenOff \<and> sh_call w 0 = Idle"
proof -
  have l: "\<not> g_latched (sh_out race_start)"
    by (simp add: race_start_def pf_outputs_init_def no_outputs_def)
  have c: "sh_call race_start 0 = Idle" "sh_dog race_start = NotFired" by (simp_all add: race_start_def)
  note s0 = out_reachable.start [of race_start]
  note s1 = out_reachable.step [OF s0 out_step.set_check [OF c(1) l, of AUGER True]]
  note s2 = out_reachable.step [OF s1 out_step.dog_latch]
  note s3 = out_reachable.step [OF s2 out_step.dog_off]
  note s4 = out_reachable.step [OF s3 out_step.set_locked [of _ 0 AUGER True]]
  show ?thesis by (rule exI, rule conjI, rule s4) (simp_all add: c)
qed


section \<open>The thermal model\<close>

definition RAD_COEFF :: fl where "RAD_COEFF = 2.5"
definition AUGER_GPS :: fl where "AUGER_GPS = 0.55"
definition BURN_MAX_GPS :: fl where "BURN_MAX_GPS = 0.75"
definition POT_TAU_S :: fl where "POT_TAU_S = 60"
definition GAIN_C_PER_GPS :: fl where "GAIN_C_PER_GPS = 900"
definition IGNITE_AFTER_S :: fl where "IGNITE_AFTER_S = 60"
definition STARVE_OUT_S :: fl where "STARVE_OUT_S = 45"
definition LID_LOSS_FACTOR :: fl where "LID_LOSS_FACTOR = 0.35"
definition FOOD_TAU_S :: fl where "FOOD_TAU_S = 2400"

text \<open>The loss at a rise of \<open>x\<close>, and the bisection of its 28 rounds.\<close>

definition sim_loss :: "fl \<Rightarrow> fl \<Rightarrow> fl" where
  "sim_loss amb_c mid =
     (let tb = amb_c + 273.15; tb4 = tb * tb * tb * tb;
          ta = amb_c + mid + 273.15; ta4 = ta * ta * ta * ta
      in mid + RAD_COEFF * (ta4 - tb4) / 1000000000)"

fun rise_bisect :: "nat \<Rightarrow> fl \<Rightarrow> fl \<Rightarrow> fl \<Rightarrow> fl \<Rightarrow> fl \<times> fl" where
  "rise_bisect 0 pw amb_c lo hi = (lo, hi)"
| "rise_bisect (Suc n) pw amb_c lo hi =
     (let mid = 0.5 * (lo + hi)
      in if sim_loss amb_c mid < pw then rise_bisect n pw amb_c mid hi
         else rise_bisect n pw amb_c lo mid)"

definition equilibrium_rise :: "fl \<Rightarrow> fl \<Rightarrow> fl" where
  "equilibrium_rise pw amb_c =
     (if pw \<le> 0 then 0
      else case rise_bisect 28 pw amb_c 0 pw of (lo, hi) \<Rightarrow> 0.5 * (lo + hi))"

record sim_world =
  sw_m :: sim_state
  sw_pit_tau_s :: fl
  sw_dead_time_s :: fl
  sw_acc :: fl

text \<open>The dead-time line: one shift for every slot of accumulated time.\<close>

partial_function (option) sim_shift :: "fl \<Rightarrow> fl \<Rightarrow> fl \<Rightarrow> fl list \<Rightarrow> (fl \<times> fl list) option" where
  "sim_shift slot t_eq acc d =
     (if slot \<le> acc then sim_shift slot t_eq (acc - slot) (t_eq # take 7 d) else Some (acc, d))"

definition sim_burn :: "fl \<Rightarrow> sim_state \<Rightarrow> sim_state \<times> fl" where
  "sim_burn dt m =
     (let m = (if sim_outs m AUGER
               then m\<lparr>sim_pot_pellets_g := sim_pot_pellets_g m + AUGER_GPS * dt\<rparr> else m)
      in if sim_fire_lit m
         then let air = (if sim_outs m FAN
                         then 0.4 + 0.6 * int_to_fl (if sim_fan_pct m > 0 then sim_fan_pct m else 100) / 100
                         else 0.25);
                  burn = fmin (BURN_MAX_GPS * air) (sim_pot_pellets_g m / POT_TAU_S)
              in (m\<lparr>sim_pot_pellets_g := fmax 0 (sim_pot_pellets_g m - burn * dt)\<rparr>, burn)
         else ((if 400 < sim_pot_pellets_g m then m\<lparr>sim_pot_pellets_g := 400\<rparr> else m), 0))"

definition sim_ignite :: "fl \<Rightarrow> sim_state \<Rightarrow> sim_state" where
  "sim_ignite dt m =
     (let m = m\<lparr>sim_igniter_time_s :=
                  (if sim_outs m IGNITER \<and> 2 < sim_pot_pellets_g m then sim_igniter_time_s m + dt else 0)\<rparr>;
          m = (if \<not> sim_fire_lit m \<and> IGNITE_AFTER_S \<le> sim_igniter_time_s m
               then m\<lparr>sim_fire_lit := True\<rparr> else m);
          m = m\<lparr>sim_starved_time_s :=
                  (if sim_fire_lit m \<and> sim_pot_pellets_g m < 0.5 then sim_starved_time_s m + dt else 0)\<rparr>
      in if sim_fire_lit m \<and> STARVE_OUT_S < sim_starved_time_s m \<and> \<not> sim_outs m IGNITER
         then m\<lparr>sim_fire_lit := False\<rparr> else m)"

text \<open>The equilibrium pit of this instant, and what follows once it has left the delay line.\<close>

definition sim_t_eq :: "fl \<Rightarrow> sim_state \<Rightarrow> fl" where
  "sim_t_eq burn m =
     (let gain = GAIN_C_PER_GPS * (1 - 0.35 * sim_wind m) *
                   (if sim_lid_open m then LID_LOSS_FACTOR else 1)
      in sim_ambient_c m + equilibrium_rise (gain * burn) (sim_ambient_c m) +
           (if sim_outs m IGNITER then sim_igniter_heat_c m else 0))"

definition sim_settle :: "fl \<Rightarrow> fl \<Rightarrow> fl list \<Rightarrow> sim_state \<Rightarrow> sim_state" where
  "sim_settle dt pit_tau_s d m =
     (let m = m\<lparr>sim_delay := d\<rparr>;
          target = d ! 7;
          tau = (if sim_lid_open m then pit_tau_s * 0.5 else pit_tau_s);
          m = m\<lparr>sim_pit_c := sim_pit_c m + (target - sim_pit_c m) * (dt / tau)\<rparr>
      in m\<lparr>sim_food_c := map (\<lambda>i. let ftau = FOOD_TAU_S * (1 + 0.5 * int_to_fl (int i))
           in sim_food_c m ! i + (sim_pit_c m - sim_food_c m ! i) * (dt / ftau)) [0..<3]\<rparr>)"

definition pf_sim_step :: "fl \<Rightarrow> sim_world \<Rightarrow> sim_world option" where
  "pf_sim_step dt w =
     (if dt \<le> 0 then Some w
      else let m = sw_m w;
               m = m\<lparr>sim_sim_time_s := sim_sim_time_s m + dt\<rparr>;
               (m, burn) = sim_burn dt m;
               m = sim_ignite dt m;
               slot = sw_dead_time_s w / 8
           in case sim_shift slot (sim_t_eq burn m) (sw_acc w + dt) (sim_delay m) of
                None \<Rightarrow> None
              | Some (acc, d) \<Rightarrow>
                  Some (w\<lparr>sw_m := sim_settle dt (sw_pit_tau_s w) d m, sw_acc := acc\<rparr>))"

definition pf_sim_set_plant :: "fl \<Rightarrow> fl \<Rightarrow> sim_world \<Rightarrow> sim_world" where
  "pf_sim_set_plant tau_s theta_s w =
     (let w = (if 0 < tau_s then w\<lparr>sw_pit_tau_s := tau_s\<rparr> else w)
      in if 0 < theta_s then w\<lparr>sw_dead_time_s := theta_s\<rparr> else w)"

definition pf_sim_small_signal_gain :: "fl \<Rightarrow> fl \<Rightarrow> fl" where
  "pf_sim_small_signal_gain amb_c duty =
     (let per_duty = GAIN_C_PER_GPS * AUGER_GPS;
          p = per_duty * duty;
          dp = per_duty * 0.01
      in (equilibrium_rise (p + dp) amb_c - equilibrium_rise (p - dp) amb_c) / (2 * dp) * per_duty)"

subsection \<open>The bisection finds the equilibrium\<close>

definition loss_r :: "real \<Rightarrow> real \<Rightarrow> real" where
  "loss_r a x = x + 2.5 * ((a + x + 273.15) ^ 4 - (a + 273.15) ^ 4) / 1000000000"

lemma sim_loss_Fin: "sim_loss (Fin a) (Fin x) = Fin (loss_r a x)"
  by (simp add: sim_loss_def loss_r_def RAD_COEFF_def Let_def eval_nat_numeral)

lemma rise_bisect_inv:
  assumes "loss_r a lo < p" "p \<le> loss_r a hi" "lo \<le> hi"
  shows "\<exists>lo' hi'. rise_bisect n (Fin p) (Fin a) (Fin lo) (Fin hi) = (Fin lo', Fin hi') \<and>
           lo \<le> lo' \<and> hi' \<le> hi \<and> lo' \<le> hi' \<and> hi' - lo' = (hi - lo) / 2 ^ n \<and>
           loss_r a lo' < p \<and> p \<le> loss_r a hi'"
  using assms
proof (induction n arbitrary: lo hi)
  case 0
  then show ?case by simp
next
  case (Suc n)
  let ?mid = "(lo + hi) / 2"
  have mid: "0.5 * (Fin lo + Fin hi) = Fin ?mid" by simp
  show ?case
  proof (cases "loss_r a ?mid < p")
    case True
    with Suc.IH [of ?mid hi] Suc.prems obtain lo' hi' where
      "rise_bisect n (Fin p) (Fin a) (Fin ?mid) (Fin hi) = (Fin lo', Fin hi')" "?mid \<le> lo'" "hi' \<le> hi"
      "lo' \<le> hi'" "hi' - lo' = (hi - ?mid) / 2 ^ n" "loss_r a lo' < p" "p \<le> loss_r a hi'"
      by auto
    with True Suc.prems mid show ?thesis
      by (intro exI [of _ lo'] exI [of _ hi']) (simp add: Let_def sim_loss_Fin field_simps)
  next
    case False
    with Suc.IH [of lo ?mid] Suc.prems obtain lo' hi' where
      "rise_bisect n (Fin p) (Fin a) (Fin lo) (Fin ?mid) = (Fin lo', Fin hi')" "lo \<le> lo'" "hi' \<le> ?mid"
      "lo' \<le> hi'" "hi' - lo' = (?mid - lo) / 2 ^ n" "loss_r a lo' < p" "p \<le> loss_r a hi'"
      by auto
    with False Suc.prems mid show ?thesis
      by (intro exI [of _ lo'] exI [of _ hi']) (simp add: Let_def sim_loss_Fin field_simps)
  qed
qed

lemma loss_root:
  assumes "lo \<le> hi" "loss_r a lo \<le> p" "p \<le> loss_r a hi"
  shows "\<exists>x. lo \<le> x \<and> x \<le> hi \<and> loss_r a x = p"
  by (rule IVT') (use assms in \<open>auto simp: loss_r_def intro!: continuous_intros\<close>)

text \<open>The simulator's equilibrium is one: for any positive power and any ambient temperature
  above absolute zero, the rise the 28 rounds of bisection return is within \<open>p / 2 ^ 29\<close>
  of a rise at which convection and radiation lose exactly that power.\<close>

theorem equilibrium_rise_correct:
  assumes "0 < p" "- 273.15 \<le> a"
  shows "\<exists>r x. equilibrium_rise (Fin p) (Fin a) = Fin r \<and> loss_r a x = p \<and>
           0 \<le> x \<and> x \<le> p \<and> \<bar>r - x\<bar> \<le> p / 2 ^ 29"
proof -
  have "(a + 273.15) ^ 4 \<le> (a + p + 273.15) ^ 4"
    by (rule power_mono) (use assms in auto)
  then have "loss_r a 0 < p" "p \<le> loss_r a p" using assms by (auto simp: loss_r_def)
  from rise_bisect_inv [OF this, of 28] assms obtain lo hi where
    b: "rise_bisect 28 (Fin p) (Fin a) (Fin 0) (Fin p) = (Fin lo, Fin hi)"
    and r: "0 \<le> lo" "hi \<le> p" "lo \<le> hi" "hi - lo = p / 2 ^ 28" "loss_r a lo < p" "p \<le> loss_r a hi"
    by auto
  obtain x where x: "lo \<le> x" "x \<le> hi" "loss_r a x = p" using loss_root [of lo hi a p] r by auto
  have "equilibrium_rise (Fin p) (Fin a) = Fin ((lo + hi) / 2)"
    using b assms by (simp add: equilibrium_rise_def del: rise_bisect.simps)
  moreover have "\<bar>(lo + hi) / 2 - x\<bar> \<le> (hi - lo) / 2" using x(1,2) unfolding abs_le_iff by (simp add: field_simps)
  then have "\<bar>(lo + hi) / 2 - x\<bar> \<le> p / 2 ^ 29" using r(4) by simp
  ultimately show ?thesis using x r by (intro exI [of _ "(lo + hi) / 2"] exI [of _ x]) simp
qed

theorem equilibrium_rise_correct_witness:
  "\<exists>r x. equilibrium_rise (Fin 400) (Fin 18) = Fin r \<and> loss_r 18 x = 400 \<and> \<bar>r - x\<bar> \<le> 400 / 2 ^ 29"
  using equilibrium_rise_correct [of 400 18] by auto

subsection \<open>The delay line ends its loop\<close>

lemma sim_shift_returns:
  assumes "0 < s"
  shows "\<exists>acc' d'. sim_shift (Fin s) t_eq (Fin acc) d = Some (Fin acc', d') \<and> acc' < s \<and>
           (length d = 8 \<longrightarrow> length d' = 8)"
proof (induction "nat \<lfloor>acc / s\<rfloor>" arbitrary: acc d rule: less_induct)
  case less
  show ?case
  proof (cases "s \<le> acc")
    case True
    then have "1 \<le> acc / s" using assms by simp
    moreover have "(acc - s) / s = acc / s - 1" using assms by (simp add: diff_divide_distrib)
    ultimately have "nat \<lfloor>(acc - s) / s\<rfloor> < nat \<lfloor>acc / s\<rfloor>" by linarith
    from less.hyps [OF this, of "t_eq # take 7 d"] True show ?thesis
      by (subst sim_shift.simps) auto
  next
    case False
    then show ?thesis by (subst sim_shift.simps) auto
  qed
qed

lemma sim_delay_settle: "sim_delay (sim_settle dt tau d m) = d"
  by (simp add: sim_settle_def Let_def)

lemma sim_delay_burn: "sim_delay (fst (sim_burn dt m)) = sim_delay m"
  by (simp add: sim_burn_def Let_def)

lemma sim_delay_ignite: "sim_delay (sim_ignite dt m) = sim_delay m"
  by (simp add: sim_ignite_def Let_def)


definition sim_world_example :: sim_world where
  "sim_world_example = \<lparr>sw_m = pf_sim_reset 18, sw_pit_tau_s = 240, sw_dead_time_s = 45, sw_acc = 0\<rparr>"


end
