(* ===== verification/Platform_Rpi.thy ===== *)
theory Platform_Rpi
  imports Outputs
begin

text \<open>
  \<open>src/platform/rpi.c\<close> with \<open>src/hal/pwm.c\<close> and the set and get of \<open>src/hal/gpio.c\<close>: the relays on GPIO
  lines and the fan on a hardware PWM channel.  The kernel is a parameter: what its \<open>ioctl\<close> on a line
  and its sysfs attributes do.  A line and the sysfs directory are type variables that the kernel
  calls update.
\<close>

section \<open>The kernel\<close>

record ('l, 's) kernel =
  k_line_set :: "'l \<Rightarrow> bool \<Rightarrow> 'l \<times> int"   \<comment> \<open>\<open>GPIO_V2_LINE_SET_VALUES_IOCTL\<close>; 0 or \<open>-errno\<close>\<close>
  k_line_get :: "'l \<Rightarrow> int"                \<comment> \<open>\<open>GPIO_V2_LINE_GET_VALUES_IOCTL\<close>; the bit or \<open>-errno\<close>\<close>
  k_write_attr :: "'s \<Rightarrow> string \<Rightarrow> int \<Rightarrow> 's \<times> int"   \<comment> \<open>\<open>write_attr\<close>; 0 or \<open>-errno\<close>\<close>

definition pf_gpio_set :: "('l, 's) kernel \<Rightarrow> 'l option \<Rightarrow> bool \<Rightarrow> 'l option \<times> int" where
  "pf_gpio_set k l active =
     (case l of None \<Rightarrow> (None, - EINVAL)
      | Some l \<Rightarrow> (case k_line_set k l active of (l', rc) \<Rightarrow> (Some l', rc)))"

definition pf_gpio_get :: "('l, 's) kernel \<Rightarrow> 'l option \<Rightarrow> int" where
  "pf_gpio_get k l = (case l of None \<Rightarrow> - EINVAL | Some l \<Rightarrow> k_line_get k l)"

section \<open>Hardware PWM\<close>

record 's pwm =
  pwm_dir :: 's
  pwm_period_ns :: int

text \<open>Each write that fails ends the call with its error code.\<close>

definition pf_pwm_config :: "('l, 's) kernel \<Rightarrow> 's pwm \<Rightarrow> int \<Rightarrow> fl \<Rightarrow> 's pwm \<times> int" where
  "pf_pwm_config k p hz duty_pct =
     (if hz \<le> 0 then (p, - EINVAL)
      else let period = 1000000000 div hz;
               duty = fl_to_int (int_to_fl period * pf_clamp duty_pct 0 100 / 100);
               (p, rc) = (if period < pwm_period_ns p
                          then case k_write_attr k (pwm_dir p) ''duty_cycle'' duty of
                                 (d, rc) \<Rightarrow> (p\<lparr>pwm_dir := d\<rparr>, rc)
                          else (p, 0))
           in if rc \<noteq> 0 then (p, rc)
              else let (p, rc) = (if period \<noteq> pwm_period_ns p
                          then case k_write_attr k (pwm_dir p) ''period'' period of
                                 (d, rc) \<Rightarrow> (if rc \<noteq> 0 then (p\<lparr>pwm_dir := d\<rparr>, rc)
                                            else (p\<lparr>pwm_dir := d, pwm_period_ns := period\<rparr>, 0))
                          else (p, 0))
                   in if rc \<noteq> 0 then (p, rc)
                      else case k_write_attr k (pwm_dir p) ''duty_cycle'' duty of
                             (d, rc) \<Rightarrow> (p\<lparr>pwm_dir := d\<rparr>, rc))"

definition pf_pwm_enable :: "('l, 's) kernel \<Rightarrow> 's pwm \<Rightarrow> bool \<Rightarrow> 's pwm \<times> int" where
  "pf_pwm_enable k p on =
     (case k_write_attr k (pwm_dir p) ''enable'' (if on then 1 else 0) of
        (d, rc) \<Rightarrow> (p\<lparr>pwm_dir := d\<rparr>, rc))"

text \<open>
  To say something of every moment between the writes, the sysfs directory is taken as the history of
  the attribute values \<open>(period, duty)\<close>, newest first.
\<close>

fun trace_write :: "(int \<times> int) list \<Rightarrow> string \<Rightarrow> int \<Rightarrow> (int \<times> int) list \<times> int" where
  "trace_write ((per, duty) # h) attr v =
     ((if attr = ''period'' then (v, duty) else if attr = ''duty_cycle'' then (per, v) else (per, duty))
       # (per, duty) # h, 0)"
| "trace_write [] attr v = ([], 0)"

definition trace_kernel :: "(unit, (int \<times> int) list) kernel" where
  "trace_kernel = \<lparr>k_line_set = (\<lambda>l b. (l, 0)), k_line_get = (\<lambda>l. 0), k_write_attr = trace_write\<rparr>"

lemma pwm_duty_le_period:
  assumes "0 \<le> period" "period \<le> 1000000000"
  shows "0 \<le> fl_to_int (int_to_fl period * pf_clamp d 0 100 / 100) \<and>
         fl_to_int (int_to_fl period * pf_clamp d 0 100 / 100) \<le> period"
proof (cases "d = NaN")
  case True
  with assms show ?thesis by (simp add: pf_clamp_def int_to_fl_def)
next
  case False
  then obtain r where r: "pf_clamp d 0 100 = Fin r" "0 \<le> r" "r \<le> 100"
    using pf_clamp_range [of 0 100 d] by auto
  have "real_of_int period * r \<le> real_of_int period * 100" using assms r by (intro mult_left_mono) auto
  then have le: "0 \<le> real_of_int period * r / 100" "real_of_int period * r / 100 \<le> real_of_int period"
    using assms r by simp_all
  then have "0 \<le> \<lfloor>real_of_int period * r / 100\<rfloor>" "\<lfloor>real_of_int period * r / 100\<rfloor> \<le> period"
    by (simp_all add: floor_le_iff)
  with assms r le show ?thesis
    by (simp add: int_to_fl_def real_trunc_def int_max_def int_min_def)
qed

text \<open>The duty written to the PWM channel never exceeds its period, not even between two writes:
  starting from a channel whose period the driver knows and whose duty fits in it, any frequency and
  any percentage, NaN included, keep it so at every moment of the call.\<close>

theorem pwm_duty_fits_period:
  assumes "pwm_dir p = (pwm_period_ns p, duty) # h" "0 \<le> duty" "duty \<le> pwm_period_ns p"
    and "\<forall>(per, d) \<in> set h. d \<le> per"
    and "(p', rc) = pf_pwm_config trace_kernel p hz pct"
  shows "rc = (if hz \<le> 0 then - EINVAL else 0) \<and> (\<forall>(per, d) \<in> set (pwm_dir p'). d \<le> per) \<and>
         (\<exists>d h'. pwm_dir p' = (pwm_period_ns p', d) # h')"
proof (cases "hz \<le> 0")
  case True
  with assms show ?thesis by (auto simp: pf_pwm_config_def EINVAL_def)
next
  case False
  have "0 \<le> 1000000000 div hz" "1000000000 div hz \<le> 1000000000"
    using False zdiv_mono2 [of 1000000000 1 hz] by (simp_all add: pos_imp_zdiv_nonneg_iff)
  note d = pwm_duty_le_period [OF this, of pct]
  show ?thesis
    using assms False d unfolding pf_pwm_config_def trace_kernel_def
    by (auto simp: Let_def split: if_splits)
qed

definition pwm_example :: "(int \<times> int) list pwm" where
  "pwm_example = \<lparr>pwm_dir = [(40000, 40000)], pwm_period_ns = 40000\<rparr>"

theorem pwm_duty_fits_period_witness:
  "list_all (\<lambda>(per, d). d \<le> per) (pwm_dir (fst (pf_pwm_config trace_kernel pwm_example 50000 100)))"
proof -
  have "(fst (pf_pwm_config trace_kernel pwm_example 50000 100), snd (pf_pwm_config trace_kernel pwm_example 50000 100))
      = pf_pwm_config trace_kernel pwm_example 50000 100" by simp
  from pwm_duty_fits_period [OF _ _ _ _ this, of 40000 "[]"] show ?thesis by (simp add: pwm_example_def list_all_iff)
qed

section \<open>The platform\<close>

record ('l, 's) rpi =
  r_out :: "pf_output \<Rightarrow> 'l option"
  r_in :: "pf_input \<Rightarrow> 'l option"
  r_pwm :: "'s pwm option"
  r_dc_fan :: bool
  r_pwm_hz :: int
  r_fan_pct :: int
  r_state :: "pf_output \<Rightarrow> bool"

definition rpi_set_output :: "('l, 's) kernel \<Rightarrow> ('l, 's) rpi \<Rightarrow> pf_output \<Rightarrow> bool \<Rightarrow> ('l, 's) rpi \<times> int" where
  "rpi_set_output k r out on =
     (if r_out r out = None then (r, -1)
      else let (l, rc) = pf_gpio_set k (r_out r out) on;
               r = r\<lparr>r_out := (r_out r)(out := l)\<rparr>;
               r = (if rc = 0 then r\<lparr>r_state := (r_state r)(out := on)\<rparr> else r)
           in case r_pwm r of
                None \<Rightarrow> (r, rc)
              | Some p \<Rightarrow>
                  if out = FAN
                  then if on
                       then let r = (if r_fan_pct r = 0 then r\<lparr>r_fan_pct := 100\<rparr> else r);
                                p = fst (pf_pwm_config k p (r_pwm_hz r) (int_to_fl (100 - r_fan_pct r)));
                                p = fst (pf_pwm_enable k p True)
                            in (r\<lparr>r_pwm := Some p\<rparr>, rc)
                       else (r\<lparr>r_pwm := Some (fst (pf_pwm_enable k p False)), r_fan_pct := 0\<rparr>, rc)
                  else (r, rc))"

definition rpi_set_fan_pct :: "('l, 's) kernel \<Rightarrow> ('l, 's) rpi \<Rightarrow> int \<Rightarrow> ('l, 's) rpi \<times> int" where
  "rpi_set_fan_pct k r pct =
     (if \<not> r_dc_fan r then (r, 0)
      else let pct = (if pct < 0 then 0 else pct);
               pct = (if 100 < pct then 100 else pct);
               r = r\<lparr>r_fan_pct := pct\<rparr>
           in case r_pwm r of
                None \<Rightarrow> (r, 0)
              | Some p \<Rightarrow>
                  case pf_pwm_config k p (r_pwm_hz r) (int_to_fl (100 - pct)) of
                    (p', rc) \<Rightarrow> (r\<lparr>r_pwm := Some p'\<rparr>, rc))"

definition rpi_set_pwm_frequency :: "('l, 's) kernel \<Rightarrow> ('l, 's) rpi \<Rightarrow> int \<Rightarrow> ('l, 's) rpi \<times> int" where
  "rpi_set_pwm_frequency k r hz =
     (if hz \<le> 0 then (r, -1)
      else let r = r\<lparr>r_pwm_hz := hz\<rparr>
           in case r_pwm r of
                None \<Rightarrow> (r, 0)
              | Some p \<Rightarrow>
                  case pf_pwm_config k p hz (int_to_fl (100 - r_fan_pct r)) of
                    (p', rc) \<Rightarrow> (r\<lparr>r_pwm := Some p'\<rparr>, rc))"

definition rpi_read_input :: "('l, 's) kernel \<Rightarrow> ('l, 's) rpi \<Rightarrow> pf_input \<Rightarrow> bool" where
  "rpi_read_input k r inp = (r_in r inp \<noteq> None \<and> pf_gpio_get k (r_in r inp) = 1)"

definition rpi_all_off :: "('l, 's) kernel \<Rightarrow> ('l, 's) rpi \<Rightarrow> ('l, 's) rpi" where
  "rpi_all_off k r =
     (let r = r\<lparr>r_state := (\<lambda>out. if r_out r out = None then r_state r out else False),
                r_out := (\<lambda>out. if r_out r out = None then None else fst (pf_gpio_set k (r_out r out) False))\<rparr>;
          r = (case r_pwm r of None \<Rightarrow> r
               | Some p \<Rightarrow> r\<lparr>r_pwm := Some (fst (pf_pwm_enable k p False))\<rparr>)
      in r\<lparr>r_fan_pct := 0\<rparr>)"

definition pf_platform_rpi :: "('l, 's) kernel \<Rightarrow> ('l, 's) rpi platform_ops" where
  "pf_platform_rpi k =
     \<lparr>op_set_output = rpi_set_output k, op_set_fan_pct = rpi_set_fan_pct k,
      op_set_pwm_frequency = rpi_set_pwm_frequency k, op_read_input = rpi_read_input k,
      op_all_off = rpi_all_off k\<rparr>"

text \<open>
  A line works when setting it succeeds and leaves it at the level asked for; the relay of an output
  with no line is never energised.
\<close>

definition lines_work :: "('l, 's) kernel \<Rightarrow> ('l \<Rightarrow> bool) \<Rightarrow> ('l \<Rightarrow> bool) \<Rightarrow> bool" where
  "lines_work k level works \<longleftrightarrow>
     (\<forall>l b. works l \<longrightarrow> snd (k_line_set k l b) = 0 \<and> level (fst (k_line_set k l b)) = b \<and>
            works (fst (k_line_set k l b)))"

definition rpi_relay :: "('l \<Rightarrow> bool) \<Rightarrow> ('l, 's) rpi \<Rightarrow> pf_output \<Rightarrow> bool" where
  "rpi_relay level r out = (case r_out r out of None \<Rightarrow> False | Some l \<Rightarrow> level l)"

definition rpi_healthy :: "('l \<Rightarrow> bool) \<Rightarrow> ('l, 's) rpi \<Rightarrow> bool" where
  "rpi_healthy works r \<longleftrightarrow> (\<forall>out l. r_out r out = Some l \<longrightarrow> works l)"

lemma rpi_set_output_lines:
  "r_out (fst (rpi_set_output k r out on)) =
     (if r_out r out = None then r_out r else (r_out r)(out := fst (pf_gpio_set k (r_out r out) on)))"
  "snd (rpi_set_output k r out on) =
     (if r_out r out = None then -1 else snd (pf_gpio_set k (r_out r out) on))"
  by (simp_all add: rpi_set_output_def Let_def split: prod.split option.split)

lemma rpi_other_lines:
  "r_out (fst (rpi_set_fan_pct k r pct)) = r_out r"
  "r_out (fst (rpi_set_pwm_frequency k r hz)) = r_out r"
  by (simp_all add: rpi_set_fan_pct_def rpi_set_pwm_frequency_def Let_def split: prod.split option.split)

lemma rpi_all_off_lines:
  "r_out (rpi_all_off k r) =
     (\<lambda>out. if r_out r out = None then None else fst (pf_gpio_set k (r_out r out) False))"
  by (simp add: rpi_all_off_def Let_def fun_eq_iff split: option.split)

lemma gpio_set_works:
  assumes "lines_work k level works" "works l"
  shows "snd (pf_gpio_set k (Some l) b) = 0 \<and>
         (\<exists>l'. fst (pf_gpio_set k (Some l) b) = Some l' \<and> level l' = b \<and> works l')"
  using assms by (auto simp: lines_work_def pf_gpio_set_def split: prod.split) (metis fst_conv snd_conv)+

lemma rpi_platform:
  assumes "lines_work k level works"
  shows "platform (pf_platform_rpi k) (rpi_relay level) (rpi_healthy works)"
proof
  fix r r' :: "('a, 'b) rpi" and out on rc pct hz
  assume h: "rpi_healthy works r"
  have line: "r_out r out = Some l \<Longrightarrow> works l" for out l using h by (simp add: rpi_healthy_def)
  show "op_set_output (pf_platform_rpi k) r out on = (r', 0) \<Longrightarrow>
      rpi_relay level r' = (rpi_relay level r)(out := on)"
    using rpi_set_output_lines [of k r out on] gpio_set_works [OF assms line, of out _ on]
    by (cases "r_out r out") (auto simp: pf_platform_rpi_def rpi_relay_def fun_eq_iff)
  show "op_set_output (pf_platform_rpi k) r out on = (r', rc) \<Longrightarrow> rc \<noteq> 0 \<Longrightarrow>
      rpi_relay level r' = rpi_relay level r"
    using rpi_set_output_lines [of k r out on] gpio_set_works [OF assms line, of out _ on]
    by (cases "r_out r out") (auto simp: pf_platform_rpi_def rpi_relay_def fun_eq_iff)
  show "rpi_healthy works (fst (op_set_output (pf_platform_rpi k) r out on))"
    using rpi_set_output_lines [of k r out on] gpio_set_works [OF assms line, of out _ on] line
    by (cases "r_out r out") (auto simp: pf_platform_rpi_def rpi_healthy_def)
  show "rpi_relay level (fst (op_set_fan_pct (pf_platform_rpi k) r pct)) = rpi_relay level r"
    "rpi_relay level (fst (op_set_pwm_frequency (pf_platform_rpi k) r hz)) = rpi_relay level r"
    "rpi_healthy works (fst (op_set_fan_pct (pf_platform_rpi k) r pct))"
    "rpi_healthy works (fst (op_set_pwm_frequency (pf_platform_rpi k) r hz))"
    using h by (simp_all add: pf_platform_rpi_def rpi_relay_def rpi_healthy_def rpi_other_lines fun_eq_iff)
  show "rpi_relay level (op_all_off (pf_platform_rpi k) r) = (\<lambda>_. False)"
    using gpio_set_works [OF assms line, of _ _ False]
    by (auto simp: pf_platform_rpi_def rpi_relay_def rpi_all_off_lines fun_eq_iff split: option.split)
      fastforce+
  show "rpi_healthy works (op_all_off (pf_platform_rpi k) r)"
    using gpio_set_works [OF assms line, of _ _ False]
    by (auto simp: pf_platform_rpi_def rpi_healthy_def rpi_all_off_lines) fastforce
qed

lemma mirrors_relay_off:
  assumes "platform ops relay healthy" "platform.mirrors ops relay healthy s" "\<not> g_state s out"
    "g_inst s = Some j"
  shows "\<not> relay j out"
  using assms(2-4) unfolding platform.mirrors_def [OF assms(1)] by auto

lemma rpi_run_mirrors:
  assumes "lines_work k level works" "rpi_healthy works r"
  shows "platform.mirrors (pf_platform_rpi k) (rpi_relay level) (rpi_healthy works)
    (out_run ys (fst (pf_outputs_emergency_off got
      (out_run xs (pf_outputs_init (Some (pf_platform_rpi k)) (Some r) s0)))))"
proof -
  note plat = rpi_platform [OF assms(1)]
  note off = platform.mirrors_exec [OF plat, of _ "EmergencyOff got", simplified]
  show ?thesis
    by (intro platform.mirrors_run [OF plat] off platform.mirrors_init [OF plat] assms(2))
qed

lemma rpi_inst_exists:
  assumes "platform.mirrors (pf_platform_rpi k) (rpi_relay level) (rpi_healthy works) s"
    "lines_work k level works"
  shows "\<exists>j. g_inst s = Some j"
  using assms unfolding platform.mirrors_def [OF rpi_platform [OF assms(2)]] by blast

text \<open>On the Raspberry Pi an emergency off reaches the relays: if the kernel sets the lines it
  is asked to set, then after any sequence of calls and an emergency off, whether or not it got the
  lock, and after any calls that follow, no relay is energised.\<close>

theorem rpi_emergency_off_relays:
  fixes xs ys :: "out_op list" and s0 :: "('l, 's) rpi outputs" and got :: bool
  assumes "lines_work k level works" "rpi_healthy works r"
    and "s = out_run ys (fst (pf_outputs_emergency_off got
               (out_run xs (pf_outputs_init (Some (pf_platform_rpi k)) (Some r) s0))))"
    and "g_inst s = Some j"
  shows "\<not> rpi_relay level j out"
proof -
  have "platform.mirrors (pf_platform_rpi k) (rpi_relay level) (rpi_healthy works) s"
    unfolding assms(3) by (rule rpi_run_mirrors [OF assms(1,2)])
  moreover have "all_safe s"
    unfolding assms(3) by (rule out_run_safe)
      (simp add: all_safe_def pf_outputs_emergency_off_def Let_def)
  ultimately show ?thesis
    using mirrors_relay_off [OF rpi_platform [OF assms(1)] _ _ assms(4)] by (simp add: all_safe_def)
qed

text \<open>A kernel whose lines remember what they were set to.\<close>

definition plain_kernel :: "(bool, unit) kernel" where
  "plain_kernel = \<lparr>k_line_set = (\<lambda>l b. (b, 0)), k_line_get = (\<lambda>l. if l then 1 else 0),
     k_write_attr = (\<lambda>s a v. (s, 0))\<rparr>"

definition rpi_example :: "(bool, unit) rpi" where
  "rpi_example = \<lparr>r_out = (\<lambda>out. if out = FAN then None else Some True), r_in = (\<lambda>_. None), r_pwm = None,
     r_dc_fan = False, r_pwm_hz = 25000, r_fan_pct = 0, r_state = (\<lambda>_. False)\<rparr>"

definition rpi_outputs_example :: "(bool, unit) rpi outputs" where
  "rpi_outputs_example = \<lparr>g_ops = None, g_inst = None, g_state = (\<lambda>_. False), g_fan_pct = 0, g_latched = False\<rparr>"

theorem rpi_emergency_off_relays_witness:
  "\<exists>j. g_inst (out_run [Set AUGER True] (fst (pf_outputs_emergency_off False
          (out_run [Set AUGER True] (pf_outputs_init (Some (pf_platform_rpi plain_kernel)) (Some rpi_example)
            rpi_outputs_example))))) = Some j \<and> \<not> rpi_relay (\<lambda>l. l) j AUGER"
proof -
  let ?s = "out_run [Set AUGER True] (fst (pf_outputs_emergency_off False
          (out_run [Set AUGER True] (pf_outputs_init (Some (pf_platform_rpi plain_kernel)) (Some rpi_example)
            rpi_outputs_example))))"
  have w: "lines_work plain_kernel (\<lambda>l. l) (\<lambda>_. True)" by (simp add: lines_work_def plain_kernel_def)
  have h: "rpi_healthy (\<lambda>_. True) rpi_example" by (simp add: rpi_healthy_def)
  obtain j where j: "g_inst ?s = Some j" using rpi_inst_exists [OF rpi_run_mirrors [OF w h] w] by blast
  from rpi_emergency_off_relays [OF w h refl j] j show ?thesis by blast
qed

end
