(* ===== verification/Sha256.thy ===== *)
theory Sha256
  imports Prelude
begin

text \<open>
  \<open>src/core/sha256.c\<close>: the hash that checks a downloaded release.  The C code keeps a 64-byte buffer
  and hashes it when it fills; the second half of the theory states SHA-256 as FIPS 180-4 does, on
  the padded message cut into blocks, and shows the one computes the other.
\<close>

unbundle bit_operations_syntax

type_synonym byte = "8 word"
type_synonym u32 = "32 word"
type_synonym u64 = "64 word"

section \<open>The code\<close>

record pf_sha256 =
  sh_h :: "u32 list"
  sh_len :: u64
  sh_buf :: "byte list"
  sh_buflen :: nat

definition K256 :: "u32 list" where
  "K256 =
     [0x428a2f98, 0x71374491, 0xb5c0fbcf, 0xe9b5dba5, 0x3956c25b, 0x59f111f1, 0x923f82a4, 0xab1c5ed5, 0xd807aa98, 0x12835b01, 0x243185be, 0x550c7dc3] @
     [0x72be5d74, 0x80deb1fe, 0x9bdc06a7, 0xc19bf174, 0xe49b69c1, 0xefbe4786, 0x0fc19dc6, 0x240ca1cc, 0x2de92c6f, 0x4a7484aa, 0x5cb0a9dc, 0x76f988da] @
     [0x983e5152, 0xa831c66d, 0xb00327c8, 0xbf597fc7, 0xc6e00bf3, 0xd5a79147, 0x06ca6351, 0x14292967, 0x27b70a85, 0x2e1b2138, 0x4d2c6dfc, 0x53380d13] @
     [0x650a7354, 0x766a0abb, 0x81c2c92e, 0x92722c85, 0xa2bfe8a1, 0xa81a664b, 0xc24b8b70, 0xc76c51a3, 0xd192e819, 0xd6990624, 0xf40e3585, 0x106aa070] @
     [0x19a4c116, 0x1e376c08, 0x2748774c, 0x34b0bcb5, 0x391c0cb3, 0x4ed8aa4a, 0x5b9cca4f, 0x682e6ff3, 0x748f82ee, 0x78a5636f, 0x84c87814, 0x8cc70208] @
     [0x90befffa, 0xa4506ceb, 0xbef9a3f7, 0xc67178f2]"

definition sha_iv :: "u32 list" where
  "sha_iv = [0x6a09e667, 0xbb67ae85, 0x3c6ef372, 0xa54ff53a, 0x510e527f, 0x9b05688c, 0x1f83d9ab, 0x5be0cd19]"

definition ROTR :: "u32 \<Rightarrow> nat \<Rightarrow> u32" where
  "ROTR x n = drop_bit n x OR push_bit (32 - n) x"

definition load_be :: "byte list \<Rightarrow> nat \<Rightarrow> u32" where
  "load_be p i = push_bit 24 (ucast (p ! (i * 4))) OR push_bit 16 (ucast (p ! (i * 4 + 1))) OR
                 push_bit 8 (ucast (p ! (i * 4 + 2))) OR ucast (p ! (i * 4 + 3))"

definition sched_next :: "u32 list \<Rightarrow> nat \<Rightarrow> u32" where
  "sched_next w i =
     (let s0 = ROTR (w ! (i - 15)) 7 XOR ROTR (w ! (i - 15)) 18 XOR drop_bit 3 (w ! (i - 15));
          s1 = ROTR (w ! (i - 2)) 17 XOR ROTR (w ! (i - 2)) 19 XOR drop_bit 10 (w ! (i - 2))
      in w ! (i - 16) + s0 + w ! (i - 7) + s1)"

definition sha_schedule :: "byte list \<Rightarrow> u32 list" where
  "sha_schedule p = foldl (\<lambda>w i. w @ [sched_next w i]) (map (load_be p) [0..<16]) [16..<64]"

type_synonym regs = "u32 \<times> u32 \<times> u32 \<times> u32 \<times> u32 \<times> u32 \<times> u32 \<times> u32"

fun sha_round :: "u32 list \<Rightarrow> regs \<Rightarrow> nat \<Rightarrow> regs" where
  "sha_round w (a, b, c, d, e, f, g, h) i =
     (let S1 = ROTR e 6 XOR ROTR e 11 XOR ROTR e 25;
          ch = (e AND f) XOR (NOT e AND g);
          t1 = h + S1 + ch + K256 ! i + w ! i;
          S0 = ROTR a 2 XOR ROTR a 13 XOR ROTR a 22;
          maj = (a AND b) XOR (a AND c) XOR (b AND c);
          t2 = S0 + maj
      in (t1 + t2, a, b, c, d + t1, e, f, g))"

definition regs_of :: "u32 list \<Rightarrow> regs" where
  "regs_of hs = (hs ! 0, hs ! 1, hs ! 2, hs ! 3, hs ! 4, hs ! 5, hs ! 6, hs ! 7)"

fun add_regs :: "u32 list \<Rightarrow> regs \<Rightarrow> u32 list" where
  "add_regs hs (a, b, c, d, e, f, g, h) =
     [hs ! 0 + a, hs ! 1 + b, hs ! 2 + c, hs ! 3 + d, hs ! 4 + e, hs ! 5 + f, hs ! 6 + g, hs ! 7 + h]"

definition sha_block :: "u32 list \<Rightarrow> byte list \<Rightarrow> u32 list" where
  "sha_block hs p = add_regs hs (foldl (sha_round (sha_schedule p)) (regs_of hs) [0..<64])"

definition pf_sha256_init :: pf_sha256 where
  "pf_sha256_init = \<lparr>sh_h = sha_iv, sh_len = 0, sh_buf = replicate 64 0, sh_buflen = 0\<rparr>"

text \<open>\<open>memcpy(buf + pos, src, n)\<close> with the whole of \<open>src\<close>.\<close>

definition memcpy_at :: "'a list \<Rightarrow> nat \<Rightarrow> 'a list \<Rightarrow> 'a list" where
  "memcpy_at buf pos src = take pos buf @ src @ drop (pos + length src) buf"

text \<open>The body of the loop: fill the buffer, and hash it when it is full.\<close>

definition sha_take :: "pf_sha256 \<Rightarrow> byte list \<Rightarrow> nat" where
  "sha_take s p = min (64 - sh_buflen s) (length p)"

definition sha_fill :: "pf_sha256 \<Rightarrow> byte list \<Rightarrow> pf_sha256" where
  "sha_fill s chunk =
     (let s = s\<lparr>sh_buf := memcpy_at (sh_buf s) (sh_buflen s) chunk,
                sh_buflen := sh_buflen s + length chunk\<rparr>
      in if sh_buflen s = 64 then s\<lparr>sh_h := sha_block (sh_h s) (sh_buf s), sh_buflen := 0\<rparr> else s)"

partial_function (option) sha_update_loop :: "pf_sha256 \<Rightarrow> byte list \<Rightarrow> pf_sha256 option" where
  "sha_update_loop s p =
     (if p = [] then Some s
      else sha_update_loop (sha_fill s (take (sha_take s p) p)) (drop (sha_take s p) p))"

definition pf_sha256_update :: "pf_sha256 \<Rightarrow> byte list \<Rightarrow> pf_sha256 option" where
  "pf_sha256_update s p = sha_update_loop (s\<lparr>sh_len := sh_len s + of_nat (length p)\<rparr>) p"

partial_function (option) sha_pad_loop :: "pf_sha256 \<Rightarrow> pf_sha256 option" where
  "sha_pad_loop s =
     (if sh_buflen s \<noteq> 56 then Option.bind (pf_sha256_update s [0]) sha_pad_loop else Some s)"

definition be64 :: "u64 \<Rightarrow> byte list" where
  "be64 n = map (\<lambda>i. ucast (drop_bit (56 - 8 * i) n)) [0..<8]"

definition be32 :: "u32 \<Rightarrow> byte list" where
  "be32 x = [ucast (drop_bit 24 x), ucast (drop_bit 16 x), ucast (drop_bit 8 x), ucast x]"

definition pf_sha256_final :: "pf_sha256 \<Rightarrow> byte list option" where
  "pf_sha256_final s =
     (let bits = sh_len s * 8
      in Option.bind (pf_sha256_update s [0x80]) (\<lambda>s.
         Option.bind (sha_pad_loop s) (\<lambda>s.
         Option.bind (pf_sha256_update s (be64 bits)) (\<lambda>s.
         Some (concat (map be32 (sh_h s)))))))"

text \<open>\<open>fread\<close> fills the 16384-byte buffer as long as the file has that much left.\<close>

function file_chunks :: "byte list \<Rightarrow> byte list list" where
  "file_chunks bs = (if bs = [] then [] else take 16384 bs # file_chunks (drop 16384 bs))"
  by pat_completeness auto
termination
  by (relation "measure length") auto

declare file_chunks.simps [simp del]

fun sha_update_all :: "pf_sha256 \<Rightarrow> byte list list \<Rightarrow> pf_sha256 option" where
  "sha_update_all s [] = Some s"
| "sha_update_all s (p # ps) = Option.bind (pf_sha256_update s p) (\<lambda>s. sha_update_all s ps)"

definition hex_digit :: "nat \<Rightarrow> char" where
  "hex_digit n = (if n < 10 then char_of (48 + n) else char_of (87 + n))"

definition hex_byte :: "byte \<Rightarrow> string" where
  "hex_byte b = [hex_digit (unat b div 16), hex_digit (unat b mod 16)]"

text \<open>A file that cannot be opened is \<open>None\<close>; then the C function returns -1.\<close>

definition pf_sha256_file :: "byte list option \<Rightarrow> string option" where
  "pf_sha256_file contents =
     (case contents of None \<Rightarrow> None
      | Some bs \<Rightarrow> Option.bind (sha_update_all pf_sha256_init (file_chunks bs)) (\<lambda>s.
                   map_option (\<lambda>d. concat (map hex_byte d)) (pf_sha256_final s)))"

section \<open>The standard\<close>

text \<open>FIPS 180-4, sections 4.1.2, 5.1.1 and 6.2, on a message of whole bytes.\<close>

definition fips_sigma :: "nat \<Rightarrow> nat \<Rightarrow> nat \<Rightarrow> u32 \<Rightarrow> u32" where
  "fips_sigma r1 r2 s x = word_rotr r1 x XOR word_rotr r2 x XOR drop_bit s x"

definition fips_Sigma :: "nat \<Rightarrow> nat \<Rightarrow> nat \<Rightarrow> u32 \<Rightarrow> u32" where
  "fips_Sigma r1 r2 r3 x = word_rotr r1 x XOR word_rotr r2 x XOR word_rotr r3 x"

function fips_W :: "byte list \<Rightarrow> nat \<Rightarrow> u32" where
  "fips_W m t =
     (if t < 16 then load_be m t
      else fips_sigma 17 19 10 (fips_W m (t - 2)) + fips_W m (t - 7) +
           fips_sigma 7 18 3 (fips_W m (t - 15)) + fips_W m (t - 16))"
  by pat_completeness auto
termination
  by (relation "measure snd") auto

declare fips_W.simps [simp del]

fun fips_round :: "byte list \<Rightarrow> regs \<Rightarrow> nat \<Rightarrow> regs" where
  "fips_round m (a, b, c, d, e, f, g, h) t =
     (let T1 = h + fips_Sigma 6 11 25 e + ((e AND f) XOR (NOT e AND g)) + K256 ! t + fips_W m t;
          T2 = fips_Sigma 2 13 22 a + ((a AND b) XOR (a AND c) XOR (b AND c))
      in (T1 + T2, a, b, c, d + T1, e, f, g))"

definition fips_compress :: "u32 list \<Rightarrow> byte list \<Rightarrow> u32 list" where
  "fips_compress hs m = add_regs hs (foldl (fips_round m) (regs_of hs) [0..<64])"

text \<open>The padding: a one bit, the least number of zeros that leaves eight bytes in the last block,
  and the length of the message in bits.\<close>

definition fips_pad :: "byte list \<Rightarrow> byte list" where
  "fips_pad m = m @ [0x80] @ replicate ((119 - length m mod 64) mod 64) 0 @ be64 (of_nat (8 * length m))"

function fips_blocks :: "u32 list \<Rightarrow> byte list \<Rightarrow> u32 list" where
  "fips_blocks hs m =
     (if length m < 64 then hs else fips_blocks (fips_compress hs (take 64 m)) (drop 64 m))"
  by pat_completeness auto
termination
  by (relation "measure (\<lambda>(hs, m). length m)") auto

declare fips_blocks.simps [simp del]

definition fips_sha256 :: "byte list \<Rightarrow> byte list" where
  "fips_sha256 m = concat (map be32 (fips_blocks sha_iv (fips_pad m)))"

section \<open>The block function is the compression function\<close>

lemma ROTR_word_rotr:
  assumes "0 < n" "n < 32"
  shows "ROTR x n = word_rotr n x"
proof (rule bit_word_eqI)
  fix i assume "i < LENGTH(32)"
  then have i: "i < 32" by simp
  show "bit (ROTR x n) i = bit (word_rotr n x) i"
  proof (cases "i + n < 32")
    case True
    with assms i show ?thesis by (auto simp: ROTR_def bit_simps add.commute)
  next
    case False
    then have "(i + n) mod 32 = i + n - 32" using assms i by (simp add: mod_if)
    moreover have "\<not> bit x (n + i)" using False bit_imp_le_length [of x "n + i"] by auto
    ultimately show ?thesis using False assms i by (auto simp: ROTR_def bit_simps)
  qed
qed

lemma sched_next_W:
  assumes "16 \<le> n" "\<And>k. 0 < k \<Longrightarrow> k \<le> 16 \<Longrightarrow> w ! (n - k) = fips_W p (n - k)"
  shows "sched_next w n = fips_W p n"
proof -
  have "sched_next w n = w ! (n - 16) + fips_sigma 7 18 3 (w ! (n - 15)) + w ! (n - 7) +
      fips_sigma 17 19 10 (w ! (n - 2))"
    by (simp add: sched_next_def Let_def fips_sigma_def ROTR_word_rotr)
  also have "\<dots> = fips_sigma 17 19 10 (fips_W p (n - 2)) + fips_W p (n - 7) +
      fips_sigma 7 18 3 (fips_W p (n - 15)) + fips_W p (n - 16)"
    using assms(2) [of 16] assms(2) [of 15] assms(2) [of 7] assms(2) [of 2]
    by (simp only: ac_simps)
  also have "\<dots> = fips_W p n" using assms(1) by (subst fips_W.simps [of p n]) simp
  finally show ?thesis .
qed

lemma schedule_W:
  assumes "16 \<le> n"
  shows "foldl (\<lambda>w i. w @ [sched_next w i]) (map (load_be p) [0..<16]) [16..<n] = map (fips_W p) [0..<n]"
  using assms
proof (induction n rule: nat_induct_at_least)
  case base
  have "load_be p i = fips_W p i" if "i < 16" for i using that by (subst fips_W.simps) simp
  then show ?case by simp
next
  case (Suc n)
  have "sched_next (map (fips_W p) [0..<n]) n = fips_W p n"
    by (rule sched_next_W) (use Suc.hyps in simp_all)
  with Suc show ?case by simp
qed

lemma sha_block_compress: "sha_block hs p = fips_compress hs p"
proof -
  have w: "sha_schedule p = map (fips_W p) [0..<64]"
    unfolding sha_schedule_def by (rule schedule_W) simp
  have "sha_round (sha_schedule p) r t = fips_round p r t" if "t < 64" for r t
  proof -
    obtain a b c d e f g h where "r = (a, b, c, d, e, f, g, h)" by (metis prod.exhaust)
    with that show ?thesis by (simp add: w fips_Sigma_def ROTR_word_rotr Let_def)
  qed
  then have "foldl (sha_round (sha_schedule p)) r [0..<n] = foldl (fips_round p) r [0..<n]" if "n \<le> 64" for r n
    using that by (induction n) simp_all
  then show ?thesis by (simp add: sha_block_def fips_compress_def)
qed

section \<open>The buffer is the rest of the message\<close>

definition sha_absorb :: "pf_sha256 \<Rightarrow> byte list \<Rightarrow> pf_sha256" where
  "sha_absorb s p = foldl (\<lambda>s b. sha_fill s [b]) s p"

definition sha_ok :: "pf_sha256 \<Rightarrow> bool" where
  "sha_ok s \<longleftrightarrow> length (sh_buf s) = 64 \<and> sh_buflen s < 64"

lemma length_memcpy_at [simp]: "pos + length src \<le> length buf \<Longrightarrow> length (memcpy_at buf pos src) = length buf"
  by (simp add: memcpy_at_def)

lemma sha_fill_ok: "sha_ok s \<Longrightarrow> length c \<le> 64 - sh_buflen s \<Longrightarrow> sha_ok (sha_fill s c)"
  by (auto simp: sha_ok_def sha_fill_def Let_def)

lemma sha_fill_len [simp]: "sh_len (sha_fill s c) = sh_len s"
  by (simp add: sha_fill_def Let_def)

lemma sha_fill_Cons:
  assumes "sha_ok s" "length (b # c) \<le> 64 - sh_buflen s" "c \<noteq> []"
  shows "sha_fill s (b # c) = sha_fill (sha_fill s [b]) c"
  using assms by (auto simp: sha_ok_def sha_fill_def Let_def memcpy_at_def add.commute [of "length c"])

lemma sha_fill_absorb:
  "sha_ok s \<Longrightarrow> length c \<le> 64 - sh_buflen s \<Longrightarrow> c \<noteq> [] \<Longrightarrow> sha_fill s c = sha_absorb s c"
proof (induction c arbitrary: s)
  case (Cons b c)
  show ?case
  proof (cases "c = []")
    case True
    then show ?thesis by (simp add: sha_absorb_def)
  next
    case False
    with Cons.prems have "length c \<le> 64 - sh_buflen (sha_fill s [b])"
      by (cases c) (auto simp: sha_fill_def Let_def)
    with Cons False sha_fill_Cons [of s b c] sha_fill_ok [of s "[b]"] show ?thesis
      by (simp add: sha_absorb_def)
  qed
qed simp

lemma sha_absorb_ok: "sha_ok s \<Longrightarrow> sha_ok (sha_absorb s p)"
proof (induction p arbitrary: s)
  case (Cons b p)
  have "sha_ok (sha_fill s [b])" using Cons.prems by (intro sha_fill_ok) (auto simp: sha_ok_def)
  from Cons.IH [OF this] show ?case by (simp add: sha_absorb_def)
qed (simp add: sha_absorb_def)

lemma sha_absorb_append: "sha_absorb s (p @ q) = sha_absorb (sha_absorb s p) q"
  by (simp add: sha_absorb_def)

lemma sha_absorb_len [simp]: "sh_len (sha_absorb s p) = sh_len s"
  by (induction p arbitrary: s) (simp_all add: sha_absorb_def)

text \<open>The loop over chunks returns, and does what feeding the bytes one by one does.\<close>

lemma sha_update_loop_absorb: "sha_ok s \<Longrightarrow> sha_update_loop s p = Some (sha_absorb s p)"
proof (induction "length p" arbitrary: s p rule: less_induct)
  case less
  show ?case
  proof (cases "p = []")
    case True
    then show ?thesis by (subst sha_update_loop.simps) (simp add: sha_absorb_def)
  next
    case False
    define n where "n = sha_take s p"
    have n: "0 < n" "n \<le> length p" "n \<le> 64 - sh_buflen s"
      using False less.prems by (auto simp: n_def sha_take_def sha_ok_def)
    then have c: "take n p \<noteq> []" "length (take n p) \<le> 64 - sh_buflen s" by auto
    have "length (drop n p) < length p" using n False by simp
    from less.hyps [OF this sha_fill_ok [OF less.prems c(2)]]
    have "sha_update_loop s p = Some (sha_absorb (sha_fill s (take n p)) (drop n p))"
      using False by (subst sha_update_loop.simps) (simp add: n_def)
    also have "\<dots> = Some (sha_absorb s (take n p @ drop n p))"
      using sha_fill_absorb [OF less.prems c(2,1)] by (simp only: sha_absorb_append)
    finally show ?thesis by simp
  qed
qed

lemma pf_sha256_update_absorb:
  "sha_ok s \<Longrightarrow> pf_sha256_update s p = Some (sha_absorb (s\<lparr>sh_len := sh_len s + of_nat (length p)\<rparr>) p)"
  by (simp add: pf_sha256_update_def sha_update_loop_absorb sha_ok_def)

subsection \<open>What the state stands for\<close>

definition sha_repr :: "pf_sha256 \<Rightarrow> byte list \<Rightarrow> bool" where
  "sha_repr s m \<longleftrightarrow> sha_ok s \<and> (\<exists>blk rest. m = blk @ rest \<and> 64 dvd length blk \<and>
     length rest = sh_buflen s \<and> take (sh_buflen s) (sh_buf s) = rest \<and> sh_h s = fips_blocks sha_iv blk)"

lemma fips_blocks_short: "length m < 64 \<Longrightarrow> fips_blocks hs m = hs"
  by (subst fips_blocks.simps) simp

lemma fips_blocks_append: "64 dvd length blk \<Longrightarrow> fips_blocks hs (blk @ x) = fips_blocks (fips_blocks hs blk) x"
proof (induction hs blk rule: fips_blocks.induct)
  case (1 hs blk)
  show ?case
  proof (cases "length blk < 64")
    case True
    with "1.prems" have "blk = []" by (auto dest: dvd_imp_le)
    then show ?thesis by (simp add: fips_blocks_short)
  next
    case False
    moreover have "64 dvd length (drop 64 blk)" using "1.prems" by (simp add: dvd_diff_nat)
    ultimately show ?thesis
      using "1.IH" by (simp add: fips_blocks.simps [of hs "blk @ x"] fips_blocks.simps [of hs blk])
  qed
qed

lemma fips_blocks_one: "length b = 64 \<Longrightarrow> fips_blocks hs b = fips_compress hs b"
  by (subst fips_blocks.simps) (simp add: fips_blocks_short)

lemma sha_repr_snoc:
  assumes "sha_repr s m"
  shows "sha_repr (sha_fill s [b]) (m @ [b])"
proof -
  from assms obtain blk rest where m: "m = blk @ rest" "64 dvd length blk" "length rest = sh_buflen s"
    "take (sh_buflen s) (sh_buf s) = rest" "sh_h s = fips_blocks sha_iv blk" and ok: "sha_ok s"
    unfolding sha_repr_def by blast
  have ok': "sha_ok (sha_fill s [b])" using ok by (intro sha_fill_ok) (auto simp: sha_ok_def)
  show ?thesis
  proof (cases "sh_buflen s = 63")
    case True
    then have "memcpy_at (sh_buf s) 63 [b] = rest @ [b]"
      using m ok by (simp add: memcpy_at_def sha_ok_def)
    moreover have "length (rest @ [b]) = 64" using True m by simp
    ultimately have "sh_h (sha_fill s [b]) = fips_blocks sha_iv (blk @ rest @ [b])" "sh_buflen (sha_fill s [b]) = 0"
      using True m by (simp_all add: sha_fill_def Let_def sha_block_compress fips_blocks_append fips_blocks_one)
    moreover have "64 dvd length (blk @ rest @ [b])" using m True by simp
    ultimately show ?thesis
      unfolding sha_repr_def using ok' m by (intro conjI exI [of _ "blk @ rest @ [b]"] exI [of _ "[]"]) simp_all
  next
    case False
    then have "sh_h (sha_fill s [b]) = fips_blocks sha_iv blk" "sh_buflen (sha_fill s [b]) = sh_buflen s + 1"
      "take (sh_buflen s + 1) (sh_buf (sha_fill s [b])) = rest @ [b]"
      using m ok by (simp_all add: sha_fill_def Let_def memcpy_at_def sha_ok_def)
    then show ?thesis
      unfolding sha_repr_def using ok' m by (intro conjI exI [of _ blk] exI [of _ "rest @ [b]"]) simp_all
  qed
qed

lemma sha_repr_absorb: "sha_repr s m \<Longrightarrow> sha_repr (sha_absorb s p) (m @ p)"
proof (induction p arbitrary: s m)
  case (Cons b p)
  from Cons.IH [OF sha_repr_snoc [OF Cons.prems], of b] show ?case by (simp add: sha_absorb_def)
qed (simp add: sha_absorb_def)

lemma sha_repr_len [simp]: "sha_repr (s\<lparr>sh_len := n\<rparr>) m = sha_repr s m"
  by (simp add: sha_repr_def sha_ok_def)

lemma sha_repr_init: "sha_repr pf_sha256_init []"
  by (simp add: sha_repr_def sha_ok_def pf_sha256_init_def fips_blocks_short)

lemma sha_repr_buflen: "sha_repr s m \<Longrightarrow> sh_buflen s = length m mod 64"
  by (auto simp: sha_repr_def sha_ok_def)

lemma sha_repr_update:
  assumes "sha_repr s m"
  obtains s' where "pf_sha256_update s p = Some s'" "sha_repr s' (m @ p)"
    "sh_len s' = sh_len s + of_nat (length p)"
proof -
  have "sha_ok s" using assms by (simp add: sha_repr_def)
  then show ?thesis
    using that [OF pf_sha256_update_absorb] sha_repr_absorb [of _ m p] assms by simp
qed

lemma sha_update_all_repr:
  assumes "sha_repr s m" "sh_len s = of_nat (length m)"
  shows "\<exists>s'. sha_update_all s ps = Some s' \<and> sha_repr s' (m @ concat ps) \<and>
    sh_len s' = of_nat (length (m @ concat ps))"
  using assms
proof (induction ps arbitrary: s m)
  case (Cons p ps)
  obtain s' where "pf_sha256_update s p = Some s'" "sha_repr s' (m @ p)"
    "sh_len s' = sh_len s + of_nat (length p)" using Cons.prems(1) by (rule sha_repr_update)
  with Cons.IH [of s' "m @ p"] Cons.prems(2) show ?case by simp
qed simp

lemma pad_mod:
  assumes "(r::nat) < 64"
  shows "(120 - r) mod 64 = (if r \<le> 56 then 56 - r else 120 - r)"
    and "(119 - r) mod 64 = (if r \<le> 55 then 55 - r else 119 - r)"
  using assms by (simp_all add: mod_if)

lemma pad_zero: "(120 - n mod 64) mod 64 = (0::nat) \<Longrightarrow> n mod 64 = 56"
  using pad_mod(1) [of "n mod 64"] by (simp split: if_splits)

lemma Suc_mod_64: "Suc n mod 64 = (if n mod 64 = 63 then 0 else Suc (n mod 64))"
  by (simp add: mod_Suc)

lemma pad_step_r:
  assumes "(r::nat) < 64" "(120 - r) mod 64 = Suc z"
  shows "(120 - (if r = 63 then 0 else Suc r)) mod 64 = z \<and> r \<noteq> 56"
proof (cases "r = 63")
  case True
  with assms(2) have "z = 56" by simp
  with True show ?thesis by simp
next
  case False
  with assms pad_mod(1) [of r] pad_mod(1) [of "Suc r"] show ?thesis
    by (cases "r \<le> 56") auto
qed

lemma pad_step:
  assumes "(120 - n mod 64) mod 64 = Suc z"
  shows "(120 - Suc n mod 64) mod 64 = z" "n mod 64 \<noteq> 56"
  using pad_step_r [OF _ assms] unfolding Suc_mod_64 by simp_all

lemma pad_first: "(120 - Suc n mod 64) mod 64 = (119 - n mod 64) mod (64::nat)"
  by (simp add: Suc_mod_64)

lemma pad_total: "(n + (1 + ((119 - n mod 64) mod 64 + 8))) mod 64 = (0::nat)"
proof -
  have "(n + (1 + ((119 - n mod 64) mod 64 + 8))) mod 64 =
      (n mod 64 + (1 + ((119 - n mod 64) mod 64 + 8))) mod 64"
    by (rule mod_add_left_eq [symmetric])
  also have "\<dots> = 0" using pad_mod(2) [of "n mod 64"] mod_less_divisor [of 64 n] by (simp split: if_splits)
  finally show ?thesis .
qed

lemma sha_pad_loop_repr:
  assumes "sha_repr s m" "(120 - length m mod 64) mod 64 = z"
  shows "\<exists>s'. sha_pad_loop s = Some s' \<and> sha_repr s' (m @ replicate z 0)"
  using assms
proof (induction z arbitrary: s m)
  case 0
  then have "sh_buflen s = 56" using sha_repr_buflen [OF 0(1)] pad_zero by simp
  with 0 show ?case by (subst sha_pad_loop.simps) simp
next
  case (Suc z)
  obtain s' where s': "pf_sha256_update s [0] = Some s'" "sha_repr s' (m @ [0])"
    using Suc.prems(1) by (rule sha_repr_update)
  have "(120 - length (m @ [0]) mod 64) mod 64 = z"
    using pad_step(1) [OF Suc.prems(2)] by (simp only: length_append_singleton)
  from Suc.IH [OF s'(2) this] obtain t where
    "sha_pad_loop s' = Some t" "sha_repr t ((m @ [0]) @ replicate z 0)" by blast
  moreover have "sh_buflen s \<noteq> 56" 
    using sha_repr_buflen [OF Suc.prems(1)] pad_step(2) [OF Suc.prems(2)] by simp
  ultimately show ?case using s' by (subst sha_pad_loop.simps) simp
qed

lemma pf_sha256_final_fips:
  assumes "sha_repr s m" "sh_len s = of_nat (length m)"
  shows "pf_sha256_final s = Some (fips_sha256 m)"
proof -
  obtain s1 where s1: "pf_sha256_update s [0x80] = Some s1" "sha_repr s1 (m @ [0x80])"
    using assms(1) by (rule sha_repr_update)
  have "(120 - length (m @ [0x80]) mod 64) mod 64 = (119 - length m mod 64) mod 64"
    by (simp only: length_append_singleton pad_first)
  from sha_pad_loop_repr [OF s1(2) this] obtain s2 where s2: "sha_pad_loop s1 = Some s2"
    "sha_repr s2 ((m @ [0x80]) @ replicate ((119 - length m mod 64) mod 64) 0)" by blast
  obtain s3 where s3: "pf_sha256_update s2 (be64 (sh_len s * 8)) = Some s3"
    "sha_repr s3 (((m @ [0x80]) @ replicate ((119 - length m mod 64) mod 64) 0) @ be64 (sh_len s * 8))"
    using s2(2) by (rule sha_repr_update)
  have "sh_len s * 8 = of_nat (8 * length m)" using assms(2) by simp
  with s3(2) have r: "sha_repr s3 (fips_pad m)" by (simp add: fips_pad_def)
  have "length (fips_pad m) = length m + (1 + ((119 - length m mod 64) mod 64 + 8))"
    by (simp add: fips_pad_def be64_def)
  then have "length (fips_pad m) mod 64 = 0" by (simp only: pad_total)
  with sha_repr_buflen [OF r] r have "sh_h s3 = fips_blocks sha_iv (fips_pad m)"
    by (auto simp: sha_repr_def)
  with s1 s2 s3 show ?thesis by (simp add: pf_sha256_final_def fips_sha256_def)
qed

text \<open>C39. The hash is SHA-256, however the data arrives: feeding a message to the code in any pieces,
  empty ones and pieces of any length included, and finishing, returns (the loops end) exactly the
  digest FIPS 180-4 defines for the whole message.\<close>

theorem sha256_streaming_is_fips:
  "Option.bind (sha_update_all pf_sha256_init ps) pf_sha256_final = Some (fips_sha256 (concat ps))"
proof -
  have "sh_len pf_sha256_init = of_nat (length ([] :: byte list))" by (simp add: pf_sha256_init_def)
  from sha_update_all_repr [OF sha_repr_init this, of ps]
  obtain s where "sha_update_all pf_sha256_init ps = Some s" "sha_repr s (concat ps)"
    "sh_len s = of_nat (length (concat ps))" by auto
  then show ?thesis by (simp add: pf_sha256_final_fips)
qed

lemma concat_file_chunks: "concat (file_chunks bs) = bs"
  by (induction bs rule: file_chunks.induct) (subst file_chunks.simps, simp)

text \<open>The hex digest of a file is that of its whole contents: two lower-case digits for each
  of the 32 bytes of the standard's digest; a file that cannot be opened is an error.\<close>

theorem sha256_file_digest:
  "pf_sha256_file contents =
     (case contents of None \<Rightarrow> None | Some bs \<Rightarrow> Some (concat (map hex_byte (fips_sha256 bs))))"
proof (cases contents)
  case (Some bs)
  have "Option.bind (sha_update_all pf_sha256_init (file_chunks bs)) pf_sha256_final = Some (fips_sha256 bs)"
    using sha256_streaming_is_fips [of "file_chunks bs"] by (simp add: concat_file_chunks)
  with Some show ?thesis
    by (auto simp: pf_sha256_file_def bind_eq_Some_conv)
qed (simp add: pf_sha256_file_def)

end
