(* ===== verification/Util.thy ===== *)
theory Util
  imports Common
begin

text \<open>
  \<open>src/core/util.c\<close>: bounded string copies and the JSON escaping of text the daemon prints into its
  own documents, and the lossy rings the daemon keeps its recent past in (\<open>events.c\<close>,
  \<open>history.c\<close>), as an interface.
\<close>

section \<open>Bounded copies\<close>

text \<open>\<open>pf_strlcpy\<close>: what is in the destination afterwards (with room for none, what was there) and
  the length of the source.\<close>

definition pf_strlcpy :: "string \<Rightarrow> string \<Rightarrow> nat \<Rightarrow> string \<times> nat" where
  "pf_strlcpy dst src n =
     (let l = length src
      in if n \<noteq> 0
         then let c = (if l < n - 1 then l else n - 1) in (take c src, l)
         else (dst, l))"

lemma pf_strlcpy_fits: "0 < n \<Longrightarrow> length (fst (pf_strlcpy dst src n)) < n"
  by (auto simp: pf_strlcpy_def Let_def)

lemma pf_strlcpy_whole: "length src < n \<Longrightarrow> pf_strlcpy dst src n = (src, length src)"
  by (auto simp: pf_strlcpy_def Let_def)

section \<open>JSON escaping\<close>

definition lower_hex :: "nat \<Rightarrow> char" where
  "lower_hex d = char_of (if d < 10 then d + 48 else d + 87)"

definition hex4 :: "nat \<Rightarrow> string" where
  "hex4 k = [lower_hex (k div 4096 mod 16), lower_hex (k div 256 mod 16),
             lower_hex (k div 16 mod 16), lower_hex (k mod 16)]"

text \<open>What one character becomes, and the loop, which stops while the longest of them still fits.\<close>

definition json_esc :: "char \<Rightarrow> string" where
  "json_esc c =
     (if c = CHR 0x22 then [CHR 0x5C, CHR 0x22]
      else if c = CHR 0x5C then [CHR 0x5C, CHR 0x5C]
      else if c = CHR 0x0A then [CHR 0x5C, CHR ''n'']
      else if c = CHR 0x0D then [CHR 0x5C, CHR ''r'']
      else if c = CHR 0x09 then [CHR 0x5C, CHR ''t'']
      else if (of_char c :: nat) < 32 then CHR 0x5C # CHR ''u'' # hex4 (of_char c)
      else [c])"

fun pf_json_escape :: "string \<Rightarrow> string \<Rightarrow> nat \<Rightarrow> string" where
  "pf_json_escape [] out n = out"
| "pf_json_escape (c # cs) out n =
     (if length out + 7 < n then pf_json_escape cs (out @ json_esc c) n else out)"

text \<open>What a reader of JSON makes of the escapes the daemon writes.\<close>

definition unhex :: "char \<Rightarrow> nat option" where
  "unhex c = (let k = of_char c in
     if 48 \<le> k \<and> k \<le> 57 then Some (k - 48) else if 97 \<le> k \<and> k \<le> 102 then Some (k - 87) else None)"

fun json_unesc :: "string \<Rightarrow> string option" where
  "json_unesc [] = Some []"
| "json_unesc (c # cs) =
     (if c = CHR 0x5C
      then (case cs of
          [] \<Rightarrow> None
        | e # r \<Rightarrow>
            (if e = CHR 0x22 \<or> e = CHR 0x5C then map_option ((#) e) (json_unesc r)
             else if e = CHR ''n'' then map_option ((#) (CHR 0x0A)) (json_unesc r)
             else if e = CHR ''r'' then map_option ((#) (CHR 0x0D)) (json_unesc r)
             else if e = CHR ''t'' then map_option ((#) (CHR 0x09)) (json_unesc r)
             else if e = CHR ''u''
             then (case r of
                 a # b # x # y # r' \<Rightarrow>
                   (case (unhex a, unhex b, unhex x, unhex y) of
                      (Some p, Some q, Some s, Some t) \<Rightarrow>
                        map_option ((#) (char_of (4096 * p + 256 * q + 16 * s + t))) (json_unesc r')
                    | _ \<Rightarrow> None)
               | _ \<Rightarrow> None)
             else None))
      else if c = CHR 0x22 \<or> (of_char c :: nat) < 32 then None
      else map_option ((#) c) (json_unesc cs))"

lemma length_json_esc: "length (json_esc c) \<le> 6"
  by (simp add: json_esc_def hex4_def)

lemma of_char_lt: "(of_char c :: nat) < 256"
  by (metis nat_of_char_less_256)

lemma unhex_lower_hex [simp]: "d < 16 \<Longrightarrow> unhex (lower_hex d) = Some d"
  by (auto simp: unhex_def lower_hex_def Let_def of_char_of)

lemma json_unesc_esc: "json_unesc (json_esc c @ r) = map_option ((#) c) (json_unesc r)"
proof -
  have split: "4096 * (k div 4096 mod 16) + 256 * (k div 256 mod 16) + 16 * (k div 16 mod 16) + k mod 16 = k"
    if "k < 32" for k :: nat
  proof -
    have "k div 4096 = 0" "k div 256 = 0" "k div 16 mod 16 = k div 16" using that by simp_all
    then show ?thesis using div_mult_mod_eq [of k 16] by simp
  qed
  consider "c \<in> {CHR 0x22, CHR 0x5C, CHR 0x0A, CHR 0x0D, CHR 0x09}"
    | "c \<notin> {CHR 0x22, CHR 0x5C, CHR 0x0A, CHR 0x0D, CHR 0x09}" "(of_char c :: nat) < 32"
    | "c \<notin> {CHR 0x22, CHR 0x5C, CHR 0x0A, CHR 0x0D, CHR 0x09}" "\<not> (of_char c :: nat) < 32" by blast
  then show ?thesis
  proof cases
    case 1
    then show ?thesis by (elim insertE emptyE) (simp_all add: json_esc_def)
  next
    case 2
    then have "json_unesc (json_esc c @ r) =
        map_option ((#) (char_of (4096 * (of_char c div 4096 mod 16) + 256 * (of_char c div 256 mod 16) +
          16 * (of_char c div 16 mod 16) + of_char c mod 16 :: nat))) (json_unesc r)"
      by (simp add: json_esc_def hex4_def)
    then show ?thesis unfolding split [OF 2(2)] by simp
  next
    case 3
    then show ?thesis by (simp add: json_esc_def)
  qed
qed

lemma json_escape_concat:
  "\<exists>k. pf_json_escape s out n = out @ concat (map json_esc (take k s)) \<and>
       (length out + 6 * length s + 1 < n \<longrightarrow> k = length s)"
proof (induction s arbitrary: out)
  case Nil
  then show ?case by simp
next
  case (Cons c cs)
  show ?case
  proof (cases "length out + 7 < n")
    case True
    from Cons.IH [of "out @ json_esc c"] obtain k where
      "pf_json_escape cs (out @ json_esc c) n = (out @ json_esc c) @ concat (map json_esc (take k cs))"
      "length (out @ json_esc c) + 6 * length cs + 1 < n \<longrightarrow> k = length cs" by blast
    with True length_json_esc [of c] show ?thesis by (intro exI [of _ "Suc k"]) auto
  next
    case False
    then show ?thesis by (intro exI [of _ 0]) auto
  qed
qed

lemma json_unesc_concat: "json_unesc (concat (map json_esc s)) = Some s"
  by (induction s) (simp_all add: json_unesc_esc)

lemma json_escape_fits: "length out < n \<Longrightarrow> length (pf_json_escape s out n) < n"
proof (induction s arbitrary: out)
  case (Cons c cs)
  then show ?case using length_json_esc [of c] by auto
qed simp

text \<open>Escaping text for JSON never overruns the buffer, and what it writes reads back as the text,
  whole when six characters of room are given for each of its own, and else cut at a character: an
  escape is never split.\<close>

theorem json_escape_reads_back:
  assumes "0 < n"
  shows "length (pf_json_escape s [] n) < n \<and>
         (\<exists>k. json_unesc (pf_json_escape s [] n) = Some (take k s) \<and>
              (6 * length s + 1 < n \<longrightarrow> take k s = s))"
proof -
  obtain k where "pf_json_escape s [] n = concat (map json_esc (take k s))"
    "6 * length s + 1 < n \<longrightarrow> k = length s"
    using json_escape_concat [of s "[]" n] by auto
  with json_escape_fits [of "[]" n s] json_unesc_concat [of "take k s"] assms show ?thesis by auto
qed

theorem json_escape_reads_back_witness:
  "length (pf_json_escape [CHR ''a'', CHR 0x22, CHR 0x01] [] 64) < 64"
  using json_escape_reads_back [of 64 "[CHR ''a'', CHR 0x22, CHR 0x01]"] by simp

section \<open>Lossy rings\<close>

text \<open>The last \<open>n\<close> of a list.\<close>

definition last_n :: "nat \<Rightarrow> 'a list \<Rightarrow> 'a list" where
  "last_n n xs = drop (length xs - n) xs"

lemma length_last_n [simp]: "length (last_n n xs) = min n (length xs)"
  by (simp add: last_n_def)

lemma last_n_all: "length xs \<le> n \<Longrightarrow> last_n n xs = xs"
  by (simp add: last_n_def)

lemma last_n_append: "last_n n (last_n n xs @ ys) = last_n n (xs @ ys)"
  by (cases "length xs \<le> n") (auto simp: last_n_def add.commute)

lemma last_n_last_n: "m \<le> n \<Longrightarrow> last_n m (last_n n xs) = last_n m xs"
  by (cases "length xs \<le> n") (auto simp: last_n_def)

text \<open>A ring that forgets its oldest entry when it is full.\<close>

locale lossy_ring =
  fixes cap :: nat
    and put :: "'a \<Rightarrow> 'r \<Rightarrow> 'r"
    and held :: "'r \<Rightarrow> 'a list"
    and invar :: "'r \<Rightarrow> bool"
  assumes put_held: "invar r \<Longrightarrow> held (put x r) = last_n cap (held r @ [x])"
    and put_invar: "invar r \<Longrightarrow> invar (put x r)"
    and held_cap: "invar r \<Longrightarrow> length (held r) \<le> cap"
begin

lemma put_all: "invar r \<Longrightarrow> held (fold put xs r) = last_n cap (held r @ xs) \<and> invar (fold put xs r)"
proof (induction xs arbitrary: r)
  case Nil
  then show ?case using held_cap [OF Nil] by (simp add: last_n_all)
next
  case (Cons x xs)
  from Cons.IH [OF put_invar [OF Cons.prems]] put_held [OF Cons.prems] show ?case
    by (simp add: last_n_append)
qed

end

text \<open>How such a ring lies in an array: \<open>len\<close> entries that end just before \<open>head\<close>.\<close>

definition ring_list :: "'a list \<Rightarrow> nat \<Rightarrow> nat \<Rightarrow> 'a list" where
  "ring_list buf head len =
     map (\<lambda>i. buf ! ((head + length buf - len + i) mod length buf)) [0..<len]"

lemma length_ring_list [simp]: "length (ring_list buf head len) = len"
  by (simp add: ring_list_def)

lemma ring_list_put:
  assumes "head < length buf" "len \<le> length buf" "cap = length buf"
  shows "ring_list (buf[head := x]) (Suc head mod cap) (if len < cap then Suc len else len) =
         last_n cap (ring_list buf head len @ [x])"
proof (rule nth_equalityI)
  let ?n = "length buf"
  let ?len = "if len < cap then Suc len else len"
  show "length (ring_list (buf[head := x]) (Suc head mod cap) ?len) =
        length (last_n cap (ring_list buf head len @ [x]))"
    using assms by simp
  fix i
  assume "i < length (ring_list (buf[head := x]) (Suc head mod cap) ?len)"
  then have i: "i < ?len" by simp
  have wrap: "(Suc head mod ?n + ?n - ?len + i) mod ?n = (Suc head + ?n - ?len + i) mod ?n"
  proof (cases "Suc head = ?n")
    case True
    have "?len \<le> ?n" using assms by simp
    then have "?n + ?n - ?len + i = (?n - ?len + i) + ?n" by linarith
    then show ?thesis unfolding True by (simp only: mod_self add_0 mod_add_self2)
  next
    case False
    with assms(1) show ?thesis by simp
  qed
  have other: "(head + ?n - k) mod ?n \<noteq> head" if "0 < k" "k < ?n" for k
  proof (cases "k \<le> head")
    case True
    then have "head + ?n - k = (head - k) + ?n" by simp
    then have "(head + ?n - k) mod ?n = head - k"
      using assms(1) by (metis less_imp_diff_less mod_add_self2 mod_less)
    with that True show ?thesis by simp
  next
    case False
    then have "head + ?n - k < ?n" using that by linarith
    then have "(head + ?n - k) mod ?n = head + ?n - k" by (rule mod_less)
    with that False show ?thesis by simp
  qed
  have new: "ring_list (buf[head := x]) (Suc head mod cap) ?len ! i =
      buf[head := x] ! ((Suc head + ?n - ?len + i) mod ?n)"
    using i wrap assms(3) by (simp add: ring_list_def)
  show "ring_list (buf[head := x]) (Suc head mod cap) ?len ! i =
        last_n cap (ring_list buf head len @ [x]) ! i"
  proof (cases "i = ?len - 1")
    case True
    then have "Suc head + ?n - ?len + i = head + ?n" using i assms by simp
    moreover have "last_n cap (ring_list buf head len @ [x]) ! i = x"
      using True i assms by (auto simp: last_n_def nth_append)
    ultimately show ?thesis using new assms(1) by simp
  next
    case False
    let ?k = "?len - 1 - i"
    have k: "0 < ?k" "?k < ?n" using False i assms by auto
    have "Suc head + ?n - ?len + i = head + ?n - ?k" using False i assms by auto
    then have "ring_list (buf[head := x]) (Suc head mod cap) ?len ! i = buf ! ((head + ?n - ?k) mod ?n)"
      using new other [OF k] by simp
    moreover have "last_n cap (ring_list buf head len @ [x]) ! i = buf ! ((head + ?n - ?k) mod ?n)"
    proof (cases "len < cap")
      case True
      then have "head + ?n - ?k = head + ?n - len + i" using False i assms by auto
      with True False i assms show ?thesis by (simp add: ring_list_def last_n_def nth_append)
    next
      case nf: False
      then have "head + ?n - ?k = head + ?n - len + Suc i" using False i assms by auto
      moreover have "Suc i < len" using nf False i assms by auto
      ultimately show ?thesis using nf i assms by (auto simp: ring_list_def last_n_def nth_append nth_upt)
    qed
    ultimately show ?thesis by simp
  qed
qed

section \<open>Numbers in messages\<close>

fun show_nat :: "nat \<Rightarrow> string" where
  "show_nat n = (if n < 10 then [char_of (48 + n)] else show_nat (n div 10) @ [char_of (48 + n mod 10)])"

declare show_nat.simps [simp del]

definition show_int :: "int \<Rightarrow> string" where
  "show_int i = (if i < 0 then CHR ''-'' # show_nat (nat (- i)) else show_nat (nat i))"

text \<open>\<open>%.0f\<close>: to the nearest whole number, a half to the even one.\<close>

definition rint :: "real \<Rightarrow> int" where
  "rint r = (let f = \<lfloor>r\<rfloor>; d = r - of_int f
             in if d < 1 / 2 then f else if 1 / 2 < d then f + 1 else if even f then f else f + 1)"

fun fmt_f0 :: "fl \<Rightarrow> string" where
  "fmt_f0 (Fin r) = (if r < 0 then CHR ''-'' # show_nat (nat (rint (- r))) else show_nat (nat (rint r)))"
| "fmt_f0 PInf = ''inf''"
| "fmt_f0 NInf = ''-inf''"
| "fmt_f0 NaN = ''nan''"

text \<open>\<open>snprintf\<close> of a text into a buffer.\<close>

definition sn :: "nat \<Rightarrow> string \<Rightarrow> string" where "sn n s = take (n - 1) s"

text \<open>The degree sign and the middle dot in UTF-8, and the remainder of C, with the sign of the dividend.\<close>

definition degree :: string where "degree = [CHR 0xC2, CHR 0xB0]"
definition mid_dot :: string where "mid_dot = [CHR 0xC2, CHR 0xB7]"

definition c_rem :: "int \<Rightarrow> int \<Rightarrow> int" where "c_rem a b = (if 0 \<le> a then a mod b else - (- a mod b))"

end
