(* ===== verification/Events.thy ===== *)
theory Events
  imports Util
begin

text \<open>
  \<open>src/core/events.c\<close>: the event bus.  An event is logged, stored in the database when one is open,
  kept in a ring of 32 for the user interface, offered to every registered sink, and listed among the
  alarms unless it is the daemon's own bookkeeping.  A sink is a number here and \<open>es_sent\<close> records what
  it was called with; \<open>es_db\<close> and \<open>es_alarms\<close> record the calls of \<open>pf_db_event\<close> and
  \<open>pf_alarms_note\<close>; the wall clock is a field.  The printed body stays a symbolic message.
\<close>

definition EV_RING :: nat where "EV_RING = 32"
definition MAX_SINKS :: nat where "MAX_SINKS = 8"

definition PF_CRIT_INFO :: int where "PF_CRIT_INFO = 0"
definition PF_CRIT_NORMAL :: int where "PF_CRIT_NORMAL = 1"
definition PF_CRIT_HIGH :: int where "PF_CRIT_HIGH = 2"
definition PF_CRIT_CRITICAL :: int where "PF_CRIT_CRITICAL = 3"

definition PF_LVL_INFO :: int where "PF_LVL_INFO = 1"
definition PF_LVL_WARN :: int where "PF_LVL_WARN = 2"
definition PF_LVL_ERROR :: int where "PF_LVL_ERROR = 3"

definition PF_SINK_APP :: "32 word" where "PF_SINK_APP = 1"
definition PF_SINK_ALL :: "32 word" where "PF_SINK_ALL = 0xFFFFFFFF"

record pf_event =
  ev_ts :: fl
  ev_code :: string
  ev_title :: string
  ev_body :: msg
  ev_crit :: int
  ev_sinks :: "32 word"

record db_event =
  de_level :: int
  de_code :: string
  de_title :: string
  de_body :: msg

record events =
  es_ring :: "pf_event list"
  es_head :: nat
  es_len :: nat
  es_gen :: "32 word"
  es_sinks :: "nat list"
  es_sent :: "(nat \<times> pf_event) list"
  es_db_open :: bool
  es_db :: "db_event list"
  es_alarms :: "pf_event list"
  es_wall :: fl

definition pf_events_init :: "events \<Rightarrow> events" where
  "pf_events_init s = s\<lparr>es_head := 0, es_len := 0, es_sinks := []\<rparr>"

definition pf_events_add_sink :: "nat \<Rightarrow> events \<Rightarrow> events \<times> int" where
  "pf_events_add_sink f s =
     (if length (es_sinks s) < MAX_SINKS then (s\<lparr>es_sinks := es_sinks s @ [f]\<rparr>, 0) else (s, -1))"

definition housekeeping :: "string \<Rightarrow> bool" where
  "housekeeping code \<longleftrightarrow>
     code \<in> {''MODE'', ''SYS_START'', ''SYS_STOP''} \<or> take 7 code = ''UPDATE_'' \<or> take 5 code = ''RULE_''"

text \<open>A row of the events table, written by \<open>pf_db_event\<close> wherever a database is open.\<close>

definition pf_db_event :: "int \<Rightarrow> string \<Rightarrow> string \<Rightarrow> msg \<Rightarrow> events \<Rightarrow> events" where
  "pf_db_event level code title body s =
     (if es_db_open s
      then s\<lparr>es_db := es_db s @ [\<lparr>de_level = level, de_code = code, de_title = title, de_body = body\<rparr>]\<rparr>
      else s)"

definition ring_put :: "pf_event \<Rightarrow> events \<Rightarrow> events" where
  "ring_put e s =
     s\<lparr>es_ring := (es_ring s)[es_head s := e],
       es_head := (es_head s + 1) mod EV_RING,
       es_len := (if es_len s < EV_RING then es_len s + 1 else es_len s),
       es_gen := es_gen s + 1\<rparr>"

definition emit_v :: "string \<Rightarrow> int \<Rightarrow> 32 word \<Rightarrow> string \<Rightarrow> msg \<Rightarrow> events \<Rightarrow> events" where
  "emit_v code crit sinks title body s =
     (let e = \<lparr>ev_ts = es_wall s, ev_code = fst (pf_strlcpy [] code 40), ev_title = fst (pf_strlcpy [] title 96),
               ev_body = body, ev_crit = crit, ev_sinks = sinks\<rparr>;
          level = (if PF_CRIT_CRITICAL \<le> crit then PF_LVL_ERROR
                   else if PF_CRIT_HIGH \<le> crit then PF_LVL_WARN else PF_LVL_INFO);
          s = pf_db_event level code (ev_title e) body s;
          s = ring_put e s;
          s = s\<lparr>es_sent := es_sent s @ map (\<lambda>f. (f, e)) (es_sinks s)\<rparr>
      in if and (ev_sinks e) PF_SINK_APP \<noteq> 0 \<and> \<not> housekeeping (ev_code e)
         then s\<lparr>es_alarms := es_alarms s @ [e]\<rparr> else s)"

definition crit_from_code :: "string \<Rightarrow> int" where
  "crit_from_code code =
     (let digit = (\<lambda>c. 48 \<le> (of_char c :: nat) \<and> (of_char c :: nat) \<le> 57)
      in case code of
           c # d # r \<Rightarrow> (if c = CHR ''E'' \<and> digit d then PF_CRIT_CRITICAL
                         else if c = CHR ''W'' \<and> digit d then PF_CRIT_HIGH else PF_CRIT_NORMAL)
         | _ \<Rightarrow> PF_CRIT_NORMAL)"

definition pf_events_emit :: "string \<Rightarrow> string \<Rightarrow> msg \<Rightarrow> events \<Rightarrow> events" where
  "pf_events_emit code title body s = emit_v code (crit_from_code code) PF_SINK_ALL title body s"

definition pf_events_emit_ex :: "string \<Rightarrow> int \<Rightarrow> 32 word \<Rightarrow> string \<Rightarrow> msg \<Rightarrow> events \<Rightarrow> events" where
  "pf_events_emit_ex code crit sinks title body s = emit_v code crit sinks title body s"

text \<open>The newest \<open>mx\<close> entries, newest last; a negative count is converted to unsigned and asks for all.\<close>

definition pf_events_recent :: "int \<Rightarrow> events \<Rightarrow> pf_event list" where
  "pf_events_recent mx s =
     (let um = unat (word_of_int mx :: 32 word);
          count = (if es_len s < um then es_len s else um);
          start = (es_head s + EV_RING - count) mod EV_RING
      in map (\<lambda>i. es_ring s ! ((start + i) mod EV_RING)) [0..<count])"

definition pf_events_generation :: "events \<Rightarrow> 32 word" where
  "pf_events_generation s = es_gen s"

section \<open>The ring keeps the last 32\<close>

definition events_inv :: "events \<Rightarrow> bool" where
  "events_inv s \<longleftrightarrow> length (es_ring s) = EV_RING \<and> es_head s < EV_RING \<and> es_len s \<le> EV_RING"

definition events_held :: "events \<Rightarrow> pf_event list" where
  "events_held s = ring_list (es_ring s) (es_head s) (es_len s)"

lemma ring_put_held: "events_inv s \<Longrightarrow> events_held (ring_put e s) = last_n EV_RING (events_held s @ [e])"
  using ring_list_put [of "es_head s" "es_ring s" "es_len s" EV_RING e]
  by (cases "es_len s < EV_RING") (simp_all add: events_inv_def events_held_def ring_put_def)

lemma ring_put_inv: "events_inv s \<Longrightarrow> events_inv (ring_put e s)"
  by (auto simp: events_inv_def ring_put_def EV_RING_def)

text \<open>The parts of the bus an event leaves alone, and the parts it does not.\<close>

lemma pf_db_event_frame [frame, simp]:
  "es_ring (pf_db_event l c t b s) = es_ring s" "es_head (pf_db_event l c t b s) = es_head s"
  "es_len (pf_db_event l c t b s) = es_len s" "es_gen (pf_db_event l c t b s) = es_gen s"
  "es_sinks (pf_db_event l c t b s) = es_sinks s" "es_sent (pf_db_event l c t b s) = es_sent s"
  "es_alarms (pf_db_event l c t b s) = es_alarms s" "es_db_open (pf_db_event l c t b s) = es_db_open s"
  "es_wall (pf_db_event l c t b s) = es_wall s"
  by (simp_all add: pf_db_event_def)

definition sent_event :: "string \<Rightarrow> int \<Rightarrow> 32 word \<Rightarrow> string \<Rightarrow> msg \<Rightarrow> fl \<Rightarrow> pf_event" where
  "sent_event code crit sinks title body wall =
     \<lparr>ev_ts = wall, ev_code = take 39 code, ev_title = take 95 title, ev_body = body, ev_crit = crit, ev_sinks = sinks\<rparr>"

lemma strlcpy_take: "0 < n \<Longrightarrow> fst (pf_strlcpy d s n) = take (n - 1) s"
  by (simp add: pf_strlcpy_def Let_def)

lemma emit_v_held:
  assumes "events_inv s"
  shows "events_inv (emit_v code crit sinks title body s)"
    and "events_held (emit_v code crit sinks title body s) =
         last_n EV_RING (events_held s @ [sent_event code crit sinks title body (es_wall s)])"
    and "es_sent (emit_v code crit sinks title body s) =
         es_sent s @ map (\<lambda>f. (f, sent_event code crit sinks title body (es_wall s))) (es_sinks s)"
    and "es_sinks (emit_v code crit sinks title body s) = es_sinks s"
    and "es_wall (emit_v code crit sinks title body s) = es_wall s"
proof -
  let ?s = "pf_db_event (if PF_CRIT_CRITICAL \<le> crit then PF_LVL_ERROR
                   else if PF_CRIT_HIGH \<le> crit then PF_LVL_WARN else PF_LVL_INFO) code (take 95 title) body s"
  let ?e = "sent_event code crit sinks title body (es_wall s)"
  have inv: "events_inv ?s" using assms by (simp add: events_inv_def)
  have held: "events_held ?s = events_held s" by (simp add: events_held_def)
  show "events_inv (emit_v code crit sinks title body s)"
    using ring_put_inv [OF inv, of ?e]
    by (simp add: emit_v_def Let_def strlcpy_take sent_event_def events_inv_def)
  show "events_held (emit_v code crit sinks title body s) = last_n EV_RING (events_held s @ [?e])"
    using ring_put_held [OF inv, of ?e] held
    by (simp add: emit_v_def Let_def strlcpy_take sent_event_def events_held_def)
qed (simp_all add: emit_v_def Let_def strlcpy_take sent_event_def ring_put_def)

type_synonym emission = "string \<times> int \<times> 32 word \<times> string \<times> msg"

definition emit_one :: "emission \<Rightarrow> events \<Rightarrow> events" where
  "emit_one x s = (case x of (code, crit, sinks, title, body) \<Rightarrow> pf_events_emit_ex code crit sinks title body s)"

definition as_sent :: "fl \<Rightarrow> emission \<Rightarrow> pf_event" where
  "as_sent wall x = (case x of (code, crit, sinks, title, body) \<Rightarrow> sent_event code crit sinks title body wall)"

lemma emit_one_held:
  "events_inv s \<Longrightarrow> events_held (emit_one x s) = last_n EV_RING (events_held s @ [as_sent (es_wall s) x])"
  "events_inv s \<Longrightarrow> events_inv (emit_one x s)"
  by (simp_all add: emit_one_def as_sent_def pf_events_emit_ex_def emit_v_held split: prod.splits)

lemma emit_one_sent:
  "events_inv s \<Longrightarrow> es_sent (emit_one x s) = es_sent s @ map (\<lambda>f. (f, as_sent (es_wall s) x)) (es_sinks s)"
  "events_inv s \<Longrightarrow> es_sinks (emit_one x s) = es_sinks s"
  "events_inv s \<Longrightarrow> es_wall (emit_one x s) = es_wall s"
  by (simp_all add: emit_one_def as_sent_def pf_events_emit_ex_def emit_v_held split: prod.splits)

interpretation event_ring: lossy_ring EV_RING ring_put events_held events_inv
  by unfold_locales (simp_all add: ring_put_held ring_put_inv, simp add: events_inv_def events_held_def)

lemma emit_all:
  assumes "events_inv s"
  shows "events_held (fold emit_one xs s) = last_n EV_RING (events_held s @ map (as_sent (es_wall s)) xs) \<and>
         events_inv (fold emit_one xs s) \<and>
         es_sent (fold emit_one xs s) =
           es_sent s @ concat (map (\<lambda>x. map (\<lambda>f. (f, as_sent (es_wall s) x)) (es_sinks s)) xs)"
  using assms
proof (induction xs arbitrary: s)
  case Nil
  then show ?case using event_ring.held_cap [OF Nil] by (simp add: last_n_all)
next
  case (Cons x xs)
  from Cons.IH [OF emit_one_held(2) [OF Cons.prems]] show ?case
    by (simp add: emit_one_held emit_one_sent Cons.prems last_n_append)
qed

lemma recent_is_last:
  assumes "events_inv s" "0 \<le> mx" "mx < 2 ^ 31"
  shows "pf_events_recent mx s = last_n (nat mx) (events_held s)"
proof -
  have u: "unat (word_of_int mx :: 32 word) = nat mx"
    using assms by (simp add: unat_eq_nat_uint uint_word_of_int_eq take_bit_int_eq_self)
  let ?count = "if es_len s < nat mx then es_len s else nat mx"
  have c: "?count \<le> es_len s" "es_len s \<le> EV_RING" using assms by (auto simp: events_inv_def)
  show ?thesis
  proof (rule nth_equalityI)
    show "length (pf_events_recent mx s) = length (last_n (nat mx) (events_held s))"
      by (simp add: pf_events_recent_def Let_def u events_held_def)
    fix i
    assume "i < length (pf_events_recent mx s)"
    then have i: "i < ?count" by (simp add: pf_events_recent_def Let_def u)
    have "((es_head s + EV_RING - ?count) mod EV_RING + i) mod EV_RING =
          (es_head s + EV_RING - es_len s + (es_len s - ?count + i)) mod EV_RING"
      unfolding mod_add_left_eq using c by (intro arg_cong [where f = "\<lambda>x. x mod EV_RING"]) linarith
    then show "pf_events_recent mx s ! i = last_n (nat mx) (events_held s) ! i"
      using i c assms(1)
      by (auto simp: pf_events_recent_def Let_def u events_held_def last_n_def ring_list_def events_inv_def add.assoc)
  qed
qed

text \<open>The user interface sees the newest events in order: whatever was emitted, the last \<open>mx\<close> of
  the ring (at most 32) are the last of everything held before followed by everything emitted, and every
  registered sink has been called once with each event, in the order of emission.\<close>

theorem events_recent_and_delivered:
  assumes "events_inv s" "0 \<le> mx" "mx \<le> 32"
  shows "pf_events_recent mx (fold emit_one xs s) =
           last_n (nat mx) (events_held s @ map (as_sent (es_wall s)) xs) \<and>
         (f \<in> set (es_sinks s) \<and> distinct (es_sinks s) \<and> es_sent s = [] \<longrightarrow>
           map snd (filter (\<lambda>p. fst p = f) (es_sent (fold emit_one xs s))) = map (as_sent (es_wall s)) xs)"
proof
  note e = emit_all [OF assms(1), of xs]
  have "nat mx \<le> EV_RING" using assms by (simp add: EV_RING_def)
  then show "pf_events_recent mx (fold emit_one xs s) =
           last_n (nat mx) (events_held s @ map (as_sent (es_wall s)) xs)"
    using e recent_is_last [of "fold emit_one xs s" mx] assms last_n_last_n by simp
  have one: "filter (\<lambda>p. fst p = f) (map (\<lambda>g. (g, y)) l) = [(f, y)]"
    if "f \<in> set l" "distinct l" for l :: "nat list" and y :: pf_event
    using that by (induction l) (auto simp: filter_empty_conv)
  show "f \<in> set (es_sinks s) \<and> distinct (es_sinks s) \<and> es_sent s = [] \<longrightarrow>
           map snd (filter (\<lambda>p. fst p = f) (es_sent (fold emit_one xs s))) = map (as_sent (es_wall s)) xs"
    using e by (auto simp: filter_concat map_concat one comp_def)
qed

definition events_example :: events where
  "events_example = \<lparr>es_ring = replicate 32 undefined, es_head = 30, es_len = 0, es_gen = 0, es_sinks = [4, 7],
     es_sent = [], es_db_open = True, es_db = [], es_alarms = [], es_wall = 5\<rparr>"

theorem events_recent_and_delivered_witness:
  "map ev_code (pf_events_recent 2 (fold emit_one
     [(''A'', 1, 1, ''a'', no_msg), (''B'', 1, 1, ''b'', no_msg), (''C'', 1, 1, ''c'', no_msg)] events_example)) =
   [''B'', ''C'']"
  using events_recent_and_delivered [of events_example 2
     "[(''A'', 1, 1, ''a'', no_msg), (''B'', 1, 1, ''b'', no_msg), (''C'', 1, 1, ''c'', no_msg)]" 4]
  by (simp add: events_example_def events_inv_def EV_RING_def last_n_def as_sent_def sent_event_def
      events_held_def ring_list_def)

end
