(* ===== verification/Json.thy ===== *)
theory Json
  imports Util
begin

text \<open>
  JSON documents as cJSON holds them, and the generic helpers of \<open>src/core/settings.c\<close>: lookup by
  dotted path, typed readers, deep merge and the filling of defaults.  An object keeps its members in
  order and a lookup finds the first of a name.  A pointer into the tree is the path that led there.
\<close>

datatype json =
    JNull
  | JBool bool
  | JNum fl
  | JStr string
  | JArr "json list"
  | JObj "(string \<times> json) list"

fun j_is_num :: "json option \<Rightarrow> bool" where
  "j_is_num (Some (JNum _)) = True"
| "j_is_num _ = False"

fun j_is_str :: "json option \<Rightarrow> bool" where
  "j_is_str (Some (JStr _)) = True"
| "j_is_str _ = False"

fun j_is_obj :: "json option \<Rightarrow> bool" where
  "j_is_obj (Some (JObj _)) = True"
| "j_is_obj _ = False"

fun j_is_arr :: "json option \<Rightarrow> bool" where
  "j_is_arr (Some (JArr _)) = True"
| "j_is_arr _ = False"

section \<open>cJSON objects and arrays\<close>

fun j_find :: "(string \<Rightarrow> bool) \<Rightarrow> (string \<times> json) list \<Rightarrow> json option" where
  "j_find p [] = None"
| "j_find p ((k, v) # ms) = (if p k then Some v else j_find p ms)"

text \<open>\<open>cJSON_GetObjectItemCaseSensitive\<close>, \<open>cJSON_GetObjectItem\<close> and \<open>cJSON_GetArrayItem\<close>.\<close>

fun j_get :: "string \<Rightarrow> json \<Rightarrow> json option" where
  "j_get k (JObj ms) = j_find ((=) k) ms"
| "j_get k _ = None"

fun j_get_ci :: "string \<Rightarrow> json \<Rightarrow> json option" where
  "j_get_ci k (JObj ms) = j_find (strcase_eq k) ms"
| "j_get_ci k _ = None"

fun j_nth :: "int \<Rightarrow> json \<Rightarrow> json option" where
  "j_nth i (JArr xs) = (if 0 \<le> i \<and> i < int (length xs) then Some (xs ! nat i) else None)"
| "j_nth i _ = None"

fun j_children :: "json option \<Rightarrow> json list" where
  "j_children (Some (JArr xs)) = xs"
| "j_children (Some (JObj ms)) = map snd ms"
| "j_children _ = []"

text \<open>Replacing the first member of a name, and adding a member at the end.\<close>

fun j_replace :: "string \<Rightarrow> json \<Rightarrow> (string \<times> json) list \<Rightarrow> (string \<times> json) list" where
  "j_replace k v [] = []"
| "j_replace k v ((k', v') # ms) = (if k' = k then (k, v) # ms else (k', v') # j_replace k v ms)"

definition j_put :: "string \<Rightarrow> json \<Rightarrow> (string \<times> json) list \<Rightarrow> (string \<times> json) list" where
  "j_put k v ms = (if j_find ((=) k) ms = None then ms @ [(k, v)] else j_replace k v ms)"

section \<open>Numbers in text\<close>

definition is_space :: "char \<Rightarrow> bool" where
  "is_space c \<longleftrightarrow> (of_char c :: nat) \<in> {9, 10, 11, 12, 13, 32}"

definition digit_val :: "char \<Rightarrow> nat option" where
  "digit_val c = (let k = of_char c in if 48 \<le> k \<and> k \<le> 57 then Some (k - 48) else None)"

fun take_digits :: "string \<Rightarrow> nat \<Rightarrow> nat \<Rightarrow> nat \<times> nat \<times> string" where
  "take_digits [] acc n = (acc, n, [])"
| "take_digits (c # cs) acc n =
     (case digit_val c of Some d \<Rightarrow> take_digits cs (10 * acc + d) (n + 1) | None \<Rightarrow> (acc, n, c # cs))"

definition take_sign :: "string \<Rightarrow> bool \<times> string" where
  "take_sign s = (case s of
       c # r \<Rightarrow> (if c = CHR ''-'' then (True, r) else if c = CHR ''+'' then (False, r) else (False, s))
     | [] \<Rightarrow> (False, s))"

text \<open>
  \<open>strtol (s, &end, 10)\<close>: the value and what is left, all of it when there is no number.  A value out
  of range of the 64-bit \<open>long\<close> saturates, and the cast to \<open>int\<close> keeps the low 32 bits.
\<close>

definition strtol10 :: "string \<Rightarrow> int \<times> string" where
  "strtol10 s =
     (let (neg, r) = take_sign (dropWhile is_space s);
          (v, n, r') = take_digits r 0 0;
          i = (if neg then - int v else int v)
      in if n = 0 then (0, s) else (max (- (2 ^ 63)) (min (2 ^ 63 - 1) i), r'))"

definition long_to_int :: "int \<Rightarrow> int" where
  "long_to_int v = (v + 2 ^ 31) mod 2 ^ 32 - 2 ^ 31"

text \<open>
  \<open>strtod\<close> on decimal numbers, infinities and NaN; the value if there is one.  Hexadecimal
  floating-point text is not read (the C library would read it).
\<close>

definition has_prefix_ci :: "string \<Rightarrow> string \<Rightarrow> bool" where
  "has_prefix_ci p s = strcase_eq p (take (length p) s)"

definition strtod_exp :: "string \<Rightarrow> int" where
  "strtod_exp s = (case s of
       c # r \<Rightarrow> (if c = CHR ''e'' \<or> c = CHR ''E''
                 then (let (neg, r') = take_sign r; (v, n, _) = take_digits r' 0 0
                       in if n = 0 then 0 else if neg then - int v else int v)
                 else 0)
     | [] \<Rightarrow> 0)"

definition pow10 :: "int \<Rightarrow> real" where
  "pow10 e = (if 0 \<le> e then 10 ^ nat e else 1 / 10 ^ nat (- e))"

definition strtod :: "string \<Rightarrow> fl option" where
  "strtod s =
     (let (neg, r) = take_sign (dropWhile is_space s);
          sg = (\<lambda>x. if neg then - x else (x::fl))
      in if has_prefix_ci ''inf'' r then Some (sg PInf)
         else if has_prefix_ci ''nan'' r then Some NaN
         else let (v, n, r1) = take_digits r 0 0;
                  (w, m, r2) = (case r1 of
                      c # q \<Rightarrow> (if c = CHR ''.'' then take_digits q v 0 else (v, 0, r1))
                    | [] \<Rightarrow> (v, 0, r1))
              in if n + m = 0 then None
                 else Some (sg (Fin (real w * pow10 (strtod_exp r2 - int m)))))"

section \<open>Paths\<close>

text \<open>\<open>strtok_r (.., ".")\<close>: the pieces between dots, empty ones skipped.\<close>

fun split_dots :: "string \<Rightarrow> string \<Rightarrow> string list" where
  "split_dots [] cur = (if cur = [] then [] else [cur])"
| "split_dots (c # cs) cur =
     (if c = CHR ''.'' then (if cur = [] then split_dots cs [] else cur # split_dots cs [])
      else split_dots cs (cur @ [c]))"

definition path_toks :: "string \<Rightarrow> string list" where
  "path_toks path = split_dots (fst (pf_strlcpy [] path 256)) []"

definition j_step :: "string \<Rightarrow> json \<Rightarrow> json option" where
  "j_step tok cur =
     (case cur of
        JArr _ \<Rightarrow> (case strtol10 tok of (idx, end) \<Rightarrow> if end \<noteq> [] then None else j_nth (long_to_int idx) cur)
      | _ \<Rightarrow> j_get tok cur)"

fun j_walk :: "string list \<Rightarrow> json \<Rightarrow> json option" where
  "j_walk [] cur = Some cur"
| "j_walk (tok # toks) cur = (case j_step tok cur of None \<Rightarrow> None | Some n \<Rightarrow> j_walk toks n)"

definition pf_json_path :: "json option \<Rightarrow> string \<Rightarrow> json option" where
  "pf_json_path rt path =
     (case rt of None \<Rightarrow> None | Some r \<Rightarrow> (if path = [] then Some r else j_walk (path_toks path) r))"

text \<open>A number as it is printed: \<open>cJSON\<close> prints what is not finite as \<open>null\<close>.\<close>

definition jnum :: "fl \<Rightarrow> json" where "jnum v = (if isnan v \<or> isinf v then JNull else JNum v)"

text \<open>\<open>%.4f\<close> and its like: the decimal a number is printed to, read back.\<close>

fun decimals :: "nat \<Rightarrow> fl \<Rightarrow> fl" where
  "decimals n (Fin r) = Fin (of_int (if r < 0 then - rint (- r * 10 ^ n) else rint (r * 10 ^ n)) / 10 ^ n)"
| "decimals n x = x"

text \<open>Text with \<open>nan\<close> or \<open>inf\<close> in it does not parse.\<close>

definition printed_object :: "(string \<times> fl) list \<Rightarrow> json" where
  "printed_object ms = (if \<forall>(k, x) \<in> set ms. isfinite x then JObj (map (\<lambda>(k, x). (k, JNum x)) ms) else JNull)"

section \<open>Typed readers\<close>

definition j_num_of :: "json option \<Rightarrow> fl \<Rightarrow> fl" where
  "j_num_of n dflt = (case n of
       Some (JNum v) \<Rightarrow> v
     | Some (JBool b) \<Rightarrow> (if b then 1 else 0)
     | Some (JStr s) \<Rightarrow> (case strtod s of Some v \<Rightarrow> v | None \<Rightarrow> dflt)
     | _ \<Rightarrow> dflt)"

definition pf_json_num :: "json option \<Rightarrow> string \<Rightarrow> fl \<Rightarrow> fl" where
  "pf_json_num rt path dflt = j_num_of (pf_json_path rt path) dflt"

definition pf_json_int :: "json option \<Rightarrow> string \<Rightarrow> int \<Rightarrow> int" where
  "pf_json_int rt path dflt = fl_to_int (pf_json_num rt path (int_to_fl dflt))"

definition pf_json_bool :: "json option \<Rightarrow> string \<Rightarrow> bool \<Rightarrow> bool" where
  "pf_json_bool rt path dflt = (case pf_json_path rt path of
       Some (JBool b) \<Rightarrow> b
     | Some (JNum v) \<Rightarrow> v \<noteq> 0
     | Some (JStr s) \<Rightarrow> (if s = [] then dflt else strcase_eq s ''true'' \<or> s = ''1'' \<or> strcase_eq s ''yes'')
     | _ \<Rightarrow> dflt)"

definition pf_json_str :: "json option \<Rightarrow> string \<Rightarrow> string \<Rightarrow> string" where
  "pf_json_str rt path dflt = (case pf_json_path rt path of Some (JStr s) \<Rightarrow> s | _ \<Rightarrow> dflt)"

section \<open>Merging\<close>

text \<open>\<open>pf_json_merge\<close> on the members of two objects, in the order of the source.\<close>

function merge_fields :: "(string \<times> json) list \<Rightarrow> (string \<times> json) list \<Rightarrow> (string \<times> json) list" where
  "merge_fields dst [] = dst"
| "merge_fields dst ((k, v) # src) =
     (case (j_find ((=) k) dst, v) of
        (Some (JObj d), JObj s) \<Rightarrow> merge_fields (j_replace k (JObj (merge_fields d s)) dst) src
      | (Some _, _) \<Rightarrow> merge_fields (j_replace k v dst) src
      | (None, _) \<Rightarrow> merge_fields (dst @ [(k, v)]) src)"
  by pat_completeness auto

termination
  by (relation "measure (\<lambda>(_, src). size_list (size_prod (\<lambda>_. 0) size) src)") auto

fun pf_json_merge :: "json \<Rightarrow> json \<Rightarrow> json" where
  "pf_json_merge (JObj d) (JObj s) = JObj (merge_fields d s)"
| "pf_json_merge dst _ = dst"

subsection \<open>What a merge does\<close>

lemma j_find_replace:
  "j_find ((=) q) (j_replace k v ms) = (if q = k \<and> j_find ((=) k) ms \<noteq> None then Some v else j_find ((=) q) ms)"
  by (induction ms) (auto split: if_splits)

lemma j_find_append: "j_find p (xs @ ys) = (case j_find p xs of Some v \<Rightarrow> Some v | None \<Rightarrow> j_find p ys)"
  by (induction xs) auto

text \<open>Every object of a document has distinct member names.\<close>

function j_distinct :: "json \<Rightarrow> bool" where
  "j_distinct (JObj ms) \<longleftrightarrow> distinct (map fst ms) \<and> (\<forall>p \<in> set ms. j_distinct (snd p))"
| "j_distinct (JArr xs) \<longleftrightarrow> (\<forall>x \<in> set xs. j_distinct x)"
| "j_distinct JNull = True"
| "j_distinct (JBool b) = True"
| "j_distinct (JNum v) = True"
| "j_distinct (JStr s) = True"
  by pat_completeness auto

termination
  by (relation "measure size") (auto simp: less_Suc_eq_le size_list_estimation' split: prod.splits)

lemma j_find_None_iff: "j_find ((=) q) ms = None \<longleftrightarrow> q \<notin> fst ` set ms"
  by (induction ms) (auto split: if_splits)

text \<open>What one member of the patch becomes, and the object with it.\<close>

definition merged_value :: "json option \<Rightarrow> json \<Rightarrow> json" where
  "merged_value old v = (case (old, v) of (Some (JObj d), JObj s) \<Rightarrow> JObj (merge_fields d s) | _ \<Rightarrow> v)"

lemma merge_fields_Cons:
  "merge_fields dst ((k, v) # src) = merge_fields (j_put k (merged_value (j_find ((=) k) dst) v) dst) src"
  by (auto simp: merged_value_def j_put_def split: option.splits json.splits)

lemma j_find_put: "j_find ((=) q) (j_put k v ms) = (if q = k then Some v else j_find ((=) q) ms)"
  by (auto simp: j_put_def j_find_replace j_find_append split: option.splits)

lemma merge_find:
  "distinct (map fst src) \<Longrightarrow> j_find ((=) q) (merge_fields dst src) =
     (case j_find ((=) q) src of
        None \<Rightarrow> j_find ((=) q) dst
      | Some v \<Rightarrow> Some (merged_value (j_find ((=) q) dst) v))"
proof (induction src arbitrary: dst)
  case Nil
  then show ?case by simp
next
  case (Cons p src)
  obtain k v where p: "p = (k, v)" by force
  with Cons.prems have "distinct (map fst src)" "j_find ((=) k) src = None"
    by (auto simp: j_find_None_iff)
  with Cons.IH [of "j_put k (merged_value (j_find ((=) k) dst) v) dst"] show ?case
    unfolding p merge_fields_Cons by (auto simp: j_find_put split: option.splits)
qed

text \<open>Reading along member names only, which is how settings are addressed.\<close>

fun j_look :: "string list \<Rightarrow> json \<Rightarrow> json option" where
  "j_look [] cur = Some cur"
| "j_look (k # ks) cur = (case j_get k cur of None \<Rightarrow> None | Some n \<Rightarrow> j_look ks n)"

text \<open>Does the patch say anything at this path, or at a part of the way to it?\<close>

fun j_touches :: "json \<Rightarrow> string list \<Rightarrow> bool" where
  "j_touches (JObj ms) (k # ks) = (case j_find ((=) k) ms of None \<Rightarrow> False | Some n \<Rightarrow> j_touches n ks)"
| "j_touches _ ks = True"

lemma j_find_distinct: "j_distinct (JObj ms) \<Longrightarrow> j_find ((=) k) ms = Some v \<Longrightarrow> j_distinct v"
  by (induction ms) (auto split: if_splits)

lemma merge_look_set:
  assumes "j_distinct s" "j_look ks s = Some v" "\<nexists>ms. v = JObj ms" "ks \<noteq> []" "j_is_obj (Some d)"
  shows "j_look ks (pf_json_merge d s) = Some v"
  using assms
proof (induction ks arbitrary: d s)
  case (Cons k ks)
  from Cons.prems obtain sm dm n where s: "s = JObj sm" and d: "d = JObj dm"
    and n: "j_find ((=) k) sm = Some n" "j_look ks n = Some v"
    by (cases s; cases d; auto split: option.splits)
  have dn: "j_distinct n" using j_find_distinct Cons.prems(1) s n(1) by blast
  have found: "j_find ((=) k) (merge_fields dm sm) = Some (merged_value (j_find ((=) k) dm) n)"
    using merge_find [of sm k dm] Cons.prems(1) s n(1) by simp
  show ?case
  proof (cases "\<exists>d' s'. j_find ((=) k) dm = Some (JObj d') \<and> n = JObj s'")
    case True
    then obtain d' s' where ds: "j_find ((=) k) dm = Some (JObj d')" "n = JObj s'" by blast
    then have "ks \<noteq> []" using n(2) Cons.prems(3) by (cases ks) auto
    with Cons.IH [OF dn n(2) Cons.prems(3), of "JObj d'"] ds found s d show ?thesis by (simp add: merged_value_def)
  next
    case False
    with found have "j_find ((=) k) (merge_fields dm sm) = Some n"
      by (auto simp: merged_value_def split: option.splits json.splits)
    with n(2) s d show ?thesis by simp
  qed
qed simp

lemma merge_look_keep:
  assumes "j_distinct s" "\<not> j_touches s ks" "j_is_obj (Some d)" "ks \<noteq> []" "j_look ks d = Some v" "\<nexists>ms. v = JObj ms"
  shows "j_look ks (pf_json_merge d s) = Some v"
  using assms
proof (induction ks arbitrary: d s)
  case (Cons k ks)
  from Cons.prems obtain sm dm m where s: "s = JObj sm" and d: "d = JObj dm"
    and m: "j_find ((=) k) dm = Some m" "j_look ks m = Some v"
    by (cases s; cases d; auto split: option.splits)
  note found = merge_find [of sm k dm]
  show ?case
  proof (cases "j_find ((=) k) sm")
    case None
    with found m s d Cons.prems(1) show ?thesis by simp
  next
    case (Some n)
    then have dn: "j_distinct n" and tn: "\<not> j_touches n ks"
      using j_find_distinct Cons.prems(1,2) s by auto
    then obtain nm where nm: "n = JObj nm" by (cases n) auto
    obtain k' ks' where ks: "ks = k' # ks'" using tn nm by (cases ks) auto
    with m(2) obtain mm where mm: "m = JObj mm" by (cases m) auto
    with Cons.IH [OF dn tn, of m] ks m Cons.prems(6) nm Some found s d Cons.prems(1) show ?thesis
      by (simp add: merged_value_def)
  qed
qed simp

end
