(* ===== verification/Settings.thy ===== *)
theory Settings
  imports Json
begin

text \<open>
  \<open>src/core/settings.c\<close>: the tree of settings, its validation, the filling in of defaults, patches,
  the change of units and the reset of out-of-range safety limits when a file is loaded.  The one-off
  migrations of old files are not modelled.  The file on disk is the tree last written, and whether
  writing works is a field.
\<close>

definition PF_IGNITER_MAX_S :: fl where "PF_IGNITER_MAX_S = 300"

record settings =
  g_root :: json
  g_gen :: "32 word"
  g_disk :: "json option"
  g_disk_rc :: int

section \<open>Filling in defaults\<close>

text \<open>\<open>fill_defaults\<close> on the members of two objects; the members it added are counted.\<close>

function fill_fields :: "(string \<times> json) list \<Rightarrow> (string \<times> json) list \<Rightarrow> (string \<times> json) list \<times> nat" where
  "fill_fields dst [] = (dst, 0)"
| "fill_fields dst ((k, v) # src) =
     (case j_find ((=) k) dst of
        None \<Rightarrow> (case fill_fields (dst @ [(k, v)]) src of (d, n) \<Rightarrow> (d, n + 1))
      | Some old \<Rightarrow>
          (case (old, v) of
             (JObj od, JObj vs) \<Rightarrow>
               (case fill_fields od vs of (od', m) \<Rightarrow>
                  (case fill_fields (j_replace k (JObj od') dst) src of (d, n) \<Rightarrow> (d, m + n)))
           | _ \<Rightarrow> fill_fields dst src))"
  by pat_completeness auto

termination
  by (relation "measure (\<lambda>(_, src). size_list (size_prod (\<lambda>_. 0) size) src)") auto

fun fill_defaults :: "json \<Rightarrow> json \<Rightarrow> json \<times> nat" where
  "fill_defaults (JObj d) (JObj s) = (case fill_fields d s of (d', n) \<Rightarrow> (JObj d', n))"
| "fill_defaults dst _ = (dst, 0)"

section \<open>Paths\<close>

lemma path_facts [simp]:
  "path_toks ''cycle_data.HoldCycleTime'' = [''cycle_data'', ''HoldCycleTime'']"
  "path_toks ''cycle_data.u_max'' = [''cycle_data'', ''u_max'']"
  "path_toks ''cycle_data.u_min'' = [''cycle_data'', ''u_min'']"
  "path_toks ''globals.units'' = [''globals'', ''units'']"
  "path_toks ''history.sample_s'' = [''history'', ''sample_s'']"
  "path_toks ''keep_warm.temp'' = [''keep_warm'', ''temp'']"
  "path_toks ''network.hotspot_password'' = [''network'', ''hotspot_password'']"
  "path_toks ''safety.auger_max_on_s'' = [''safety'', ''auger_max_on_s'']"
  "path_toks ''safety.igniter_max_on_s'' = [''safety'', ''igniter_max_on_s'']"
  "path_toks ''safety.manual_override_time'' = [''safety'', ''manual_override_time'']"
  "path_toks ''safety.max_target'' = [''safety'', ''max_target'']"
  "path_toks ''safety.maxtemp'' = [''safety'', ''maxtemp'']"
  "path_toks ''safety.min_target'' = [''safety'', ''min_target'']"
  "path_toks ''safety.power_loss.max_s'' = [''safety'', ''power_loss'', ''max_s'']"
  "path_toks ''safety.probe_fault_s'' = [''safety'', ''probe_fault_s'']"
  "path_toks ''safety.reigniteretries'' = [''safety'', ''reigniteretries'']"
  "path_toks ''safety.relight_drop'' = [''safety'', ''relight_drop'']"
  "path_toks ''safety.relight_prove_s'' = [''safety'', ''relight_prove_s'']"
  "path_toks ''safety.restart_hot_temp'' = [''safety'', ''restart_hot_temp'']"
  "path_toks ''safety.smoke_min'' = [''safety'', ''smoke_min'']"
  "path_toks ''smoke_plus.max_temp'' = [''smoke_plus'', ''max_temp'']"
  "path_toks ''startup.smartstart.exit_rise'' = [''startup'', ''smartstart'', ''exit_rise'']"
  "path_toks ''startup.smartstart.prove_rise'' = [''startup'', ''smartstart'', ''prove_rise'']"
  "path_toks ''startup.smartstart.prove_s'' = [''startup'', ''smartstart'', ''prove_s'']"
  "path_toks ''startup.start_to_mode.primary_setpoint'' = [''startup'', ''start_to_mode'', ''primary_setpoint'']"
  "path_toks ''web.port'' = [''web'', ''port'']"
  by code_simp+

section \<open>Validation\<close>

text \<open>The first check that fails, as its message; the bounds differ with the units.\<close>

definition check :: "bool \<Rightarrow> string \<Rightarrow> string option \<Rightarrow> string option" where
  "check ok text rest = (if ok then rest else Some text)"

definition sel :: "bool \<Rightarrow> 'a \<Rightarrow> 'a \<Rightarrow> 'a" where "sel c x y = (if c then x else y)"

definition v_units :: "json \<Rightarrow> string" where "v_units rt = pf_json_str (Some rt) ''globals.units'' ''F''"

definition v_num :: "json \<Rightarrow> string \<Rightarrow> fl \<Rightarrow> fl" where "v_num rt path dflt = pf_json_num (Some rt) path dflt"

definition validate_limits :: "json \<Rightarrow> bool \<Rightarrow> string option \<Rightarrow> string option" where
  "validate_limits rt c rest =
     (let maxtemp = v_num rt ''safety.maxtemp'' 650;
          tmin = v_num rt ''safety.min_target'' (sel c 71 160);
          tmax = v_num rt ''safety.max_target'' (sel c 288 550);
          smin = v_num rt ''safety.smoke_min'' (sel c 82 180)
      in check (sel c 65 150 < maxtemp \<and> maxtemp \<le> sel c 343 650)
           (sel c ''safety.maxtemp must be between 66 and 343 C'' ''safety.maxtemp must be between 151 and 650 F'')
        (check (tmin < tmax \<and> tmax < maxtemp)
           ''safety.max_target must be above the minimum target and below the overheat limit''
        (check (sel c 38 100 \<le> tmin)
           (sel c ''safety.min_target must be at least 38 C'' ''safety.min_target must be at least 100 F'')
        (check (tmin < v_num rt ''smoke_plus.max_temp'' (sel c 104 220))
           ''smoke_plus.max_temp must be above the minimum set point''
        (check (sel c 38 100 \<le> smin \<and> smin < tmax)
           (sel c ''safety.smoke_min must be at least 38 C and below the maximum target''
                  ''safety.smoke_min must be at least 100 F and below the maximum target'')
         rest)))))"

definition validate_start :: "json \<Rightarrow> bool \<Rightarrow> string option \<Rightarrow> string option" where
  "validate_start rt c rest =
     (let prove = v_num rt ''startup.smartstart.prove_s'' 300;
          prise = v_num rt ''startup.smartstart.prove_rise'' (sel c 2 3);
          xrise = v_num rt ''startup.smartstart.exit_rise'' (sel c 7 12);
          rdrop = v_num rt ''safety.relight_drop'' (sel c 11 20);
          rprove = v_num rt ''safety.relight_prove_s'' 180
      in check (60 \<le> prove \<and> prove \<le> PF_IGNITER_MAX_S) ''startup.smartstart.prove_s must be 60-300 s''
        (check (0 < prise \<and> prise \<le> sel c 14 25)
           (sel c ''startup.smartstart.prove_rise must be above 0 and at most 14 C''
                  ''startup.smartstart.prove_rise must be above 0 and at most 25 F'')
        (check (prise < xrise \<and> xrise \<le> sel c 28 50)
           (sel c ''startup.smartstart.exit_rise must be above the ignition rise and at most 28 C''
                  ''startup.smartstart.exit_rise must be above the ignition rise and at most 50 F'')
        (check (sel c 3 5 \<le> rdrop \<and> rdrop \<le> sel c 28 50)
           (sel c ''safety.relight_drop must be 3-28 C'' ''safety.relight_drop must be 5-50 F'')
        (check (0 \<le> rprove \<and> rprove \<le> PF_IGNITER_MAX_S) ''safety.relight_prove_s must be 0-300 s''
         rest)))))"

definition validate_times :: "json \<Rightarrow> string option \<Rightarrow> string option" where
  "validate_times rt rest =
     (let aug = v_num rt ''safety.auger_max_on_s'' 60;
          ign = v_num rt ''safety.igniter_max_on_s'' 300;
          rr = v_num rt ''safety.reigniteretries'' 1;
          pf = v_num rt ''safety.probe_fault_s'' 10;
          plm = v_num rt ''safety.power_loss.max_s'' 300;
          mo = v_num rt ''safety.manual_override_time'' 30
      in check (5 \<le> aug \<and> aug \<le> 120) ''safety.auger_max_on_s must be 5-120 s''
        (check (60 \<le> ign \<and> ign \<le> PF_IGNITER_MAX_S) ''safety.igniter_max_on_s must be 60-300 s''
        (check (0 \<le> rr \<and> rr \<le> 3) ''safety.reigniteretries must be 0-3''
        (check (2 \<le> pf \<and> pf \<le> 60) ''safety.probe_fault_s must be 2-60 s''
        (check (0 \<le> plm \<and> plm \<le> 900) ''safety.power_loss.max_s must be 0-900 s''
        (check (5 \<le> mo \<and> mo \<le> 600) ''safety.manual_override_time must be 5-600 s''
         rest))))))"

definition validate_rest :: "json \<Rightarrow> string option" where
  "validate_rest rt =
     (let port = pf_json_int (Some rt) ''web.port'' 80
      in check (0 < port \<and> port < 65536) ''web.port out of range''
        (check (1 \<le> v_num rt ''history.sample_s'' 3) ''history.sample_s must be >= 1''
        (check (8 \<le> length (pf_json_str (Some rt) ''network.hotspot_password'' ''pifire1234''))
           ''network.hotspot_password must be at least 8 characters'' None)))"

definition validate :: "json \<Rightarrow> string option" where
  "validate rt =
     (let units = v_units rt;
          umin = v_num rt ''cycle_data.u_min'' 0.1; umax = v_num rt ''cycle_data.u_max'' 0.9;
          c = (units = ''C'')
      in check (units = ''F'' \<or> units = ''C'') ''globals.units must be F or C''
        (check (0 \<le> umin \<and> umin < umax \<and> umax \<le> 1)
           ''cycle_data.u_min/u_max must satisfy 0 <= u_min < u_max <= 1''
        (check (5 \<le> v_num rt ''cycle_data.HoldCycleTime'' 25) ''cycle_data.HoldCycleTime must be >= 5 s''
        (validate_limits rt c (validate_start rt c (validate_times rt (validate_rest rt)))))))"

definition pf_settings_validate_json :: "json option \<Rightarrow> string option" where
  "pf_settings_validate_json doc =
     (case doc of Some (JObj ms) \<Rightarrow> validate (JObj ms) | _ \<Rightarrow> Some ''settings are not a JSON object'')"

section \<open>Writing into the tree\<close>

definition save_locked :: "settings \<Rightarrow> settings \<times> int" where
  "save_locked s =
     (if g_disk_rc s = 0 then (s\<lparr>g_disk := Some (g_root s), g_gen := g_gen s + 1\<rparr>, 0) else (s, g_disk_rc s))"

text \<open>The last dot of a path: what is before it, if there is one, and the leaf.\<close>

fun split_last_dot :: "string \<Rightarrow> string \<Rightarrow> (string \<times> string) option" where
  "split_last_dot [] acc = None"
| "split_last_dot (c # cs) acc =
     (case split_last_dot cs (acc @ [c]) of
        Some r \<Rightarrow> Some r
      | None \<Rightarrow> (if c = CHR ''.'' then Some (acc, cs) else None))"

definition parent_toks :: "string \<Rightarrow> string list \<times> string" where
  "parent_toks path =
     (let buf = fst (pf_strlcpy [] path 256)
      in case split_last_dot buf [] of
           None \<Rightarrow> ([], fst (pf_strlcpy [] buf 64))
         | Some (par, leaf) \<Rightarrow> (split_dots par [], fst (pf_strlcpy [] leaf 64)))"

text \<open>
  \<open>parent_of (.., create = true)\<close> followed by a change of the object it returns.  Where the way there
  leads through a value that is not an object, cJSON hangs the new member on that value; such a node is
  no JSON document, and the model gives \<open>None\<close>.
\<close>

fun j_update_at :: "string list \<Rightarrow> (json \<Rightarrow> json) \<Rightarrow> json \<Rightarrow> json option" where
  "j_update_at [] f (JObj ms) = Some (f (JObj ms))"
| "j_update_at (tok # toks) f (JObj ms) =
     (let next = (case j_find ((=) tok) ms of None \<Rightarrow> JObj [] | Some n \<Rightarrow> n)
      in map_option (\<lambda>n. JObj (j_put tok n ms)) (j_update_at toks f next))"
| "j_update_at _ f _ = None"

fun obj_put :: "string \<Rightarrow> json \<Rightarrow> json \<Rightarrow> json" where
  "obj_put k v (JObj ms) = JObj (j_put k v ms)"
| "obj_put k v cur = cur"

definition pf_set_put :: "string \<Rightarrow> json \<Rightarrow> settings \<Rightarrow> settings option" where
  "pf_set_put path v s =
     (case parent_toks path of (toks, leaf) \<Rightarrow>
        map_option (\<lambda>r. s\<lparr>g_root := r\<rparr>) (j_update_at toks (obj_put leaf v) (g_root s)))"

subsection \<open>Typed access\<close>

definition pf_set_num :: "string \<Rightarrow> fl \<Rightarrow> settings \<Rightarrow> fl" where
  "pf_set_num path dflt s = pf_json_num (Some (g_root s)) path dflt"

definition pf_set_int :: "string \<Rightarrow> int \<Rightarrow> settings \<Rightarrow> int" where
  "pf_set_int path dflt s = fl_to_int (pf_set_num path (int_to_fl dflt) s)"

definition pf_set_bool :: "string \<Rightarrow> bool \<Rightarrow> settings \<Rightarrow> bool" where
  "pf_set_bool path dflt s = pf_json_bool (Some (g_root s)) path dflt"

text \<open>The text in a buffer of \<open>n\<close> bytes, and whether there was one.\<close>

definition pf_set_str :: "string \<Rightarrow> nat \<Rightarrow> string \<Rightarrow> settings \<Rightarrow> string \<times> bool" where
  "pf_set_str path n dflt s =
     (case pf_json_path (Some (g_root s)) path of
        Some (JStr v) \<Rightarrow> (fst (pf_strlcpy [] v n), True)
      | _ \<Rightarrow> (fst (pf_strlcpy [] dflt n), False))"

definition pf_set_dup :: "string \<Rightarrow> settings \<Rightarrow> json option" where
  "pf_set_dup path s = pf_json_path (Some (g_root s)) path"

definition pf_set_put_num :: "string \<Rightarrow> fl \<Rightarrow> settings \<Rightarrow> settings option" where
  "pf_set_put_num path v = pf_set_put path (JNum v)"

definition pf_set_put_bool :: "string \<Rightarrow> bool \<Rightarrow> settings \<Rightarrow> settings option" where
  "pf_set_put_bool path v = pf_set_put path (JBool v)"

definition pf_set_put_str :: "string \<Rightarrow> string \<Rightarrow> settings \<Rightarrow> settings option" where
  "pf_set_put_str path v = pf_set_put path (JStr v)"

text \<open>Changing the value at a path that exists; names only, as the paths of the tables are.\<close>

fun j_modify :: "string list \<Rightarrow> (json \<Rightarrow> json) \<Rightarrow> json \<Rightarrow> json" where
  "j_modify [] f cur = f cur"
| "j_modify (tok # toks) f (JObj ms) =
     (case j_find ((=) tok) ms of
        None \<Rightarrow> JObj ms | Some n \<Rightarrow> JObj (j_replace tok (j_modify toks f n) ms))"
| "j_modify (tok # toks) f cur = cur"

section \<open>Units\<close>

definition temp_paths :: "string list" where
  "temp_paths = [''safety.maxtemp'', ''safety.min_target'', ''safety.max_target'', ''safety.smoke_min'',
     ''safety.restart_hot_temp'', ''startup.start_to_mode.primary_setpoint'', ''keep_warm.temp'', ''smoke_plus.max_temp'']"

definition delta_paths :: "string list" where
  "delta_paths = [''startup.smartstart.prove_rise'', ''startup.smartstart.exit_rise'', ''safety.relight_drop'']"

fun fl_to_long :: "fl \<Rightarrow> int" where
  "fl_to_long (Fin r) = max (- (2 ^ 63)) (min (2 ^ 63 - 1) (real_trunc r))"
| "fl_to_long PInf = 2 ^ 63 - 1"
| "fl_to_long NInf = - (2 ^ 63)"
| "fl_to_long NaN = 0"

fun convert_num :: "(fl \<Rightarrow> fl) \<Rightarrow> json \<Rightarrow> json" where
  "convert_num fn (JNum v) = JNum (int_to_fl (fl_to_long (fn v + 0.5)))"
| "convert_num fn n = n"

definition convert_paths :: "string list \<Rightarrow> (fl \<Rightarrow> fl) \<Rightarrow> json \<Rightarrow> json" where
  "convert_paths paths fn rt = fold (\<lambda>p r. j_modify (path_toks p) (convert_num fn) r) paths rt"

definition df2c :: "fl \<Rightarrow> fl" where "df2c d = d * 5 / 9"
definition dc2f :: "fl \<Rightarrow> fl" where "dc2f d = d * 9 / 5"

fun set_str :: "string \<Rightarrow> json \<Rightarrow> json" where
  "set_str t (JStr s) = JStr t"
| "set_str t n = n"

definition units_of :: "string \<Rightarrow> pf_units" where
  "units_of s = (case s of c # _ \<Rightarrow> if c = CHR ''C'' then UnitsC else UnitsF | [] \<Rightarrow> UnitsF)"

definition pf_settings_units :: "settings \<Rightarrow> pf_units" where
  "pf_settings_units s = units_of (fst (pf_set_str ''globals.units'' 4 ''F'' s))"

definition pf_settings_set_units :: "pf_units \<Rightarrow> settings \<Rightarrow> settings \<times> int" where
  "pf_settings_set_units u s =
     (let cu = units_of (v_units (g_root s));
          s = (if cu \<noteq> u
               then let r = convert_paths temp_paths (if u = UnitsC then pf_f_to_c else pf_c_to_f) (g_root s);
                        r = convert_paths delta_paths (if u = UnitsC then df2c else dc2f) r;
                        r = j_modify (path_toks ''globals.units'') (set_str (if u = UnitsC then ''C'' else ''F'')) r
                    in s\<lparr>g_root := r\<rparr>
               else s)
      in save_locked s)"

section \<open>Patches\<close>

definition patch_member :: "string \<Rightarrow> json \<Rightarrow> json \<Rightarrow> json" where
  "patch_member leaf patch p =
     (let target = (case j_get leaf p of None \<Rightarrow> JObj [] | Some t \<Rightarrow> t)
      in obj_put leaf (if j_is_obj (Some target) \<and> j_is_obj (Some patch) then pf_json_merge target patch else patch) p)"

text \<open>
  The tree with the patch, the text of the error, or \<open>None\<close> outside the model (see
  \<open>j_update_at\<close>).
\<close>

definition patch_trial :: "string option \<Rightarrow> json \<Rightarrow> json \<Rightarrow> (string + json) option" where
  "patch_trial path patch rt =
     (case path of
        Some (c # cs) \<Rightarrow>
          (case parent_toks (c # cs) of (toks, leaf) \<Rightarrow> map_option Inr (j_update_at toks (patch_member leaf patch) rt))
      | _ \<Rightarrow> (if j_is_obj (Some rt) \<and> j_is_obj (Some patch) then Some (Inr (pf_json_merge rt patch))
              else Some (Inl ''root patch must be an object'')))"

definition commit_patch :: "json \<Rightarrow> settings \<Rightarrow> settings \<times> (string + unit)" where
  "commit_patch trial s =
     (let old_u = fst (pf_strlcpy [] (v_units (g_root s)) 4);
          new_u = fst (pf_strlcpy [] (v_units trial) 4);
          s = s\<lparr>g_root := trial\<rparr>
      in if old_u \<noteq> new_u
         then let s = s\<lparr>g_root := j_modify (path_toks ''globals.units'') (set_str old_u) (g_root s)\<rparr>
              in (fst (pf_settings_set_units (units_of new_u) s), Inr ())
         else case save_locked s of (s, rc) \<Rightarrow> (s, if rc \<noteq> 0 then Inl ''save failed'' else Inr ()))"

definition pf_settings_patch :: "string option \<Rightarrow> json option \<Rightarrow> settings \<Rightarrow> (settings \<times> (string + unit)) option" where
  "pf_settings_patch path patch s =
     (case patch of
        None \<Rightarrow> Some (s, Inl ''invalid JSON'')
      | Some p \<Rightarrow>
          (case patch_trial path p (g_root s) of
             None \<Rightarrow> None
           | Some (Inl err) \<Rightarrow> Some (s, Inl err)
           | Some (Inr trial) \<Rightarrow>
               (case validate trial of
                  Some err \<Rightarrow> Some (s, Inl err)
                | None \<Rightarrow> Some (commit_patch trial s))))"

section \<open>Safety limits at load\<close>

definition SAFE :: "(string \<times> fl \<times> fl) list" where
  "SAFE = [(''safety.maxtemp'', 650, 343), (''safety.max_target'', 550, 288), (''safety.min_target'', 160, 71),
     (''safety.smoke_min'', 180, 82), (''safety.auger_max_on_s'', 60, 60), (''safety.igniter_max_on_s'', 300, 300),
     (''safety.reigniteretries'', 1, 1), (''safety.probe_fault_s'', 10, 10), (''safety.power_loss.max_s'', 300, 300),
     (''startup.smartstart.prove_s'', 300, 300), (''startup.smartstart.prove_rise'', 3, 2),
     (''startup.smartstart.exit_rise'', 12, 7), (''safety.relight_drop'', 20, 11), (''safety.relight_prove_s'', 180, 180),
     (''safety.manual_override_time'', 30, 30)]"

fun contains :: "string \<Rightarrow> string \<Rightarrow> bool" where
  "contains s p = (take (length p) s = p \<or> (case s of [] \<Rightarrow> False | _ # r \<Rightarrow> contains r p))"

text \<open>\<open>cJSON_DeleteItemFromObject\<close> ignores the case of the name and removes the first match.\<close>

fun j_delete_ci :: "string \<Rightarrow> (string \<times> json) list \<Rightarrow> (string \<times> json) list" where
  "j_delete_ci k [] = []"
| "j_delete_ci k ((k', v) # ms) = (if strcase_eq k k' then ms else (k', v) # j_delete_ci k ms)"

fun obj_delete_add :: "string \<Rightarrow> json \<Rightarrow> json \<Rightarrow> json" where
  "obj_delete_add k v (JObj ms) = JObj (j_delete_ci k ms @ [(k, v)])"
| "obj_delete_add k v cur = cur"

definition reset_limit :: "string \<times> fl \<times> fl \<Rightarrow> bool \<Rightarrow> json \<Rightarrow> json option" where
  "reset_limit e celsius rt =
     (case e of (path, f, c) \<Rightarrow> (case parent_toks path of (toks, leaf) \<Rightarrow>
        (case j_walk toks rt of
           Some (JObj ms) \<Rightarrow>
             Some (j_modify toks (obj_delete_add leaf (JNum (if celsius then c else f))) rt)
         | _ \<Rightarrow> None)))"

text \<open>At most twelve rounds, each resetting the first limit of the table the message names.\<close>

fun reset_limits :: "nat \<Rightarrow> bool \<Rightarrow> json \<Rightarrow> json" where
  "reset_limits 0 celsius rt = rt"
| "reset_limits (Suc n) celsius rt =
     (case validate rt of
        None \<Rightarrow> rt
      | Some err \<Rightarrow>
          (case find (\<lambda>e. contains err (fst e)) SAFE of
             None \<Rightarrow> rt
           | Some e \<Rightarrow> (case reset_limit e celsius rt of None \<Rightarrow> rt | Some rt' \<Rightarrow> reset_limits n celsius rt')))"

definition load_limits :: "json \<Rightarrow> json" where
  "load_limits rt = reset_limits 12 (v_units rt = ''C'') rt"

section \<open>What validation promises, and what a patch does\<close>

lemma check_None: "check ok txt rest = None \<longleftrightarrow> ok \<and> rest = None"
  by (simp add: check_def)

text \<open>The limits a validated tree keeps, whatever its units.\<close>

definition limits_ok :: "json \<Rightarrow> bool" where
  "limits_ok rt \<longleftrightarrow>
     (let c = (v_units rt = ''C'')
      in v_num rt ''safety.igniter_max_on_s'' 300 \<le> PF_IGNITER_MAX_S \<and>
         v_num rt ''safety.auger_max_on_s'' 60 \<le> 120 \<and>
         v_num rt ''safety.maxtemp'' 650 \<le> sel c 343 650 \<and>
         v_num rt ''safety.max_target'' (sel c 288 550) < v_num rt ''safety.maxtemp'' 650 \<and>
         v_num rt ''safety.min_target'' (sel c 71 160) < v_num rt ''safety.max_target'' (sel c 288 550) \<and>
         v_num rt ''safety.probe_fault_s'' 10 \<le> 60 \<and> v_num rt ''safety.reigniteretries'' 1 \<le> 3 \<and>
         0 \<le> v_num rt ''cycle_data.u_min'' 0.1 \<and> v_num rt ''cycle_data.u_max'' 0.9 \<le> 1 \<and>
         v_num rt ''cycle_data.u_min'' 0.1 < v_num rt ''cycle_data.u_max'' 0.9)"

lemma validate_limits_ok: "validate rt = None \<Longrightarrow> limits_ok rt"
  unfolding validate_def validate_limits_def validate_start_def validate_times_def limits_ok_def Let_def check_None
  by (simp only: simp_thms)

lemma save_locked_root [simp]: "g_root (fst (save_locked s)) = g_root s"
  by (simp add: save_locked_def)

lemma patch_cases:
  assumes "pf_settings_patch path p s = Some (s', r)"
  obtains "s' = s" "r \<noteq> Inr ()"
    | trial where "p \<noteq> None" "patch_trial path (the p) (g_root s) = Some (Inr trial)" "validate trial = None"
        "(s', r) = commit_patch trial s"
  using assms by (auto simp: pf_settings_patch_def split: option.splits sum.splits)

lemma commit_same_units:
  assumes "(s', r) = commit_patch trial s" "v_units trial = v_units (g_root s)"
  shows "g_root s' = trial" "r = Inr () \<or> r = Inl ''save failed''"
  using assms by (auto simp: commit_patch_def Let_def split: prod.splits if_splits)
    (metis fst_conv save_locked_root select_convs(1) settings.surjective settings.update_convs(1))+

text \<open>C33. A patch cannot take the grill's protection outside its limits: from a valid tree, a patch that
  does not ask for other units either is refused and changes nothing, or leaves a valid tree, with the
  igniter and auger caps, the overheat limit above every set point and the feed limits in force.\<close>

theorem patch_keeps_limits:
  assumes "validate (g_root s) = None" "pf_settings_patch path (Some p) s = Some (s', r)"
    and "\<And>trial. patch_trial path p (g_root s) = Some (Inr trial) \<Longrightarrow> v_units trial = v_units (g_root s)"
  shows "validate (g_root s') = None \<and> limits_ok (g_root s') \<and> (r = Inr () \<or> r = Inl ''save failed'' \<or> s' = s)"
  using assms(2)
proof (cases rule: patch_cases)
  case 1
  with assms(1) validate_limits_ok show ?thesis by simp
next
  case (2 trial)
  then have "v_units trial = v_units (g_root s)" using assms(3) by simp
  from commit_same_units [OF 2(4) this] validate_limits_ok [OF 2(3)] 2(3) show ?thesis by auto
qed

text \<open>A patch of the tree does what it says and nothing else: when it is taken, every value it names
  is set, at whatever depth, and every value it does not touch is what it was.\<close>

theorem patch_is_exact:
  assumes "pf_settings_patch None (Some p) s = Some (s', Inr ())" "j_distinct p"
    and "v_units (pf_json_merge (g_root s) p) = v_units (g_root s)"
    and "ks \<noteq> []" "\<nexists>ms. v = JObj ms"
  shows "(j_look ks p = Some v \<longrightarrow> j_look ks (g_root s') = Some v) \<and>
         (\<not> j_touches p ks \<and> j_look ks (g_root s) = Some v \<longrightarrow> j_look ks (g_root s') = Some v)"
  using assms(1)
proof (cases rule: patch_cases)
  case (2 trial)
  then have o: "j_is_obj (Some (g_root s))" and t: "trial = pf_json_merge (g_root s) p"
    by (auto simp: patch_trial_def split: if_splits)
  with commit_same_units [OF 2(4)] assms(3) have "g_root s' = pf_json_merge (g_root s) p" by simp
  with merge_look_set [of p ks v "g_root s"] merge_look_keep [of p ks "g_root s" v] o assms(2,4,5) show ?thesis
    by simp
qed simp

definition settings_example :: settings where
  "settings_example = \<lparr>g_root = JObj [(''globals'', JObj [(''units'', JStr ''F'')]),
       (''safety'', JObj [(''maxtemp'', JNum 650), (''auger_max_on_s'', JNum 60)])],
     g_gen = 0, g_disk = None, g_disk_rc = 0\<rparr>"

definition patch_example :: json where
  "patch_example = JObj [(''safety'', JObj [(''auger_max_on_s'', JNum 90)])]"

lemmas settings_eval = validate_def validate_limits_def validate_start_def validate_times_def validate_rest_def
  check_def sel_def v_units_def v_num_def pf_json_num_def pf_json_str_def pf_json_int_def pf_json_path_def
  j_num_of_def j_step_def Let_def PF_IGNITER_MAX_S_def int_to_fl_def real_trunc_def int_max_def int_min_def

lemma settings_example_valid: "validate (g_root settings_example) = None"
  by (simp add: settings_example_def settings_eval)

lemma patch_example_valid:
  "validate (pf_json_merge (g_root settings_example) patch_example) = None"
  "v_units (pf_json_merge (g_root settings_example) patch_example) = v_units (g_root settings_example)"
  by (simp_all add: settings_example_def patch_example_def settings_eval)

lemma patch_example_result:
  "pf_settings_patch None (Some patch_example) settings_example =
   Some (settings_example\<lparr>g_root := pf_json_merge (g_root settings_example) patch_example,
     g_disk := Some (pf_json_merge (g_root settings_example) patch_example), g_gen := 1\<rparr>, Inr ())"
proof -
  have "patch_trial None patch_example (g_root settings_example) =
      Some (Inr (pf_json_merge (g_root settings_example) patch_example))"
    by (simp add: patch_trial_def settings_example_def patch_example_def)
  then show ?thesis
    using patch_example_valid
    by (simp add: pf_settings_patch_def commit_patch_def save_locked_def settings_example_def)
qed

theorem patch_keeps_limits_witness:
  "\<exists>s'. pf_settings_patch None (Some patch_example) settings_example = Some (s', Inr ()) \<and> limits_ok (g_root s')"
proof -
  have "v_units trial = v_units (g_root settings_example)"
    if "patch_trial None patch_example (g_root settings_example) = Some (Inr trial)" for trial
    using that patch_example_valid(2)
    by (simp add: patch_trial_def settings_example_def patch_example_def)
  from patch_keeps_limits [OF settings_example_valid patch_example_result this] patch_example_result
  show ?thesis by blast
qed

theorem patch_is_exact_witness:
  "j_look [''safety'', ''maxtemp''] (pf_json_merge (g_root settings_example) patch_example) = Some (JNum 650)"
  using patch_is_exact [OF patch_example_result, of "[''safety'', ''maxtemp'']" "JNum 650"] patch_example_valid(2)
  by (simp add: settings_example_def patch_example_def)

section \<open>Changing the units\<close>

lemma look_walk: "j_look ks n = Some v \<Longrightarrow> j_walk ks n = Some v"
proof (induction ks arbitrary: n)
  case (Cons k ks)
  then show ?case by (cases n) (auto simp: j_step_def split: option.splits)
qed simp

lemma v_units_look: "j_look [''globals'', ''units''] rt = Some (JStr u) \<Longrightarrow> v_units rt = u"
  using look_walk [of "[''globals'', ''units'']" rt "JStr u"]
  by (simp add: v_units_def pf_json_str_def pf_json_path_def)

lemma j_get_put: "j_get k (obj_put g x (JObj d)) = (if k = g then Some x else j_get k (JObj d))"
  by (simp add: j_find_put)

lemma put_num:
  assumes "path_toks path = k # ks" "k \<noteq> g"
  shows "v_num (obj_put g x (JObj d)) path y = v_num (JObj d) path y"
proof -
  obtain d' where d': "obj_put g x (JObj d) = JObj d'" by simp
  have "j_walk (path_toks path) (JObj d') = j_walk (path_toks path) (JObj d)"
    using j_get_put [of k g x d] assms d' by (simp add: j_step_def)
  then show ?thesis
    unfolding v_num_def pf_json_num_def pf_json_path_def d' using assms(1)
    by (auto simp: path_toks_def pf_strlcpy_def)
qed

definition units_patch :: json where
  "units_patch = JObj [(''units'', JStr ''C'')]"

lemma globals_toks: "parent_toks ''globals'' = ([], ''globals'')"
  by code_simp

lemma units_patch_units: "v_units (patch_member ''globals'' units_patch (JObj d)) = ''C''"
proof (rule v_units_look)
  have "j_look [''units''] (if j_is_obj (Some target) \<and> j_is_obj (Some units_patch)
      then pf_json_merge target units_patch else units_patch) = Some (JStr ''C'')" for target
    using merge_look_set [of units_patch "[''units'']" "JStr ''C''" target] by (simp add: units_patch_def)
  then show "j_look [''globals'', ''units''] (patch_member ''globals'' units_patch (JObj d)) = Some (JStr ''C'')"
    unfolding patch_member_def Let_def by (simp only: j_look.simps j_get_put simp_thms if_True option.case)
qed

text \<open>Asking for Celsius on the settings page is refused while the overheat limit is above 343, which
  in Fahrenheit it is unless the user has lowered it: the limits of the new units are checked against
  the values of the old ones, which would only be converted afterwards.\<close>

theorem units_patch_refused:
  assumes "validate (g_root s) = None" "g_root s = JObj d" "v_units (g_root s) = ''F''"
    and "343 < v_num (g_root s) ''safety.maxtemp'' 650"
  shows "pf_settings_patch (Some ''globals'') (Some units_patch) s =
         Some (s, Inl ''safety.maxtemp must be between 66 and 343 C'')"
proof -
  let ?t = "patch_member ''globals'' units_patch (JObj d)"
  have n: "v_num ?t p x = v_num (g_root s) p x"
    if "p \<in> {''cycle_data.u_min'', ''cycle_data.u_max'', ''cycle_data.HoldCycleTime'', ''safety.maxtemp''}" for p x
    using that assms(2) put_num [of p "hd (path_toks p)" "tl (path_toks p)" "''globals''"]
    unfolding patch_member_def Let_def by auto
  have "validate ?t = Some ''safety.maxtemp must be between 66 and 343 C''"
    using assms(1,3,4) units_patch_units [of d] fl_less_not_le [OF assms(4)]
    by (simp add: validate_def validate_limits_def check_def sel_def Let_def n split: if_splits)
  then show ?thesis
    by (simp add: pf_settings_patch_def patch_trial_def assms(2) globals_toks)
qed

theorem units_patch_refused_witness:
  "pf_settings_patch (Some ''globals'') (Some units_patch) settings_example =
   Some (settings_example, Inl ''safety.maxtemp must be between 66 and 343 C'')"
proof (rule units_patch_refused)
  show "validate (g_root settings_example) = None" by (rule settings_example_valid)
  show "g_root settings_example = JObj [(''globals'', JObj [(''units'', JStr ''F'')]),
       (''safety'', JObj [(''maxtemp'', JNum 650), (''auger_max_on_s'', JNum 60)])]"
    by (simp add: settings_example_def)
qed (simp_all add: settings_example_def settings_eval)

text \<open>A change of units can leave settings the daemon's own validation refuses, and every later edit
  with them: an ignition rise of 3 F and an exit rise of 4 F are valid, and both become 2 C.\<close>

definition rises_example :: settings where
  "rises_example = \<lparr>g_root = JObj [(''globals'', JObj [(''units'', JStr ''F'')]),
       (''startup'', JObj [(''smartstart'', JObj [(''prove_rise'', JNum 3), (''exit_rise'', JNum 4)])]),
       (''safety'', JObj [(''maxtemp'', JNum 650), (''max_target'', JNum 550), (''min_target'', JNum 160),
          (''smoke_min'', JNum 180), (''relight_drop'', JNum 20)]),
       (''smoke_plus'', JObj [(''max_temp'', JNum 220)])],
     g_gen = 0, g_disk = None, g_disk_rc = 0\<rparr>"

theorem units_change_breaks_validity:
  "validate (g_root rises_example) = None \<and>
   snd (pf_settings_set_units UnitsC rises_example) = 0 \<and>
   validate (g_root (fst (pf_settings_set_units UnitsC rises_example))) =
     Some ''startup.smartstart.exit_rise must be above the ignition rise and at most 28 C''"
proof (intro conjI)
  show "validate (g_root rises_example) = None"
    by (simp add: rises_example_def settings_eval)
  let ?conv = "\<lambda>x. JNum (Fin x)"
  have "g_root (fst (pf_settings_set_units UnitsC rises_example)) =
     JObj [(''globals'', JObj [(''units'', JStr ''C'')]),
       (''startup'', JObj [(''smartstart'', JObj [(''prove_rise'', ?conv 2), (''exit_rise'', ?conv 2)])]),
       (''safety'', JObj [(''maxtemp'', ?conv 343), (''max_target'', ?conv 288), (''min_target'', ?conv 71),
          (''smoke_min'', ?conv 82), (''relight_drop'', ?conv 11)]),
       (''smoke_plus'', JObj [(''max_temp'', ?conv 104)])]"
    by (simp add: pf_settings_set_units_def rises_example_def settings_eval units_of_def convert_paths_def
        temp_paths_def delta_paths_def pf_f_to_c_def df2c_def)
  then show "validate (g_root (fst (pf_settings_set_units UnitsC rises_example))) =
     Some ''startup.smartstart.exit_rise must be above the ignition rise and at most 28 C''"
    by (simp add: settings_eval)
qed (simp add: pf_settings_set_units_def rises_example_def save_locked_def Let_def)

section \<open>Limits at load\<close>

text \<open>The reset of out-of-range limits at load can stop short: a file whose minimum target is above the
  shipped maximum target is still invalid after its twelve rounds, because the message names the
  maximum target and it is that one, already at its default, that is reset every time.\<close>

definition stuck_limits :: json where
  "stuck_limits = JObj [(''safety'', JObj [(''min_target'', JNum 600), (''max_target'', JNum 550)])]"

lemma stuck_message:
  "validate stuck_limits = Some ''safety.max_target must be above the minimum target and below the overheat limit''"
  by (simp add: stuck_limits_def settings_eval)

lemma stuck_reset: "reset_limits n c stuck_limits = stuck_limits" if "\<not> c" for n
proof (induction n)
  case (Suc n)
  have "find (\<lambda>e. contains ''safety.max_target must be above the minimum target and below the overheat limit'' (fst e)) SAFE
      = Some (''safety.max_target'', 550, 288)"
    by (simp add: SAFE_def)
  moreover have "reset_limit (''safety.max_target'', 550, 288) c stuck_limits = Some stuck_limits"
    using that by (simp add: reset_limit_def parent_toks_def pf_strlcpy_def stuck_limits_def j_step_def
        strcase_eq_def tolower_char_def)
  ultimately show ?case using Suc stuck_message by simp
qed simp

theorem load_leaves_limits_invalid:
  "validate (load_limits stuck_limits) =
     Some ''safety.max_target must be above the minimum target and below the overheat limit''"
proof -
  have "v_units stuck_limits \<noteq> ''C''" by (simp add: stuck_limits_def settings_eval)
  then show ?thesis unfolding load_limits_def using stuck_reset stuck_message by simp
qed

section \<open>Defaults\<close>

text \<open>Everything the defaults name is there.\<close>

function covered :: "(string \<times> json) list \<Rightarrow> (string \<times> json) list \<Rightarrow> bool" where
  "covered dst [] = True"
| "covered dst ((k, v) # src) =
     ((case j_find ((=) k) dst of
         None \<Rightarrow> False
       | Some old \<Rightarrow> (case (old, v) of (JObj od, JObj vs) \<Rightarrow> covered od vs | _ \<Rightarrow> True)) \<and> covered dst src)"
  by pat_completeness auto

termination
  by (relation "measure (\<lambda>(_, src). size_list (size_prod (\<lambda>_. 0) size) src)") auto

text \<open>One document has everything another has, with the same values where those are not objects.\<close>

definition alike :: "json \<Rightarrow> json \<Rightarrow> bool" where
  "alike v w \<longleftrightarrow> (if j_is_obj (Some v) then j_is_obj (Some w) else w = v)"

definition keeps :: "(string \<times> json) list \<Rightarrow> (string \<times> json) list \<Rightarrow> bool" where
  "keeps dst dst' \<longleftrightarrow>
     (\<forall>ks v. j_look ks (JObj dst) = Some v \<longrightarrow> (\<exists>w. j_look ks (JObj dst') = Some w \<and> alike v w))"

lemma alike_refl [simp]: "alike v v"
  by (simp add: alike_def)

lemma alike_obj [simp]: "alike (JObj a) (JObj b)"
  by (simp add: alike_def)

lemma alike_trans: "alike u v \<Longrightarrow> alike v w \<Longrightarrow> alike u w"
  by (auto simp: alike_def split: if_splits)

lemma keepsD: "keeps d d' \<Longrightarrow> j_look ks (JObj d) = Some v \<Longrightarrow> \<exists>w. j_look ks (JObj d') = Some w \<and> alike v w"
  by (simp add: keeps_def)

lemma keeps_refl [simp]: "keeps d d"
  by (auto simp: keeps_def)

lemma keeps_trans: "keeps a b \<Longrightarrow> keeps b d \<Longrightarrow> keeps a d"
  unfolding keeps_def by (meson alike_trans)

lemma keeps_find:
  assumes "\<And>k v. j_find ((=) k) d = Some v \<Longrightarrow>
      j_find ((=) k) d' = Some v \<or> (\<exists>m m'. v = JObj m \<and> j_find ((=) k) d' = Some (JObj m') \<and> keeps m m')"
  shows "keeps d d'"
  unfolding keeps_def
proof (intro allI impI)
  fix ks v assume l: "j_look ks (JObj d) = Some v"
  show "\<exists>w. j_look ks (JObj d') = Some w \<and> alike v w"
  proof (cases ks)
    case (Cons k qs)
    with l obtain n where n: "j_find ((=) k) d = Some n" "j_look qs n = Some v" by (auto split: option.splits)
    from assms [OF n(1)] show ?thesis
    proof (elim disjE exE conjE)
      fix m m' assume m: "n = JObj m" "j_find ((=) k) d' = Some (JObj m')" "keeps m m'"
      from keepsD [OF m(3)] n(2) m(1) have "\<exists>w. j_look qs (JObj m') = Some w \<and> alike v w" by simp
      with Cons m(2) show ?thesis by simp
    qed (use Cons n(2) in simp)
  qed (use l in auto)
qed

lemma keeps_append: "j_find ((=) k) d = None \<Longrightarrow> keeps d (d @ [(k, v)])"
  by (rule keeps_find) (auto simp: j_find_append)

lemma keeps_replace: "j_find ((=) k) d = Some (JObj od) \<Longrightarrow> keeps od od' \<Longrightarrow> keeps d (j_replace k (JObj od') d)"
  by (rule keeps_find) (auto simp: j_find_replace)

lemma keeps_at:
  assumes "keeps d d'" "j_find ((=) k) d = Some old"
  obtains "j_find ((=) k) d' = Some old" "\<not> j_is_obj (Some old)"
    | m m' where "old = JObj m" "j_find ((=) k) d' = Some (JObj m')" "keeps m m'"
proof -
  have "j_look [k] (JObj d) = Some old" using assms(2) by simp
  from keepsD [OF assms(1) this] obtain w where w: "j_find ((=) k) d' = Some w" "alike old w"
    by (auto split: option.splits)
  show thesis
  proof (cases "j_is_obj (Some old)")
    case True
    then obtain m where m: "old = JObj m" by (cases old) auto
    with w obtain m' where m': "w = JObj m'" by (cases w) (auto simp: alike_def)
    have "keeps m m'"
      unfolding keeps_def
    proof (intro allI impI)
      fix ks v assume "j_look ks (JObj m) = Some v"
      with assms(2) m have "j_look (k # ks) (JObj d) = Some v" by simp
      from keepsD [OF assms(1) this] w(1) m' show "\<exists>w. j_look ks (JObj m') = Some w \<and> alike v w" by simp
    qed
    with that(2) m m' w show thesis by blast
  next
    case False
    with w that(1) show thesis by (simp add: alike_def)
  qed
qed

lemma covered_keeps: "covered d src \<Longrightarrow> keeps d d' \<Longrightarrow> covered d' src"
proof (induction d src arbitrary: d' rule: covered.induct)
  case (2 dst k v src)
  obtain old where old: "j_find ((=) k) dst = Some old" using "2.prems"(1) by (auto split: option.splits)
  have rest: "covered d' src" using "2.IH"(2) "2.prems" by simp
  from "2.prems"(2) old show ?case
  proof (cases rule: keeps_at)
    case 1
    with rest show ?thesis by (auto split: json.splits)
  next
    case obj: (2 m m')
    show ?thesis
    proof (cases v)
      case (JObj vs)
      then have "covered m' vs"
        using "2.IH"(1) [OF old refl obj(1) JObj _ obj(3)] "2.prems"(1) old obj(1) by simp
      with JObj obj rest show ?thesis by simp
    qed (use obj rest in auto)
  qed
qed simp

lemma distinct_find: "distinct (map fst ms) \<Longrightarrow> (k, v) \<in> set ms \<Longrightarrow> j_find ((=) k) ms = Some v"
  by (induction ms) (auto simp: rev_image_eqI)

lemma covered_self:
  "(\<And>k v. (k, v) \<in> set src \<Longrightarrow> j_find ((=) k) d = Some v \<and> j_distinct v) \<Longrightarrow> covered d src"
proof (induction d src rule: covered.induct)
  case (2 dst k v src)
  have v: "j_find ((=) k) dst = Some v" "j_distinct v" using "2.prems" [of k v] by simp_all
  have "covered od vs" if "v = JObj od" "v = JObj vs" for od vs
  proof -
    from that have "od = vs" by simp
    moreover have "j_find ((=) q) vs = Some w \<and> j_distinct w" if "(q, w) \<in> set vs" for q w
      using that v(2) \<open>v = JObj vs\<close> distinct_find [of vs q w] by auto
    ultimately show ?thesis using "2.IH"(1) [OF v(1) refl that] by blast
  qed
  moreover have "covered dst src" by (rule "2.IH"(2)) (use "2.prems" in auto)
  ultimately show ?case using v by (auto split: json.splits)
qed simp

lemma fill_keeps_step:
  assumes ih: "\<And>dst. keeps dst (fst (fill_fields dst src)) \<and> covered (fst (fill_fields dst src)) src"
    and sub: "\<And>od vs. v = JObj vs \<Longrightarrow> keeps od (fst (fill_fields od vs)) \<and> covered (fst (fill_fields od vs)) vs"
    and dv: "j_distinct v"
  shows "keeps dst (fst (fill_fields dst ((k, v) # src))) \<and> covered (fst (fill_fields dst ((k, v) # src))) ((k, v) # src)"
proof (cases "j_find ((=) k) dst")
  case None
  let ?d = "dst @ [(k, v)]"
  let ?r = "fst (fill_fields ?d src)"
  have r: "keeps ?d ?r" "covered ?r src" using ih by simp_all
  have "keeps dst ?r" using keeps_trans [OF keeps_append [OF None] r(1)] .
  moreover have "j_find ((=) k) ?d = Some v" using None by (simp add: j_find_append)
  with r(1) have "covered ?r [(k, v)]"
  proof (cases rule: keeps_at)
    case 1
    then show ?thesis by (cases v) auto
  next
    case (2 m m')
    then have "covered m m" using dv by (intro covered_self) (auto simp: distinct_find)
    with 2 covered_keeps show ?thesis by simp
  qed
  ultimately show ?thesis using r None by (cases "fill_fields ?d src") simp
next
  case (Some old)
  show ?thesis
  proof (cases "\<exists>od vs. old = JObj od \<and> v = JObj vs")
    case True
    then obtain od vs where o: "old = JObj od" and vs: "v = JObj vs" by blast
    obtain od' m where fo: "fill_fields od vs = (od', m)" by force
    have "keeps od od'" "covered od' vs" using sub [OF vs, of od] fo by simp_all
    let ?d = "j_replace k (JObj od') dst"
    let ?r = "fst (fill_fields ?d src)"
    have r: "keeps ?d ?r" "covered ?r src" using ih by simp_all
    have "keeps dst ?r"
      using keeps_trans [OF keeps_replace [OF _ \<open>keeps od od'\<close>] r(1)] Some o by simp
    moreover have "j_find ((=) k) ?d = Some (JObj od')" using Some by (simp add: j_find_replace)
    with r(1) have "covered ?r [(k, v)]"
    proof (cases rule: keeps_at)
      case (2 n n')
      with covered_keeps [OF \<open>covered od' vs\<close>] vs show ?thesis by simp
    qed simp
    ultimately show ?thesis using r Some o vs fo by (cases "fill_fields ?d src") simp
  next
    case False
    let ?r = "fst (fill_fields dst src)"
    have eq: "fill_fields dst ((k, v) # src) = fill_fields dst src"
      using False Some by (auto split: json.splits)
    have r: "keeps dst ?r" "covered ?r src" using ih by simp_all
    from r(1) Some have "covered ?r [(k, v)]"
    proof (cases rule: keeps_at)
      case 1
      then show ?thesis by (cases old) auto
    next
      case (2 m m')
      with False show ?thesis by (cases v) auto
    qed
    with r eq show ?thesis by simp
  qed
qed

lemma fill_keeps:
  "(\<forall>p \<in> set src. j_distinct (snd p)) \<Longrightarrow>
   keeps dst (fst (fill_fields dst src)) \<and> covered (fst (fill_fields dst src)) src"
proof (induction "size_list (size_prod (\<lambda>_. 0) size) src" arbitrary: dst src rule: less_induct)
  case less
  show ?case
  proof (cases src)
    case (Cons p src')
    obtain k v where p: "p = (k, v)" by force
    show ?thesis
      unfolding Cons p
    proof (rule fill_keeps_step)
      show "\<And>dst'. keeps dst' (fst (fill_fields dst' src')) \<and> covered (fst (fill_fields dst' src')) src'"
        using less Cons by simp
      show "\<And>od vs. v = JObj vs \<Longrightarrow> keeps od (fst (fill_fields od vs)) \<and> covered (fst (fill_fields od vs)) vs"
        using less Cons p by simp
      show "j_distinct v" using less.prems Cons p by simp
    qed
  qed simp
qed

lemma replace_same: "j_find ((=) k) ms = Some v \<Longrightarrow> j_replace k v ms = ms"
  by (induction ms) (auto split: if_splits)

lemma covered_fill: "covered dst src \<Longrightarrow> fill_fields dst src = (dst, 0)"
proof (induction dst src rule: covered.induct)
  case (2 dst k v src)
  obtain old where old: "j_find ((=) k) dst = Some old" using "2.prems" by (auto split: option.splits)
  have rest: "fill_fields dst src = (dst, 0)" using "2.IH"(2) "2.prems" by simp
  show ?case
  proof (cases "\<exists>od vs. old = JObj od \<and> v = JObj vs")
    case True
    then obtain od vs where o: "old = JObj od" "v = JObj vs" by blast
    have "fill_fields od vs = (od, 0)" using "2.IH"(1) [OF old refl o] "2.prems" old o by simp
    then show ?thesis using o old rest by (simp add: replace_same)
  next
    case False
    then show ?thesis using old rest by (auto split: json.splits)
  qed
qed simp

text \<open>Defaults are filled in once and for all: nothing that was set is overwritten, every member the
  defaults name is there afterwards, at whatever depth, and filling again adds nothing.\<close>

theorem fill_defaults_once:
  assumes "fill_defaults d defaults = (d', n)" "j_is_obj (Some d)" "j_is_obj (Some defaults)" "j_distinct defaults"
  shows "(j_look ks d = Some v \<and> (\<nexists>ms. v = JObj ms) \<longrightarrow> j_look ks d' = Some v) \<and>
         fill_defaults d' defaults = (d', 0)"
proof -
  obtain dm sm where m: "d = JObj dm" "defaults = JObj sm" using assms(2,3) by (cases d; cases defaults) auto
  obtain dm' where f: "fill_fields dm sm = (dm', n)" "d' = JObj dm'"
    using assms(1) m by (cases "fill_fields dm sm") auto
  have k: "keeps dm dm'" "covered dm' sm"
    using fill_keeps [of sm dm] assms(4) m f by auto
  have "j_look ks d' = Some v" if "j_look ks d = Some v" "\<nexists>ms. v = JObj ms"
  proof -
    from keepsD [OF k(1)] that(1) m f obtain w where "j_look ks d' = Some w" "alike v w" by auto
    moreover have "\<not> j_is_obj (Some v)" using that(2) by (cases v) auto
    ultimately show ?thesis by (simp add: alike_def)
  qed
  with covered_fill [OF k(2)] m f show ?thesis by simp
qed

theorem fill_defaults_once_witness:
  "fill_defaults (fst (fill_defaults (JObj [(''a'', JNum 1)]) patch_example)) patch_example =
   (fst (fill_defaults (JObj [(''a'', JNum 1)]) patch_example), 0)"
proof -
  obtain d' n where f: "fill_defaults (JObj [(''a'', JNum 1)]) patch_example = (d', n)" by force
  from fill_defaults_once [OF f] show ?thesis by (simp add: f patch_example_def)
qed

end
