(* ===== verification/Controller.thy ===== *)
theory Controller
  imports Json
begin

text \<open>
  \<open>include/pifire/controller.h\<close>, \<open>src/controllers/pid_common.h\<close>, \<open>pid.c\<close> and \<open>registry.c\<close>: what a
  controller is given and what it promises, the standard PID, and the table controllers are found in.
\<close>

section \<open>The interface\<close>

record pf_hist_pt =
  pt_t :: fl
  pt_pit_c :: fl
  pt_setpoint_c :: fl
  pt_u_raw :: fl
  pt_u_applied :: fl
  pt_ambient_c :: fl
  pt_fan_pct :: int
  pt_outputs :: nat

record pf_history =
  hi_pts :: "pf_hist_pt list"
  hi_head :: nat
  hi_len :: nat

definition pf_history_at :: "pf_history \<Rightarrow> int \<Rightarrow> pf_hist_pt option" where
  "pf_history_at h i =
     (if i < 0 \<or> int (hi_len h) \<le> i then None
      else Some (hi_pts h ! nat ((int (hi_head h) - int (hi_len h) + i + int (length (hi_pts h)))
                                 mod int (length (hi_pts h)))))"

record pf_ctrl_in =
  in_now_s :: fl
  in_pit_c :: fl
  in_setpoint_c :: fl
  in_ambient_c :: fl
  in_u_prev_raw :: fl
  in_u_prev_applied :: fl
  in_sched_PB_c :: fl
  in_sched_Ti :: fl
  in_sched_Td :: fl
  in_sched_K :: fl
  in_sched_tau :: fl
  in_sched_theta :: fl
  in_u_ff :: fl
  in_saturated :: int
  in_cycle_time_s :: fl
  in_u_min :: fl
  in_u_max :: fl
  in_target_reached :: bool
  in_fan_on :: bool
  in_fan_pct :: int
  in_tuning :: bool
  in_hist :: pf_history
  in_hold_K :: fl
  in_lid :: bool

record pf_ctrl_dbg =
  dbg_p :: fl
  dbg_i :: fl
  dbg_d :: fl
  dbg_ff :: fl
  dbg_error :: fl
  dbg_derivative :: fl
  dbg_integral :: fl
  dbg_note :: string

text \<open>
  A controller over an instance state.  Text is what it parses to: \<open>create\<close> and \<open>configure\<close> get the
  parsed configuration, \<open>state_json\<close> returns what its text says, none where it printed nothing.  An entry
  that is \<open>NULL\<close> is \<open>None\<close>; \<open>create\<close> itself may return \<open>NULL\<close>.
\<close>

record 's pf_controller_ops =
  op_abi :: nat
  op_id :: "string option"
  op_schema :: "json option"
  op_recommend :: "fl \<times> fl \<times> fl"
  op_create :: "(json option \<Rightarrow> 's option) option"
  op_reset :: "('s \<Rightarrow> pf_ctrl_in \<Rightarrow> 's) option"
  op_update :: "('s \<Rightarrow> pf_ctrl_in \<Rightarrow> pf_ctrl_dbg \<Rightarrow> 's \<times> fl \<times> pf_ctrl_dbg) option"
  op_configure :: "('s \<Rightarrow> json option \<Rightarrow> 's) option"
  op_state_json :: "('s \<Rightarrow> json option) option"
  op_apply_tuning :: "('s \<Rightarrow> fl \<Rightarrow> fl \<Rightarrow> fl \<Rightarrow> fl \<Rightarrow> fl \<Rightarrow> 's) option"
  op_forget :: "('s \<Rightarrow> 32 word \<Rightarrow> 's) option"

definition PF_CONTROLLER_ABI :: nat where "PF_CONTROLLER_ABI = 5"
definition PF_FORGET_REFINEMENT :: "32 word" where "PF_FORGET_REFINEMENT = 1"
definition PF_FORGET_TUNING :: "32 word" where "PF_FORGET_TUNING = 2"

section \<open>Configuration\<close>

definition pf_pid_cfg_num :: "json option \<Rightarrow> string \<Rightarrow> fl \<Rightarrow> fl" where
  "pf_pid_cfg_num c key dflt =
     (case c of Some j \<Rightarrow> (case j_get key j of Some (JNum v) \<Rightarrow> v | _ \<Rightarrow> dflt) | None \<Rightarrow> dflt)"

definition pf_pid_cfg_bool :: "json option \<Rightarrow> string \<Rightarrow> bool \<Rightarrow> bool" where
  "pf_pid_cfg_bool c key dflt =
     (case c of Some j \<Rightarrow> (case j_get key j of Some (JBool v) \<Rightarrow> v | _ \<Rightarrow> dflt) | None \<Rightarrow> dflt)"

definition pf_pid_cfg_units :: "json option \<Rightarrow> pf_units" where
  "pf_pid_cfg_units c =
     (case c of
        Some j \<Rightarrow> (case j_get ''_units'' j of
            Some (JStr (ch # _)) \<Rightarrow> if ch = CHR ''C'' then UnitsC else UnitsF | _ \<Rightarrow> UnitsF)
      | None \<Rightarrow> UnitsF)"

section \<open>The standard PID\<close>

record pid =
  PB_c :: fl
  Ti :: fl
  Td :: fl
  center :: fl
  kp :: fl
  ki :: fl
  kd :: fl
  inter :: fl
  inter_max :: fl
  last_pit :: fl
  last_t :: fl
  have_last :: bool
  pid_p :: fl
  pid_i :: fl
  pid_d :: fl
  pid_u :: fl

definition pid_zero :: pid where
  "pid_zero = \<lparr>PB_c = 0, Ti = 0, Td = 0, center = 0, kp = 0, ki = 0, kd = 0, inter = 0, inter_max = 0,
     last_pit = 0, last_t = 0, have_last = False, pid_p = 0, pid_i = 0, pid_d = 0, pid_u = 0\<rparr>"

definition calc_gains :: "pid \<Rightarrow> pid" where
  "calc_gains s =
     (let s = s\<lparr>kp := (if PB_c s = 0 then 0 else - 1 / PB_c s)\<rparr>;
          s = s\<lparr>ki := (if Ti s = 0 then 0 else kp s / Ti s)\<rparr>;
          s = s\<lparr>kd := kp s * Td s\<rparr>
      in s\<lparr>inter_max := (if ki s \<noteq> 0 then \<bar>(if center s \<noteq> 0 then center s else 1) / ki s\<bar> else 0)\<rparr>)"

definition apply_config :: "pid \<Rightarrow> json option \<Rightarrow> pid" where
  "apply_config s c =
     (let u = pf_pid_cfg_units c;
          pb = pf_pid_cfg_num c ''PB'' 60
      in calc_gains (s\<lparr>PB_c := pf_delta_to_c pb u, Ti := pf_pid_cfg_num c ''Ti'' 180,
                       Td := pf_pid_cfg_num c ''Td'' 45, center := pf_pid_cfg_num c ''center'' 0.5\<rparr>))"

definition pid_create :: "json option \<Rightarrow> pid" where
  "pid_create c = apply_config pid_zero c"

definition pid_reset :: "pid \<Rightarrow> pf_ctrl_in \<Rightarrow> pid" where
  "pid_reset s inp =
     (let s = s\<lparr>last_pit := in_pit_c inp, last_t := in_now_s inp, have_last := True\<rparr>;
          e = in_pit_c inp - in_setpoint_c inp;
          p = kp s * e + center s;
          want_i = in_u_prev_applied inp - p;
          s = s\<lparr>inter := (if ki s \<noteq> 0 then want_i / ki s else 0)\<rparr>
      in if 0 < inter_max s then s\<lparr>inter := fmax (- inter_max s) (fmin (inter_max s) (inter s))\<rparr> else s)"

definition pid_integrate :: "pid \<Rightarrow> fl \<Rightarrow> fl \<Rightarrow> pid" where
  "pid_integrate s e dt =
     (let s = (if \<not> isfinite (inter s) then s\<lparr>inter := 0\<rparr> else s);
          s = (if isfinite e \<and> isfinite dt then s\<lparr>inter := inter s + e * dt\<rparr> else s)
      in if center s \<noteq> 0 then s\<lparr>inter := fmax (- inter_max s) (fmin (inter_max s) (inter s))\<rparr> else s)"

definition pid_dt :: "pid \<Rightarrow> pf_ctrl_in \<Rightarrow> fl" where
  "pid_dt s inp =
     (let dt = in_now_s inp - last_t s
      in if dt \<le> 0 then (if 0 < in_cycle_time_s inp then in_cycle_time_s inp else 1) else dt)"

definition pid_update :: "pid \<Rightarrow> pf_ctrl_in \<Rightarrow> pid \<times> fl \<times> pf_ctrl_dbg" where
  "pid_update s inp =
     (let s = (if \<not> have_last s then pid_reset s inp else s);
          dt = pid_dt s inp;
          e = in_pit_c inp - in_setpoint_c inp;
          s = s\<lparr>pid_p := kp s * e + center s\<rparr>;
          s = pid_integrate s e dt;
          s = s\<lparr>pid_i := ki s * inter s\<rparr>;
          derv = (in_pit_c inp - last_pit s) / dt;
          s = s\<lparr>pid_d := kd s * derv\<rparr>;
          s = s\<lparr>pid_u := fmax (- 1) (fmin 2 (pid_p s + pid_i s + pid_d s)),
                last_pit := in_pit_c inp, last_t := in_now_s inp\<rparr>
      in (s, pid_u s, \<lparr>dbg_p = pid_p s, dbg_i = pid_i s, dbg_d = pid_d s, dbg_ff = 0, dbg_error = e,
                       dbg_derivative = derv, dbg_integral = inter s, dbg_note = []\<rparr>))"

definition pid_configure :: "pid \<Rightarrow> json option \<Rightarrow> pid" where
  "pid_configure s c = (apply_config s c)\<lparr>inter := 0, have_last := False\<rparr>"

text \<open>The numbers \<open>state_json\<close> reports, before printing rounds them.\<close>

definition pid_state_json :: "pid \<Rightarrow> json option" where
  "pid_state_json s = Some (JObj [(''kp'', JNum (kp s)), (''ki'', JNum (ki s)), (''kd'', JNum (kd s)),
     (''p'', JNum (pid_p s)), (''i'', JNum (pid_i s)), (''d'', JNum (pid_d s)), (''u'', JNum (pid_u s)),
     (''inter'', JNum (inter s)), (''inter_max'', JNum (inter_max s))])"

text \<open>The option schema, without the texts the settings page shows.\<close>

definition pid_schema :: json where
  "pid_schema = JArr
     [JObj [(''option_name'', JStr ''PB''), (''option_type'', JStr ''float''), (''option_default'', JNum 60)],
      JObj [(''option_name'', JStr ''Td''), (''option_type'', JStr ''float''), (''option_default'', JNum 45)],
      JObj [(''option_name'', JStr ''Ti''), (''option_type'', JStr ''float''), (''option_default'', JNum 180)],
      JObj [(''option_name'', JStr ''center''), (''option_type'', JStr ''float''), (''option_default'', JNum 0.5)]]"

definition pf_controller_pid :: "pid pf_controller_ops" where
  "pf_controller_pid = \<lparr>op_abi = PF_CONTROLLER_ABI, op_id = Some ''pid'', op_schema = Some pid_schema,
     op_recommend = (25, 0.1, 0.9), op_create = Some (\<lambda>c. Some (pid_create c)), op_reset = Some pid_reset,
     op_update = Some (\<lambda>s inp dbg. pid_update s inp), op_configure = Some pid_configure,
     op_state_json = Some pid_state_json, op_apply_tuning = None, op_forget = None\<rparr>"

subsection \<open>What every update keeps\<close>

lemma pid_integrate_frame [simp]:
  "center (pid_integrate s e dt) = center s" "inter_max (pid_integrate s e dt) = inter_max s"
  "kp (pid_integrate s e dt) = kp s" "ki (pid_integrate s e dt) = ki s" "kd (pid_integrate s e dt) = kd s"
  by (simp_all add: pid_integrate_def Let_def)

lemma pid_reset_frame [simp]:
  "center (pid_reset s inp) = center s" "inter_max (pid_reset s inp) = inter_max s"
  "kp (pid_reset s inp) = kp s" "ki (pid_reset s inp) = ki s" "kd (pid_reset s inp) = kd s"
  by (simp_all add: pid_reset_def Let_def)

lemma pid_update_fields:
  "fst (snd (pid_update s inp)) = pid_u (fst (pid_update s inp))"
  "center (fst (pid_update s inp)) = center s" "inter_max (fst (pid_update s inp)) = inter_max s"
  "ki (fst (pid_update s inp)) = ki s"
  by (cases "have_last s"; simp add: pid_update_def Let_def)+

lemma pid_update_range: "\<exists>r. fst (snd (pid_update s inp)) = Fin r \<and> -1 \<le> r \<and> r \<le> 2"
  using fmax_fmin_range [of "-1" 2] by (simp add: pid_update_def Let_def)

lemma pid_integrate_inter:
  assumes "center s \<noteq> 0" "inter_max s = Fin m" "0 \<le> m"
  shows "\<exists>r. inter (pid_integrate s e dt) = Fin r \<and> \<bar>r\<bar> \<le> m"
proof -
  define s1 where "s1 = (if \<not> isfinite (inter s) then s\<lparr>inter := 0\<rparr> else s)"
  define s2 where "s2 = (if isfinite e \<and> isfinite dt then s1\<lparr>inter := inter s1 + e * dt\<rparr> else s1)"
  have "pid_integrate s e dt =
      (if center s2 \<noteq> 0 then s2\<lparr>inter := fmax (- inter_max s2) (fmin (inter_max s2) (inter s2))\<rparr> else s2)"
    by (simp only: pid_integrate_def Let_def s1_def s2_def)
  moreover have "center s2 = center s" "inter_max s2 = inter_max s" by (simp_all add: s1_def s2_def)
  ultimately obtain x where "inter (pid_integrate s e dt) = fmax (- Fin m) (fmin (Fin m) x)"
    using assms(1,2) by simp
  with fmax_fmin_range [of "-m" m x] assms(3) show ?thesis by auto
qed

lemma pid_update_inter:
  assumes "center s \<noteq> 0" "inter_max s = Fin m" "0 \<le> m"
  shows "\<exists>r. inter (fst (pid_update s inp)) = Fin r \<and> \<bar>r\<bar> \<le> m"
proof -
  obtain s0 e dt where "inter (fst (pid_update s inp)) = inter (pid_integrate s0 e dt)"
    "center s0 = center s" "inter_max s0 = inter_max s"
    by (cases "have_last s") (auto simp: pid_update_def Let_def)
  with pid_integrate_inter [of s0 m e dt] assms show ?thesis by simp
qed

text \<open>Any sequence of readings.\<close>

fun pid_run :: "pid \<Rightarrow> pf_ctrl_in list \<Rightarrow> pid \<times> fl list" where
  "pid_run s [] = (s, [])"
| "pid_run s (inp # inps) =
     (case pid_update s inp of (s', u, _) \<Rightarrow> (case pid_run s' inps of (s'', us) \<Rightarrow> (s'', u # us)))"

lemma pid_run_bounded:
  assumes "center s \<noteq> 0" "inter_max s = Fin m" "0 \<le> m"
  shows "(\<forall>u \<in> set (snd (pid_run s inps)). -1 \<le> u \<and> u \<le> 2) \<and>
         (inps \<noteq> [] \<longrightarrow> (\<exists>r. inter (fst (pid_run s inps)) = Fin r \<and> \<bar>r\<bar> \<le> m))"
  using assms
proof (induction inps arbitrary: s)
  case (Cons inp inps)
  obtain s' u d where upd: "pid_update s inp = (s', u, d)" by (metis prod_cases3)
  have s': "center s' \<noteq> 0" "inter_max s' = Fin m"
    using pid_update_fields(2,3) [of s inp] upd Cons.prems by simp_all
  have u: "-1 \<le> u \<and> u \<le> 2" using pid_update_range [of s inp] upd by auto
  have i: "\<exists>r. inter s' = Fin r \<and> \<bar>r\<bar> \<le> m" using pid_update_inter [OF Cons.prems, of inp] upd by simp
  obtain s'' us where run: "pid_run s' inps = (s'', us)" by force
  from Cons.IH [OF s' Cons.prems(3)] run u i upd show ?case by (cases inps) auto
qed simp

text \<open>The shipped configuration, and a pit 5 degrees under its set point.\<close>

definition pid_example :: pid where
  "pid_example = pid_zero\<lparr>PB_c := Fin (100 / 3), Ti := 180, Td := 45, center := Fin (1 / 2)\<rparr>"

definition pid_in_example :: pf_ctrl_in where
  "pid_in_example = \<lparr>in_now_s = 100, in_pit_c = 100, in_setpoint_c = 105, in_ambient_c = 20, in_u_prev_raw = Fin (3 / 10),
     in_u_prev_applied = Fin (3 / 10), in_sched_PB_c = 0, in_sched_Ti = 0, in_sched_Td = 0, in_sched_K = 0,
     in_sched_tau = 0, in_sched_theta = 0, in_u_ff = 0, in_saturated = 0, in_cycle_time_s = 25, in_u_min = Fin (1 / 10),
     in_u_max = Fin (9 / 10), in_target_reached = False, in_fan_on = True, in_fan_pct = 100, in_tuning = False,
     in_hist = \<lparr>hi_pts = [], hi_head = 0, hi_len = 0\<rparr>, in_hold_K = 0, in_lid = False\<rparr>"


lemma clamp_id: "\<bar>x\<bar> \<le> m \<Longrightarrow> max (- m) (min m x) = (x::real)"
  by linarith

lemma clamp_dist: "\<bar>x\<bar> \<le> m \<Longrightarrow> \<bar>max (- m) (min m (x + d)) - x\<bar> \<le> \<bar>d :: real\<bar>"
  by linarith

text \<open>Taking over is bumpless: after a reset at the feed that is being applied, the first demand at the
  same reading differs from that feed by no more than one step of the integral over the time between,
  as long as that feed is one the integrator may reach.\<close>

theorem pid_bumpless:
  assumes "PB_c s = Fin b" "0 < b" "Ti s = Fin ti" "0 < ti" "Td s = Fin td" "center s = Fin c" "0 < c"
    and "in_pit_c inp = Fin pit" "in_setpoint_c inp = Fin sp" "in_now_s inp = Fin t" "in_u_prev_applied inp = Fin u0"
    and "in_pit_c inp' = Fin pit" "in_setpoint_c inp' = Fin sp" "in_now_s inp' = Fin (t + dt)" "0 < dt"
    and "-1 \<le> u0" "u0 \<le> 2" "\<bar>u0 - (c - (pit - sp) / b)\<bar> \<le> c"
  shows "\<exists>u. fst (snd (pid_update (pid_reset (calc_gains s) inp) inp')) = Fin u \<and>
             \<bar>u - u0\<bar> \<le> \<bar>pit - sp\<bar> / (b * ti) * dt"
proof -
  define g where "g = calc_gains s"
  define q where "q = pid_reset g inp"
  define k i m where "k = - 1 / b" and "i = - 1 / b / ti" and "m = \<bar>c / i\<bar>"
  define x where "x = (u0 - (k * (pit - sp) + c)) / i"
  have nz: "i \<noteq> 0" "0 < m" using assms(2,4,7) by (simp_all add: i_def m_def)
  have g: "kp g = Fin k" "ki g = Fin i" "kd g = Fin (k * td)" "center g = Fin c" "inter_max g = Fin m"
    using assms(1-7) by (simp_all add: g_def calc_gains_def k_def i_def m_def Let_def)
  have "k * (pit - sp) + c = c - (pit - sp) / b" using assms(2) by (simp add: k_def field_simps)
  then have "\<bar>u0 - (k * (pit - sp) + c)\<bar> \<le> \<bar>c\<bar>" using assms(7,18) by simp
  then have x: "\<bar>x\<bar> \<le> m" unfolding x_def m_def abs_divide by (rule divide_right_mono) simp
  have w: "u0 + (- (k * (pit - sp)) - c) = u0 - (k * (pit - sp) + c)" by simp
  have "inter q = Fin (max (- m) (min m x))"
    using g nz assms(8-11) by (simp add: q_def pid_reset_def x_def Let_def w)
  then have q: "inter q = Fin x" "last_pit q = Fin pit" "last_t q = Fin t" "have_last q"
      "kp q = Fin k" "ki q = Fin i" "kd q = Fin (k * td)" "center q = Fin c" "inter_max q = Fin m"
    using clamp_id [OF x] g assms(8,10) by (simp_all add: q_def) (simp_all add: pid_reset_def Let_def)
  define y where "y = max (- m) (min m (x + (pit - sp) * dt))"
  have dt: "pid_dt q inp' = Fin dt" using assms(14,15) q by (simp add: pid_dt_def)
  have u: "fst (snd (pid_update q inp')) = Fin (max (- 1) (min 2 ((k * (pit - sp) + c) + i * y)))"
    using assms(7,12,13,15) q dt
    by (simp add: pid_update_def pid_integrate_def y_def Let_def)
  have "\<bar>y - x\<bar> \<le> \<bar>(pit - sp) * dt\<bar>" unfolding y_def using x by (rule clamp_dist)
  then have "\<bar>i\<bar> * \<bar>y - x\<bar> \<le> \<bar>i\<bar> * \<bar>(pit - sp) * dt\<bar>" by (rule mult_left_mono) simp
  then have "\<bar>i * y - i * x\<bar> \<le> \<bar>i\<bar> * \<bar>(pit - sp) * dt\<bar>" by (simp add: abs_mult flip: right_diff_distrib)
  moreover have "i * x = u0 - (k * (pit - sp) + c)" using nz by (simp add: x_def)
  moreover have "\<bar>i\<bar> * \<bar>(pit - sp) * dt\<bar> = \<bar>pit - sp\<bar> / (b * ti) * dt"
    using assms(2,4,15) by (simp add: i_def abs_mult abs_divide)
  ultimately have "\<bar>(k * (pit - sp) + c) + i * y - u0\<bar> \<le> \<bar>pit - sp\<bar> / (b * ti) * dt" by linarith
  then have "\<bar>max (- 1) (min 2 ((k * (pit - sp) + c) + i * y)) - u0\<bar> \<le> \<bar>pit - sp\<bar> / (b * ti) * dt"
    using assms(16,17) by linarith
  with u show ?thesis unfolding q_def g_def by blast
qed

text \<open>A reading that is not a number asks for a full feed and more: the clamp of the demand turns the
  NaN of its proportional term into its upper limit, whatever state the controller is in.\<close>

theorem pid_nan_asks_for_full_feed:
  assumes "in_pit_c inp = NaN"
  shows "fst (snd (pid_update s inp)) = 2"
  using assms by (cases "have_last s") (simp_all add: pid_update_def Let_def)


theorem pid_bumpless_witness:
  "\<exists>u. fst (snd (pid_update (pid_reset (calc_gains pid_example) pid_in_example)
      (pid_in_example\<lparr>in_now_s := Fin (100 + 25)\<rparr>))) = Fin u \<and> \<bar>u - 3 / 10\<bar> \<le> 5 / (100 / 3 * 180) * 25"
  using pid_bumpless [of pid_example "100 / 3" 180 45 "1 / 2" pid_in_example 100 105 100 "3 / 10"
      "pid_in_example\<lparr>in_now_s := Fin (100 + 25)\<rparr>" 25]
  by (simp add: pid_example_def pid_in_example_def)

theorem pid_nan_asks_for_full_feed_witness:
  "fst (snd (pid_update (pid_create None) (pid_in_example\<lparr>in_pit_c := NaN\<rparr>))) = 2"
  by (rule pid_nan_asks_for_full_feed) simp

section \<open>The table of controllers\<close>

definition MAX_CONTROLLERS :: nat where "MAX_CONTROLLERS = 32"

text \<open>The table is the list of what was added, first to last.\<close>

definition pf_controller_find :: "string \<Rightarrow> 's pf_controller_ops list \<Rightarrow> 's pf_controller_ops option" where
  "pf_controller_find i tab = List.find (\<lambda>o1. op_id o1 = Some i) tab"

definition registry_add :: "'s pf_controller_ops option \<Rightarrow> 's pf_controller_ops list \<Rightarrow> 's pf_controller_ops list \<times> bool" where
  "registry_add ops tab =
     (case ops of
        None \<Rightarrow> (tab, False)
      | Some ops \<Rightarrow>
          if op_abi ops \<noteq> PF_CONTROLLER_ABI then (tab, False)
          else case op_id ops of
            None \<Rightarrow> (tab, False)
          | Some i \<Rightarrow>
              if op_create ops = None \<or> op_update ops = None \<or> op_reset ops = None then (tab, False)
              else if pf_controller_find i tab \<noteq> None then (tab, False)
              else if MAX_CONTROLLERS \<le> length tab then (tab, False)
              else (tab @ [ops], True))"

text \<open>The entries of the plugin directory, each with what its export function returns when it loads.\<close>

definition is_plugin :: "string \<Rightarrow> bool" where
  "is_plugin name \<longleftrightarrow> 4 \<le> length name \<and> drop (length name - 3) name = ''.so''"

definition pf_controllers_init ::
    "'s pf_controller_ops \<Rightarrow> 's pf_controller_ops \<Rightarrow> (string \<times> 's pf_controller_ops option option) list \<Rightarrow>
     's pf_controller_ops list" where
  "pf_controllers_init adaptive pid1 dir =
     fold (\<lambda>(name, ex) tab. if is_plugin name then (case ex of Some ops \<Rightarrow> fst (registry_add ops tab) | None \<Rightarrow> tab) else tab)
       dir (fst (registry_add (Some pid1) (fst (registry_add (Some adaptive) []))))"

definition pf_controller_count :: "'s pf_controller_ops list \<Rightarrow> int" where
  "pf_controller_count tab = int (length tab)"

definition pf_controller_at :: "int \<Rightarrow> 's pf_controller_ops list \<Rightarrow> 's pf_controller_ops option" where
  "pf_controller_at i tab = (if 0 \<le> i \<and> i < pf_controller_count tab then Some (tab ! nat i) else None)"

text \<open>A controller that may be called.\<close>

definition callable :: "'s pf_controller_ops \<Rightarrow> bool" where
  "callable o1 \<longleftrightarrow> op_abi o1 = PF_CONTROLLER_ABI \<and> op_id o1 \<noteq> None \<and> op_create o1 \<noteq> None \<and> op_update o1 \<noteq> None \<and>
     op_reset o1 \<noteq> None"

definition registry_inv :: "'s pf_controller_ops list \<Rightarrow> bool" where
  "registry_inv tab \<longleftrightarrow> (\<forall>o1 \<in> set tab. callable o1) \<and> distinct (map op_id tab) \<and> length tab \<le> MAX_CONTROLLERS"

lemma registry_find_None: "pf_controller_find i tab = None \<longleftrightarrow> Some i \<notin> op_id ` set tab"
  by (force simp: pf_controller_find_def find_None_iff image_iff)

lemma registry_add_inv: "registry_inv tab \<Longrightarrow> registry_inv (fst (registry_add ops tab))"
  by (auto simp: registry_add_def registry_inv_def callable_def registry_find_None split: option.splits)

lemma registry_add_find:
  "pf_controller_find i tab = Some o1 \<Longrightarrow> pf_controller_find i (fst (registry_add ops tab)) = Some o1"
  by (auto simp: registry_add_def pf_controller_find_def find_Some_iff nth_append split: option.splits)

definition plugin_step :: "string \<times> 's pf_controller_ops option option \<Rightarrow> 's pf_controller_ops list \<Rightarrow> 's pf_controller_ops list" where
  "plugin_step e tab = (case e of (name, ex) \<Rightarrow>
     if is_plugin name then (case ex of Some ops \<Rightarrow> fst (registry_add ops tab) | None \<Rightarrow> tab) else tab)"

lemma plugin_step_eq:
  "(\<lambda>(name, ex) tab. if is_plugin name then (case ex of Some ops \<Rightarrow> fst (registry_add ops tab) | None \<Rightarrow> tab) else tab) =
   plugin_step"
  by (auto simp: plugin_step_def fun_eq_iff)

lemma plugins_keep:
  assumes "registry_inv tab"
  shows "registry_inv (fold plugin_step dir tab) \<and>
         (pf_controller_find i tab = Some o1 \<longrightarrow> pf_controller_find i (fold plugin_step dir tab) = Some o1)"
  using assms
proof (induction dir arbitrary: tab)
  case (Cons e dir)
  have "registry_inv (plugin_step e tab)"
    using Cons.prems by (auto simp: plugin_step_def registry_add_inv split: prod.splits option.splits)
  moreover have "pf_controller_find i tab = Some o1 \<Longrightarrow> pf_controller_find i (plugin_step e tab) = Some o1"
    by (auto simp: plugin_step_def registry_add_find split: prod.splits option.splits)
  ultimately show ?case using Cons.IH [of "plugin_step e tab"] by simp
qed simp

text \<open>Whatever the plugin directory holds, every controller in the table speaks the right version of the
  interface and has the functions the daemon calls, no two share a name, there are at most 32, and the
  built-in ones are found under their names: no plugin can take their place.\<close>

theorem builtin_controllers_stay:
  assumes "callable adaptive" "callable pid1" "op_id adaptive = Some ''adaptive''" "op_id pid1 = Some ''pid''"
  shows "registry_inv (pf_controllers_init adaptive pid1 dir) \<and>
         pf_controller_find ''adaptive'' (pf_controllers_init adaptive pid1 dir) = Some adaptive \<and>
         pf_controller_find ''pid'' (pf_controllers_init adaptive pid1 dir) = Some pid1"
proof -
  have two: "fst (registry_add (Some pid1) (fst (registry_add (Some adaptive) []))) = [adaptive, pid1]"
    using assms by (simp add: registry_add_def callable_def pf_controller_find_def MAX_CONTROLLERS_def)
  have inv: "registry_inv [adaptive, pid1]"
    using assms by (simp add: registry_inv_def MAX_CONTROLLERS_def)
  have "pf_controllers_init adaptive pid1 dir = fold plugin_step dir [adaptive, pid1]"
    by (simp add: pf_controllers_init_def two plugin_step_eq)
  with plugins_keep [OF inv, of dir "''adaptive''" adaptive] plugins_keep [OF inv, of dir "''pid''" pid1] assms(3,4) show ?thesis
    by (simp add: pf_controller_find_def)
qed

theorem builtin_controllers_stay_witness:
  "map op_id (pf_controllers_init (pf_controller_pid\<lparr>op_id := Some ''adaptive''\<rparr>) pf_controller_pid
      [(''pid.so'', Some (Some (pf_controller_pid\<lparr>op_recommend := (0, 0, 0)\<rparr>))),
       (''bang.so'', Some (Some (pf_controller_pid\<lparr>op_id := Some ''bangbang''\<rparr>)))]) =
     [Some ''adaptive'', Some ''pid'', Some ''bangbang''] \<and>
   pf_controller_find ''pid'' (pf_controllers_init (pf_controller_pid\<lparr>op_id := Some ''adaptive''\<rparr>) pf_controller_pid
      [(''pid.so'', Some (Some (pf_controller_pid\<lparr>op_recommend := (0, 0, 0)\<rparr>))),
       (''bang.so'', Some (Some (pf_controller_pid\<lparr>op_id := Some ''bangbang''\<rparr>)))]) = Some pf_controller_pid"
  using builtin_controllers_stay [of "pf_controller_pid\<lparr>op_id := Some ''adaptive''\<rparr>" pf_controller_pid
     "[(''pid.so'', Some (Some (pf_controller_pid\<lparr>op_recommend := (0, 0, 0)\<rparr>))),
       (''bang.so'', Some (Some (pf_controller_pid\<lparr>op_id := Some ''bangbang''\<rparr>)))]"]
  by (simp add: callable_def pf_controller_pid_def pf_controllers_init_def registry_add_def pf_controller_find_def
      MAX_CONTROLLERS_def is_plugin_def)

end
