(* ===== verification/Config.thy ===== *)
theory Config
  imports Settings
begin

text \<open>
  The configuration of the control thread: \<open>pf_cfg\<close> of \<open>src/core/control.h\<close> and \<open>load_cfg\<close> of
  \<open>src/core/control.c\<close>, which reads it from the settings tree with its own ceilings.
\<close>

definition PF_SS_MAX :: nat where "PF_SS_MAX = 8"

record pf_cfg =
  units :: pf_units
  hold_cycle_s :: fl
  smoke_on_s :: fl
  smoke_off_s :: fl
  pmode :: int
  u_min :: fl
  u_max :: fl
  lid_detect :: bool
  lid_threshold_pct :: fl
  lid_pause_s :: fl
  lid_resume_rise_c :: fl
  fan_pid :: bool
  max_temp_c :: fl
  restart_hot_c :: fl
  min_target_c :: fl
  max_target_c :: fl
  smoke_min_c :: fl
  power_loss_recovery :: bool
  power_loss_max_s :: fl
  reignite_retries :: int
  allow_manual :: bool
  manual_override_s :: fl
  igniter_max_on_s :: fl
  auger_max_on_s :: fl
  probe_fault_s :: fl
  error_cooldown_fan_s :: fl
  use_library :: bool
  relight_enabled :: bool
  relight_drop_c :: fl
  relight_prove_s :: fl
  relight_confirm_s :: fl
  ss_prove_s :: fl
  ss_prove_rise_c :: fl
  ss_exit_rise_c :: fl
  prime_on_startup_g :: fl
  after_startup_mode :: pf_mode
  after_startup_setpoint_c :: fl
  ss_n :: nat
  ss_ranges_c :: "fl list"
  ss_prof :: "(fl \<times> int) list"
  startup_pwm_duty :: int
  shutdown_s :: fl
  auto_power_off :: bool
  splus_default :: bool
  splus_max_c :: fl
  splus_on_s :: fl
  splus_off_s :: fl
  splus_duty :: int
  splus_ramp :: bool
  dc_fan :: bool
  pwm_control_default :: bool
  pwm_update_s :: fl
  pwm_hz :: int
  pwm_min_duty :: int
  pwm_max_duty :: int
  pwm_n :: nat
  pwm_ranges_c :: "fl list"
  pwm_profiles :: "int list"
  augerrate :: fl
  prime_ignition :: bool
  keepwarm_c :: fl
  keepwarm_splus :: bool
  history_sample_s :: fl
  clear_history_on_startup :: bool
  controller_id :: string

text \<open>The configuration \<open>memset\<close> leaves.\<close>

definition zero_cfg :: pf_cfg where
  "zero_cfg = \<lparr>
    units = UnitsF, hold_cycle_s = 0, smoke_on_s = 0, smoke_off_s = 0, pmode = 0, u_min = 0, u_max = 0,
    lid_detect = False, lid_threshold_pct = 0, lid_pause_s = 0, lid_resume_rise_c = 0, fan_pid = False,
    max_temp_c = 0, restart_hot_c = 0, min_target_c = 0, max_target_c = 0, smoke_min_c = 0,
    power_loss_recovery = False, power_loss_max_s = 0, reignite_retries = 0, allow_manual = False,
    manual_override_s = 0, igniter_max_on_s = 0, auger_max_on_s = 0, probe_fault_s = 0, error_cooldown_fan_s = 0,
    use_library = False, relight_enabled = False, relight_drop_c = 0, relight_prove_s = 0, relight_confirm_s = 0,
    ss_prove_s = 0, ss_prove_rise_c = 0, ss_exit_rise_c = 0, prime_on_startup_g = 0, after_startup_mode = STOP,
    after_startup_setpoint_c = 0, ss_n = 0, ss_ranges_c = replicate PF_SS_MAX 0,
    ss_prof = replicate (PF_SS_MAX + 1) (0, 0), startup_pwm_duty = 0, shutdown_s = 0, auto_power_off = False,
    splus_default = False, splus_max_c = 0, splus_on_s = 0, splus_off_s = 0, splus_duty = 0, splus_ramp = False,
    dc_fan = False, pwm_control_default = False, pwm_update_s = 0, pwm_hz = 0, pwm_min_duty = 0, pwm_max_duty = 0,
    pwm_n = 0, pwm_ranges_c = replicate PF_SS_MAX 0, pwm_profiles = replicate (PF_SS_MAX + 1) 0, augerrate = 0,
    prime_ignition = False, keepwarm_c = 0, keepwarm_splus = False, history_sample_s = 0,
    clear_history_on_startup = False, controller_id = []\<rparr>"

section \<open>Reading the settings\<close>

text \<open>The macros \<open>T\<close> (a temperature), \<open>D\<close> (a difference), \<open>N\<close> and \<open>B\<close>.\<close>

definition cfg_N :: "json \<Rightarrow> string \<Rightarrow> fl \<Rightarrow> fl" where "cfg_N r path dflt = pf_json_num (Some r) path dflt"

definition cfg_B :: "json \<Rightarrow> string \<Rightarrow> bool \<Rightarrow> bool" where "cfg_B r path dflt = pf_json_bool (Some r) path dflt"

definition cfg_T :: "json \<Rightarrow> pf_units \<Rightarrow> string \<Rightarrow> fl \<Rightarrow> fl" where
  "cfg_T r u path dflt = pf_to_c (pf_json_num (Some r) path dflt) u"

definition cfg_D :: "json \<Rightarrow> pf_units \<Rightarrow> string \<Rightarrow> fl \<Rightarrow> fl" where
  "cfg_D r u path dflt = pf_delta_to_c (pf_json_num (Some r) path dflt) u"

text \<open>The numbers of a list, at most eight, written over the first entries of an array.\<close>

definition read_ranges :: "(fl \<Rightarrow> fl) \<Rightarrow> json list \<Rightarrow> fl list \<Rightarrow> nat \<times> fl list" where
  "read_ranges conv items old =
     (let vs = take PF_SS_MAX [conv v. JNum v \<leftarrow> items]
      in (length vs, vs @ drop (length vs) old))"

text \<open>Profiles past the last one given repeat it; with none given the first entry is what it was.\<close>

definition read_profiles :: "json list \<Rightarrow> (fl \<times> int) list \<Rightarrow> (fl \<times> int) list" where
  "read_profiles items old =
     (let ps = take (PF_SS_MAX + 1)
            (map (\<lambda>it. (pf_json_num (Some it) ''augerontime'' 15, pf_json_int (Some it) ''p_mode'' 2)) items);
          filler = (if ps = [] then old ! 0 else last ps)
      in ps @ replicate (PF_SS_MAX + 1 - length ps) filler)"

definition read_duties :: "json list \<Rightarrow> int \<Rightarrow> int list" where
  "read_duties items mx =
     (let ds = take (PF_SS_MAX + 1) (map (\<lambda>it. pf_json_int (Some it) ''duty_cycle'' 100) items)
      in ds @ replicate (PF_SS_MAX + 1 - length ds) mx)"

definition load_cycle :: "json \<Rightarrow> pf_units \<Rightarrow> pf_cfg \<Rightarrow> pf_cfg" where
  "load_cycle r u g = g\<lparr>units := u,
     hold_cycle_s := cfg_N r ''cycle_data.HoldCycleTime'' 25,
     smoke_on_s := cfg_N r ''cycle_data.SmokeOnCycleTime'' 15,
     smoke_off_s := cfg_N r ''cycle_data.SmokeOffCycleTime'' 45,
     pmode := fl_to_int (cfg_N r ''cycle_data.PMode'' 2),
     u_min := cfg_N r ''cycle_data.u_min'' 0.1,
     u_max := cfg_N r ''cycle_data.u_max'' 0.9,
     lid_detect := cfg_B r ''cycle_data.LidOpenDetectEnabled'' False,
     lid_threshold_pct := cfg_N r ''cycle_data.LidOpenThreshold'' 15,
     lid_pause_s := cfg_N r ''cycle_data.LidOpenPauseTime'' 60,
     lid_resume_rise_c := cfg_D r u ''cycle_data.LidOpenResumeRise'' 10,
     fan_pid := cfg_B r ''cycle_data.FanPidEnabled'' False\<rparr>"

definition load_safety :: "json \<Rightarrow> pf_units \<Rightarrow> pf_cfg \<Rightarrow> pf_cfg" where
  "load_safety r u g = g\<lparr>
     max_temp_c := cfg_T r u ''safety.maxtemp'' 650,
     min_target_c := cfg_T r u ''safety.min_target'' 160,
     max_target_c := cfg_T r u ''safety.max_target'' 550,
     smoke_min_c := cfg_T r u ''safety.smoke_min'' 180,
     restart_hot_c := cfg_T r u ''safety.restart_hot_temp'' 150,
     power_loss_recovery := cfg_B r ''safety.power_loss.recovery'' True,
     power_loss_max_s := cfg_N r ''safety.power_loss.max_s'' 300,
     reignite_retries := fl_to_int (cfg_N r ''safety.reigniteretries'' 1),
     allow_manual := cfg_B r ''safety.allow_manual_changes'' False,
     manual_override_s := cfg_N r ''safety.manual_override_time'' 30,
     igniter_max_on_s :=
       (let v = cfg_N r ''safety.igniter_max_on_s'' PF_IGNITER_MAX_S
        in if \<not> 0 < v \<or> PF_IGNITER_MAX_S < v then PF_IGNITER_MAX_S else v),
     auger_max_on_s := cfg_N r ''safety.auger_max_on_s'' 60,
     probe_fault_s := cfg_N r ''safety.probe_fault_s'' 10,
     relight_enabled := cfg_B r ''safety.relight_enabled'' True,
     relight_drop_c := cfg_D r u ''safety.relight_drop'' 20,
     relight_confirm_s := pf_clamp (cfg_N r ''safety.relight_confirm_s'' 60) 0 600,
     relight_prove_s := pf_clamp (cfg_N r ''safety.relight_prove_s'' 180) 0 PF_IGNITER_MAX_S,
     use_library := cfg_B r ''learning.use_library'' True,
     error_cooldown_fan_s := cfg_N r ''safety.error_cooldown_fan_s'' 300\<rparr>"

definition load_smart_start :: "json \<Rightarrow> pf_units \<Rightarrow> pf_cfg \<Rightarrow> pf_cfg" where
  "load_smart_start r u g =
     (let g = g\<lparr>ss_prove_s := pf_clamp (cfg_N r ''startup.smartstart.prove_s'' 300) 60 PF_IGNITER_MAX_S,
                ss_prove_rise_c := cfg_D r u ''startup.smartstart.prove_rise'' 3,
                ss_exit_rise_c := cfg_D r u ''startup.smartstart.exit_rise'' 12\<rparr>;
          g = (if \<not> 0 < ss_prove_rise_c g then g\<lparr>ss_prove_rise_c := pf_delta_to_c 3 UnitsF\<rparr> else g)
      in if \<not> ss_prove_rise_c g < ss_exit_rise_c g
         then g\<lparr>ss_exit_rise_c := ss_prove_rise_c g + pf_delta_to_c 9 UnitsF\<rparr> else g)"

definition load_startup :: "json \<Rightarrow> pf_units \<Rightarrow> pf_cfg \<Rightarrow> pf_cfg" where
  "load_startup r u g =
     (let am = pf_json_str (Some r) ''startup.start_to_mode.after_startup_mode'' ''Smoke'';
          ranges = j_children (pf_json_path (Some r) ''startup.smartstart.temp_range_list'');
          profs = j_children (pf_json_path (Some r) ''startup.smartstart.profiles'');
          (n, rs) = read_ranges (\<lambda>v. pf_to_c v u) ranges (ss_ranges_c g)
      in g\<lparr>prime_on_startup_g := cfg_N r ''startup.prime_on_startup'' 0,
           after_startup_mode := (if strcase_eq am ''Hold'' then HOLD else SMOKE),
           after_startup_setpoint_c := cfg_T r u ''startup.start_to_mode.primary_setpoint'' 165,
           ss_n := n, ss_ranges_c := rs, ss_prof := read_profiles profs (ss_prof g),
           startup_pwm_duty := fl_to_int (cfg_N r ''startup.pwm_duty_cycle'' 100),
           shutdown_s := cfg_N r ''shutdown.shutdown_duration'' 240,
           auto_power_off := cfg_B r ''shutdown.auto_power_off'' False\<rparr>)"

definition load_fan :: "json \<Rightarrow> pf_units \<Rightarrow> pf_cfg \<Rightarrow> pf_cfg" where
  "load_fan r u g =
     (let ranges = j_children (pf_json_path (Some r) ''pwm.temp_range_list'');
          profs = j_children (pf_json_path (Some r) ''pwm.profiles'');
          (n, rs) = read_ranges (\<lambda>v. pf_delta_to_c v u) ranges (pwm_ranges_c g);
          mx = fl_to_int (cfg_N r ''pwm.max_duty_cycle'' 100)
      in g\<lparr>splus_default := cfg_B r ''smoke_plus.enabled'' False,
           splus_max_c := cfg_T r u ''smoke_plus.max_temp'' 220,
           splus_on_s := cfg_N r ''smoke_plus.on_time'' 5,
           splus_off_s := cfg_N r ''smoke_plus.off_time'' 5,
           splus_duty := fl_to_int (cfg_N r ''smoke_plus.duty_cycle'' 75),
           splus_ramp := cfg_B r ''smoke_plus.fan_ramp'' False,
           dc_fan := cfg_B r ''platform.dc_fan'' False,
           pwm_control_default := cfg_B r ''pwm.pwm_control'' False,
           pwm_update_s := cfg_N r ''pwm.update_time'' 10,
           pwm_hz := fl_to_int (cfg_N r ''pwm.frequency'' 25000),
           pwm_min_duty := fl_to_int (cfg_N r ''pwm.min_duty_cycle'' 20),
           pwm_max_duty := mx, pwm_n := n, pwm_ranges_c := rs, pwm_profiles := read_duties profs mx\<rparr>)"

definition load_rest :: "json \<Rightarrow> pf_units \<Rightarrow> pf_cfg \<Rightarrow> pf_cfg" where
  "load_rest r u g = g\<lparr>
     augerrate := cfg_N r ''globals.augerrate'' 0.3,
     prime_ignition := cfg_B r ''globals.prime_ignition'' False,
     keepwarm_c := cfg_T r u ''keep_warm.temp'' 165,
     keepwarm_splus := cfg_B r ''keep_warm.s_plus'' False,
     history_sample_s := cfg_N r ''history.sample_s'' 3,
     clear_history_on_startup := cfg_B r ''history.clear_on_startup'' True,
     controller_id := fst (pf_strlcpy [] (pf_json_str (Some r) ''controller.selected'' ''pid'') 32)\<rparr>"

definition load_cfg :: "json \<Rightarrow> pf_cfg \<Rightarrow> pf_cfg" where
  "load_cfg r g =
     (let u = units_of (pf_json_str (Some r) ''globals.units'' ''F'')
      in load_rest r u (load_fan r u (load_startup r u (load_smart_start r u (load_safety r u (load_cycle r u g))))))"

section \<open>The ceilings\<close>

lemma load_rest_frame [simp]:
  "igniter_max_on_s (load_rest r u g) = igniter_max_on_s g" "ss_prove_s (load_rest r u g) = ss_prove_s g"
  "ss_prove_rise_c (load_rest r u g) = ss_prove_rise_c g" "ss_exit_rise_c (load_rest r u g) = ss_exit_rise_c g"
  "relight_prove_s (load_rest r u g) = relight_prove_s g" "ss_prof (load_rest r u g) = ss_prof g"
  "pwm_profiles (load_rest r u g) = pwm_profiles g"
  by (simp_all add: load_rest_def)

lemma load_fan_frame [simp]:
  "igniter_max_on_s (load_fan r u g) = igniter_max_on_s g" "ss_prove_s (load_fan r u g) = ss_prove_s g"
  "ss_prove_rise_c (load_fan r u g) = ss_prove_rise_c g" "ss_exit_rise_c (load_fan r u g) = ss_exit_rise_c g"
  "relight_prove_s (load_fan r u g) = relight_prove_s g" "ss_prof (load_fan r u g) = ss_prof g"
  by (simp_all add: load_fan_def Let_def split: prod.splits)

lemma load_startup_frame [simp]:
  "igniter_max_on_s (load_startup r u g) = igniter_max_on_s g" "ss_prove_s (load_startup r u g) = ss_prove_s g"
  "ss_prove_rise_c (load_startup r u g) = ss_prove_rise_c g" "ss_exit_rise_c (load_startup r u g) = ss_exit_rise_c g"
  "relight_prove_s (load_startup r u g) = relight_prove_s g"
  by (simp_all add: load_startup_def Let_def split: prod.splits)

lemma load_smart_start_frame [simp]:
  "igniter_max_on_s (load_smart_start r u g) = igniter_max_on_s g"
  "relight_prove_s (load_smart_start r u g) = relight_prove_s g"
  by (simp_all add: load_smart_start_def Let_def)

lemma igniter_cap: "0 < igniter_max_on_s (load_safety r u g) \<and> igniter_max_on_s (load_safety r u g) \<le> PF_IGNITER_MAX_S"
proof -
  have "0 < v \<and> v \<le> 300" if "0 < v" "\<not> 300 < v" for v :: fl using that by (cases v) auto
  then show ?thesis by (simp add: load_safety_def PF_IGNITER_MAX_S_def Let_def)
qed

lemma smart_start_rises:
  "0 < ss_prove_rise_c (load_smart_start r u g) \<and>
   (ss_prove_rise_c (load_smart_start r u g) = PInf \<or>
      ss_prove_rise_c (load_smart_start r u g) < ss_exit_rise_c (load_smart_start r u g))"
proof -
  have "0 < x \<Longrightarrow> x \<noteq> PInf \<Longrightarrow> x < x + pf_delta_to_c 9 UnitsF" for x
    by (cases x) (auto simp: pf_delta_to_c_def)
  then show ?thesis
    by (auto simp: load_smart_start_def Let_def pf_delta_to_c_def)
qed


end
