(* ===== verification/Grill.thy ===== *)
theory Grill
  imports Config Events Outputs
begin

text \<open>
  The state the supervision of the fire works on: \<open>pf_safety\<close> and the part of \<open>pf_control\<close>
  (\<open>src/core/control.h\<close>) that \<open>src/core/safety.c\<close> reads and writes, with the output arbiter and the
  event bus it calls.  The control thread extends the record.
\<close>

record pf_safety =
  ss_active :: bool
  ss_proven :: bool
  ss_baseline_c :: fl
  ss_deadline :: fl
  ss_above_since :: fl
  ss_start :: fl
  ss_entry_c :: fl
  ss_held :: bool
  ss_flat_c :: fl
  ss_flat_t :: fl
  filt_c :: fl
  fire_c :: fl
  fall_since :: fl
  jump_ref_c :: fl
  jump_ref_t :: fl
  jump_said_t :: fl
  peak_c :: fl
  heating :: bool
  handover_c :: fl
  established :: bool
  progress_c :: fl
  progress_t :: fl
  stepdown_armed :: bool
  proving :: bool
  reached :: bool
  stall_said :: bool
  prove_until :: fl
  last_sp_c :: fl
  reignite_retries_left :: int
  reignite_last :: pf_mode
  primary_invalid_since :: fl
  igniter_on_since :: fl
  igniter_locked_out :: bool
  ctrl_fault_count :: int
  error_fan_until :: fl
  error_pit_c :: fl
  stop_overtemp_said :: bool
  error_code :: string
  error_msg :: msg

definition zero_safety :: pf_safety where
  "zero_safety = \<lparr>ss_active = False, ss_proven = False, ss_baseline_c = 0, ss_deadline = 0, ss_above_since = 0,
     ss_start = 0, ss_entry_c = 0, ss_held = False, ss_flat_c = 0, ss_flat_t = 0, filt_c = 0, fire_c = 0, fall_since = 0,
     jump_ref_c = 0, jump_ref_t = 0, jump_said_t = 0, peak_c = 0, heating = False, handover_c = 0, established = False,
     progress_c = 0, progress_t = 0, stepdown_armed = False, proving = False, reached = False, stall_said = False,
     prove_until = 0, last_sp_c = 0, reignite_retries_left = 0, reignite_last = STOP, primary_invalid_since = 0,
     igniter_on_since = 0, igniter_locked_out = False, ctrl_fault_count = 0, error_fan_until = 0, error_pit_c = 0,
     stop_overtemp_said = False, error_code = [], error_msg = no_msg\<rparr>"

record 'i grill =
  c_cfg :: pf_cfg
  c_mode :: pf_mode
  c_setpoint_c :: fl
  c_target_reached :: bool
  c_u_applied :: fl
  c_lid_open :: bool
  c_lid_event :: bool
  c_lid_event_t :: fl
  c_autotune_active :: bool
  c_pit_c :: fl
  c_pit_valid :: bool
  c_ambient_c :: fl
  c_last_step :: fl
  c_safety :: pf_safety
  c_out :: "'i outputs"
  c_ev :: events

definition upd_safety :: "(pf_safety \<Rightarrow> pf_safety) \<Rightarrow> ('i, 'z) grill_scheme \<Rightarrow> ('i, 'z) grill_scheme" where
  "upd_safety f c = c\<lparr>c_safety := f (c_safety c)\<rparr>"

definition set_out :: "pf_output \<Rightarrow> bool \<Rightarrow> ('i, 'z) grill_scheme \<Rightarrow> ('i, 'z) grill_scheme" where
  "set_out o1 on c = c\<lparr>c_out := fst (pf_outputs_set o1 on (c_out c))\<rparr>"

definition db_event :: "int \<Rightarrow> string \<Rightarrow> msg \<Rightarrow> ('i, 'z) grill_scheme \<Rightarrow> ('i, 'z) grill_scheme" where
  "db_event level code body c = c\<lparr>c_ev := pf_db_event level code [] body (c_ev c)\<rparr>"

definition emit :: "string \<Rightarrow> string \<Rightarrow> msg \<Rightarrow> ('i, 'z) grill_scheme \<Rightarrow> ('i, 'z) grill_scheme" where
  "emit code title body c = c\<lparr>c_ev := pf_events_emit code title body (c_ev c)\<rparr>"

text \<open>What these leave alone.\<close>

lemma upd_safety_frame [simp]:
  "c_cfg (upd_safety f c) = c_cfg c" "c_mode (upd_safety f c) = c_mode c" "c_setpoint_c (upd_safety f c) = c_setpoint_c c"
  "c_target_reached (upd_safety f c) = c_target_reached c" "c_lid_open (upd_safety f c) = c_lid_open c"
  "c_u_applied (upd_safety f c) = c_u_applied c"
  "c_lid_event (upd_safety f c) = c_lid_event c" "c_lid_event_t (upd_safety f c) = c_lid_event_t c"
  "c_autotune_active (upd_safety f c) = c_autotune_active c" "c_pit_c (upd_safety f c) = c_pit_c c"
  "c_pit_valid (upd_safety f c) = c_pit_valid c" "c_ambient_c (upd_safety f c) = c_ambient_c c"
  "c_last_step (upd_safety f c) = c_last_step c" "c_out (upd_safety f c) = c_out c" "c_ev (upd_safety f c) = c_ev c"
  "c_safety (upd_safety f c) = f (c_safety c)"
  "grill.more (upd_safety f c) = grill.more c"
  by (simp_all add: upd_safety_def)

lemma set_out_frame [simp]:
  "c_cfg (set_out p on c) = c_cfg c" "c_mode (set_out p on c) = c_mode c" "c_setpoint_c (set_out p on c) = c_setpoint_c c"
  "c_target_reached (set_out p on c) = c_target_reached c" "c_lid_open (set_out p on c) = c_lid_open c"
  "c_u_applied (set_out p on c) = c_u_applied c"
  "c_lid_event (set_out p on c) = c_lid_event c" "c_lid_event_t (set_out p on c) = c_lid_event_t c"
  "c_autotune_active (set_out p on c) = c_autotune_active c" "c_pit_c (set_out p on c) = c_pit_c c"
  "c_pit_valid (set_out p on c) = c_pit_valid c" "c_ambient_c (set_out p on c) = c_ambient_c c"
  "c_last_step (set_out p on c) = c_last_step c" "c_safety (set_out p on c) = c_safety c" "c_ev (set_out p on c) = c_ev c"
  "c_out (set_out p on c) = fst (pf_outputs_set p on (c_out c))"
  "grill.more (set_out p on c) = grill.more c"
  by (simp_all add: set_out_def)

lemma emit_frame [simp]:
  "c_cfg (emit a b d c) = c_cfg c" "c_mode (emit a b d c) = c_mode c" "c_setpoint_c (emit a b d c) = c_setpoint_c c"
  "c_target_reached (emit a b d c) = c_target_reached c" "c_lid_open (emit a b d c) = c_lid_open c"
  "c_u_applied (emit a b d c) = c_u_applied c"
  "c_lid_event (emit a b d c) = c_lid_event c" "c_lid_event_t (emit a b d c) = c_lid_event_t c"
  "c_autotune_active (emit a b d c) = c_autotune_active c" "c_pit_c (emit a b d c) = c_pit_c c"
  "c_pit_valid (emit a b d c) = c_pit_valid c" "c_ambient_c (emit a b d c) = c_ambient_c c"
  "c_last_step (emit a b d c) = c_last_step c" "c_safety (emit a b d c) = c_safety c" "c_out (emit a b d c) = c_out c"
  "c_ev (emit a b d c) = pf_events_emit a b d (c_ev c)"
  "grill.more (emit a b d c) = grill.more c"
  by (simp_all add: emit_def)

lemma db_event_frame [simp]:
  "c_cfg (db_event a b d c) = c_cfg c" "c_mode (db_event a b d c) = c_mode c"
  "c_setpoint_c (db_event a b d c) = c_setpoint_c c"
  "c_target_reached (db_event a b d c) = c_target_reached c" "c_lid_open (db_event a b d c) = c_lid_open c"
  "c_u_applied (db_event a b d c) = c_u_applied c"
  "c_lid_event (db_event a b d c) = c_lid_event c" "c_lid_event_t (db_event a b d c) = c_lid_event_t c"
  "c_autotune_active (db_event a b d c) = c_autotune_active c" "c_pit_c (db_event a b d c) = c_pit_c c"
  "c_pit_valid (db_event a b d c) = c_pit_valid c" "c_ambient_c (db_event a b d c) = c_ambient_c c"
  "c_last_step (db_event a b d c) = c_last_step c" "c_safety (db_event a b d c) = c_safety c"
  "c_out (db_event a b d c) = c_out c" "c_ev (db_event a b d c) = pf_db_event a b [] d (c_ev c)"
  "grill.more (db_event a b d c) = grill.more c"
  by (simp_all add: db_event_def)

section \<open>Outputs that obey\<close>

text \<open>A platform on which every switch succeeds, and no emergency off has happened.\<close>

definition outs_work :: "'i outputs \<Rightarrow> bool" where
  "outs_work s \<longleftrightarrow>
     (case (g_ops s, g_inst s) of
        (Some ops, Some i) \<Rightarrow> (\<forall>i out on. snd (op_set_output ops i out on) = 0) \<and> \<not> g_latched s
      | _ \<Rightarrow> False)"

lemma outs_work_set [simp]: "outs_work s \<Longrightarrow> outs_work (fst (pf_outputs_set out on s))"
  by (auto simp: outs_work_def pf_outputs_set_def outputs_set_locked_def Let_def split: option.splits prod.splits)

lemma outs_work_get: "outs_work s \<Longrightarrow> g_state (fst (pf_outputs_set out on s)) = (g_state s)(out := on)"
proof -
  assume w: "outs_work s"
  then obtain ops i where o: "g_ops s = Some ops" "g_inst s = Some i" "\<not> g_latched s"
    and ok: "snd (op_set_output ops i out on) = 0"
    by (auto simp: outs_work_def split: option.splits)
  obtain i' where "op_set_output ops i out on = (i', 0)" using ok by (cases "op_set_output ops i out on") auto
  with o show ?thesis by (auto simp: pf_outputs_set_def outputs_set_locked_def Let_def fun_eq_iff)
qed

text \<open>What no operation on the outputs changes: the platform, whether there is one, and the latch.\<close>

definition wiring :: "'i outputs \<Rightarrow> 'i platform_ops option \<times> bool \<times> bool" where
  "wiring s = (g_ops s, g_inst s = None, g_latched s)"

lemma wiring_kept [simp]:
  "wiring (fst (pf_outputs_set out on s)) = wiring s" "wiring (fst (pf_outputs_fan_pct pct s)) = wiring s"
  "wiring (fst (pf_outputs_pwm_frequency hz s)) = wiring s" "wiring (pf_outputs_all_off s) = wiring s"
  by (auto simp: wiring_def pf_outputs_set_def outputs_set_locked_def pf_outputs_fan_pct_def outputs_fan_pct_locked_def
      pf_outputs_pwm_frequency_def pf_outputs_all_off_def hal_all_off_def Let_def split: option.split prod.split)

lemma outs_work_wiring: "wiring s = wiring t \<Longrightarrow> outs_work s = outs_work t"
  by (auto simp: wiring_def outs_work_def split: option.splits)

lemma outs_set_other: "out \<noteq> out' \<Longrightarrow> g_state (fst (pf_outputs_set out on s)) out' = g_state s out'"
  by (auto simp: pf_outputs_set_def outputs_set_locked_def Let_def split: option.splits prod.splits)

section \<open>A grill to try things on\<close>

definition example_ops :: "unit platform_ops" where
  "example_ops = \<lparr>op_set_output = (\<lambda>i out on. (i, 0)), op_set_fan_pct = (\<lambda>i pct. (i, 0)),
     op_set_pwm_frequency = (\<lambda>i hz. (i, 0)), op_read_input = (\<lambda>i inp. False), op_all_off = (\<lambda>i. i)\<rparr>"

definition example_outputs :: "unit outputs" where
  "example_outputs = \<lparr>g_ops = Some example_ops, g_inst = Some (), g_state = (\<lambda>_. False), g_fan_pct = 0, g_latched = False\<rparr>"

text \<open>The shipped settings, in Celsius.\<close>

definition example_cfg :: pf_cfg where
  "example_cfg = zero_cfg\<lparr>units := UnitsC, hold_cycle_s := 25, smoke_on_s := 15, smoke_off_s := 45, pmode := 2,
     u_min := 0.1, u_max := 0.9, max_temp_c := 340, min_target_c := 70, max_target_c := 290, smoke_min_c := 82,
     restart_hot_c := 65, power_loss_recovery := True, power_loss_max_s := 300, reignite_retries := 1,
     igniter_max_on_s := 300, auger_max_on_s := 60, probe_fault_s := 10, error_cooldown_fan_s := 300, relight_enabled := True,
     relight_drop_c := 11, relight_prove_s := 180, relight_confirm_s := 60, ss_prove_s := 300, ss_prove_rise_c := 2,
     ss_exit_rise_c := 7, after_startup_mode := SMOKE, after_startup_setpoint_c := 74, shutdown_s := 240,
     controller_id := ''pid''\<rparr>"

definition example_grill :: "unit grill" where
  "example_grill = \<lparr>c_cfg = example_cfg, c_mode = HOLD, c_setpoint_c = 120, c_target_reached = True, c_u_applied = 0.3,
     c_lid_open = False, c_lid_event = False, c_lid_event_t = 0, c_autotune_active = False, c_pit_c = 90, c_pit_valid = True,
     c_ambient_c = 20, c_last_step = 99, c_safety = zero_safety\<lparr>reignite_retries_left := 1, peak_c := 120, fire_c := 90,
       filt_c := 90, fall_since := 20, established := True, last_sp_c := 120\<rparr>,
     c_out = example_outputs, c_ev = events_example\<rparr>"

end
