(* ===== verification/Safety.thy ===== *)
theory Safety
  imports Grill
begin

text \<open>
  \<open>src/core/safety.c\<close>: over-temperature, the igniter's cap, the probe fault, Smart Start and the
  supervision of the flame.  \<open>pf_safety_tick\<close> is the numbered steps of the source one after another; a
  step goes on or ends the tick with the mode it asks for (none for the source's 0).
\<close>

section \<open>Errors and resets\<close>

definition pf_safety_set_error :: "string \<Rightarrow> msg \<Rightarrow> ('i, 'z) grill_scheme \<Rightarrow> ('i, 'z) grill_scheme" where
  "pf_safety_set_error code m c =
     (let c = upd_safety (\<lambda>s. s\<lparr>error_code := fst (pf_strlcpy [] code 32), error_msg := m\<rparr>) c
      in emit code ''Grill Error'' m c)"

definition pf_safety_reset :: "('i, 'z) grill_scheme \<Rightarrow> ('i, 'z) grill_scheme" where
  "pf_safety_reset c =
     upd_safety (\<lambda>_. zero_safety\<lparr>reignite_retries_left := reignite_retries (c_cfg c), ss_baseline_c := NaN,
       filt_c := NaN, fire_c := NaN, fall_since := 0, peak_c := NaN\<rparr>) c"

definition PROVE_FILTER_S :: fl where "PROVE_FILTER_S = 10"
definition FIRE_FILTER_S :: fl where "FIRE_FILTER_S = 30"
definition FALL_FRACTION :: fl where "FALL_FRACTION = 0.06"
definition PROVE_HOLD_S :: fl where "PROVE_HOLD_S = 15"
definition LID_ALLOW_S :: fl where "LID_ALLOW_S = 300"
definition HOT_DELTA_C :: fl where "HOT_DELTA_C = 83.3"
definition HOT_FLAT_S :: fl where "HOT_FLAT_S = 120"
definition HOT_SLIP_C :: fl where "HOT_SLIP_C = 0.56"

definition pf_safety_on_startup_enter :: "fl \<Rightarrow> ('i, 'z) grill_scheme \<Rightarrow> ('i, 'z) grill_scheme" where
  "pf_safety_on_startup_enter now c =
     (let f = (if c_pit_valid c then c_pit_c c else NaN)
      in upd_safety (\<lambda>s. s\<lparr>igniter_on_since := 0, igniter_locked_out := False, ss_active := True, ss_proven := False,
           ss_above_since := 0, filt_c := f, ss_baseline_c := f, ss_deadline := now + ss_prove_s (c_cfg c),
           ss_start := now, ss_entry_c := f, ss_held := False, ss_flat_t := 0, peak_c := NaN, heating := False,
           proving := False, stepdown_armed := False\<rparr>) c)"

definition pf_safety_on_startup_exit :: "fl \<Rightarrow> ('i, 'z) grill_scheme \<Rightarrow> ('i, 'z) grill_scheme" where
  "pf_safety_on_startup_exit now c =
     (let p = (if c_pit_valid c then c_pit_c c else NaN)
      in upd_safety (\<lambda>s. s\<lparr>ss_active := False, heating := True, established := False, peak_c := p,
           progress_c := p, progress_t := now, handover_c := p\<rparr>) c)"

definition pf_safety_startup_done :: "('i, 'z) grill_scheme \<Rightarrow> bool" where
  "pf_safety_startup_done c =
     (let s = c_safety c
      in if \<not> ss_active s \<or> \<not> ss_proven s then False
         else ss_held s \<or> ss_baseline_c s + ss_exit_rise_c (c_cfg c) \<le> filt_c s)"

definition pf_safety_on_run_enter :: "pf_mode \<Rightarrow> fl \<Rightarrow> ('i, 'z) grill_scheme \<Rightarrow> ('i, 'z) grill_scheme" where
  "pf_safety_on_run_enter prev now c =
     (let work = (if c_mode c = HOLD then c_setpoint_c c else smoke_min_c (c_cfg c))
      in upd_safety (\<lambda>s.
           let s = (if isnan (peak_c s) \<and> c_pit_valid c then s\<lparr>peak_c := c_pit_c c\<rparr> else s);
               s = (if c_pit_valid c then s\<lparr>progress_c := c_pit_c c, progress_t := now\<rparr> else s);
               s = (if prev \<noteq> STARTUP \<and> prev \<noteq> REIGNITE then s\<lparr>established := True\<rparr> else s)
           in s\<lparr>reached := False, stall_said := False,
                stepdown_armed := (c_pit_valid c \<and> 0 < work \<and> work < c_pit_c c)\<rparr>) c)"

text \<open>\<open>flameout\<close>: the mode it asks for and the state.\<close>

definition flameout :: "msg \<Rightarrow> ('i, 'z) grill_scheme \<Rightarrow> ('i, 'z) grill_scheme \<times> pf_mode" where
  "flameout why c =
     (let c = upd_safety (\<lambda>s. s\<lparr>proving := False\<rparr>) c;
          c = set_out IGNITER False c
      in if \<not> relight_enabled (c_cfg c) \<or> reignite_retries_left (c_safety c) \<le> 0
         then (pf_safety_set_error ''E02_FLAMEOUT'' why c, ERROR)
         else let c = upd_safety (\<lambda>s. s\<lparr>reignite_retries_left := reignite_retries_left s - 1,
                                         reignite_last := c_mode c\<rparr>) c
              in (db_event PF_LVL_WARN ''W03_RELIGHT'' (Msg ''Flame lost, relighting'' []) c, REIGNITE))"

section \<open>The tick\<close>

type_synonym ('i, 'z) step = "('i, 'z) grill_scheme \<times> pf_mode option option"

definition go_on :: "('i, 'z) grill_scheme \<Rightarrow> ('i, 'z) step" where "go_on c = (c, None)"

definition stop_tick :: "pf_mode option \<Rightarrow> ('i, 'z) grill_scheme \<Rightarrow> ('i, 'z) step" where
  "stop_tick r c = (c, Some r)"

definition and_then :: "('i, 'z) step \<Rightarrow> (('i, 'z) grill_scheme \<Rightarrow> ('i, 'z) step) \<Rightarrow> ('i, 'z) step" where
  "and_then st f = (case st of (c, None) \<Rightarrow> f c | (c, Some r) \<Rightarrow> (c, Some r))"

definition lit_mode :: "pf_mode \<Rightarrow> bool" where
  "lit_mode m \<longleftrightarrow> m = STARTUP \<or> m = REIGNITE \<or> m = SMOKE \<or> m = HOLD"

definition unit_text :: "pf_units \<Rightarrow> string" where
  "unit_text u = (if u = UnitsC then ''C'' else ''F'')"

text \<open>The degree sign, as its two bytes.\<close>

definition deg :: string where "deg = [CHR 0xC2, CHR 0xB0]"

definition user_temp :: "('i, 'z) grill_scheme \<Rightarrow> fl \<Rightarrow> fmt_arg" where
  "user_temp c t = AFl (pf_from_c t (units (c_cfg c)))"

text \<open>Step 1: over-temperature, in every mode but Stop.\<close>

definition tick_overtemp :: "('i, 'z) grill_scheme \<Rightarrow> ('i, 'z) step" where
  "tick_overtemp c =
     (if c_mode c \<noteq> STOP \<and> c_mode c \<noteq> ERROR \<and> c_pit_valid c \<and> max_temp_c (c_cfg c) < c_pit_c c
      then stop_tick (Some ERROR) (pf_safety_set_error ''E01_OVERTEMP''
             (Msg (''Overheat: pit %.0f'' @ deg @ ''%s, limit %.0f'' @ deg @ ''%s'')
               [user_temp c (c_pit_c c), AStr (unit_text (units (c_cfg c))),
                user_temp c (max_temp_c (c_cfg c)), AStr (unit_text (units (c_cfg c)))]) c)
      else go_on c)"

text \<open>Step 1b: the igniter's cap.\<close>

definition tick_igniter :: "fl \<Rightarrow> ('i, 'z) grill_scheme \<Rightarrow> ('i, 'z) grill_scheme" where
  "tick_igniter now c =
     (if pf_outputs_get IGNITER (c_out c)
      then if igniter_locked_out (c_safety c) then set_out IGNITER False c
           else if igniter_on_since (c_safety c) = 0 then upd_safety (\<lambda>s. s\<lparr>igniter_on_since := now\<rparr>) c
           else if igniter_max_on_s (c_cfg c) < now - igniter_on_since (c_safety c)
           then db_event PF_LVL_WARN ''W07_IGNITER_CAP''
                  (Msg ''Igniter exceeded maximum on time and was switched off'' [])
                  (set_out IGNITER False (upd_safety (\<lambda>s. s\<lparr>igniter_locked_out := True\<rparr>) c))
           else c
      else upd_safety (\<lambda>s. s\<lparr>igniter_on_since := 0\<rparr>) c)"

text \<open>Step 2: the primary probe, while it is depended on.\<close>

definition tick_probe :: "fl \<Rightarrow> ('i, 'z) grill_scheme \<Rightarrow> ('i, 'z) step" where
  "tick_probe now c =
     (if lit_mode (c_mode c)
      then if \<not> c_pit_valid c
           then if primary_invalid_since (c_safety c) = 0
                then stop_tick None (upd_safety (\<lambda>s. s\<lparr>primary_invalid_since := now\<rparr>) c)
                else if probe_fault_s (c_cfg c) < now - primary_invalid_since (c_safety c)
                then stop_tick (Some ERROR) (pf_safety_set_error ''E05_PROBE_FAULT''
                       (Msg ''Primary probe gave no valid reading for %.0f s'' [AFl (probe_fault_s (c_cfg c))]) c)
                else stop_tick None c
           else go_on (upd_safety (\<lambda>s. s\<lparr>primary_invalid_since := 0\<rparr>) c)
      else go_on c)"

text \<open>The filters the next two steps judge on, and the marks of the jump diagnostic.\<close>

definition low_pass :: "fl \<Rightarrow> fl \<Rightarrow> fl \<Rightarrow> fl" where
  "low_pass old x a = (let a = (if 1 < a then 1 else a) in if isnan old then x else old + (x - old) * a)"

definition filter_pit :: "fl \<Rightarrow> fl \<Rightarrow> fl \<Rightarrow> pf_safety \<Rightarrow> pf_safety" where
  "filter_pit now pit dt s =
     (let s = s\<lparr>filt_c := low_pass (filt_c s) pit (dt / PROVE_FILTER_S),
                fire_c := low_pass (fire_c s) pit (dt / FIRE_FILTER_S)\<rparr>
      in if \<not> 0 < jump_ref_t s \<or> 3 \<le> now - jump_ref_t s then s\<lparr>jump_ref_c := pit, jump_ref_t := now\<rparr>
         else if 8.3 \<le> \<bar>pit - jump_ref_c s\<bar> \<and> 10 \<le> now - jump_said_t s then s\<lparr>jump_said_t := now\<rparr>
         else s)"

definition tick_filter :: "fl \<Rightarrow> ('i, 'z) grill_scheme \<Rightarrow> ('i, 'z) grill_scheme" where
  "tick_filter now c =
     (if lit_mode (c_mode c)
      then upd_safety (filter_pit now (c_pit_c c) (if 0 < c_last_step c then now - c_last_step c else 0.1)) c
      else upd_safety (\<lambda>s. s\<lparr>fire_c := NaN, fall_since := 0, jump_ref_t := 0\<rparr>) c)"

text \<open>Step 3: Smart Start.  The proof by a rise, and the proof by a hot pit that has stopped falling.\<close>

definition ignition_proven :: "string \<Rightarrow> ('i, 'z) grill_scheme \<Rightarrow> ('i, 'z) grill_scheme" where
  "ignition_proven txt c = db_event PF_LVL_INFO ''I03_IGNITION_PROVEN'' (Msg txt []) c"

definition prove_rise :: "fl \<Rightarrow> ('i, 'z) grill_scheme \<Rightarrow> ('i, 'z) grill_scheme" where
  "prove_rise now c =
     (let c = upd_safety (\<lambda>s. if isnan (ss_baseline_c s) \<or> filt_c s < ss_baseline_c s
                              then s\<lparr>ss_baseline_c := filt_c s\<rparr> else s) c;
          s = c_safety c
      in if ss_baseline_c s + ss_prove_rise_c (c_cfg c) \<le> filt_c s
         then if ss_above_since s = 0 then upd_safety (\<lambda>s. s\<lparr>ss_above_since := now\<rparr>) c
              else if PROVE_HOLD_S \<le> now - ss_above_since s
              then ignition_proven ''Ignition proven''
                     (upd_safety (\<lambda>s. s\<lparr>ss_proven := True, ss_deadline := now + ss_prove_s (c_cfg c)\<rparr>) c)
              else c
         else upd_safety (\<lambda>s. s\<lparr>ss_above_since := 0\<rparr>) c)"

definition prove_held :: "fl \<Rightarrow> ('i, 'z) grill_scheme \<Rightarrow> ('i, 'z) grill_scheme" where
  "prove_held now c =
     (let c = upd_safety (\<lambda>s. if filt_c s < ss_flat_c s - HOT_SLIP_C \<or> ss_flat_t s = 0
                              then s\<lparr>ss_flat_c := filt_c s, ss_flat_t := now\<rparr> else s) c;
          amb = (if isnan (c_ambient_c c) then 20 else c_ambient_c c);
          s = c_safety c
      in if \<not> ss_proven s \<and> HOT_DELTA_C \<le> filt_c s - amb \<and> HOT_FLAT_S \<le> now - ss_flat_t s
         then ignition_proven ''Ignition proven: fire holding the pit''
                (upd_safety (\<lambda>s. s\<lparr>ss_proven := True, ss_held := True\<rparr>) c)
         else c)"

definition failed_start :: "('i, 'z) grill_scheme \<Rightarrow> ('i, 'z) grill_scheme" where
  "failed_start c =
     (let mins = AFl (ss_prove_s (c_cfg c) / 60);
          what = AStr (if ss_proven (c_safety c) then ''no fire after the first rise in'' else ''no rise in'');
          c = set_out IGNITER False (set_out AUGER False c)
      in if c_mode c = REIGNITE
         then pf_safety_set_error ''E04_STARTUP_FAILED''
                (Msg ''Relight failed: %s %.0f min. Clear the fire pot before lighting.'' [what, mins]) c
         else pf_safety_set_error ''E04_STARTUP_FAILED''
                (Msg ''Failed start: %s %.0f min. Check the igniter and clear the fire pot.'' [what, mins]) c)"

definition tick_smart_start :: "fl \<Rightarrow> ('i, 'z) grill_scheme \<Rightarrow> ('i, 'z) step" where
  "tick_smart_start now c =
     (if (c_mode c = STARTUP \<or> c_mode c = REIGNITE) \<and> ss_active (c_safety c)
      then let c = (if \<not> ss_proven (c_safety c) then prove_held now (prove_rise now c) else c)
           in if ss_deadline (c_safety c) < now then stop_tick (Some ERROR) (failed_start c)
              else stop_tick None c
      else go_on c)"

text \<open>Step 4: the flame in Smoke and Hold.\<close>

definition work_temp :: "('i, 'z) grill_scheme \<Rightarrow> fl" where
  "work_temp c = (if c_mode c = HOLD then c_setpoint_c c else smoke_min_c (c_cfg c))"

definition flame_paused :: "fl \<Rightarrow> ('i, 'z) grill_scheme \<Rightarrow> bool" where
  "flame_paused now c \<longleftrightarrow>
     (c_lid_open c \<or> (c_lid_event c \<and> now - c_lid_event_t c < LID_ALLOW_S)) \<or> c_autotune_active c"

definition note_setpoint :: "('i, 'z) grill_scheme \<Rightarrow> ('i, 'z) grill_scheme" where
  "note_setpoint c =
     (let hold = (c_mode c = HOLD);
          s = c_safety c;
          lowered = (hold \<and> 0 < last_sp_c s \<and> 0 < c_setpoint_c c \<and> c_setpoint_c c < last_sp_c s - 0.01 \<and>
                     c_setpoint_c c < c_pit_c c)
      in upd_safety (\<lambda>s.
           let s = (if lowered then s\<lparr>stepdown_armed := True\<rparr> else s);
               s = s\<lparr>last_sp_c := (if hold then c_setpoint_c c else 0)\<rparr>
           in if \<not> hold \<and> work_temp c \<le> c_pit_c c then s\<lparr>reached := True\<rparr> else s) c)"

definition fire_pit :: "('i, 'z) grill_scheme \<Rightarrow> fl" where
  "fire_pit c = (if isfinite (fire_c (c_safety c)) then fire_c (c_safety c) else c_pit_c c)"

definition note_peak :: "('i, 'z) grill_scheme \<Rightarrow> ('i, 'z) grill_scheme" where
  "note_peak c =
     upd_safety (\<lambda>s. if isnan (peak_c s) \<or> peak_c s < fire_pit c then s\<lparr>peak_c := fire_pit c\<rparr> else s) c"

text \<open>The reference the fire is held to, and the drop under it that is a flame-out.\<close>

definition fire_ref :: "('i, 'z) grill_scheme \<Rightarrow> fl" where
  "fire_ref c =
     (if (if c_mode c = HOLD then c_target_reached c else reached (c_safety c)) then work_temp c
      else fmin (peak_c (c_safety c)) (work_temp c))"

definition fire_drop :: "('i, 'z) grill_scheme \<Rightarrow> fl" where
  "fire_drop c =
     (let amb = (if isfinite (c_ambient_c c) then c_ambient_c c else 20)
      in fmax (relight_drop_c (c_cfg c)) (FALL_FRACTION * (fire_ref c - amb)))"

definition judge_fall :: "fl \<Rightarrow> ('i, 'z) grill_scheme \<Rightarrow> ('i, 'z) step" where
  "judge_fall now c =
     (if fire_pit c \<le> fire_ref c - fire_drop c
      then if fall_since (c_safety c) \<le> 0 then go_on (upd_safety (\<lambda>s. s\<lparr>fall_since := now\<rparr>) c)
           else if relight_confirm_s (c_cfg c) \<le> now - fall_since (c_safety c)
           then let why = Msg (''Flame lost: pit %.0f'' @ deg @ '' below %.0f'' @ deg @
                               '' for %.0f s. Clear the fire pot before lighting.'')
                     [AFl (pf_delta_from_c (fire_ref c - fire_pit c) (units (c_cfg c))),
                      user_temp c (fire_ref c), AFl (now - fall_since (c_safety c))];
                    (c, m) = flameout why (upd_safety (\<lambda>s. s\<lparr>fall_since := 0\<rparr>) c)
                in stop_tick (Some m) c
           else go_on c
      else go_on (upd_safety (\<lambda>s. s\<lparr>fall_since := 0\<rparr>) c))"

definition note_heating :: "('i, 'z) grill_scheme \<Rightarrow> ('i, 'z) grill_scheme" where
  "note_heating c =
     upd_safety (\<lambda>s.
       let s = (if heating s \<and> work_temp c \<le> c_pit_c c then s\<lparr>heating := False\<rparr> else s)
       in if \<not> established s \<and> handover_c s + ss_exit_rise_c (c_cfg c) \<le> c_pit_c c
          then s\<lparr>established := True\<rparr> else s) c"

definition judge_climb :: "fl \<Rightarrow> ('i, 'z) grill_scheme \<Rightarrow> ('i, 'z) step" where
  "judge_climb now c =
     (let s = c_safety c; work = work_temp c; mark = (\<lambda>s. s\<lparr>progress_c := c_pit_c c, progress_t := now\<rparr>)
      in if work - relight_drop_c (c_cfg c) / 2 \<le> c_pit_c c \<or>
            progress_c s + ss_prove_rise_c (c_cfg c) \<le> c_pit_c c
         then go_on (upd_safety (\<lambda>s. (mark s)\<lparr>stall_said := False\<rparr>) c)
         else if ss_prove_s (c_cfg c) < now - progress_t s
         then if \<not> established s
              then stop_tick (Some ERROR) (pf_safety_set_error ''E04_STARTUP_FAILED''
                     (Msg ''No heat gain in %.0f min after lighting: fire not taking or feed too low%s. Clear the fire pot before lighting.''
                        [AFl (ss_prove_s (c_cfg c) / 60), AStr (if c_mode c = HOLD then [] else '' (lower the P-mode)'')])
                     (set_out AUGER False c))
              else let c = (if \<not> stall_said s
                            then emit ''W10_NOT_HEATING'' ''Not Heating''
                                   (Msg (''Pit %.0f'' @ deg @ ''%s, needs %.0f'' @ deg @ ''%s. Flame failing or feed too low%s.'')
                                     [user_temp c (c_pit_c c), AStr (unit_text (units (c_cfg c))), user_temp c work,
                                      AStr (unit_text (units (c_cfg c))),
                                      AStr (if c_mode c = HOLD then [] else '': lower the P-mode'')])
                                   (upd_safety (\<lambda>s. s\<lparr>stall_said := True\<rparr>) c)
                            else c)
                   in go_on (upd_safety mark c)
         else go_on c)"

definition judge_fire :: "fl \<Rightarrow> ('i, 'z) grill_scheme \<Rightarrow> ('i, 'z) step" where
  "judge_fire now c =
     (if flame_paused now c \<or> stepdown_armed (c_safety c)
      then go_on (upd_safety (\<lambda>s. s\<lparr>progress_c := c_pit_c c, progress_t := now, fall_since := 0\<rparr>) c)
      else and_then (judge_fall now (note_peak c)) (\<lambda>c. judge_climb now (note_heating c)))"

text \<open>The end of a coast, and the igniter while it proves the fire.\<close>

definition end_coast :: "fl \<Rightarrow> ('i, 'z) grill_scheme \<Rightarrow> ('i, 'z) grill_scheme" where
  "end_coast now c =
     (if stepdown_armed (c_safety c) \<and> c_pit_c c \<le> work_temp c
      then let c = upd_safety (\<lambda>s.
                     let s = s\<lparr>stepdown_armed := False\<rparr>;
                         s = (if c_mode c \<noteq> HOLD then s\<lparr>reached := True\<rparr> else s)
                     in s\<lparr>peak_c := c_pit_c c\<rparr>) c
           in if 0 < relight_prove_s (c_cfg c) \<and> \<not> igniter_locked_out (c_safety c)
              then db_event PF_LVL_INFO ''I04_PROVING'' (Msg ''Coast over: igniter proving the fire'' [])
                     (upd_safety (\<lambda>s. s\<lparr>proving := True, prove_until := now + relight_prove_s (c_cfg c)\<rparr>) c)
              else c
      else c)"

definition drive_proving :: "fl \<Rightarrow> ('i, 'z) grill_scheme \<Rightarrow> ('i, 'z) grill_scheme" where
  "drive_proving now c =
     (if proving (c_safety c)
      then if prove_until (c_safety c) \<le> now \<or> igniter_locked_out (c_safety c)
           then set_out IGNITER False (upd_safety (\<lambda>s. s\<lparr>proving := False\<rparr>) c)
           else set_out IGNITER True c
      else c)"

definition tick_flame :: "fl \<Rightarrow> ('i, 'z) grill_scheme \<Rightarrow> ('i, 'z) step" where
  "tick_flame now c =
     (if (c_mode c = SMOKE \<or> c_mode c = HOLD) \<and> c_pit_valid c
      then and_then (judge_fire now (note_setpoint c)) (\<lambda>c. stop_tick None (drive_proving now (end_coast now c)))
      else if c_mode c \<noteq> SMOKE \<and> c_mode c \<noteq> HOLD
      then stop_tick None (upd_safety (\<lambda>s.
             let s = s\<lparr>last_sp_c := 0, stepdown_armed := False, proving := False, fall_since := 0\<rparr>
             in if c_mode c \<noteq> STARTUP \<and> c_mode c \<noteq> REIGNITE then s\<lparr>peak_c := NaN, heating := False\<rparr> else s) c)
      else stop_tick None c)"

definition pf_safety_tick :: "fl \<Rightarrow> ('i, 'z) grill_scheme \<Rightarrow> ('i, 'z) grill_scheme \<times> pf_mode option" where
  "pf_safety_tick now c =
     (case and_then (tick_overtemp c) (\<lambda>c.
             and_then (tick_probe now (tick_igniter now c)) (\<lambda>c.
               and_then (tick_smart_start now (tick_filter now c)) (tick_flame now)))
      of (c, Some r) \<Rightarrow> (c, r) | (c, None) \<Rightarrow> (c, None))"

section \<open>What each step leaves alone\<close>

named_theorems safety_step \<comment> \<open>the definitions of the steps\<close>

lemmas [safety_step] = tick_overtemp_def tick_igniter_def tick_probe_def tick_filter_def prove_rise_def prove_held_def
  ignition_proven_def failed_start_def tick_smart_start_def note_setpoint_def note_peak_def judge_fall_def
  note_heating_def judge_climb_def judge_fire_def end_coast_def drive_proving_def tick_flame_def pf_safety_set_error_def
  flameout_def go_on_def stop_tick_def and_then_def Let_def

text \<open>The parts of the state no step of the tick writes.\<close>

definition same_world :: "('i, 'z) grill_scheme \<Rightarrow> ('i, 'z) grill_scheme \<Rightarrow> bool" where
  "same_world c d \<longleftrightarrow>
     c_cfg d = c_cfg c \<and> c_mode d = c_mode c \<and> c_setpoint_c d = c_setpoint_c c \<and> c_target_reached d = c_target_reached c \<and>
     c_lid_open d = c_lid_open c \<and> c_lid_event d = c_lid_event c \<and> c_lid_event_t d = c_lid_event_t c \<and>
     c_autotune_active d = c_autotune_active c \<and> c_pit_c d = c_pit_c c \<and> c_pit_valid d = c_pit_valid c \<and>
     c_ambient_c d = c_ambient_c c \<and> c_last_step d = c_last_step c \<and> c_u_applied d = c_u_applied c \<and>
     (\<forall>p. p \<noteq> IGNITER \<longrightarrow> pf_outputs_get p (c_out d) \<longrightarrow> pf_outputs_get p (c_out c)) \<and>
     wiring (c_out d) = wiring (c_out c) \<and> grill.more d = grill.more c"

lemma same_world_refl [simp]: "same_world c c" by (simp add: same_world_def)

lemma same_world_trans [trans]: "same_world a b \<Longrightarrow> same_world b d \<Longrightarrow> same_world a d" by (simp add: same_world_def)

lemma same_world_upd [simp]:
  "same_world c (upd_safety f d) = same_world c d" "same_world c (set_out IGNITER on d) = same_world c d"
  "same_world c (emit a b m d) = same_world c d" "same_world c (db_event l a m d) = same_world c d"
  by (simp_all add: same_world_def set_out_def upd_safety_def emit_def db_event_def pf_outputs_get_def outs_set_other)

lemma same_world_off [simp]: "same_world c d \<Longrightarrow> same_world c (set_out p False d)"
  using outputs_set_off_mono [of p "c_out d"] by (auto simp: same_world_def set_out_def pf_outputs_get_def)

lemma tick_overtemp_world: "same_world c (fst (tick_overtemp c))"
  by (simp add: safety_step)

lemma tick_igniter_world: "same_world c (tick_igniter now c)"
  by (simp add: safety_step)

lemma tick_probe_world: "same_world c (fst (tick_probe now c))"
  by (simp add: safety_step)

lemma tick_filter_world: "same_world c (tick_filter now c)"
  by (simp add: safety_step)

lemma prove_world: "same_world c (prove_held now (prove_rise now c))"
  by (simp add: safety_step)

lemma failed_start_world: "same_world c (failed_start c)"
  by (simp add: safety_step)

lemma tick_smart_start_world: "same_world c (fst (tick_smart_start now c))"
  using prove_world [of c now] same_world_trans [OF prove_world [of c now] failed_start_world]
  by (simp add: tick_smart_start_def stop_tick_def go_on_def failed_start_world Let_def)

lemma judge_fall_world: "same_world c (fst (judge_fall now c))"
  by (simp add: safety_step)

lemma judge_climb_world: "same_world c (fst (judge_climb now c))"
  by (simp add: safety_step)

lemma note_world: "same_world c (note_setpoint c)" "same_world c (note_peak c)" "same_world c (note_heating c)"
  "same_world c (end_coast now c)" "same_world c (drive_proving now c)"
  by (simp_all add: safety_step)

lemma and_then_world:
  assumes "same_world c (fst st)" "\<And>d. same_world d (fst (f d))"
  shows "same_world c (fst (and_then st f))"
  using assms by (cases st; cases "snd st") (auto simp: and_then_def intro: same_world_trans)

lemma judge_fire_world: "same_world c (fst (judge_fire now c))"
proof -
  have "same_world c (fst (judge_fall now (note_peak c)))"
    using same_world_trans [OF note_world(2) judge_fall_world] .
  moreover have "same_world d (fst (judge_climb now (note_heating d)))" for d :: "('a, 'b) grill_scheme"
    using same_world_trans [OF note_world(3) judge_climb_world] .
  ultimately show ?thesis
    unfolding judge_fire_def by (simp add: go_on_def and_then_world)
qed

lemma tick_flame_world: "same_world c (fst (tick_flame now c))"
proof -
  have "same_world c (fst (judge_fire now (note_setpoint c)))"
    using same_world_trans [OF note_world(1) judge_fire_world] .
  moreover have "same_world d (fst (stop_tick None (drive_proving now (end_coast now d))))" for d :: "('a, 'b) grill_scheme"
    using same_world_trans [OF note_world(4) note_world(5)] by (simp add: stop_tick_def)
  ultimately show ?thesis
    unfolding tick_flame_def by (simp add: stop_tick_def and_then_world)
qed

lemma pf_safety_tick_fst:
  "fst (pf_safety_tick now c) = fst (and_then (tick_overtemp c) (\<lambda>c.
             and_then (tick_probe now (tick_igniter now c)) (\<lambda>c.
               and_then (tick_smart_start now (tick_filter now c)) (tick_flame now))))"
  by (simp add: pf_safety_tick_def split: prod.splits option.splits)

lemma pf_safety_tick_world: "same_world c (fst (pf_safety_tick now c))"
  unfolding pf_safety_tick_fst
  by (intro and_then_world tick_overtemp_world tick_flame_world
      same_world_trans [OF tick_igniter_world tick_probe_world]
      same_world_trans [OF tick_filter_world tick_smart_start_world])

section \<open>What a tick may ask for\<close>

definition tick_codes :: "string set" where
  "tick_codes = {''E01_OVERTEMP'', ''E02_FLAMEOUT'', ''E04_STARTUP_FAILED'', ''E05_PROBE_FAULT''}"

abbreviation retries :: "('i, 'z) grill_scheme \<Rightarrow> int" where
  "retries c \<equiv> reignite_retries_left (c_safety c)"

definition outcome_ok :: "('i, 'z) grill_scheme \<Rightarrow> ('i, 'z) step \<Rightarrow> bool" where
  "outcome_ok c st \<longleftrightarrow> same_world c (fst st) \<and>
     (case snd st of
        Some (Some m) \<Rightarrow>
          (if m = REIGNITE
           then (c_mode c = SMOKE \<or> c_mode c = HOLD) \<and> relight_enabled (c_cfg c) \<and> retries (fst st) = retries c - 1 \<and>
                0 \<le> retries (fst st) \<and> reignite_last (c_safety (fst st)) = c_mode c
           else m = ERROR \<and> error_code (c_safety (fst st)) \<in> tick_codes \<and> retries (fst st) = retries c)
      | _ \<Rightarrow> retries (fst st) = retries c)"

lemma outcome_pre:
  assumes "same_world c d" "retries d = retries c" "outcome_ok d st"
  shows "outcome_ok c st"
proof -
  have "c_mode d = c_mode c" "c_cfg d = c_cfg c" using assms(1) by (simp_all add: same_world_def)
  moreover have "same_world d (fst st) \<Longrightarrow> same_world c (fst st)" by (rule same_world_trans [OF assms(1)])
  ultimately show ?thesis
    using assms(2,3) unfolding outcome_ok_def by (auto split: option.splits if_splits)
qed

lemma outcome_then:
  assumes "outcome_ok c st" "\<And>d. same_world c d \<Longrightarrow> outcome_ok d (f d)"
  shows "outcome_ok c (and_then st f)"
proof (cases "snd st")
  case None
  with assms(1) have d: "same_world c (fst st)" "retries (fst st) = retries c" "and_then st f = f (fst st)"
    by (auto simp: outcome_ok_def and_then_def split: prod.splits)
  from outcome_pre [OF d(1,2) assms(2) [OF d(1)]] d(3) show ?thesis by simp
next
  case (Some r)
  then have "and_then st f = st" by (auto simp: and_then_def split: prod.splits)
  with assms(1) show ?thesis by simp
qed

lemma error_code_frame [simp]:
  "error_code (c_safety (pf_safety_set_error code m c)) = take 31 code"
  "reignite_retries_left (c_safety (pf_safety_set_error code m c)) = retries c"
  by (simp_all add: pf_safety_set_error_def pf_strlcpy_def Let_def)

lemma same_world_set_error [simp]: "same_world c (pf_safety_set_error code m d) = same_world c d"
  by (simp add: pf_safety_set_error_def Let_def)

lemma retries_frame [simp]:
  "retries (tick_igniter now c) = retries c" "retries (tick_filter now c) = retries c"
  "retries (prove_rise now c) = retries c" "retries (prove_held now c) = retries c"
  "retries (failed_start c) = retries c" "retries (note_setpoint c) = retries c" "retries (note_peak c) = retries c"
  "retries (note_heating c) = retries c" "retries (end_coast now c) = retries c" "retries (drive_proving now c) = retries c"
  by (simp_all add: safety_step filter_pit_def)

lemma outcome_overtemp: "outcome_ok c (tick_overtemp c)"
  by (simp add: outcome_ok_def tick_overtemp_def stop_tick_def go_on_def tick_codes_def)

lemma outcome_probe: "outcome_ok c (tick_probe now c)"
  by (simp add: outcome_ok_def tick_probe_def stop_tick_def go_on_def tick_codes_def)

lemma failed_start_code: "error_code (c_safety (failed_start c)) = ''E04_STARTUP_FAILED''"
  by (simp add: failed_start_def Let_def)

lemma outcome_smart_start: "outcome_ok c (tick_smart_start now c)"
  using tick_smart_start_world [of c now]
  by (simp add: outcome_ok_def tick_smart_start_def stop_tick_def go_on_def tick_codes_def failed_start_code Let_def)

lemma outcome_judge_fall: "c_mode c = SMOKE \<or> c_mode c = HOLD \<Longrightarrow> outcome_ok c (judge_fall now c)"
  using judge_fall_world [of c now]
  by (auto simp: outcome_ok_def judge_fall_def flameout_def stop_tick_def go_on_def tick_codes_def Let_def)

lemma outcome_judge_climb: "outcome_ok c (judge_climb now c)"
  using judge_climb_world [of c now]
  by (auto simp: outcome_ok_def judge_climb_def stop_tick_def go_on_def tick_codes_def Let_def)

lemma outcome_judge_fire: "c_mode c = SMOKE \<or> c_mode c = HOLD \<Longrightarrow> outcome_ok c (judge_fire now c)"
proof -
  assume m: "c_mode c = SMOKE \<or> c_mode c = HOLD"
  have "outcome_ok c (judge_fall now (note_peak c))"
    by (rule outcome_pre [OF note_world(2)]) (use m note_world(2) [of c] in \<open>auto simp: same_world_def intro: outcome_judge_fall\<close>)
  moreover have "outcome_ok d (judge_climb now (note_heating d))" for d :: "('a, 'b) grill_scheme"
    by (rule outcome_pre [OF note_world(3)]) (auto intro: outcome_judge_climb)
  moreover have "outcome_ok c (go_on (upd_safety (\<lambda>s. s\<lparr>progress_c := c_pit_c c, progress_t := now, fall_since := 0\<rparr>) c))"
    by (simp add: outcome_ok_def go_on_def)
  ultimately show ?thesis
    unfolding judge_fire_def by (simp add: outcome_then)
qed

lemma outcome_flame: "outcome_ok c (tick_flame now c)"
proof -
  have "outcome_ok c (judge_fire now (note_setpoint c))" if "c_mode c = SMOKE \<or> c_mode c = HOLD"
    by (rule outcome_pre [OF note_world(1)]) (use that note_world(1) [of c] in \<open>auto simp: same_world_def intro: outcome_judge_fire\<close>)
  moreover have "outcome_ok d (stop_tick None (drive_proving now (end_coast now d)))" for d :: "('a, 'b) grill_scheme"
    using same_world_trans [OF note_world(4) note_world(5)] by (simp add: stop_tick_def outcome_ok_def)
  moreover have "outcome_ok c (stop_tick None (upd_safety f c))" if "\<And>s. reignite_retries_left (f s) = reignite_retries_left s" for f
    using that by (simp add: outcome_ok_def stop_tick_def)
  moreover have "outcome_ok c (stop_tick None c)"
    by (simp add: outcome_ok_def stop_tick_def)
  ultimately show ?thesis
    unfolding tick_flame_def by (auto simp: outcome_then Let_def)
qed

lemma pf_safety_tick_outcome: "outcome_ok c (and_then (tick_overtemp c) (\<lambda>c.
             and_then (tick_probe now (tick_igniter now c)) (\<lambda>c.
               and_then (tick_smart_start now (tick_filter now c)) (tick_flame now))))"
  by (intro outcome_then outcome_overtemp outcome_flame
      outcome_pre [OF tick_igniter_world _ outcome_probe]
      outcome_pre [OF tick_filter_world _ outcome_smart_start] retries_frame)

lemma tick_cases:
  assumes "pf_safety_tick now c = (c', r)"
  shows "r = None \<and> retries c' = retries c \<or>
         r = Some ERROR \<and> error_code (c_safety c') \<in> tick_codes \<and> retries c' = retries c \<or>
         r = Some REIGNITE \<and> (c_mode c = SMOKE \<or> c_mode c = HOLD) \<and> relight_enabled (c_cfg c) \<and>
           0 < retries c \<and> retries c' = retries c - 1 \<and> reignite_last (c_safety c') = c_mode c"
  using pf_safety_tick_outcome [of c now] assms
  by (auto simp: outcome_ok_def pf_safety_tick_def split: prod.splits option.splits if_splits)

text \<open>C13. A tick asks for nothing but an error or a relight.  An error comes with the code of what went
  wrong; a relight comes only in Smoke or Hold, with relighting switched on and an attempt left, which it
  uses up, and remembers the mode to return to; nothing else touches the attempts.\<close>

theorem safety_tick_outcomes:
  assumes "pf_safety_tick now c = (c', r)"
  shows "r = None \<and> retries c' = retries c \<or>
         r = Some ERROR \<and> error_code (c_safety c') \<in> tick_codes \<and> retries c' = retries c \<or>
         r = Some REIGNITE \<and> (c_mode c = SMOKE \<or> c_mode c = HOLD) \<and> relight_enabled (c_cfg c) \<and>
           0 < retries c \<and> retries c' = retries c - 1 \<and> reignite_last (c_safety c') = c_mode c"
  by (rule tick_cases [OF assms])

text \<open>Any sequence of ticks, with anything else happening to the grill between them that does not touch
  the attempts: a reading, a set point, a mode.\<close>

fun tick_run :: "((('i, 'z) grill_scheme \<Rightarrow> ('i, 'z) grill_scheme) \<times> fl) list \<Rightarrow> ('i, 'z) grill_scheme \<Rightarrow>
    ('i, 'z) grill_scheme \<times> pf_mode option list" where
  "tick_run [] c = (c, [])"
| "tick_run ((env, now) # ts) c =
     (case pf_safety_tick now (env c) of (c, r) \<Rightarrow> (case tick_run ts c of (c, rs) \<Rightarrow> (c, r # rs)))"

text \<open>C10. The fire is relit at most as often as there are attempts left, however long the cook and whatever
  the pit does, until the attempts are given back by a new start.\<close>

theorem relights_bounded:
  assumes "tick_run ts c = (c', rs)" "\<forall>(env, now) \<in> set ts. \<forall>d. retries (env d) = retries d"
  shows "int (length (filter (\<lambda>r. r = Some REIGNITE) rs)) \<le> max 0 (retries c)"
  using assms
proof (induction ts arbitrary: c c' rs)
  case (Cons t ts)
  obtain env now where t: "t = (env, now)" by force
  obtain d r where d: "pf_safety_tick now (env c) = (d, r)" by force
  obtain rs' where rs: "tick_run ts d = (c', rs')" "rs = r # rs'"
    using Cons.prems(1) t d by (auto split: prod.splits)
  have e: "retries (env c) = retries c" using Cons.prems(2) t by simp
  note ih = Cons.IH [OF rs(1)]
  from tick_cases [OF d] e ih rs(2) Cons.prems(2) show ?case by auto
qed simp

theorem safety_tick_outcomes_witness:
  "snd (pf_safety_tick 100 example_grill) = Some REIGNITE \<and> retries (fst (pf_safety_tick 100 example_grill)) = 0"
proof -
  have "snd (pf_safety_tick 100 example_grill) = Some REIGNITE"
    by code_simp
  with safety_tick_outcomes [of 100 example_grill "fst (pf_safety_tick 100 example_grill)" "snd (pf_safety_tick 100 example_grill)"]
  show ?thesis by (simp add: example_grill_def)
qed

theorem relights_bounded_witness:
  "length (filter (\<lambda>r. r = Some REIGNITE) (snd (tick_run [(id, 100), (\<lambda>c. c\<lparr>c_pit_c := 80\<rparr>, 101)] example_grill))) \<le> 1"
  using relights_bounded [of "[(id, 100), (\<lambda>c. c\<lparr>c_pit_c := 80\<rparr>, 101)]" example_grill
      "fst (tick_run [(id, 100), (\<lambda>c. c\<lparr>c_pit_c := 80\<rparr>, 101)] example_grill)"
      "snd (tick_run [(id, 100), (\<lambda>c. c\<lparr>c_pit_c := 80\<rparr>, 101)] example_grill)"]
  by (simp add: example_grill_def)

section \<open>The igniter's cap\<close>

lemma igniter_books_frame [simp]:
  "igniter_on_since (c_safety (tick_filter now c)) = igniter_on_since (c_safety c)"
  "igniter_on_since (c_safety (prove_rise now c)) = igniter_on_since (c_safety c)"
  "igniter_on_since (c_safety (prove_held now c)) = igniter_on_since (c_safety c)"
  "igniter_on_since (c_safety (failed_start c)) = igniter_on_since (c_safety c)"
  "igniter_on_since (c_safety (note_setpoint c)) = igniter_on_since (c_safety c)"
  "igniter_on_since (c_safety (note_peak c)) = igniter_on_since (c_safety c)"
  "igniter_on_since (c_safety (note_heating c)) = igniter_on_since (c_safety c)"
  "igniter_on_since (c_safety (end_coast now c)) = igniter_on_since (c_safety c)"
  "igniter_on_since (c_safety (drive_proving now c)) = igniter_on_since (c_safety c)"
  by (simp_all add: safety_step filter_pit_def)

definition books_kept :: "('i, 'z) grill_scheme \<Rightarrow> ('i, 'z) step \<Rightarrow> bool" where
  "books_kept c st \<longleftrightarrow> igniter_on_since (c_safety (fst st)) = igniter_on_since (c_safety c)"

lemma books_then: "books_kept c st \<Longrightarrow> (\<And>d. books_kept d (f d)) \<Longrightarrow> books_kept c (and_then st f)"
  by (cases st; cases "snd st") (auto simp: books_kept_def and_then_def)

lemma books_pre: "igniter_on_since (c_safety d) = igniter_on_since (c_safety c) \<Longrightarrow> books_kept d st \<Longrightarrow> books_kept c st"
  by (simp add: books_kept_def)

lemma books_probe: "books_kept c (tick_probe now c)"
  by (simp add: books_kept_def safety_step)

lemma books_smart_start: "books_kept c (tick_smart_start now c)"
  by (simp add: books_kept_def tick_smart_start_def stop_tick_def go_on_def Let_def)

lemma books_judge_fall: "books_kept c (judge_fall now c)"
  by (simp add: books_kept_def safety_step)

lemma books_judge_climb: "books_kept c (judge_climb now c)"
  by (simp add: books_kept_def safety_step)

lemma books_judge_fire: "books_kept c (judge_fire now c)"
proof -
  have "books_kept c (go_on (upd_safety (\<lambda>s. s\<lparr>progress_c := c_pit_c c, progress_t := now, fall_since := 0\<rparr>) c))"
    by (simp add: books_kept_def go_on_def)
  then show ?thesis
    unfolding judge_fire_def
    by (simp add: books_then books_pre [OF _ books_judge_fall] books_pre [OF _ books_judge_climb])
qed

lemma books_flame: "books_kept c (tick_flame now c)"
proof -
  have "books_kept d (stop_tick None (drive_proving now (end_coast now d)))" for d :: "('a, 'b) grill_scheme"
    by (simp add: books_kept_def stop_tick_def)
  moreover have "books_kept c (stop_tick None (upd_safety f c))" if "\<And>s. igniter_on_since (f s) = igniter_on_since s" for f
    using that by (simp add: books_kept_def stop_tick_def)
  moreover have "books_kept c (stop_tick None c)"
    by (simp add: books_kept_def stop_tick_def)
  ultimately show ?thesis
    unfolding tick_flame_def by (auto simp: Let_def intro!: books_then books_pre [OF _ books_judge_fire])
qed

text \<open>Locked out and off: no later step of the tick switches it on.\<close>

definition dark :: "('i, 'z) grill_scheme \<Rightarrow> bool" where
  "dark c \<longleftrightarrow> igniter_locked_out (c_safety c) \<and> \<not> g_state (c_out c) IGNITER"

lemma outs_stay_off [simp]: "\<not> g_state s out \<Longrightarrow> \<not> g_state (fst (pf_outputs_set out False s)) out"
  by (auto simp: pf_outputs_set_def outputs_set_locked_def Let_def split: option.splits prod.splits)

lemma dark_upd [simp]: "(\<And>s. igniter_locked_out (f s) = igniter_locked_out s) \<Longrightarrow> dark (upd_safety f c) = dark c"
  by (simp add: dark_def)

lemma dark_emit [simp]: "dark (emit a b m c) = dark c" "dark (db_event l a m c) = dark c"
  by (simp_all add: dark_def)

lemma dark_set_out [simp]: "dark c \<Longrightarrow> dark (set_out AUGER on c)" "dark c \<Longrightarrow> dark (set_out IGNITER False c)"
  by (simp_all add: dark_def outs_set_other)

lemma dark_set_error [simp]: "dark (pf_safety_set_error code m c) = dark c"
  by (simp add: pf_safety_set_error_def Let_def)

definition stays_dark :: "('i, 'z) grill_scheme \<Rightarrow> ('i, 'z) step \<Rightarrow> bool" where
  "stays_dark c st \<longleftrightarrow> (dark c \<longrightarrow> dark (fst st))"

lemma stays_dark_then: "stays_dark c st \<Longrightarrow> (\<And>d. stays_dark d (f d)) \<Longrightarrow> stays_dark c (and_then st f)"
  by (cases st; cases "snd st") (auto simp: stays_dark_def and_then_def)

lemma stays_dark_pre: "(dark c \<Longrightarrow> dark d) \<Longrightarrow> stays_dark d st \<Longrightarrow> stays_dark c st"
  by (auto simp: stays_dark_def)

lemma dark_steps [simp]:
  "dark c \<Longrightarrow> dark (tick_filter now c)" "dark c \<Longrightarrow> dark (prove_rise now c)" "dark c \<Longrightarrow> dark (prove_held now c)"
  "dark c \<Longrightarrow> dark (failed_start c)" "dark c \<Longrightarrow> dark (note_setpoint c)" "dark c \<Longrightarrow> dark (note_peak c)"
  "dark c \<Longrightarrow> dark (note_heating c)" "dark c \<Longrightarrow> dark (end_coast now c)"
  by (simp_all add: tick_filter_def filter_pit_def prove_rise_def prove_held_def failed_start_def note_setpoint_def note_peak_def
      note_heating_def end_coast_def ignition_proven_def Let_def)

lemma dark_proving [simp]: "dark c \<Longrightarrow> dark (drive_proving now c)"
proof -
  assume "dark c"
  moreover from this have "igniter_locked_out (c_safety c)" by (simp add: dark_def)
  ultimately show ?thesis by (simp add: drive_proving_def)
qed

lemma dark_probe: "stays_dark c (tick_probe now c)"
  by (simp add: stays_dark_def tick_probe_def stop_tick_def go_on_def)

lemma dark_smart_start: "stays_dark c (tick_smart_start now c)"
  by (simp add: stays_dark_def tick_smart_start_def stop_tick_def go_on_def Let_def)

lemma dark_judge_fall: "stays_dark c (judge_fall now c)"
  by (simp add: stays_dark_def judge_fall_def flameout_def stop_tick_def go_on_def Let_def)

lemma dark_judge_climb: "stays_dark c (judge_climb now c)"
  by (simp add: stays_dark_def judge_climb_def stop_tick_def go_on_def Let_def)

lemma dark_judge_fire: "stays_dark c (judge_fire now c)"
proof -
  have "stays_dark c (go_on (upd_safety (\<lambda>s. s\<lparr>progress_c := c_pit_c c, progress_t := now, fall_since := 0\<rparr>) c))"
    by (simp add: stays_dark_def go_on_def)
  then show ?thesis
    unfolding judge_fire_def
    by (simp add: stays_dark_then stays_dark_pre [OF _ dark_judge_fall] stays_dark_pre [OF _ dark_judge_climb])
qed

lemma dark_flame: "stays_dark c (tick_flame now c)"
proof -
  have "stays_dark d (stop_tick None (drive_proving now (end_coast now d)))" for d :: "('a, 'b) grill_scheme"
    by (simp add: stays_dark_def stop_tick_def)
  moreover have "stays_dark c (stop_tick None (upd_safety f c))" if "\<And>s. igniter_locked_out (f s) = igniter_locked_out s" for f
    using that by (simp add: stays_dark_def stop_tick_def)
  moreover have "stays_dark c (stop_tick None c)"
    by (simp add: stays_dark_def stop_tick_def)
  ultimately show ?thesis
    unfolding tick_flame_def
    by (auto simp: Let_def intro!: stays_dark_then stays_dark_pre [OF _ dark_judge_fire])
qed

text \<open>The tick after the igniter has been looked at.\<close>

definition rest_of_tick :: "fl \<Rightarrow> ('i, 'z) grill_scheme \<Rightarrow> ('i, 'z) step" where
  "rest_of_tick now c = and_then (tick_probe now c) (\<lambda>c.
     and_then (tick_smart_start now (tick_filter now c)) (tick_flame now))"

lemma rest_of_tick_books: "igniter_on_since (c_safety (fst (rest_of_tick now c))) = igniter_on_since (c_safety c)"
  and rest_of_tick_dark: "dark c \<Longrightarrow> dark (fst (rest_of_tick now c))"
proof -
  have "books_kept c (rest_of_tick now c)"
    unfolding rest_of_tick_def by (intro books_then books_probe books_flame books_pre [OF _ books_smart_start]) simp
  then show "igniter_on_since (c_safety (fst (rest_of_tick now c))) = igniter_on_since (c_safety c)"
    by (simp add: books_kept_def)
  have "stays_dark c (rest_of_tick now c)"
    unfolding rest_of_tick_def by (intro stays_dark_then dark_probe dark_flame stays_dark_pre [OF _ dark_smart_start]) simp
  then show "dark c \<Longrightarrow> dark (fst (rest_of_tick now c))" by (simp add: stays_dark_def)
qed

lemma tick_goes_on:
  assumes "snd (pf_safety_tick now c) = None"
  shows "fst (pf_safety_tick now c) = fst (rest_of_tick now (tick_igniter now c))"
  using assms unfolding pf_safety_tick_fst rest_of_tick_def
  by (auto simp: tick_overtemp_def and_then_def go_on_def stop_tick_def pf_safety_tick_def)

lemma tick_igniter_on:
  assumes "g_state (c_out c) IGNITER"
  shows "igniter_on_since (c_safety (tick_igniter now c)) =
           (if igniter_on_since (c_safety c) = 0 \<and> \<not> igniter_locked_out (c_safety c) then now else igniter_on_since (c_safety c))"
    and "outs_work (c_out c) \<Longrightarrow> igniter_locked_out (c_safety c) \<or>
           igniter_on_since (c_safety c) \<noteq> 0 \<and> igniter_max_on_s (c_cfg c) < now - igniter_on_since (c_safety c) \<Longrightarrow>
         dark (tick_igniter now c)"
  using assms by (auto simp: tick_igniter_def pf_outputs_get_def dark_def outs_work_get)

text \<open>Ticks at each of which the igniter is found on, none of them ending the mode, with anything between
  them that leaves the igniter's clock and its cap alone.\<close>

fun igniter_held :: "((('i, 'z) grill_scheme \<Rightarrow> ('i, 'z) grill_scheme) \<times> fl) list \<Rightarrow> ('i, 'z) grill_scheme \<Rightarrow> bool" where
  "igniter_held [] c = True"
| "igniter_held ((env, now) # ts) c =
     (let d = env c
      in igniter_on_since (c_safety d) = igniter_on_since (c_safety c) \<and>
         igniter_max_on_s (c_cfg d) = igniter_max_on_s (c_cfg c) \<and> outs_work (c_out d) \<and>
         g_state (c_out d) IGNITER \<and> snd (pf_safety_tick now d) = None \<and> igniter_held ts (fst (pf_safety_tick now d)))"

lemma igniter_held_cap:
  assumes "igniter_held (ts @ [(env, now)]) c" "igniter_on_since (c_safety c) = t0" "t0 \<noteq> 0"
    "g_state (c_out (fst (tick_run (ts @ [(env, now)]) c))) IGNITER"
  shows "\<not> igniter_max_on_s (c_cfg c) < now - t0"
  using assms
proof (induction ts arbitrary: c)
  case Nil
  define d where "d = env c"
  have d: "outs_work (c_out d)" "g_state (c_out d) IGNITER" "snd (pf_safety_tick now d) = None"
    "igniter_on_since (c_safety d) = t0" "igniter_max_on_s (c_cfg d) = igniter_max_on_s (c_cfg c)"
    using Nil.prems by (simp_all add: d_def Let_def)
  have "\<not> dark (fst (pf_safety_tick now d))"
    using Nil.prems(4) by (simp add: dark_def d_def split: prod.splits)
  then have "\<not> dark (tick_igniter now d)"
    using rest_of_tick_dark [of "tick_igniter now d" now] tick_goes_on [OF d(3)] by auto
  then show ?case using tick_igniter_on(2) [OF d(2,1), of now] d(4,5) Nil.prems(3) by auto
next
  case (Cons t ts)
  obtain e u where t: "t = (e, u)" by force
  define d where "d = e c"
  have d: "g_state (c_out d) IGNITER" "snd (pf_safety_tick u d) = None" "igniter_on_since (c_safety d) = t0"
    "igniter_max_on_s (c_cfg d) = igniter_max_on_s (c_cfg c)" "igniter_held (ts @ [(env, now)]) (fst (pf_safety_tick u d))"
    using Cons.prems t by (simp_all add: d_def Let_def)
  have since: "igniter_on_since (c_safety (fst (pf_safety_tick u d))) = t0"
    unfolding tick_goes_on [OF d(2)] rest_of_tick_books using tick_igniter_on(1) [OF d(1)] d(3) Cons.prems(3) by auto
  have "g_state (c_out (fst (tick_run (ts @ [(env, now)]) (fst (pf_safety_tick u d))))) IGNITER"
    using Cons.prems(4) t by (simp add: d_def split: prod.splits)
  from Cons.IH [OF d(5) since Cons.prems(3) this] show ?case
    using pf_safety_tick_world [of d u] d(4) by (simp add: same_world_def)
qed

text \<open>C7. However long the grill keeps asking for the igniter, in one mode it is not on past its cap: if it
  is found on at every tick from \<open>t0\<close> to \<open>t\<close> and still on after the last, \<open>t\<close> is within the cap of \<open>t0\<close>.\<close>

theorem igniter_capped:
  assumes "igniter_held ((env0, t0) # ts @ [(env, t)]) c" "igniter_on_since (c_safety c) = 0" "t0 \<noteq> 0"
    "\<not> igniter_locked_out (c_safety (env0 c))"
    "g_state (c_out (fst (tick_run ((env0, t0) # ts @ [(env, t)]) c))) IGNITER"
  shows "\<not> igniter_max_on_s (c_cfg c) < t - t0"
proof -
  define d where "d = env0 c"
  have d: "g_state (c_out d) IGNITER" "snd (pf_safety_tick t0 d) = None" "igniter_on_since (c_safety d) = 0"
    "igniter_max_on_s (c_cfg d) = igniter_max_on_s (c_cfg c)" "igniter_held (ts @ [(env, t)]) (fst (pf_safety_tick t0 d))"
    using assms(1,2) by (simp_all add: d_def Let_def)
  have "igniter_on_since (c_safety (fst (pf_safety_tick t0 d))) = t0"
    unfolding tick_goes_on [OF d(2)] rest_of_tick_books using tick_igniter_on(1) [OF d(1)] d(3) assms(4) by (auto simp: d_def)
  moreover have "g_state (c_out (fst (tick_run (ts @ [(env, t)]) (fst (pf_safety_tick t0 d))))) IGNITER"
    using assms(5) by (simp add: d_def split: prod.splits)
  ultimately have "\<not> igniter_max_on_s (c_cfg (fst (pf_safety_tick t0 d))) < t - t0"
    by (intro igniter_held_cap [OF d(5)]) (use assms(3) in auto)
  then show ?thesis using pf_safety_tick_world [of d t0] d(4) by (simp add: same_world_def)
qed

definition relighting :: "unit grill" where
  "relighting = example_grill\<lparr>c_mode := REIGNITE, c_pit_valid := False, c_out := example_outputs\<lparr>g_state := (\<lambda>o1. o1 = IGNITER)\<rparr>,
     c_safety := zero_safety\<lparr>ss_active := True, ss_deadline := 400\<rparr>\<rparr>"

text \<open>The same grill with the igniter still on, since whenever it was.\<close>

definition light_on :: "unit grill \<Rightarrow> unit grill" where
  "light_on c = relighting\<lparr>c_safety := (c_safety relighting)\<lparr>igniter_on_since := igniter_on_since (c_safety c)\<rparr>\<rparr>"

definition relit :: "unit grill" where
  "relit = relighting\<lparr>c_safety := (c_safety relighting)\<lparr>igniter_on_since := 100\<rparr>\<rparr>"

theorem igniter_capped_witness:
  "igniter_held [(light_on, 100), (light_on, 250)] relighting \<and> \<not> igniter_max_on_s (c_cfg relighting) < 250 - 100"
proof -
  have w: "outs_work (c_out relighting)" "g_state (c_out relighting) IGNITER" "outs_work (c_out relit)" "g_state (c_out relit) IGNITER"
      "igniter_on_since (c_safety relighting) = 0" "\<not> igniter_locked_out (c_safety relighting)"
      "c_cfg relit = c_cfg relighting" "igniter_on_since (c_safety relit) = 100"
    by (simp_all add: relit_def relighting_def outs_work_def example_outputs_def example_ops_def zero_safety_def)
  have e: "light_on relighting = relighting" by (simp add: light_on_def)
  define c1 where "c1 = fst (pf_safety_tick 100 relighting)"
  have t1: "snd (pf_safety_tick 100 relighting) = None"
    by (simp add: pf_safety_tick_def safety_step lit_mode_def relighting_def example_grill_def zero_safety_def)
  have "igniter_on_since (c_safety c1) = 100"
    unfolding c1_def tick_goes_on [OF t1] rest_of_tick_books tick_igniter_on(1) [OF w(2)] using w by simp
  then have c1: "light_on c1 = relit" by (simp add: light_on_def relit_def)
  have t2: "snd (pf_safety_tick 250 relit) = None" and on: "g_state (c_out (fst (pf_safety_tick 250 relit))) IGNITER"
    by (simp_all add: pf_safety_tick_def safety_step lit_mode_def relit_def relighting_def example_grill_def example_cfg_def
        zero_cfg_def zero_safety_def pf_outputs_get_def example_outputs_def)
  have "igniter_max_on_s (c_cfg c1) = igniter_max_on_s (c_cfg relighting)"
    using pf_safety_tick_world [of relighting 100] by (simp add: c1_def same_world_def)
  then have h: "igniter_held ((light_on, 100) # [] @ [(light_on, 250)]) relighting"
    using t1 t2 w \<open>igniter_on_since (c_safety c1) = 100\<close> [unfolded c1_def]
    by (simp add: e Let_def c1 [unfolded c1_def fl_numeral] c1_def)
  moreover have "fst (tick_run ((light_on, 100) # [] @ [(light_on, 250)]) relighting) = fst (pf_safety_tick 250 relit)"
    using c1 [unfolded c1_def fl_numeral] by (cases "pf_safety_tick (Fin 100) relighting") (simp add: e split: prod.splits)
  ultimately have "\<not> igniter_max_on_s (c_cfg relighting) < 250 - 100"
    using igniter_capped [of light_on 100 "[]" light_on 250 relighting] on w by (simp add: e)
  with h show ?thesis by simp
qed

section \<open>What a relight rests on\<close>

definition fell :: "fl \<Rightarrow> ('i, 'z) grill_scheme \<Rightarrow> bool" where
  "fell now c \<longleftrightarrow> \<not> fall_since (c_safety c) \<le> 0 \<and> relight_confirm_s (c_cfg c) \<le> now - fall_since (c_safety c)"

definition relights :: "('i, 'z) step \<Rightarrow> bool" where
  "relights st \<longleftrightarrow> snd st = Some (Some REIGNITE)"

lemma relights_then: "relights (and_then st f) \<longleftrightarrow> relights st \<or> snd st = None \<and> relights (f (fst st))"
  by (cases st; cases "snd st") (auto simp: relights_def and_then_def)

lemma relights_not [simp]:
  "\<not> relights (tick_overtemp c)" "\<not> relights (tick_probe now c)" "\<not> relights (tick_smart_start now c)"
  "\<not> relights (judge_climb now c)" "\<not> relights (stop_tick None c)" "\<not> relights (go_on c)"
  by (simp_all add: relights_def tick_overtemp_def tick_probe_def tick_smart_start_def judge_climb_def stop_tick_def go_on_def Let_def)

lemma fell_frame [simp]:
  "fell now (note_peak c) = fell now c" "fell now (note_setpoint c) = fell now c"
  "stepdown_armed (c_safety (note_peak c)) = stepdown_armed (c_safety c)"
  "flame_paused now (note_setpoint c) = flame_paused now c"
  by (simp_all add: fell_def note_peak_def note_setpoint_def flame_paused_def Let_def)

lemma relights_fall: "relights (judge_fall now c) \<Longrightarrow> fell now c"
  by (auto simp: relights_def judge_fall_def fell_def stop_tick_def go_on_def Let_def split: if_splits)

lemma relights_fire: "relights (judge_fire now c) \<Longrightarrow> fell now c \<and> \<not> flame_paused now c \<and> \<not> stepdown_armed (c_safety c)"
  by (auto simp: judge_fire_def relights_then dest: relights_fall split: if_splits)

lemma armed_stays: "stepdown_armed (c_safety c) \<Longrightarrow> stepdown_armed (c_safety (note_setpoint c))"
  by (simp add: note_setpoint_def Let_def)

lemma relights_flame:
  assumes "relights (tick_flame now c)"
  shows "fell now c \<and> \<not> flame_paused now c \<and> \<not> stepdown_armed (c_safety c) \<and> c_pit_valid c \<and> (c_mode c = SMOKE \<or> c_mode c = HOLD)"
  using assms armed_stays [of c] relights_fire [of now "note_setpoint c"]
  by (auto simp: tick_flame_def relights_then split: if_splits)

lemma marks_kept [simp]:
  "lit_mode (c_mode c) \<Longrightarrow> fall_since (c_safety (tick_filter now c)) = fall_since (c_safety c)"
  "lit_mode (c_mode c) \<Longrightarrow> stepdown_armed (c_safety (tick_filter now c)) = stepdown_armed (c_safety c)"
  "fall_since (c_safety (fst (tick_probe now c))) = fall_since (c_safety c)"
  "stepdown_armed (c_safety (fst (tick_probe now c))) = stepdown_armed (c_safety c)"
  "fall_since (c_safety (tick_igniter now c)) = fall_since (c_safety c)"
  "stepdown_armed (c_safety (tick_igniter now c)) = stepdown_armed (c_safety c)"
  by (simp_all add: tick_filter_def filter_pit_def tick_probe_def tick_igniter_def stop_tick_def go_on_def Let_def pf_safety_set_error_def)

lemma smart_start_idle: "c_mode c = SMOKE \<or> c_mode c = HOLD \<Longrightarrow> fst (tick_smart_start now c) = c"
  by (auto simp: tick_smart_start_def go_on_def)



end
