(* ===== verification/Alarms.thy ===== *)
theory Alarms
  imports Events Json
begin

text \<open>
  \<open>src/features/alarms.c\<close>: the table of standing alarms and of notices waiting to be seen.  The wall clock
  is an argument; every operation runs under the module's lock and is one step.
\<close>

section \<open>The table\<close>

definition PF_ALARMS_MAX :: nat where "PF_ALARMS_MAX = 64"
definition CHATTER_RAISES :: "32 word" where "CHATTER_RAISES = 5"
definition CHATTER_WINDOW_S :: fl where "CHATTER_WINDOW_S = 600"
definition CHATTER_SHELF_S :: fl where "CHATTER_SHELF_S = 1800"

record alarm =
  al_used :: bool
  al_key :: string
  al_code :: string
  al_name :: string
  al_title :: string
  al_body :: string
  al_crit :: int
  al_sinks :: "32 word"
  al_active :: bool
  al_acked :: bool
  al_notice :: bool
  al_retired :: bool
  al_raised_ts :: fl
  al_cleared_ts :: fl
  al_acked_ts :: fl
  al_raises :: "32 word"
  al_window_start :: fl
  al_window_raises :: "32 word"
  al_shelved_until :: fl
  al_fix :: string
  al_snooze_s :: fl
  al_flash :: string

definition zero_alarm :: alarm where
  "zero_alarm = \<lparr>al_used = False, al_key = [], al_code = [], al_name = [], al_title = [], al_body = [], al_crit = 0,
     al_sinks = 0, al_active = False, al_acked = False, al_notice = False, al_retired = False, al_raised_ts = 0,
     al_cleared_ts = 0, al_acked_ts = 0, al_raises = 0, al_window_start = 0, al_window_raises = 0, al_shelved_until = 0,
     al_fix = [], al_snooze_s = 0, al_flash = []\<rparr>"

record alarms =
  at_tab :: "alarm list"
  at_gen :: "32 word"

definition pf_alarms_init :: "alarms \<Rightarrow> alarms" where
  "pf_alarms_init s = s\<lparr>at_tab := replicate PF_ALARMS_MAX zero_alarm, at_gen := at_gen s + 1\<rparr>"

text \<open>A bounded copy into a member of a structure, whose old contents do not matter.\<close>

definition cut :: "nat \<Rightarrow> string \<Rightarrow> string" where "cut n s = fst (pf_strlcpy [] s n)"

fun find_index :: "('a \<Rightarrow> bool) \<Rightarrow> 'a list \<Rightarrow> nat option" where
  "find_index p [] = None"
| "find_index p (x # xs) = (if p x then Some 0 else map_option Suc (find_index p xs))"

definition alarm_find :: "string \<Rightarrow> alarm list \<Rightarrow> nat option" where
  "alarm_find key tab = find_index (\<lambda>a. al_used a \<and> al_key a = key) tab"

definition reap :: "fl \<Rightarrow> alarm list \<Rightarrow> alarm list" where
  "reap now tab = map (\<lambda>a. if al_used a \<and> al_retired a \<and> CHATTER_WINDOW_S * 2 < now - al_cleared_ts a \<and>
                              al_shelved_until a < now then zero_alarm else a) tab"

text \<open>The loop that looks for an entry to give up: a retired one at once, else the oldest acknowledged one
  that is not standing.\<close>

fun evict :: "nat \<Rightarrow> alarm list \<Rightarrow> (nat \<times> fl) option \<Rightarrow> nat option" where
  "evict i [] oldest = map_option fst oldest"
| "evict i (a # tab) oldest =
     (if al_retired a then Some i
      else if al_active a \<or> \<not> al_acked a then evict (i + 1) tab oldest
      else evict (i + 1) tab
        (case oldest of
           None \<Rightarrow> Some (i, al_raised_ts a)
         | Some (j, t) \<Rightarrow> if al_raised_ts a < t then Some (i, al_raised_ts a) else oldest))"

definition slot_for :: "string \<Rightarrow> alarm list \<Rightarrow> nat option" where
  "slot_for key tab =
     (case alarm_find key tab of
        Some i \<Rightarrow> Some i
      | None \<Rightarrow> (case find_index (\<lambda>a. \<not> al_used a) tab of Some i \<Rightarrow> Some i | None \<Rightarrow> evict 0 tab None))"

section \<open>Operations\<close>

text \<open>What \<open>pf_alarms_raise\<close> does to the entry it found, and whether it is to be announced.\<close>

definition activate :: "fl \<Rightarrow> alarm \<Rightarrow> alarm" where
  "activate now a =
     (let a = a\<lparr>al_active := True, al_acked := False, al_raised_ts := now, al_cleared_ts := 0,
                al_raises := al_raises a + 1\<rparr>;
          a = (if CHATTER_WINDOW_S < now - al_window_start a
               then a\<lparr>al_window_start := now, al_window_raises := 0\<rparr> else a);
          a = a\<lparr>al_window_raises := al_window_raises a + 1\<rparr>
      in if CHATTER_RAISES \<le> al_window_raises a \<and> al_shelved_until a < now
         then a\<lparr>al_shelved_until := now + CHATTER_SHELF_S\<rparr> else a)"

definition raise_entry :: "fl \<Rightarrow> string \<Rightarrow> string \<Rightarrow> string option \<Rightarrow> int \<Rightarrow> 32 word \<Rightarrow> string \<Rightarrow> string \<Rightarrow> alarm \<Rightarrow> alarm \<times> bool" where
  "raise_entry now key code name crit sinks title body a =
     (let a = (if \<not> al_used a then zero_alarm\<lparr>al_used := True, al_key := cut 96 key, al_window_start := now\<rparr> else a);
          a = a\<lparr>al_code := cut 40 code, al_name := cut 64 (case name of Some n \<Rightarrow> n | None \<Rightarrow> code), al_title := cut 120 title,
                al_body := cut 256 body, al_crit := crit, al_sinks := sinks, al_notice := False, al_retired := False\<rparr>;
          (a, fresh) = (if \<not> al_active a then (activate now a, True) else (a, False))
      in (a, if now < al_shelved_until a then False else fresh))"

lemma activate_key [simp]: "al_key (activate now a) = al_key a" "al_used (activate now a) = al_used a"
  by (simp_all add: activate_def Let_def)

definition pf_alarms_raise ::
    "fl \<Rightarrow> string \<Rightarrow> string \<Rightarrow> string option \<Rightarrow> int \<Rightarrow> 32 word \<Rightarrow> string \<Rightarrow> string \<Rightarrow> alarms \<Rightarrow> alarms \<times> bool" where
  "pf_alarms_raise now key code name crit sinks title body s =
     (let tab = reap now (at_tab s)
      in case slot_for key tab of
           None \<Rightarrow> (s\<lparr>at_tab := tab\<rparr>, False)
         | Some i \<Rightarrow>
             (let (a, fresh) = raise_entry now key code name crit sinks title body (tab ! i)
              in (s\<lparr>at_tab := tab[i := a], at_gen := at_gen s + 1\<rparr>, fresh)))"

definition clear_entry :: "fl \<Rightarrow> alarm \<Rightarrow> alarm" where
  "clear_entry now a =
     (let a = a\<lparr>al_active := False, al_cleared_ts := now\<rparr>
      in if al_acked a \<or> al_crit a < PF_CRIT_HIGH then a\<lparr>al_retired := True, al_acked := True\<rparr> else a)"

definition pf_alarms_clear :: "fl \<Rightarrow> string \<Rightarrow> alarms \<Rightarrow> alarms" where
  "pf_alarms_clear now key s =
     (case alarm_find key (at_tab s) of
        Some i \<Rightarrow>
          if al_active (at_tab s ! i)
          then s\<lparr>at_tab := (at_tab s)[i := clear_entry now (at_tab s ! i)], at_gen := at_gen s + 1\<rparr> else s
      | None \<Rightarrow> s)"

definition pf_alarms_offer :: "string \<Rightarrow> string option \<Rightarrow> fl \<Rightarrow> alarms \<Rightarrow> alarms" where
  "pf_alarms_offer key fix snooze_s s =
     (case alarm_find key (at_tab s) of
        Some i \<Rightarrow> s\<lparr>at_tab := (at_tab s)[i := (at_tab s ! i)
                    \<lparr>al_fix := cut 24 (case fix of Some f \<Rightarrow> f | None \<Rightarrow> []), al_snooze_s := snooze_s\<rparr>]\<rparr>
      | None \<Rightarrow> s)"

definition retire_entry :: "fl \<Rightarrow> alarm \<Rightarrow> alarm" where
  "retire_entry now a =
     (let a = a\<lparr>al_active := False, al_acked := True, al_retired := True\<rparr>
      in if al_cleared_ts a = 0 then a\<lparr>al_cleared_ts := now\<rparr> else a)"

definition pf_alarms_retire :: "fl \<Rightarrow> string \<Rightarrow> alarms \<Rightarrow> alarms" where
  "pf_alarms_retire now key s =
     (case alarm_find key (at_tab s) of
        Some i \<Rightarrow>
          if \<not> al_retired (at_tab s ! i)
          then s\<lparr>at_tab := (at_tab s)[i := retire_entry now (at_tab s ! i)], at_gen := at_gen s + 1\<rparr> else s
      | None \<Rightarrow> s)"

text \<open>The key of a notice carries the second it happened in; its decimal digits come from the caller.\<close>

definition note_key :: "string \<Rightarrow> string \<Rightarrow> string" where
  "note_key code secs = cut 96 (take 40 code @ ''@'' @ secs)"

definition pf_alarms_note ::
    "fl \<Rightarrow> string \<Rightarrow> string \<Rightarrow> string option \<Rightarrow> int \<Rightarrow> 32 word \<Rightarrow> string \<Rightarrow> string \<Rightarrow> alarms \<Rightarrow> alarms" where
  "pf_alarms_note now secs code name crit sinks title body s =
     (case slot_for (note_key code secs) (at_tab s) of
        Some i \<Rightarrow> s\<lparr>at_tab := (at_tab s)[i := zero_alarm\<lparr>al_used := True, al_notice := True, al_raised_ts := now, al_crit := crit,
            al_sinks := sinks, al_raises := 1, al_key := note_key code secs, al_code := cut 40 code,
            al_name := cut 64 (case name of Some n \<Rightarrow> n | None \<Rightarrow> code), al_title := cut 120 title, al_body := cut 256 body\<rparr>],
            at_gen := at_gen s + 1\<rparr>
      | None \<Rightarrow> s)"

definition ack_entry :: "fl \<Rightarrow> alarm \<Rightarrow> alarm" where
  "ack_entry now a =
     (let a = a\<lparr>al_acked := True, al_acked_ts := now\<rparr>
      in if \<not> al_active a
         then (let a = a\<lparr>al_retired := True\<rparr> in if al_cleared_ts a = 0 then a\<lparr>al_cleared_ts := now\<rparr> else a) else a)"

definition pf_alarms_ack :: "fl \<Rightarrow> string \<Rightarrow> alarms \<Rightarrow> alarms \<times> int" where
  "pf_alarms_ack now key s =
     (case alarm_find key (at_tab s) of
        Some i \<Rightarrow> (s\<lparr>at_tab := (at_tab s)[i := ack_entry now (at_tab s ! i)], at_gen := at_gen s + 1\<rparr>, 0)
      | None \<Rightarrow> (s, -1))"

definition listed :: "alarm \<Rightarrow> bool" where "listed a \<longleftrightarrow> al_used a \<and> \<not> al_retired a"

definition pf_alarms_unacked :: "alarms \<Rightarrow> int" where
  "pf_alarms_unacked s = int (length (filter (\<lambda>a. listed a \<and> \<not> al_acked a) (at_tab s)))"

definition pf_alarms_ack_all :: "fl \<Rightarrow> alarms \<Rightarrow> alarms \<times> int" where
  "pf_alarms_ack_all now s =
     (s\<lparr>at_tab := map (\<lambda>a. if listed a then ack_entry now a else a) (at_tab s), at_gen := at_gen s + 1\<rparr>,
      pf_alarms_unacked s)"

definition pf_alarms_shelve :: "fl \<Rightarrow> string \<Rightarrow> fl \<Rightarrow> alarms \<Rightarrow> alarms \<times> int" where
  "pf_alarms_shelve now key seconds s =
     (case alarm_find key (at_tab s) of
        Some i \<Rightarrow> (s\<lparr>at_tab := (at_tab s)[i := (at_tab s ! i)\<lparr>al_shelved_until := now + (if 0 < seconds then seconds else CHATTER_SHELF_S),
                      al_acked := True, al_acked_ts := now\<rparr>], at_gen := at_gen s + 1\<rparr>, 0)
      | None \<Rightarrow> (s, -1))"

definition pf_alarms_generation :: "alarms \<Rightarrow> 32 word" where "pf_alarms_generation s = at_gen s"

subsection \<open>What the panel flashes\<close>

definition pf_alarms_flash :: "string \<Rightarrow> string \<Rightarrow> alarms \<Rightarrow> alarms" where
  "pf_alarms_flash key word s =
     (case alarm_find key (at_tab s) of
        Some i \<Rightarrow> s\<lparr>at_tab := (at_tab s)[i := (at_tab s ! i)\<lparr>al_flash := cut 64 word\<rparr>]\<rparr>
      | None \<Rightarrow> s)"

definition soh :: char where "soh = CHR 0x01"

definition probe_word :: "string \<Rightarrow> string \<Rightarrow> string \<Rightarrow> string" where
  "probe_word label name action =
     cut 64 ([soh] @ take 16 label @ [soh] @ take 20 name @ [soh] @ take 20 action)"

text \<open>The newest of the entries a test accepts: the first one with the latest time.\<close>

fun newest :: "nat \<Rightarrow> (alarm \<Rightarrow> bool) \<Rightarrow> alarm list \<Rightarrow> (nat \<times> alarm) option \<Rightarrow> (nat \<times> alarm) option" where
  "newest i p [] best = best"
| "newest i p (a # tab) best =
     newest (i + 1) p tab
       (if p a \<and> (case best of None \<Rightarrow> True | Some (j, b) \<Rightarrow> al_raised_ts b < al_raised_ts a) then Some (i, a) else best)"

definition pf_alarms_flash_code :: "string \<Rightarrow> string \<Rightarrow> alarms \<Rightarrow> alarms" where
  "pf_alarms_flash_code code word s =
     (case newest 0 (\<lambda>a. al_used a \<and> al_code a = code) (at_tab s) None of
        Some (i, a) \<Rightarrow> s\<lparr>at_tab := (at_tab s)[i := a\<lparr>al_flash := cut 64 word\<rparr>]\<rparr>
      | None \<Rightarrow> s)"

definition pf_alarms_flash_probe :: "string \<Rightarrow> string \<Rightarrow> string \<Rightarrow> string \<Rightarrow> alarms \<Rightarrow> alarms" where
  "pf_alarms_flash_probe key label name action s = pf_alarms_flash key (probe_word label name action) s"

definition pf_alarms_flash_probe_code :: "string \<Rightarrow> string \<Rightarrow> string \<Rightarrow> string \<Rightarrow> alarms \<Rightarrow> alarms" where
  "pf_alarms_flash_probe_code code label name action s = pf_alarms_flash_code code (probe_word label name action) s"

text \<open>An entry that may flash now.\<close>

definition waiting :: "fl \<Rightarrow> alarm \<Rightarrow> bool" where
  "waiting now a \<longleftrightarrow> listed a \<and> \<not> al_acked a \<and> \<not> now < al_shelved_until a \<and> (al_active a \<or> al_notice a)"

definition pf_alarms_flash_word :: "fl \<Rightarrow> nat \<Rightarrow> alarms \<Rightarrow> string option" where
  "pf_alarms_flash_word now n s =
     map_option (\<lambda>(i, a). cut n (al_flash a)) (newest 0 (\<lambda>a. waiting now a \<and> al_flash a \<noteq> []) (at_tab s) None)"

text \<open>The parts of a word that names a probe: its label, and its action.\<close>

definition word_label :: "string \<Rightarrow> string option" where
  "word_label w = (case w of c # r \<Rightarrow> if c = soh \<and> soh \<in> set r then Some (takeWhile (\<lambda>x. x \<noteq> soh) r) else None | [] \<Rightarrow> None)"

definition word_action :: "string \<Rightarrow> string" where
  "word_action w =
     (let r = dropWhile (\<lambda>x. x \<noteq> soh) (tl w);
          act = drop 1 (dropWhile (\<lambda>x. x \<noteq> soh) (tl r))
      in if r = [] \<or> act = [] then ''Attention'' else act)"

definition pf_alarms_probe_alert :: "fl \<Rightarrow> string \<Rightarrow> nat \<Rightarrow> alarms \<Rightarrow> string option" where
  "pf_alarms_probe_alert now label n s =
     (if label = [] then None
      else map_option (\<lambda>(i, a). cut n (word_action (al_flash a)))
             (newest 0 (\<lambda>a. waiting now a \<and> word_label (al_flash a) = Some (take 16 label)) (at_tab s) None))"

text \<open>The list the app shows: the entries, how many are unseen, how many stand and the worst unseen one.\<close>

definition alarm_row :: "fl \<Rightarrow> alarm \<Rightarrow> (string \<times> json) list" where
  "alarm_row now a =
     [(''key'', JStr (al_key a)), (''code'', JStr (al_code a)), (''name'', JStr (al_name a)), (''title'', JStr (al_title a)),
      (''body'', JStr (al_body a)), (''crit'', JNum (int_to_fl (al_crit a))), (''active'', JBool (al_active a)),
      (''acked'', JBool (al_acked a)), (''notice'', JBool (al_notice a)), (''ts'', JNum (al_raised_ts a))] @
     (if 0 < al_cleared_ts a then [(''cleared_ts'', JNum (al_cleared_ts a))] else []) @
     (if 1 < al_raises a then [(''raises'', JNum (int_to_fl (uint (al_raises a))))] else []) @
     (if now < al_shelved_until a then [(''shelved_for'', JNum (fl_round (al_shelved_until a - now)))] else []) @
     (if al_fix a \<noteq> [] then [(''fix'', JStr (al_fix a))] else []) @
     (if al_flash a \<noteq> [] \<and> hd (al_flash a) \<noteq> soh then [(''flash'', JStr (al_flash a))] else []) @
     (if 0 < al_snooze_s a then [(''snooze_s'', JNum (al_snooze_s a))] else [])"

definition pf_alarms_json :: "fl \<Rightarrow> alarms \<Rightarrow> json" where
  "pf_alarms_json now s =
     (let rows = filter listed (at_tab s)
      in JObj [(''alarms'', JArr (map (\<lambda>a. JObj (alarm_row now a)) rows)),
               (''unacked'', JNum (int_to_fl (int (length (filter (\<lambda>a. \<not> al_acked a) rows))))),
               (''active'', JNum (int_to_fl (int (length (filter al_active rows))))),
               (''worst'', JNum (int_to_fl (fold (\<lambda>a w. if \<not> al_acked a \<and> w < al_crit a then al_crit a else w) rows (-1))))])"

section \<open>Finding entries\<close>

lemma find_index_Some:
  "find_index p xs = Some i \<longleftrightarrow> i < length xs \<and> p (xs ! i) \<and> (\<forall>j < i. \<not> p (xs ! j))"
proof (induction xs arbitrary: i)
  case (Cons x xs)
  show ?case
  proof (cases i)
    case (Suc k)
    with Cons.IH [of k] show ?thesis by (auto simp: less_Suc_eq_0_disj)
  qed (auto split: option.splits)
qed simp

lemma find_index_None: "find_index p xs = None \<longleftrightarrow> (\<forall>x \<in> set xs. \<not> p x)"
  by (induction xs) auto

lemma evict_free:
  assumes "evict k tab oldest = Some i"
    and "\<And>j t. oldest = Some (j, t) \<Longrightarrow> j < k"
  shows "(\<exists>t. oldest = Some (i, t)) \<or> k \<le> i \<and> i < k + length tab \<and>
         (al_retired (tab ! (i - k)) \<or> \<not> al_active (tab ! (i - k)) \<and> al_acked (tab ! (i - k)))"
  using assms
proof (induction tab arbitrary: k oldest)
  case (Cons a tab)
  define o' where "o' = (case oldest of None \<Rightarrow> Some (k, al_raised_ts a)
                         | Some (j, t) \<Rightarrow> if al_raised_ts a < t then Some (k, al_raised_ts a) else oldest)"
  have o': "o' = oldest \<or> (\<exists>t. o' = Some (k, t))" by (auto simp: o'_def split: option.splits)
  have later: "(\<exists>t. w = Some (i, t)) \<or> k \<le> i \<and> i < k + length (a # tab) \<and>
      (al_retired ((a # tab) ! (i - k)) \<or> \<not> al_active ((a # tab) ! (i - k)) \<and> al_acked ((a # tab) ! (i - k)))"
    if "(\<exists>t. w = Some (i, t)) \<or> k + 1 \<le> i \<and> i < k + 1 + length tab \<and>
      (al_retired (tab ! (i - (k + 1))) \<or> \<not> al_active (tab ! (i - (k + 1))) \<and> al_acked (tab ! (i - (k + 1))))" for w
  proof (cases "k < i")
    case True
    then have "i - k = Suc (i - (k + 1))" by simp
    then have "(a # tab) ! (i - k) = tab ! (i - (k + 1))" by simp
    with that True show ?thesis by auto
  qed (use that in auto)
  consider "al_retired a" "i = k" | "\<not> al_retired a" "al_active a \<or> \<not> al_acked a" "evict (k + 1) tab oldest = Some i"
    | "\<not> al_retired a" "\<not> al_active a" "al_acked a" "evict (k + 1) tab o' = Some i"
    using Cons.prems(1) by (auto simp: o'_def split: if_splits)
  then show ?case
  proof cases
    case 2
    show ?thesis
      by (rule later, rule Cons.IH [OF 2(3)]) (use Cons.prems(2) in fastforce)
  next
    case 3
    have "(\<exists>t. o' = Some (i, t)) \<or> k \<le> i \<and> i < k + length (a # tab) \<and>
        (al_retired ((a # tab) ! (i - k)) \<or> \<not> al_active ((a # tab) ! (i - k)) \<and> al_acked ((a # tab) ! (i - k)))"
      by (rule later, rule Cons.IH [OF 3(4)]) (use Cons.prems(2) o' in fastforce)
    with o' 3(2,3) show ?thesis by auto
  qed simp
qed (auto split: option.splits)

lemma slot_for_free:
  assumes "slot_for key tab = Some i" "al_used (tab ! i)" "al_key (tab ! i) \<noteq> key"
  shows "i < length tab \<and> (al_retired (tab ! i) \<or> \<not> al_active (tab ! i) \<and> al_acked (tab ! i))"
proof -
  have "alarm_find key tab = None"
  proof (cases "alarm_find key tab")
    case (Some k)
    then have "k = i" using assms(1) by (simp add: slot_for_def)
    with Some assms show ?thesis by (auto simp: alarm_find_def find_index_Some)
  qed simp
  moreover have "find_index (\<lambda>a. \<not> al_used a) tab = None"
  proof (cases "find_index (\<lambda>a. \<not> al_used a) tab")
    case (Some k)
    then have "k = i" using assms(1) \<open>alarm_find key tab = None\<close> by (simp add: slot_for_def)
    with Some assms show ?thesis by (auto simp: find_index_Some)
  qed simp
  ultimately have "evict 0 tab None = Some i" using assms(1) by (simp add: slot_for_def)
  from evict_free [OF this] show ?thesis by simp
qed

lemma slot_for_less: "slot_for key tab = Some i \<Longrightarrow> i < length tab"
  using evict_free [of 0 tab None i]
  by (auto simp: slot_for_def alarm_find_def find_index_Some split: option.splits)

lemma reap_nth: "i < length tab \<Longrightarrow> reap now tab ! i = tab ! i \<or> al_retired (tab ! i) \<and> reap now tab ! i = zero_alarm"
  by (auto simp: reap_def)

lemma length_reap [simp]: "length (reap now tab) = length tab"
  by (simp add: reap_def)

text \<open>Nothing that somebody still has to see is pushed out: raising an alarm leaves every other listed
  entry that stands or is not acknowledged exactly as it was, however full the table is.\<close>

theorem raise_keeps_unseen:
  assumes "i < length (at_tab s)" "listed (at_tab s ! i)" "al_active (at_tab s ! i) \<or> \<not> al_acked (at_tab s ! i)"
    "al_key (at_tab s ! i) \<noteq> key"
  shows "at_tab (fst (pf_alarms_raise now key code name crit sinks title body s)) ! i = at_tab s ! i"
proof -
  have keep: "reap now (at_tab s) ! i = at_tab s ! i" using assms(1,2) reap_nth by (auto simp: listed_def)
  have "j \<noteq> i" if "slot_for key (reap now (at_tab s)) = Some j" for j
    using slot_for_free [OF that] assms keep by (auto simp: listed_def)
  then show ?thesis
    using keep by (auto simp: pf_alarms_raise_def Let_def split: option.splits prod.splits)
qed

section \<open>Chattering\<close>

datatype alarm_op = OpRaise int "32 word" string string | OpClear | OpRetire | OpAck

fun alarm_exec :: "string \<Rightarrow> fl \<Rightarrow> alarm_op \<Rightarrow> alarms \<Rightarrow> alarms \<times> bool" where
  "alarm_exec key now (OpRaise crit sinks title body) s = pf_alarms_raise now key key None crit sinks title body s"
| "alarm_exec key now OpClear s = (pf_alarms_clear now key s, False)"
| "alarm_exec key now OpRetire s = (pf_alarms_retire now key s, False)"
| "alarm_exec key now OpAck s = (fst (pf_alarms_ack now key s), False)"

fun alarm_run :: "string \<Rightarrow> (fl \<times> alarm_op) list \<Rightarrow> alarms \<Rightarrow> alarms \<times> bool list" where
  "alarm_run key [] s = (s, [])"
| "alarm_run key ((now, x) # xs) s =
     (case alarm_exec key now x s of (s, b) \<Rightarrow> (case alarm_run key xs s of (s, bs) \<Rightarrow> (s, b # bs)))"

text \<open>The same on the entry alone.\<close>

fun entry_op :: "string \<Rightarrow> fl \<Rightarrow> alarm_op \<Rightarrow> alarm \<Rightarrow> alarm \<times> bool" where
  "entry_op key now (OpRaise crit sinks title body) a = raise_entry now key key None crit sinks title body a"
| "entry_op key now OpClear a = (if al_active a then clear_entry now a else a, False)"
| "entry_op key now OpRetire a = (if \<not> al_retired a then retire_entry now a else a, False)"
| "entry_op key now OpAck a = (ack_entry now a, False)"

text \<open>What is known of an entry that came first to \<open>t0\<close> and was raised \<open>n\<close> times within the window: while it
  has not been shelved the count is below the limit; once it has, it is silent past the window.\<close>

definition chatter_inv :: "string \<Rightarrow> real \<Rightarrow> nat \<Rightarrow> alarm \<Rightarrow> bool" where
  "chatter_inv key t0 n a \<longleftrightarrow> al_used a \<and> al_key a = key \<and> al_window_start a = Fin t0 \<and>
     (al_retired a \<longrightarrow> (\<exists>c. al_cleared_ts a = Fin c \<and> t0 \<le> c)) \<and>
     (al_cleared_ts a = 0 \<or> (\<exists>c. al_cleared_ts a = Fin c \<and> t0 \<le> c)) \<and>
     (al_shelved_until a = 0 \<and> al_window_raises a = of_nat n \<and> n < 5 \<or>
      (\<exists>u. al_shelved_until a = Fin u \<and> t0 + 1800 \<le> u) \<and> n = 4)"

lemma chatter_entry:
  assumes "chatter_inv key t0 n a" "0 < t0" "t0 \<le> t" "t \<le> t0 + 600"
  shows "\<exists>m. chatter_inv key t0 m (fst (entry_op key (Fin t) x a)) \<and> m = n + (if snd (entry_op key (Fin t) x a) then 1 else 0)"
proof (cases x)
  case (OpRaise crit sinks title body)
  have n5: "(5::32 word) \<le> of_nat n + 1 \<longleftrightarrow> n = 4" if "n < 5"
  proof -
    have "n = 0 \<or> n = 1 \<or> n = 2 \<or> n = 3 \<or> n = 4" using that by linarith
    then show ?thesis by (auto simp: word_le_nat_alt)
  qed
  have shelf: "\<not> t0 + 1800 \<le> 0" "\<And>u. t0 + 1800 \<le> u \<Longrightarrow> t < u \<and> \<not> u < t" using assms by auto
  show ?thesis
  proof (cases "al_active a")
    case True
    then show ?thesis using assms OpRaise
      by (auto simp: raise_entry_def activate_def chatter_inv_def Let_def cut_def)
  next
    case False
    then show ?thesis using assms OpRaise n5 shelf
      by (auto simp: raise_entry_def activate_def chatter_inv_def Let_def CHATTER_WINDOW_S_def CHATTER_RAISES_def CHATTER_SHELF_S_def)
  qed
qed (use assms in \<open>auto simp: chatter_inv_def clear_entry_def retire_entry_def ack_entry_def Let_def\<close>)

lemma find_update:
  assumes "alarm_find key tab = Some i" "al_used a" "al_key a = key"
  shows "alarm_find key (tab[i := a]) = Some i"
  using assms by (auto simp: alarm_find_def find_index_Some nth_list_update)

lemma find_reap:
  assumes "alarm_find key tab = Some i" "reap now tab ! i = tab ! i"
  shows "alarm_find key (reap now tab) = Some i"
proof -
  have i: "i < length tab" "al_used (tab ! i)" "al_key (tab ! i) = key" "\<forall>j<i. \<not> (al_used (tab ! j) \<and> al_key (tab ! j) = key)"
    using assms(1) by (simp_all add: alarm_find_def find_index_Some)
  have "\<not> (al_used (reap now tab ! j) \<and> al_key (reap now tab ! j) = key)" if "j < i" for j
    using reap_nth [of j tab now] i(1,4) that by (auto simp: zero_alarm_def)
  with i assms(2) show ?thesis by (simp add: alarm_find_def find_index_Some)
qed

lemma chatter_table:
  fixes x :: alarm_op
  assumes "alarm_find key (at_tab s) = Some i" "chatter_inv key t0 n (at_tab s ! i)" "0 < t0" "t0 \<le> t" "t \<le> t0 + 600"
  defines "e \<equiv> entry_op key (Fin t) x (at_tab s ! i)"
  shows "alarm_find key (at_tab (fst (alarm_exec key (Fin t) x s))) = Some i \<and>
         at_tab (fst (alarm_exec key (Fin t) x s)) ! i = fst e \<and> snd (alarm_exec key (Fin t) x s) = snd e"
proof -
  have i: "i < length (at_tab s)" using assms(1) by (simp add: alarm_find_def find_index_Some)
  obtain m where "chatter_inv key t0 m (fst e)" using chatter_entry [OF assms(2-5)] unfolding e_def by blast
  then have e: "al_used (fst e)" "al_key (fst e) = key" by (simp_all add: chatter_inv_def)
  show ?thesis
  proof (cases x)
    case (OpRaise crit sinks title body)
    have keep: "reap (Fin t) (at_tab s) ! i = at_tab s ! i"
      using assms(2-5) i by (auto simp: reap_def chatter_inv_def CHATTER_WINDOW_S_def)
    have "slot_for key (reap (Fin t) (at_tab s)) = Some i"
      using find_reap [OF assms(1) keep] by (simp add: slot_for_def)
    then show ?thesis
      using OpRaise keep i find_update [OF find_reap [OF assms(1) keep] e]
      by (simp add: pf_alarms_raise_def e_def Let_def case_prod_unfold)
  qed (use assms(1) i find_update [OF assms(1) e] in
      \<open>auto simp: pf_alarms_clear_def pf_alarms_retire_def pf_alarms_ack_def e_def\<close>)
qed

lemma chatter_run:
  assumes "alarm_find key (at_tab s) = Some i" "chatter_inv key t0 n (at_tab s ! i)" "0 < t0"
    "\<forall>(t, x) \<in> set xs. \<exists>r. t = Fin r \<and> t0 \<le> r \<and> r \<le> t0 + 600"
  shows "n + length (filter (\<lambda>b. b) (snd (alarm_run key xs s))) \<le> 4"
  using assms
proof (induction xs arbitrary: s n)
  case Nil
  then show ?case by (auto simp: chatter_inv_def)
next
  case (Cons y xs)
  obtain t x where y: "y = (Fin t, x)" "t0 \<le> t" "t \<le> t0 + 600" using Cons.prems(4) by (cases y) auto
  define s' where "s' = fst (alarm_exec key (Fin t) x s)"
  define b where "b = snd (alarm_exec key (Fin t) x s)"
  obtain m where m: "chatter_inv key t0 m (fst (entry_op key (Fin t) x (at_tab s ! i)))"
      "m = n + (if snd (entry_op key (Fin t) x (at_tab s ! i)) then 1 else 0)"
    using chatter_entry [OF Cons.prems(2,3) y(2,3)] by blast
  note tab = chatter_table [OF Cons.prems(1-3) y(2,3), of x]
  have "m + length (filter (\<lambda>b. b) (snd (alarm_run key xs s'))) \<le> 4"
    by (rule Cons.IH) (use tab m(1) Cons.prems in \<open>auto simp: s'_def\<close>)
  moreover have "snd (alarm_run key (y # xs) s) = b # snd (alarm_run key xs s')"
    by (simp add: y(1) s'_def b_def case_prod_unfold)
  moreover have "m = n + (if b then 1 else 0)" using tab m(2) by (simp add: b_def)
  ultimately show ?case by (cases b) auto
qed

lemma cut_fits: "length s < n \<Longrightarrow> cut n s = s"
  by (simp add: cut_def pf_strlcpy_whole)

text \<open>A condition that flaps is not news five times: within ten minutes of its first raise, an alarm that
  comes and goes, is cleared, retired or acknowledged in any order is announced at most four times.\<close>

theorem chatter_is_silenced:
  assumes "slot_for key (reap (Fin t0) (at_tab s)) = Some i" "\<not> al_used (reap (Fin t0) (at_tab s) ! i)"
    "length key < 96" "0 < t0" "\<forall>(t, x) \<in> set xs. \<exists>r. t = Fin r \<and> t0 \<le> r \<and> r \<le> t0 + 600"
  shows "length (filter (\<lambda>b. b) (snd (alarm_run key ((Fin t0, OpRaise crit sinks title body) # xs) s))) \<le> 4"
proof -
  let ?tab = "reap (Fin t0) (at_tab s)"
  define a where "a = fst (raise_entry (Fin t0) key key None crit sinks title body (?tab ! i))"
  define s' where "s' = fst (alarm_exec key (Fin t0) (OpRaise crit sinks title body) s)"
  have i: "i < length ?tab" using slot_for_less [OF assms(1)] .
  have none: "\<forall>b \<in> set ?tab. \<not> (al_used b \<and> al_key b = key)"
  proof (cases "alarm_find key ?tab")
    case None
    then show ?thesis by (simp add: alarm_find_def find_index_None)
  next
    case (Some k)
    then have "k = i" using assms(1) by (simp add: slot_for_def)
    with Some assms(2) show ?thesis by (simp add: alarm_find_def find_index_Some)
  qed
  have a: "chatter_inv key t0 1 a"
    using assms(2-4) unfolding a_def
    by (simp add: raise_entry_def activate_def chatter_inv_def Let_def zero_alarm_def cut_fits CHATTER_WINDOW_S_def CHATTER_RAISES_def
        word_le_nat_alt)
  then have "al_used a" "al_key a = key" by (simp_all add: chatter_inv_def)
  then have "alarm_find key (?tab[i := a]) = Some i"
    using i none by (auto simp: alarm_find_def find_index_Some nth_list_update)
  moreover have tab': "at_tab s' = ?tab[i := a]"
    using assms(1) by (simp add: s'_def pf_alarms_raise_def a_def Let_def case_prod_unfold)
  ultimately have "1 + length (filter (\<lambda>b. b) (snd (alarm_run key xs s'))) \<le> 4"
    by (intro chatter_run [OF _ _ assms(4,5)]) (use a i in auto)
  then show ?thesis by (simp add: s'_def case_prod_unfold)
qed

definition alarms_example :: alarms where
  "alarms_example = pf_alarms_init \<lparr>at_tab = [], at_gen = 0\<rparr>"

theorem chatter_is_silenced_witness:
  "length (filter (\<lambda>b. b) (snd (alarm_run ''RULE_hopper:hopper'' ((Fin 100, OpRaise 2 1 ''Hopper'' ''Low'') #
     concat (replicate 6 [(Fin 130, OpClear), (Fin 140, OpRaise 2 1 ''Hopper'' ''Low'')])) alarms_example))) \<le> 4"
proof -
  let ?tab = "replicate PF_ALARMS_MAX zero_alarm"
  have "slot_for ''RULE_hopper:hopper'' (reap (Fin 100) (at_tab alarms_example)) = Some 0"
    by (simp add: alarms_example_def pf_alarms_init_def reap_def slot_for_def alarm_find_def PF_ALARMS_MAX_def zero_alarm_def
        numeral_eq_Suc)
  then show ?thesis
    by (rule chatter_is_silenced)
      (auto simp: alarms_example_def pf_alarms_init_def reap_def PF_ALARMS_MAX_def zero_alarm_def numeral_eq_Suc)
qed

theorem raise_keeps_unseen_witness:
  "at_tab (fst (pf_alarms_raise 200 ''b'' ''B'' None 2 1 ''t'' ''u''
      (fst (pf_alarms_raise 100 ''a'' ''A'' None 2 1 ''t'' ''u'' alarms_example)))) ! 0 =
   at_tab (fst (pf_alarms_raise 100 ''a'' ''A'' None 2 1 ''t'' ''u'' alarms_example)) ! 0"
  by (rule raise_keeps_unseen) code_simp+

section \<open>A full table\<close>

text \<open>When every entry is in use, a new alarm is announced under the identity of the entry it takes over:
  the old key stays, the new one is not found, and the alarm cannot be cleared, retired or acknowledged
  under the key it was raised with.\<close>

theorem full_table_keeps_old_key:
  assumes "\<forall>a \<in> set (reap now (at_tab s)). al_used a \<and> al_key a \<noteq> key"
    "pf_alarms_raise now key code name crit sinks title body s = (s', True)"
  shows "pf_alarms_clear t key s' = s' \<and> pf_alarms_retire t key s' = s' \<and> pf_alarms_ack t key s' = (s', -1)"
proof -
  let ?tab = "reap now (at_tab s)"
  obtain i where i: "slot_for key ?tab = Some i" "s' = s\<lparr>at_tab := ?tab[i := fst (raise_entry now key code name crit sinks title body (?tab ! i))],
      at_gen := at_gen s + 1\<rparr>"
  proof (cases "slot_for key ?tab")
    case (Some i)
    with assms(2) have "s' = s\<lparr>at_tab := ?tab[i := fst (raise_entry now key code name crit sinks title body (?tab ! i))],
      at_gen := at_gen s + 1\<rparr>" by (simp add: pf_alarms_raise_def Let_def case_prod_unfold)
    with Some that show ?thesis by blast
  qed (use assms(2) in \<open>simp add: pf_alarms_raise_def\<close>)
  have "al_used (?tab ! i)" "al_key (?tab ! i) \<noteq> key" using assms(1) nth_mem [OF slot_for_less [OF i(1)]] by blast+
  then have "al_key (fst (raise_entry now key code name crit sinks title body (?tab ! i))) \<noteq> key"
    by (simp add: raise_entry_def Let_def)
  with assms(1) have "\<forall>a \<in> set (at_tab s'). al_key a \<noteq> key"
    using i(2) by (auto dest!: set_update_subset_insert [THEN subsetD])
  then have "alarm_find key (at_tab s') = None"
    by (auto simp: alarm_find_def find_index_None)
  then show ?thesis by (simp add: pf_alarms_clear_def pf_alarms_retire_def pf_alarms_ack_def)
qed

definition alarms_full :: alarms where
  "alarms_full = \<lparr>at_tab = replicate 64 (zero_alarm\<lparr>al_used := True, al_key := ''old'', al_acked := True, al_retired := True,
     al_cleared_ts := 50\<rparr>), at_gen = 0\<rparr>"

theorem full_table_keeps_old_key_witness:
  "snd (pf_alarms_ack 120 ''new'' (fst (pf_alarms_raise 100 ''new'' ''c'' None 3 1 ''Overheat'' ''b'' alarms_full))) = -1"
proof -
  have r: "reap 100 (at_tab alarms_full) = at_tab alarms_full"
    by (simp add: alarms_full_def reap_def CHATTER_WINDOW_S_def)
  have rep: "replicate 64 x = x # replicate 63 x" for x :: alarm
    using replicate_Suc [of 63 x] by simp
  have "evict 0 (at_tab alarms_full) None = Some 0"
    by (simp add: alarms_full_def rep)
  then have "slot_for ''new'' (at_tab alarms_full) = Some 0"
    unfolding slot_for_def alarm_find_def by (simp add: alarms_full_def find_index_None [THEN iffD2])
  moreover have "snd (raise_entry 100 ''new'' ''c'' None 3 1 ''Overheat'' ''b'' (at_tab alarms_full ! 0)) = True"
    by (simp add: alarms_full_def raise_entry_def activate_def zero_alarm_def Let_def CHATTER_RAISES_def CHATTER_WINDOW_S_def word_le_nat_alt)
  ultimately have "snd (pf_alarms_raise 100 ''new'' ''c'' None 3 1 ''Overheat'' ''b'' alarms_full) = True"
    using r by (simp add: pf_alarms_raise_def Let_def case_prod_unfold)
  then obtain s' where s': "pf_alarms_raise 100 ''new'' ''c'' None 3 1 ''Overheat'' ''b'' alarms_full = (s', True)"
    by (metis prod.collapse)
  have "\<forall>a \<in> set (reap 100 (at_tab alarms_full)). al_used a \<and> al_key a \<noteq> ''new''"
    unfolding r by (simp add: alarms_full_def)
  from full_table_keeps_old_key [OF this s', of 120] s' show ?thesis by simp
qed

end
