(* ===== verification/Rules.thy ===== *)
theory Rules
  imports Alarms Settings
begin

text \<open>
  \<open>src/features/rules.c\<close>: the conditions a notification rule or a recipe step is written in, their
  evaluation against the status, and the rules engine that raises and clears alarms with them.
\<close>

section \<open>Values and entities\<close>

datatype val = VNone | VNum fl | VBool bool | VStr string

definition val_num :: "val \<Rightarrow> fl" where
  "val_num v = (case v of VNum n \<Rightarrow> n | VBool b \<Rightarrow> (if b then 1 else 0) | _ \<Rightarrow> 0)"

definition val_b :: "val \<Rightarrow> bool" where
  "val_b v = (case v of VBool b \<Rightarrow> b | _ \<Rightarrow> False)"

record inst =
  in_domain :: string
  in_name :: string
  in_label :: string
  in_obj :: "json option"

definition jget :: "json option \<Rightarrow> string \<Rightarrow> json option" where
  "jget r k = (case r of Some j \<Rightarrow> j_get k j | None \<Rightarrow> None)"

definition is_true :: "json option \<Rightarrow> bool" where "is_true v \<longleftrightarrow> v = Some (JBool True)"

definition num_val :: "json option \<Rightarrow> val" where
  "num_val v = (case v of Some (JNum n) \<Rightarrow> VNum n | _ \<Rightarrow> VNone)"

text \<open>Where in the status a trait is found.\<close>

definition trait_map :: "(string \<times> string \<times> string) list" where
  "trait_map =
     [(''grill'', ''mode'', ''mode''), (''grill'', ''setpoint'', ''setpoint''), (''grill'', ''error'', ''safety.error_code''),
      (''grill'', ''cook_elapsed'', ''cook_elapsed''), (''grill'', ''mode_remaining'', ''timers.mode_remaining''),
      (''grill'', ''lid_open'', ''lid_open''), (''grill'', ''hopper'', ''hopper_pct''), (''grill'', ''aiming_s'', ''aiming_s''),
      (''grill'', ''heating'', ''heating.active''), (''grill'', ''heating_to'', ''heating.text''),
      (''hopper'', ''level'', ''hopper_pct''),
      (''controller'', ''duty'', ''cycle.u_applied''), (''controller'', ''feedforward'', ''cycle.u_ff''),
      (''controller'', ''error'', ''controller.error''),
      (''weather'', ''temp'', ''weather.temp''), (''weather'', ''wind'', ''weather.wind_kmh''),
      (''weather'', ''humidity'', ''weather.humidity''),
      (''system'', ''wifi_signal'', ''net.signal''), (''system'', ''tailscale_online'', ''net.tailscale.online''),
      (''system'', ''update_available'', ''update.available''), (''system'', ''update_version'', ''update.latest''),
      (''system'', ''system_updates'', ''update.system''), (''system'', ''backup_done'', ''backup.done''),
      (''system'', ''backup_failed'', ''backup.failed''), (''system'', ''restarted'', ''restarted.active''),
      (''system'', ''restart_reason'', ''restarted.reason''), (''system'', ''restart_resuming'', ''restarted.resuming''),
      (''timer'', ''remaining'', ''timer.remaining''), (''timer'', ''running'', ''timer.running''),
      (''step'', ''elapsed'', ''step.elapsed''), (''step'', ''food_max'', ''step.food_max''),
      (''step'', ''food_min'', ''step.food_min''), (''step'', ''food_rested'', ''step.food_rested''),
      (''step'', ''food_avg'', ''step.food_avg''), (''step'', ''food_battery'', ''step.food_battery''),
      (''step'', ''food_eta'', ''step.food_eta''), (''step'', ''prompt'', ''step.prompt''), (''step'', ''lid'', ''step.lid'')]"

definition probe_trait :: "json \<Rightarrow> string \<Rightarrow> val" where
  "probe_trait o1 trait =
     (let g = (\<lambda>k. j_get k o1)
      in if trait = ''target'' then (case g ''target'' of Some (JNum n) \<Rightarrow> if 0 < n then VNum n else VNone | _ \<Rightarrow> VNone)
         else if trait = ''next_step'' then (case g ''next_step'' of Some (JStr s) \<Rightarrow> VStr s | _ \<Rightarrow> VNone)
         else if trait = ''eta_step'' then (case g ''eta_step_s'' of Some (JNum n) \<Rightarrow> if 0 \<le> n then VNum n else VNone | _ \<Rightarrow> VNone)
         else if trait = ''eta'' then num_val (g ''eta_s'')
         else if trait \<in> {''temp'', ''battery'', ''signal'', ''rssi'', ''limit_high'', ''limit_low'', ''ambient''} then num_val (g trait)
         else if trait = ''over''
         then (case (g ''temp'', g ''target'') of
                 (Some (JNum t), Some (JNum tg)) \<Rightarrow> if tg \<le> 0 then VNone else VNum (t - tg)
               | _ \<Rightarrow> VNone)
         else if trait = ''valid'' \<or> trait = ''connected'' then VBool (is_true (g ''valid''))
         else if trait \<in> {''wireless'', ''in_use'', ''enabled''} then VBool (is_true (g trait))
         else if trait = ''name'' \<or> trait = ''role'' then VStr (pf_json_str (Some o1) trait '''')
         else VNone)"

definition is_primary :: "json \<Rightarrow> bool" where
  "is_primary p \<longleftrightarrow> pf_json_str (Some p) ''role'' '''' = ''Primary''"

definition grill_temp :: "json \<Rightarrow> bool \<Rightarrow> val" where
  "grill_temp status over =
     (let sp = pf_json_num (Some status) ''setpoint'' 0
      in if over \<and> (sp \<le> 0 \<or> pf_json_bool (Some status) ''autotune.active'' False) then VNone
         else case List.find is_primary (j_children (jget (Some status) ''probes'')) of
             Some p \<Rightarrow> (case j_get ''temp'' p of Some (JNum t) \<Rightarrow> VNum (if over then t - sp else t) | _ \<Rightarrow> VNone)
           | None \<Rightarrow> VNone)"

definition mapped_trait :: "json \<Rightarrow> string \<Rightarrow> string \<Rightarrow> val" where
  "mapped_trait status domain trait =
     (case List.find (\<lambda>(d, t, _). d = domain \<and> t = trait) trait_map of
        Some (_, _, path) \<Rightarrow>
          (case pf_json_path (Some status) path of
             Some (JNum n) \<Rightarrow> VNum n | Some (JBool b) \<Rightarrow> VBool b | Some (JStr s) \<Rightarrow> VStr s | _ \<Rightarrow> VNone)
      | None \<Rightarrow> VNone)"

definition trait_of :: "json \<Rightarrow> inst option \<Rightarrow> string \<Rightarrow> string \<Rightarrow> val" where
  "trait_of status i entity trait =
     (let other = (entity \<noteq> '''' \<and> entity \<noteq> ''this'');
          o1 = (if other then None else (case i of Some i \<Rightarrow> in_obj i | None \<Rightarrow> None));
          domain = (if other then entity else (case i of Some i \<Rightarrow> in_domain i | None \<Rightarrow> ''grill''))
      in if domain = ''probe'' \<and> o1 \<noteq> None then probe_trait (the o1) trait
         else if domain = ''output''
         then let key = ''outputs.'' @ take 24 (case i of Some i \<Rightarrow> in_label i | None \<Rightarrow> ''auger'')
              in if trait = ''state'' then VBool (pf_json_bool (Some status) key False)
                 else if trait = ''percent'' then VNum (pf_json_num (Some status) ''outputs.fan_pct'' 0)
                 else VNone
         else if domain = ''grill'' \<and> (trait = ''temp'' \<or> trait = ''over'') then grill_temp status (trait = ''over'')
         else mapped_trait status domain trait)"

section \<open>Comparisons\<close>

definition resolve_operand :: "json \<Rightarrow> inst option \<Rightarrow> json option \<Rightarrow> val" where
  "resolve_operand status i v =
     (case v of
        Some (JNum n) \<Rightarrow> VNum n
      | Some (JBool b) \<Rightarrow> VBool b
      | Some (JStr s) \<Rightarrow> VStr s
      | Some (JObj ms) \<Rightarrow>
          (case j_get ''trait'' (JObj ms) of
             Some (JStr t) \<Rightarrow>
               (case (trait_of status i (pf_json_str v ''entity'' ''this'') t, j_get ''offset'' (JObj ms)) of
                  (VNum a, Some (JNum off)) \<Rightarrow> VNum (a + off)
                | (a, _) \<Rightarrow> a)
           | _ \<Rightarrow> VNone)
      | _ \<Rightarrow> VNone)"

fun contains_ci :: "string \<Rightarrow> string \<Rightarrow> bool" where
  "contains_ci s sub = (has_prefix_ci sub s \<or> (case s of [] \<Rightarrow> False | _ # r \<Rightarrow> contains_ci r sub))"

declare contains_ci.simps [simp del]

definition compare_str :: "string \<Rightarrow> string \<Rightarrow> string \<Rightarrow> bool" where
  "compare_str op as1 bs =
     (if op = ''is'' \<or> op = ''=='' then strcase_eq as1 bs
      else if op = ''is_not'' \<or> op = ''!='' then \<not> strcase_eq as1 bs
      else if op = ''empty'' then as1 = []
      else if op = ''not_empty'' then as1 \<noteq> []
      else op = ''contains'' \<and> contains_ci as1 bs)"

definition compare_bool :: "string \<Rightarrow> bool \<Rightarrow> bool \<Rightarrow> bool" where
  "compare_bool op av bv =
     (if op = ''is_on'' \<or> op = ''on'' then av
      else if op = ''is_off'' \<or> op = ''off'' then \<not> av
      else if op = ''is'' \<or> op = ''=='' then av = bv
      else (op = ''is_not'' \<or> op = ''!='') \<and> av \<noteq> bv)"

definition compare_num :: "string \<Rightarrow> fl \<Rightarrow> fl \<Rightarrow> val \<Rightarrow> fl \<Rightarrow> bool" where
  "compare_num op x y b2 db =
     (if op = ''>'' then y - db < x
      else if op = ''>='' then y - db \<le> x
      else if op = ''<'' then x < y + db
      else if op = ''<='' then x \<le> y + db
      else if op = ''=='' \<or> op = ''is'' then \<bar>x - y\<bar> < (if 0 < db then db else 1 / 10 ^ 9)
      else if op = ''!='' \<or> op = ''is_not'' then 1 / 10 ^ 9 \<le> \<bar>x - y\<bar>
      else if op = ''between'' then b2 \<noteq> VNone \<and> y - db \<le> x \<and> x \<le> val_num b2 + db
      else op = ''within'' \<and> b2 \<noteq> VNone \<and> \<bar>x - y\<bar> \<le> val_num b2 + db)"

definition compare :: "val \<Rightarrow> string \<Rightarrow> val \<Rightarrow> val \<Rightarrow> fl \<Rightarrow> bool" where
  "compare a op b b2 db =
     (if op = ''unavailable'' then a = VNone
      else if op = ''available'' then a \<noteq> VNone
      else if a = VNone then False
      else case (a, b) of
          (VStr s, VStr t) \<Rightarrow> compare_str op s t
        | (VStr s, _) \<Rightarrow> compare_str op s ''''
        | (_, VStr t) \<Rightarrow> compare_str op '''' t
        | (VBool p, _) \<Rightarrow> compare_bool op p (if b = VNone then True else val_b b)
        | (_, VBool q) \<Rightarrow> compare_bool op (val_b a) q
        | (_, VNone) \<Rightarrow> False
        | _ \<Rightarrow> compare_num op (val_num a) (val_num b) b2 db)"

section \<open>Condition trees\<close>

text \<open>The clocks of a tree: for a node, by the hash of its place, when it first became true.\<close>

type_synonym clocks = "(32 word \<times> fl) list"

definition PF_RULES_NODE_TIMERS :: nat where "PF_RULES_NODE_TIMERS = 12"

definition zero_clocks :: clocks where "zero_clocks = replicate PF_RULES_NODE_TIMERS (0, 0)"

record evalctx =
  cx_status :: json
  cx_in :: "inst option"
  cx_db :: fl
  cx_now :: fl

text \<open>The clocks, or none while previewing, and the value that matched first.\<close>

type_synonym evalst = "clocks option \<times> val"

definition timer_slot :: "32 word \<Rightarrow> clocks \<Rightarrow> nat option" where
  "timer_slot path ts =
     (case find_index (\<lambda>(p, _). p = path) ts of Some i \<Rightarrow> Some i | None \<Rightarrow> find_index (\<lambda>(p, _). p = 0) ts)"

definition held_long_enough :: "evalctx \<Rightarrow> 32 word \<Rightarrow> json \<Rightarrow> bool \<Rightarrow> evalst \<Rightarrow> bool \<times> evalst" where
  "held_long_enough cx path node now_true st =
     (let need = pf_json_num (Some node) ''for_s'' 0
      in case st of
           (None, m) \<Rightarrow> (now_true, st)
         | (Some ts, m) \<Rightarrow>
             if need \<le> 0 then (now_true, st)
             else case timer_slot path ts of
                 None \<Rightarrow> (False, st)
               | Some i \<Rightarrow>
                   if \<not> now_true then (False, (Some (ts[i := (path, 0)]), m))
                   else let since = (if snd (ts ! i) = 0 then cx_now cx else snd (ts ! i))
                        in (need \<le> cx_now cx - since, (Some (ts[i := (path, since)]), m)))"

definition note_match :: "val \<Rightarrow> evalst \<Rightarrow> evalst" where
  "note_match a st = (fst st, if snd st = VNone then a else snd st)"

definition eval_leaf :: "evalctx \<Rightarrow> json \<Rightarrow> evalst \<Rightarrow> bool \<times> evalst" where
  "eval_leaf cx node st =
     (case j_get ''trait'' node of
        Some (JStr tr) \<Rightarrow>
          (let status = cx_status cx; i = cx_in cx;
               a = trait_of status i (pf_json_str (Some node) ''entity'' ''this'') tr;
               op = pf_json_str (Some node) ''op'' ''=='';
               operand = (\<lambda>k. resolve_operand status i (j_get k node));
               r = (if op = ''is_one_of'' \<or> op = ''is_none_of''
                    then a \<noteq> VNone \<and>
                         (let found = list_ex (\<lambda>it. compare a ''is'' (resolve_operand status i (Some it)) VNone 0)
                                        (j_children (j_get ''value'' node))
                          in if op = ''is_one_of'' then found else \<not> found)
                    else compare a op (operand ''value'') (operand ''value2'') (cx_db cx))
           in (r, if r then note_match a st else st))
      | _ \<Rightarrow> (True, st))"

definition group_result :: "string \<Rightarrow> bool list \<Rightarrow> bool" where
  "group_result gop rs =
     (let result = (if strcase_eq gop ''any'' then list_ex (\<lambda>r. r) rs else list_all (\<lambda>r. r) rs)
      in if strcase_eq gop ''not'' then \<not> result else result)"

lemma j_find_size: "j_find p ms = Some v \<Longrightarrow> size v < Suc (size_list (size_prod (\<lambda>_. 0) size) ms)"
  by (induction ms) (auto split: if_splits)

lemma j_get_size: "j_get k j = Some v \<Longrightarrow> size v < size j"
  by (cases j) (auto dest!: j_find_size)

text \<open>One node: what it says now, then for how long.  A group asks all of its children every time.\<close>

function eval_path :: "evalctx \<Rightarrow> json \<Rightarrow> 32 word \<Rightarrow> evalst \<Rightarrow> bool \<times> evalst"
  and eval_kids :: "evalctx \<Rightarrow> json list \<Rightarrow> 32 word \<Rightarrow> 32 word \<Rightarrow> evalst \<Rightarrow> bool list \<times> evalst" where
  "eval_path cx node path st =
     (case (case j_get ''conditions'' node of
              Some (JArr kids) \<Rightarrow>
                (if kids = [] then (False, st)
                 else case eval_kids cx kids path 1 st of
                     (rs, st) \<Rightarrow> (group_result (pf_json_str (Some node) ''op'' ''all'') rs, st))
            | _ \<Rightarrow> eval_leaf cx node st) of
        (r, st) \<Rightarrow> held_long_enough cx path node r st)"
| "eval_kids cx [] path i st = ([], st)"
| "eval_kids cx (k # ks) path i st =
     (case eval_path cx k (path * 31 + i) st of
        (r, st) \<Rightarrow> (case eval_kids cx ks path (i + 1) st of (rs, st) \<Rightarrow> (r # rs, st)))"
  by pat_completeness auto

termination
  by (relation "measure (\<lambda>x. case x of Inl (_, node, _) \<Rightarrow> size node | Inr (_, ks, _) \<Rightarrow> size_list size ks)")
    (auto dest: j_get_size)

definition eval_node_at :: "json \<Rightarrow> inst option \<Rightarrow> json \<Rightarrow> fl \<Rightarrow> clocks option \<Rightarrow> fl \<Rightarrow> bool \<times> clocks option \<times> val" where
  "eval_node_at status i node db ts now =
     eval_path \<lparr>cx_status = status, cx_in = i, cx_db = db, cx_now = now\<rparr> node 1 (ts, VNone)"

definition eval_node :: "json \<Rightarrow> inst option \<Rightarrow> json \<Rightarrow> fl \<Rightarrow> bool \<times> val" where
  "eval_node status i node db = (case eval_node_at status i node db None 0 of (r, _, m) \<Rightarrow> (r, m))"

definition pf_rules_eval_tree :: "json option \<Rightarrow> json option \<Rightarrow> string \<Rightarrow> clocks option \<Rightarrow> fl \<Rightarrow> bool \<times> clocks option" where
  "pf_rules_eval_tree node facts domain ts now =
     (case (node, facts) of
        (Some node, Some facts) \<Rightarrow>
          (case eval_node_at facts (Some \<lparr>in_domain = (if domain \<noteq> [] then domain else ''grill''), in_name = '''', in_label = '''',
                                          in_obj = None\<rparr>) node 0 ts now of
             (r, ts, _) \<Rightarrow> (r, ts))
      | _ \<Rightarrow> (False, ts))"

section \<open>Which entities a rule watches\<close>

definition MAX_INST :: nat where "MAX_INST = 12"
definition MAX_STATE :: nat where "MAX_STATE = 96"

definition str_in_array :: "json option \<Rightarrow> string \<Rightarrow> bool" where
  "str_in_array arr s = list_ex (\<lambda>it. case it of JStr t \<Rightarrow> strcase_eq t s | _ \<Rightarrow> False) (j_children arr)"

definition nonempty_arr :: "json option \<Rightarrow> bool" where
  "nonempty_arr a = (case a of Some (JArr (_ # _)) \<Rightarrow> True | _ \<Rightarrow> False)"

definition probe_inst :: "json \<Rightarrow> inst" where
  "probe_inst p =
     (let label = pf_json_str (Some p) ''label'' ''''
      in \<lparr>in_domain = ''probe'', in_name = pf_json_str (Some p) ''name'' label, in_label = label, in_obj = Some p\<rparr>)"

definition probe_selected :: "json option \<Rightarrow> json \<Rightarrow> bool" where
  "probe_selected selj p =
     (let role = pf_json_str selj ''role'' ''any''; link = pf_json_str selj ''link'' ''any'';
          inc = jget selj ''include''; exc = jget selj ''exclude'';
          wireless = is_true (j_get ''wireless'' p);
          label = in_label (probe_inst p); name = in_name (probe_inst p)
      in is_true (j_get ''enabled'' p) \<and> \<not> is_true (j_get ''companion'' p) \<and>
         (role = ''any'' \<or> strcase_eq role (pf_json_str (Some p) ''role'' '''')) \<and>
         \<not> (link = ''bluetooth'' \<and> \<not> wireless) \<and> \<not> (link = ''wired'' \<and> wireless) \<and>
         \<not> (nonempty_arr inc \<and> \<not> str_in_array inc label \<and> \<not> str_in_array inc name) \<and>
         \<not> (str_in_array exc label \<or> str_in_array exc name))"

definition rule_outputs :: "string list" where
  "rule_outputs = [''auger'', ''fan'', ''igniter'', ''power'']"

definition named_inst :: "string \<Rightarrow> string \<Rightarrow> inst" where
  "named_inst domain n = \<lparr>in_domain = domain, in_name = n, in_label = n, in_obj = None\<rparr>"

definition select_instances :: "json \<Rightarrow> json \<Rightarrow> nat \<Rightarrow> inst list" where
  "select_instances status rule mx =
     (let selj = j_get ''select'' rule; domain = pf_json_str selj ''domain'' ''grill'' in take mx
        (if domain = ''probe''
         then map probe_inst (filter (probe_selected selj) (j_children (j_get ''probes'' status)))
         else if domain = ''output''
         then (let inc = jget selj ''include''
               in map (named_inst ''output'') (filter (\<lambda>n. \<not> (nonempty_arr inc \<and> \<not> str_in_array inc n)) rule_outputs))
         else [named_inst domain domain]))"

section \<open>Message templates\<close>

definition em_dash :: string where "em_dash = [CHR 0xE2, CHR 0x80, CHR 0x94]"

definition fmt_temp_token :: "nat \<Rightarrow> fl \<Rightarrow> string \<Rightarrow> string" where
  "fmt_temp_token n v unit = sn n (fmt_f0 v @ degree @ unit)"

definition fmt_dur_token :: "nat \<Rightarrow> fl \<Rightarrow> string" where
  "fmt_dur_token n secs =
     (let m = fl_to_int (secs / 60 + Fin (1 / 2))
      in sn n (if 60 \<le> m then show_int (m div 60) @ ''h '' @ show_int (m mod 60) @ ''m''
               else show_int (if m < 1 then 1 else m) @ '' min''))"

text \<open>What a message takes from outside the status: the grill's name and the local time as HH:MM.\<close>

record token_env =
  te_grill_name :: string
  te_clock :: string

definition token_trait :: "json \<Rightarrow> inst option \<Rightarrow> string \<Rightarrow> val" where
  "token_trait status i key =
     (let tr = trait_of status i
      in if key = ''step'' then tr ''this'' ''next_step''
         else if key = ''eta_step'' then tr ''this'' ''eta_step''
         else if key = ''eta'' \<or> key = ''eta_min'' then tr ''this'' ''eta''
         else if key = ''cook_time'' then tr ''grill'' ''cook_elapsed''
         else if key = ''grill_temp'' then tr ''grill'' ''temp''
         else if key = ''setpoint'' then tr ''grill'' ''setpoint''
         else if key = ''hopper'' then tr ''hopper'' ''level''
         else if key = ''outdoor_temp'' then tr ''weather'' ''temp''
         else tr ''this'' key)"

definition show_token :: "string \<Rightarrow> string \<Rightarrow> val \<Rightarrow> string" where
  "show_token units key v =
     (case v of
        VNum n \<Rightarrow>
          if key \<in> {''eta'', ''eta_step'', ''cook_time''} then fmt_dur_token 64 n
          else if key = ''eta_min'' then sn 64 (fmt_f0 (n / 60))
          else if key \<in> {''temp'', ''target'', ''over'', ''grill_temp'', ''setpoint'', ''outdoor_temp'', ''ambient''}
          then fmt_temp_token 64 n units
          else if key = ''battery'' \<or> key = ''hopper'' then sn 64 (fmt_f0 n @ ''%'')
          else sn 64 (fmt_f0 n)
      | VBool b \<Rightarrow> if b then ''on'' else ''off''
      | VStr s \<Rightarrow> sn 64 s
      | VNone \<Rightarrow> em_dash)"

definition render_token :: "token_env \<Rightarrow> json \<Rightarrow> inst option \<Rightarrow> val \<Rightarrow> string \<Rightarrow> string" where
  "render_token te status i matched key =
     (let units = pf_json_str (Some status) ''units'' ''F'';
          obj = (case i of Some i \<Rightarrow> in_obj i | None \<Rightarrow> None)
      in if key = ''probe'' \<or> key = ''probe_name'' \<or> key = ''name'' then sn 64 (case i of Some i \<Rightarrow> in_name i | None \<Rightarrow> '''')
         else if key = ''grill'' then (let g = sn 48 (te_grill_name te) in sn 64 (if g \<noteq> [] then g else ''The grill''))
         else if key = ''mode'' then sn 64 (pf_json_str (Some status) ''mode'' '''')
         else if key = ''time'' then sn 64 (te_clock te)
         else if key = ''value'' \<and> (case matched of VNum _ \<Rightarrow> True | _ \<Rightarrow> False) then sn 64 (fmt_f0 (val_num matched))
         else if key = ''food''
         then (let m = pf_json_str obj ''meat'' ''''; d = pf_json_str obj ''done'' ''''
               in if m \<noteq> [] \<and> d \<noteq> [] then sn 64 (take 20 m @ '' '' @ mid_dot @ '' '' @ take 20 d)
                  else if m \<noteq> [] \<or> d \<noteq> [] then sn 64 (take 30 (if m \<noteq> [] then m else d)) else ''it'')
         else if key = ''rest''
         then (let f = pf_json_num obj ''finish'' 0
               in if 0 < f then sn 64 ('' '' @ mid_dot @ '' Rest to '' @ fmt_temp_token 24 f units) else [])
         else show_token units key (token_trait status i key))"

lemma length_after_token: "p \<noteq> [] \<Longrightarrow> length (dropWhile P p) - Suc 0 < length p"
proof -
  assume "p \<noteq> []"
  then have "0 < length p" by simp
  with length_dropWhile_le [of P p] show ?thesis by linarith
qed

function render_loop :: "(string \<Rightarrow> string) \<Rightarrow> nat \<Rightarrow> string \<Rightarrow> string \<Rightarrow> string" where
  "render_loop tok cap out p =
     (if p = [] \<or> cap \<le> length out + 1 then out
      else if hd p \<noteq> CHR ''{'' then render_loop tok cap (out @ [hd p]) (tl p)
      else if take 1 (tl p) = ''{'' then render_loop tok cap (out @ ''{'') (drop 2 p)
      else if CHR ''}'' \<notin> set p then render_loop tok cap (out @ [hd p]) (tl p)
      else render_loop tok cap
             (out @ take (cap - 1 - length out) (tok (take 31 (takeWhile (\<lambda>c. c \<noteq> CHR ''}'') (tl p)))))
             (tl (dropWhile (\<lambda>c. c \<noteq> CHR ''}'') p)))"
  by pat_completeness auto

termination
  by (relation "measure (\<lambda>(_, _, _, p). length p)") (auto simp: length_after_token)

declare render_loop.simps [simp del]

definition render :: "token_env \<Rightarrow> nat \<Rightarrow> string \<Rightarrow> json \<Rightarrow> inst option \<Rightarrow> val \<Rightarrow> string" where
  "render te cap tpl status i matched = render_loop (render_token te status i matched) cap [] tpl"

section \<open>The state of a rule\<close>

record rstate =
  rs_used :: bool
  rs_rule :: string
  rs_inst :: string
  rs_timers :: clocks
  rs_held_since :: fl
  rs_false_since :: fl
  rs_last_fired :: fl
  rs_armed :: bool
  rs_raised :: bool

definition zero_rstate :: rstate where
  "zero_rstate = \<lparr>rs_used = False, rs_rule = [], rs_inst = [], rs_timers = zero_clocks, rs_held_since = 0,
     rs_false_since = 0, rs_last_fired = 0, rs_armed = False, rs_raised = False\<rparr>"

text \<open>The entry of a rule and an instance, made when there is none and room for it.\<close>

definition state_for :: "string \<Rightarrow> string \<Rightarrow> rstate list \<Rightarrow> rstate list \<times> nat option" where
  "state_for rule instance ss =
     (case find_index (\<lambda>s. rs_used s \<and> rs_rule s = rule \<and> rs_inst s = instance) ss of
        Some i \<Rightarrow> (ss, Some i)
      | None \<Rightarrow>
          (case find_index (\<lambda>s. \<not> rs_used s) ss of
             None \<Rightarrow> (ss, None)
           | Some i \<Rightarrow> (ss[i := zero_rstate\<lparr>rs_used := True, rs_armed := True, rs_rule := cut 40 rule,
                                            rs_inst := cut 40 instance\<rparr>], Some i)))"

definition alarm_key :: "string \<Rightarrow> string \<Rightarrow> string" where
  "alarm_key ident instance = sn 96 (''RULE_'' @ take 32 ident @ '':'' @ take 32 instance)"

definition rule_key :: "json \<Rightarrow> inst option \<Rightarrow> string" where
  "rule_key rule i = alarm_key (pf_json_str (Some rule) ''id'' ''custom'') (case i of Some i \<Rightarrow> in_label i | None \<Rightarrow> ''-'')"

definition sink_bit :: "string \<Rightarrow> 32 word" where
  "sink_bit s = (if s = ''app'' then 1 else if s = ''pushover'' then 2 else if s = ''ntfy'' then 4
                 else if s = ''webpush'' then 32 else if s = ''mqtt'' then 8 else if s = ''webhook'' then 16 else 0)"

definition sink_mask :: "json \<Rightarrow> 32 word" where
  "sink_mask rule =
     (let arr = j_get ''sinks'' rule
      in if \<not> nonempty_arr arr then PF_SINK_ALL
         else let m = fold (\<lambda>it m. case it of JStr s \<Rightarrow> or m (sink_bit s) | _ \<Rightarrow> m) (j_children arr) 0
              in if m \<noteq> 0 then m else PF_SINK_ALL)"

definition crit_of :: "json \<Rightarrow> int" where
  "crit_of rule =
     (let s = pf_json_str (Some rule) ''level'' ''normal''
      in if strcase_eq s ''info'' then PF_CRIT_INFO else if strcase_eq s ''high'' then PF_CRIT_HIGH
         else if strcase_eq s ''critical'' then PF_CRIT_CRITICAL else PF_CRIT_NORMAL)"

lemma j_child_size: "x \<in> set (j_children (Some k)) \<Longrightarrow> size x \<le> size k"
proof (cases k)
  case (JObj ms)
  assume "x \<in> set (j_children (Some k))"
  then obtain n where "(n, x) \<in> set ms" using JObj by auto
  then show ?thesis using JObj size_list_estimation' [of "(n, x)" ms "size x" "size_prod (\<lambda>_. 0) size"] by simp
qed (auto simp: size_list_estimation' le_SucI)

lemma j_get_child_size: "j_get n j = Some k \<Longrightarrow> x \<in> set (j_children (Some k)) \<Longrightarrow> size x < size j"
  using j_child_size j_get_size by (metis le_less_trans)

text \<open>Does a condition test a trait anywhere, and does it ask where the pit is?\<close>

function when_has_trait :: "string \<Rightarrow> json \<Rightarrow> bool" where
  "when_has_trait trait node \<longleftrightarrow>
     j_get ''trait'' node = Some (JStr trait) \<or>
     (case j_get ''conditions'' node of Some k \<Rightarrow> list_ex (when_has_trait trait) (j_children (Some k)) | None \<Rightarrow> False)"
  by pat_completeness auto

termination
  by (relation "measure (\<lambda>(_, node). size node)") (auto simp: j_get_child_size)

definition about_pit_here :: "string \<Rightarrow> json \<Rightarrow> bool" where
  "about_pit_here domain node \<longleftrightarrow>
     j_get ''trait'' node \<in> {Some (JStr ''over''), Some (JStr ''temp'')} \<and>
     (let ent = pf_json_str (Some node) ''entity'' ''''
      in ent = ''grill'' \<or> (ent = '''' \<or> ent = ''this'') \<and> domain = ''grill'')"

function when_about_pit :: "string \<Rightarrow> json \<Rightarrow> bool" where
  "when_about_pit domain node \<longleftrightarrow>
     about_pit_here domain node \<or>
     (case j_get ''conditions'' node of Some k \<Rightarrow> list_ex (when_about_pit domain) (j_children (Some k)) | None \<Rightarrow> False)"
  by pat_completeness auto

termination
  by (relation "measure (\<lambda>(_, node). size node)") (auto simp: j_get_child_size)

declare when_has_trait.simps [simp del] when_about_pit.simps [simp del]

section \<open>Firing\<close>

text \<open>The engine with what it speaks to: the alarm table and the event bus.\<close>

record rules =
  ry_state :: "rstate list"
  ry_fired :: "32 word"
  ry_alarms :: alarms
  ry_events :: events

definition rules_wall :: "rules \<Rightarrow> fl" where "rules_wall s = es_wall (ry_events s)"

definition retire_state :: "string \<Rightarrow> rstate \<Rightarrow> rules \<Rightarrow> rules" where
  "retire_state ident st s = s\<lparr>ry_alarms := pf_alarms_retire (rules_wall s) (alarm_key ident (rs_inst st)) (ry_alarms s)\<rparr>"

definition reporting :: "string \<Rightarrow> rstate \<Rightarrow> bool" where
  "reporting ident st \<longleftrightarrow> rs_used st \<and> rs_rule st = ident \<and> rs_raised st"

definition retire_rule :: "string \<Rightarrow> rules \<Rightarrow> rules" where
  "retire_rule ident s =
     (fold (retire_state ident) (filter (reporting ident) (ry_state s)) s)
       \<lparr>ry_state := map (\<lambda>st. if reporting ident st
                              then st\<lparr>rs_raised := False, rs_held_since := 0, rs_false_since := 0, rs_armed := True\<rparr> else st)
                      (ry_state s)\<rparr>"

definition arrival_rule :: "json \<Rightarrow> bool" where
  "arrival_rule rule \<longleftrightarrow>
     (case j_get ''when'' rule of Some w \<Rightarrow> when_has_trait ''target'' w \<and> \<not> when_has_trait ''eta'' w | None \<Rightarrow> False)"

definition fire :: "token_env \<Rightarrow> json \<Rightarrow> json \<Rightarrow> inst option \<Rightarrow> val \<Rightarrow> bool \<Rightarrow> rules \<Rightarrow> rules" where
  "fire te rule status i matched renotify s =
     (let title = render te 160 (pf_json_str (Some rule) ''title'' ''{grill}'') status i matched;
          body = render te 320 (pf_json_str (Some rule) ''body'' '''') status i matched;
          code = sn 40 (''RULE_'' @ take 32 (pf_json_str (Some rule) ''id'' ''custom''));
          key = rule_key rule i;
          name = pf_json_str (Some rule) ''name'' code;
          (al, fresh) = pf_alarms_raise (rules_wall s) key code (Some name) (crit_of rule) (sink_mask rule) title body (ry_alarms s);
          al = (case i of
                  Some i \<Rightarrow>
                    if fresh \<and> (arrival_rule rule \<or> j_get ''flash'' rule \<noteq> None)
                    then pf_alarms_flash_probe key (in_label i) (in_name i)
                           (pf_json_str (Some rule) ''flash'' ''Remove from Heat'') al
                    else al
                | None \<Rightarrow> al);
          s = s\<lparr>ry_alarms := al\<rparr>
      in if \<not> fresh \<and> \<not> renotify then s
         else s\<lparr>ry_events := pf_events_emit_ex code (crit_of rule) (sink_mask rule) title (Msg ''%s'' [AStr body]) (ry_events s),
                ry_fired := ry_fired s + 1\<rparr>)"

section \<open>The tick\<close>

record rule_times =
  rt_hold :: fl
  rt_cooldown :: fl
  rt_repeat :: fl
  rt_clear_after :: fl

definition rule_times_of :: "json \<Rightarrow> rule_times" where
  "rule_times_of rule =
     (let n = pf_json_num (Some rule)
      in \<lparr>rt_hold = n ''for_s'' 0, rt_cooldown = n ''cooldown_s'' 300, rt_repeat = n ''repeat_s'' 0,
          rt_clear_after = n ''clear_after_s'' 0\<rparr>)"

datatype rule_act = NoAct | ClearAlarm | FireAlarm bool

definition due_now :: "rule_times \<Rightarrow> fl \<Rightarrow> rstate \<Rightarrow> bool" where
  "due_now rt now st \<longleftrightarrow> rs_armed st \<or> 0 < rt_repeat rt \<and> rt_repeat rt \<le> now - rs_last_fired st"

definition cooling :: "rule_times \<Rightarrow> fl \<Rightarrow> rstate \<Rightarrow> bool" where
  "cooling rt now st \<longleftrightarrow> 0 < rs_last_fired st \<and> now - rs_last_fired st < rt_cooldown rt"

text \<open>What one evaluation does to the state of a rule, and what is to be said.\<close>

definition rule_true :: "rule_times \<Rightarrow> fl \<Rightarrow> rstate \<Rightarrow> rstate \<times> rule_act" where
  "rule_true rt now st =
     (let st = (if rs_held_since st = 0 then st\<lparr>rs_held_since := now\<rparr> else st)
      in if now - rs_held_since st < rt_hold rt \<or> \<not> due_now rt now st \<or> cooling rt now st then (st, NoAct)
         else (st\<lparr>rs_armed := False, rs_last_fired := now, rs_raised := True\<rparr>, FireAlarm (\<not> rs_armed st)))"

definition rule_false :: "rule_times \<Rightarrow> fl \<Rightarrow> rstate \<Rightarrow> rstate \<times> rule_act" where
  "rule_false rt now st =
     (let st = st\<lparr>rs_held_since := 0, rs_armed := True\<rparr>
      in if \<not> rs_raised st then (st, NoAct)
         else let st = (if rs_false_since st = 0 then st\<lparr>rs_false_since := now\<rparr> else st)
              in if rt_clear_after rt \<le> now - rs_false_since st
                 then (st\<lparr>rs_raised := False, rs_false_since := 0\<rparr>, ClearAlarm) else (st, NoAct))"

definition rule_step :: "rule_times \<Rightarrow> fl \<Rightarrow> bool \<Rightarrow> rstate \<Rightarrow> rstate \<times> rule_act" where
  "rule_step rt now ok st = (if ok then rule_true rt now (st\<lparr>rs_false_since := 0\<rparr>) else rule_false rt now st)"

text \<open>The same for a rule that wants every instance to match, which clears at once.\<close>

definition every_step :: "rule_times \<Rightarrow> fl \<Rightarrow> bool \<Rightarrow> rstate \<Rightarrow> rstate \<times> rule_act" where
  "every_step rt now ok st =
     (if ok
      then (let st = (if rs_held_since st = 0 then st\<lparr>rs_held_since := now\<rparr> else st)
            in if rt_hold rt \<le> now - rs_held_since st \<and> due_now rt now st \<and> \<not> cooling rt now st
               then (st\<lparr>rs_armed := False, rs_last_fired := now, rs_raised := True\<rparr>, FireAlarm (\<not> rs_armed st))
               else (st, NoAct))
      else (let st = st\<lparr>rs_held_since := 0, rs_armed := True\<rparr>
            in if rs_raised st then (st\<lparr>rs_raised := False\<rparr>, ClearAlarm) else (st, NoAct)))"

definition do_act :: "token_env \<Rightarrow> json \<Rightarrow> json \<Rightarrow> inst option \<Rightarrow> val \<Rightarrow> rule_act \<Rightarrow> rules \<Rightarrow> rules" where
  "do_act te rule status i matched act s =
     (case act of
        NoAct \<Rightarrow> s
      | ClearAlarm \<Rightarrow> s\<lparr>ry_alarms := pf_alarms_clear (rules_wall s) (rule_key rule i) (ry_alarms s)\<rparr>
      | FireAlarm renotify \<Rightarrow> fire te rule status i matched renotify s)"

definition put_state :: "nat option \<Rightarrow> rstate \<Rightarrow> rules \<Rightarrow> rules" where
  "put_state k st s = (case k of Some k \<Rightarrow> s\<lparr>ry_state := (ry_state s)[k := st]\<rparr> | None \<Rightarrow> s)"

text \<open>The condition of a rule for one instance, with the clocks of its state.\<close>

definition rule_ask :: "json \<Rightarrow> json \<Rightarrow> inst \<Rightarrow> fl \<Rightarrow> rstate option \<Rightarrow> bool \<times> clocks option \<times> val" where
  "rule_ask rule status i now st =
     (let db = (case st of Some st \<Rightarrow> if rs_raised st then pf_json_num (Some rule) ''deadband'' 0 else 0 | None \<Rightarrow> 0);
          ts = map_option rs_timers st
      in case j_get ''when'' rule of
           Some w \<Rightarrow> eval_node_at status (Some i) w db ts now
         | None \<Rightarrow> (False, ts, VNone))"

definition tick_instance :: "token_env \<Rightarrow> json \<Rightarrow> json \<Rightarrow> fl \<Rightarrow> bool \<Rightarrow> inst \<Rightarrow> nat \<times> rules \<Rightarrow> nat \<times> rules" where
  "tick_instance te rule status now every i ms =
     (case ms of (matches, s) \<Rightarrow>
       (case state_for (pf_json_str (Some rule) ''id'' '''') (in_label i) (ry_state s) of (ss, k) \<Rightarrow>
         let s = s\<lparr>ry_state := ss\<rparr>; st = map_option (nth ss) k
         in case rule_ask rule status i now st of (ok, ts, matched) \<Rightarrow>
              (case st of
                 None \<Rightarrow> (if every \<and> ok then matches + 1 else matches, s)
               | Some st \<Rightarrow>
                   let st = st\<lparr>rs_timers := (case ts of Some ts \<Rightarrow> ts | None \<Rightarrow> rs_timers st)\<rparr>
                   in if every then (if ok then matches + 1 else matches, put_state k st s)
                      else case rule_step (rule_times_of rule) now ok st of
                             (st, act) \<Rightarrow> (matches, do_act te rule status (Some i) matched act (put_state k st s)))))"

definition tick_every :: "token_env \<Rightarrow> json \<Rightarrow> json \<Rightarrow> fl \<Rightarrow> inst \<Rightarrow> bool \<Rightarrow> rules \<Rightarrow> rules" where
  "tick_every te rule status now i ok s =
     (case state_for (pf_json_str (Some rule) ''id'' '''') ''*'' (ry_state s) of (ss, k) \<Rightarrow>
       let s = s\<lparr>ry_state := ss\<rparr>
       in case k of
            None \<Rightarrow> s
          | Some j \<Rightarrow> (case every_step (rule_times_of rule) now ok (ss ! j) of
              (st, act) \<Rightarrow> do_act te rule status (Some i) VNone act (put_state k st s)))"

definition cooking_mode :: "string \<Rightarrow> bool" where
  "cooking_mode mode \<longleftrightarrow> mode \<in> {''Startup'', ''Relight'', ''Smoke'', ''Hold'', ''Shutdown''}"

definition standing :: "string \<Rightarrow> rstate list \<Rightarrow> bool" where
  "standing ident ss \<longleftrightarrow> list_ex (reporting ident) ss"

definition superseded :: "json list \<Rightarrow> rstate list \<Rightarrow> string list" where
  "superseded rules ss =
     take 64 (concat (map (\<lambda>rule.
       case j_get ''supersedes'' rule of
         Some (JArr ids) \<Rightarrow>
           if is_true (j_get ''enabled'' rule) \<and> standing (pf_json_str (Some rule) ''id'' '''') ss
           then concat (map (\<lambda>it. case it of JStr s \<Rightarrow> [s] | _ \<Rightarrow> []) ids) else []
       | _ \<Rightarrow> []) rules))"

definition lid_event :: "json \<Rightarrow> bool" where
  "lid_event status \<longleftrightarrow> pf_json_bool (Some status) ''lid_event'' False \<or> pf_json_bool (Some status) ''lid_open'' False"

text \<open>A rule that is over, one that has to wait for the lid, and one that is asked.\<close>

definition rule_over :: "json \<Rightarrow> string list \<Rightarrow> json \<Rightarrow> bool" where
  "rule_over status covered_ids rule \<longleftrightarrow>
     \<not> is_true (j_get ''enabled'' rule) \<or>
     pf_json_bool (Some rule) ''only_while_cooking'' True \<and> \<not> cooking_mode (pf_json_str (Some status) ''mode'' ''Stop'') \<or>
     pf_json_str (Some rule) ''id'' '''' \<in> set covered_ids"

definition rule_waits :: "json \<Rightarrow> json \<Rightarrow> bool" where
  "rule_waits status rule \<longleftrightarrow>
     lid_event status \<and>
     (case j_get ''when'' rule of Some w \<Rightarrow> when_about_pit (pf_json_str (Some rule) ''select.domain'' ''grill'') w | None \<Rightarrow> False)"

definition tick_rule :: "token_env \<Rightarrow> json \<Rightarrow> fl \<Rightarrow> string list \<Rightarrow> json \<Rightarrow> rules \<Rightarrow> rules" where
  "tick_rule te status now covered_ids rule s =
     (let ident = pf_json_str (Some rule) ''id'' ''''
      in if ident = [] then s
         else if rule_over status covered_ids rule then retire_rule ident s
         else if rule_waits status rule then s
         else let is = select_instances status rule MAX_INST;
                  every = strcase_eq (pf_json_str (Some rule) ''select.match'' ''any'') ''every'';
                  (matches, s) = fold (tick_instance te rule status now every) is (0, s)
              in if every \<and> is \<noteq> [] then tick_every te rule status now (hd is) (matches = length is) s else s)"

definition pf_rules_tick :: "token_env \<Rightarrow> json option \<Rightarrow> json option \<Rightarrow> fl \<Rightarrow> rules \<Rightarrow> rules" where
  "pf_rules_tick te status rules now s =
     (case (status, rules) of
        (Some status, Some (JArr rs)) \<Rightarrow> fold (tick_rule te status now (superseded rs (ry_state s))) rs s
      | _ \<Rightarrow> s)"

section \<open>The editor's preview and test\<close>

text \<open>The instance to show: the first at hand, then any that matches while nothing has.\<close>

fun preview_scan :: "json \<Rightarrow> json \<Rightarrow> nat \<Rightarrow> inst list \<Rightarrow> nat \<times> val \<times> nat \<Rightarrow> nat \<times> val \<times> nat" where
  "preview_scan status when i [] acc = acc"
| "preview_scan status when i (x # xs) (show1, matched, n) =
     preview_scan status when (i + 1) xs
       (case eval_node status (Some x) when 0 of
          (True, m) \<Rightarrow> if show1 = 0 \<or> matched = VNone then (i, m, n + 1) else (show1, matched, n + 1)
        | (False, _) \<Rightarrow> (show1, matched, n))"

definition pf_rules_preview ::
    "token_env \<Rightarrow> json option \<Rightarrow> json option \<Rightarrow> nat \<Rightarrow> nat \<Rightarrow> string \<times> string \<times> nat \<times> nat" where
  "pf_rules_preview te rule status tn bn =
     (case (rule, status) of
        (Some rule, Some status) \<Rightarrow>
          (let is = select_instances status rule MAX_INST;
               (show1, matched, n) = (case j_get ''when'' rule of
                   Some w \<Rightarrow> preview_scan status w 0 is (0, VNone, 0) | None \<Rightarrow> (0, VNone, 0));
               i = (if is = [] then None else Some (is ! show1));
               text = (\<lambda>cap k. render te cap (pf_json_str (Some rule) k '''') status i matched)
           in (text tn ''title'', text bn ''body'', length is, n))
      | _ \<Rightarrow> ('''', '''', 0, 0))"

definition pf_rules_test :: "token_env \<Rightarrow> json option \<Rightarrow> json option \<Rightarrow> rules \<Rightarrow> rules \<times> int" where
  "pf_rules_test te rule status s =
     (case (rule, status) of
        (Some rule, Some status) \<Rightarrow>
          (let is = select_instances status rule MAX_INST
           in (fire te rule status (if is = [] then None else Some (hd is)) VNone True s, 0))
      | _ \<Rightarrow> (s, -1))"

section \<open>The catalogue\<close>

record trait_def =
  td_domain :: string
  td_trait :: string
  td_type :: string
  td_unit :: string
  td_label :: string
  td_delta :: bool

definition td :: "string \<Rightarrow> string \<Rightarrow> string \<Rightarrow> string \<Rightarrow> string \<Rightarrow> bool \<Rightarrow> trait_def" where
  "td d t ty u l b = \<lparr>td_domain = d, td_trait = t, td_type = ty, td_unit = u, td_label = l, td_delta = b\<rparr>"

definition TRAIT_TABLE :: "trait_def list" where
  "TRAIT_TABLE =
     [td ''probe'' ''temp'' ''temperature'' ''deg'' ''Temperature'' False,
      td ''probe'' ''target'' ''temperature'' ''deg'' ''Target'' False,
      td ''probe'' ''over'' ''temperature'' ''deg'' ''Degrees Past Target'' True,
      td ''probe'' ''eta'' ''duration'' ''s'' ''Time To Target'' False,
      td ''probe'' ''battery'' ''percent'' ''%'' ''Battery'' False,
      td ''probe'' ''signal'' ''number'' ''bars'' ''Signal Bars'' False,
      td ''probe'' ''rssi'' ''number'' ''dBm'' ''Signal Strength'' False,
      td ''probe'' ''connected'' ''bool'' '''' ''Connected'' False,
      td ''probe'' ''wireless'' ''bool'' '''' ''Is Bluetooth'' False,
      td ''probe'' ''name'' ''string'' '''' ''Name'' False,
      td ''probe'' ''in_use'' ''bool'' '''' ''In This Cook'' False,
      td ''grill'' ''mode'' ''enum'' '''' ''Mode'' False,
      td ''grill'' ''temp'' ''temperature'' ''deg'' ''Pit Temperature'' False,
      td ''grill'' ''over'' ''temperature'' ''deg'' ''Degrees From Set Point'' True,
      td ''grill'' ''setpoint'' ''temperature'' ''deg'' ''Set Point'' False,
      td ''grill'' ''error'' ''string'' '''' ''Error Code'' False,
      td ''grill'' ''cook_elapsed'' ''duration'' ''s'' ''Cook Time'' False,
      td ''grill'' ''mode_remaining'' ''duration'' ''s'' ''Time Left In Mode'' False,
      td ''grill'' ''aiming_s'' ''duration'' ''s'' ''Time Since Mode Or Target Changed'' False,
      td ''grill'' ''lid_open'' ''bool'' '''' ''Lid Open'' False,
      td ''grill'' ''heating'' ''bool'' '''' ''Heating To Working Temperature'' False,
      td ''grill'' ''heating_to'' ''string'' '''' ''Heating Text'' False,
      td ''output'' ''state'' ''bool'' '''' ''State'' False,
      td ''output'' ''percent'' ''percent'' ''%'' ''Fan Percent'' False,
      td ''hopper'' ''level'' ''percent'' ''%'' ''Hopper Level'' False,
      td ''controller'' ''duty'' ''number'' '''' ''Auger Duty'' False,
      td ''controller'' ''feedforward'' ''number'' '''' ''Feed Forward'' False,
      td ''weather'' ''temp'' ''temperature'' ''deg'' ''Outdoor Temperature'' False,
      td ''weather'' ''wind'' ''number'' ''km/h'' ''Wind'' False,
      td ''weather'' ''humidity'' ''percent'' ''%'' ''Humidity'' False,
      td ''system'' ''wifi_signal'' ''percent'' ''%'' ''Wi-Fi Signal'' False,
      td ''system'' ''tailscale_online'' ''bool'' '''' ''Tailscale Online'' False,
      td ''system'' ''update_available'' ''bool'' '''' ''PiFire Update Available'' False,
      td ''system'' ''update_version'' ''string'' '''' ''PiFire Update Version'' False,
      td ''system'' ''system_updates'' ''number'' '''' ''System Updates Pending'' False,
      td ''system'' ''backup_done'' ''bool'' '''' ''Backup Just Finished'' False,
      td ''system'' ''backup_failed'' ''bool'' '''' ''Last Backup Failed'' False,
      td ''system'' ''restarted'' ''bool'' '''' ''Grill Restarted'' False,
      td ''system'' ''restart_reason'' ''string'' '''' ''Restart Reason'' False,
      td ''timer'' ''remaining'' ''duration'' ''s'' ''Time Remaining'' False,
      td ''timer'' ''running'' ''bool'' '''' ''Timer Running'' False,
      td ''step'' ''elapsed'' ''duration'' ''s'' ''Time In This Step'' False,
      td ''step'' ''food_max'' ''temperature'' ''deg'' ''Hottest Food Probe'' False,
      td ''step'' ''food_min'' ''temperature'' ''deg'' ''Coolest Food Probe'' False,
      td ''step'' ''food_rested'' ''temperature'' ''deg'' ''Hottest Food Probe, Rested'' False,
      td ''step'' ''food_avg'' ''temperature'' ''deg'' ''Average Food Probe'' False,
      td ''step'' ''food_battery'' ''percent'' ''%'' ''Lowest Food Probe Battery'' False,
      td ''step'' ''food_eta'' ''duration'' ''s'' ''Soonest Food Probe To Its Target'' False,
      td ''step'' ''prompt'' ''bool'' '''' ''You Confirmed'' False,
      td ''step'' ''lid'' ''bool'' '''' ''Lid Opened'' False]"

definition trait_def_of :: "string \<Rightarrow> string \<Rightarrow> trait_def option" where
  "trait_def_of domain trait = List.find (\<lambda>d. td_domain d = domain \<and> td_trait d = trait) TRAIT_TABLE"

definition NUM_OPS :: "string list" where
  "NUM_OPS = [''>'', ''>='', ''<'', ''<='', ''=='', ''!='', ''between'', ''within'']"
definition BOOL_OPS :: "string list" where
  "BOOL_OPS = [''is_on'', ''is_off'']"
definition STR_OPS :: "string list" where
  "STR_OPS = [''is'', ''is_not'', ''is_one_of'', ''is_none_of'', ''contains'', ''empty'', ''not_empty'']"

definition trait_ops :: "string \<Rightarrow> string list" where
  "trait_ops ty = (if ty = ''bool'' then BOOL_OPS else if ty = ''string'' \<or> ty = ''enum'' then STR_OPS else NUM_OPS)"

definition trait_category :: "string \<Rightarrow> string \<Rightarrow> string" where
  "trait_category dm trait =
     (if dm = ''step''
      then if take 5 trait = ''food_'' then ''Probes''
           else if trait = ''prompt'' \<or> trait = ''lid'' then ''You'' else ''Step''
      else dm)"

definition jstrs :: "string list \<Rightarrow> json" where "jstrs xs = JArr (map JStr xs)"

definition trait_json :: "string \<Rightarrow> trait_def \<Rightarrow> json" where
  "trait_json dm t =
     JObj [(''id'', JStr (td_trait t)), (''type'', JStr (td_type t)), (''unit'', JStr (td_unit t)), (''label'', JStr (td_label t)),
           (''category'', JStr (trait_category dm (td_trait t))), (''operators'', jstrs (trait_ops (td_type t)))]"

definition domain_instances :: "json option \<Rightarrow> string \<Rightarrow> json list" where
  "domain_instances status dm =
     (if status \<noteq> None \<and> dm = ''probe''
      then map (\<lambda>p. JObj [(''label'', JStr (pf_json_str (Some p) ''label'' '''')), (''name'', JStr (pf_json_str (Some p) ''name'' '''')),
                          (''role'', JStr (pf_json_str (Some p) ''role'' '''')), (''wireless'', JBool (is_true (j_get ''wireless'' p)))])
             (filter (\<lambda>p. \<not> is_true (j_get ''companion'' p)) (j_children (jget status ''probes'')))
      else if dm = ''output'' then map (\<lambda>n. JObj [(''label'', JStr n), (''name'', JStr n)]) rule_outputs
      else [])"

definition domain_json :: "json option \<Rightarrow> string \<Rightarrow> json" where
  "domain_json status dm =
     JObj [(''id'', JStr dm), (''multi'', JBool (dm = ''probe'' \<or> dm = ''output'')),
           (''traits'', JArr (map (trait_json dm) (filter (\<lambda>t. td_domain t = dm) TRAIT_TABLE))),
           (''instances'', JArr (domain_instances status dm))]"

definition DOMS :: "string list" where
  "DOMS = [''step'', ''probe'', ''grill'', ''output'', ''hopper'', ''controller'', ''weather'', ''system'', ''timer'']"

definition TOKENS :: "string list" where
  "TOKENS = [''probe'', ''temp'', ''target'', ''over'', ''eta'', ''eta_min'', ''step'', ''eta_step'', ''battery'', ''signal'',
     ''grill'', ''grill_temp'', ''setpoint'', ''mode'', ''hopper'', ''outdoor_temp'', ''cook_time'', ''value'', ''time'']"

definition pf_rules_catalogue_json :: "json option \<Rightarrow> json" where
  "pf_rules_catalogue_json status =
     JObj [(''domains'', JArr (map (domain_json status) DOMS)), (''tokens'', jstrs TOKENS),
           (''modes'', jstrs [''Stop'', ''Monitor'', ''Startup'', ''Relight'', ''Smoke'', ''Hold'', ''Shutdown'', ''Manual'', ''Error'']),
           (''levels'', jstrs [''info'', ''normal'', ''high'', ''critical''])]"

definition rstate_json :: "fl \<Rightarrow> rstate \<Rightarrow> json" where
  "rstate_json now st =
     JObj ([(''rule'', JStr (rs_rule st)), (''instance'', JStr (rs_inst st)), (''holding'', JBool (0 < rs_held_since st)),
            (''armed'', JBool (rs_armed st))] @
           (if 0 < rs_last_fired st then [(''last_fired_ago'', JNum (fl_round (now - rs_last_fired st)))] else []))"

definition pf_rules_state_json :: "fl \<Rightarrow> rules \<Rightarrow> json" where
  "pf_rules_state_json now s = JArr (map (rstate_json now) (filter rs_used (ry_state s)))"

section \<open>Units\<close>

definition conv_temp :: "bool \<Rightarrow> bool \<Rightarrow> fl \<Rightarrow> fl" where
  "conv_temp to_c delta x =
     (let r = Fin (9 / 5) in if to_c then if delta then x / r else (x - 32) / r else if delta then x * r else x * r + 32)"

text \<open>Changing a member that is there.\<close>

definition j_map_at :: "string \<Rightarrow> (json \<Rightarrow> json) \<Rightarrow> json \<Rightarrow> json" where
  "j_map_at k f j = (case (j, j_get k j) of (JObj ms, Some v) \<Rightarrow> JObj (j_replace k (f v) ms) | _ \<Rightarrow> j)"

fun num_map :: "(fl \<Rightarrow> fl) \<Rightarrow> json \<Rightarrow> json" where
  "num_map f (JNum x) = JNum (f x)"
| "num_map f j = j"

definition convert_value :: "bool \<Rightarrow> bool \<Rightarrow> json \<Rightarrow> json" where
  "convert_value to_c delta v =
     (case v of JNum x \<Rightarrow> JNum (conv_temp to_c delta x)
      | JObj ms \<Rightarrow> j_map_at ''offset'' (num_map (conv_temp to_c True)) v
      | _ \<Rightarrow> v)"

definition leaf_trait :: "string \<Rightarrow> json \<Rightarrow> trait_def option" where
  "leaf_trait domain node =
     (case j_get ''trait'' node of
        Some (JStr tr) \<Rightarrow>
          (let dm = pf_json_str (Some node) ''entity'' ''this''
           in case trait_def_of (if dm = ''this'' then domain else dm) tr of
                Some d \<Rightarrow> if td_type d = ''temperature'' then Some d else None
              | None \<Rightarrow> None)
      | _ \<Rightarrow> None)"

definition convert_leaf :: "bool \<Rightarrow> trait_def \<Rightarrow> bool \<Rightarrow> json \<Rightarrow> json" where
  "convert_leaf to_c d width node =
     j_map_at ''deadband'' (num_map (conv_temp to_c True))
       (j_map_at ''value2'' (num_map (conv_temp to_c (td_delta d \<or> width)))
         (j_map_at ''value'' (convert_value to_c (td_delta d)) node))"

function convert_node_units :: "string \<Rightarrow> bool \<Rightarrow> json \<Rightarrow> json" where
  "convert_node_units domain to_c node =
     (case j_get ''conditions'' node of
        Some (JArr kids) \<Rightarrow> j_map_at ''conditions'' (\<lambda>_. JArr (map (convert_node_units domain to_c) kids)) node
      | _ \<Rightarrow> (case leaf_trait domain node of
                Some d \<Rightarrow> convert_leaf to_c d (pf_json_str (Some node) ''op'' '''' = ''within'') node
              | None \<Rightarrow> node))"
  by pat_completeness auto

termination
  by (relation "measure (\<lambda>(_, _, node). size node)") (auto simp: j_get_child_size)

declare convert_node_units.simps [simp del]

definition pf_rules_convert_tree :: "string \<Rightarrow> pf_units \<Rightarrow> pf_units \<Rightarrow> json option \<Rightarrow> json option" where
  "pf_rules_convert_tree domain src dst node =
     (if src = dst then node
      else map_option (convert_node_units (if domain \<noteq> [] then domain else ''grill'') (dst = UnitsC)) node)"

definition convert_rule :: "bool \<Rightarrow> json \<Rightarrow> json" where
  "convert_rule to_c r =
     (let dm = pf_json_str (Some r) ''select.domain'' ''grill''
      in j_map_at ''deadband'' (num_map (\<lambda>x. if to_c then x / Fin (9 / 5) else x * Fin (9 / 5)))
           (j_map_at ''when'' (convert_node_units dm to_c) r))"

text \<open>A patch whose outcome is ignored; outside the model (see \<open>j_update_at\<close>) nothing changes.\<close>

definition patch_notify :: "(string \<times> json) list \<Rightarrow> settings \<Rightarrow> settings" where
  "patch_notify ms s = (case pf_settings_patch (Some ''notify'') (Some (JObj ms)) s of Some (s, _) \<Rightarrow> s | None \<Rightarrow> s)"

definition convert_rules_units :: "settings \<Rightarrow> settings" where
  "convert_rules_units s =
     (let u = fst (pf_set_str ''globals.units'' 8 ''F'' s); was = fst (pf_set_str ''notify.rules_units'' 8 '''' s);
          same = (was \<noteq> [] \<and> take 1 was = take 1 u);
          tag = JStr (if take 1 u = ''C'' then ''C'' else ''F'')
      in if same then s
         else case pf_set_dup ''notify.rules'' s of
             Some (JArr rs) \<Rightarrow>
               if was \<noteq> [] then patch_notify [(''rules'', JArr (map (convert_rule (take 1 u = ''C'')) rs)), (''rules_units'', tag)] s
               else patch_notify [(''rules_units'', tag)] s
           | _ \<Rightarrow> if was = [] then patch_notify [(''rules_units'', tag)] s else s)"

definition pf_rules_init :: "settings \<Rightarrow> rules \<Rightarrow> settings \<times> rules" where
  "pf_rules_init cfg s =
     (convert_rules_units cfg,
      s\<lparr>ry_state := replicate MAX_STATE zero_rstate, ry_alarms := pf_alarms_init (ry_alarms s)\<rparr>)"

end
