(* ===== verification/Rules_Correct.thy ===== *)
theory Rules_Correct
  imports Rules
begin

text \<open>
  What \<open>Rules\<close> promises: conversion of units and back, the clocks of timed conditions, when a rule speaks, and
  what happens to the alarms of a rule that no longer applies.
\<close>

section \<open>Units there and back\<close>

lemma j_replace_same: "j_find ((=) k) ms = Some v \<Longrightarrow> j_replace k v ms = ms"
  by (induction ms) (auto split: if_splits)

lemma j_replace_twice: "j_replace k w (j_replace k v ms) = j_replace k w ms"
  by (induction ms) auto

lemma j_replace_commute: "k \<noteq> q \<Longrightarrow> j_replace k v (j_replace q w ms) = j_replace q w (j_replace k v ms)"
  by (induction ms) auto

lemma j_get_map_at: "j_get q (j_map_at k f j) = (if q = k then map_option f (j_get k j) else j_get q j)"
  by (cases j) (auto simp: j_map_at_def j_find_replace split: option.splits)

lemma j_map_at_same: "(\<And>v. j_get k j = Some v \<Longrightarrow> f v = v) \<Longrightarrow> j_map_at k f j = j"
  by (cases j) (auto simp: j_map_at_def j_replace_same split: option.splits)

lemma j_map_at_twice: "j_map_at k g (j_map_at k f j) = j_map_at k (\<lambda>v. g (f v)) j"
  by (cases j) (auto simp: j_map_at_def j_find_replace j_replace_twice split: option.splits)

lemma j_map_at_commute: "k \<noteq> q \<Longrightarrow> j_map_at k f (j_map_at q g j) = j_map_at q g (j_map_at k f j)"
  by (cases j) (auto simp: j_map_at_def j_find_replace j_replace_commute split: option.splits)

lemma json_str_map_at:
  "path_toks q = [q] \<Longrightarrow> q \<noteq> k \<Longrightarrow> pf_json_str (Some (j_map_at k f j)) q d = pf_json_str (Some j) q d"
proof -
  assume q: "path_toks q = [q]" "q \<noteq> k"
  have "j_step q (j_map_at k f j) = j_step q j"
    using q(2) j_get_map_at [of q k f j] by (cases j) (auto simp: j_step_def j_map_at_def split: option.splits)
  moreover have "pf_json_path (Some x) q = j_step q x" for x
    using q(1) by (auto simp: pf_json_path_def path_toks_def pf_strlcpy_def split: option.splits)
  ultimately show ?thesis by (simp add: pf_json_str_def)
qed

lemma conv_temp_back: "conv_temp False d (conv_temp True d x) = x"
  by (cases x; cases d) (simp_all add: conv_temp_def Let_def diff_divide_distrib)

lemma num_map_back: "num_map (conv_temp False d) (num_map (conv_temp True d) j) = j"
  by (cases j) (simp_all add: conv_temp_back)

lemma convert_value_back: "convert_value False d (convert_value True d j) = j"
proof (cases j)
  case (JObj ms)
  have "\<exists>xs. j_map_at ''offset'' f (JObj ms) = JObj xs" for f
    by (auto simp: j_map_at_def split: option.splits)
  then obtain xs where xs: "j_map_at ''offset'' (num_map (conv_temp True True)) (JObj ms) = JObj xs" by blast
  have "j_map_at ''offset'' (num_map (conv_temp False True)) (JObj xs) = JObj ms"
    unfolding xs [symmetric] j_map_at_twice by (rule j_map_at_same) (simp add: num_map_back)
  with xs JObj show ?thesis by (simp add: convert_value_def)
qed (simp_all add: convert_value_def conv_temp_back)

lemma path_names: "path_toks ''entity'' = [''entity'']" "path_toks ''op'' = [''op'']"
  by code_simp+

lemma convert_leaf_kept:
  "leaf_trait domain (convert_leaf c d w node) = leaf_trait domain node"
  "pf_json_str (Some (convert_leaf c d w node)) ''op'' '''' = pf_json_str (Some node) ''op'' ''''"
  "j_get ''conditions'' (convert_leaf c d w node) = j_get ''conditions'' node"
  by (simp_all add: convert_leaf_def leaf_trait_def j_get_map_at json_str_map_at path_names cong: option.case_cong json.case_cong)

lemma convert_leaf_back: "convert_leaf False d w (convert_leaf True d w node) = node"
  by (simp add: convert_leaf_def j_map_at_commute [of "''value''" "''value2''"] j_map_at_commute [of "''value''" "''deadband''"]
      j_map_at_commute [of "''value2''" "''deadband''"] j_map_at_twice j_map_at_same num_map_back convert_value_back)

lemma convert_back: "convert_node_units domain False (convert_node_units domain True node) = node"
proof (induction domain True node rule: convert_node_units.induct)
  case (1 domain node)
  show ?case
  proof (cases "\<exists>kids. j_get ''conditions'' node = Some (JArr kids)")
    case True
    then obtain kids where k: "j_get ''conditions'' node = Some (JArr kids)" by blast
    have "map (\<lambda>x. convert_node_units domain False (convert_node_units domain True x)) kids = kids"
      using 1 k by (simp add: map_idI)
    then show ?thesis
      by (subst (2) convert_node_units.simps, subst convert_node_units.simps)
        (simp add: k j_get_map_at j_map_at_twice comp_def, rule j_map_at_same, simp add: k)
  next
    case False
    then have "convert_node_units domain c node = (case leaf_trait domain node of
         Some d \<Rightarrow> convert_leaf c d (pf_json_str (Some node) ''op'' '''' = ''within'') node | None \<Rightarrow> node)" for c
      by (subst convert_node_units.simps) (auto split: option.splits json.splits)
    moreover have "convert_node_units domain False (convert_leaf True e w node) = (case leaf_trait domain node of
         Some d \<Rightarrow> convert_leaf False d (pf_json_str (Some node) ''op'' '''' = ''within'') (convert_leaf True e w node)
       | None \<Rightarrow> convert_leaf True e w node)" for e w
      using False by (subst convert_node_units.simps) (auto simp: convert_leaf_kept split: option.splits json.splits)
    ultimately show ?thesis by (simp add: convert_leaf_back split: option.splits)
  qed
qed

text \<open>Switching a condition to Celsius and back restores every temperature, gap, offset and width in it exactly,
  in trees of any depth.\<close>

theorem convert_tree_back:
  "pf_rules_convert_tree domain UnitsC UnitsF (pf_rules_convert_tree domain UnitsF UnitsC node) = node"
  by (cases node) (simp_all add: pf_rules_convert_tree_def convert_back)

section \<open>Timed conditions\<close>

lemma eval_leaf_fst: "fst (eval_leaf cx node st) = fst (eval_leaf cx node st')"
  by (simp add: eval_leaf_def Let_def split: option.splits json.splits)

lemma eval_leaf_clocks: "fst (snd (eval_leaf cx node st)) = fst st"
  by (simp add: eval_leaf_def Let_def note_match_def split: option.splits json.splits)

text \<open>A condition asked again and again, with its clocks.\<close>

fun tree_run :: "json \<Rightarrow> string \<Rightarrow> (real \<times> json) list \<Rightarrow> clocks \<Rightarrow> bool list" where
  "tree_run node domain [] ts = []"
| "tree_run node domain ((t, facts) # ys) ts =
     (case pf_rules_eval_tree (Some node) (Some facts) domain (Some ts) (Fin t) of
        (r, ts') \<Rightarrow> r # tree_run node domain ys (case ts' of Some ts \<Rightarrow> ts | None \<Rightarrow> ts))"

definition says :: "json \<Rightarrow> string \<Rightarrow> json \<Rightarrow> bool" where
  "says node domain facts = fst (pf_rules_eval_tree (Some node) (Some facts) domain None 0)"

definition clock_at :: "32 word \<Rightarrow> real \<Rightarrow> clocks" where "clock_at p since = (p, Fin since) # replicate 11 (0, 0)"

lemma clock_start: "zero_clocks = clock_at 0 0"
  using replicate_Suc [of 11 "(0, 0) :: 32 word \<times> fl"]
  by (simp add: zero_clocks_def clock_at_def PF_RULES_NODE_TIMERS_def)

lemma clock_slot: "p = 0 \<or> p = 1 \<Longrightarrow> timer_slot 1 (clock_at p since) = Some 0"
  by (auto simp: timer_slot_def clock_at_def find_index_None [THEN iffD2])

lemma clock_nth: "clock_at p since ! 0 = (p, Fin since)"
  by (simp add: clock_at_def)

lemma clock_update: "(clock_at p since)[0 := (q, Fin t)] = clock_at q t"
  by (simp add: clock_at_def)

lemma leaf_eval:
  assumes "j_get ''conditions'' node = None" "pf_json_num (Some node) ''for_s'' 0 = Fin w" "0 < w" "p = 0 \<or> p = 1"
  shows "pf_rules_eval_tree (Some node) (Some facts) domain (Some (clock_at p since)) (Fin t) =
    (if says node domain facts
     then (w \<le> t - (if since = 0 then t else since), Some (clock_at 1 (if since = 0 then t else since)))
     else (False, Some (clock_at 1 0)))"
proof -
  let ?i = "Some \<lparr>in_domain = (if domain \<noteq> [] then domain else ''grill''), in_name = '''', in_label = '''', in_obj = None\<rparr>"
  let ?cx = "\<lambda>now. \<lparr>cx_status = facts, cx_in = ?i, cx_db = 0, cx_now = now\<rparr>"
  have cx: "fst (eval_leaf (?cx a) node st) = fst (eval_leaf (?cx b) node st')" for a b st st'
    by (simp add: eval_leaf_def Let_def split: option.splits json.splits)
  have "eval_path (?cx 0) node 1 (None, VNone) = (case eval_leaf (?cx 0) node (None, VNone) of (r, st) \<Rightarrow> held_long_enough (?cx 0) 1 node r st)"
    using assms(1) by simp
  moreover have "fst (snd (eval_leaf (?cx 0) node (None, VNone))) = None" by (simp only: eval_leaf_clocks fst_conv)
  ultimately have "fst (eval_path (?cx 0) node 1 (None, VNone)) = fst (eval_leaf (?cx 0) node (None, VNone))"
    by (cases "eval_leaf (?cx 0) node (None, VNone)" rule: prod_cases3) (simp del: eval_path.simps add: held_long_enough_def Let_def)
  then have "says node domain facts = fst (eval_leaf (?cx 0) node (None, VNone))"
    by (simp del: eval_path.simps add: says_def pf_rules_eval_tree_def eval_node_at_def case_prod_unfold)
  then have r: "says node domain facts = fst (eval_leaf (?cx (Fin t)) node (Some (clock_at p since), VNone))"
    by (simp only: cx [of 0 "(None, VNone)" "Fin t" "(Some (clock_at p since), VNone)"])
  obtain m where l: "eval_leaf (?cx (Fin t)) node (Some (clock_at p since), VNone) = (says node domain facts, Some (clock_at p since), m)"
    using r eval_leaf_clocks [of "?cx (Fin t)" node "(Some (clock_at p since), VNone)"]
    by (cases "eval_leaf (?cx (Fin t)) node (Some (clock_at p since), VNone)" rule: prod_cases3) simp
  have "eval_path (?cx (Fin t)) node 1 (Some (clock_at p since), VNone) =
      held_long_enough (?cx (Fin t)) 1 node (says node domain facts) (Some (clock_at p since), m)"
    using assms(1) l by simp
  then show ?thesis
    using assms(2-)
    by (auto simp: pf_rules_eval_tree_def eval_node_at_def held_long_enough_def Let_def clock_slot clock_nth clock_update simp del: eval_path.simps)
qed

definition clock_inv :: "(nat \<Rightarrow> bool) \<Rightarrow> (nat \<Rightarrow> real) \<Rightarrow> nat \<Rightarrow> real \<Rightarrow> bool" where
  "clock_inv ok tm n since \<longleftrightarrow>
     (if since = 0 then n = 0 \<or> \<not> ok (n - 1)
      else (\<exists>h<n. since = tm h \<and> (\<forall>k. h \<le> k \<and> k < n \<longrightarrow> ok k) \<and> (h = 0 \<or> \<not> ok (h - 1))))"

lemma clock_inv_step:
  assumes "clock_inv ok tm n since" "0 < tm n"
  shows "clock_inv ok tm (Suc n) (if ok n then if since = 0 then tm n else since else 0)"
proof (cases "since = 0")
  case True
  then have "\<exists>h<Suc n. tm n = tm h \<and> (\<forall>k. h \<le> k \<and> k < Suc n \<longrightarrow> ok k) \<and> (h = 0 \<or> \<not> ok (h - 1))" if "ok n"
    using assms(1) that by (intro exI [of _ n]) (auto simp: clock_inv_def le_less_Suc_eq)
  with True assms(2) show ?thesis by (auto simp: clock_inv_def)
next
  case False
  then obtain h where "h < n" "since = tm h" "\<forall>k. h \<le> k \<and> k < n \<longrightarrow> ok k" "h = 0 \<or> \<not> ok (h - 1)"
    using assms(1) by (auto simp: clock_inv_def)
  with False show ?thesis by (auto simp: clock_inv_def less_Suc_eq intro!: exI [of _ h])
qed

lemma clock_inv_long:
  assumes "clock_inv ok tm n since" "ok n" "\<And>i j. i \<le> j \<Longrightarrow> j \<le> n \<Longrightarrow> tm i \<le> tm j"
  shows "w \<le> tm n - (if since = 0 then tm n else since) \<longleftrightarrow> (\<exists>h\<le>n. (\<forall>k. h \<le> k \<and> k \<le> n \<longrightarrow> ok k) \<and> w \<le> tm n - tm h)"
proof -
  obtain h where h: "h \<le> n" "(if since = 0 then tm n else since) = tm h" "\<forall>k. h \<le> k \<and> k \<le> n \<longrightarrow> ok k" "h = 0 \<or> \<not> ok (h - 1)"
  proof (cases "since = 0")
    case True
    have "\<forall>k. n \<le> k \<and> k \<le> n \<longrightarrow> ok k" using assms(2) by (metis le_antisym)
    with assms(1) True that [of n] show ?thesis by (auto simp: clock_inv_def)
  next
    case False
    with assms(1,2) that show ?thesis by (auto simp: clock_inv_def le_less)
  qed
  have "tm h \<le> tm g" if "g \<le> n" "\<forall>k. g \<le> k \<and> k \<le> n \<longrightarrow> ok k" for g
  proof -
    have "h \<le> g"
    proof (rule ccontr)
      assume "\<not> h \<le> g"
      then have "g \<le> h - 1" "h - 1 \<le> n" "h \<noteq> 0" using h(1) by auto
      with that(2) h(4) show False by blast
    qed
    with assms(3) that(1) show ?thesis by blast
  qed
  with h show ?thesis by (smt (verit))
qed

lemma tree_run_nth:
  assumes "j_get ''conditions'' node = None" "pf_json_num (Some node) ''for_s'' 0 = Fin w" "0 < w" "p = 0 \<or> p = 1"
    "\<And>i. i < length ys \<Longrightarrow> tm (m + i) = fst (ys ! i) \<and> ok (m + i) = says node domain (snd (ys ! i))"
    "\<And>i j. i \<le> j \<Longrightarrow> j < m + length ys \<Longrightarrow> tm i \<le> tm j" "\<And>i. i < length ys \<Longrightarrow> 0 < fst (ys ! i)"
    "clock_inv ok tm m since" "j < length ys"
  shows "tree_run node domain ys (clock_at p since) ! j \<longleftrightarrow>
    (\<exists>h\<le>m + j. (\<forall>k. h \<le> k \<and> k \<le> m + j \<longrightarrow> ok k) \<and> w \<le> tm (m + j) - tm h)"
  using assms(4-)
proof (induction ys arbitrary: p since m j)
  case (Cons y ys)
  obtain t facts where y: "y = (t, facts)" by (cases y)
  have here: "tm m = t" "ok m = says node domain facts" "0 < t"
    using Cons.prems(2,4) [of 0] y by auto
  note ev = leaf_eval [OF assms(1-3) Cons.prems(1), of facts domain since t]
  show ?case
  proof (cases j)
    case 0
    show ?thesis
    proof (cases "ok m")
      case True
      have "tree_run node domain (y # ys) (clock_at p since) ! 0 = (w \<le> tm m - (if since = 0 then tm m else since))"
        using True here by (simp add: y ev)
      with clock_inv_long [OF Cons.prems(5) True] Cons.prems(3) 0 show ?thesis by auto
    qed (use 0 here in \<open>auto simp: y ev\<close>)
  next
    case (Suc i)
    let ?since = "if ok m then if since = 0 then tm m else since else 0"
    have "tree_run node domain ys (clock_at 1 ?since) ! i \<longleftrightarrow>
      (\<exists>h\<le>Suc m + i. (\<forall>k. h \<le> k \<and> k \<le> Suc m + i \<longrightarrow> ok k) \<and> w \<le> tm (Suc m + i) - tm h)"
    proof (rule Cons.IH)
      show "clock_inv ok tm (Suc m) ?since" by (rule clock_inv_step) (use Cons.prems(5) here in auto)
      show "tm (Suc m + i) = fst (ys ! i) \<and> ok (Suc m + i) = says node domain (snd (ys ! i))" if "i < length ys" for i
        using Cons.prems(2) [of "Suc i"] that by simp
      show "0 < fst (ys ! i)" if "i < length ys" for i using Cons.prems(4) [of "Suc i"] that by simp
    qed (use Cons.prems Suc in auto)
    moreover have "tree_run node domain (y # ys) (clock_at p since) ! Suc i = tree_run node domain ys (clock_at 1 ?since) ! i"
      using here by (cases "says node domain facts") (simp_all add: y ev)
    ultimately show ?thesis using Suc by simp
  qed
qed simp

text \<open>"For N seconds" is exact: a comparison with a time of its own is true at an evaluation exactly when it has
  said true at every evaluation since one at least that long ago.\<close>

theorem timed_condition_exact:
  assumes "j_get ''conditions'' node = None" "pf_json_num (Some node) ''for_s'' 0 = Fin w" "0 < w"
    "sorted (map fst ys)" "\<forall>y \<in> set ys. 0 < fst y" "j < length ys"
  shows "tree_run node domain ys zero_clocks ! j \<longleftrightarrow>
    (\<exists>h\<le>j. (\<forall>k. h \<le> k \<and> k \<le> j \<longrightarrow> says node domain (snd (ys ! k))) \<and> w \<le> fst (ys ! j) - fst (ys ! h))"
  using tree_run_nth [OF assms(1-3), of 0 ys "\<lambda>i. fst (ys ! i)" 0 "\<lambda>i. says node domain (snd (ys ! i))" domain 0 j] assms(4-)
  by (simp add: clock_start clock_inv_def sorted_iff_nth_mono)

definition hot_for :: json where
  "hot_for = JObj [(''trait'', JStr ''setpoint''), (''op'', JStr ''>''), (''value'', JNum 200), (''for_s'', JNum 60)]"

definition set_to :: "fl \<Rightarrow> json" where "set_to sp = JObj [(''setpoint'', JNum sp)]"

theorem timed_condition_exact_witness:
  "tree_run hot_for ''grill'' [(5, set_to 225), (30, set_to 225), (65, set_to 225)] zero_clocks ! 2"
proof -
  let ?ys = "[(5, set_to 225), (30, set_to 225), (65, set_to 225)] :: (real \<times> json) list"
  have "says hot_for ''grill'' (set_to 225)" by code_simp
  moreover have "j_get ''conditions'' hot_for = None" "pf_json_num (Some hot_for) ''for_s'' 0 = Fin 60" by code_simp+
  ultimately show ?thesis
    by (subst timed_condition_exact [where w = 60]) (auto intro!: exI [of _ 0] simp: less_Suc_eq le_Suc_eq numeral_2_eq_2)
qed

section \<open>When a rule speaks\<close>

text \<open>What a rule says over a run of evaluations, and the state it is in before each of them.\<close>

fun rule_run :: "rule_times \<Rightarrow> (real \<times> bool) list \<Rightarrow> rstate \<Rightarrow> rule_act list" where
  "rule_run rt [] st = []"
| "rule_run rt ((t, ok) # ys) st = (case rule_step rt (Fin t) ok st of (st, a) \<Rightarrow> a # rule_run rt ys st)"

definition rule_after :: "rule_times \<Rightarrow> (real \<times> bool) list \<Rightarrow> rstate \<Rightarrow> rstate" where
  "rule_after rt ys st = fold (\<lambda>(t, ok) st. fst (rule_step rt (Fin t) ok st)) ys st"

fun is_fire :: "rule_act \<Rightarrow> bool" where
  "is_fire (FireAlarm _) = True"
| "is_fire _ = False"

lemma length_rule_run [simp]: "length (rule_run rt ys st) = length ys"
  by (induction rt ys st rule: rule_run.induct) (simp_all split: prod.splits)

lemma rule_run_nth:
  "j < length ys \<Longrightarrow> rule_run rt ys st ! j = snd (rule_step rt (Fin (fst (ys ! j))) (snd (ys ! j)) (rule_after rt (take j ys) st))"
proof (induction rt ys st arbitrary: j rule: rule_run.induct)
  case (2 rt t ok ys st)
  show ?case
  proof (cases j)
    case (Suc k)
    then show ?thesis using 2 by (cases "rule_step rt (Fin t) ok st") (simp add: rule_after_def)
  qed (simp add: rule_after_def split: prod.splits)
qed simp

lemma rule_after_Suc:
  "j < length ys \<Longrightarrow> rule_after rt (take (Suc j) ys) st = fst (rule_step rt (Fin (fst (ys ! j))) (snd (ys ! j)) (rule_after rt (take j ys) st))"
  by (simp add: rule_after_def take_Suc_conv_app_nth case_prod_unfold)

text \<open>What is known of the state before evaluation \<open>n\<close>: since when the condition has held, and how long ago
  the rule spoke.\<close>

definition rule_inv :: "(real \<times> bool) list \<Rightarrow> rule_act list \<Rightarrow> nat \<Rightarrow> rstate \<Rightarrow> bool" where
  "rule_inv ys acts n st \<longleftrightarrow>
     (rs_held_since st = 0 \<or> (\<exists>h<n. rs_held_since st = Fin (fst (ys ! h)) \<and> (\<forall>k. h \<le> k \<and> k < n \<longrightarrow> snd (ys ! k)))) \<and>
     (\<forall>i<n. is_fire (acts ! i) \<longrightarrow>
        (\<exists>f>0. rs_last_fired st = Fin f \<and> fst (ys ! i) \<le> f \<and> (rs_armed st \<longrightarrow> (\<exists>k. i < k \<and> k < n \<and> \<not> snd (ys ! k)))))"

lemma rule_inv_step:
  assumes inv: "rule_inv ys acts n st" and n: "n < length ys" and pos: "0 < fst (ys ! n)"
    and srt: "\<forall>i<n. fst (ys ! i) \<le> fst (ys ! n)"
    and act: "acts ! n = snd (rule_step rt (Fin (fst (ys ! n))) (snd (ys ! n)) st)"
  shows "rule_inv ys acts (Suc n) (fst (rule_step rt (Fin (fst (ys ! n))) (snd (ys ! n)) st))"
proof -
  let ?t = "fst (ys ! n)"
  let ?st = "fst (rule_step rt (Fin ?t) (snd (ys ! n)) st)"
  have held: "rs_held_since ?st = 0 \<or> (\<exists>h<Suc n. rs_held_since ?st = Fin (fst (ys ! h)) \<and> (\<forall>k. h \<le> k \<and> k < Suc n \<longrightarrow> snd (ys ! k)))"
  proof (cases "snd (ys ! n)")
    case True
    then have eq: "rs_held_since ?st = (if rs_held_since st = 0 then Fin ?t else rs_held_since st)"
      by (simp add: rule_step_def rule_true_def Let_def)
    show ?thesis
    proof (cases "rs_held_since st = 0")
      case True
      with eq \<open>snd (ys ! n)\<close> show ?thesis by (metis le_antisym less_Suc_eq_le lessI)
    next
      case False
      then obtain h where "h < n" "rs_held_since st = Fin (fst (ys ! h))" "\<forall>k. h \<le> k \<and> k < n \<longrightarrow> snd (ys ! k)"
        using inv by (auto simp: rule_inv_def)
      with False eq \<open>snd (ys ! n)\<close> show ?thesis by (metis less_Suc_eq)
    qed
  qed (simp add: rule_step_def rule_false_def Let_def)
  have fire: "is_fire (acts ! n) \<Longrightarrow> rs_last_fired ?st = Fin ?t \<and> \<not> rs_armed ?st"
    unfolding act by (auto simp: rule_step_def rule_true_def rule_false_def Let_def split: if_splits)
  have quiet: "\<not> is_fire (acts ! n) \<Longrightarrow> rs_last_fired ?st = rs_last_fired st \<and> (rs_armed ?st \<longrightarrow> rs_armed st \<or> \<not> snd (ys ! n))"
    unfolding act by (auto simp: rule_step_def rule_true_def rule_false_def Let_def)
  have "\<exists>f>0. rs_last_fired ?st = Fin f \<and> fst (ys ! i) \<le> f \<and> (rs_armed ?st \<longrightarrow> (\<exists>k. i < k \<and> k < Suc n \<and> \<not> snd (ys ! k)))"
    if i: "i < Suc n" and f: "is_fire (acts ! i)" for i
  proof (cases "is_fire (acts ! n)")
    case True
    then show ?thesis using fire i srt pos by (metis less_Suc_eq order_refl)
  next
    case False
    then have "i < n" using i f by (metis less_SucE)
    then obtain f where "0 < f" "rs_last_fired st = Fin f" "fst (ys ! i) \<le> f" "rs_armed st \<longrightarrow> (\<exists>k. i < k \<and> k < n \<and> \<not> snd (ys ! k))"
      using inv f \<open>i < n\<close> unfolding rule_inv_def by blast
    with quiet [OF False] \<open>i < n\<close> show ?thesis by (metis less_Suc_eq)
  qed
  with held show ?thesis by (simp add: rule_inv_def)
qed

definition fresh_rule :: "rstate \<Rightarrow> bool" where
  "fresh_rule st \<longleftrightarrow> rs_armed st \<and> rs_held_since st = 0 \<and> rs_last_fired st = 0"

lemma rule_inv_run:
  assumes "sorted (map fst ys)" "\<forall>y \<in> set ys. 0 < fst y" "fresh_rule st" "n \<le> length ys"
  shows "rule_inv ys (rule_run rt ys st) n (rule_after rt (take n ys) st)"
  using assms(4)
proof (induction n)
  case 0
  then show ?case using assms(3) by (simp add: rule_inv_def fresh_rule_def rule_after_def)
next
  case (Suc n)
  then have n: "n < length ys" by simp
  moreover have "\<forall>i<n. fst (ys ! i) \<le> fst (ys ! n)"
    using assms(1) n by (auto simp: sorted_iff_nth_mono)
  ultimately show ?case
    unfolding rule_after_Suc [OF n]
    by (intro rule_inv_step) (use Suc n assms(2) in \<open>auto simp: rule_run_nth\<close>)
qed


lemma rule_step_fires:
  assumes "(if rs_held_since st = 0 then now else rs_held_since st) = since" "rs_armed st" "\<not> cooling rt now st"
    "\<not> now - since < rt_hold rt"
  shows "snd (rule_step rt now True st) = FireAlarm False"
  using assms by (auto simp: rule_step_def rule_true_def Let_def due_now_def cooling_def)


definition rule_example :: "rule_times" where
  "rule_example = \<lparr>rt_hold = 10, rt_cooldown = 300, rt_repeat = 0, rt_clear_after = 0\<rparr>"

definition armed_state :: rstate where "armed_state = zero_rstate\<lparr>rs_used := True, rs_armed := True\<rparr>"



section \<open>A rule that no longer applies\<close>

lemma retire_other:
  assumes "al_key (at_tab s ! i) \<noteq> key"
  shows "at_tab (pf_alarms_retire now key s) ! i = at_tab s ! i"
proof (cases "alarm_find key (at_tab s)")
  case (Some j)
  then have "al_key (at_tab s ! j) = key" by (simp add: alarm_find_def find_index_Some)
  with assms have "j \<noteq> i" by auto
  with Some show ?thesis by (simp add: pf_alarms_retire_def)
qed (simp add: pf_alarms_retire_def)

lemma retire_states_other:
  assumes "\<forall>st \<in> set sts. alarm_key ident (rs_inst st) \<noteq> al_key (at_tab (ry_alarms s) ! i)"
  shows "at_tab (ry_alarms (fold (retire_state ident) sts s)) ! i = at_tab (ry_alarms s) ! i"
  using assms
proof (induction sts arbitrary: s)
  case (Cons st sts)
  have "at_tab (ry_alarms (retire_state ident st s)) ! i = at_tab (ry_alarms s) ! i"
    using Cons.prems by (auto simp: retire_state_def intro!: retire_other)
  with Cons show ?case by simp
qed simp

lemma retire_rule_none_left: "\<not> standing ident (ry_state (retire_rule ident s))"
proof -
  have "\<not> reporting ident (st\<lparr>rs_raised := False, rs_held_since := 0, rs_false_since := 0, rs_armed := True\<rparr>)" for st
    by (simp add: reporting_def)
  then show ?thesis by (auto simp: standing_def retire_rule_def list_ex_iff)
qed

lemma alarm_key_inj: "alarm_key ident a = alarm_key ident b \<longleftrightarrow> take 32 a = take 32 b"
  by (simp add: alarm_key_def sn_def)

text \<open>A rule that asks every instance is raised under the key of its first instance but retired under the key of
  the state that stands for all: switched off, superseded or out of the cook, it forgets that it was reporting
  and leaves its alarm as it was.\<close>

theorem every_rule_left_standing:
  assumes "rule_over status covered_ids rule" "pf_json_str (Some rule) ''id'' '''' = ident" "ident \<noteq> []"
    "\<forall>st \<in> set (ry_state s). reporting ident st \<longrightarrow> rs_inst st = ''*''"
    "al_key (at_tab (ry_alarms s) ! i) = alarm_key ident label" "take 32 label \<noteq> ''*''"
  shows "at_tab (ry_alarms (tick_rule te status now covered_ids rule s)) ! i = at_tab (ry_alarms s) ! i \<and>
    \<not> standing ident (ry_state (tick_rule te status now covered_ids rule s))"
proof -
  have tick: "tick_rule te status now covered_ids rule s = retire_rule ident s"
    using assms(1-3) by (simp add: tick_rule_def)
  have "alarm_key ident (rs_inst st) \<noteq> al_key (at_tab (ry_alarms s) ! i)" if "st \<in> set (ry_state s)" "reporting ident st" for st
    using assms(4-6) that by (simp add: alarm_key_inj)
  then have "at_tab (ry_alarms (retire_rule ident s)) ! i = at_tab (ry_alarms s) ! i"
    by (simp add: retire_rule_def retire_states_other)
  then show ?thesis by (simp add: tick retire_rule_none_left)
qed

definition every_rule_json :: "bool \<Rightarrow> json" where
  "every_rule_json on = JObj [(''id'', JStr ''low_bat''), (''enabled'', JBool on),
     (''select'', JObj [(''domain'', JStr ''probe''), (''match'', JStr ''every'')]),
     (''when'', JObj [(''trait'', JStr ''battery''), (''op'', JStr ''<''), (''value'', JNum 20)]),
     (''title'', JStr ''Batteries''), (''body'', JStr ''All low'')]"

definition low_probe :: "string \<Rightarrow> json" where
  "low_probe l = JObj [(''label'', JStr l), (''name'', JStr l), (''enabled'', JBool True), (''battery'', JNum 10)]"

definition cook_status :: json where
  "cook_status = JObj [(''mode'', JStr ''Hold''), (''probes'', JArr [low_probe ''p1'', low_probe ''p2''])]"

definition rules_example :: rules where
  "rules_example = \<lparr>ry_state = replicate 6 zero_rstate, ry_fired = 0, ry_alarms = \<lparr>at_tab = replicate 3 zero_alarm, at_gen = 0\<rparr>,
     ry_events = \<lparr>es_ring = [], es_head = 0, es_len = 0, es_gen = 0, es_sinks = [], es_sent = [], es_db_open = False, es_db = [],
       es_alarms = [], es_wall = 1000\<rparr>\<rparr>"

definition every_raised :: rules where
  "every_raised = pf_rules_tick \<lparr>te_grill_name = '''', te_clock = ''12:00''\<rparr> (Some cook_status) (Some (JArr [every_rule_json True])) 50 rules_example"

theorem every_rule_left_standing_witness:
  "al_active (at_tab (ry_alarms (tick_rule \<lparr>te_grill_name = '''', te_clock = ''12:00''\<rparr> cook_status 60 [] (every_rule_json False) every_raised)) ! 0)"
proof -
  have "al_active (at_tab (ry_alarms every_raised) ! 0)" by code_simp
  moreover have "al_key (at_tab (ry_alarms every_raised) ! 0) = alarm_key ''low_bat'' ''p1''" by code_simp
  moreover have "list_all (\<lambda>st. reporting ''low_bat'' st \<longrightarrow> rs_inst st = ''*'') (ry_state every_raised)" by code_simp
  then have "\<forall>st \<in> set (ry_state every_raised). reporting ''low_bat'' st \<longrightarrow> rs_inst st = ''*''" by (simp add: list_all_iff)
  moreover have "rule_over cook_status [] (every_rule_json False)" by code_simp
  moreover have "pf_json_str (Some (every_rule_json False)) ''id'' '''' = ''low_bat''" by code_simp
  ultimately show ?thesis
    by (subst every_rule_left_standing [THEN conjunct1, of _ _ _ "''low_bat''" _ _ "''p1''"]) simp_all
qed

end
