(* ===== verification/Sensors.thy ===== *)
theory Sensors
  imports Util Common
begin

text \<open>
  The probe readings of \<open>src/probes/probes.h\<close>, and from \<open>src/probes/probes.c\<close> the snapshot the sensor
  thread keeps: which probes are part of the cook, and the value of a virtual probe.  Every operation runs
  under the module's lock and is one step.
\<close>

datatype pf_probe_role = PROBE_PRIMARY | PROBE_FOOD | PROBE_AUX

record pf_probe_reading =
  pr_label :: string
  pr_name :: string
  pr_device :: string
  pr_port :: string
  pr_role :: pf_probe_role
  pr_enabled :: bool
  pr_ambient :: bool
  pr_home :: bool
  pr_valid :: bool
  pr_temp_c :: fl
  pr_raw_c :: fl
  pr_unstable :: bool
  pr_ohms :: fl
  pr_last_valid_t :: fl
  pr_target_c :: fl
  pr_wireless :: bool
  pr_rssi :: int
  pr_battery :: int
  pr_companion :: int
  pr_is_companion :: bool
  pr_in_use :: bool

definition zero_reading :: pf_probe_reading where
  "zero_reading = \<lparr>pr_label = [], pr_name = [], pr_device = [], pr_port = [], pr_role = PROBE_PRIMARY, pr_enabled = False,
     pr_ambient = False, pr_home = False, pr_valid = False, pr_temp_c = 0, pr_raw_c = 0, pr_unstable = False, pr_ohms = 0,
     pr_last_valid_t = 0, pr_target_c = 0, pr_wireless = False, pr_rssi = 0, pr_battery = 0, pr_companion = 0,
     pr_is_companion = False, pr_in_use = False\<rparr>"

definition pf_signal_bars :: "int \<Rightarrow> int" where
  "pf_signal_bars rssi = (if rssi = 0 then 0 else if -60 \<le> rssi then 4 else if -70 \<le> rssi then 3 else if -80 \<le> rssi then 2 else 1)"

text \<open>The readings in use, the first \<open>n\<close> of the array, and the index of the pit probe or -1.\<close>

record pf_sensors =
  sn_t :: fl
  sn_primary :: int
  sn_p :: "pf_probe_reading list"

definition PF_MAX_PROBES :: nat where "PF_MAX_PROBES = 16"

definition zero_sensors :: pf_sensors where "zero_sensors = \<lparr>sn_t = 0, sn_primary = 0, sn_p = []\<rparr>"

text \<open>A reading by an index that may be out of range.\<close>

definition sensor_at :: "pf_sensors \<Rightarrow> int \<Rightarrow> pf_probe_reading option" where
  "sensor_at s i = (if 0 \<le> i \<and> i < int (length (sn_p s)) then Some (sn_p s ! nat i) else None)"

fun find_index_from :: "nat \<Rightarrow> ('a \<Rightarrow> bool) \<Rightarrow> 'a list \<Rightarrow> nat option" where
  "find_index_from i p [] = None"
| "find_index_from i p (x # xs) = (if p x then Some i else find_index_from (Suc i) p xs)"

definition pf_probes_find :: "pf_sensors \<Rightarrow> string \<Rightarrow> nat option" where
  "pf_probes_find s label = find_index_from 0 (\<lambda>r. pr_label r = label) (sn_p s)"

section \<open>Which probes are in the cook\<close>

record probe_bank =
  pb_snap :: pf_sensors
  pb_cooking :: bool
  pb_in_use_explicit :: bool

definition pf_probes_set_cooking :: "bool \<Rightarrow> probe_bank \<Rightarrow> probe_bank" where
  "pf_probes_set_cooking cooking b =
     (let b = (if \<not> cooking \<and> pb_cooking b
               then b\<lparr>pb_snap := (pb_snap b)\<lparr>sn_p := map (\<lambda>r. r\<lparr>pr_in_use := False\<rparr>) (sn_p (pb_snap b))\<rparr>,
                      pb_in_use_explicit := False\<rparr>
               else b)
      in b\<lparr>pb_cooking := cooking\<rparr>)"

text \<open>The labels between the commas; the walk over the text ends at its end, so a trailing comma adds nothing.\<close>

fun csv_items :: "string \<Rightarrow> string \<Rightarrow> string list" where
  "csv_items [] cur = (if cur = [] then [] else [cur])"
| "csv_items (c # cs) cur = (if c = CHR '','' then cur # csv_items cs [] else csv_items cs (cur @ [c]))"

definition pf_probes_set_in_use :: "string \<Rightarrow> probe_bank \<Rightarrow> probe_bank" where
  "pf_probes_set_in_use csv b =
     b\<lparr>pb_in_use_explicit := True,
       pb_snap := (pb_snap b)\<lparr>sn_p := map (\<lambda>r. r\<lparr>pr_in_use := pr_label r \<in> set (csv_items csv []) \<and> pr_enabled r\<rparr>)
                                       (sn_p (pb_snap b))\<rparr>\<rparr>"

text \<open>The labels in use, as many characters as the buffer of \<open>n\<close> takes.\<close>

definition in_use_csv_add :: "nat \<Rightarrow> string \<Rightarrow> pf_probe_reading \<Rightarrow> string" where
  "in_use_csv_add n out r =
     (if pr_in_use r then out @ sn (n - length out) ((if out \<noteq> [] then '','' else []) @ pr_label r) else out)"

definition pf_probes_in_use_csv :: "nat \<Rightarrow> probe_bank \<Rightarrow> string" where
  "pf_probes_in_use_csv n b =
     (if pb_in_use_explicit b then foldl (in_use_csv_add n) [] (sn_p (pb_snap b)) else [])"

definition pf_probes_snapshot :: "probe_bank \<Rightarrow> pf_sensors" where
  "pf_probes_snapshot b = pb_snap b"

section \<open>Virtual probes\<close>

text \<open>The insertion of the sort of the source: a new item moves down past those above it.\<close>

definition sink_in :: "fl list \<Rightarrow> fl \<Rightarrow> fl list" where
  "sink_in ys x = (let k = length ys - length (takeWhile (\<lambda>y. x < y) (rev ys)) in take k ys @ x # drop k ys)"

definition virtual_inputs :: "pf_sensors \<Rightarrow> nat \<Rightarrow> string list \<Rightarrow> fl list" where
  "virtual_inputs s self labels =
     List.map_filter (\<lambda>l. case find_index_from 0 (\<lambda>(j, r). j \<noteq> self \<and> pr_label r = l \<and> pr_valid r) (enumerate 0 (sn_p s)) of
        Some j \<Rightarrow> Some (pr_temp_c (sn_p s ! j)) | None \<Rightarrow> None) (take 8 labels)"

definition virtual_value :: "string \<Rightarrow> pf_sensors \<Rightarrow> nat \<Rightarrow> string list \<Rightarrow> fl" where
  "virtual_value mode s self labels =
     (let vals = virtual_inputs s self labels; k = length vals
      in if vals = [] then NaN
         else if mode = ''highest'' then foldl (\<lambda>m v. if v > m then v else m) (hd vals) (tl vals)
         else if mode = ''lowest'' then foldl (\<lambda>m v. if v < m then v else m) (hd vals) (tl vals)
         else if mode = ''median''
         then (let xs = foldl sink_in [] vals
               in if odd k then xs ! (k div 2) else Fin (1 / 2) * (xs ! (k div 2 - 1) + xs ! (k div 2)))
         else fl_sum vals / int_to_fl (int k))"

end
