(* ===== verification/Notify.thy ===== *)
theory Notify
  imports Sensors Alarms Settings
begin

text \<open>
  \<open>src/core/notify.c\<close>: probe targets and limits, the steps on the way to a target, the cook timer, the
  estimate of when a probe gets there, and the carry-over a piece of meat is taken off early for.  The
  tick runs in the control thread and is a composition of one definition per concern.  \<open>services\<close> is what
  it reaches: the settings, the key/value table of the database with the documents parsed (a text that
  does not parse is \<open>JNull\<close>), the event bus, and the alarm table.
\<close>

section \<open>What the core reaches\<close>

record services =
  sv_set :: settings
  sv_kv :: "string \<times> string \<Rightarrow> json option"
  sv_ev :: events
  sv_alarms :: alarms
  sv_text :: "msg \<Rightarrow> string"

definition sv_wall :: "services \<Rightarrow> fl" where "sv_wall v = es_wall (sv_ev v)"

definition kv_get :: "string \<Rightarrow> string \<Rightarrow> services \<Rightarrow> json option" where
  "kv_get ns key v = (if es_db_open (sv_ev v) then sv_kv v (ns, key) else None)"

definition kv_put :: "string \<Rightarrow> string \<Rightarrow> json \<Rightarrow> services \<Rightarrow> services" where
  "kv_put ns key j v = (if es_db_open (sv_ev v) then v\<lparr>sv_kv := (sv_kv v)((ns, key) \<mapsto> j)\<rparr> else v)"

text \<open>An event, and the entry of the alarm table it leaves.\<close>

definition note_event :: "services \<Rightarrow> pf_event \<Rightarrow> alarms \<Rightarrow> alarms" where
  "note_event v e = pf_alarms_note (sv_wall v) (fmt_f0 (sv_wall v)) (ev_code e) (Some (ev_code e)) (ev_crit e)
                      (ev_sinks e) (ev_title e) (sv_text v (ev_body e))"

definition emit_event :: "string \<Rightarrow> string \<Rightarrow> msg \<Rightarrow> services \<Rightarrow> services" where
  "emit_event code title body v =
     (let ev = pf_events_emit code title body (sv_ev v)
      in v\<lparr>sv_ev := ev, sv_alarms := fold (note_event v) (drop (length (es_alarms (sv_ev v))) (es_alarms ev)) (sv_alarms v)\<rparr>)"

section \<open>The state\<close>

definition PF_ETA_SAMPLES :: nat where "PF_ETA_SAMPLES = 400"
definition PF_MAX_STEPS :: nat where "PF_MAX_STEPS = 4"
definition ETA_INTERVAL_S :: fl where "ETA_INTERVAL_S = 3"
definition ETA_RECALC_S :: fl where "ETA_RECALC_S = 20"

definition PF_AFTER_NONE :: int where "PF_AFTER_NONE = 0"
definition PF_AFTER_KEEPWARM :: int where "PF_AFTER_KEEPWARM = 1"
definition PF_AFTER_SHUTDOWN :: int where "PF_AFTER_SHUTDOWN = 2"

record pf_notify_step =
  ns_name :: string
  ns_temp_c :: fl
  ns_fired :: bool

record pf_notify_probe =
  np_label :: string
  np_target_c :: fl
  np_meat :: string
  np_done :: string
  np_finish_c :: fl
  np_rest_c :: fl
  np_cook_sm_c :: fl
  np_last_tick_t :: fl
  np_carry_sm_c :: fl
  np_rest_watch :: bool
  np_pull_c :: fl
  np_pull_rate :: fl
  np_pull_predicted_c :: fl
  np_rest_peak_c :: fl
  np_rest_peak_t :: fl
  np_rest_watch_t :: fl
  np_amb_on :: fl
  np_removed :: bool
  np_removed_n :: int
  np_steps :: "pf_notify_step list"
  np_after :: int
  np_limit_high_c :: fl
  np_limit_low_c :: fl
  np_high_tripped :: bool
  np_low_tripped :: bool
  np_eta_s :: fl
  np_eta_step_s :: fl
  np_next_step :: string
  np_reached :: bool
  np_eta_warned :: bool
  np_eta_hits :: int
  np_hist :: "fl list"
  np_hist_len :: nat
  np_hist_head :: nat
  np_last_sample_t :: fl

text \<open>A new entry: zeroes, and no estimate.\<close>

definition fresh_probe :: "string \<Rightarrow> pf_notify_probe" where
  "fresh_probe label = \<lparr>np_label = label, np_target_c = 0, np_meat = [], np_done = [], np_finish_c = 0, np_rest_c = 0,
     np_cook_sm_c = 0, np_last_tick_t = 0, np_carry_sm_c = 0, np_rest_watch = False, np_pull_c = 0, np_pull_rate = 0,
     np_pull_predicted_c = 0, np_rest_peak_c = 0, np_rest_peak_t = 0, np_rest_watch_t = 0, np_amb_on = 0,
     np_removed = False, np_removed_n = 0, np_steps = [], np_after = 0, np_limit_high_c = 0, np_limit_low_c = 0,
     np_high_tripped = False, np_low_tripped = False, np_eta_s = -1, np_eta_step_s = -1, np_next_step = [],
     np_reached = False, np_eta_warned = False, np_eta_hits = 0, np_hist = replicate PF_ETA_SAMPLES 0,
     np_hist_len = 0, np_hist_head = 0, np_last_sample_t = 0\<rparr>"

record pf_timer =
  tm_running :: bool
  tm_paused :: bool
  tm_end_t :: fl
  tm_remaining :: fl
  tm_duration :: fl
  tm_after :: int

definition zero_timer :: pf_timer where
  "zero_timer = \<lparr>tm_running = False, tm_paused = False, tm_end_t = 0, tm_remaining = 0, tm_duration = 0, tm_after = 0\<rparr>"

record pf_notify =
  nt_probes :: "pf_notify_probe list"
  nt_timer :: pf_timer
  nt_last_eta_t :: fl
  nt_pending_action :: int
  nt_cook_temp_c :: fl

definition pf_notify_init :: pf_notify where
  "pf_notify_init = \<lparr>nt_probes = [], nt_timer = zero_timer, nt_last_eta_t = 0, nt_pending_action = 0, nt_cook_temp_c = 0\<rparr>"

definition notify_index :: "string \<Rightarrow> pf_notify \<Rightarrow> nat option" where
  "notify_index label n = find_index (\<lambda>p. np_label p = label) (nt_probes n)"

definition pf_notify_find :: "pf_notify \<Rightarrow> string \<Rightarrow> pf_notify_probe option" where
  "pf_notify_find n label = map_option ((!) (nt_probes n)) (notify_index label n)"

definition pf_notify_sync :: "pf_sensors \<Rightarrow> pf_notify \<Rightarrow> pf_notify" where
  "pf_notify_sync s n =
     n\<lparr>nt_probes := map (\<lambda>r. case pf_notify_find n (pr_label r) of Some old \<Rightarrow> old | None \<Rightarrow> fresh_probe (pr_label r))
                      (take PF_MAX_PROBES (sn_p s))\<rparr>"

text \<open>A change of the probe with a label, and what the operation answers when there is none.\<close>

definition on_probe :: "string \<Rightarrow> (pf_notify_probe \<Rightarrow> pf_notify_probe) \<Rightarrow> pf_notify \<Rightarrow> pf_notify \<times> int" where
  "on_probe label f n =
     (case notify_index label n of
        Some i \<Rightarrow> (n\<lparr>nt_probes := (nt_probes n)[i := f (nt_probes n ! i)]\<rparr>, 0) | None \<Rightarrow> (n, -1))"

section \<open>Targets and limits\<close>

definition target_set :: "fl \<Rightarrow> int \<Rightarrow> pf_notify_probe \<Rightarrow> pf_notify_probe" where
  "target_set target_c after p =
     (let p = p\<lparr>np_reached := False, np_eta_warned := False, np_eta_hits := 0,
                np_target_c := (if 0 < target_c then target_c else 0), np_rest_c := 0, np_rest_watch := False,
                np_removed := False, np_removed_n := 0, np_amb_on := 0\<rparr>;
          p = (if np_target_c p \<le> 0 then p\<lparr>np_meat := [], np_done := [], np_finish_c := 0\<rparr> else p)
      in p\<lparr>np_after := after, np_eta_s := -1, np_eta_step_s := -1\<rparr>)"

definition pf_notify_set_target :: "string \<Rightarrow> fl \<Rightarrow> int \<Rightarrow> pf_notify \<Rightarrow> pf_notify \<times> int" where
  "pf_notify_set_target label target_c after = on_probe label (target_set target_c after)"

definition pf_notify_set_target_note :: "string \<Rightarrow> string \<Rightarrow> string \<Rightarrow> fl \<Rightarrow> pf_notify \<Rightarrow> pf_notify" where
  "pf_notify_set_target_note label meat done finish_c n =
     fst (on_probe label
       (\<lambda>p. if np_target_c p \<le> 0 then p
            else p\<lparr>np_meat := cut 24 meat, np_done := cut 24 done, np_finish_c := (if 0 < finish_c then finish_c else 0)\<rparr>) n)"

definition pf_notify_set_limits :: "string \<Rightarrow> fl \<Rightarrow> fl \<Rightarrow> pf_notify \<Rightarrow> pf_notify \<times> int" where
  "pf_notify_set_limits label high_c low_c =
     on_probe label (\<lambda>p. p\<lparr>np_limit_high_c := (if 0 < high_c then high_c else 0),
                          np_limit_low_c := (if 0 < low_c then low_c else 0),
                          np_high_tripped := False, np_low_tripped := False\<rparr>)"

section \<open>The timer\<close>

definition pf_notify_timer_start :: "fl \<Rightarrow> int \<Rightarrow> fl \<Rightarrow> pf_notify \<Rightarrow> pf_notify" where
  "pf_notify_timer_start seconds after now n =
     n\<lparr>nt_timer := (nt_timer n)\<lparr>tm_running := True, tm_paused := False, tm_duration := seconds,
                               tm_end_t := now + seconds, tm_after := after\<rparr>\<rparr>"

definition pf_notify_timer_pause :: "fl \<Rightarrow> pf_notify \<Rightarrow> pf_notify" where
  "pf_notify_timer_pause now n =
     (if \<not> tm_running (nt_timer n) \<or> tm_paused (nt_timer n) then n
      else n\<lparr>nt_timer := (nt_timer n)\<lparr>tm_paused := True, tm_remaining := tm_end_t (nt_timer n) - now\<rparr>\<rparr>)"

definition pf_notify_timer_resume :: "fl \<Rightarrow> pf_notify \<Rightarrow> pf_notify" where
  "pf_notify_timer_resume now n =
     (if \<not> tm_running (nt_timer n) \<or> \<not> tm_paused (nt_timer n) then n
      else n\<lparr>nt_timer := (nt_timer n)\<lparr>tm_paused := False, tm_end_t := now + tm_remaining (nt_timer n)\<rparr>\<rparr>)"

definition pf_notify_timer_cancel :: "pf_notify \<Rightarrow> pf_notify" where
  "pf_notify_timer_cancel n = n\<lparr>nt_timer := zero_timer\<rparr>"

section \<open>The climb\<close>

text \<open>The five-point average that leaves the two readings at each end as they are.\<close>

definition smooth5 :: "fl list \<Rightarrow> fl list" where
  "smooth5 xs =
     (let n = length xs
      in map (\<lambda>i. if i < 2 \<or> n < i + 3 then xs ! i
                  else (xs ! (i - 2) + xs ! (i - 1) + xs ! i + xs ! (i + 1) + xs ! (i + 2)) / 5) [0..<n])"

text \<open>The slope per sample, and the newest smoothed reading.\<close>

definition weighted_slope :: "fl list \<Rightarrow> fl \<times> fl" where
  "weighted_slope temps =
     (let n = length temps
      in if n < 1 \<or> PF_ETA_SAMPLES < n then (0, 0)
         else (let sm = smooth5 temps;
                   w = map (\<lambda>i. fl_exp (num i / 10)) [0..<n];
                   w = map (\<lambda>x. x / fl_sum w) w;
                   xbar = fl_sum (map (\<lambda>i. w ! i * num i) [0..<n]);
                   ybar = fl_sum (map (\<lambda>i. w ! i * sm ! i) [0..<n]);
                   nm = fl_sum (map (\<lambda>i. w ! i * (num i - xbar) * (sm ! i - ybar)) [0..<n]);
                   den = fl_sum (map (\<lambda>i. w ! i * (num i - xbar) * (num i - xbar)) [0..<n]);
                   slope = nm / den
               in (if den \<le> 0 then 0 else if 0 < slope \<and> \<not> isnan slope \<and> \<not> isinf slope then slope else 0, sm ! (n - 1))))"

definition list_max :: "fl list \<Rightarrow> fl" where
  "list_max xs = foldl (\<lambda>m x. if m < x then x else m) (hd xs) (tl xs)"

definition eta_line :: "fl \<Rightarrow> fl \<Rightarrow> fl \<Rightarrow> fl \<Rightarrow> fl" where
  "eta_line lst rate target cook_c =
     (let gap = cook_c - lst; to_go = cook_c - target
      in if isfinite cook_c \<and> 0 < gap \<and> 2 < to_go \<and> to_go < gap then gap / rate * fl_ln (gap / to_go)
         else (target - lst) / rate)"

definition pf_notify_estimate_eta_to :: "fl list \<Rightarrow> fl \<Rightarrow> fl \<Rightarrow> fl \<Rightarrow> fl" where
  "pf_notify_estimate_eta_to temps target interval_s cook_c =
     (if length temps < 20 then -1
      else if target \<le> list_max temps then -1
      else (case weighted_slope temps of (slope, lst) \<Rightarrow>
        if \<not> 0 < slope then -1
        else (let rate = slope / interval_s; eta = eta_line lst rate target cook_c
              in if eta < 0 \<or> isinf eta \<or> isnan eta then -1 else eta)))"

definition pf_notify_estimate_eta :: "fl list \<Rightarrow> fl \<Rightarrow> fl \<Rightarrow> fl" where
  "pf_notify_estimate_eta temps target interval_s = pf_notify_estimate_eta_to temps target interval_s NaN"

definition probe_hist :: "pf_notify_probe \<Rightarrow> fl list" where
  "probe_hist p = ring_list (np_hist p) (np_hist_head p) (np_hist_len p)"

definition pf_notify_probe_rate :: "pf_notify \<Rightarrow> string \<Rightarrow> fl" where
  "pf_notify_probe_rate n label =
     (case pf_notify_find n label of
        None \<Rightarrow> 0
      | Some p \<Rightarrow> if np_hist_len p < 20 then 0 else fst (weighted_slope (probe_hist p)) / ETA_INTERVAL_S)"

text \<open>The average of the readings of the window within two places of one.\<close>

definition around :: "fl list \<Rightarrow> nat \<Rightarrow> fl" where
  "around xs i = (let js = filter (\<lambda>j. i \<le> j + 2 \<and> j \<le> i + 2) [0..<length xs]
                  in fl_sum (map ((!) xs) js) / num (length js))"

definition plain_slope :: "fl list \<Rightarrow> fl" where
  "plain_slope xs =
     (let cnt = length xs;
          xbar = num (cnt - 1) / 2;
          sm = map (around xs) [0..<cnt];
          ybar = fl_sum sm / num cnt;
          nm = fl_sum (map (\<lambda>i. (num i - xbar) * (sm ! i - ybar)) [0..<cnt]);
          den = fl_sum (map (\<lambda>i. (num i - xbar) * (num i - xbar)) [0..<cnt]);
          slope = (if 0 < den then nm / den / ETA_INTERVAL_S else 0)
      in if 0 < slope \<and> isfinite slope then slope else 0)"

definition pf_notify_probe_rate_long :: "pf_notify \<Rightarrow> string \<Rightarrow> fl" where
  "pf_notify_probe_rate_long n label =
     (case pf_notify_find n label of
        None \<Rightarrow> 0
      | Some p \<Rightarrow> if np_hist_len p < 50 then 0
                  else plain_slope (ring_list (np_hist p) (np_hist_head p) (if np_hist_len p < 100 then np_hist_len p else 100)))"

section \<open>Carry-over\<close>

definition PF_CARRYOVER_TAU_S :: fl where "PF_CARRYOVER_TAU_S = 420"
definition PF_CARRYOVER_MAX_C :: fl where "PF_CARRYOVER_MAX_C = 5"
definition CARRY_MODEL_MAX_C :: fl where "CARRY_MODEL_MAX_C = 14"
definition CARRY_LEARNED_MAX_C :: fl where "CARRY_LEARNED_MAX_C = 20"
definition CARRY_FADE_RATE_C_S :: fl where "CARRY_FADE_RATE_C_S = 0.004"
definition CARRY_SMOOTH_S :: fl where "CARRY_SMOOTH_S = 300"
definition CARRY_FREEZE_C :: fl where "CARRY_FREEZE_C = 3"

definition pf_carryover_c :: "fl \<Rightarrow> fl" where
  "pf_carryover_c rate_c_s =
     (let c = rate_c_s * PF_CARRYOVER_TAU_S
      in if c < 0 then 0 else if PF_CARRYOVER_MAX_C < c then PF_CARRYOVER_MAX_C else c)"

definition pf_notify_rest_margin_c :: "services \<Rightarrow> fl" where
  "pf_notify_rest_margin_c v =
     (let u = pf_settings_units (sv_set v);
          x = pf_set_num ''notify.rest_margin'' (if u = UnitsC then 1 else 2) (sv_set v);
          x = (if \<not> 0 \<le> x \<or> 20 < x then 2 else x)
      in if u = UnitsC then x else x * 5 / 9)"

definition carry_key :: "string \<Rightarrow> string" where
  "carry_key meat = sn 32 (''carry:'' @ take 20 (if meat \<noteq> [] then meat else ''any''))"

definition pf_carryover_k :: "string \<Rightarrow> services \<Rightarrow> fl" where
  "pf_carryover_k meat v =
     (case kv_get ''notify'' (carry_key meat) v of
        None \<Rightarrow> 1
      | Some j \<Rightarrow> (let k = pf_json_num (Some j) ''k'' 1 in if 1 / 5 < k \<and> k < 5 then k else 1))"

text \<open>The document the correction is kept as: three decimals; a value JSON has no number for does not parse again.\<close>

fun carry_json :: "fl \<Rightarrow> int \<Rightarrow> json" where
  "carry_json (Fin r) n = JObj [(''k'', JNum (Fin (of_int (rint (1000 * r)) / 1000))), (''n'', JNum (int_to_fl n))]"
| "carry_json _ n = JNull"

definition pf_carryover_learn :: "string \<Rightarrow> fl \<Rightarrow> fl \<Rightarrow> services \<Rightarrow> services" where
  "pf_carryover_learn meat predicted_c actual_c v =
     (if \<not> es_db_open (sv_ev v) \<or> \<not> 0.3 < predicted_c \<or> \<not> 0 \<le> actual_c then v
      else (let old = kv_get ''notify'' (carry_key meat) v;
                k = (case old of Some j \<Rightarrow> pf_json_num (Some j) ''k'' 1 | None \<Rightarrow> 1);
                n = (case old of Some j \<Rightarrow> fl_to_int (pf_json_num (Some j) ''n'' 0) | None \<Rightarrow> 0);
                ratio = actual_c / predicted_c;
                ratio = (if ratio < 0.3 then 0.3 else ratio);
                ratio = (if 3 < ratio then 3 else ratio);
                w = (if n + 1 < 5 then n + 1 else 5)
            in kv_put ''notify'' (carry_key meat) (carry_json (k + (ratio - k) / int_to_fl w) (n + 1)) v))"

definition pf_carryover_model_c :: "fl \<Rightarrow> fl \<Rightarrow> fl \<Rightarrow> fl" where
  "pf_carryover_model_c rate_c_s centre_c cook_c =
     (if \<not> isfinite cook_c \<or> \<not> isfinite centre_c \<or> \<not> Fin (1 / 100000) < rate_c_s then pf_carryover_c rate_c_s
      else (let gap = cook_c - centre_c
            in if \<not> 0 < gap then 0
               else (let tau = gap / rate_c_s;
                         g = tau / 100000;
                         g = (if g < 0.04 then 0.04 else g);
                         g = (if 0.08 < g then 0.08 else g);
                         c = g * gap;
                         c = (if rate_c_s < CARRY_FADE_RATE_C_S then c * (rate_c_s / CARRY_FADE_RATE_C_S) else c)
                     in if CARRY_MODEL_MAX_C < c then CARRY_MODEL_MAX_C else c)))"

definition pf_carryover_learned_c :: "fl \<Rightarrow> fl \<Rightarrow> fl \<Rightarrow> string \<Rightarrow> services \<Rightarrow> fl" where
  "pf_carryover_learned_c rate_c_s centre_c cook_c meat v =
     (let c = pf_carryover_model_c rate_c_s centre_c cook_c * pf_carryover_k meat v
      in if CARRY_LEARNED_MAX_C < c then CARRY_LEARNED_MAX_C else if c < 0 then 0 else c)"

definition pf_notify_rest_pull_c :: "fl \<Rightarrow> fl \<Rightarrow> fl \<Rightarrow> fl \<Rightarrow> string \<Rightarrow> services \<Rightarrow> fl" where
  "pf_notify_rest_pull_c rest_c rate_c_s centre_c cook_c meat v =
     rest_c + pf_notify_rest_margin_c v - pf_carryover_learned_c rate_c_s centre_c cook_c meat v"

definition reads_finite :: "pf_probe_reading \<Rightarrow> bool" where
  "reads_finite r \<longleftrightarrow> pr_valid r \<and> isfinite (pr_temp_c r)"

text \<open>The ambient sensor beside a probe, when it reads.\<close>

definition ambient_of :: "pf_sensors \<Rightarrow> nat \<Rightarrow> fl option" where
  "ambient_of s si =
     (case sensor_at s (pr_companion (sn_p s ! si)) of
        Some r \<Rightarrow> if reads_finite r then Some (pr_temp_c r) else None | None \<Rightarrow> None)"

definition cook_temp_c :: "pf_notify \<Rightarrow> pf_sensors \<Rightarrow> nat \<Rightarrow> fl" where
  "cook_temp_c n s si =
     (case ambient_of s si of
        Some t \<Rightarrow> t
      | None \<Rightarrow> if 0 < nt_cook_temp_c n then nt_cook_temp_c n
                else (case sensor_at s (sn_primary s) of
                        Some r \<Rightarrow> if pr_valid r then pr_temp_c r else NaN | None \<Rightarrow> NaN))"

definition pf_notify_set_rest :: "string \<Rightarrow> fl \<Rightarrow> int \<Rightarrow> services \<Rightarrow> pf_notify \<Rightarrow> pf_notify \<times> int" where
  "pf_notify_set_rest label rest_c after v n =
     (if \<not> 0 < rest_c then pf_notify_set_target label 0 after n
      else (let rate = pf_notify_probe_rate n label;
                meat = (case pf_notify_find n label of Some p \<Rightarrow> np_meat p | None \<Rightarrow> []);
                (n', rc) = pf_notify_set_target label (pf_notify_rest_pull_c rest_c rate NaN NaN meat v) after n
            in if rc \<noteq> 0 then (n', -1)
               else (fst (on_probe label (\<lambda>p. p\<lparr>np_rest_c := rest_c, np_carry_sm_c := -1, np_finish_c := rest_c\<rparr>) n'), 0)))"

section \<open>The estimate\<close>

definition push_sample :: "fl \<Rightarrow> pf_notify_probe \<Rightarrow> pf_notify_probe" where
  "push_sample c p =
     p\<lparr>np_hist := (np_hist p)[np_hist_head p := c],
       np_hist_head := Suc (np_hist_head p) mod PF_ETA_SAMPLES,
       np_hist_len := (if np_hist_len p < PF_ETA_SAMPLES then Suc (np_hist_len p) else np_hist_len p)\<rparr>"

text \<open>The nearest step the meat has not reached: the first of the lowest.\<close>

definition nearer :: "pf_notify_step option \<Rightarrow> pf_notify_step \<Rightarrow> pf_notify_step option" where
  "nearer best st =
     (if \<not> ns_fired st \<and> (case best of None \<Rightarrow> True | Some b \<Rightarrow> ns_temp_c st < ns_temp_c b) then Some st else best)"

definition recalc_eta :: "fl \<Rightarrow> pf_notify_probe \<Rightarrow> pf_notify_probe" where
  "recalc_eta cook_c p =
     (let lin = probe_hist p;
          p = p\<lparr>np_eta_step_s := -1, np_next_step := []\<rparr>;
          p = (case foldl nearer None (np_steps p) of
                 None \<Rightarrow> p
               | Some st \<Rightarrow>
                   (let es = pf_notify_estimate_eta_to lin (ns_temp_c st) ETA_INTERVAL_S cook_c
                    in p\<lparr>np_eta_step_s := (if 0 \<le> es then es else -1), np_next_step := sn 24 (ns_name st)\<rparr>));
          e = pf_notify_estimate_eta_to lin (np_target_c p) ETA_INTERVAL_S cook_c
      in if e < 0 then p\<lparr>np_eta_s := -1\<rparr>
         else (let prev = (if 0 < np_eta_s p then np_eta_s p - ETA_RECALC_S else -1)
               in p\<lparr>np_eta_s := (if 0 < prev then 0.6 * e + 0.4 * prev else e)\<rparr>))"

definition after_text :: "int \<Rightarrow> string" where
  "after_text after =
     (if after = PF_AFTER_SHUTDOWN then '' '' @ mid_dot @ '' Shutting down''
      else if after = PF_AFTER_KEEPWARM then '' '' @ mid_dot @ '' Keep warm'' else [])"

section \<open>Steps\<close>

text \<open>A step of the list in settings; one that is not changed keeps what it had said.\<close>

definition read_step :: "pf_units \<Rightarrow> pf_notify_step list \<Rightarrow> json \<Rightarrow> pf_notify_step" where
  "read_step units keep it =
     (let nm = cut 24 (pf_json_str (Some it) ''name'' ''Step'');
          t = pf_to_c (pf_json_num (Some it) ''temp'' 0) units
      in \<lparr>ns_name = nm, ns_temp_c = t,
          ns_fired = (case find_index (\<lambda>k. \<bar>ns_temp_c k - t\<bar> < 0.01 \<and> ns_name k = nm) keep of
                        Some i \<Rightarrow> ns_fired (keep ! i) | None \<Rightarrow> False)\<rparr>)"

definition load_steps :: "pf_units \<Rightarrow> settings \<Rightarrow> pf_notify_probe \<Rightarrow> pf_notify_probe" where
  "load_steps units st p =
     p\<lparr>np_steps := map (read_step units (np_steps p))
        (take PF_MAX_STEPS (filter (\<lambda>it. 0 < pf_json_num (Some it) ''temp'' 0)
           (j_children (pf_set_dup (sn 128 (''notify.probe_steps.'' @ np_label p)) st))))\<rparr>"

definition deg_text :: "pf_units \<Rightarrow> string" where
  "deg_text u = degree @ (if u = UnitsC then ''C'' else ''F'')"

definition speak_step :: "bool \<Rightarrow> pf_units \<Rightarrow> pf_probe_reading \<Rightarrow> string \<Rightarrow> pf_notify_step \<Rightarrow> services \<Rightarrow> pf_notify_step \<times> services" where
  "speak_step cooking units r label st v =
     (let t = pr_temp_c r
      in if \<not> ns_fired st \<and> cooking \<and> ns_temp_c st \<le> t
         then (let v = emit_event ''Probe_Step'' (ns_name st)
                         (Msg (''%s: %s '' @ mid_dot @ '' %.0f%s'')
                           [AStr (pr_name r), AStr (ns_name st), AFl (pf_from_c t units), AStr (deg_text units)]) v
               in (st\<lparr>ns_fired := True\<rparr>,
                   v\<lparr>sv_alarms := pf_alarms_flash_probe_code ''Probe_Step'' label (pr_name r) (ns_name st) (sv_alarms v)\<rparr>))
         else if ns_fired st \<and> t < ns_temp_c st - pf_delta_to_c 2 units then (st\<lparr>ns_fired := False\<rparr>, v)
         else (st, v))"

fun speak_steps :: "bool \<Rightarrow> pf_units \<Rightarrow> pf_probe_reading \<Rightarrow> string \<Rightarrow> pf_notify_step list \<Rightarrow> services \<Rightarrow> pf_notify_step list \<times> services" where
  "speak_steps cooking units r label [] v = ([], v)"
| "speak_steps cooking units r label (st # sts) v =
     (case speak_step cooking units r label st v of (st', v) \<Rightarrow>
        (case speak_steps cooking units r label sts v of (sts', v) \<Rightarrow> (st' # sts', v)))"

section \<open>The tick of a probe, concern by concern\<close>

definition take_sample :: "fl \<Rightarrow> fl \<Rightarrow> pf_notify_probe \<Rightarrow> pf_notify_probe" where
  "take_sample now t p =
     (if ETA_INTERVAL_S \<le> now - np_last_sample_t p then push_sample t (p\<lparr>np_last_sample_t := now\<rparr>) else p)"

definition since_tick :: "fl \<Rightarrow> pf_notify_probe \<Rightarrow> fl" where
  "since_tick now p = (if 0 < np_last_tick_t p then now - np_last_tick_t p else 0)"

definition follow :: "fl \<Rightarrow> fl \<Rightarrow> fl \<Rightarrow> fl \<Rightarrow> fl" where
  "follow over dt x raw = x + (raw - x) * fmin 1 (dt / over)"

definition follow_cook :: "fl \<Rightarrow> fl \<Rightarrow> pf_notify_probe \<Rightarrow> pf_notify_probe" where
  "follow_cook now cook_raw p =
     (let p' = (if isfinite cook_raw
                then p\<lparr>np_cook_sm_c := (if \<not> 0 < np_cook_sm_c p then cook_raw
                                        else follow 240 (since_tick now p) (np_cook_sm_c p) cook_raw)\<rparr>
                else p)
      in p'\<lparr>np_last_tick_t := now\<rparr>)"

text \<open>The rest starts here: what the correction will be measured from.\<close>

definition start_rest :: "fl \<Rightarrow> fl \<Rightarrow> fl \<Rightarrow> pf_notify_probe \<Rightarrow> pf_notify_probe" where
  "start_rest now t rate_now p =
     p\<lparr>np_rest_watch := True, np_pull_c := t, np_pull_rate := rate_now, np_pull_predicted_c := np_carry_sm_c p,
       np_rest_peak_c := t, np_rest_peak_t := now, np_rest_watch_t := now\<rparr>"

definition follow_ambient :: "fl \<Rightarrow> pf_notify_probe \<Rightarrow> pf_notify_probe" where
  "follow_ambient amb p =
     (if np_removed p then p
      else if \<not> 0 < np_amb_on p \<or> np_amb_on p < amb then p\<lparr>np_amb_on := amb\<rparr>
      else if np_amb_on p - 20 < amb then p\<lparr>np_amb_on := np_amb_on p + (amb - np_amb_on p) * 0.02\<rparr> else p)"

text \<open>Off the heat and back on it, by the ambient sensor; the flag says the alert is to be acknowledged.\<close>

definition watch_removal :: "fl \<Rightarrow> fl \<Rightarrow> fl \<Rightarrow> fl option \<Rightarrow> pf_notify_probe \<Rightarrow> pf_notify_probe \<times> bool" where
  "watch_removal now t rate_now amb p =
     (case amb of
        None \<Rightarrow> (if np_removed p then p else p\<lparr>np_removed_n := 0\<rparr>, False)
      | Some a \<Rightarrow>
          (let p = follow_ambient a p
           in if 0 < np_target_c p \<and> t + 10 < np_amb_on p \<and> a < np_amb_on p - 20
              then (if np_removed p then (p, False)
                    else (let p = p\<lparr>np_removed_n := np_removed_n p + 1\<rparr>
                          in if 2 \<le> np_removed_n p then (start_rest now t rate_now (p\<lparr>np_removed := True\<rparr>), True)
                             else (p, False)))
              else if np_removed p \<and> np_amb_on p - 10 < a then (p\<lparr>np_removed := False, np_removed_n := 0\<rparr>, False)
              else if np_removed p then (p, False) else (p\<lparr>np_removed_n := 0\<rparr>, False)))"

text \<open>The take-off of a rest-to target follows the estimate, and close to it only comes forward.\<close>

definition next_carry :: "fl \<Rightarrow> fl \<Rightarrow> fl \<Rightarrow> fl" where
  "next_carry dt raw x = (if \<not> 0 \<le> x then raw else follow CARRY_SMOOTH_S dt x raw)"

definition rest_take_off :: "fl \<Rightarrow> fl \<Rightarrow> fl \<Rightarrow> fl \<Rightarrow> fl \<Rightarrow> pf_notify_probe \<Rightarrow> pf_notify_probe" where
  "rest_take_off raw dt t k margin p =
     (if 0 < np_rest_c p \<and> \<not> np_reached p
      then (let p = p\<lparr>np_carry_sm_c := next_carry dt raw (np_carry_sm_c p)\<rparr>;
                carry = np_carry_sm_c p * k;
                carry = (if CARRY_LEARNED_MAX_C < carry then CARRY_LEARNED_MAX_C else carry);
                off = np_rest_c p + margin - carry;
                off = (if 0 < np_target_c p \<and> np_target_c p - CARRY_FREEZE_C \<le> t \<and> np_target_c p < off
                       then np_target_c p else off)
            in p\<lparr>np_target_c := off\<rparr>)
      else p)"

definition watch_rest :: "fl \<Rightarrow> fl \<Rightarrow> fl option \<Rightarrow> pf_notify_probe \<Rightarrow> services \<Rightarrow> pf_notify_probe \<times> services" where
  "watch_rest now t amb p v =
     (if \<not> np_rest_watch p then (p, v)
      else (let p = (if np_rest_peak_c p < t then p\<lparr>np_rest_peak_c := t, np_rest_peak_t := now\<rparr> else p)
            in if (case amb of Some a \<Rightarrow> a < 40 \<and> t \<le> a + 3 | None \<Rightarrow> False) then (p\<lparr>np_rest_watch := False\<rparr>, v)
               else if 1.1 \<le> np_rest_peak_c p - t
               then (p\<lparr>np_rest_watch := False\<rparr>,
                     if (np_rest_peak_c p - t) / fmax (now - np_rest_peak_t p) 1 < 0.1
                     then pf_carryover_learn (np_meat p) (np_pull_predicted_c p) (np_rest_peak_c p - np_pull_c p) v else v)
               else if 1800 < now - np_rest_watch_t p then (p\<lparr>np_rest_watch := False\<rparr>, v)
               else (p, v)))"

text \<open>The target: met once, with what is to happen after it.\<close>

definition meet_target :: "bool \<Rightarrow> fl \<Rightarrow> fl \<Rightarrow> fl \<Rightarrow> fl \<Rightarrow> pf_notify_probe \<Rightarrow> pf_notify_probe \<times> int option" where
  "meet_target do_eta now t rate_now cook_c p =
     (if 0 < np_target_c p \<and> \<not> np_reached p
      then if np_target_c p \<le> t
           then (let p = (if 0 < np_rest_c p \<and> \<not> np_removed p then start_rest now t rate_now p else p);
                     p = p\<lparr>np_reached := True, np_eta_s := -1\<rparr>
                 in if np_after p \<noteq> PF_AFTER_NONE then (p\<lparr>np_after := PF_AFTER_NONE\<rparr>, Some (np_after p)) else (p, None))
           else (if do_eta then recalc_eta cook_c p else p, None)
      else (p, None))"

definition limit_event :: "string \<Rightarrow> pf_units \<Rightarrow> pf_probe_reading \<Rightarrow> fl \<Rightarrow> services \<Rightarrow> services" where
  "limit_event title units r limit =
     emit_event ''Probe_Temp_Limit_Alarm'' title
       (Msg (''%s %.0f%s '' @ mid_dot @ '' Limit %.0f%s'')
         [AStr (pr_name r), AFl (pf_from_c (pr_temp_c r) units), AStr (deg_text units), AFl (pf_from_c limit units),
          AStr (deg_text units)])"

definition high_limit :: "pf_units \<Rightarrow> pf_probe_reading \<Rightarrow> pf_notify_probe \<Rightarrow> services \<Rightarrow> pf_notify_probe \<times> services" where
  "high_limit units r p v =
     (let t = pr_temp_c r; lim = np_limit_high_c p
      in if 0 < lim
         then if lim < t \<and> \<not> np_high_tripped p
              then (p\<lparr>np_high_tripped := True\<rparr>, limit_event ''High Temperature Alarm'' units r lim v)
              else (if t \<le> lim - pf_delta_to_c 2 units then p\<lparr>np_high_tripped := False\<rparr> else p, v)
         else (p, v))"

definition low_limit :: "bool \<Rightarrow> pf_units \<Rightarrow> pf_probe_reading \<Rightarrow> pf_notify_probe \<Rightarrow> services \<Rightarrow> pf_notify_probe \<times> services" where
  "low_limit cooking units r p v =
     (let t = pr_temp_c r; lim = np_limit_low_c p
      in if 0 < lim \<and> cooking
         then if t < lim \<and> \<not> np_low_tripped p
              then (p\<lparr>np_low_tripped := True\<rparr>, limit_event ''Low Temperature Alarm'' units r lim v)
              else (if lim + pf_delta_to_c 2 units \<le> t then p\<lparr>np_low_tripped := False\<rparr> else p, v)
         else (p, v))"

section \<open>The tick\<close>

definition rule_ack_key :: "string \<Rightarrow> string" where
  "rule_ack_key label = sn 96 (''RULE_probe-target:'' @ take 32 label)"

definition put_probe :: "nat \<Rightarrow> pf_notify_probe \<Rightarrow> pf_notify \<Rightarrow> pf_notify" where
  "put_probe i p n = n\<lparr>nt_probes := (nt_probes n)[i := p]\<rparr>"

text \<open>What the target of a probe asks: everything up to the steps.\<close>

definition tick_target ::
    "pf_sensors \<Rightarrow> nat \<Rightarrow> bool \<Rightarrow> fl \<Rightarrow> pf_notify \<Rightarrow> pf_notify_probe \<Rightarrow> services \<Rightarrow> pf_notify_probe \<times> int option \<times> services" where
  "tick_target s si do_eta now n p v =
     (let t = pr_temp_c (sn_p s ! si);
          amb = ambient_of s si;
          cook_raw = cook_temp_c n s si;
          rate_now = (if 0 < np_target_c p then pf_notify_probe_rate n (np_label p) else 0);
          dt = since_tick now p;
          p = follow_cook now cook_raw p;
          cook_c = (if isfinite cook_raw then np_cook_sm_c p else NaN);
          (p, off_heat) = watch_removal now t rate_now amb p;
          v = (if off_heat then v\<lparr>sv_alarms := fst (pf_alarms_ack (sv_wall v) (rule_ack_key (np_label p)) (sv_alarms v))\<rparr> else v);
          p = rest_take_off (pf_carryover_model_c (pf_notify_probe_rate_long n (np_label p)) t cook_c) dt t
                (pf_carryover_k (np_meat p) v) (pf_notify_rest_margin_c v) p;
          (p, v) = watch_rest now t amb p v;
          (p, act) = meet_target do_eta now t rate_now cook_c p
      in (p, act, v))"

definition tick_rest ::
    "bool \<Rightarrow> pf_units \<Rightarrow> pf_probe_reading \<Rightarrow> pf_notify_probe \<Rightarrow> services \<Rightarrow> pf_notify_probe \<times> services" where
  "tick_rest cooking units r p v =
     (let p = load_steps units (sv_set v) p;
          (sts, v) = speak_steps cooking units r (np_label p) (np_steps p) v;
          (p, v) = high_limit units r (p\<lparr>np_steps := sts\<rparr>) v
      in low_limit cooking units r p v)"

definition tick_entry ::
    "pf_sensors \<Rightarrow> bool \<Rightarrow> bool \<Rightarrow> fl \<Rightarrow> pf_units \<Rightarrow> nat \<Rightarrow> pf_notify \<times> services \<Rightarrow> pf_notify \<times> services" where
  "tick_entry s cooking do_eta now units i = (\<lambda>(n, v).
     let p = nt_probes n ! i
     in case pf_probes_find s (np_label p) of
          None \<Rightarrow> (n, v)
        | Some si \<Rightarrow>
            (let r = sn_p s ! si
             in if \<not> pr_valid r then (n, v)
                else (let p = take_sample now (pr_temp_c r) p;
                          n = put_probe i p n;
                          (p, act, v) = tick_target s si do_eta now n p v;
                          n = (case act of Some a \<Rightarrow> n\<lparr>nt_pending_action := a\<rparr> | None \<Rightarrow> n);
                          (p, v) = tick_rest cooking units r p v
                      in (put_probe i p n, v))))"

definition timer_text :: "fl \<Rightarrow> int \<Rightarrow> msg" where
  "timer_text duration after =
     Msg ''%d:%02d%s'' [AInt (fl_to_int (duration / 60)), AInt (c_rem (fl_to_int duration) 60), AStr (after_text after)]"

definition tick_timer :: "fl \<Rightarrow> pf_notify \<times> services \<Rightarrow> pf_notify \<times> services" where
  "tick_timer now = (\<lambda>(n, v).
     let tm = nt_timer n
     in if tm_running tm \<and> \<not> tm_paused tm \<and> tm_end_t tm \<le> now
        then (let v = emit_event ''Timer_Expired'' ''Timer Complete'' (timer_text (tm_duration tm) (tm_after tm)) v;
                  v = v\<lparr>sv_alarms := pf_alarms_flash_code ''Timer_Expired'' ''TIMER'' (sv_alarms v)\<rparr>;
                  n = pf_notify_timer_cancel n
              in (if tm_after tm \<noteq> PF_AFTER_NONE then n\<lparr>nt_pending_action := tm_after tm\<rparr> else n, v))
        else (n, v))"

definition tick_cooking :: "pf_mode \<Rightarrow> bool" where
  "tick_cooking mode \<longleftrightarrow> mode = STARTUP \<or> mode = REIGNITE \<or> mode = SMOKE \<or> mode = HOLD"

definition pf_notify_tick :: "pf_sensors \<Rightarrow> pf_mode \<Rightarrow> fl \<Rightarrow> pf_units \<Rightarrow> pf_notify \<times> services \<Rightarrow> pf_notify \<times> services" where
  "pf_notify_tick s mode now units = (\<lambda>(n, v).
     let do_eta = (ETA_RECALC_S \<le> now - nt_last_eta_t n);
         n = (if do_eta then n\<lparr>nt_last_eta_t := now\<rparr> else n)
     in tick_timer now (fold (tick_entry s (tick_cooking mode) do_eta now units) [0..<length (nt_probes n)] (n, v)))"

end
