(* ===== verification/Notify_Correct.thy ===== *)
theory Notify_Correct
  imports Notify
begin

text \<open>
  What the notifications keep: the readings of a probe are a lossy ring, the carry-over model and the take-off
  of a rest-to target stay within their bounds, and what is to happen after a target happens once.
\<close>

section \<open>The readings of a probe\<close>

definition hist_ok :: "pf_notify_probe \<Rightarrow> bool" where
  "hist_ok p \<longleftrightarrow> length (np_hist p) = PF_ETA_SAMPLES \<and> np_hist_head p < PF_ETA_SAMPLES \<and> np_hist_len p \<le> PF_ETA_SAMPLES"

lemma probe_hist_push: "hist_ok p \<Longrightarrow> probe_hist (push_sample c p) = last_n PF_ETA_SAMPLES (probe_hist p @ [c])"
  using ring_list_put [of "np_hist_head p" "np_hist p" "np_hist_len p" PF_ETA_SAMPLES c]
  by (cases "np_hist_len p < PF_ETA_SAMPLES") (simp_all add: probe_hist_def push_sample_def hist_ok_def)

lemma hist_ok_push: "hist_ok p \<Longrightarrow> hist_ok (push_sample c p)"
  by (auto simp: hist_ok_def push_sample_def PF_ETA_SAMPLES_def)

interpretation probe_ring: lossy_ring PF_ETA_SAMPLES push_sample probe_hist hist_ok
  by unfold_locales (simp_all add: probe_hist_push hist_ok_push, simp add: probe_hist_def hist_ok_def)

section \<open>Bounds\<close>

text \<open>A number between two reals.\<close>

definition in_range :: "fl \<Rightarrow> real \<Rightarrow> real \<Rightarrow> bool" where
  "in_range x lo hi \<longleftrightarrow> (\<exists>r. x = Fin r \<and> lo \<le> r \<and> r \<le> hi)"

lemma in_range_Fin [simp]: "in_range (Fin r) lo hi \<longleftrightarrow> lo \<le> r \<and> r \<le> hi"
  by (auto simp: in_range_def)

lemma in_rangeE: "in_range x lo hi \<Longrightarrow> (\<And>r. x = Fin r \<Longrightarrow> lo \<le> r \<Longrightarrow> r \<le> hi \<Longrightarrow> P) \<Longrightarrow> P"
  by (auto simp: in_range_def)

lemma carryover_range: "0 \<le> r \<Longrightarrow> in_range (pf_carryover_c (Fin r)) 0 14"
  by (auto simp: pf_carryover_c_def PF_CARRYOVER_TAU_S_def PF_CARRYOVER_MAX_C_def Let_def)

lemma carryover_model_range:
  assumes "0 \<le> r"
  shows "in_range (pf_carryover_model_c (Fin r) t cook) 0 14"
proof (cases "isfinite cook \<and> isfinite t \<and> Fin (1 / 100000) < Fin r")
  case False
  then show ?thesis using carryover_range [OF assms] by (auto simp: pf_carryover_model_c_def)
next
  case True
  then obtain c x where eq: "cook = Fin c" "t = Fin x" by (auto simp: isfinite_iff)
  show ?thesis
  proof (cases "0 < c - x")
    case False
    then show ?thesis using True by (simp add: pf_carryover_model_c_def eq)
  next
    case gap: True
    define y where "y = (c - x) / r / 100000"
    define g where "g = (if 8 / 100 < (if y < 4 / 100 then 4 / 100 else y) then 8 / 100 else (if y < 4 / 100 then 4 / 100 else y))"
    have "0 \<le> g" by (auto simp: g_def)
    with gap have "0 \<le> g * (c - x)" by simp
    then have "0 \<le> g * (c - x) * (r / (4 / 1000))" using assms by simp
    with \<open>0 \<le> g * (c - x)\<close> show ?thesis using True gap
      by (simp add: pf_carryover_model_c_def eq CARRY_FADE_RATE_C_S_def CARRY_MODEL_MAX_C_def Let_def g_def y_def)
  qed
qed

lemma plain_slope_range: "\<exists>r. plain_slope xs = Fin r \<and> 0 \<le> r"
  by (auto simp: plain_slope_def Let_def isfinite_iff)

lemma rate_long_range: "\<exists>r. pf_notify_probe_rate_long n label = Fin r \<and> 0 \<le> r"
  using plain_slope_range by (auto simp: pf_notify_probe_rate_long_def split: option.split)

lemma carryover_k_range: "in_range (pf_carryover_k meat v) (1 / 5) 5"
proof -
  have "in_range (if 1 / 5 < k \<and> k < 5 then k else 1) (1 / 5) 5" for k :: fl
    by (cases k) auto
  then show ?thesis by (auto simp: pf_carryover_k_def Let_def split: option.split)
qed

lemma rest_margin_range: "in_range (pf_notify_rest_margin_c v) 0 20"
proof -
  have "in_range (if u = UnitsC then (if \<not> 0 \<le> x \<or> 20 < x then 2 else x) else (if \<not> 0 \<le> x \<or> 20 < x then 2 else x) * 5 / 9) 0 20"
    for x u by (cases x) auto
  then show ?thesis unfolding pf_notify_rest_margin_c_def Let_def by blast
qed

text \<open>A first-order follower stays between where it is and what it follows.\<close>

lemma follow_range:
  assumes "in_range x lo hi" "in_range raw lo hi" "\<not> dt < 0" "0 < over"
  shows "in_range (follow (Fin over) dt x raw) lo hi"
proof -
  obtain a b where eq: "x = Fin a" "raw = Fin b" and r: "lo \<le> a" "a \<le> hi" "lo \<le> b" "b \<le> hi"
    using assms by (auto simp: in_range_def)
  have "\<exists>w. fmin 1 (dt / Fin over) = Fin w \<and> 0 \<le> w \<and> w \<le> 1"
    using assms(3,4) by (cases dt) (auto simp: fmin_def)
  then obtain w where w: "fmin 1 (dt / Fin over) = Fin w" "0 \<le> w" "w \<le> 1" by blast
  have "(1 - w) * lo + w * lo \<le> (1 - w) * a + w * b" using w r by (intro add_mono mult_left_mono) auto
  moreover have "(1 - w) * a + w * b \<le> (1 - w) * hi + w * hi" using w r by (intro add_mono mult_left_mono) auto
  ultimately have "lo \<le> a + (b - a) * w" "a + (b - a) * w \<le> hi" by (simp_all add: algebra_simps)
  then show ?thesis by (simp add: follow_def eq w(1) [unfolded one_fl_def])
qed

text \<open>A rest-to target is aimed within 20 degrees below the rest asked for and its margin, and never above.\<close>

definition aimed :: "real \<Rightarrow> pf_notify_probe \<Rightarrow> bool" where
  "aimed m p \<longleftrightarrow> (\<forall>rest. np_rest_c p = Fin rest \<longrightarrow> 0 < rest \<longrightarrow>
     in_range (np_target_c p) (rest + m - 20) (rest + m) \<and> (np_carry_sm_c p < 0 \<or> in_range (np_carry_sm_c p) 0 14))"

lemma rest_take_off_aimed:
  assumes "aimed m p" and raw: "in_range raw 0 14" and dt: "\<not> dt < 0" and k: "in_range k (1 / 5) 5"
  shows "aimed m (rest_take_off raw dt t k (Fin m) p)"
proof (cases "0 < np_rest_c p \<and> \<not> np_reached p")
  case False
  with assms(1) show ?thesis by (simp only: rest_take_off_def if_False)
next
  case True
  show ?thesis
  proof (cases "np_rest_c p")
    case (Fin rest)
    then have rest: "np_rest_c p = Fin rest" "0 < rest" using True by simp_all
    then have tgt: "in_range (np_target_c p) (rest + m - 20) (rest + m)"
      and sm: "np_carry_sm_c p < 0 \<or> in_range (np_carry_sm_c p) 0 14"
      using assms(1) unfolding aimed_def by blast+
    have "in_range (next_carry dt raw (np_carry_sm_c p)) 0 14"
    proof (cases "0 \<le> np_carry_sm_c p")
      case pos: True
      then have "in_range (np_carry_sm_c p) 0 14" using sm by (auto dest: fl_less_not_le)
      then show ?thesis using pos follow_range [OF _ raw dt, of _ 300] by (simp add: next_carry_def CARRY_SMOOTH_S_def)
    qed (use raw in \<open>simp add: next_carry_def\<close>)
    then obtain c where c: "next_carry dt raw (np_carry_sm_c p) = Fin c" "0 \<le> c" "c \<le> 14" by (rule in_rangeE)
    obtain x where x: "k = Fin x" "1 / 5 \<le> x" "x \<le> 5" using k by (rule in_rangeE)
    have "0 \<le> c * x" using c x by simp
    obtain g where g: "np_target_c p = Fin g" "rest + m - 20 \<le> g" "g \<le> rest + m" using tgt by (rule in_rangeE)
    show ?thesis
      using True rest c(2,3) \<open>0 \<le> c * x\<close> g
      by (auto simp: rest_take_off_def aimed_def c(1) x(1) Let_def CARRY_LEARNED_MAX_C_def)
  qed (simp_all add: rest_take_off_def aimed_def Let_def)
qed

section \<open>Frames\<close>

text \<open>The fields the target of a probe is worked from, and the steps of the tick that leave them alone.\<close>

definition goal_of :: "pf_notify_probe \<Rightarrow> fl \<times> fl \<times> fl" where
  "goal_of p = (np_target_c p, np_rest_c p, np_carry_sm_c p)"

lemma aimed_goal: "goal_of p = goal_of q \<Longrightarrow> aimed m p = aimed m q"
  by (simp add: goal_of_def aimed_def)

lemma goal_rest: "goal_of p = goal_of q \<Longrightarrow> np_rest_c p = np_rest_c q"
  by (simp add: goal_of_def)

definition act_of :: "pf_notify_probe \<Rightarrow> int \<times> bool" where "act_of p = (np_after p, np_reached p)"

lemma push_sample_frame [frame]: "goal_of (push_sample c p) = goal_of p" "act_of (push_sample c p) = act_of p"
  "np_last_tick_t (push_sample c p) = np_last_tick_t p" "np_label (push_sample c p) = np_label p"
  by (simp_all add: push_sample_def goal_of_def act_of_def)

lemma take_sample_frame [frame]: "goal_of (take_sample now t p) = goal_of p" "act_of (take_sample now t p) = act_of p"
  "np_last_tick_t (take_sample now t p) = np_last_tick_t p" "np_label (take_sample now t p) = np_label p"
  by (simp_all add: take_sample_def push_sample_def goal_of_def act_of_def)

lemma follow_cook_frame [frame]: "goal_of (follow_cook now c p) = goal_of p" "act_of (follow_cook now c p) = act_of p"
  "np_last_tick_t (follow_cook now c p) = now" "np_label (follow_cook now c p) = np_label p"
  by (simp_all add: follow_cook_def goal_of_def act_of_def Let_def)

lemma start_rest_frame [frame]: "goal_of (start_rest now t r p) = goal_of p" "act_of (start_rest now t r p) = act_of p"
  "np_last_tick_t (start_rest now t r p) = np_last_tick_t p" "np_label (start_rest now t r p) = np_label p"
  by (simp_all add: start_rest_def goal_of_def act_of_def)

lemma watch_removal_frame [frame]:
  "goal_of (fst (watch_removal now t r amb p)) = goal_of p" "act_of (fst (watch_removal now t r amb p)) = act_of p"
  "np_last_tick_t (fst (watch_removal now t r amb p)) = np_last_tick_t p"
  "np_label (fst (watch_removal now t r amb p)) = np_label p"
  by (simp_all add: watch_removal_def follow_ambient_def start_rest_def goal_of_def act_of_def Let_def split: option.split)

lemma rest_take_off_frame [frame]:
  "act_of (rest_take_off raw dt t k m p) = act_of p" "np_last_tick_t (rest_take_off raw dt t k m p) = np_last_tick_t p"
  "np_label (rest_take_off raw dt t k m p) = np_label p" "np_rest_c (rest_take_off raw dt t k m p) = np_rest_c p"
  by (simp_all add: rest_take_off_def act_of_def Let_def)

lemma watch_rest_frame [frame]:
  "goal_of (fst (watch_rest now t amb p v)) = goal_of p" "act_of (fst (watch_rest now t amb p v)) = act_of p"
  "np_last_tick_t (fst (watch_rest now t amb p v)) = np_last_tick_t p"
  "np_label (fst (watch_rest now t amb p v)) = np_label p"
  by (simp_all add: watch_rest_def goal_of_def act_of_def Let_def)

lemma recalc_eta_frame [frame]: "goal_of (recalc_eta c p) = goal_of p" "act_of (recalc_eta c p) = act_of p"
  "np_last_tick_t (recalc_eta c p) = np_last_tick_t p" "np_label (recalc_eta c p) = np_label p"
  by (simp_all add: recalc_eta_def goal_of_def act_of_def Let_def split: option.split)

lemma meet_target_frame [frame]:
  "goal_of (fst (meet_target e now t r c p)) = goal_of p" "np_last_tick_t (fst (meet_target e now t r c p)) = np_last_tick_t p"
  "np_label (fst (meet_target e now t r c p)) = np_label p"
  using recalc_eta_frame [of c p] start_rest_frame [of now t r p]
  by (simp_all add: meet_target_def Let_def goal_of_def)

lemma limits_frame [frame]:
  "goal_of (fst (high_limit u r p v)) = goal_of p" "act_of (fst (high_limit u r p v)) = act_of p"
  "np_last_tick_t (fst (high_limit u r p v)) = np_last_tick_t p" "np_label (fst (high_limit u r p v)) = np_label p"
  "goal_of (fst (low_limit c u r p v)) = goal_of p" "act_of (fst (low_limit c u r p v)) = act_of p"
  "np_last_tick_t (fst (low_limit c u r p v)) = np_last_tick_t p" "np_label (fst (low_limit c u r p v)) = np_label p"
  by (simp_all add: high_limit_def low_limit_def goal_of_def act_of_def Let_def)

lemma tick_rest_frame [frame]:
  "goal_of (fst (tick_rest c u r p v)) = goal_of p" "act_of (fst (tick_rest c u r p v)) = act_of p"
  "np_last_tick_t (fst (tick_rest c u r p v)) = np_last_tick_t p" "np_label (fst (tick_rest c u r p v)) = np_label p"
  using limits_frame
  by (simp_all add: tick_rest_def load_steps_def goal_of_def act_of_def Let_def split_beta)

text \<open>The settings are only read.\<close>

lemma services_frame [frame]:
  "sv_set (emit_event c t m v) = sv_set v" "sv_set (kv_put ns key j v) = sv_set v"
  "sv_set (pf_carryover_learn meat a b v) = sv_set v" "sv_set (limit_event ti u r l v) = sv_set v"
  by (simp_all add: emit_event_def kv_put_def pf_carryover_learn_def limit_event_def Let_def)

lemma watch_rest_set [frame]: "sv_set (snd (watch_rest now t amb p v)) = sv_set v"
  by (simp add: watch_rest_def services_frame Let_def)

lemma speak_step_set: "sv_set (snd (speak_step c u r l st v)) = sv_set v"
  by (simp add: speak_step_def services_frame Let_def)

lemma speak_steps_set [frame]: "sv_set (snd (speak_steps c u r l sts v)) = sv_set v"
  by (induction sts arbitrary: v) (simp_all add: split_beta speak_step_set)

lemma tick_rest_set [frame]: "sv_set (snd (tick_rest c u r p v)) = sv_set v"
  by (simp add: tick_rest_def high_limit_def low_limit_def services_frame speak_steps_set split_beta Let_def)

section \<open>The target of a probe\<close>

lemma since_tick_nonneg: "\<not> now < np_last_tick_t p \<Longrightarrow> \<not> since_tick now p < 0"
  by (cases now; cases "np_last_tick_t p") (simp_all add: since_tick_def)

lemma aimed_step:
  assumes "aimed m q" "goal_of q' = goal_of q" "\<not> dt < 0" "pf_notify_rest_margin_c w = Fin m"
  shows "aimed m (rest_take_off (pf_carryover_model_c (pf_notify_probe_rate_long n l) t c) dt t (pf_carryover_k meat w)
                   (pf_notify_rest_margin_c w) q')"
proof -
  obtain r where r: "pf_notify_probe_rate_long n l = Fin r" "0 \<le> r" using rate_long_range by blast
  have "aimed m q'" using assms(1,2) aimed_goal by blast
  from rest_take_off_aimed [OF this carryover_model_range [OF r(2)] assms(3) carryover_k_range]
  show ?thesis by (simp add: r(1) assms(4))
qed

lemma margin_set: "sv_set w = sv_set v \<Longrightarrow> pf_notify_rest_margin_c w = pf_notify_rest_margin_c v"
  by (simp add: pf_notify_rest_margin_c_def)

lemma tick_target_aimed:
  assumes "aimed m p" "\<not> now < np_last_tick_t p" "pf_notify_rest_margin_c v = Fin m"
  shows "aimed m (fst (tick_target s si e now n p v))"
  unfolding tick_target_def Let_def split_beta fst_conv
  apply (subst aimed_goal [OF meet_target_frame(1)])
  apply (subst aimed_goal [OF watch_rest_frame(1)])
  apply (rule aimed_step [OF assms(1)])
    apply (simp add: watch_removal_frame follow_cook_frame)
   apply (rule since_tick_nonneg [OF assms(2)])
  apply (simp add: margin_set [of _ v] assms(3))
  done

lemma tick_target_frame [frame]:
  "np_last_tick_t (fst (tick_target s si e now n p v)) = now" "np_label (fst (tick_target s si e now n p v)) = np_label p"
  "sv_set (snd (snd (tick_target s si e now n p v))) = sv_set v" "np_rest_c (fst (tick_target s si e now n p v)) = np_rest_c p"
  unfolding tick_target_def Let_def split_beta
  by (simp_all add: meet_target_frame watch_rest_frame rest_take_off_frame watch_removal_frame follow_cook_frame watch_rest_set
    goal_rest [OF meet_target_frame(1)] goal_rest [OF watch_rest_frame(1)] goal_rest [OF watch_removal_frame(1)]
    goal_rest [OF follow_cook_frame(1)])

text \<open>What the target asks for afterwards is what the probe was told, once.\<close>

lemma meet_target_act:
  "snd (meet_target e now t r c p) = None \<Longrightarrow> np_after (fst (meet_target e now t r c p)) = np_after p"
  "snd (meet_target e now t r c p) = Some a \<Longrightarrow>
     np_after p = a \<and> \<not> np_reached p \<and> np_target_c p \<le> t \<and>
     np_after (fst (meet_target e now t r c p)) = PF_AFTER_NONE \<and> np_reached (fst (meet_target e now t r c p))"
  using recalc_eta_frame(2) [of c p]
  by (auto simp: meet_target_def start_rest_def act_of_def Let_def split: if_splits)

lemma tick_target_act:
  assumes "fst (snd (tick_target s si e now n p v)) = Some a"
  shows "np_after p = a" "\<not> np_reached p" "np_after (fst (tick_target s si e now n p v)) = PF_AFTER_NONE"
    "np_reached (fst (tick_target s si e now n p v))"
    "np_target_c (fst (tick_target s si e now n p v)) \<le> pr_temp_c (sn_p s ! si)"
proof -
  obtain p' cook v' where eq: "tick_target s si e now n p v =
      (fst (meet_target e now (pr_temp_c (sn_p s ! si)) (if 0 < np_target_c p then pf_notify_probe_rate n (np_label p) else 0) cook p'),
       snd (meet_target e now (pr_temp_c (sn_p s ! si)) (if 0 < np_target_c p then pf_notify_probe_rate n (np_label p) else 0) cook p'), v')"
    and act: "act_of p' = act_of p"
    unfolding tick_target_def Let_def split_beta
    using watch_rest_frame(2) rest_take_off_frame(1) watch_removal_frame(2) follow_cook_frame(2)
    by (metis (no_types, lifting))
  have g: "goal_of (fst (tick_target s si e now n p v)) = goal_of p'" by (simp add: eq meet_target_frame)
  from assms have "snd (meet_target e now (pr_temp_c (sn_p s ! si))
      (if 0 < np_target_c p then pf_notify_probe_rate n (np_label p) else 0) cook p') = Some a" by (simp add: eq)
  from meet_target_act(2) [OF this] act g
  show "np_after p = a" "\<not> np_reached p" "np_after (fst (tick_target s si e now n p v)) = PF_AFTER_NONE"
    "np_reached (fst (tick_target s si e now n p v))"
    "np_target_c (fst (tick_target s si e now n p v)) \<le> pr_temp_c (sn_p s ! si)"
    by (simp_all add: eq act_of_def goal_of_def)
qed

section \<open>The tick of every probe\<close>

text \<open>What one probe's turn does: its own entry, the request it makes, and the settings kept.\<close>

definition asked :: "pf_sensors \<Rightarrow> pf_notify_probe \<Rightarrow> pf_notify_probe \<Rightarrow> int \<Rightarrow> bool" where
  "asked s p p' a \<longleftrightarrow> np_after p = a \<and> np_after p' = PF_AFTER_NONE \<and> \<not> np_reached p \<and> np_reached p' \<and>
     (\<exists>si. pf_probes_find s (np_label p) = Some si \<and> np_target_c p' \<le> pr_temp_c (sn_p s ! si))"

definition turn :: "pf_sensors \<Rightarrow> fl \<Rightarrow> fl \<Rightarrow> pf_notify_probe \<Rightarrow> pf_notify_probe \<Rightarrow> bool" where
  "turn s now m p p' \<longleftrightarrow> np_label p' = np_label p \<and> np_rest_c p' = np_rest_c p \<and>
     (np_last_tick_t p' = np_last_tick_t p \<or> np_last_tick_t p' = now) \<and>
     (\<forall>r. m = Fin r \<longrightarrow> \<not> now < np_last_tick_t p \<longrightarrow> aimed r p \<longrightarrow> aimed r p')"

lemma turn_refl [simp]: "turn s now m p p"
  by (simp add: turn_def)

lemma tick_entry_turn:
  assumes i: "i < length (nt_probes n)"
    and r: "tick_entry s cooking e now u i (n, v) = (n', v')"
  obtains (turned) p' where "nt_probes n' = (nt_probes n)[i := p']" "turn s now (pf_notify_rest_margin_c v) (nt_probes n ! i) p'"
    "sv_set v' = sv_set v" "nt_timer n' = nt_timer n"
    "nt_pending_action n' = nt_pending_action n \<or> asked s (nt_probes n ! i) p' (nt_pending_action n')"
proof -
  let ?p = "nt_probes n ! i"
  have same: thesis if "n' = n" "v' = v"
    by (rule turned [of ?p]) (simp_all add: that)
  show thesis
  proof (cases "pf_probes_find s (np_label ?p)")
    case None
    then show ?thesis using r by (intro same) (simp_all add: tick_entry_def)
  next
    case (Some si)
    show ?thesis
    proof (cases "pr_valid (sn_p s ! si)")
      case False
      then show ?thesis using r Some by (intro same) (simp_all add: tick_entry_def)
    next
      case True
      define q where "q = take_sample now (pr_temp_c (sn_p s ! si)) ?p"
      define t where "t = tick_target s si e now (put_probe i q n) q v"
      define p' where "p' = fst (tick_rest cooking u (sn_p s ! si) (fst t) (snd (snd t)))"
      have n': "n' = put_probe i p' (case fst (snd t) of Some a \<Rightarrow> (put_probe i q n)\<lparr>nt_pending_action := a\<rparr> | None \<Rightarrow> put_probe i q n)"
        and v': "v' = snd (tick_rest cooking u (sn_p s ! si) (fst t) (snd (snd t)))"
        using r Some True by (simp_all add: tick_entry_def Let_def split_beta q_def [symmetric] t_def [symmetric] p'_def)
      have q: "aimed m q = aimed m ?p" "np_last_tick_t q = np_last_tick_t ?p" "np_label q = np_label ?p"
        "act_of q = act_of ?p" "np_rest_c q = np_rest_c ?p" for m
        by (simp_all add: q_def take_sample_frame aimed_goal [OF take_sample_frame(1)] goal_rest [OF take_sample_frame(1)])
      have p': "np_rest_c p' = np_rest_c ?p" "np_label p' = np_label ?p" "np_last_tick_t p' = now" "goal_of p' = goal_of (fst t)" "act_of p' = act_of (fst t)"
        by (simp_all add: p'_def tick_rest_frame goal_rest [OF tick_rest_frame(1)] t_def tick_target_frame q)
      have aim: "aimed m p'" if "pf_notify_rest_margin_c v = Fin m" "\<not> now < np_last_tick_t ?p" "aimed m ?p" for m
        using tick_target_aimed [of m q now v s si e "put_probe i q n"] that aimed_goal [OF p'(4), of m]
        by (simp add: q t_def)
      have ask: "asked s ?p p' a" if "fst (snd t) = Some a" for a
        using tick_target_act [of s si e now "put_probe i q n" q v a] that q(4) p'(4,5) Some
        by (auto simp: t_def [symmetric] asked_def act_of_def goal_of_def)
      show ?thesis
      proof (rule turned [of p'])
        show "nt_probes n' = (nt_probes n)[i := p']" "nt_timer n' = nt_timer n"
          by (simp_all add: n' put_probe_def split: option.split)
        show "turn s now (pf_notify_rest_margin_c v) ?p p'" using p' aim by (auto simp: turn_def)
        show "sv_set v' = sv_set v" by (simp add: v' tick_rest_set t_def tick_target_frame)
        show "nt_pending_action n' = nt_pending_action n \<or> asked s ?p p' (nt_pending_action n')"
          using ask by (auto simp: n' put_probe_def split: option.splits)
      qed
    qed
  qed
qed

lemma tick_probes:
  assumes "k \<le> length (nt_probes n)" "fold (tick_entry s cooking e now u) [0..<k] (n, v) = (n', v')"
  shows "length (nt_probes n') = length (nt_probes n) \<and> sv_set v' = sv_set v \<and> nt_timer n' = nt_timer n \<and>
     (\<forall>i < length (nt_probes n). turn s now (pf_notify_rest_margin_c v) (nt_probes n ! i) (nt_probes n' ! i) \<and>
        (k \<le> i \<longrightarrow> nt_probes n' ! i = nt_probes n ! i)) \<and>
     (nt_pending_action n' = nt_pending_action n \<or>
      (\<exists>i < k. asked s (nt_probes n ! i) (nt_probes n' ! i) (nt_pending_action n')))"
  using assms
proof (induction k arbitrary: n' v')
  case 0
  then show ?case by simp
next
  case (Suc k)
  obtain n1 v1 where one: "fold (tick_entry s cooking e now u) [0..<k] (n, v) = (n1, v1)" by force
  from Suc.IH [OF _ one] Suc.prems(1) have IH: "length (nt_probes n1) = length (nt_probes n)" "sv_set v1 = sv_set v"
    "nt_timer n1 = nt_timer n" "\<And>i. i < length (nt_probes n) \<Longrightarrow> turn s now (pf_notify_rest_margin_c v) (nt_probes n ! i) (nt_probes n1 ! i)"
    "\<And>i. k \<le> i \<Longrightarrow> i < length (nt_probes n) \<Longrightarrow> nt_probes n1 ! i = nt_probes n ! i"
    "nt_pending_action n1 = nt_pending_action n \<or> (\<exists>i < k. asked s (nt_probes n ! i) (nt_probes n1 ! i) (nt_pending_action n1))"
    by auto
  have k: "k < length (nt_probes n1)" using Suc.prems(1) IH(1) by simp
  have "tick_entry s cooking e now u k (n1, v1) = (n', v')" using Suc.prems(2) one by simp
  with k obtain p' where p': "nt_probes n' = (nt_probes n1)[k := p']"
    "turn s now (pf_notify_rest_margin_c v1) (nt_probes n1 ! k) p'" "sv_set v' = sv_set v1" "nt_timer n' = nt_timer n1"
    "nt_pending_action n' = nt_pending_action n1 \<or> asked s (nt_probes n1 ! k) p' (nt_pending_action n')"
    by (rule tick_entry_turn)
  have m: "pf_notify_rest_margin_c v1 = pf_notify_rest_margin_c v" by (rule margin_set [OF IH(2)])
  have "nt_probes n1 ! k = nt_probes n ! k" using IH(5) k IH(1) by simp
  moreover have "nt_probes n' ! i = (if i = k then p' else nt_probes n1 ! i)" for i using p'(1) k by simp
  ultimately have "nt_pending_action n' = nt_pending_action n \<or>
      (\<exists>i < Suc k. asked s (nt_probes n ! i) (nt_probes n' ! i) (nt_pending_action n'))"
    using p'(5) IH(6) by (metis less_Suc_eq nat_neq_iff)
  with p' m IH k show ?case
    by (auto simp: nth_list_update)
qed

lemma tick_timer_facts:
  assumes "tick_timer now (n, v) = (n', v')"
  shows "nt_probes n' = nt_probes n" "sv_set v' = sv_set v"
    "nt_pending_action n' = nt_pending_action n \<or>
     tm_running (nt_timer n) \<and> \<not> tm_paused (nt_timer n) \<and> tm_end_t (nt_timer n) \<le> now \<and>
       tm_after (nt_timer n) = nt_pending_action n' \<and> nt_timer n' = zero_timer"
  using assms by (auto simp: tick_timer_def pf_notify_timer_cancel_def services_frame Let_def split: if_splits)

lemma tick_facts:
  assumes "pf_notify_tick s mode now u (n, v) = (n', v')"
  shows "length (nt_probes n') = length (nt_probes n)" "sv_set v' = sv_set v"
    "\<And>i. i < length (nt_probes n) \<Longrightarrow> turn s now (pf_notify_rest_margin_c v) (nt_probes n ! i) (nt_probes n' ! i)"
    "nt_pending_action n' = nt_pending_action n \<or>
     (\<exists>i < length (nt_probes n). asked s (nt_probes n ! i) (nt_probes n' ! i) (nt_pending_action n')) \<or>
     tm_running (nt_timer n) \<and> \<not> tm_paused (nt_timer n) \<and> tm_end_t (nt_timer n) \<le> now \<and>
       tm_after (nt_timer n) = nt_pending_action n' \<and> nt_timer n' = zero_timer"
proof -
  define e where "e = (ETA_RECALC_S \<le> now - nt_last_eta_t n)"
  define n0 where "n0 = (if e then n\<lparr>nt_last_eta_t := now\<rparr> else n)"
  have n0: "nt_probes n0 = nt_probes n" "nt_timer n0 = nt_timer n" "nt_pending_action n0 = nt_pending_action n"
    by (simp_all add: n0_def)
  obtain n1 v1 where one: "fold (tick_entry s (tick_cooking mode) e now u) [0..<length (nt_probes n0)] (n0, v) = (n1, v1)"
    by force
  have two: "tick_timer now (n1, v1) = (n', v')"
    using assms unfolding pf_notify_tick_def Let_def prod.case e_def [symmetric] n0_def [symmetric] one .
  note f = tick_probes [OF le_refl one] and g = tick_timer_facts [OF two]
  from f g n0 show "length (nt_probes n') = length (nt_probes n)" "sv_set v' = sv_set v"
    "\<And>i. i < length (nt_probes n) \<Longrightarrow> turn s now (pf_notify_rest_margin_c v) (nt_probes n ! i) (nt_probes n' ! i)"
    "nt_pending_action n' = nt_pending_action n \<or>
     (\<exists>i < length (nt_probes n). asked s (nt_probes n ! i) (nt_probes n' ! i) (nt_pending_action n')) \<or>
     tm_running (nt_timer n) \<and> \<not> tm_paused (nt_timer n) \<and> tm_end_t (nt_timer n) \<le> now \<and>
       tm_after (nt_timer n) = nt_pending_action n' \<and> nt_timer n' = zero_timer"
    by auto
qed

section \<open>Histories\<close>

text \<open>What is done to the notifications, in order, and the times of the ticks, which do not go back.\<close>

datatype notify_op =
    NSync pf_sensors
  | NTarget string fl int
  | NNote string string string fl
  | NRest string fl int
  | NLimits string fl fl
  | NCookTemp fl
  | NTick pf_sensors pf_mode fl pf_units

fun notify_exec :: "notify_op \<Rightarrow> pf_notify \<times> services \<Rightarrow> pf_notify \<times> services" where
  "notify_exec (NSync s) (n, v) = (pf_notify_sync s n, v)"
| "notify_exec (NTarget l t a) (n, v) = (fst (pf_notify_set_target l t a n), v)"
| "notify_exec (NNote l me d f) (n, v) = (pf_notify_set_target_note l me d f n, v)"
| "notify_exec (NRest l t a) (n, v) = (fst (pf_notify_set_rest l t a v n), v)"
| "notify_exec (NLimits l h w) (n, v) = (fst (pf_notify_set_limits l h w n), v)"
| "notify_exec (NCookTemp t) (n, v) = (n\<lparr>nt_cook_temp_c := t\<rparr>, v)"
| "notify_exec (NTick s mode now u) (n, v) = pf_notify_tick s mode now u (n, v)"

fun ticks_from :: "fl \<Rightarrow> notify_op list \<Rightarrow> bool" where
  "ticks_from t [] = True"
| "ticks_from t (NTick s mode now u # ops) = (t \<le> now \<and> ticks_from now ops)"
| "ticks_from t (op # ops) = ticks_from t ops"

text \<open>Every rest-to target is aimed, and no entry was ticked later than now.\<close>

definition aims :: "real \<Rightarrow> fl \<Rightarrow> pf_notify \<Rightarrow> bool" where
  "aims m t n \<longleftrightarrow> (\<forall>p \<in> set (nt_probes n). aimed m p \<and> np_last_tick_t p \<le> t)"

lemma aims_on_probe:
  assumes "aims m t n" "\<And>p. p \<in> set (nt_probes n) \<Longrightarrow> aimed m (f p) \<and> np_last_tick_t (f p) \<le> t"
  shows "aims m t (fst (on_probe l f n))"
proof (cases "notify_index l n")
  case None
  then show ?thesis using assms(1) by (simp add: on_probe_def)
next
  case (Some i)
  then have "i < length (nt_probes n)" unfolding notify_index_def find_index_Some by blast
  then show ?thesis using assms Some set_update_subset_insert [of "nt_probes n" i "f (nt_probes n ! i)"]
    by (auto simp: on_probe_def aims_def)
qed

lemma aimed_target_set: "aimed m (target_set c a p)" "np_last_tick_t (target_set c a p) = np_last_tick_t p"
  by (simp_all add: target_set_def aimed_def Let_def)

lemma aims_sync: "aims m t n \<Longrightarrow> 0 \<le> t \<Longrightarrow> aims m t (pf_notify_sync s n)"
proof -
  assume a: "aims m t n" "0 \<le> t"
  have "aimed m (case pf_notify_find n l of Some old \<Rightarrow> old | None \<Rightarrow> fresh_probe l) \<and>
      np_last_tick_t (case pf_notify_find n l of Some old \<Rightarrow> old | None \<Rightarrow> fresh_probe l) \<le> t" for l
    using a by (auto simp: pf_notify_find_def notify_index_def find_index_Some aims_def fresh_probe_def aimed_def split: option.split)
  then show ?thesis by (auto simp: pf_notify_sync_def aims_def)
qed

lemma weighted_slope_range: "\<exists>r. fst (weighted_slope xs) = Fin r \<and> 0 \<le> r"
proof -
  have gen: "\<exists>r. (if d \<le> 0 then 0 else if 0 < x \<and> \<not> isnan x \<and> \<not> isinf x then x else (0::fl)) = Fin r \<and> 0 \<le> r" for x d :: fl
    by (cases x) auto
  show ?thesis
  proof (cases "length xs < 1 \<or> PF_ETA_SAMPLES < length xs")
    case True
    then show ?thesis by (auto simp: weighted_slope_def)
  next
    case False
    show ?thesis unfolding weighted_slope_def Let_def by (simp only: False if_False fst_conv) (rule gen)
  qed
qed

lemma probe_rate_range: "\<exists>r. pf_notify_probe_rate n l = Fin r \<and> 0 \<le> r"
proof (cases "pf_notify_find n l")
  case (Some p)
  obtain r where "fst (weighted_slope (probe_hist p)) = Fin r" "0 \<le> r" using weighted_slope_range by blast
  then show ?thesis using Some by (auto simp: pf_notify_probe_rate_def ETA_INTERVAL_S_def intro: exI [of _ "r / 3"])
qed (simp add: pf_notify_probe_rate_def)

lemma learned_range:
  assumes "0 \<le> r"
  shows "in_range (pf_carryover_learned_c (Fin r) t c meat v) 0 20"
proof -
  obtain a where a: "pf_carryover_model_c (Fin r) t c = Fin a" "0 \<le> a" "a \<le> 14"
    using carryover_model_range [OF assms] by (rule in_rangeE)
  obtain k where k: "pf_carryover_k meat v = Fin k" "1 / 5 \<le> k" "k \<le> 5" using carryover_k_range by (rule in_rangeE)
  have "0 \<le> a * k" using a k by simp
  then show ?thesis by (simp add: pf_carryover_learned_c_def a(1) k(1) Let_def CARRY_LEARNED_MAX_C_def)
qed

text \<open>Setting a rest-to target aims it.\<close>

lemma aimed_set_rest:
  assumes "pf_notify_rest_margin_c v = Fin m" "0 \<le> r" "0 < rest"
  shows "aimed m ((target_set (pf_notify_rest_pull_c rest (Fin r) t c meat v) a p)
           \<lparr>np_rest_c := rest, np_carry_sm_c := -1, np_finish_c := rest\<rparr>)"
proof -
  obtain x where x: "pf_carryover_learned_c (Fin r) t c meat v = Fin x" "0 \<le> x" "x \<le> 20"
    using learned_range [OF assms(2)] by (rule in_rangeE)
  have "0 \<le> m" using rest_margin_range [of v] assms(1) by (simp add: in_range_def)
  with x assms(1,3) show ?thesis
    by (cases rest) (auto simp: aimed_def target_set_def pf_notify_rest_pull_c_def Let_def)
qed

lemma aims_set_rest:
  assumes "aims m t n" "pf_notify_rest_margin_c v = Fin m"
  shows "aims m t (fst (pf_notify_set_rest l rest a v n))"
proof (cases "0 < rest")
  case False
  then show ?thesis using aims_on_probe [OF assms(1), of "target_set 0 a" l] assms(1)
    by (simp add: pf_notify_set_rest_def pf_notify_set_target_def aimed_target_set aims_def)
next
  case True
  obtain r where r: "pf_notify_probe_rate n l = Fin r" "0 \<le> r" using probe_rate_range by blast
  define me where "me = (case pf_notify_find n l of Some p \<Rightarrow> np_meat p | None \<Rightarrow> [])"
  define f where "f = target_set (pf_notify_rest_pull_c rest (Fin r) NaN NaN me v) a"
  define g where "g = (\<lambda>p::pf_notify_probe. p\<lparr>np_rest_c := rest, np_carry_sm_c := -1, np_finish_c := rest\<rparr>)"
  have eq: "pf_notify_set_rest l rest a v n =
      (case on_probe l f n of (n', rc) \<Rightarrow> if rc \<noteq> 0 then (n', -1) else (fst (on_probe l g n'), 0))"
    unfolding pf_notify_set_rest_def pf_notify_set_target_def Let_def r me_def [symmetric] f_def g_def
    using True by simp
  have keep: "np_label (f p) = np_label p" for p by (simp add: f_def target_set_def Let_def)
  show ?thesis
  proof (cases "notify_index l n")
    case None
    then show ?thesis using assms(1) by (simp add: eq on_probe_def)
  next
    case (Some i)
    let ?n = "n\<lparr>nt_probes := (nt_probes n)[i := f (nt_probes n ! i)]\<rparr>"
    have i: "i < length (nt_probes n)" "np_label (nt_probes n ! i) = l" "\<forall>j < i. np_label (nt_probes n ! j) \<noteq> l"
      using Some by (simp_all add: notify_index_def find_index_Some)
    then have "notify_index l ?n = Some i" by (simp add: notify_index_def find_index_Some keep)
    then have fin: "fst (pf_notify_set_rest l rest a v n) = n\<lparr>nt_probes := (nt_probes n)[i := g (f (nt_probes n ! i))]\<rparr>"
      using Some i by (simp add: eq on_probe_def)
    have "aimed m (g (f p))" for p unfolding f_def g_def using assms(2) r(2) True by (rule aimed_set_rest)
    moreover have "np_last_tick_t (g (f p)) = np_last_tick_t p" for p by (simp add: f_def g_def aimed_target_set)
    ultimately show ?thesis using fin assms(1) i(1) set_update_subset_insert [of "nt_probes n" i "g (f (nt_probes n ! i))"]
      by (auto simp: aims_def)
  qed
qed

lemma aims_exec:
  assumes "aims m t n" "pf_notify_rest_margin_c v = Fin m" "0 \<le> t" "ticks_from t (op # ops)"
  shows "\<exists>t'. 0 \<le> t' \<and> aims m t' (fst (notify_exec op (n, v))) \<and> ticks_from t' ops \<and>
     pf_notify_rest_margin_c (snd (notify_exec op (n, v))) = Fin m"
proof (cases op)
  case (NTick s mode now u)
  then have now: "t \<le> now" "ticks_from now ops" using assms(4) by simp_all
  obtain n' v' where r: "pf_notify_tick s mode now u (n, v) = (n', v')" by force
  note f = tick_facts [OF r]
  have "aimed m (nt_probes n' ! i) \<and> np_last_tick_t (nt_probes n' ! i) \<le> now" if "i < length (nt_probes n)" for i
  proof -
    have old: "aimed m (nt_probes n ! i)" "np_last_tick_t (nt_probes n ! i) \<le> t" using assms(1) that by (simp_all add: aims_def)
    then have "np_last_tick_t (nt_probes n ! i) \<le> now" using now(1) fl_le_trans by blast
    moreover have "now \<le> now" using now(1) by (cases now) (auto dest: fl_le_trans)
    ultimately show ?thesis using f(3) [OF that] old(1) assms(2) unfolding turn_def by (metis fl_less_not_le)
  qed
  then have "aims m now n'" by (auto simp: aims_def f(1) in_set_conv_nth)
  then show ?thesis using NTick r now fl_le_trans [OF assms(3) now(1)] margin_set [OF f(2)] assms(2)
    by (intro exI [of _ now]) simp
qed (use assms in \<open>auto intro!: exI [of _ t] aims_on_probe aims_sync aims_set_rest
  simp: pf_notify_set_target_def pf_notify_set_target_note_def pf_notify_set_limits_def aimed_target_set,
  auto simp: aims_def aimed_def\<close>)

lemma aims_run:
  "aims m t n \<Longrightarrow> pf_notify_rest_margin_c v = Fin m \<Longrightarrow> 0 \<le> t \<Longrightarrow> ticks_from t ops \<Longrightarrow>
   \<exists>t'. aims m t' (fst (fold notify_exec ops (n, v)))"
proof (induction ops arbitrary: t n v)
  case (Cons op ops)
  from aims_exec [OF Cons.prems] obtain t' where "0 \<le> t'" "aims m t' (fst (notify_exec op (n, v)))" "ticks_from t' ops"
    "pf_notify_rest_margin_c (snd (notify_exec op (n, v))) = Fin m" by blast
  from Cons.IH [OF this(2,4,1,3)] show ?case by simp
qed auto

section \<open>The properties\<close>

text \<open>C34. However the notifications are driven -- probes coming and going, targets, notes, limits and rest-to targets
  set, ticks at times that do not go back -- a rest-to target is always aimed between twenty degrees below the rest asked
  for plus its margin and that temperature itself: the estimate of the carry-over never takes meat off above what was asked
  for, and never more than twenty degrees early.
\<close>

theorem rest_take_off_bounded:
  assumes "ticks_from 0 ops" "pf_notify_rest_margin_c v = Fin m"
    and "p \<in> set (nt_probes (fst (fold notify_exec ops (pf_notify_init, v))))" "np_rest_c p = Fin rest" "0 < rest"
  shows "in_range (np_target_c p) (rest + m - 20) (rest + m)"
proof -
  have "aims m 0 pf_notify_init" by (simp add: aims_def pf_notify_init_def)
  from aims_run [OF this assms(2) _ assms(1)] assms(3,4,5) show ?thesis
    unfolding aims_def aimed_def by auto
qed

text \<open>C35. A tick asks the control thread for something only when a probe met its target in it or the timer ran out, and what
  it asks for is what that probe or the timer was told.  The request is spent with it: the probe is latched as having reached
  its target with nothing more to ask, the timer is cleared.
\<close>

theorem tick_request_spent:
  assumes "pf_notify_tick s mode now u (n, v) = (n', v')" "nt_pending_action n' \<noteq> nt_pending_action n"
  shows "(\<exists>i < length (nt_probes n). asked s (nt_probes n ! i) (nt_probes n' ! i) (nt_pending_action n')) \<or>
     tm_running (nt_timer n) \<and> \<not> tm_paused (nt_timer n) \<and> tm_end_t (nt_timer n) \<le> now \<and>
       tm_after (nt_timer n) = nt_pending_action n' \<and> nt_timer n' = zero_timer"
  using tick_facts(4) [OF assms(1)] assms(2) by blast

definition example_services :: services where
  "example_services = \<lparr>sv_set = settings_example\<lparr>g_root := JObj []\<rparr>, sv_kv = (\<lambda>_. None), sv_ev = events_example,
     sv_alarms = alarms_example, sv_text = (\<lambda>_. [])\<rparr>"

definition meat_at :: "real \<Rightarrow> pf_sensors" where
  "meat_at t = zero_sensors\<lparr>sn_primary := -1,
     sn_p := [zero_reading\<lparr>pr_label := ''A'', pr_valid := True, pr_temp_c := Fin t, pr_companion := -1\<rparr>]\<rparr>"

definition rest_ops :: "notify_op list" where
  "rest_ops = [NSync (meat_at 20), NRest ''A'' 60 1, NTick (meat_at 20) SMOKE 30 UnitsC]"

lemma margin_example: "pf_notify_rest_margin_c example_services = Fin (10 / 9)"
  by code_simp

text \<open>The entry of the example before its tick.\<close>

definition aimed_example :: pf_notify where
  "aimed_example = fst (pf_notify_set_rest ''A'' 60 1 example_services (pf_notify_sync (meat_at 20) pf_notify_init))"

lemma aimed_example: "length (nt_probes aimed_example) = 1" "np_rest_c (nt_probes aimed_example ! 0) = Fin 60"
proof -
  have "pf_carryover_k me example_services = 1" for me
    by (simp add: pf_carryover_k_def kv_get_def example_services_def)
  then show "length (nt_probes aimed_example) = 1" "np_rest_c (nt_probes aimed_example ! 0) = Fin 60"
    by (simp_all add: aimed_example_def pf_notify_set_rest_def pf_notify_sync_def meat_at_def pf_notify_init_def
        pf_notify_probe_rate_def pf_notify_find_def notify_index_def on_probe_def pf_notify_set_target_def target_set_def
        fresh_probe_def PF_MAX_PROBES_def zero_sensors_def zero_reading_def Let_def)
qed

theorem rest_take_off_bounded_witness:
  "\<exists>p. nt_probes (fst (fold notify_exec rest_ops (pf_notify_init, example_services))) = [p] \<and>
     in_range (np_target_c p) (60 + 10 / 9 - 20) (60 + 10 / 9)"
proof -
  have run: "fold notify_exec rest_ops (pf_notify_init, example_services) =
      pf_notify_tick (meat_at 20) SMOKE 30 UnitsC (aimed_example, example_services)"
    by (simp add: rest_ops_def aimed_example_def)
  obtain n' v' where r: "pf_notify_tick (meat_at 20) SMOKE 30 UnitsC (aimed_example, example_services) = (n', v')" by force
  from tick_facts(1) [OF r] aimed_example(1) obtain p where p: "nt_probes n' = [p]" by (auto simp: length_Suc_conv)
  with tick_facts(3) [OF r, of 0] aimed_example have rest: "np_rest_c p = Fin 60" by (simp add: turn_def)
  have "ticks_from 0 rest_ops" by (simp add: rest_ops_def)
  moreover have "p \<in> set (nt_probes (fst (fold notify_exec rest_ops (pf_notify_init, example_services))))"
    unfolding run r fst_conv p by simp
  ultimately have "in_range (np_target_c p) (60 + 10 / 9 - 20) (60 + 10 / 9)"
    using margin_example rest by (intro rest_take_off_bounded) simp_all
  then show ?thesis unfolding run r fst_conv using p by blast
qed

definition timer_example :: pf_notify where
  "timer_example = pf_notify_timer_start 600 PF_AFTER_SHUTDOWN 0 pf_notify_init"

theorem tick_request_spent_witness:
  "nt_pending_action (fst (pf_notify_tick (meat_at 20) SMOKE 600 UnitsC (timer_example, example_services))) = PF_AFTER_SHUTDOWN \<and>
   nt_timer (fst (pf_notify_tick (meat_at 20) SMOKE 600 UnitsC (timer_example, example_services))) = zero_timer"
proof -
  obtain n' v' where r: "pf_notify_tick (meat_at 20) SMOKE 600 UnitsC (timer_example, example_services) = (n', v')" by force
  have start: "nt_probes timer_example = []" "nt_pending_action timer_example = 0"
    by (simp_all add: timer_example_def pf_notify_timer_start_def pf_notify_init_def)
  have "nt_pending_action (fst (pf_notify_tick (meat_at 20) SMOKE 600 UnitsC (timer_example, example_services))) = PF_AFTER_SHUTDOWN"
    by (simp add: pf_notify_tick_def tick_timer_def timer_example_def pf_notify_timer_start_def pf_notify_init_def
        pf_notify_timer_cancel_def PF_AFTER_SHUTDOWN_def PF_AFTER_NONE_def Let_def)
  with tick_request_spent [OF r] start r show ?thesis by (simp add: PF_AFTER_SHUTDOWN_def)
qed

end
