(* ===== verification/Recipe.thy ===== *)
theory Recipe
  imports Rules
begin

text \<open>
  \<open>src/features/recipe.c\<close>: the table of recipes and what the runner reads of one.  The table is the list of
  its rows; the text of a row's steps is what it parses to, none where the column is empty or does not parse.
  Printing a condition tree back to text is a parameter, as is the time of an update.
\<close>

section \<open>Data\<close>

definition PF_RECIPE_MAX_STEPS :: nat where "PF_RECIPE_MAX_STEPS = 16"
definition PF_RECIPE_ENDS_LEN :: nat where "PF_RECIPE_ENDS_LEN = 1024"

datatype pf_rstep_wait = RSTEP_WAIT_NONE | RSTEP_WAIT_CONFIRM | RSTEP_WAIT_LID | RSTEP_WAIT_LID_AND

record pf_recipe_step =
  rp_mode :: pf_mode
  rp_setpoint_c :: fl
  rp_s_plus :: bool
  rp_timer_s :: fl
  rp_probe :: string
  rp_probe_temp_c :: fl
  rp_probe_all :: bool
  rp_carryover :: bool
  rp_wait :: pf_rstep_wait
  rp_pause :: bool
  rp_message :: string
  rp_ends :: string
  rp_lead_s :: fl
  rp_lead_message :: string

record pf_recipe =
  rc_id :: int
  rc_name :: string
  rc_steps :: "pf_recipe_step list"

definition zero_step :: pf_recipe_step where
  "zero_step = \<lparr>rp_mode = STOP, rp_setpoint_c = 0, rp_s_plus = False, rp_timer_s = 0, rp_probe = [], rp_probe_temp_c = 0,
     rp_probe_all = False, rp_carryover = False, rp_wait = RSTEP_WAIT_NONE, rp_pause = False, rp_message = [],
     rp_ends = [], rp_lead_s = 0, rp_lead_message = []\<rparr>"

definition zero_recipe :: pf_recipe where "zero_recipe = \<lparr>rc_id = 0, rc_name = [], rc_steps = []\<rparr>"

text \<open>The array of sixteen steps, zero behind the ones in use.\<close>

definition step_at :: "pf_recipe \<Rightarrow> nat \<Rightarrow> pf_recipe_step" where
  "step_at r i = (if i < length (rc_steps r) then rc_steps r ! i else zero_step)"

record recipe_row =
  row_id :: int
  row_name :: string
  row_desc :: "string option"
  row_steps :: "json option"
  row_updated :: fl
  row_units :: "string option"

type_synonym recipe_table = "recipe_row list"

section \<open>Listing\<close>

fun bytes_le :: "string \<Rightarrow> string \<Rightarrow> bool" where
  "bytes_le [] t = True"
| "bytes_le (c # cs) [] = False"
| "bytes_le (c # cs) (d # ds) =
     (if c = d then bytes_le cs ds else (of_char c :: nat) < of_char d)"

fun insert_row :: "recipe_row \<Rightarrow> recipe_table \<Rightarrow> recipe_table" where
  "insert_row r [] = [r]"
| "insert_row r (x # xs) = (if bytes_le (row_name r) (row_name x) then r # x # xs else x # insert_row r xs)"

definition by_name :: "recipe_table \<Rightarrow> recipe_table" where "by_name t = foldr insert_row t []"

definition units_letter :: "pf_units \<Rightarrow> string" where "units_letter u = (if u = UnitsC then ''C'' else ''F'')"

definition row_json :: "pf_units \<Rightarrow> recipe_row \<Rightarrow> json" where
  "row_json u r =
     JObj [(''id'', JNum (int_to_fl (row_id r))), (''name'', JStr (row_name r)),
           (''description'', JStr (case row_desc r of Some d \<Rightarrow> d | None \<Rightarrow> [])),
           (''steps'', case row_steps r of Some j \<Rightarrow> j | None \<Rightarrow> JArr []),
           (''units'', JStr (case row_units r of Some (c # cs) \<Rightarrow> c # cs | _ \<Rightarrow> units_letter u))]"

definition pf_recipes_list :: "pf_units \<Rightarrow> recipe_table \<Rightarrow> json list" where
  "pf_recipes_list u t = map (row_json u) (by_name t)"

section \<open>Saving and deleting\<close>

definition next_id :: "recipe_table \<Rightarrow> int" where
  "next_id t = 1 + foldr (\<lambda>r m. if m < row_id r then row_id r else m) t 0"

definition is_C :: "string \<Rightarrow> bool" where "is_C t \<longleftrightarrow> (case t of c # _ \<Rightarrow> c = CHR ''C'' \<or> c = CHR ''c'' | [] \<Rightarrow> False)"

text \<open>The table after a save, with the recipe's number or what is wrong.\<close>

definition pf_recipe_save :: "pf_units \<Rightarrow> fl \<Rightarrow> json option \<Rightarrow> recipe_table \<Rightarrow> recipe_table \<times> (string + int)" where
  "pf_recipe_save u wall doc t =
     (case doc of
        None \<Rightarrow> (t, Inl ''invalid JSON'')
      | Some j \<Rightarrow>
          (let name = pf_json_str (Some j) ''name'' [];
               steps = j_get_ci ''steps'' j;
               kids = j_children steps;
               ident = pf_json_int (Some j) ''id'' 0;
               row = \<lparr>row_id = (if 0 < ident then ident else next_id t), row_name = name,
                      row_desc = Some (pf_json_str (Some j) ''description'' []), row_steps = steps, row_updated = wall,
                      row_units = Some (if is_C (pf_json_str (Some j) ''units'' (units_letter u)) then ''C'' else ''F'')\<rparr>
           in if name = [] \<or> \<not> j_is_arr steps \<or> kids = [] then (t, Inl ''name and at least one step required'')
              else if PF_RECIPE_MAX_STEPS < length kids then (t, Inl ''too many steps'')
              else if \<exists>s \<in> set kids. pf_mode_from_name (pf_json_str (Some s) ''mode'' []) = None
              then (t, Inl ''step has an unknown mode'')
              else if 0 < ident then (map (\<lambda>r. if row_id r = ident then row else r) t, Inr ident)
              else (t @ [row], Inr (row_id row))))"

definition pf_recipe_delete :: "int \<Rightarrow> recipe_table \<Rightarrow> recipe_table" where
  "pf_recipe_delete ident t = filter (\<lambda>r. row_id r \<noteq> ident) t"

section \<open>Files of recipes\<close>

definition without_id :: "json \<Rightarrow> json" where
  "without_id j = (case j of JObj ms \<Rightarrow> JObj (j_delete_ci ''id'' ms) | _ \<Rightarrow> j)"

definition with_id :: "fl \<Rightarrow> json \<Rightarrow> json" where
  "with_id i j = (case j of JObj ms \<Rightarrow> JObj (ms @ [(''id'', JNum i)]) | JArr xs \<Rightarrow> JArr (xs @ [JNum i]) | _ \<Rightarrow> j)"

definition pf_recipes_export :: "pf_units \<Rightarrow> fl \<Rightarrow> recipe_table \<Rightarrow> json" where
  "pf_recipes_export u wall t =
     JObj [(''app'', JStr ''pifire-c''), (''kind'', JStr ''recipes''), (''format'', JNum 1), (''created'', JNum wall),
           (''recipes'', JArr (map without_id (pf_recipes_list u t)))]"

definition same_named :: "string \<Rightarrow> json list \<Rightarrow> json option" where
  "same_named name have = List.find (\<lambda>h. pf_json_str (Some h) ''name'' [] = name) have"

text \<open>One recipe of the file: the table, how many came in and how many of those took the number of one there was.\<close>

definition import_one :: "pf_units \<Rightarrow> fl \<Rightarrow> json list \<Rightarrow> json \<Rightarrow> recipe_table \<times> nat \<times> nat \<Rightarrow> recipe_table \<times> nat \<times> nat" where
  "import_one u wall have r = (\<lambda>(t, n, rep).
     let copy = without_id r;
         twin = same_named (pf_json_str (Some copy) ''name'' []) have;
         copy = (case twin of Some h \<Rightarrow> with_id (pf_json_num (Some h) ''id'' 0) copy | None \<Rightarrow> copy);
         rep = (if twin \<noteq> None then rep + 1 else rep)
     in case pf_recipe_save u wall (Some copy) t of
          (t', Inr _) \<Rightarrow> (t', n + 1, rep)
        | (t', Inl _) \<Rightarrow> (t', n, rep))"

definition pf_recipes_import :: "pf_units \<Rightarrow> fl \<Rightarrow> json \<Rightarrow> recipe_table \<Rightarrow> recipe_table \<times> (string + nat \<times> nat)" where
  "pf_recipes_import u wall doc t =
     (let bare = j_is_arr (Some doc);
          lst = (if bare then Some doc else j_get_ci ''recipes'' doc)
      in if \<not> j_is_arr lst then (t, Inl ''not a recipes file'')
         else if \<not> bare \<and> pf_json_str (Some doc) ''kind'' ''recipes'' \<noteq> ''recipes''
         then (t, Inl (''that file holds '' @ pf_json_str (Some doc) ''kind'' [] @ '', not recipes''))
         else (case fold (import_one u wall (pf_recipes_list u t)) (j_children lst) (t, 0, 0) of
                 (t', n, rep) \<Rightarrow> if n = 0 then (t', Inl ''no recipe in the file could be read'') else (t', Inr (n, rep))))"

section \<open>The shape of a recipe\<close>

definition warning :: "string \<Rightarrow> string \<Rightarrow> json" where
  "warning code text1 = JObj [(''code'', JStr code), (''message'', JStr text1)]"

definition pf_recipe_shape_warnings :: "json option \<Rightarrow> json list" where
  "pf_recipe_shape_warnings steps =
     (let ms = map (\<lambda>s. pf_json_str (Some s) ''mode'' []) (j_children steps);
          cooks = (\<exists>m \<in> set ms. m = ''Startup'' \<or> m = ''Smoke'' \<or> m = ''Hold'')
      in if ms = [] then []
         else (if cooks \<and> hd ms \<noteq> ''Startup''
               then [warning ''no_startup'' ''This recipe cooks but does not start with a Startup step, so it will not light a cold grill.'']
               else []) @
              (if last ms \<noteq> ''Shutdown''
               then [warning ''no_shutdown'' ''This recipe does not end with a Shutdown step, so it will leave the grill running when it finishes.'']
               else []))"

section \<open>Older steps\<close>

definition asks_term :: "string \<Rightarrow> json" where "asks_term trait = JObj [(''trait'', JStr trait), (''op'', JStr ''is_on'')]"

definition reach_term :: "string \<Rightarrow> fl \<Rightarrow> json" where
  "reach_term trait v = JObj [(''trait'', JStr trait), (''op'', JStr ''>=''), (''value'', JNum v)]"

definition group :: "string \<Rightarrow> json list \<Rightarrow> json" where
  "group gop ts = JObj [(''op'', JStr gop), (''conditions'', JArr ts)]"

text \<open>A half of the ending: nothing, its one term, or a group of them.\<close>

definition half_of :: "string \<Rightarrow> json list \<Rightarrow> json list" where
  "half_of gop ts = (case ts of [] \<Rightarrow> [] | [x] \<Rightarrow> [x] | _ \<Rightarrow> [group gop ts])"

definition old_food_trait :: "json \<Rightarrow> string" where
  "old_food_trait st =
     (let all = pf_json_str (Some st) ''probe_match'' ''any'' = ''all'';
          carry = pf_json_bool (Some st) ''carryover'' False
      in if carry \<and> \<not> all then ''food_rested'' else if all then ''food_min'' else ''food_max'')"

definition old_reached :: "json \<Rightarrow> json list" where
  "old_reached st =
     (let mins = pf_json_num (Some st) ''timer_min'' 0; pt = pf_json_num (Some st) ''probe_temp'' 0
      in (if 0 < mins then [reach_term ''elapsed'' (mins * 60)] else []) @
         (if 0 < pt then [reach_term (old_food_trait st) pt] else []))"

definition old_wait :: "json \<Rightarrow> string" where
  "old_wait st = pf_json_str (Some st) ''wait'' (if pf_json_bool (Some st) ''pause'' False then ''confirm'' else ''none'')"

definition old_asked :: "json \<Rightarrow> json list" where
  "old_asked st =
     (let w = old_wait st
      in if w = ''none'' then []
         else asks_term ''prompt'' # (if w = ''lid'' \<or> w = ''lid_and'' then [asks_term ''lid''] else []))"

definition ends_from_old_fields :: "json \<Rightarrow> json" where
  "ends_from_old_fields st =
     group ''all'' (half_of ''any'' (old_reached st) @ half_of (if old_wait st = ''lid'' then ''any'' else ''all'') (old_asked st))"

section \<open>Loading\<close>

definition wait_of :: "string \<Rightarrow> pf_rstep_wait" where
  "wait_of w = (if w = ''lid_and'' then RSTEP_WAIT_LID_AND else if w = ''lid'' then RSTEP_WAIT_LID
                else if w = ''confirm'' then RSTEP_WAIT_CONFIRM else RSTEP_WAIT_NONE)"

definition step_tree :: "pf_units \<Rightarrow> json \<Rightarrow> json option" where
  "step_tree u s =
     pf_rules_convert_tree ''step'' u UnitsC
       (Some (case j_get_ci ''ends'' s of Some e \<Rightarrow> e | None \<Rightarrow> ends_from_old_fields s))"

definition positive_c :: "pf_units \<Rightarrow> fl \<Rightarrow> fl" where "positive_c u v = (if 0 < v then pf_to_c v u else 0)"

definition load_step :: "(json \<Rightarrow> string option) \<Rightarrow> pf_units \<Rightarrow> json \<Rightarrow> pf_recipe_step" where
  "load_step print u s =
     (let w = wait_of (pf_json_str (Some s) ''wait'' ''none'')
      in \<lparr>rp_mode = (case pf_mode_from_name (pf_json_str (Some s) ''mode'' ''Hold'') of Some m \<Rightarrow> m | None \<Rightarrow> HOLD),
          rp_setpoint_c = positive_c u (pf_json_num (Some s) ''setpoint'' 0),
          rp_s_plus = pf_json_bool (Some s) ''s_plus'' False,
          rp_timer_s = pf_json_num (Some s) ''timer_min'' 0 * 60,
          rp_probe = cut 32 (pf_json_str (Some s) ''probe'' []),
          rp_probe_temp_c = positive_c u (pf_json_num (Some s) ''probe_temp'' 0),
          rp_probe_all = (pf_json_str (Some s) ''probe_match'' ''any'' = ''all''),
          rp_carryover = pf_json_bool (Some s) ''carryover'' False,
          rp_wait = w,
          rp_pause = (pf_json_bool (Some s) ''pause'' False \<or> w \<noteq> RSTEP_WAIT_NONE),
          rp_message = cut 128 (pf_json_str (Some s) ''message'' []),
          rp_ends = (case Option.bind (step_tree u s) print of Some t \<Rightarrow> cut PF_RECIPE_ENDS_LEN t | None \<Rightarrow> []),
          rp_lead_s = pf_json_num (Some s) ''lead_min'' 0 * 60,
          rp_lead_message = cut 128 (pf_json_str (Some s) ''lead_message'' [])\<rparr>)"

definition row_unit :: "pf_units \<Rightarrow> recipe_row \<Rightarrow> pf_units" where
  "row_unit u r =
     (case row_units r of Some (c # cs) \<Rightarrow> if is_C (c # cs) then UnitsC else UnitsF | _ \<Rightarrow> u)"

text \<open>The recipe as it is left, and whether it was loaded: the memory is cleared before anything is looked up.\<close>

definition pf_recipe_load :: "(json \<Rightarrow> string option) \<Rightarrow> pf_units \<Rightarrow> recipe_table \<Rightarrow> int \<Rightarrow> pf_recipe \<times> bool" where
  "pf_recipe_load print u t ident =
     (case List.find (\<lambda>r. row_id r = ident) t of
        None \<Rightarrow> (zero_recipe, False)
      | Some r \<Rightarrow>
          (let out = zero_recipe\<lparr>rc_id := ident, rc_name := cut 64 (row_name r)\<rparr>
           in case row_steps r of
                None \<Rightarrow> (out, False)
              | Some j \<Rightarrow>
                  (let steps = map (load_step print (row_unit u r)) (take PF_RECIPE_MAX_STEPS (j_children (Some j)))
                   in (out\<lparr>rc_steps := steps\<rparr>, steps \<noteq> []))))"

section \<open>The built-in recipe\<close>

definition elapsed_term :: "fl \<Rightarrow> json" where "elapsed_term s = reach_term ''elapsed'' s"

definition hold_step :: "fl \<Rightarrow> json list \<Rightarrow> fl \<Rightarrow> string \<Rightarrow> string \<Rightarrow> json" where
  "hold_step sp conds lead lead_text text1 =
     JObj [(''mode'', JStr ''Hold''), (''setpoint'', JNum sp), (''ends'', group ''all'' conds), (''lead_min'', JNum lead),
           (''lead_message'', JStr lead_text), (''message'', JStr text1)]"

definition RIBS_321 :: json where
  "RIBS_321 =
     JObj [(''name'', JStr ''3-2-1 Ribs''), (''units'', JStr ''F''),
       (''description'', JStr ''Three hours of smoke, two wrapped, one sauced. Waits for you at each handover.''),
       (''steps'', JArr
         [JObj [(''mode'', JStr ''Startup''), (''setpoint'', JNum 180), (''message'', JStr ''Lighting, then holding at 180 F.'')],
          hold_step 180 [group ''any'' [elapsed_term 10800, reach_term ''food_max'' 160], group ''any'' [asks_term ''prompt'', asks_term ''lid'']]
            10 ''Ribs come off to wrap in about 10 minutes. Get the foil out.''
            ''Take the ribs off and wrap them in foil. Tap Next once they are back on.'',
          hold_step 225 [elapsed_term 7200, asks_term ''prompt'']
            10 ''Foil comes off in about 10 minutes. Get the sauce out.''
            ''Take the foil off, baste with sauce, and tap Next.'',
          hold_step 225 [group ''any'' [elapsed_term 3600, reach_term ''food_rested'' 205], asks_term ''prompt'']
            2 ''Ribs come off in about 2 minutes.''
            ''Ribs are done. Take them off and rest them.'',
          JObj [(''mode'', JStr ''Shutdown''), (''message'', JStr ''Shutting down.'')]])]"

definition stock_ribs :: "recipe_row \<Rightarrow> bool" where
  "stock_ribs r \<longleftrightarrow> row_name r = ''3-2-1 Ribs'' \<and>
     (case row_desc r of Some d \<Rightarrow> has_prefix_ci ''three hours of smoke, two wrapped'' d | None \<Rightarrow> False)"

text \<open>Seeded once: the flag of the database says whether it was.\<close>

definition pf_recipes_seed :: "pf_units \<Rightarrow> fl \<Rightarrow> bool \<times> recipe_table \<Rightarrow> bool \<times> recipe_table" where
  "pf_recipes_seed u wall = (\<lambda>(seeded, t).
     if seeded then (seeded, t)
     else case pf_recipe_save u wall (Some RIBS_321) (filter (\<lambda>r. \<not> stock_ribs r) t) of
            (t', Inr _) \<Rightarrow> (True, t')
          | (t', Inl _) \<Rightarrow> (False, t'))"

end
