(* ===== verification/Status.thy ===== *)
theory Status
  imports Notify Controller
begin

text \<open>
  \<open>src/core/status.h\<close> and \<open>status.c\<close>: the snapshot the control thread publishes, the copy the readers take
  and its JSON.  Temperatures are Celsius in the snapshot and in the user's units in the JSON.  What the JSON
  asks of other modules (updater, backup, tuner, weather, network) is the record \<open>status_env\<close>.
\<close>

section \<open>The snapshot\<close>

record status_notify =
  sy_after :: int
  sy_eta_s :: fl
  sy_limit_high_c :: fl
  sy_limit_low_c :: fl
  sy_eta_step_s :: fl
  sy_next_step :: string
  sy_meat :: string
  sy_done :: string
  sy_finish_c :: fl
  sy_rest_c :: fl
  sy_resting :: bool
  sy_rest_peak_c :: fl
  sy_steps :: "pf_notify_step list"

record status_recipe =
  sr_active :: bool
  sr_waiting :: bool
  sr_needs_lid :: bool
  sr_name :: string
  sr_step :: nat
  sr_nsteps :: nat
  sr_stage :: nat
  sr_stages :: nat
  sr_step_mode :: pf_mode
  sr_remaining_s :: fl
  sr_clock_s :: fl
  sr_at_temp :: bool
  sr_id :: int
  sr_flags :: "int list"
  sr_message :: string

definition no_status_recipe :: status_recipe where
  "no_status_recipe = \<lparr>sr_active = False, sr_waiting = False, sr_needs_lid = False, sr_name = [], sr_step = 0, sr_nsteps = 0,
     sr_stage = 0, sr_stages = 0, sr_step_mode = STOP, sr_remaining_s = 0, sr_clock_s = 0, sr_at_temp = False, sr_id = 0,
     sr_flags = replicate 16 0, sr_message = []\<rparr>"

text \<open>Band, times and source; none where the flag \<open>valid\<close> is off.\<close>

type_synonym ctrl_tuning = "fl \<times> fl \<times> fl \<times> string"

record pf_status =
  st_t :: fl
  st_wall :: fl
  st_mode :: pf_mode
  st_next_mode :: pf_mode
  st_mode_start :: fl
  st_aim_since :: fl
  st_setpoint_eta_s :: fl
  st_setpoint_c :: fl
  st_s_plus :: bool
  st_pwm_control :: bool
  st_duty_cycle :: int
  st_outputs :: nat
  st_fan_pct :: int
  st_u_raw :: fl
  st_u_applied :: fl
  st_saturated :: int
  st_cycle_s :: fl
  st_lid_open :: bool
  st_lid_event :: bool
  st_restart_reason :: string
  st_restart_wall :: fl
  st_restart_resumed :: bool
  st_lid_open_until :: fl
  st_target_reached :: bool
  st_shutdown_duration :: fl
  st_prime_duration :: fl
  st_prime_amount :: fl
  st_ss_active :: bool
  st_ss_proven :: bool
  st_ss_baseline_c :: fl
  st_ss_deadline :: fl
  st_heating :: bool
  st_proving :: bool
  st_pmode :: int
  st_cook_start_wall :: fl
  st_error_code :: string
  st_error_msg :: string
  st_controller_id :: string
  st_dbg :: pf_ctrl_dbg
  st_tuning :: "ctrl_tuning option"
  st_ambient_c :: fl
  st_reignite_retries_left :: int
  st_sensors :: pf_sensors
  st_notify :: "status_notify list"
  st_timer :: pf_timer
  st_recipe :: status_recipe
  st_autotune_active :: bool
  st_autotune_crossings :: nat
  st_u_ff :: fl
  st_hopper_pct :: int
  st_sim :: bool

end
