(* ===== verification/Control_State.thy ===== *)
theory Control_State
  imports Safety Controller Cycle Cmdq Recipe Notify Tuning Status
begin

text \<open>
  The state of the control thread: \<open>pf_control\<close> of \<open>src/core/control.h\<close>, as an extension of the record the
  fire supervision works on, with the modules the thread calls.  The modules this development models
  (settings, event bus, alarm table, notifications, probe snapshot, command queue, controllers, outputs) are
  in the state itself.  The others -- learning, the tuner, history, cook files, weather, pellets, the rows of the
  recipe table, cJSON -- are the record \<open>features\<close>: what they answer, as functions of a state of their own of any
  type, and what a call does to it.
\<close>

section \<open>Recipes\<close>

record recipe_run =
  rr_active :: bool
  rr_triggered :: bool
  rr_waiting :: bool
  rr_lead_fired :: bool
  rr_prompt_given :: bool
  rr_lid_seen :: bool
  rr_flags :: "int list"
  rr_wants_prompt :: bool
  rr_said :: bool
  rr_ends :: "json option"
  rr_clocks :: clocks
  rr_last_eval :: fl
  rr_left_running :: bool
  rr_step :: nat
  rr_step_start :: fl
  rr_at_temp_since :: fl
  rr_eta_s :: fl
  rr_clock_s :: fl
  rr_r :: pf_recipe

definition zero_recipe_run :: recipe_run where
  "zero_recipe_run = \<lparr>rr_active = False, rr_triggered = False, rr_waiting = False, rr_lead_fired = False,
     rr_prompt_given = False, rr_lid_seen = False, rr_flags = replicate 16 0, rr_wants_prompt = False, rr_said = False,
     rr_ends = None, rr_clocks = zero_clocks, rr_last_eval = 0, rr_left_running = False, rr_step = 0, rr_step_start = 0,
     rr_at_temp_since = 0, rr_eta_s = 0, rr_clock_s = 0, rr_r = zero_recipe\<rparr>"

section \<open>Learning and the relay test\<close>

record learn_run =
  le_steady_since :: fl
  le_last_obs_t :: fl
  le_last_disturb_t :: fl
  le_u_sum :: fl
  le_pit_sum :: fl
  le_pit_sq :: fl
  le_n :: nat
  le_u_ff :: fl
  le_rise_t0 :: fl
  le_rise_T0_c :: fl
  le_rise_u_sum :: fl
  le_rise_n :: nat
  le_rise_t28 :: fl
  le_rise_t63 :: fl
  le_rise_arrived_t :: fl
  le_rise_sp_c :: fl
  le_sp_seen_c :: fl
  le_sp_since :: fl
  le_sp_reached :: bool
  le_rise_active :: bool
  le_rise_from_step :: bool

definition zero_learn :: learn_run where
  "zero_learn = \<lparr>le_steady_since = 0, le_last_obs_t = 0, le_last_disturb_t = 0, le_u_sum = 0, le_pit_sum = 0, le_pit_sq = 0,
     le_n = 0, le_u_ff = 0, le_rise_t0 = 0, le_rise_T0_c = 0, le_rise_u_sum = 0, le_rise_n = 0, le_rise_t28 = 0,
     le_rise_t63 = 0, le_rise_arrived_t = 0, le_rise_sp_c = 0, le_sp_seen_c = 0, le_sp_since = 0, le_sp_reached = False,
     le_rise_active = False, le_rise_from_step = False\<rparr>"

definition PF_AT_MAX :: nat where "PF_AT_MAX = 24"
definition PF_AT_MIN_CROSS :: nat where "PF_AT_MIN_CROSS = 5"

record autotune_run =
  at_phase :: int
  at_u_center :: fl
  at_h :: fl
  at_hyst_c :: fl
  at_start_t :: fl
  at_last_cross_t :: fl
  at_h_cap :: fl
  at_h_floor :: fl
  at_resizes :: nat
  at_peak_max :: fl
  at_peak_min :: fl
  at_crossings :: nat
  at_halves :: "fl list"
  at_hi_peak :: "fl list"
  at_lo_peak :: "fl list"
  at_recentres :: nat
  at_err_at_move :: fl
  at_last_recentre_t :: fl
  at_hi_sum :: fl
  at_lo_sum :: fl
  at_hi_n :: nat
  at_lo_n :: nat
  at_cyc_sum :: fl
  at_cyc_n :: nat
  at_worst_split :: fl
  at_adjusts :: nat
  at_last_c_step :: fl
  at_adjust_at_cross :: nat
  at_meas_err_sum :: fl
  at_meas_err_n :: nat
  at_last_load :: fl

definition zero_autotune :: autotune_run where
  "zero_autotune = \<lparr>at_phase = 0, at_u_center = 0, at_h = 0, at_hyst_c = 0, at_start_t = 0, at_last_cross_t = 0, at_h_cap = 0,
     at_h_floor = 0, at_resizes = 0, at_peak_max = 0, at_peak_min = 0, at_crossings = 0, at_halves = replicate PF_AT_MAX 0,
     at_hi_peak = replicate PF_AT_MAX 0, at_lo_peak = replicate PF_AT_MAX 0, at_recentres = 0, at_err_at_move = 0,
     at_last_recentre_t = 0, at_hi_sum = 0, at_lo_sum = 0, at_hi_n = 0, at_lo_n = 0, at_cyc_sum = 0, at_cyc_n = 0,
     at_worst_split = 0, at_adjusts = 0, at_last_c_step = 0, at_adjust_at_cross = 0, at_meas_err_sum = 0,
     at_meas_err_n = 0, at_last_load = 0\<rparr>"

record pf_autotune_result =
  ar_Ku :: fl
  ar_Pu :: fl
  ar_PB_c :: fl
  ar_Ti :: fl
  ar_Td :: fl
  ar_amplitude_c :: fl
  ar_load :: fl
  ar_valid :: bool

record pf_fopdt =
  fo_K :: fl
  fo_tau :: fl
  fo_theta :: fl
  fo_valid :: bool

section \<open>The modules that are parameters\<close>

text \<open>The calls with an effect, with what they are given.\<close>

datatype feature_call =
    LearningForget
  | LearningClearTuning
  | LearningObserve string fl fl fl fl
  | LearningStoreFopdt fl fl fl
  | LearningStoreAnchorPlant fl fl fl fl
  | LearningStoreAutotune pf_autotune_result
  | HistoryClear
  | CookfileRequest fl fl fl fl
  | StatusPublish pf_status
  | HistoryRecord pf_status fl fl

record 'w features =
  fw_enabled :: "'w \<Rightarrow> bool"
  fw_uff :: "'w \<Rightarrow> fl \<Rightarrow> fl \<Rightarrow> fl \<Rightarrow> fl \<Rightarrow> fl"
  fw_hold_gain :: "'w \<Rightarrow> fl \<Rightarrow> fl \<Rightarrow> fl"
  fw_fit :: "'w \<Rightarrow> fl \<times> int"
  fw_fopdt :: "'w \<Rightarrow> pf_fopdt"
  fw_autotune :: "'w \<Rightarrow> pf_autotune_result"
  fw_gains :: "'w \<Rightarrow> fl \<Rightarrow> (fl \<times> fl \<times> fl) option"
  fw_plant :: "'w \<Rightarrow> fl \<Rightarrow> (fl \<times> fl \<times> fl) option"
  fw_climb_eta :: "'w \<Rightarrow> fl \<Rightarrow> fl \<Rightarrow> fl \<Rightarrow> fl \<Rightarrow> fl \<Rightarrow> fl \<Rightarrow> fl \<Rightarrow> fl"
  fw_anchor_load :: "'w \<Rightarrow> fl \<Rightarrow> fl"
  fw_tuner_active :: "'w \<Rightarrow> bool"
  fw_tuner_interrupted :: "'w \<Rightarrow> bool"
  fw_hopper_pct :: "'w \<Rightarrow> int"
  fw_weather :: "'w \<Rightarrow> fl option"
  fw_recipes :: "'w \<Rightarrow> recipe_table"
  fw_print :: "json \<Rightarrow> string option"
  fw_history :: "'w \<Rightarrow> pf_history option"
  fw_version :: string
  fw_boot_id :: "'w \<Rightarrow> string"
  fw_synced :: "'w \<Rightarrow> bool"
  fw_probes_init :: "'w \<Rightarrow> settings \<Rightarrow> probe_bank \<Rightarrow> probe_bank"
  fw_parse :: "string \<Rightarrow> json option"
  fw_do :: "feature_call \<Rightarrow> 'w \<Rightarrow> 'w"

section \<open>The control thread\<close>

record lid_ring =
  lh_t :: "fl list"
  lh_c :: "fl list"
  lh_n :: nat
  lh_head :: nat
  lh_last :: fl

text \<open>What lies outside \<open>pf_control\<close>: the modules, and the file the checkpoint is written to.\<close>

record ('s, 'w) outside =
  o_set :: settings
  o_kv :: "string \<times> string \<Rightarrow> json option"
  o_alarms :: alarms
  o_noted :: nat
  o_text :: "msg \<Rightarrow> string"
  o_bank :: probe_bank
  o_cmdq :: "pf_cmd ring"
  o_tab :: "'s pf_controller_ops list"
  o_ambient_saved :: fl
  o_file :: "json option"
  o_fw :: "'w features"
  o_w :: 'w

record ('i, 's, 'w) control = "'i grill" +
  k_sim :: bool
  k_next_mode :: pf_mode
  k_mode_start :: fl
  k_aim_since :: fl
  k_aim_pit_c :: fl
  k_eta_s :: fl
  k_eta_last_t :: fl
  k_checkpoint_path :: string
  k_checkpoint_t :: fl
  k_checkpoint_on_disk :: bool
  k_req_pending :: bool
  k_req_mode :: pf_mode
  k_req_setpoint_c :: fl
  k_s_plus :: bool
  k_pwm_control :: bool
  k_duty_cycle :: int
  k_cycle :: pf_cycle
  k_ccfg :: pf_cycle_cfg
  k_ctrl :: "('s pf_controller_ops \<times> 's) option"
  k_dbg :: pf_ctrl_dbg
  k_u_raw :: fl
  k_saturated :: int
  k_ctrl_reset_needed :: bool
  k_typed_gains :: "fl \<times> fl \<times> fl"
  k_fan_pid_active :: bool
  k_lid_open_until :: fl
  k_lid_low_c :: fl
  k_lid_hist :: lid_ring
  k_restart_reason :: string
  k_restart_wall :: fl
  k_restart_resumed :: bool
  k_recoveries :: int
  k_auger_rest_until :: fl
  k_fan_toggle_t :: fl
  k_fan_update_t :: fl
  k_fan_ramping :: bool
  k_ramp_end_t :: fl
  k_manual_until :: "pf_output \<Rightarrow> fl"
  k_prime_duration_s :: fl
  k_prime_amount_g :: fl
  k_ss_profile :: nat
  k_pit_rate_c_min :: fl
  k_pit_rate_last_c :: fl
  k_pit_rate_last_t :: fl
  k_notify :: pf_notify
  k_recipe :: recipe_run
  k_learn :: learn_run
  k_at :: autotune_run
  k_sensors :: pf_sensors
  k_ambient_from_probe :: bool
  k_auger_on_since :: fl
  k_auger_total_on_s :: fl
  k_cook_start_wall :: fl
  k_cook_max_pit_c :: fl
  k_hopper_pct :: int
  k_power_off_requested :: bool
  k_mod :: "('s, 'w) outside"

section \<open>The modules of a state\<close>

definition k_feat :: "('i, 's, 'w, 'z) control_scheme \<Rightarrow> 'w features" where "k_feat c = o_fw (k_mod c)"

definition k_w :: "('i, 's, 'w, 'z) control_scheme \<Rightarrow> 'w" where "k_w c = o_w (k_mod c)"

definition upd_mod :: "(('s, 'w) outside \<Rightarrow> ('s, 'w) outside) \<Rightarrow> ('i, 's, 'w, 'z) control_scheme \<Rightarrow> ('i, 's, 'w, 'z) control_scheme" where
  "upd_mod f c = c\<lparr>k_mod := f (k_mod c)\<rparr>"

definition feature :: "feature_call \<Rightarrow> ('i, 's, 'w, 'z) control_scheme \<Rightarrow> ('i, 's, 'w, 'z) control_scheme" where
  "feature call c = upd_mod (\<lambda>m. m\<lparr>o_w := fw_do (o_fw m) call (o_w m)\<rparr>) c"

definition k_wall :: "('i, 's, 'w, 'z) control_scheme \<Rightarrow> fl" where "k_wall c = es_wall (c_ev c)"

definition k_settings :: "('i, 's, 'w, 'z) control_scheme \<Rightarrow> settings" where "k_settings c = o_set (k_mod c)"

definition services_of :: "('i, 's, 'w, 'z) control_scheme \<Rightarrow> services" where
  "services_of c = \<lparr>sv_set = o_set (k_mod c), sv_kv = o_kv (k_mod c), sv_ev = c_ev c, sv_alarms = o_alarms (k_mod c),
     sv_text = o_text (k_mod c)\<rparr>"

definition put_services :: "services \<Rightarrow> ('i, 's, 'w, 'z) control_scheme \<Rightarrow> ('i, 's, 'w, 'z) control_scheme" where
  "put_services v c = c\<lparr>c_ev := sv_ev v, k_mod := (k_mod c)\<lparr>o_set := sv_set v, o_kv := sv_kv v, o_alarms := sv_alarms v,
     o_noted := length (es_alarms (sv_ev v))\<rparr>\<rparr>"

text \<open>An event with its entry in the alarm table, and the entries of the events the fire supervision sent.\<close>

definition tell :: "string \<Rightarrow> string \<Rightarrow> msg \<Rightarrow> ('i, 's, 'w, 'z) control_scheme \<Rightarrow> ('i, 's, 'w, 'z) control_scheme" where
  "tell code title body c = put_services (emit_event code title body (services_of c)) c"

definition catch_up :: "('i, 's, 'w, 'z) control_scheme \<Rightarrow> ('i, 's, 'w, 'z) control_scheme" where
  "catch_up c =
     (let v = services_of c
      in put_services (v\<lparr>sv_alarms := fold (note_event v) (drop (o_noted (k_mod c)) (es_alarms (sv_ev v))) (sv_alarms v)\<rparr>) c)"

definition upd_recipe :: "(recipe_run \<Rightarrow> recipe_run) \<Rightarrow> ('i, 's, 'w, 'z) control_scheme \<Rightarrow> ('i, 's, 'w, 'z) control_scheme" where
  "upd_recipe f c = c\<lparr>k_recipe := f (k_recipe c)\<rparr>"

definition upd_learn :: "(learn_run \<Rightarrow> learn_run) \<Rightarrow> ('i, 's, 'w, 'z) control_scheme \<Rightarrow> ('i, 's, 'w, 'z) control_scheme" where
  "upd_learn f c = c\<lparr>k_learn := f (k_learn c)\<rparr>"

definition upd_at :: "(autotune_run \<Rightarrow> autotune_run) \<Rightarrow> ('i, 's, 'w, 'z) control_scheme \<Rightarrow> ('i, 's, 'w, 'z) control_scheme" where
  "upd_at f c = c\<lparr>k_at := f (k_at c)\<rparr>"

definition out_fan_pct :: "int \<Rightarrow> ('i, 's, 'w, 'z) control_scheme \<Rightarrow> ('i, 's, 'w, 'z) control_scheme" where
  "out_fan_pct pct c = c\<lparr>c_out := fst (pf_outputs_fan_pct pct (c_out c))\<rparr>"

definition out_all_off :: "('i, 's, 'w, 'z) control_scheme \<Rightarrow> ('i, 's, 'w, 'z) control_scheme" where
  "out_all_off c = c\<lparr>c_out := pf_outputs_all_off (c_out c)\<rparr>"

definition is_on :: "pf_output \<Rightarrow> ('i, 's, 'w, 'z) control_scheme \<Rightarrow> bool" where
  "is_on o1 c = pf_outputs_get o1 (c_out c)"

text \<open>A cycle begun, and the feed it applies.\<close>

definition begin_cycle :: "fl \<Rightarrow> fl \<Rightarrow> ('i, 's, 'w, 'z) control_scheme \<Rightarrow> ('i, 's, 'w, 'z) control_scheme" where
  "begin_cycle now u c = c\<lparr>k_cycle := pf_cycle_begin (k_ccfg c) now u (k_cycle c)\<rparr>"

definition begin_fixed :: "fl \<Rightarrow> fl \<Rightarrow> fl \<Rightarrow> ('i, 's, 'w, 'z) control_scheme \<Rightarrow> ('i, 's, 'w, 'z) control_scheme" where
  "begin_fixed now on_s off_s c = c\<lparr>k_cycle := pf_cycle_begin_fixed (k_ccfg c) now on_s off_s (k_cycle c)\<rparr>"

definition take_feed :: "('i, 's, 'w, 'z) control_scheme \<Rightarrow> ('i, 's, 'w, 'z) control_scheme" where
  "take_feed c = c\<lparr>k_u_raw := cy_u_applied (k_cycle c), c_u_applied := cy_u_applied (k_cycle c)\<rparr>"

section \<open>Controllers\<close>

definition config_add :: "string \<Rightarrow> json \<Rightarrow> json \<Rightarrow> json" where
  "config_add k v j = (case j of JObj ms \<Rightarrow> JObj (ms @ [(k, v)]) | JArr xs \<Rightarrow> JArr (xs @ [v]) | _ \<Rightarrow> j)"

definition config_del :: "string \<Rightarrow> json \<Rightarrow> json" where
  "config_del k j = (case j of JObj ms \<Rightarrow> JObj (j_delete_ci k ms) | _ \<Rightarrow> j)"

definition controller_path :: "string \<Rightarrow> string \<Rightarrow> string" where
  "controller_path ident opt = sn 96 (''controller.config.'' @ ident @ ''.'' @ opt)"

definition controller_config_json :: "string \<Rightarrow> pf_units \<Rightarrow> ('i, 's, 'w, 'z) control_scheme \<Rightarrow> json" where
  "controller_config_json ident u c =
     (let cfg = (case pf_set_dup (sn 96 (''controller.config.'' @ ident)) (k_settings c) of Some j \<Rightarrow> j | None \<Rightarrow> JObj []);
          cfg = config_add ''_units'' (JStr (if u = UnitsC then ''C'' else ''F'')) cfg;
          cfg = config_del ''auto_tune'' cfg
      in config_add ''auto_tune'' (JBool (fw_enabled (k_feat c) (k_w c))) cfg)"

definition controller_destroy :: "('i, 's, 'w, 'z) control_scheme \<Rightarrow> ('i, 's, 'w, 'z) control_scheme" where
  "controller_destroy c = c\<lparr>k_ctrl := None\<rparr>"

definition typed_gains :: "string \<Rightarrow> ('i, 's, 'w, 'z) control_scheme \<Rightarrow> fl \<times> fl \<times> fl" where
  "typed_gains ident c =
     (pf_set_num (controller_path ident ''PB'') 0 (k_settings c),
      pf_set_num (controller_path ident ''Ti'') 0 (k_settings c),
      pf_set_num (controller_path ident ''Td'') 0 (k_settings c))"

definition ops_id :: "'s pf_controller_ops \<Rightarrow> string" where
  "ops_id o1 = (case op_id o1 of Some i \<Rightarrow> i | None \<Rightarrow> [])"

definition ctrl_id :: "('i, 's, 'w, 'z) control_scheme \<Rightarrow> string option" where
  "ctrl_id c = map_option (\<lambda>(o1, s). ops_id o1) (k_ctrl c)"

definition controller_load :: "string \<Rightarrow> ('i, 's, 'w, 'z) control_scheme \<Rightarrow> ('i, 's, 'w, 'z) control_scheme \<times> int" where
  "controller_load ident c =
     (let c = controller_destroy c;
          tab = o_tab (k_mod c);
          found = (case pf_controller_find ident tab of Some o1 \<Rightarrow> Some o1 | None \<Rightarrow> pf_controller_find ''pid'' tab)
      in case found of
           None \<Rightarrow> (c, -1)
         | Some o1 \<Rightarrow>
             (case op_create o1 of
                None \<Rightarrow> (c, -1)
              | Some create \<Rightarrow>
                  (case create (Some (controller_config_json (ops_id o1) (units (c_cfg c)) c)) of
                     None \<Rightarrow> (c, -1)
                   | Some s \<Rightarrow>
                       (upd_safety (\<lambda>sf. sf\<lparr>ctrl_fault_count := 0\<rparr>)
                          (c\<lparr>k_ctrl := Some (o1, s), k_typed_gains := typed_gains (ops_id o1) c, k_ctrl_reset_needed := True\<rparr>), 0))))"

text \<open>The tuning in force: proportional band, times, where it comes from; none when nothing says.\<close>

definition number_or :: "fl \<Rightarrow> json option \<Rightarrow> fl" where
  "number_or d j = (case j of Some (JNum v) \<Rightarrow> v | _ \<Rightarrow> d)"

definition carried_tuning :: "('i, 's, 'w, 'z) control_scheme \<Rightarrow> ctrl_tuning option" where
  "carried_tuning c =
     (case k_ctrl c of
        None \<Rightarrow> None
      | Some (o1, s) \<Rightarrow>
          (case op_state_json o1 of
             None \<Rightarrow> None
           | Some sj \<Rightarrow>
               (case sj s of
                  None \<Rightarrow> None
                | Some j \<Rightarrow>
                    (case j_get_ci ''PB_c'' j of
                       Some (JNum pb) \<Rightarrow>
                         if 0 < pb
                         then Some (pb, number_or 0 (j_get_ci ''Ti'' j), number_or 0 (j_get_ci ''Td'' j),
                                    if is_true (j_get_ci ''learned'' j) then ''learned'' else ''typed'')
                         else None
                     | _ \<Rightarrow> None))))"

definition ctrl_tuning :: "('i, 's, 'w, 'z) control_scheme \<Rightarrow> ctrl_tuning option" where
  "ctrl_tuning c =
     (case (if use_library (c_cfg c) then fw_gains (k_feat c) (k_w c) (c_setpoint_c c) else None) of
        Some (pb, ti, t) \<Rightarrow> Some (pb, ti, t, ''tuned'')
      | None \<Rightarrow>
          (case carried_tuning c of
             Some t \<Rightarrow> Some t
           | None \<Rightarrow>
               (case typed_gains (case ctrl_id c of Some i \<Rightarrow> i | None \<Rightarrow> controller_id (c_cfg c)) c of
                  (pb, ti, t) \<Rightarrow> if 0 < pb then Some (pf_delta_to_c pb (units (c_cfg c)), ti, t, ''typed'') else None)))"

definition PF_CLEAR_LEARNING :: int where "PF_CLEAR_LEARNING = 1"
definition PF_CLEAR_TUNING :: int where "PF_CLEAR_TUNING = 2"
definition PF_CLEAR_FOR_BASELINE :: int where "PF_CLEAR_FOR_BASELINE = 3"

definition forget_in_controller :: "32 word \<Rightarrow> ('i, 's, 'w, 'z) control_scheme \<Rightarrow> ('i, 's, 'w, 'z) control_scheme" where
  "forget_in_controller what c =
     (case k_ctrl c of
        Some (o1, s) \<Rightarrow> (case op_forget o1 of Some f \<Rightarrow> c\<lparr>k_ctrl := Some (o1, f s what)\<rparr> | None \<Rightarrow> c)
      | None \<Rightarrow> c)"

definition forget_learning :: "int \<Rightarrow> string \<Rightarrow> ('i, 's, 'w, 'z) control_scheme \<Rightarrow> ('i, 's, 'w, 'z) control_scheme" where
  "forget_learning what why c =
     (if what = PF_CLEAR_LEARNING
      then tell ''Learning_Cleared'' ''Learning Cleared''
             (Msg ''Learning restarted from the current tuning (%s).%s'' [AStr why, AStr []])
             (forget_in_controller PF_FORGET_REFINEMENT (feature LearningForget c))
      else if what = PF_CLEAR_TUNING
      then tell ''Tuning_Cleared'' ''Tuning Cleared''
             (Msg ''Tuning library cleared. Using the configured PB, Ti and Td (%s).'' [AStr why])
             (forget_in_controller (or PF_FORGET_REFINEMENT PF_FORGET_TUNING)
               (feature LearningForget (feature LearningClearTuning c)))
      else if what = PF_CLEAR_FOR_BASELINE
      then tell ''Learning_Cleared'' ''Learning Cleared''
             (Msg ''Learning restarted from the current tuning (%s).%s'' [AStr why, AStr '' Fuel-use measurements kept.''])
             (forget_in_controller (or PF_FORGET_REFINEMENT PF_FORGET_TUNING) c)
      else c)"

text \<open>Every option of every controller that has no value in settings gets its default.\<close>

definition fill_option :: "string \<Rightarrow> json \<Rightarrow> settings \<Rightarrow> settings" where
  "fill_option ident opt st =
     (case (pf_json_path (Some opt) ''option_name'', j_get ''option_default'' opt) of
        (Some (JStr name), Some dflt) \<Rightarrow>
          (let path = sn 128 (''controller.config.'' @ ident @ ''.'' @ name)
           in if pf_json_path (Some (g_root st)) path \<noteq> None then st
              else (case pf_set_put path dflt st of Some st' \<Rightarrow> st' | None \<Rightarrow> st))
      | _ \<Rightarrow> st)"

definition controller_fill_defaults :: "'s pf_controller_ops list \<Rightarrow> settings \<Rightarrow> settings" where
  "controller_fill_defaults tab st =
     fold (\<lambda>o1 st. case op_schema o1 of
             Some schema \<Rightarrow> fold (fill_option (ops_id o1)) (j_children (Some schema)) st | None \<Rightarrow> st) tab st"

end
