(* ===== verification/Control_Learn.thy ===== *)
theory Control_Learn
  imports Control_State
begin

text \<open>
  The part of \<open>src/core/control.c\<close> that measures the grill: steady holds and rises observed during a cook,
  the plant fitted to a rise, and the relay test that tunes a controller.  Log lines are left out.
\<close>

section \<open>Steady holds\<close>

definition learn_reset_window :: "fl \<Rightarrow> ('i, 's, 'w, 'z) control_scheme \<Rightarrow> ('i, 's, 'w, 'z) control_scheme" where
  "learn_reset_window now c =
     upd_learn (\<lambda>l. l\<lparr>le_steady_since := 0, le_u_sum := 0, le_pit_sum := 0, le_pit_sq := 0, le_n := 0,
                     le_last_disturb_t := now\<rparr>) c"

definition steady_clear :: "learn_run \<Rightarrow> learn_run" where
  "steady_clear l = l\<lparr>le_u_sum := 0, le_pit_sum := 0, le_pit_sq := 0, le_n := 0\<rparr>"

definition calm :: "fl \<Rightarrow> ('i, 's, 'w, 'z) control_scheme \<Rightarrow> bool" where
  "calm now c \<longleftrightarrow> \<bar>c_pit_c c - c_setpoint_c c\<bar> < 3 \<and> \<not> c_lid_open c \<and> \<not> c_lid_event c \<and>
     300 < now - le_last_disturb_t (k_learn c) \<and> 0 \<le> k_saturated c \<and> u_min (c_cfg c) + 0.005 < c_u_applied c"

text \<open>The feed of a window, carried over from where the pit was to the set point.\<close>

definition window_feed :: "fl \<Rightarrow> fl \<Rightarrow> fl \<Rightarrow> fl \<Rightarrow> fl" where
  "window_feed u mean amb sp = (if 10 < mean - amb \<and> 10 < sp - amb then u * ((sp - amb) / (mean - amb)) else u)"

definition ambient_or_20 :: "('i, 's, 'w, 'z) control_scheme \<Rightarrow> fl" where
  "ambient_or_20 c = (if isnan (c_ambient_c c) then 20 else c_ambient_c c)"

definition learn_track_steady :: "fl \<Rightarrow> ('i, 's, 'w, 'z) control_scheme \<Rightarrow> ('i, 's, 'w, 'z) control_scheme" where
  "learn_track_steady now c =
     (if \<not> fw_enabled (k_feat c) (k_w c) \<or> c_autotune_active c \<or> fw_tuner_active (k_feat c) (k_w c) then c
      else if \<not> calm now c then upd_learn (\<lambda>l. (steady_clear l)\<lparr>le_steady_since := 0\<rparr>) c
      else (let c = upd_learn (\<lambda>l. l\<lparr>le_steady_since := (if le_steady_since l = 0 then now else le_steady_since l),
                                    le_u_sum := le_u_sum l + c_u_applied c, le_pit_sum := le_pit_sum l + c_pit_c c,
                                    le_pit_sq := le_pit_sq l + c_pit_c c * c_pit_c c, le_n := le_n l + 1\<rparr>) c;
                l = k_learn c
            in if 180 \<le> now - le_steady_since l \<and> 300 \<le> now - le_last_obs_t l \<and> 3 \<le> le_n l
               then (let mean = le_pit_sum l / num (le_n l);
                         var = le_pit_sq l / num (le_n l) - mean * mean;
                         amb = ambient_or_20 c;
                         u = window_feed (le_u_sum l / num (le_n l)) mean amb (c_setpoint_c c)
                     in upd_learn (\<lambda>l. steady_clear (l\<lparr>le_last_obs_t := now\<rparr>))
                          (feature (LearningObserve (case ctrl_id c of Some i \<Rightarrow> i | None \<Rightarrow> ''?'') (c_setpoint_c c) amb u
                                     (fl_sqrt (fmax 0 var))) c))
               else c))"

section \<open>A first-order fit of a rise\<close>

definition MAXN :: nat where "MAXN = 1200"

definition hist_points :: "pf_history \<Rightarrow> pf_hist_pt list" where
  "hist_points h = List.map_filter (\<lambda>i. pf_history_at h (int i)) [0..<hi_len h]"

text \<open>Time, feed and pit of the samples in the window, oldest first.\<close>

definition fit_samples :: "fl \<Rightarrow> fl \<Rightarrow> pf_history \<Rightarrow> (fl \<times> fl \<times> fl) list" where
  "fit_samples now window_s h =
     take MAXN (map (\<lambda>p. (pt_t p, pt_u_applied p, pt_pit_c p))
       (filter (\<lambda>p. \<not> window_s < now - pt_t p \<and> \<not> isnan (pt_pit_c p) \<and> \<not> isnan (pt_u_applied p)) (hist_points h)))"

text \<open>For each sample the one a dead time earlier; the search goes on from where the last one stopped.\<close>

definition delayed :: "fl list \<Rightarrow> fl \<Rightarrow> nat \<times> nat list \<Rightarrow> nat \<Rightarrow> nat \<times> nat list" where
  "delayed T theta = (\<lambda>(j, out) i.
     let x = T ! i - theta; j = j + length (takeWhile (\<lambda>t. t \<le> x) (drop (Suc j) T))
     in (j, out @ [if T ! j \<le> x then j else 0]))"

definition delays :: "fl list \<Rightarrow> fl \<Rightarrow> nat list" where
  "delays T theta = snd (foldl (delayed T theta) (0, []) [0..<length T])"

definition lag_step :: "fl list \<Rightarrow> fl list \<Rightarrow> nat list \<Rightarrow> fl \<Rightarrow> fl \<times> fl list \<Rightarrow> nat \<Rightarrow> fl \<times> fl list" where
  "lag_step T U dly tau = (\<lambda>(x, out) i.
     let dt = (if i = 0 then 0 else T ! i - T ! (i - 1));
         x = (if 0 < dt \<and> dt < 120 then x + (U ! (dly ! i) - x) * (dt / tau) else x)
     in (x, out @ [x]))"

definition lag_response :: "fl list \<Rightarrow> fl list \<Rightarrow> nat list \<Rightarrow> fl \<Rightarrow> fl list" where
  "lag_response T U dly tau = snd (foldl (lag_step T U dly tau) (0, []) [0..<length T])"

text \<open>The least-squares gain and residual of one candidate.\<close>

definition fit_one :: "fl list \<Rightarrow> fl list \<Rightarrow> fl list \<Rightarrow> nat list \<Rightarrow> fl \<Rightarrow> (fl \<times> fl) option" where
  "fit_one T U Y dly tau =
     (let n = num (length T); X = lag_response T U dly tau;
          sx = fl_sum X; sy = fl_sum Y; sxx = fl_sum (map2 (*) X X); sxy = fl_sum (map2 (*) X Y);
          den = n * sxx - sx * sx
      in if \<bar>den\<bar> < Fin (1 / 10 ^ 9) then None
         else (let K = (n * sxy - sx * sy) / den
               in if \<not> 0 < K then None
                  else (let b = (sy - K * sx) / n; R = map2 (\<lambda>x y. K * x + b - y) X Y
                        in Some (K, fl_sum (map2 (*) R R)))))"

definition fit_taus :: "fl list" where "fit_taus = map (\<lambda>i. num (180 + 60 * i)) [0..<38]"
definition fit_thetas :: "fl list" where "fit_thetas = map (\<lambda>i. num (15 * i)) [0..<17]"

text \<open>The best of the grid: residual, gain, time constant, dead time.\<close>

definition fit_try :: "fl list \<Rightarrow> fl list \<Rightarrow> fl list \<Rightarrow> fl \<Rightarrow> nat list \<Rightarrow> fl \<times> fl \<times> fl \<times> fl \<Rightarrow> fl \<Rightarrow> fl \<times> fl \<times> fl \<times> fl" where
  "fit_try T U Y theta dly best tau =
     (case fit_one T U Y dly tau of
        None \<Rightarrow> best
      | Some (K, err) \<Rightarrow> if err < fst best then (err, K, tau, theta) else best)"

definition fit_grid :: "fl list \<Rightarrow> fl list \<Rightarrow> fl list \<Rightarrow> fl \<times> fl \<times> fl \<times> fl" where
  "fit_grid T U Y =
     foldl (\<lambda>best theta. foldl (fit_try T U Y theta (delays T theta)) best fit_taus) (Fin (10 ^ 30), 0, 0, 0) fit_thetas"

definition list_min :: "fl list \<Rightarrow> fl" where
  "list_min xs = foldl (\<lambda>m x. if x < m then x else m) (hd xs) (tl xs)"

definition fit_plant_from_history :: "fl \<Rightarrow> fl \<Rightarrow> pf_history option \<Rightarrow> (fl \<times> fl \<times> fl) option" where
  "fit_plant_from_history now window_s hist =
     (case hist of
        None \<Rightarrow> None
      | Some h \<Rightarrow>
          (let S = fit_samples now window_s h; T = map fst S; U = map (\<lambda>s. fst (snd s)) S; Y = map (\<lambda>s. snd (snd s)) S
           in if length S < 60 then None
              else if list_max Y - list_min Y < 20 then None
              else (case fit_grid T U Y of (err, K, tau, theta) \<Rightarrow>
                if \<not> 0 < K \<or> \<not> 0 < tau then None
                else if pf_delta_to_c 15 UnitsF < fl_sqrt (err / num (length S)) then None
                else if 2400 - 1 \<le> tau \<or> 240 - 1 \<le> theta \<or> 890 \<le> K then None
                else if list_max U - list_min U < 0.15 then None
                else Some (K, tau, if theta < 5 then 5 else theta))))"

section \<open>Rises\<close>

definition rise_clear :: "learn_run \<Rightarrow> learn_run" where
  "rise_clear l = l\<lparr>le_rise_u_sum := 0, le_rise_n := 0, le_rise_t28 := 0, le_rise_t63 := 0, le_rise_arrived_t := 0\<rparr>"

definition learn_rise_begin :: "('i, 's, 'w, 'z) control_scheme \<Rightarrow> ('i, 's, 'w, 'z) control_scheme" where
  "learn_rise_begin c =
     (let amb = (if isnan (c_ambient_c c) then pf_to_c 70 UnitsF else c_ambient_c c);
          cold = c_pit_valid c \<and> c_pit_c c < amb + pf_delta_to_c 30 UnitsF \<and> c_pit_c c < pf_to_c 150 UnitsF
      in upd_learn (\<lambda>l. (rise_clear l)\<lparr>le_rise_active := fw_enabled (k_feat c) (k_w c) \<and> c_pit_valid c \<and> cold,
           le_rise_t0 := 0, le_rise_T0_c := c_pit_c c, le_rise_sp_c := c_setpoint_c c, le_rise_from_step := False\<rparr>) c)"

definition learn_step_begin :: "fl \<Rightarrow> ('i, 's, 'w, 'z) control_scheme \<Rightarrow> ('i, 's, 'w, 'z) control_scheme" where
  "learn_step_begin now c =
     upd_learn (\<lambda>l. (rise_clear l)\<lparr>le_rise_active := fw_enabled (k_feat c) (k_w c) \<and> c_pit_valid c, le_rise_t0 := now,
       le_rise_T0_c := c_pit_c c, le_rise_sp_c := c_setpoint_c c, le_rise_from_step := True\<rparr>) c"

definition tune_controller :: "fl \<Rightarrow> fl \<Rightarrow> fl \<Rightarrow> fl \<Rightarrow> fl \<Rightarrow> ('i, 's, 'w, 'z) control_scheme \<Rightarrow> ('i, 's, 'w, 'z) control_scheme" where
  "tune_controller Ku Pu K tau theta c =
     (case k_ctrl c of
        Some (o1, s) \<Rightarrow> (case op_apply_tuning o1 of Some f \<Rightarrow> c\<lparr>k_ctrl := Some (o1, f s Ku Pu K tau theta)\<rparr> | None \<Rightarrow> c)
      | None \<Rightarrow> c)"

definition can_tune :: "('i, 's, 'w, 'z) control_scheme \<Rightarrow> bool" where
  "can_tune c \<longleftrightarrow> (case k_ctrl c of Some (o1, s) \<Rightarrow> op_apply_tuning o1 \<noteq> None | None \<Rightarrow> False)"

text \<open>The step a set point higher by 20 makes from one that was held for five minutes.\<close>

definition watch_step :: "fl \<Rightarrow> ('i, 's, 'w, 'z) control_scheme \<Rightarrow> ('i, 's, 'w, 'z) control_scheme" where
  "watch_step now c =
     (if c_mode c = HOLD \<and> c_pit_valid c \<and> 0 < c_setpoint_c c
      then (let l = k_learn c;
                c = (if c_setpoint_c c \<noteq> le_sp_seen_c l
                     then (let step = 0 < le_sp_seen_c l \<and> le_sp_reached l \<and> \<not> le_rise_active l \<and> 0 < le_sp_since l \<and>
                                      300 \<le> now - le_sp_since l \<and> 20 \<le> c_setpoint_c c - le_sp_seen_c l;
                               c = upd_learn (\<lambda>l. l\<lparr>le_sp_seen_c := c_setpoint_c c, le_sp_since := now, le_sp_reached := False\<rparr>) c
                           in if step then learn_step_begin now c else c)
                     else c)
            in if \<bar>c_pit_c c - c_setpoint_c c\<bar> \<le> 10 then upd_learn (\<lambda>l. l\<lparr>le_sp_reached := True\<rparr>) c else c)
      else if c_mode c \<noteq> STARTUP then upd_learn (\<lambda>l. l\<lparr>le_sp_seen_c := 0, le_sp_since := 0, le_sp_reached := False\<rparr>) c
      else c)"

definition rise_over :: "('i, 's, 'w, 'z) control_scheme \<Rightarrow> ('i, 's, 'w, 'z) control_scheme" where
  "rise_over c = upd_learn (\<lambda>l. l\<lparr>le_rise_active := False\<rparr>) c"

definition rise_marks :: "fl \<Rightarrow> fl \<Rightarrow> ('i, 's, 'w, 'z) control_scheme \<Rightarrow> ('i, 's, 'w, 'z) control_scheme" where
  "rise_marks now fr c =
     (let c = upd_learn (\<lambda>l. if le_rise_t28 l = 0 \<and> 0.283 \<le> fr then l\<lparr>le_rise_t28 := now - le_rise_t0 l\<rparr> else l) c;
          c = upd_learn (\<lambda>l. if le_rise_t63 l = 0 \<and> 0.632 \<le> fr then l\<lparr>le_rise_t63 := now - le_rise_t0 l\<rparr> else l) c
      in upd_learn (\<lambda>l. if le_rise_arrived_t l = 0 \<and> le_rise_t63 l \<noteq> 0 \<and> le_rise_t28 l \<noteq> 0 \<and>
                           \<bar>c_pit_c c - c_setpoint_c c\<bar> < 3 then l\<lparr>le_rise_arrived_t := now\<rparr> else l) c)"

definition file_plant :: "fl \<Rightarrow> fl \<Rightarrow> fl \<Rightarrow> ('i, 's, 'w, 'z) control_scheme \<Rightarrow> ('i, 's, 'w, 'z) control_scheme" where
  "file_plant K tau theta c =
     (if 30 < tau \<and> tau < 3600 \<and> 0 < K
      then (let c = feature (LearningStoreFopdt K tau theta) c;
                sp = (if 0 < le_rise_sp_c (k_learn c) then le_rise_sp_c (k_learn c) else c_setpoint_c c);
                c = feature (LearningStoreAnchorPlant sp K tau theta) c
            in if \<not> le_rise_from_step (k_learn c) \<and> fw_enabled (k_feat c) (k_w c) \<and> \<not> fw_tuner_active (k_feat c) (k_w c) \<and> can_tune c
               then (let p = fw_fopdt (k_feat c) (k_w c)
                     in db_event PF_LVL_INFO ''TUNING_LEARNED'' (Msg ''Controller tuning updated from this startup's plant model'' [])
                          (tune_controller 0 0 (fo_K p) (fo_tau p) (fo_theta p) c))
               else c)
      else c)"

definition finish_rise :: "fl \<Rightarrow> ('i, 's, 'w, 'z) control_scheme \<Rightarrow> ('i, 's, 'w, 'z) control_scheme" where
  "finish_rise now c =
     (if le_rise_arrived_t (k_learn c) \<noteq> 0 \<and> 600 \<le> now - le_rise_arrived_t (k_learn c)
      then (let since = now - le_rise_t0 (k_learn c) + 120
            in case fit_plant_from_history now (if since < 300 then 300 else since) (fw_history (k_feat c) (k_w c)) of
                 None \<Rightarrow> rise_over c
               | Some (K, tau, theta) \<Rightarrow> rise_over (file_plant K tau theta c))
      else c)"

definition learn_rise_track :: "fl \<Rightarrow> ('i, 's, 'w, 'z) control_scheme \<Rightarrow> ('i, 's, 'w, 'z) control_scheme" where
  "learn_rise_track now c =
     (let c = watch_step now c; l = k_learn c
      in if \<not> le_rise_active l then c
         else if 0 < le_rise_sp_c l \<and> 1 < \<bar>c_setpoint_c c - le_rise_sp_c l\<bar> then rise_over c
         else if c_mode c = STOP \<or> c_mode c = ERROR \<or> c_mode c = SHUTDOWN then rise_over c
         else if le_rise_t0 l = 0
         then (if c_pit_valid c \<and> le_rise_T0_c l + 3 \<le> c_pit_c c
               then upd_learn (\<lambda>l. l\<lparr>le_rise_t0 := now, le_rise_T0_c := c_pit_c c\<rparr>) c else c)
         else if le_rise_arrived_t l = 0 \<and> 3600 < now - le_rise_t0 l then rise_over c
         else if c_mode c \<noteq> HOLD then c
         else (let span = c_setpoint_c c - le_rise_T0_c l
               in if span < 20 then rise_over c
                  else finish_rise now (rise_marks now ((c_pit_c c - le_rise_T0_c l) / span) c)))"

end
