(* ===== verification/Control_Autotune.thy ===== *)
theory Control_Autotune
  imports Control_Learn
begin

text \<open>
  The relay test of \<open>src/core/control.c\<close>: the feed swings about a centre, the test corrects the centre and
  the swing from the first cycles, and what the limit cycle then does gives the controller's tuning.
  Log lines are left out.
\<close>

section \<open>The limit cycle\<close>

definition at_n :: "autotune_run \<Rightarrow> nat" where
  "at_n a = (if at_crossings a < PF_AT_MAX then at_crossings a else PF_AT_MAX)"

definition at_swing :: "autotune_run \<Rightarrow> nat \<Rightarrow> fl" where
  "at_swing a i = (fmax (at_hi_peak a ! i) (at_hi_peak a ! (i - 1)) - fmin (at_lo_peak a ! i) (at_lo_peak a ! (i - 1))) / 2"

definition autotune_cycle :: "autotune_run \<Rightarrow> nat \<Rightarrow> fl \<times> fl" where
  "autotune_cycle a i = (at_halves a ! i + at_halves a ! (i - 1), at_swing a i)"

definition pf_control_autotune_settled :: "autotune_run \<Rightarrow> bool" where
  "pf_control_autotune_settled a =
     (let n = at_n a
      in if n < 5 then False
         else (case (autotune_cycle a (n - 1), autotune_cycle a (n - 3)) of
                 ((p1, a1), (p2, a2)) \<Rightarrow>
                   (let pmax = fmax p1 p2; amax = fmax a1 a2
                    in if pmax \<le> 0 \<or> amax \<le> 0 then False
                       else \<bar>p1 - p2\<bar> \<le> 0.25 * pmax \<and> \<bar>a1 - a2\<bar> \<le> 0.30 * amax)))"

definition autotune_output :: "autotune_run \<Rightarrow> fl" where
  "autotune_output a = at_u_center a + at_h a * int_to_fl (at_phase a)"

definition at_room :: "fl \<Rightarrow> fl \<Rightarrow> autotune_run \<Rightarrow> fl" where
  "at_room lo hi a = fmin (at_u_center a - lo) (hi - at_u_center a)"

definition pf_control_autotune_size :: "fl \<Rightarrow> fl \<Rightarrow> autotune_run \<Rightarrow> autotune_run" where
  "pf_control_autotune_size lo hi a =
     (let h = fmin 0.15 (fmin (0.55 * at_u_center a) (at_room lo hi a));
          h = (if h < 0.03 then 0.03 else h);
          h = (if 0 < at_h_cap a \<and> at_h_cap a < h then at_h_cap a else h);
          h = (if 0 < at_h_floor a \<and> h < at_h_floor a then fmin (at_h_floor a) (fmax (at_room lo hi a) h) else h)
      in a\<lparr>at_h := h\<rparr>)"

text \<open>The sums that are taken afresh when the relay changes.\<close>

definition drop_feed_sums :: "autotune_run \<Rightarrow> autotune_run" where
  "drop_feed_sums a = a\<lparr>at_hi_sum := 0, at_lo_sum := 0, at_hi_n := 0, at_lo_n := 0\<rparr>"

definition drop_measure :: "autotune_run \<Rightarrow> autotune_run" where
  "drop_measure a = (drop_feed_sums a)\<lparr>at_meas_err_sum := 0, at_meas_err_n := 0\<rparr>"

definition drop_window :: "autotune_run \<Rightarrow> autotune_run" where
  "drop_window a = a\<lparr>at_cyc_sum := 0, at_cyc_n := 0\<rparr>"

section \<open>The end of a test\<close>

text \<open>The three last oscillations after the first, their mean period and swing.\<close>

definition at_cycles :: "nat \<Rightarrow> nat list" where "at_cycles n = take 3 (rev [2..<n])"

definition at_means :: "autotune_run \<Rightarrow> (fl \<times> fl) option" where
  "at_means a =
     (let is = at_cycles (at_n a); k = length is
      in if k < 2 then None
         else Some (fl_sum (map (\<lambda>i. fst (autotune_cycle a i)) is) / num k,
                    fl_sum (map (\<lambda>i. snd (autotune_cycle a i)) is) / num k))"

definition at_bias :: "autotune_run \<Rightarrow> fl" where
  "at_bias a = (if 0 < at_meas_err_n a then at_meas_err_sum a / num (at_meas_err_n a) else 0)"

definition at_h_eff :: "autotune_run \<Rightarrow> fl" where
  "at_h_eff a =
     (if 0 < at_hi_n a \<and> 0 < at_lo_n a
      then (let hi = at_hi_sum a / num (at_hi_n a); lo = at_lo_sum a / num (at_lo_n a)
            in if 0.01 < hi - lo then (hi - lo) / 2 else at_h a)
      else at_h a)"

text \<open>The share of the period the relay was high, over every second of the last halves.\<close>

definition at_pairs :: "nat \<Rightarrow> nat list" where
  "at_pairs n = filter (\<lambda>i. 2 \<le> i) (map (\<lambda>g. n - 1 - 2 * g) (filter (\<lambda>g. 2 * g + 1 \<le> n) [0..<3]))"

definition half_pair :: "autotune_run \<Rightarrow> nat \<Rightarrow> nat \<Rightarrow> fl \<times> fl" where
  "half_pair a n i =
     (let x = at_halves a ! i; y = at_halves a ! (i - 1);
          was_high = ((n - i) mod 2 = (if 0 < at_phase a then 0 else 1))
      in if was_high then (x, y) else (y, x))"

definition at_gamma :: "autotune_run \<Rightarrow> fl" where
  "at_gamma a =
     (let n = at_n a; ps = map (half_pair a n) (at_pairs n); t_hi = fl_sum (map fst ps); t_lo = fl_sum (map snd ps);
          g = (if 0 < t_hi + t_lo then t_hi / (t_hi + t_lo) else 0.5)
      in pf_clamp g 0.15 0.85)"

text \<open>Sixty halvings towards the frequency where dead time and lag together reach half a turn.\<close>

fun bisect_phase :: "nat \<Rightarrow> fl \<Rightarrow> fl \<Rightarrow> fl \<Rightarrow> fl \<Rightarrow> fl \<times> fl" where
  "bisect_phase 0 theta tau lo hi = (lo, hi)"
| "bisect_phase (Suc k) theta tau lo hi =
     (let mid = 0.5 * (lo + hi)
      in if mid * theta + fl_atan (mid * tau) < C_PI then bisect_phase k theta tau mid hi
         else bisect_phase k theta tau lo mid)"

text \<open>From the point the relay measured to the ultimate one: along the lag's own curve, or along the asymptote.\<close>

definition lag_point :: "fl \<Rightarrow> fl \<Rightarrow> fl \<Rightarrow> pf_fopdt \<Rightarrow> (fl \<times> fl) option" where
  "lag_point Ku_m w_m phi m0 =
     (if fo_valid m0 \<and> 0 < fo_tau m0 \<and> 1 < w_m * fo_tau m0
      then (let theta_eff = (C_PI - phi - fl_atan (w_m * fo_tau m0)) / w_m
            in if 1 < theta_eff
               then (case bisect_phase 60 theta_eff (fo_tau m0) w_m (w_m * 3) of (lo, hi) \<Rightarrow>
                       (let w_u = 0.5 * (lo + hi)
                        in Some (w_u, Ku_m * fl_sqrt (1 + w_u * fo_tau m0 * w_u * fo_tau m0)
                                        / fl_sqrt (1 + w_m * fo_tau m0 * w_m * fo_tau m0))))
               else None)
      else None)"

definition ultimate_point :: "fl \<Rightarrow> fl \<Rightarrow> fl \<Rightarrow> pf_fopdt \<Rightarrow> fl \<times> fl" where
  "ultimate_point Ku_m w_m phi m0 =
     (case (case lag_point Ku_m w_m phi m0 of Some p \<Rightarrow> p | None \<Rightarrow> (w_m, Ku_m)) of
        (w_u, Ku) \<Rightarrow>
          if w_u = w_m \<and> \<not> isnan w_m
          then (let f = 1 - (2 / C_PI) * phi; f = (if f < 0.6 then 0.6 else f) in (w_m / f, Ku / f))
          else (w_u, Ku))"

definition at_ultimate :: "autotune_run \<Rightarrow> fl \<Rightarrow> fl \<Rightarrow> pf_fopdt \<Rightarrow> fl \<times> fl" where
  "at_ultimate a Pu A m0 =
     (let eps = at_hyst_c a;
          phi = (if eps < A then fl_asin (eps / A) else 0);
          Ku_m = (2 / C_PI) * (2 * at_h_eff a) * fl_sin (C_PI * at_gamma a) / A
      in case ultimate_point Ku_m (2 * C_PI / Pu) phi m0 of (w_u, Ku) \<Rightarrow> (Ku, 2 * C_PI / w_u))"

definition at_load :: "autotune_run \<Rightarrow> fl" where
  "at_load a = (if 0 < at_last_load a then at_last_load a else at_u_center a)"

definition at_static_gain :: "fl \<Rightarrow> ('i, 's, 'w, 'z) control_scheme \<Rightarrow> fl" where
  "at_static_gain load c =
     (let K = (if 0 < load \<and> \<not> isnan (c_ambient_c c) \<and> 40 < c_setpoint_c c - c_ambient_c c
               then (c_setpoint_c c - c_ambient_c c) / load else 0);
          plant = fw_fopdt (k_feat c) (k_w c)
      in if 80 < K \<and> K < 3000 then K
         else case fw_fit (k_feat c) (k_w c) of
                (b, n) \<Rightarrow> if 3 \<le> n \<and> Fin (1 / 10 ^ 5) < b then 1 / b else if fo_valid plant then fo_K plant else 0)"

definition unit_C_F :: "('i, 's, 'w, 'z) control_scheme \<Rightarrow> string" where
  "unit_C_F c = (if units (c_cfg c) = UnitsC then ''C'' else ''F'')"

definition plus_minus :: string where "plus_minus = [char_of (0xC2::nat), char_of (0xB1::nat)]"

definition autotune_failed :: "msg \<Rightarrow> ('i, 's, 'w, 'z) control_scheme \<Rightarrow> ('i, 's, 'w, 'z) control_scheme" where
  "autotune_failed body c = tell ''Autotune_Failed'' ''Autotune Stopped'' body c"

text \<open>What the oscillation says is filed, and given to the controller when learning is on.\<close>

definition autotune_file :: "fl \<Rightarrow> fl \<Rightarrow> fl \<Rightarrow> fl \<Rightarrow> ('i, 's, 'w, 'z) control_scheme \<Rightarrow> ('i, 's, 'w, 'z) control_scheme" where
  "autotune_file Ku Pu A bias_f c =
     (let load = at_load (k_at c); k = length (at_cycles (at_n (k_at c)))
      in case pf_tuning_from_relay pf_tuning_rule_selected Ku Pu of
           (pb, ti, dt) \<Rightarrow>
             if \<not> 0 < pb \<or> \<not> 0 < ti
             then autotune_failed (Msg ''Oscillation could not be converted to a tuning.'' []) c
             else (let h_eff = at_h_eff (k_at c); K = at_static_gain load c;
                       c = (case (if 0 < K then pf_plant_from_relay Ku Pu K else None) of
                              Some (tau, theta) \<Rightarrow> feature (LearningStoreFopdt K tau theta) c | None \<Rightarrow> c);
                       c = feature (LearningStoreAutotune \<lparr>ar_Ku = Ku, ar_Pu = Pu, ar_PB_c = pb, ar_Ti = ti, ar_Td = dt,
                                      ar_amplitude_c = A, ar_load = load, ar_valid = False\<rparr>) c;
                       c = (if 0 < load
                            then feature (LearningObserve (case ctrl_id c of Some i \<Rightarrow> i | None \<Rightarrow> []) (c_setpoint_c c)
                                            (ambient_or_20 c) load A) c else c);
                       applied = fw_enabled (k_feat c) (k_w c) \<and> can_tune c;
                       m = fw_fopdt (k_feat c) (k_w c); known = (\<lambda>x. if fo_valid m then x else 0);
                       c = (if applied then tune_controller Ku Pu (known (fo_K m)) (known (fo_tau m)) (known (fo_theta m)) c else c)
                   in tell ''Autotune_Done'' ''Autotune Complete''
                        (Msg (''Ku %.3f (swing '' @ plus_minus @ ''%.2f duty), period %.0f s over %d cycle%s%s, amplitude '' @
                              plus_minus @ ''%.1f, sitting %.1f from the set point. PB %.0f (%s), Ti %.0f s%s.'')
                          [AFl Ku, AFl h_eff, AFl Pu, AInt (int k), AStr (if k = 1 then [] else ''s''), AStr [],
                           AFl (pf_delta_from_c A (units (c_cfg c))), AFl bias_f, AFl (pf_delta_from_c pb (units (c_cfg c))),
                           AStr (unit_C_F c), AFl ti,
                           AStr (if applied then '' - applied to the controller'' else '' - review under More > Learning'')]) c))"

text \<open>The checks a measurement has to pass before it is filed.\<close>

definition autotune_judge :: "('i, 's, 'w, 'z) control_scheme \<Rightarrow> ('i, 's, 'w, 'z) control_scheme" where
  "autotune_judge c =
     (let a = k_at c; u = units (c_cfg c)
      in case at_means a of
           None \<Rightarrow> autotune_failed (Msg ''Too few oscillations captured.'' []) c
         | Some (Pu, A) \<Rightarrow>
             (let off = (if 0 < at_last_load a then \<bar>at_last_load a - at_u_center a\<bar> else 0);
                  pinned = at_u_center a - at_h a \<le> u_min (c_cfg c) + 0.01
              in if A < at_hyst_c a * 2
                 then autotune_failed (Msg ''Swing %.1f%s against a %.1f%s switching band: too small to measure the gain. Rerun from a settled grill.''
                        [AFl (pf_delta_from_c A u), AStr (unit_C_F c), AFl (pf_delta_from_c (at_hyst_c a) u), AStr (unit_C_F c)]) c
                 else if 0.03 < off \<and> \<not> pinned
                 then autotune_failed (Msg ''Swing centred on %.0f%% feed, cycles averaged %.0f%%: not centred on the set point. Nothing filed.''
                        [AFl (at_u_center a * 100), AFl (at_last_load a * 100)]) c
                 else if \<not> pf_control_autotune_settled a
                 then autotune_failed (Msg ''Oscillation did not settle (last two cycles differ by more than 25%%). Nothing filed. Rerun once steady.'' []) c
                 else (case at_ultimate a Pu A (fw_fopdt (k_feat c) (k_w c)) of
                         (Ku, Pu') \<Rightarrow> autotune_file Ku Pu' A (pf_delta_from_c (at_bias a) u) c)))"

definition autotune_finish :: "bool \<Rightarrow> string \<Rightarrow> ('i, 's, 'w, 'z) control_scheme \<Rightarrow> ('i, 's, 'w, 'z) control_scheme" where
  "autotune_finish ok why c =
     (let c = c\<lparr>c_autotune_active := False\<rparr>;
          steady = at_load (k_at c);
          u = pf_clamp steady (u_min (c_cfg c)) (u_max (c_cfg c));
          c = (if 0 < steady then c\<lparr>k_u_raw := u, c_u_applied := u\<rparr> else c)
      in if ok then autotune_judge c else autotune_failed (Msg ''%s'' [AStr why]) c)"

section \<open>What the history says of the hold\<close>

text \<open>The samples newest first, those of the window, and the readings taken at the set point.\<close>

definition newest_first :: "pf_history \<Rightarrow> pf_hist_pt list" where
  "newest_first h = rev (hist_points h)"

definition in_window :: "fl \<Rightarrow> fl \<Rightarrow> pf_history \<Rightarrow> pf_hist_pt list" where
  "in_window now window_s h = takeWhile (\<lambda>p. \<not> window_s < now - pt_t p) (newest_first h)"

definition recent_pit_noise :: "fl \<Rightarrow> fl \<Rightarrow> pf_history option \<Rightarrow> fl" where
  "recent_pit_noise now window_s hist =
     (case hist of
        None \<Rightarrow> NaN
      | Some h \<Rightarrow>
          (let ys = map pt_pit_c (filter (\<lambda>p. \<not> (isnan (pt_pit_c p) \<or> pt_setpoint_c p \<le> 0) \<and>
                      \<not> pf_delta_to_c 12 UnitsF < \<bar>pt_pit_c p - pt_setpoint_c p\<bar>) (in_window now window_s h));
               n = length ys; mean = fl_sum ys / num n; var = fl_sum (map (\<lambda>y. y * y) ys) / num n - mean * mean
           in if n < 30 then NaN else if 0 < var then fl_sqrt var else 0))"

definition at_set_point :: "fl \<Rightarrow> pf_hist_pt \<Rightarrow> bool" where
  "at_set_point band p \<longleftrightarrow> \<not> (isnan (pt_pit_c p) \<or> pt_setpoint_c p \<le> 0 \<or> band < \<bar>pt_pit_c p - pt_setpoint_c p\<bar>)"

definition hold_in_band_s :: "fl \<Rightarrow> pf_history option \<Rightarrow> fl" where
  "hold_in_band_s now hist =
     (case hist of
        None \<Rightarrow> 0
      | Some h \<Rightarrow>
          (let ps = takeWhile (at_set_point (pf_delta_to_c 15 UnitsF)) (newest_first h)
           in now - (if ps = [] then now else pt_t (last ps))))"

definition settled_hold_duty :: "fl \<Rightarrow> fl \<Rightarrow> pf_history option \<Rightarrow> fl" where
  "settled_hold_duty now window_s hist =
     (case hist of
        None \<Rightarrow> NaN
      | Some h \<Rightarrow>
          (let us = filter (\<lambda>u. \<not> (isnan u \<or> u \<le> 0)) (map pt_u_applied (in_window now window_s h))
           in if 30 \<le> length us then fl_sum us / num (length us) else NaN))"

section \<open>The start of a test\<close>

definition first_phase :: "fl \<Rightarrow> fl \<Rightarrow> int" where
  "first_phase e0 rate =
     (let away = (if 0 < e0 then -1 else 1)
      in if 2 < \<bar>e0\<bar> then away else if 0.2 < rate then -1 else if rate < -0.2 then 1 else away)"

definition autotune_begin :: "fl \<Rightarrow> fl \<Rightarrow> ('i, 's, 'w, 'z) control_scheme \<Rightarrow> ('i, 's, 'w, 'z) control_scheme" where
  "autotune_begin now centre c =
     (let lo = u_min (c_cfg c); hi = u_max (c_cfg c); e0 = c_pit_c c - c_setpoint_c c;
          sigma = recent_pit_noise now 600 (fw_history (k_feat c) (k_w c));
          a = pf_control_autotune_size lo hi (zero_autotune\<lparr>at_u_center := pf_clamp centre (lo + 0.05) (hi - 0.05)\<rparr>);
          a = a\<lparr>at_hyst_c := pf_clamp (if isnan sigma then 1 else 2 * sigma) 0.35 1.2, at_start_t := now,
                at_last_cross_t := now, at_phase := first_phase e0 (k_pit_rate_c_min c), at_err_at_move := e0,
                at_peak_max := c_pit_c c, at_peak_min := c_pit_c c\<rparr>;
          c = tell ''Autotune_Started'' ''Autotune Running''
                (Msg ''Oscillating around %.0f for 15-40 min. No food during the test.'' [AFl (pf_from_c (c_setpoint_c c) (units (c_cfg c)))])
                (c\<lparr>c_autotune_active := True, k_at := a\<rparr>)
      in take_feed (begin_cycle now (autotune_output a) c))"

definition autotune_start :: "fl \<Rightarrow> ('i, 's, 'w, 'z) control_scheme \<Rightarrow> ('i, 's, 'w, 'z) control_scheme" where
  "autotune_start now c =
     (if c_mode c \<noteq> HOLD \<or> \<not> c_pit_valid c \<or> c_setpoint_c c \<le> 0 \<or> pf_delta_to_c 15 UnitsF < \<bar>c_pit_c c - c_setpoint_c c\<bar>
      then tell ''Autotune_Failed'' ''Autotune Not Started'' (Msg ''Pit must be within 15 degrees of the set point.'' []) c
      else (let known = fw_anchor_load (k_feat c) (k_w c) (c_setpoint_c c);
                hist = fw_history (k_feat c) (k_w c);
                settled_s = hold_in_band_s now hist;
                measured = (if 300 \<le> settled_s then settled_hold_duty now (fmin settled_s 1800) hist else NaN)
            in if 0 < known then autotune_begin now known c
               else if \<not> isnan measured then autotune_begin now measured c
               else tell ''Autotune_Failed'' ''Autotune Not Started'' (Msg ''Hold at the set point for 5 min first.'' [])
                      (c\<lparr>c_autotune_active := False, k_at := zero_autotune\<rparr>)))"

section \<open>A cycle of the test\<close>

text \<open>The relay switches once the error has passed the band.\<close>

definition at_peaks :: "fl \<Rightarrow> autotune_run \<Rightarrow> autotune_run" where
  "at_peaks pit a =
     a\<lparr>at_peak_max := (if at_peak_max a < pit then pit else at_peak_max a),
       at_peak_min := (if pit < at_peak_min a then pit else at_peak_min a)\<rparr>"

definition at_want :: "fl \<Rightarrow> autotune_run \<Rightarrow> int" where
  "at_want e a =
     (let want = (if 0 < at_phase a \<and> at_hyst_c a < e then -1 else at_phase a)
      in if at_phase a < 0 \<and> e < - at_hyst_c a then 1 else want)"

definition at_cross :: "fl \<Rightarrow> fl \<Rightarrow> int \<Rightarrow> autotune_run \<Rightarrow> autotune_run" where
  "at_cross now pit want a =
     (let k = at_crossings a;
          a = a\<lparr>at_phase := want\<rparr>;
          a = (if k < PF_AT_MAX
               then a\<lparr>at_halves := (at_halves a)[k := now - at_last_cross_t a],
                      at_hi_peak := (at_hi_peak a)[k := at_peak_max a], at_lo_peak := (at_lo_peak a)[k := at_peak_min a]\<rparr>
               else a)
      in a\<lparr>at_crossings := k + 1, at_last_cross_t := now, at_peak_max := pit, at_peak_min := pit\<rparr>)"

text \<open>What the last whole cycle delivered, and how far its halves were apart.\<close>

definition last_halves :: "autotune_run \<Rightarrow> fl \<times> fl" where
  "last_halves a =
     (let nx = at_crossings a; x = at_halves a ! (nx - 1); y = at_halves a ! (nx - 2)
      in if 0 < at_phase a then (y, x) else (x, y))"

definition cycle_load :: "fl \<Rightarrow> fl \<Rightarrow> autotune_run \<Rightarrow> fl" where
  "cycle_load lo hi a =
     (case last_halves a of (t_hi, t_lo) \<Rightarrow>
        (let u_hi = pf_clamp (at_u_center a + at_h a) lo hi; u_lo = pf_clamp (at_u_center a - at_h a) lo hi
         in if 0 < t_hi + t_lo then (t_hi * u_hi + t_lo * u_lo) / (t_hi + t_lo) else at_cyc_sum a / num (at_cyc_n a)))"

definition note_split :: "autotune_run \<Rightarrow> autotune_run" where
  "note_split a =
     (case last_halves a of (t_hi, t_lo) \<Rightarrow>
        if 0 < t_hi \<and> 0 < t_lo
        then (let split = (if t_lo < t_hi then t_hi / t_lo else t_lo / t_hi)
              in if at_worst_split a < split then a\<lparr>at_worst_split := split\<rparr> else a)
        else a)"

definition resized :: "autotune_run \<Rightarrow> autotune_run" where
  "resized a = drop_window (drop_measure (a\<lparr>at_resizes := at_resizes a + 1, at_adjust_at_cross := at_crossings a\<rparr>))"

text \<open>A swing too wide is narrowed, one too thin is widened; none when it stays.\<close>

definition at_narrow :: "fl \<Rightarrow> fl \<Rightarrow> fl \<Rightarrow> autotune_run \<Rightarrow> autotune_run option" where
  "at_narrow cycle A target a =
     (let floor_h = fmax 0.05 (if 0 < cycle then 1 / cycle else 0.05);
          shrunk = fmax (at_h a * pf_clamp (target / A) 0.35 1) floor_h
      in if shrunk < at_h a * 0.95 then Some (resized (a\<lparr>at_h := shrunk, at_h_cap := shrunk\<rparr>)) else None)"

definition at_widen :: "fl \<Rightarrow> fl \<Rightarrow> fl \<Rightarrow> fl \<Rightarrow> autotune_run \<Rightarrow> autotune_run option" where
  "at_widen lo hi A target a =
     (let room = fmin (hi - 0.02 - at_u_center a) (at_u_center a - lo - 0.02);
          grown = pf_clamp (at_h a * pf_clamp (target / A) 1 2) (at_h a) (fmax room (at_h a))
      in if at_h a * 1.05 < grown then Some (resized (a\<lparr>at_h := grown, at_h_floor := grown\<rparr>)) else None)"

definition at_resize :: "fl \<Rightarrow> fl \<Rightarrow> fl \<Rightarrow> fl \<Rightarrow> fl \<Rightarrow> autotune_run \<Rightarrow> autotune_run option" where
  "at_resize lo hi cycle A target a =
     (let quiet = at_resizes a = 0 \<or> at_adjust_at_cross a + 4 \<le> at_crossings a;
          thin = 0 < A \<and> A < target \<and> at_resizes a < 2 \<and> quiet;
          fat = \<not> thin \<and> 2 * target < A \<and> at_resizes a < 2 \<and> quiet
      in if fat then at_narrow cycle A target a else if thin then at_widen lo hi A target a else None)"

definition at_recentre :: "fl \<Rightarrow> fl \<Rightarrow> fl \<Rightarrow> fl \<Rightarrow> autotune_run \<Rightarrow> autotune_run" where
  "at_recentre lo hi c_step centre a =
     (let material = 0.15 * at_h a < \<bar>c_step\<bar>;
          converging = at_adjusts a < 2 \<or> \<bar>c_step\<bar> < 0.8 * \<bar>at_last_c_step a\<bar>
      in if material \<and> converging \<and> at_adjusts a < 5
         then drop_measure (let a = pf_control_autotune_size lo hi (a\<lparr>at_last_c_step := c_step, at_u_center := centre\<rparr>)
                            in a\<lparr>at_adjusts := at_adjusts a + 1, at_adjust_at_cross := at_crossings a\<rparr>)
         else if 0.003 < \<bar>c_step\<bar> then a\<lparr>at_u_center := centre\<rparr> else a)"

text \<open>The conditioning: the third crossing to the ninth, on the odd ones, given a window of samples.\<close>

definition conditions :: "autotune_run \<Rightarrow> bool" where
  "conditions a \<longleftrightarrow> 3 \<le> at_crossings a \<and> at_crossings a \<le> 9 \<and> at_crossings a mod 2 = 1 \<and> 4 < at_cyc_n a"

definition at_condition :: "fl \<Rightarrow> fl \<Rightarrow> fl \<Rightarrow> autotune_run \<Rightarrow> autotune_run" where
  "at_condition lo hi cycle a =
     (let target = fmax (3 * at_hyst_c a) (pf_delta_to_c 2.5 UnitsF)
      in if \<not> conditions a then a
         else (let load = cycle_load lo hi a;
                   a = note_split (a\<lparr>at_last_load := load\<rparr>);
                   A = at_swing a (at_crossings a - 1);
                   lim = (if at_adjusts a = 0 then 1 else at_h a / 2);
                   c_step = pf_clamp (pf_clamp load (lo + 0.02) (hi - 0.02) - at_u_center a) (- lim) lim;
                   centre = pf_clamp (at_u_center a + c_step) (lo + 0.02) (hi - 0.02)
               in drop_window (case at_resize lo hi cycle A target a of
                                 Some a' \<Rightarrow> a' | None \<Rightarrow> at_recentre lo hi c_step centre a)))"

definition at_centred :: "autotune_run \<Rightarrow> bool" where
  "at_centred a \<longleftrightarrow> \<bar>at_bias a\<bar> \<le> pf_delta_to_c 2 UnitsF \<or> at_meas_err_n a < 4"

definition at_done :: "autotune_run \<Rightarrow> bool" where
  "at_done a \<longleftrightarrow> PF_AT_MIN_CROSS \<le> at_crossings a \<and> at_adjust_at_cross a + 4 \<le> at_crossings a \<and>
     (pf_control_autotune_settled a \<and> at_centred a \<or> PF_AT_MAX \<le> at_crossings a)"

text \<open>A relay that ran away, stalled or drifts has its centre moved, and counts from the start again.\<close>

definition ran_away :: "fl \<Rightarrow> bool" where "ran_away e \<longleftrightarrow> pf_delta_to_c 50 UnitsF < \<bar>e\<bar>"

definition at_stalled :: "fl \<Rightarrow> autotune_run \<Rightarrow> bool" where
  "at_stalled now a \<longleftrightarrow> (if at_crossings a = 0 then 600 else 1200) < now - at_last_cross_t a"

definition at_drifting :: "fl \<Rightarrow> autotune_run \<Rightarrow> bool" where
  "at_drifting e a \<longleftrightarrow> at_crossings a = 0 \<and> \<bar>at_err_at_move a\<bar> + pf_delta_to_c 10 UnitsF < \<bar>e\<bar>"

definition at_moved :: "fl \<Rightarrow> fl \<Rightarrow> fl \<Rightarrow> autotune_run \<Rightarrow> fl" where
  "at_moved lo hi e a =
     (let step = (if ran_away e then 0.15 else if at_drifting e a then 0.10 else 0.05)
      in pf_clamp (at_u_center a + (if 0 < e then - step else step)) (lo + 0.05) (hi - 0.05))"

definition at_restart :: "fl \<Rightarrow> fl \<Rightarrow> fl \<Rightarrow> fl \<Rightarrow> fl \<Rightarrow> fl \<Rightarrow> autotune_run \<Rightarrow> autotune_run" where
  "at_restart lo hi now pit sp moved a =
     (let a = pf_control_autotune_size lo hi (a\<lparr>at_u_center := moved\<rparr>)
      in drop_feed_sums (a\<lparr>at_recentres := at_recentres a + 1, at_err_at_move := pit - sp, at_last_recentre_t := now,
           at_crossings := 0, at_last_cross_t := now, at_phase := (if sp < pit then -1 else 1),
           at_peak_max := pit, at_peak_min := pit\<rparr>))"

definition autotune_watch :: "fl \<Rightarrow> ('i, 's, 'w, 'z) control_scheme \<Rightarrow> ('i, 's, 'w, 'z) control_scheme \<times> fl" where
  "autotune_watch now c =
     (let a = k_at c; e = c_pit_c c - c_setpoint_c c; lo = u_min (c_cfg c); hi = u_max (c_cfg c)
      in if (ran_away e \<or> at_stalled now a \<or> at_drifting e a) \<and> 300 < now - at_last_recentre_t a \<and> at_recentres a < 8
         then (let moved = at_moved lo hi e a;
                   a' = (if \<bar>moved - at_u_center a\<bar> < Fin (1 / 10 ^ 6) then a\<lparr>at_last_recentre_t := now, at_err_at_move := e\<rparr>
                         else at_restart lo hi now (c_pit_c c) (c_setpoint_c c) moved a)
               in (c\<lparr>k_at := a'\<rparr>, autotune_output a'))
         else if ran_away e \<and> 8 \<le> at_recentres a
         then (autotune_finish False ''The pit would not stay near the set point.'' c, lo)
         else if 1800 < now - at_last_cross_t a
         then (let c' = autotune_finish False ''The grill would not oscillate around the set point.'' c in (c', at_u_center (k_at c')))
         else (c, autotune_output a))"

definition autotune_step :: "fl \<Rightarrow> ('i, 's, 'w, 'z) control_scheme \<Rightarrow> ('i, 's, 'w, 'z) control_scheme \<times> fl" where
  "autotune_step now c =
     (let e = c_pit_c c - c_setpoint_c c; lo = u_min (c_cfg c); hi = u_max (c_cfg c);
          a = at_peaks (c_pit_c c) (k_at c);
          want = at_want e a
      in if want \<noteq> at_phase a
         then (let a = at_condition lo hi (cfg_cycle_s (k_ccfg c)) (at_cross now (c_pit_c c) want a)
               in if at_done a then (let c' = autotune_finish True [] (c\<lparr>k_at := a\<rparr>) in (c', at_u_center a))
                  else autotune_watch now (c\<lparr>k_at := a\<rparr>))
         else autotune_watch now (c\<lparr>k_at := a\<rparr>))"

end
