(* ===== verification/Control_Modes.thy ===== *)
theory Control_Modes
  imports Control_Autotune
begin

text \<open>
  The transitions of \<open>src/core/control.c\<close>: the feed of Smoke and Startup, the ambient estimate, and
  \<open>enter_mode\<close>, through which every change of mode goes.
\<close>

section \<open>Feed and fan\<close>

definition cycle_cfg_for :: "('i, 's, 'w, 'z) control_scheme \<Rightarrow> ('i, 's, 'w, 'z) control_scheme" where
  "cycle_cfg_for c = c\<lparr>k_ccfg := \<lparr>cfg_cycle_s = hold_cycle_s (c_cfg c), cfg_u_min = u_min (c_cfg c), cfg_u_max = u_max (c_cfg c),
                                  cfg_max_on_s = auger_max_on_s (c_cfg c)\<rparr>\<rparr>"

definition fan_on :: "int \<Rightarrow> ('i, 's, 'w, 'z) control_scheme \<Rightarrow> ('i, 's, 'w, 'z) control_scheme" where
  "fan_on pct c =
     (let c = set_out FAN True c;
          c = (if dc_fan (c_cfg c) then out_fan_pct (if 0 < pct then pct else 100) c else c)
      in c\<lparr>k_fan_ramping := False\<rparr>)"

definition feed_times :: "('i, 's, 'w, 'z) control_scheme \<Rightarrow> fl \<times> fl" where
  "feed_times c =
     (if c_mode c = STARTUP \<or> c_mode c = REIGNITE
      then (case ss_prof (c_cfg c) ! k_ss_profile c of (on_s, p) \<Rightarrow> (on_s, smoke_off_s (c_cfg c) + int_to_fl (p * 10)))
      else (smoke_on_s (c_cfg c), smoke_off_s (c_cfg c) + int_to_fl (pmode (c_cfg c) * 10)))"

definition smoke_cycle :: "fl \<Rightarrow> ('i, 's, 'w, 'z) control_scheme \<Rightarrow> ('i, 's, 'w, 'z) control_scheme" where
  "smoke_cycle now c =
     (case feed_times c of (on_s, off_s) \<Rightarrow>
        (let uff = fw_uff (k_feat c) (k_w c) (c_pit_c c + 3 * ss_exit_rise_c (c_cfg c)) (c_ambient_c c)
                     (u_min (c_cfg c)) (u_max (c_cfg c))
         in if (c_mode c = REIGNITE \<or> c_mode c = STARTUP) \<and> c_pit_valid c \<and> on_s / (on_s + off_s) < uff
            then take_feed (begin_cycle now uff c)
            else take_feed (begin_fixed now on_s off_s c)))"

definition select_smartstart_profile :: "('i, 's, 'w, 'z) control_scheme \<Rightarrow> ('i, 's, 'w, 'z) control_scheme" where
  "select_smartstart_profile c =
     c\<lparr>k_ss_profile := (case find_index (\<lambda>r. c_pit_c c < r) (take (ss_n (c_cfg c)) (ss_ranges_c (c_cfg c))) of
                          Some i \<Rightarrow> i | None \<Rightarrow> ss_n (c_cfg c))\<rparr>"

section \<open>The ambient estimate\<close>

definition AMBIENT_MAX_C :: fl where "AMBIENT_MAX_C = 50"

definition atof :: "string \<Rightarrow> fl" where "atof t = (case strtod t of Some v \<Rightarrow> v | None \<Rightarrow> 0)"

text \<open>\<open>%.1f\<close>.\<close>

fun fmt_f1 :: "fl \<Rightarrow> string" where
  "fmt_f1 (Fin r) = (let n = nat (rint (10 * \<bar>r\<bar>))
                     in (if r < 0 then ''-'' else []) @ show_nat (n div 10) @ ''.'' @ show_nat (n mod 10))"
| "fmt_f1 x = fmt_f0 x"

definition saved_ambient :: "('i, 's, 'w, 'z) control_scheme \<Rightarrow> fl option" where
  "saved_ambient c =
     (case kv_get ''control'' ''ambient_last'' (services_of c) of
        Some (JStr t) \<Rightarrow> (let v = atof t in if -40 < v \<and> v \<le> AMBIENT_MAX_C then Some v else None)
      | _ \<Rightarrow> None)"

definition ambient_provisional :: "('i, 's, 'w, 'z) control_scheme \<Rightarrow> ('i, 's, 'w, 'z) control_scheme" where
  "ambient_provisional c =
     (if c_pit_valid c \<and> c_pit_c c \<le> AMBIENT_MAX_C then c\<lparr>c_ambient_c := c_pit_c c\<rparr>
      else if \<not> isnan (c_ambient_c c) \<and> c_ambient_c c \<le> AMBIENT_MAX_C then c
      else c\<lparr>c_ambient_c := (case saved_ambient c of Some v \<Rightarrow> v | None \<Rightarrow> 20)\<rparr>)"

definition ambient_remember :: "('i, 's, 'w, 'z) control_scheme \<Rightarrow> ('i, 's, 'w, 'z) control_scheme" where
  "ambient_remember c =
     (let a = c_ambient_c c; s = o_ambient_saved (k_mod c)
      in if isnan a \<or> AMBIENT_MAX_C < a \<or> \<not> es_db_open (c_ev c) then c
         else if \<not> isnan s \<and> \<bar>s - a\<bar> < 1 then c
         else put_services (kv_put ''control'' ''ambient_last'' (JStr (sn 32 (fmt_f1 a))) (services_of c))
                (upd_mod (\<lambda>m. m\<lparr>o_ambient_saved := a\<rparr>) c))"

section \<open>Entering a mode\<close>

definition cooking_now :: "pf_mode \<Rightarrow> bool" where
  "cooking_now m \<longleftrightarrow> m = STARTUP \<or> m = REIGNITE \<or> m = SMOKE \<or> m = HOLD \<or> m = SHUTDOWN \<or> m = PRIME"

definition pit_or_nan :: "('i, 's, 'w, 'z) control_scheme \<Rightarrow> fl" where
  "pit_or_nan c = (if c_pit_valid c then c_pit_c c else NaN)"

text \<open>What every change of mode does first: the state of the mode is begun afresh, igniter and auger are off.\<close>

definition start_mode :: "pf_mode \<Rightarrow> fl \<Rightarrow> ('i, 's, 'w, 'z) control_scheme \<Rightarrow> ('i, 's, 'w, 'z) control_scheme" where
  "start_mode m now c =
     upd_mod (\<lambda>o1. o1\<lparr>o_bank := pf_probes_set_cooking (cooking_now m) (o_bank o1)\<rparr>)
       (c\<lparr>k_recoveries := (if m = STOP then 0 else k_recoveries c), c_mode := m, k_mode_start := now, k_aim_since := now,
          k_aim_pit_c := pit_or_nan c, k_eta_s := -1, c_lid_open := False, k_fan_pid_active := False, k_fan_ramping := False,
          c_target_reached := False, k_manual_until := (\<lambda>_. 0), k_cycle := pf_cycle_stop (k_cycle c)\<rparr>)"

definition mode_prologue :: "pf_mode \<Rightarrow> fl \<Rightarrow> ('i, 's, 'w, 'z) control_scheme \<Rightarrow> ('i, 's, 'w, 'z) control_scheme" where
  "mode_prologue m now c =
     (let c = start_mode m now c;
          c = (if c_autotune_active c then autotune_finish False ''Mode changed.'' c else c);
          c = learn_reset_window now c;
          c = upd_safety (\<lambda>s. s\<lparr>igniter_locked_out := False, igniter_on_since := 0, primary_invalid_since := 0\<rparr>) c;
          c = cycle_cfg_for c;
          c = set_out AUGER False (set_out IGNITER False c)
      in c\<lparr>k_auger_on_since := now\<rparr>)"

definition enter_stop :: "('i, 's, 'w, 'z) control_scheme \<Rightarrow> ('i, 's, 'w, 'z) control_scheme" where
  "enter_stop c =
     (let c = (out_all_off c)\<lparr>k_s_plus := False, k_next_mode := STOP\<rparr>
      in if 0 < k_cook_start_wall c
         then (feature (CookfileRequest (k_cook_start_wall c) (k_wall c) (k_auger_total_on_s c) (k_cook_max_pit_c c)) c)
                \<lparr>k_cook_start_wall := 0\<rparr>
         else c)"

definition prime_seconds :: "fl \<Rightarrow> pf_cfg \<Rightarrow> fl" where
  "prime_seconds g cfg =
     (let d = (if 0 < augerrate cfg then g / augerrate cfg else 0)
      in if 0 < auger_max_on_s cfg \<and> auger_max_on_s cfg < d then auger_max_on_s cfg else d)"

definition enter_prime :: "fl \<Rightarrow> ('i, 's, 'w, 'z) control_scheme \<Rightarrow> ('i, 's, 'w, 'z) control_scheme" where
  "enter_prime now c =
     (let c = set_out POWER True (set_out FAN False c);
          c = (if k_prime_amount_g c < 0 then c\<lparr>k_prime_amount_g := 0\<rparr> else c);
          c = c\<lparr>k_prime_duration_s := prime_seconds (k_prime_amount_g c) (c_cfg c)\<rparr>;
          c = (if prime_ignition (c_cfg c) \<and> k_next_mode c = STARTUP then set_out IGNITER True c else c);
          c = begin_fixed now (k_prime_duration_s c) 1 c
      in set_out AUGER True c)"

definition begin_cook :: "pf_mode \<Rightarrow> ('i, 's, 'w, 'z) control_scheme \<Rightarrow> ('i, 's, 'w, 'z) control_scheme" where
  "begin_cook prev c =
     (let c = pf_safety_reset (c\<lparr>k_cook_start_wall := k_wall c, k_auger_total_on_s := 0, k_cook_max_pit_c := 0\<rparr>);
          c = (if clear_history_on_startup (c_cfg c) \<and> prev = STOP then feature HistoryClear c else c);
          c = (if \<not> k_ambient_from_probe c then ambient_provisional c else c)
      in learn_rise_begin c)"

definition enter_lighting :: "fl \<Rightarrow> ('i, 's, 'w, 'z) control_scheme \<Rightarrow> ('i, 's, 'w, 'z) control_scheme" where
  "enter_lighting now c =
     (let c = set_out POWER True c;
          c = fan_on (if dc_fan (c_cfg c) then startup_pwm_duty (c_cfg c) else 100) c;
          c = set_out IGNITER True c;
          c = select_smartstart_profile c;
          c = pf_safety_on_startup_enter now c;
          c = smoke_cycle now c
      in set_out AUGER True c)"

definition enter_smoke :: "pf_mode \<Rightarrow> fl \<Rightarrow> ('i, 's, 'w, 'z) control_scheme \<Rightarrow> ('i, 's, 'w, 'z) control_scheme" where
  "enter_smoke prev now c =
     (let c = set_out POWER True (pf_safety_on_run_enter prev now c)
      in set_out AUGER True (smoke_cycle now (fan_on (k_duty_cycle c) c)))"

definition enter_hold :: "pf_mode \<Rightarrow> fl \<Rightarrow> ('i, 's, 'w, 'z) control_scheme \<Rightarrow> ('i, 's, 'w, 'z) control_scheme" where
  "enter_hold prev now c =
     (let c = set_out POWER True (pf_safety_on_run_enter prev now c);
          c = (fan_on (k_duty_cycle c) c)\<lparr>k_ctrl_reset_needed := True\<rparr>
      in set_out AUGER True (take_feed (begin_cycle now (u_min (c_cfg c)) c)))"

definition enter_error :: "fl \<Rightarrow> ('i, 's, 'w, 'z) control_scheme \<Rightarrow> ('i, 's, 'w, 'z) control_scheme" where
  "enter_error now c =
     (let hot = c_pit_valid c \<and> restart_hot_c (c_cfg c) < c_pit_c c;
          c = upd_safety (\<lambda>s. s\<lparr>error_pit_c := pit_or_nan c,
                error_fan_until := (if hot then now + error_cooldown_fan_s (c_cfg c) else 0)\<rparr>) c
      in if now < error_fan_until (c_safety c) then fan_on 100 (set_out POWER True c) else out_all_off c)"

definition arrive :: "pf_mode \<Rightarrow> pf_mode \<Rightarrow> fl \<Rightarrow> ('i, 's, 'w, 'z) control_scheme \<Rightarrow> ('i, 's, 'w, 'z) control_scheme" where
  "arrive prev m now c =
     (case m of
        STOP \<Rightarrow> enter_stop c
      | MONITOR \<Rightarrow> set_out POWER False (set_out FAN False c)
      | MANUAL \<Rightarrow> set_out POWER False (set_out FAN False c)
      | PRIME \<Rightarrow> enter_prime now c
      | STARTUP \<Rightarrow> enter_lighting now (begin_cook prev c)
      | REIGNITE \<Rightarrow> enter_lighting now c
      | SMOKE \<Rightarrow> enter_smoke prev now c
      | HOLD \<Rightarrow> enter_hold prev now c
      | SHUTDOWN \<Rightarrow> (let c = set_out POWER True c in fan_on (k_duty_cycle c) c)
      | ERROR \<Rightarrow> enter_error now c)"

definition enter_mode :: "pf_mode \<Rightarrow> fl \<Rightarrow> ('i, 's, 'w, 'z) control_scheme \<Rightarrow> ('i, 's, 'w, 'z) control_scheme" where
  "enter_mode m now c =
     db_event PF_LVL_INFO ''MODE'' (Msg ''Entered %s mode'' [AStr (pf_mode_name m)])
       (arrive (c_mode c) m now (mode_prologue m now c))"

definition pf_control_request :: "pf_mode \<Rightarrow> fl \<Rightarrow> ('i, 's, 'w, 'z) control_scheme \<Rightarrow> ('i, 's, 'w, 'z) control_scheme" where
  "pf_control_request m sp c = c\<lparr>k_req_pending := True, k_req_mode := m, k_req_setpoint_c := sp\<rparr>"

end
