(* ===== verification/Control_Recipe.thy ===== *)
theory Control_Recipe
  imports Control_Modes
begin

text \<open>
  The recipe runner of \<open>src/core/control.c\<close>: what a step's ending is asked about, the steps begun, ended,
  passed over and held, and the notifications tick that can end a cook.
\<close>

section \<open>Facts for a step's ending\<close>

record food_stats =
  fs_hi :: fl
  fs_lo :: fl
  fs_avg :: fl
  fs_rested :: fl
  fs_battery :: fl
  fs_eta :: fl

text \<open>The food probes of the cook, with the tot, the rate at the hottest and the count the loop carries.\<close>

definition food_probe :: "pf_probe_reading \<Rightarrow> bool" where
  "food_probe p \<longleftrightarrow> pr_role p = PROBE_FOOD \<and> pr_enabled p \<and> pr_in_use p"

definition food_about :: "pf_notify \<Rightarrow> pf_probe_reading \<Rightarrow> food_stats \<Rightarrow> food_stats" where
  "food_about n p f =
     (let b = int_to_fl (pr_battery p);
          f = (if pr_wireless p \<and> 0 \<le> pr_battery p \<and> (isnan (fs_battery f) \<or> b < fs_battery f) then f\<lparr>fs_battery := b\<rparr> else f)
      in case pf_notify_find n (pr_label p) of
           Some np \<Rightarrow> if 0 \<le> np_eta_s np \<and> (fs_eta f < 0 \<or> np_eta_s np < fs_eta f) then f\<lparr>fs_eta := np_eta_s np\<rparr> else f
         | None \<Rightarrow> f)"

definition food_add :: "pf_notify \<Rightarrow> pf_probe_reading \<Rightarrow> food_stats \<times> fl \<times> fl \<times> nat \<Rightarrow> food_stats \<times> fl \<times> fl \<times> nat" where
  "food_add n p = (\<lambda>(f, tot, rate, k).
     let f = food_about n p f; t = pr_temp_c p
     in if \<not> pr_valid p then (f, tot, rate, k)
        else (let (f, rate) = (if isnan (fs_hi f) \<or> fs_hi f < t then (f\<lparr>fs_hi := t\<rparr>, pf_notify_probe_rate n (pr_label p)) else (f, rate));
                  f = (if isnan (fs_lo f) \<or> t < fs_lo f then f\<lparr>fs_lo := t\<rparr> else f)
              in (f, tot + t, rate, k + 1)))"

definition food_numbers :: "pf_sensors \<Rightarrow> pf_notify \<Rightarrow> food_stats" where
  "food_numbers s n =
     (case fold (food_add n) (filter food_probe (sn_p s))
             (\<lparr>fs_hi = NaN, fs_lo = NaN, fs_avg = NaN, fs_rested = NaN, fs_battery = NaN, fs_eta = -1\<rparr>, 0, 0, 0) of
        (f, tot, rate, k) \<Rightarrow>
          if 0 < k then f\<lparr>fs_avg := tot / num k, fs_rested := fs_hi f + pf_carryover_c rate\<rparr> else f)"

definition cur_step :: "('i, 's, 'w, 'z) control_scheme \<Rightarrow> pf_recipe_step" where
  "cur_step c = step_at (rr_r (k_recipe c)) (rr_step (k_recipe c))"

definition step_elapsed :: "fl \<Rightarrow> ('i, 's, 'w, 'z) control_scheme \<Rightarrow> fl" where
  "step_elapsed now c =
     (let r = k_recipe c
      in if rp_mode (cur_step c) = HOLD then (if 0 < rr_at_temp_since r then now - rr_at_temp_since r else 0)
         else now - rr_step_start r)"

definition arrival_eta :: "('i, 's, 'w, 'z) control_scheme \<Rightarrow> fl" where
  "arrival_eta c =
     (let gap = c_setpoint_c c - c_pit_c c
      in if \<not> c_pit_valid c \<or> 0 < rr_at_temp_since (k_recipe c) then 0
         else if gap \<le> 0 then 0
         else if 0.1 < k_pit_rate_c_min c then gap / k_pit_rate_c_min c * 60 else -1)"

definition opt_num :: "string \<Rightarrow> bool \<Rightarrow> fl \<Rightarrow> (string \<times> json) list" where
  "opt_num k b v = (if b then [(k, JNum v)] else [])"

definition pit_fact :: "('i, 's, 'w, 'z) control_scheme \<Rightarrow> json list" where
  "pit_fact c =
     (case sensor_at (k_sensors c) (sn_primary (k_sensors c)) of
        Some p \<Rightarrow> if pr_valid p then [JObj [(''role'', JStr ''Primary''), (''temp'', JNum (pr_temp_c p))]] else []
      | None \<Rightarrow> [])"

definition step_facts :: "fl \<Rightarrow> bool \<Rightarrow> ('i, 's, 'w, 'z) control_scheme \<Rightarrow> json" where
  "step_facts now as_if_answered c =
     (let f = food_numbers (k_sensors c) (k_notify c); r = k_recipe c
      in JObj [(''units'', JStr ''C''), (''mode'', JStr (pf_mode_name (c_mode c))), (''setpoint'', JNum (c_setpoint_c c)),
               (''lid_open'', JBool (c_lid_open c)),
               (''cook_elapsed'', JNum (if 0 < k_cook_start_wall c then k_wall c - k_cook_start_wall c else 0)),
               (''aiming_s'', JNum (now - k_aim_since c)),
               (''probes'', JArr (pit_fact c)),
               (''step'', JObj ([(''elapsed'', JNum (step_elapsed now c))]
                  @ opt_num ''food_max'' (\<not> isnan (fs_hi f)) (fs_hi f)
                  @ opt_num ''food_min'' (\<not> isnan (fs_lo f)) (fs_lo f)
                  @ opt_num ''food_avg'' (\<not> isnan (fs_avg f)) (fs_avg f)
                  @ opt_num ''food_rested'' (\<not> isnan (fs_rested f)) (fs_rested f)
                  @ opt_num ''food_battery'' (\<not> isnan (fs_battery f)) (fs_battery f)
                  @ opt_num ''food_eta'' (0 \<le> fs_eta f) (fs_eta f)
                  @ [(''prompt'', JBool (as_if_answered \<or> rr_prompt_given r)), (''lid'', JBool (as_if_answered \<or> rr_lid_seen r))]))])"

section \<open>What an ending says of itself\<close>

lemma j_get_ci_size: "j_get_ci k j = Some v \<Longrightarrow> size v < size j"
  by (cases j) (auto dest!: j_find_size)

lemma j_get_ci_kid: "j_get_ci n j = Some (JArr ks) \<Longrightarrow> x \<in> set ks \<Longrightarrow> size x < size j"
  using j_get_ci_size [of n j "JArr ks"] size_list_estimation' [of x ks "size x" size] by simp

function tree_mentions :: "string \<Rightarrow> json \<Rightarrow> bool" where
  "tree_mentions trait node =
     (case j_get_ci ''conditions'' node of
        Some (JArr ks) \<Rightarrow> list_ex (tree_mentions trait) ks
      | _ \<Rightarrow> pf_json_str (Some node) ''trait'' [] = trait)"
  by pat_completeness auto

termination
  by (relation "measure (\<lambda>(_, node). size node)") (auto simp: j_get_ci_kid)

declare tree_mentions.simps [simp del]

definition mentions :: "string \<Rightarrow> json option \<Rightarrow> bool" where
  "mentions trait node = (case node of Some j \<Rightarrow> tree_mentions trait j | None \<Rightarrow> False)"

definition tree_empty :: "json option \<Rightarrow> bool" where
  "tree_empty node =
     (case node of
        None \<Rightarrow> True
      | Some j \<Rightarrow> if j_get_ci ''trait'' j \<noteq> None then False
                  else case j_get_ci ''conditions'' j of Some (JArr ks) \<Rightarrow> ks = [] | _ \<Rightarrow> True)"

text \<open>The last of the terms when all have to hold, the first when one will do; a negative one says nothing.\<close>

definition join_eta :: "bool \<Rightarrow> fl \<Rightarrow> fl \<Rightarrow> fl" where
  "join_eta all best e = (if e < 0 then best else if best < 0 then e else if all then fmax best e else fmin best e)"

definition clock_eta :: "fl \<Rightarrow> fl \<Rightarrow> ('i, 's, 'w, 'z) control_scheme \<Rightarrow> fl" where
  "clock_eta now want c =
     (let left = fmax 0 (want - step_elapsed now c)
      in if rp_mode (cur_step c) = HOLD \<and> rr_at_temp_since (k_recipe c) \<le> 0
         then (let climb = arrival_eta c in if climb < 0 then -1 else left + climb)
         else left)"

definition food_eta :: "string \<Rightarrow> fl \<Rightarrow> ('i, 's, 'w, 'z) control_scheme \<Rightarrow> fl" where
  "food_eta tr target_c c =
     foldl (\<lambda>best p. case pf_notify_find (k_notify c) (pr_label p) of
              None \<Rightarrow> best
            | Some np \<Rightarrow> join_eta (tr = ''food_min'') best (pf_notify_estimate_eta (probe_hist np) target_c ETA_INTERVAL_S))
       (-1) (filter (\<lambda>p. food_probe p \<and> pr_valid p) (sn_p (k_sensors c)))"

definition leaf_eta :: "fl \<Rightarrow> bool \<Rightarrow> ('i, 's, 'w, 'z) control_scheme \<Rightarrow> json \<Rightarrow> fl" where
  "leaf_eta now clock_only c node =
     (let tr = pf_json_str (Some node) ''trait'' []; rel = pf_json_str (Some node) ''op'' [];
          want = pf_json_num (Some node) ''value'' 0
      in if rel \<noteq> ''>='' \<and> rel \<noteq> ''>'' then -1
         else if tr = ''elapsed'' then clock_eta now want c
         else if clock_only then -1
         else if tr \<noteq> ''food_max'' \<and> tr \<noteq> ''food_min'' \<and> tr \<noteq> ''food_avg'' \<and> tr \<noteq> ''food_rested'' then -1
         else food_eta tr want c)"

function tree_eta_impl :: "fl \<Rightarrow> bool \<Rightarrow> ('i, 's, 'w, 'z) control_scheme \<Rightarrow> json \<Rightarrow> fl" where
  "tree_eta_impl now clock_only c node =
     (case j_get_ci ''conditions'' node of
        Some (JArr ks) \<Rightarrow>
          (let all = (\<not> strcase_eq (pf_json_str (Some node) ''op'' ''all'') ''any'')
           in foldl (join_eta all) (-1) (map (tree_eta_impl now clock_only c) ks))
      | _ \<Rightarrow> leaf_eta now clock_only c node)"
  by pat_completeness auto

termination
  by (relation "measure (\<lambda>(_, _, _, node). size node)") (auto simp: j_get_ci_kid)

declare tree_eta_impl.simps [simp del]

definition tree_eta :: "fl \<Rightarrow> ('i, 's, 'w, 'z) control_scheme \<Rightarrow> json option \<Rightarrow> fl" where
  "tree_eta now c node = (case node of Some j \<Rightarrow> tree_eta_impl now False c j | None \<Rightarrow> -1)"

definition tree_clock :: "fl \<Rightarrow> ('i, 's, 'w, 'z) control_scheme \<Rightarrow> json option \<Rightarrow> fl" where
  "tree_clock now c node = (case node of Some j \<Rightarrow> tree_eta_impl now True c j | None \<Rightarrow> -1)"

section \<open>Beginning and ending steps\<close>

definition flag_at :: "nat \<Rightarrow> ('i, 's, 'w, 'z) control_scheme \<Rightarrow> int" where
  "flag_at i c = (if i < 16 then rr_flags (k_recipe c) ! i else 0)"

definition set_flag :: "nat \<Rightarrow> int \<Rightarrow> recipe_run \<Rightarrow> recipe_run" where
  "set_flag i v r = (if i < 16 then r\<lparr>rr_flags := (rr_flags r)[i := v]\<rparr> else r)"

definition cur_flag :: "('i, 's, 'w, 'z) control_scheme \<Rightarrow> int" where "cur_flag c = flag_at (rr_step (k_recipe c)) c"

definition recipe_name :: "('i, 's, 'w, 'z) control_scheme \<Rightarrow> string" where "recipe_name c = rc_name (rr_r (k_recipe c))"

text \<open>The record of a step begun: its clocks start here, the answers only a person can give are cleared.\<close>

definition step_record :: "fl \<Rightarrow> json option \<Rightarrow> recipe_run \<Rightarrow> recipe_run" where
  "step_record now ends r =
     r\<lparr>rr_step_start := now, rr_at_temp_since := 0, rr_clock_s := -1, rr_triggered := False, rr_waiting := False,
       rr_lead_fired := False, rr_said := False, rr_eta_s := -1, rr_last_eval := 0, rr_prompt_given := False,
       rr_lid_seen := False, rr_ends := ends, rr_clocks := zero_clocks,
       rr_wants_prompt := mentions ''prompt'' ends \<or> mentions ''lid'' ends\<rparr>"

definition cold_mode :: "pf_mode \<Rightarrow> bool" where
  "cold_mode m \<longleftrightarrow> m = STOP \<or> m = MONITOR \<or> m = MANUAL \<or> m = PRIME \<or> m = SHUTDOWN"

definition lighting :: "pf_mode \<Rightarrow> bool" where "lighting m \<longleftrightarrow> m = STARTUP \<or> m = REIGNITE"

definition startup_step :: "fl \<Rightarrow> ('i, 's, 'w, 'z) control_scheme \<Rightarrow> ('i, 's, 'w, 'z) control_scheme" where
  "startup_step now c =
     (let r = k_recipe c;
          m = (if rr_step r + 1 < length (rc_steps (rr_r r)) then rp_mode (step_at (rr_r r) (rr_step r + 1))
               else after_startup_mode (c_cfg c));
          c = c\<lparr>k_next_mode := (if m \<noteq> SMOKE \<and> m \<noteq> HOLD then SMOKE else m)\<rparr>
      in if pf_mode_is_firing (c_mode c) then c
         else if c_mode c \<noteq> STARTUP then enter_mode STARTUP now c else c)"

definition burning_step :: "pf_mode \<Rightarrow> fl \<Rightarrow> ('i, 's, 'w, 'z) control_scheme \<Rightarrow> ('i, 's, 'w, 'z) control_scheme" where
  "burning_step m now c =
     (if cold_mode (c_mode c) then enter_mode STARTUP now (c\<lparr>k_next_mode := m\<rparr>)
      else if lighting (c_mode c) then c\<lparr>k_next_mode := m\<rparr>
      else if c_mode c \<noteq> m then enter_mode m now c
      else if m = HOLD then c\<lparr>c_target_reached := False, k_ctrl_reset_needed := True\<rparr>
      else c)"

definition set_step :: "fl \<Rightarrow> ('i, 's, 'w, 'z) control_scheme \<Rightarrow> ('i, 's, 'w, 'z) control_scheme" where
  "set_step now c =
     (let s = cur_step c;
          c = upd_recipe (step_record now (if rp_ends s \<noteq> [] then fw_parse (k_feat c) (rp_ends s) else None)) c;
          c = (if 0 < rp_setpoint_c s then c\<lparr>c_setpoint_c := rp_setpoint_c s\<rparr> else c)
      in c\<lparr>k_s_plus := rp_s_plus s\<rparr>)"

definition apply_step :: "fl \<Rightarrow> ('i, 's, 'w, 'z) control_scheme \<Rightarrow> ('i, 's, 'w, 'z) control_scheme" where
  "apply_step now c =
     (let s = cur_step c; c = set_step now c
      in case rp_mode s of
           STARTUP \<Rightarrow> startup_step now c
         | SMOKE \<Rightarrow> burning_step SMOKE now c
         | HOLD \<Rightarrow> burning_step HOLD now c
         | SHUTDOWN \<Rightarrow> enter_mode SHUTDOWN now c
         | STOP \<Rightarrow> enter_mode STOP now c
         | _ \<Rightarrow> c)"

definition end_recipe :: "('i, 's, 'w, 'z) control_scheme \<Rightarrow> ('i, 's, 'w, 'z) control_scheme" where
  "end_recipe c = upd_recipe (\<lambda>r. r\<lparr>rr_active := False, rr_ends := None\<rparr>) c"

definition say_step :: "('i, 's, 'w, 'z) control_scheme \<Rightarrow> ('i, 's, 'w, 'z) control_scheme" where
  "say_step c =
     (if rp_message (cur_step c) \<noteq> [] \<and> \<not> rr_said (k_recipe c)
      then tell ''Recipe_Step_Message'' (recipe_name c) (Msg ''%s'' [AStr (rp_message (cur_step c))]) c else c)"

definition recipe_complete :: "('i, 's, 'w, 'z) control_scheme \<Rightarrow> ('i, 's, 'w, 'z) control_scheme" where
  "recipe_complete c =
     (let c = end_recipe (tell ''Recipe_Complete'' (recipe_name c) (Msg ''Recipe complete.'' []) c)
      in upd_recipe (\<lambda>r. r\<lparr>rr_left_running := pf_mode_is_firing (c_mode c)\<rparr>) c)"

lemma k_recipe_tell [simp]: "k_recipe (tell a b d c) = k_recipe c"
  by (simp add: tell_def put_services_def)

lemma k_recipe_say_step [simp]: "k_recipe (say_step c) = k_recipe c"
  by (simp add: say_step_def)

function recipe_begin_step :: "fl \<Rightarrow> ('i, 's, 'w, 'z) control_scheme \<Rightarrow> ('i, 's, 'w, 'z) control_scheme"
  and recipe_advance :: "fl \<Rightarrow> ('i, 's, 'w, 'z) control_scheme \<Rightarrow> ('i, 's, 'w, 'z) control_scheme" where
  "recipe_begin_step now c =
     (if cur_flag c = 2
      then recipe_advance now (upd_recipe (\<lambda>r. (set_flag (rr_step r) 0 r)\<lparr>rr_said := True\<rparr>) c)
      else apply_step now c)"
| "recipe_advance now c =
     (let c = upd_recipe (\<lambda>r. r\<lparr>rr_step := rr_step r + 1\<rparr>) (say_step c)
      in if length (rc_steps (rr_r (k_recipe c))) \<le> rr_step (k_recipe c) then recipe_complete c
         else recipe_begin_step now c)"
  by pat_completeness auto

termination
  by (relation "measure (\<lambda>x. case x of
        Inl (now, c) \<Rightarrow> 2 * (length (rc_steps (rr_r (k_recipe c))) - rr_step (k_recipe c)) + 1
      | Inr (now, c) \<Rightarrow> 2 * (length (rc_steps (rr_r (k_recipe c))) - rr_step (k_recipe c)))")
    (auto simp: upd_recipe_def set_flag_def)

declare recipe_begin_step.simps [simp del] recipe_advance.simps [simp del]

text \<open>The last Shutdown step from the current one on.\<close>

definition finish_step :: "recipe_run \<Rightarrow> nat option" where
  "finish_step r =
     List.find (\<lambda>i. rp_mode (step_at (rr_r r) i) = SHUTDOWN) (rev [rr_step r..<length (rc_steps (rr_r r))])"

definition recipe_finish_now :: "fl \<Rightarrow> ('i, 's, 'w, 'z) control_scheme \<Rightarrow> ('i, 's, 'w, 'z) control_scheme" where
  "recipe_finish_now now c =
     (case finish_step (k_recipe c) of
        None \<Rightarrow> enter_mode SHUTDOWN now (upd_recipe (\<lambda>r. r\<lparr>rr_left_running := False\<rparr>) (end_recipe c))
      | Some fin \<Rightarrow>
          recipe_begin_step now
            (upd_recipe (\<lambda>r. set_flag fin 0 (r\<lparr>rr_step := fin,
               rr_r := (rr_r r)\<lparr>rc_steps := take (fin + 1) (rc_steps (rr_r r))\<rparr>\<rparr>)) c))"

definition upd_alarms :: "(alarms \<Rightarrow> alarms) \<Rightarrow> ('i, 's, 'w, 'z) control_scheme \<Rightarrow> ('i, 's, 'w, 'z) control_scheme" where
  "upd_alarms f c = upd_mod (\<lambda>m. m\<lparr>o_alarms := f (o_alarms m)\<rparr>) c"

definition LEFT_RUNNING :: string where "LEFT_RUNNING = ''RECIPE:left_running''"

definition recipe_aftercare :: "('i, 's, 'w, 'z) control_scheme \<Rightarrow> ('i, 's, 'w, 'z) control_scheme" where
  "recipe_aftercare c =
     (if \<not> rr_left_running (k_recipe c) then c
      else if \<not> pf_mode_is_firing (c_mode c)
      then upd_alarms (pf_alarms_clear (k_wall c) LEFT_RUNNING) (upd_recipe (\<lambda>r. r\<lparr>rr_left_running := False\<rparr>) c)
      else (let body = sn 256 ((if recipe_name c \<noteq> [] then recipe_name c else ''The recipe'')
                          @ '' has finished and did not shut the grill down. It is still in '' @ pf_mode_name (c_mode c) @ ''.'')
            in upd_alarms (\<lambda>t. pf_alarms_offer LEFT_RUNNING (Some ''shutdown'') 3600
                  (fst (pf_alarms_raise (k_wall c) LEFT_RUNNING ''W11_RECIPE_LEFT_RUNNING'' (Some ''Grill Still Running'')
                          PF_CRIT_HIGH PF_SINK_ALL ''The grill is still running'' body t))) c))"

section \<open>The runner's tick\<close>

definition recipe_hold_here :: "pf_recipe_step \<Rightarrow> ('i, 's, 'w, 'z) control_scheme \<Rightarrow> ('i, 's, 'w, 'z) control_scheme" where
  "recipe_hold_here s c =
     (let c = upd_recipe (\<lambda>r. r\<lparr>rr_waiting := True, rr_eta_s := -1, rr_clock_s := -1\<rparr>) c
      in if rr_said (k_recipe c) then c
         else tell ''Recipe_Step_Done'' (recipe_name c)
                (Msg ''%s%sPaused. Continue when ready.'' [AStr (rp_message s), AStr (if rp_message s \<noteq> [] then '' '' else [])])
                (upd_recipe (\<lambda>r. r\<lparr>rr_said := True\<rparr>) c))"

definition hold_or_advance :: "fl \<Rightarrow> ('i, 's, 'w, 'z) control_scheme \<Rightarrow> ('i, 's, 'w, 'z) control_scheme" where
  "hold_or_advance now c = (if cur_flag c = 1 then recipe_hold_here (cur_step c) c else recipe_advance now c)"

definition latch_lid :: "('i, 's, 'w, 'z) control_scheme \<Rightarrow> ('i, 's, 'w, 'z) control_scheme" where
  "latch_lid c =
     (if c_lid_open c \<and> \<not> rr_lid_seen (k_recipe c) \<and> mentions ''lid'' (rr_ends (k_recipe c))
      then upd_recipe (\<lambda>r. r\<lparr>rr_lid_seen := True\<rparr>) c else c)"

definition mode_step :: "pf_mode \<Rightarrow> bool" where "mode_step m \<longleftrightarrow> m = STARTUP \<or> m = SHUTDOWN \<or> m = STOP"

definition mode_over :: "pf_mode \<Rightarrow> pf_mode \<Rightarrow> bool" where
  "mode_over step_mode m =
     (if step_mode = STARTUP then m \<noteq> STARTUP \<and> m \<noteq> REIGNITE \<and> m \<noteq> PRIME
      else if step_mode = SHUTDOWN then m = STOP else True)"

text \<open>The ending asked, with the clocks it has moved.\<close>

definition ask_ending :: "fl \<Rightarrow> ('i, 's, 'w, 'z) control_scheme \<Rightarrow> bool \<times> ('i, 's, 'w, 'z) control_scheme" where
  "ask_ending now c =
     (case pf_rules_eval_tree (rr_ends (k_recipe c)) (Some (step_facts now False c)) ''step'' (Some (rr_clocks (k_recipe c))) now of
        (done, clks) \<Rightarrow>
          (done, upd_recipe (\<lambda>r. r\<lparr>rr_clocks := (case clks of Some k \<Rightarrow> k | None \<Rightarrow> rr_clocks r)\<rparr>) c))"

definition all_but_cook :: "fl \<Rightarrow> ('i, 's, 'w, 'z) control_scheme \<Rightarrow> bool" where
  "all_but_cook now c =
     fst (pf_rules_eval_tree (rr_ends (k_recipe c)) (Some (step_facts now True c)) ''step'' (Some (rr_clocks (k_recipe c))) now)"

definition start_clock :: "fl \<Rightarrow> ('i, 's, 'w, 'z) control_scheme \<Rightarrow> ('i, 's, 'w, 'z) control_scheme" where
  "start_clock now c =
     (if rp_mode (cur_step c) = HOLD \<and> rr_at_temp_since (k_recipe c) \<le> 0 \<and> c_mode c = HOLD \<and> c_target_reached c
      then upd_recipe (\<lambda>r. r\<lparr>rr_at_temp_since := now\<rparr>) c else c)"

text \<open>A step the cook marked to go on by itself answers its own prompt once the rest of its ending holds.\<close>

definition go_on_alone :: "fl \<Rightarrow> bool \<Rightarrow> bool \<Rightarrow> ('i, 's, 'w, 'z) control_scheme \<Rightarrow> bool \<times> ('i, 's, 'w, 'z) control_scheme" where
  "go_on_alone now ready done c =
     (if ready \<and> \<not> done \<and> rr_wants_prompt (k_recipe c) \<and> \<not> rr_prompt_given (k_recipe c) \<and> cur_flag c = 3
      then ask_ending now (upd_recipe (\<lambda>r. r\<lparr>rr_prompt_given := True\<rparr>) c)
      else (done, c))"

definition say_ready :: "('i, 's, 'w, 'z) control_scheme \<Rightarrow> ('i, 's, 'w, 'z) control_scheme" where
  "say_ready c =
     (if rr_waiting (k_recipe c) \<and> \<not> rr_said (k_recipe c)
      then tell ''Recipe_Step_Done'' (recipe_name c)
             (Msg ''%s'' [AStr (if rp_message (cur_step c) \<noteq> [] then rp_message (cur_step c) else ''Step complete. Tap Next.'')])
             (upd_recipe (\<lambda>r. r\<lparr>rr_said := True\<rparr>) c)
      else c)"

definition say_soon :: "('i, 's, 'w, 'z) control_scheme \<Rightarrow> ('i, 's, 'w, 'z) control_scheme" where
  "say_soon c =
     (let r = k_recipe c; s = cur_step c
      in if \<not> rr_lead_fired r \<and> 0 < rp_lead_s s \<and> 0 \<le> rr_eta_s r \<and> rr_eta_s r \<le> rp_lead_s s
         then tell ''Recipe_Step_Soon'' (recipe_name c)
                (Msg ''%s'' [AStr (if rp_lead_message s \<noteq> [] then rp_lead_message s else ''Next step soon.'')])
                (upd_recipe (\<lambda>r. r\<lparr>rr_lead_fired := True\<rparr>) c)
         else c)"

definition step_report :: "fl \<Rightarrow> bool \<Rightarrow> ('i, 's, 'w, 'z) control_scheme \<Rightarrow> ('i, 's, 'w, 'z) control_scheme" where
  "step_report now wait c =
     (let c = say_ready (upd_recipe (\<lambda>r. r\<lparr>rr_waiting := wait\<rparr>) c);
          ends = rr_ends (k_recipe c)
      in say_soon (upd_recipe (\<lambda>r. r\<lparr>rr_eta_s := (if wait then -1 else tree_eta now c ends),
                                   rr_clock_s := (if wait then -1 else tree_clock now c ends)\<rparr>) c))"

definition run_ending :: "fl \<Rightarrow> ('i, 's, 'w, 'z) control_scheme \<Rightarrow> ('i, 's, 'w, 'z) control_scheme" where
  "run_ending now c =
     (let c = start_clock now (upd_recipe (\<lambda>r. r\<lparr>rr_last_eval := now\<rparr>) c)
      in case ask_ending now c of
           (done, c) \<Rightarrow>
             if done \<and> cur_flag c = 1 then recipe_hold_here (cur_step c) c
             else (let ready = (if \<not> done \<and> rr_wants_prompt (k_recipe c) then all_but_cook now c else done)
                   in case go_on_alone now ready done c of
                        (done, c) \<Rightarrow>
                          (let c = step_report now (ready \<and> \<not> done) c
                           in if done then recipe_advance now c else c)))"

definition run_recipe :: "fl \<Rightarrow> ('i, 's, 'w, 'z) control_scheme \<Rightarrow> ('i, 's, 'w, 'z) control_scheme" where
  "run_recipe now c =
     (if \<not> rr_active (k_recipe c) then c
      else if c_mode c = ERROR then upd_recipe (\<lambda>r. r\<lparr>rr_active := False\<rparr>) c
      else (let c = latch_lid c; s = cur_step c
            in if mode_step (rp_mode s)
               then (if mode_over (rp_mode s) (c_mode c) then hold_or_advance now c else c)
               else if c_mode c \<noteq> rp_mode s then c
               else if tree_empty (rr_ends (k_recipe c)) then hold_or_advance now c
               else if now - rr_last_eval (k_recipe c) < 1 then c
               else run_ending now c))"

section \<open>Notifications\<close>

definition end_of_cook :: "fl \<Rightarrow> int \<Rightarrow> ('i, 's, 'w, 'z) control_scheme \<Rightarrow> ('i, 's, 'w, 'z) control_scheme" where
  "end_of_cook now act c =
     (if act = PF_AFTER_SHUTDOWN \<and> pf_mode_is_firing (c_mode c)
      then (if rr_active (k_recipe c) then recipe_finish_now now c else enter_mode SHUTDOWN now c)
      else if act = PF_AFTER_KEEPWARM \<and> (c_mode c = SMOKE \<or> c_mode c = HOLD)
      then (let c = c\<lparr>c_setpoint_c := keepwarm_c (c_cfg c), k_s_plus := keepwarm_splus (c_cfg c), c_target_reached := False\<rparr>
            in if c_mode c = HOLD then c\<lparr>k_ctrl_reset_needed := True\<rparr> else enter_mode HOLD now c)
      else c)"

definition mirror_targets :: "('i, 's, 'w, 'z) control_scheme \<Rightarrow> ('i, 's, 'w, 'z) control_scheme" where
  "mirror_targets c =
     c\<lparr>k_sensors := (k_sensors c)\<lparr>sn_p := map (\<lambda>r. r\<lparr>pr_target_c :=
          (case pf_notify_find (k_notify c) (pr_label r) of Some p \<Rightarrow> np_target_c p | None \<Rightarrow> 0)\<rparr>) (sn_p (k_sensors c))\<rparr>\<rparr>"

definition run_notify :: "fl \<Rightarrow> ('i, 's, 'w, 'z) control_scheme \<Rightarrow> ('i, 's, 'w, 'z) control_scheme" where
  "run_notify now c =
     (let n = pf_notify_sync (k_sensors c) (k_notify c);
          cook = (if (c_mode c = HOLD \<or> c_mode c = REIGNITE \<or> c_mode c = STARTUP) \<and> 0 < c_setpoint_c c then c_setpoint_c c else 0)
      in case pf_notify_tick (k_sensors c) (c_mode c) now (units (c_cfg c)) (n\<lparr>nt_cook_temp_c := cook\<rparr>, services_of c) of
           (n, v) \<Rightarrow>
             (let c = put_services v (c\<lparr>k_notify := n\<lparr>nt_pending_action := PF_AFTER_NONE\<rparr>\<rparr>)
              in mirror_targets (end_of_cook now (nt_pending_action n) c)))"

end
