(* ===== verification/Control_Cmds.thy ===== *)
theory Control_Cmds
  imports Control_Recipe
begin

text \<open>
  What may be asked of the control thread of \<open>src/core/control.c\<close>: a requested change of mode, the commands
  of the queue, and settings read again.
\<close>

section \<open>Requests\<close>

definition clear_error :: "('i, 's, 'w, 'z) control_scheme \<Rightarrow> ('i, 's, 'w, 'z) control_scheme" where
  "clear_error c = upd_safety (\<lambda>s. s\<lparr>error_code := [], error_msg := no_msg\<rparr>) c"

definition accept_stop :: "('i, 's, 'w, 'z) control_scheme \<Rightarrow> ('i, 's, 'w, 'z) control_scheme" where
  "accept_stop c = (let c = clear_error c in if rr_active (k_recipe c) then end_recipe c else c)"

text \<open>What is refused: anything but Stop in Error, the grill's own modes, outputs in hand on a grill that burns.\<close>

definition refused :: "pf_mode \<Rightarrow> pf_mode \<Rightarrow> bool" where
  "refused cur m \<longleftrightarrow> cur = ERROR \<and> m \<noteq> STOP \<or> m = REIGNITE \<or> m = ERROR \<or>
     (m = PRIME \<or> m = MANUAL) \<and> cur \<noteq> STOP \<and> cur \<noteq> MONITOR"

definition startup_target :: "('i, 's, 'w, 'z) control_scheme \<Rightarrow> ('i, 's, 'w, 'z) control_scheme" where
  "startup_target c =
     (let c = c\<lparr>k_next_mode := after_startup_mode (c_cfg c)\<rparr>
      in if after_startup_mode (c_cfg c) = HOLD \<and> k_req_setpoint_c c \<le> 0
         then c\<lparr>c_setpoint_c := after_startup_setpoint_c (c_cfg c)\<rparr> else c)"

definition go_to :: "pf_mode \<Rightarrow> fl \<Rightarrow> ('i, 's, 'w, 'z) control_scheme \<Rightarrow> ('i, 's, 'w, 'z) control_scheme" where
  "go_to m now c =
     (if (m = HOLD \<or> m = SMOKE) \<and> cold_mode (c_mode c) then enter_mode STARTUP now (c\<lparr>k_next_mode := m\<rparr>)
      else if m = HOLD \<and> c_mode c = HOLD
      then learn_reset_window now
             (let c = c\<lparr>c_target_reached := False\<rparr> in if k_ctrl c \<noteq> None then c\<lparr>k_ctrl_reset_needed := True\<rparr> else c)
      else if lighting (c_mode c) \<and> (m = HOLD \<or> m = SMOKE)
      then (if c_mode c = REIGNITE then upd_safety (\<lambda>s. s\<lparr>reignite_last := m\<rparr>) c else c\<lparr>k_next_mode := m\<rparr>)
      else enter_mode m now c)"

definition go_to_startup :: "fl \<Rightarrow> ('i, 's, 'w, 'z) control_scheme \<Rightarrow> ('i, 's, 'w, 'z) control_scheme" where
  "go_to_startup now c =
     (let c = startup_target c
      in if 0 < prime_on_startup_g (c_cfg c) \<and> (c_mode c = STOP \<or> c_mode c = MONITOR)
         then enter_mode PRIME now (c\<lparr>k_prime_amount_g := prime_on_startup_g (c_cfg c), k_next_mode := STARTUP\<rparr>)
         else go_to STARTUP now c)"

definition apply_request :: "fl \<Rightarrow> ('i, 's, 'w, 'z) control_scheme \<Rightarrow> ('i, 's, 'w, 'z) control_scheme" where
  "apply_request now c =
     (if \<not> k_req_pending c then c
      else (let m = k_req_mode c;
                c = c\<lparr>k_req_pending := False\<rparr>;
                c = (if 0 < k_req_setpoint_c c then c\<lparr>c_setpoint_c := k_req_setpoint_c c\<rparr> else c)
            in if refused (c_mode c) m then c
               else if m = SHUTDOWN \<and> rr_active (k_recipe c) then recipe_finish_now now c
               else (let c = (if m = STOP then accept_stop c else c);
                         c = (if m = HOLD \<and> c_setpoint_c c \<le> 0 then c\<lparr>c_setpoint_c := after_startup_setpoint_c (c_cfg c)\<rparr> else c)
                     in if m = STARTUP then go_to_startup now c else go_to m now c)))"

section \<open>Settings read again\<close>

definition set_root :: "('i, 's, 'w, 'z) control_scheme \<Rightarrow> json" where "set_root c = g_root (k_settings c)"

definition reload_cfg :: "('i, 's, 'w, 'z) control_scheme \<Rightarrow> ('i, 's, 'w, 'z) control_scheme" where
  "reload_cfg c = c\<lparr>c_cfg := load_cfg (set_root c) (c_cfg c)\<rparr>"

definition gains_differ :: "fl \<times> fl \<times> fl \<Rightarrow> fl \<times> fl \<times> fl \<Rightarrow> bool" where
  "gains_differ = (\<lambda>(a, b, d) (x, y, z). fl_differ a x \<or> fl_differ b y \<or> fl_differ d z)"

definition controller_configure :: "('i, 's, 'w, 'z) control_scheme \<Rightarrow> ('i, 's, 'w, 'z) control_scheme" where
  "controller_configure c =
     (case k_ctrl c of
        Some (o1, s) \<Rightarrow>
          (case op_configure o1 of
             Some f \<Rightarrow> c\<lparr>k_ctrl := Some (o1, f s (Some (controller_config_json (ops_id o1) (units (c_cfg c)) c))),
                         k_ctrl_reset_needed := True\<rparr>
           | None \<Rightarrow> c)
      | None \<Rightarrow> c)"

definition set_pwm_hz :: "('i, 's, 'w, 'z) control_scheme \<Rightarrow> ('i, 's, 'w, 'z) control_scheme" where
  "set_pwm_hz c = (if dc_fan (c_cfg c) then c\<lparr>c_out := fst (pf_outputs_pwm_frequency (pwm_hz (c_cfg c)) (c_out c))\<rparr> else c)"

definition pf_control_reload_settings :: "('i, 's, 'w, 'z) control_scheme \<Rightarrow> ('i, 's, 'w, 'z) control_scheme" where
  "pf_control_reload_settings c =
     (let old_id = controller_id (c_cfg c); old_u = units (c_cfg c);
          c = cycle_cfg_for (reload_cfg c);
          ident = controller_id (c_cfg c);
          now_typed = typed_gains ident c;
          changed = old_id = ident \<and> units (c_cfg c) = old_u \<and> gains_differ now_typed (k_typed_gains c);
          c = (if old_id \<noteq> ident then fst (controller_load ident c)
               else if changed then forget_learning PF_CLEAR_LEARNING ''the starting values were changed'' c
               else controller_configure c)
      in set_pwm_hz (c\<lparr>k_typed_gains := now_typed\<rparr>))"

section \<open>Commands\<close>

definition num_c :: "fl \<Rightarrow> ('i, 's, 'w, 'z) control_scheme \<Rightarrow> fl" where
  "num_c v c = (if 0 < v then pf_to_c v (units (c_cfg c)) else 0)"

definition force_startup_end :: "pf_cmd \<Rightarrow> fl \<Rightarrow> ('i, 's, 'w, 'z) control_scheme \<Rightarrow> ('i, 's, 'w, 'z) control_scheme" where
  "force_startup_end cmd now c =
     (let sp = (if 0 < cmd_num cmd then pf_to_c (cmd_num cmd) (units (c_cfg c)) else c_setpoint_c c);
          sp = (if cmd_mode cmd = HOLD \<and> sp \<le> 0 then after_startup_setpoint_c (c_cfg c) else sp);
          c = pf_safety_on_startup_exit now (c\<lparr>c_setpoint_c := sp\<rparr>);
          c = c\<lparr>k_s_plus := k_s_plus c \<or> splus_default (c_cfg c)\<rparr>;
          c = db_event PF_LVL_WARN ''W09_STARTUP_SKIPPED'' (Msg ''Startup ended early by the user'' []) c
      in enter_mode (cmd_mode cmd) now c)"

definition cmd_mode_change :: "pf_cmd \<Rightarrow> fl \<Rightarrow> ('i, 's, 'w, 'z) control_scheme \<Rightarrow> ('i, 's, 'w, 'z) control_scheme" where
  "cmd_mode_change cmd now c =
     (if cmd_flag cmd \<and> lighting (c_mode c) \<and> (cmd_mode cmd = SMOKE \<or> cmd_mode cmd = HOLD)
      then force_startup_end cmd now c
      else pf_control_request (cmd_mode cmd) (num_c (cmd_num cmd) c) c)"

definition cmd_setpoint :: "pf_cmd \<Rightarrow> fl \<Rightarrow> ('i, 's, 'w, 'z) control_scheme \<Rightarrow> ('i, 's, 'w, 'z) control_scheme" where
  "cmd_setpoint cmd now c =
     (if 0 < cmd_num cmd
      then (let c = c\<lparr>c_setpoint_c := pf_to_c (cmd_num cmd) (units (c_cfg c))\<rparr>;
                c = (if c_mode c = STARTUP then c\<lparr>k_next_mode := HOLD\<rparr>
                     else if c_mode c = REIGNITE then upd_safety (\<lambda>s. s\<lparr>reignite_last := HOLD\<rparr>) c else c);
                c = c\<lparr>c_target_reached := False, k_aim_since := now, k_aim_pit_c := pit_or_nan c, k_eta_s := -1\<rparr>;
                c = learn_reset_window now c
            in if c_mode c = HOLD then c\<lparr>k_ctrl_reset_needed := True\<rparr>
               else if c_mode c = SMOKE then pf_control_request HOLD (c_setpoint_c c) c else c)
      else c)"

definition cmd_duty :: "pf_cmd \<Rightarrow> ('i, 's, 'w, 'z) control_scheme \<Rightarrow> ('i, 's, 'w, 'z) control_scheme" where
  "cmd_duty cmd c =
     (let d = fl_to_int (pf_clamp (cmd_num cmd) (int_to_fl (pwm_min_duty (c_cfg c))) (int_to_fl (pwm_max_duty (c_cfg c))));
          c = c\<lparr>k_duty_cycle := d\<rparr>
      in if is_on FAN c then out_fan_pct d c else c)"

definition FOREVER :: fl where "FOREVER = Fin (10 ^ 18)"

definition manual_one :: "pf_cmd \<Rightarrow> fl \<Rightarrow> fl \<Rightarrow> pf_output \<Rightarrow> ('i, 's, 'w, 'z) control_scheme \<Rightarrow> ('i, 's, 'w, 'z) control_scheme" where
  "manual_one cmd till now o1 c =
     (if cmd_str cmd \<noteq> pf_output_name o1 then c
      else (let c = (if o1 = FAN \<and> cmd_flag cmd \<and> dc_fan (c_cfg c) \<and> pf_outputs_get_fan_pct (c_out c) \<le> 0
                     then out_fan_pct (if 0 < pwm_max_duty (c_cfg c) then pwm_max_duty (c_cfg c) else 100) c else c);
                c = set_out o1 (cmd_flag cmd) c;
                c = c\<lparr>k_manual_until := (k_manual_until c)(o1 := till)\<rparr>
            in if o1 = AUGER \<and> cmd_flag cmd then c\<lparr>k_auger_on_since := now\<rparr> else c))"

definition cmd_manual :: "pf_cmd \<Rightarrow> fl \<Rightarrow> ('i, 's, 'w, 'z) control_scheme \<Rightarrow> ('i, 's, 'w, 'z) control_scheme" where
  "cmd_manual cmd now c =
     (let free = c_mode c = MANUAL \<or> c_mode c = MONITOR;
          till = (if free then FOREVER else now + manual_override_s (c_cfg c))
      in if c_mode c = ERROR \<or> \<not> free \<and> \<not> allow_manual (c_cfg c) then c
         else if cmd_str cmd = ''pwm''
         then (let c = out_fan_pct (fl_to_int (cmd_num cmd)) c in c\<lparr>k_manual_until := (k_manual_until c)(FAN := till)\<rparr>)
         else fold (manual_one cmd till now) all_outputs c)"

definition cmd_lid :: "fl \<Rightarrow> ('i, 's, 'w, 'z) control_scheme \<Rightarrow> ('i, 's, 'w, 'z) control_scheme" where
  "cmd_lid now c =
     (if c_mode c \<noteq> HOLD then c
      else if c_lid_open c then (let c = c\<lparr>c_lid_open := False\<rparr> in fan_on (k_duty_cycle c) c)
      else (let c = c\<lparr>c_lid_open := True, k_lid_open_until := now + lid_pause_s (c_cfg c), k_lid_low_c := c_pit_c c\<rparr>;
                c = set_out AUGER False c;
                c = fan_on (k_duty_cycle c) c
            in c\<lparr>k_cycle := pf_cycle_stop (k_cycle c), c_target_reached := False\<rparr>))"

definition cmd_prime :: "pf_cmd \<Rightarrow> fl \<Rightarrow> ('i, 's, 'w, 'z) control_scheme \<Rightarrow> ('i, 's, 'w, 'z) control_scheme" where
  "cmd_prime cmd now c =
     (let c = c\<lparr>k_prime_amount_g := cmd_num cmd, k_next_mode := (if strcase_eq (cmd_str cmd) ''Startup'' then STARTUP else STOP)\<rparr>
      in if c_mode c = STOP \<or> c_mode c = MONITOR then enter_mode PRIME now c else c)"

definition cmd_notify_target :: "pf_cmd \<Rightarrow> ('i, 's, 'w, 'z) control_scheme \<Rightarrow> ('i, 's, 'w, 'z) control_scheme" where
  "cmd_notify_target cmd c =
     (let n = pf_notify_sync (k_sensors c) (k_notify c);
          note = (\<lambda>finish n. pf_notify_set_target_note (cmd_str cmd) (cmd_meat cmd) (cmd_done cmd) finish n);
          t = num_c (cmd_num cmd) c;
          n = (if cmd_flag cmd \<and> 0 < cmd_num cmd
               then (case pf_notify_set_rest (cmd_str cmd) t (cmd_aux cmd) (services_of c) n of
                       (n, rc) \<Rightarrow> if rc \<noteq> 0 then n else note t n)
               else (case pf_notify_set_target (cmd_str cmd) t (cmd_aux cmd) n of
                       (n, rc) \<Rightarrow> if rc \<noteq> 0 then n else note (num_c (cmd_num2 cmd) c) n))
      in c\<lparr>k_notify := n\<rparr>)"

definition cmd_notify_limits :: "pf_cmd \<Rightarrow> ('i, 's, 'w, 'z) control_scheme \<Rightarrow> ('i, 's, 'w, 'z) control_scheme" where
  "cmd_notify_limits cmd c =
     c\<lparr>k_notify := fst (pf_notify_set_limits (cmd_str cmd) (num_c (cmd_num cmd) c) (num_c (cmd_num2 cmd) c)
                          (pf_notify_sync (k_sensors c) (k_notify c)))\<rparr>"

definition cmd_timer :: "(pf_notify \<Rightarrow> pf_notify) \<Rightarrow> ('i, 's, 'w, 'z) control_scheme \<Rightarrow> ('i, 's, 'w, 'z) control_scheme" where
  "cmd_timer f c = c\<lparr>k_notify := f (k_notify c)\<rparr>"

definition cmd_recipe_start :: "pf_cmd \<Rightarrow> fl \<Rightarrow> ('i, 's, 'w, 'z) control_scheme \<Rightarrow> ('i, 's, 'w, 'z) control_scheme" where
  "cmd_recipe_start cmd now c =
     (if c_mode c = ERROR then c
      else (case pf_recipe_load (fw_print (k_feat c)) (pf_settings_units (k_settings c)) (fw_recipes (k_feat c) (k_w c))
                   (fl_to_int (cmd_num cmd)) of
              (r, ok) \<Rightarrow>
                (let c = upd_recipe (\<lambda>rr. rr\<lparr>rr_r := r\<rparr>) c
                 in if \<not> ok then c
                    else recipe_begin_step now
                           (upd_alarms (pf_alarms_clear (k_wall c) LEFT_RUNNING)
                             (upd_recipe (\<lambda>rr. rr\<lparr>rr_active := True, rr_step := 0, rr_flags := replicate 16 0,
                                               rr_left_running := False\<rparr>) c)))))"

definition cmd_recipe_next :: "('i, 's, 'w, 'z) control_scheme \<Rightarrow> ('i, 's, 'w, 'z) control_scheme" where
  "cmd_recipe_next c =
     (if rr_active (k_recipe c)
      then (let c = upd_recipe (\<lambda>r. r\<lparr>rr_prompt_given := True, rr_last_eval := 0\<rparr>) c
            in if cur_flag c = 1 then upd_recipe (\<lambda>r. set_flag (rr_step r) 0 r) c else c)
      else c)"

definition cmd_recipe_flag :: "pf_cmd \<Rightarrow> ('i, 's, 'w, 'z) control_scheme \<Rightarrow> ('i, 's, 'w, 'z) control_scheme" where
  "cmd_recipe_flag cmd c =
     (let i = fl_to_int (cmd_num cmd)
      in if rr_active (k_recipe c) \<and> 0 \<le> i \<and> i < int (length (rc_steps (rr_r (k_recipe c)))) \<and> i < 16
         then upd_recipe (set_flag (nat i) (fl_to_int (cmd_num2 cmd) mod 256)) c else c)"

definition cmd_recipe_back :: "fl \<Rightarrow> ('i, 's, 'w, 'z) control_scheme \<Rightarrow> ('i, 's, 'w, 'z) control_scheme" where
  "cmd_recipe_back now c =
     (if rr_active (k_recipe c) \<and> 0 < rr_step (k_recipe c)
      then recipe_begin_step now (upd_recipe (\<lambda>r. r\<lparr>rr_step := rr_step r - 1\<rparr>) c) else c)"

definition put_setting :: "string \<Rightarrow> fl \<Rightarrow> ('i, 's, 'w, 'z) control_scheme \<Rightarrow> ('i, 's, 'w, 'z) control_scheme" where
  "put_setting path v c =
     upd_mod (\<lambda>m. m\<lparr>o_set := (case pf_set_put_num path v (o_set m) of Some s \<Rightarrow> s | None \<Rightarrow> o_set m)\<rparr>) c"

definition cmd_tuning_apply :: "('i, 's, 'w, 'z) control_scheme \<Rightarrow> ('i, 's, 'w, 'z) control_scheme" where
  "cmd_tuning_apply c =
     (if \<not> can_tune c then c
      else (let a = fw_autotune (k_feat c) (k_w c); p = fw_fopdt (k_feat c) (k_w c);
                va = (\<lambda>x. if ar_valid a then x else 0); vp = (\<lambda>x. if fo_valid p then x else 0);
                ident = (case ctrl_id c of Some i \<Rightarrow> i | None \<Rightarrow> []);
                c = tune_controller (va (ar_Ku a)) (va (ar_Pu a)) (vp (fo_K p)) (vp (fo_tau p)) (vp (fo_theta p)) c;
                c = (if ar_valid a
                     then put_setting (controller_path ident ''Td'') (fl_round (ar_Td a))
                            (put_setting (controller_path ident ''Ti'') (fl_round (ar_Ti a))
                              (put_setting (controller_path ident ''PB'')
                                (fl_round (pf_delta_from_c (ar_PB_c a) (units (c_cfg c)) * 10) / 10) c))
                     else c);
                c = upd_mod (\<lambda>m. m\<lparr>o_set := fst (save_locked (o_set m))\<rparr>) c;
                c = tell ''Tuning_Applied'' ''Tuning Applied'' (Msg ''%s: learned tuning in use.'' [AStr ident]) c
            in c\<lparr>k_typed_gains := typed_gains ident c\<rparr>))"

definition handle_cmd :: "fl \<Rightarrow> pf_cmd \<Rightarrow> ('i, 's, 'w, 'z) control_scheme \<Rightarrow> ('i, 's, 'w, 'z) control_scheme" where
  "handle_cmd now cmd c =
     (case cmd_type cmd of
        CMD_STOP \<Rightarrow> clear_error ((upd_recipe (\<lambda>r. r\<lparr>rr_active := False\<rparr>) (enter_mode STOP now c))\<lparr>k_req_pending := False\<rparr>)
      | CMD_MODE \<Rightarrow> cmd_mode_change cmd now c
      | CMD_SETPOINT \<Rightarrow> cmd_setpoint cmd now c
      | CMD_SMOKE_PLUS \<Rightarrow> c\<lparr>k_s_plus := cmd_flag cmd\<rparr>
      | CMD_PWM_CONTROL \<Rightarrow> c\<lparr>k_pwm_control := cmd_flag cmd\<rparr>
      | CMD_DUTY_CYCLE \<Rightarrow> cmd_duty cmd c
      | CMD_MANUAL_OUTPUT \<Rightarrow> cmd_manual cmd now c
      | CMD_LID_TOGGLE \<Rightarrow> cmd_lid now c
      | CMD_PRIME \<Rightarrow> cmd_prime cmd now c
      | CMD_SETTINGS_CHANGED \<Rightarrow> pf_control_reload_settings c
      | CMD_CONTROLLER_CHANGED \<Rightarrow> (let c = reload_cfg c in fst (controller_load (controller_id (c_cfg c)) c))
      | CMD_PROBES_CHANGED \<Rightarrow> upd_mod (\<lambda>m. m\<lparr>o_bank := fw_probes_init (o_fw m) (o_w m) (o_set m) (o_bank m)\<rparr>) c
      | CMD_CLEAR_ERROR \<Rightarrow> (if c_mode c = ERROR then enter_mode STOP now c else c)
      | CMD_NOTIFY_TARGET \<Rightarrow> cmd_notify_target cmd c
      | CMD_NOTIFY_LIMITS \<Rightarrow> cmd_notify_limits cmd c
      | CMD_TIMER_START \<Rightarrow> cmd_timer (pf_notify_timer_start (cmd_num cmd) (cmd_aux cmd) now) c
      | CMD_TIMER_PAUSE \<Rightarrow> cmd_timer (pf_notify_timer_pause now) c
      | CMD_TIMER_RESUME \<Rightarrow> cmd_timer (pf_notify_timer_resume now) c
      | CMD_TIMER_CANCEL \<Rightarrow> cmd_timer pf_notify_timer_cancel c
      | CMD_NOTIFY_TEST \<Rightarrow> tell ''Test_Notify'' ''Test Notification'' (Msg ''PiFire test.'' []) c
      | CMD_RECIPE_START \<Rightarrow> cmd_recipe_start cmd now c
      | CMD_PROBES_IN_USE \<Rightarrow> upd_mod (\<lambda>m. m\<lparr>o_bank := pf_probes_set_in_use (cmd_str cmd) (o_bank m)\<rparr>) c
      | CMD_RECIPE_NEXT \<Rightarrow> cmd_recipe_next c
      | CMD_RECIPE_SKIP \<Rightarrow> (if rr_active (k_recipe c) then recipe_advance now c else c)
      | CMD_RECIPE_FLAG \<Rightarrow> cmd_recipe_flag cmd c
      | CMD_RECIPE_BACK \<Rightarrow> cmd_recipe_back now c
      | CMD_RECIPE_STOP \<Rightarrow> (if rr_active (k_recipe c) then end_recipe c else c)
      | CMD_AUTOTUNE_START \<Rightarrow> autotune_start now c
      | CMD_AUTOTUNE_STOP \<Rightarrow> (if c_autotune_active c then autotune_finish False ''Stopped by user.'' c else c)
      | CMD_TUNING_APPLY \<Rightarrow> cmd_tuning_apply c
      | CMD_FORGET_LEARNING \<Rightarrow> forget_learning (cmd_aux cmd) (if cmd_str cmd \<noteq> [] then cmd_str cmd else ''asked for'') c
      | CMD_NONE \<Rightarrow> c)"

end
