(* ===== verification/Control_Run.thy ===== *)
theory Control_Run
  imports Control_Cmds
begin

text \<open>
  What the control thread of \<open>src/core/control.c\<close> does in a mode: a Hold cycle asks the controller for its
  feed, the fan is driven, an open lid is recognised, the auger follows its cycle under its two limits, and
  the timed changes of mode are made.
\<close>

section \<open>A Hold cycle\<close>

definition empty_history :: pf_history where "empty_history = \<lparr>hi_pts = [], hi_head = 0, hi_len = 0\<rparr>"

definition triple_or_zero :: "(fl \<times> fl \<times> fl) option \<Rightarrow> fl \<times> fl \<times> fl" where
  "triple_or_zero t = (case t of Some x \<Rightarrow> x | None \<Rightarrow> (0, 0, 0))"

definition learned_feed :: "('i, 's, 'w, 'z) control_scheme \<Rightarrow> fl" where
  "learned_feed c = fw_uff (k_feat c) (k_w c) (c_setpoint_c c) (ambient_or_20 c) (u_min (c_cfg c)) (u_max (c_cfg c))"

definition control_input :: "fl \<Rightarrow> ('i, 's, 'w, 'z) control_scheme \<Rightarrow> pf_ctrl_in" where
  "control_input now c =
     (case (triple_or_zero (if use_library (c_cfg c) then fw_gains (k_feat c) (k_w c) (c_setpoint_c c) else None),
            triple_or_zero (fw_plant (k_feat c) (k_w c) (c_setpoint_c c))) of
        ((spb, sti, std), (sK, stau, stheta)) \<Rightarrow>
          \<lparr>in_now_s = now, in_pit_c = c_pit_c c, in_setpoint_c = c_setpoint_c c, in_ambient_c = c_ambient_c c,
           in_u_prev_raw = k_u_raw c, in_u_prev_applied = c_u_applied c, in_sched_PB_c = spb, in_sched_Ti = sti,
           in_sched_Td = std, in_sched_K = sK, in_sched_tau = stau, in_sched_theta = stheta, in_u_ff = le_u_ff (k_learn c),
           in_saturated = k_saturated c, in_cycle_time_s = cfg_cycle_s (k_ccfg c), in_u_min = cfg_u_min (k_ccfg c),
           in_u_max = cfg_u_max (k_ccfg c), in_target_reached = c_target_reached c, in_fan_on = is_on FAN c,
           in_fan_pct = pf_outputs_get_fan_pct (c_out c),
           in_tuning = c_autotune_active c \<or> fw_tuner_active (k_feat c) (k_w c),
           in_hist = (case fw_history (k_feat c) (k_w c) of Some h \<Rightarrow> h | None \<Rightarrow> empty_history),
           in_hold_K = fw_hold_gain (k_feat c) (k_w c) (c_setpoint_c c) 3, in_lid = c_lid_event c \<or> c_lid_open c\<rparr>)"

definition bad_feed :: "fl \<Rightarrow> bool" where "bad_feed u \<longleftrightarrow> isnan u \<or> isinf u \<or> u < -5 \<or> 5 < u"

text \<open>A controller that gives three unusable feeds in a row is replaced by the built-in one.\<close>

definition controller_fault :: "string \<Rightarrow> ('i, 's, 'w, 'z) control_scheme \<Rightarrow> ('i, 's, 'w, 'z) control_scheme" where
  "controller_fault ident c =
     (let c = upd_safety (\<lambda>s. s\<lparr>ctrl_fault_count := ctrl_fault_count s + 1\<rparr>) c
      in if 3 \<le> ctrl_fault_count (c_safety c) \<and> ident \<noteq> ''pid''
         then (let c = catch_up (pf_safety_set_error ''E06_CONTROLLER_FAULT''
                         (Msg ''Controller '%s' produced invalid output repeatedly; switched to builtin PID'' [AStr ident]) c);
                   c = db_event PF_LVL_ERROR ''E06_CONTROLLER_FAULT'' (error_msg (c_safety c)) c
               in fst (controller_load ''pid'' c))
         else c)"

text \<open>The registry takes no controller without \<open>reset\<close> and \<open>update\<close>; one that lacks them changes nothing here.\<close>

definition controller_reset :: "pf_ctrl_in \<Rightarrow> ('i, 's, 'w, 'z) control_scheme \<Rightarrow> ('i, 's, 'w, 'z) control_scheme" where
  "controller_reset inp c =
     (if k_ctrl_reset_needed c
      then (case k_ctrl c of
              Some (o1, s) \<Rightarrow> c\<lparr>k_ctrl := Some (o1, case op_reset o1 of Some f \<Rightarrow> f s inp | None \<Rightarrow> s), k_ctrl_reset_needed := False\<rparr>
            | None \<Rightarrow> c)
      else c)"

definition controller_update :: "pf_ctrl_in \<Rightarrow> ('i, 's, 'w, 'z) control_scheme \<Rightarrow> ('i, 's, 'w, 'z) control_scheme \<times> fl" where
  "controller_update inp c =
     (case k_ctrl c of
        Some (o1, s) \<Rightarrow>
          (case op_update o1 of
             Some f \<Rightarrow> (case f s inp (k_dbg c) of (s', u, d) \<Rightarrow> (c\<lparr>k_ctrl := Some (o1, s'), k_dbg := d\<rparr>, u))
           | None \<Rightarrow> (c, u_min (c_cfg c)))
      | None \<Rightarrow> (c, u_min (c_cfg c)))"

definition ask_controller :: "fl \<Rightarrow> ('i, 's, 'w, 'z) control_scheme \<Rightarrow> ('i, 's, 'w, 'z) control_scheme \<times> fl" where
  "ask_controller now c =
     (let c = upd_learn (\<lambda>l. l\<lparr>le_u_ff := learned_feed c\<rparr>) c;
          inp = control_input now c
      in case controller_update inp (controller_reset inp c) of
           (c, u) \<Rightarrow>
             if bad_feed u then (controller_fault (case ctrl_id c of Some i \<Rightarrow> i | None \<Rightarrow> []) c, u_min (c_cfg c))
             else (upd_safety (\<lambda>s. s\<lparr>ctrl_fault_count := 0\<rparr>) c, u))"

definition wanted_feed :: "fl \<Rightarrow> ('i, 's, 'w, 'z) control_scheme \<Rightarrow> ('i, 's, 'w, 'z) control_scheme \<times> fl" where
  "wanted_feed now c =
     (if k_ctrl c = None then (c, u_min (c_cfg c))
      else if c_lid_open c
      then (let c = upd_learn (\<lambda>l. l\<lparr>le_u_ff := learned_feed c\<rparr>) c in (c, le_u_ff (k_learn c)))
      else if c_autotune_active c
      then (case autotune_step now c of (c, u) \<Rightarrow> (c\<lparr>k_ctrl_reset_needed := True\<rparr>, u))
      else ask_controller now c)"

definition at_count :: "('i, 's, 'w, 'z) control_scheme \<Rightarrow> autotune_run \<Rightarrow> autotune_run" where
  "at_count c a =
     (let u = c_u_applied c;
          a = (if 0 < at_phase a then a\<lparr>at_hi_sum := at_hi_sum a + u, at_hi_n := at_hi_n a + 1\<rparr>
               else a\<lparr>at_lo_sum := at_lo_sum a + u, at_lo_n := at_lo_n a + 1\<rparr>);
          a = a\<lparr>at_cyc_sum := at_cyc_sum a + u, at_cyc_n := at_cyc_n a + 1\<rparr>
      in if at_adjust_at_cross a < at_crossings a \<and> c_pit_valid c
         then a\<lparr>at_meas_err_sum := at_meas_err_sum a + (c_pit_c c - c_setpoint_c c), at_meas_err_n := at_meas_err_n a + 1\<rparr>
         else a)"

definition note_cycle :: "fl \<Rightarrow> fl \<Rightarrow> ('i, 's, 'w, 'z) control_scheme \<Rightarrow> ('i, 's, 'w, 'z) control_scheme" where
  "note_cycle now u c =
     (let c = (if c_autotune_active c then upd_at (at_count c) c else c);
          c = learn_track_steady now c;
          c = (if le_rise_active (k_learn c)
               then upd_learn (\<lambda>l. l\<lparr>le_rise_u_sum := le_rise_u_sum l + c_u_applied c, le_rise_n := le_rise_n l + 1\<rparr>) c else c)
      in c\<lparr>k_fan_pid_active := fan_pid (c_cfg c) \<and> \<not> k_pwm_control c \<and> c_target_reached c \<and> u < u_min (c_cfg c)\<rparr>)"

definition run_hold_cycle :: "fl \<Rightarrow> ('i, 's, 'w, 'z) control_scheme \<Rightarrow> ('i, 's, 'w, 'z) control_scheme" where
  "run_hold_cycle now c =
     (if \<not> pf_cycle_done (k_cycle c) now then c
      else (case wanted_feed now c of
              (c, u) \<Rightarrow>
                (let c = begin_cycle now u (c\<lparr>k_u_raw := u\<rparr>);
                     c = c\<lparr>c_u_applied := cy_u_applied (k_cycle c), k_saturated := cy_saturated (k_cycle c)\<rparr>
                 in note_cycle now u c)))"

section \<open>The fan\<close>

definition duty_for :: "('i, 's, 'w, 'z) control_scheme \<Rightarrow> int" where
  "duty_for c =
     (let g = c_cfg c
      in if c_setpoint_c c < c_pit_c c then pwm_min_duty g
         else (case find_index (\<lambda>r. c_setpoint_c c - c_pit_c c \<le> r) (take (pwm_n g) (pwm_ranges_c g)) of
                 Some i \<Rightarrow> pwm_profiles g ! i | None \<Rightarrow> pwm_max_duty g))"

definition clamp_duty :: "int \<Rightarrow> pf_cfg \<Rightarrow> int" where
  "clamp_duty d g = fl_to_int (pf_clamp (int_to_fl d) (int_to_fl (pwm_min_duty g)) (int_to_fl (pwm_max_duty g)))"

definition fan_profile :: "fl \<Rightarrow> ('i, 's, 'w, 'z) control_scheme \<Rightarrow> ('i, 's, 'w, 'z) control_scheme" where
  "fan_profile now c =
     (let g = c_cfg c
      in if dc_fan g \<and> c_mode c = HOLD \<and> k_pwm_control c \<and> pwm_update_s g < now - k_fan_update_t c
         then c\<lparr>k_fan_update_t := now, k_duty_cycle := clamp_duty (duty_for c) g\<rparr> else c)"

definition fan_toggle :: "bool \<Rightarrow> fl \<Rightarrow> ('i, 's, 'w, 'z) control_scheme \<Rightarrow> ('i, 's, 'w, 'z) control_scheme" where
  "fan_toggle on now c =
     (let c = (if on then fan_on (k_duty_cycle c) c else set_out FAN False c) in c\<lparr>k_fan_toggle_t := now\<rparr>)"

definition fan_by_pid :: "fl \<Rightarrow> ('i, 's, 'w, 'z) control_scheme \<Rightarrow> ('i, 's, 'w, 'z) control_scheme" where
  "fan_by_pid now c =
     (let g = c_cfg c;
          whole = (if k_s_plus c then splus_on_s g + splus_off_s g else cfg_cycle_s (k_ccfg c));
          max_ratio = (if k_s_plus c then splus_on_s g / whole else 1);
          ratio = fmax 0 (k_u_raw c / u_min g) * max_ratio
      in if is_on FAN c \<and> whole * ratio < now - k_fan_toggle_t c then fan_toggle False now c
         else if \<not> is_on FAN c \<and> whole * (1 - ratio) < now - k_fan_toggle_t c then fan_toggle True now c
         else c)"

definition splus_start :: "fl \<Rightarrow> ('i, 's, 'w, 'z) control_scheme \<Rightarrow> ('i, 's, 'w, 'z) control_scheme" where
  "splus_start now c =
     (let g = c_cfg c; c = c\<lparr>k_fan_toggle_t := now\<rparr>
      in if dc_fan g \<and> splus_ramp g \<and> (c_mode c = SMOKE \<or> \<not> k_pwm_control c)
         then (out_fan_pct (pwm_min_duty g) (set_out FAN True c))\<lparr>k_fan_ramping := True, k_ramp_end_t := now + splus_on_s g\<rparr>
         else fan_on (k_duty_cycle c) c)"

definition splus_ramping :: "fl \<Rightarrow> ('i, 's, 'w, 'z) control_scheme \<Rightarrow> ('i, 's, 'w, 'z) control_scheme" where
  "splus_ramping now c =
     (if k_fan_ramping c
      then (let g = c_cfg c;
                fr = 1 - fmax 0 (k_ramp_end_t c - now) / splus_on_s g;
                goal = fl_to_int (int_to_fl (pwm_max_duty g * splus_duty g) / 100);
                c = out_fan_pct (fl_to_int (int_to_fl (pwm_min_duty g) + int_to_fl (goal - pwm_min_duty g) * fr)) c
            in if 1 \<le> fr then c\<lparr>k_fan_ramping := False\<rparr> else c)
      else c)"

definition fan_splus :: "fl \<Rightarrow> ('i, 's, 'w, 'z) control_scheme \<Rightarrow> ('i, 's, 'w, 'z) control_scheme" where
  "fan_splus now c =
     (let g = c_cfg c; fan = is_on FAN c
      in splus_ramping now
           (if splus_max_c g < c_pit_c c \<or> c_pit_c c < min_target_c g then (if \<not> fan then fan_on (k_duty_cycle c) c else c)
            else if fan \<and> splus_on_s g < now - k_fan_toggle_t c then fan_toggle False now c
            else if \<not> fan \<and> splus_off_s g < now - k_fan_toggle_t c then splus_start now c
            else c))"

definition fan_default :: "('i, 's, 'w, 'z) control_scheme \<Rightarrow> ('i, 's, 'w, 'z) control_scheme" where
  "fan_default c =
     (let g = c_cfg c
      in if \<not> is_on FAN c then fan_on (k_duty_cycle c) c
         else if dc_fan g
         then (let want = (if k_pwm_control c \<and> c_mode c = HOLD then k_duty_cycle c else pwm_max_duty g);
                   c = (if \<not> k_pwm_control c then c\<lparr>k_duty_cycle := pwm_max_duty g\<rparr> else c)
               in if pf_outputs_get_fan_pct (c_out c) \<noteq> want then out_fan_pct want c else c)
         else c)"

definition run_fan_logic :: "fl \<Rightarrow> ('i, 's, 'w, 'z) control_scheme \<Rightarrow> ('i, 's, 'w, 'z) control_scheme" where
  "run_fan_logic now c =
     (if now < k_manual_until c FAN \<or> c_lid_open c then c
      else (let c = fan_profile now c
            in if c_mode c = HOLD \<and> k_fan_pid_active c then fan_by_pid now c
               else if (c_mode c = SMOKE \<or> c_mode c = HOLD \<and> c_target_reached c) \<and> k_s_plus c then fan_splus now c
               else fan_default c))"

section \<open>The way to the set point, and the lid\<close>

definition setpoint_countdown :: "fl \<Rightarrow> ('i, 's, 'w, 'z) control_scheme \<Rightarrow> ('i, 's, 'w, 'z) control_scheme" where
  "setpoint_countdown now c =
     (let dt = (if 0 < k_eta_last_t c then fmax 0 (now - k_eta_last_t c) else 0.1);
          c = c\<lparr>k_eta_last_t := now\<rparr>;
          raw = (if c_mode c = HOLD \<and> c_pit_valid c \<and> c_pit_c c < c_setpoint_c c \<and> \<not> c_target_reached c
                 then fw_climb_eta (k_feat c) (k_w c) (k_aim_pit_c c) (now - k_aim_since c) (c_pit_c c) (c_setpoint_c c)
                        (c_ambient_c c) (cfg_u_min (k_ccfg c)) (cfg_u_max (k_ccfg c))
                 else -1)
      in if raw < 0 then c\<lparr>k_eta_s := -1\<rparr>
         else if k_eta_s c < 0 then c\<lparr>k_eta_s := raw\<rparr>
         else c\<lparr>k_eta_s := k_eta_s c + fmin 1 (dt / 20) * (raw - k_eta_s c)\<rparr>)"

definition LID_RATE_C_S :: fl where "LID_RATE_C_S = 0.3"
definition LID_SPAN_S :: fl where "LID_SPAN_S = 15"

definition lid_sample :: "fl \<Rightarrow> fl \<Rightarrow> lid_ring \<Rightarrow> lid_ring" where
  "lid_sample now pit r =
     (if 1 \<le> now - lh_last r
      then r\<lparr>lh_last := now, lh_t := (lh_t r)[lh_head r := now], lh_c := (lh_c r)[lh_head r := pit],
             lh_head := (lh_head r + 1) mod 20, lh_n := (if lh_n r < 20 then lh_n r + 1 else lh_n r)\<rparr>
      else r)"

text \<open>Age and temperature of the samples, newest first.\<close>

definition lid_ages :: "fl \<Rightarrow> lid_ring \<Rightarrow> (fl \<times> fl) list" where
  "lid_ages now r = map (\<lambda>k. (now - lh_t r ! ((lh_head r + 39 - k) mod 20), lh_c r ! ((lh_head r + 39 - k) mod 20))) [0..<lh_n r]"

definition fell_fast :: "fl \<Rightarrow> fl \<Rightarrow> fl \<times> fl \<Rightarrow> bool" where
  "fell_fast pit sp = (\<lambda>(age, was). sp - 8 \<le> was \<and> 4 \<le> was - pit \<and> LID_RATE_C_S \<le> (was - pit) / age)"

definition lid_watch :: "fl \<Rightarrow> ('i, 's, 'w, 'z) control_scheme \<Rightarrow> ('i, 's, 'w, 'z) control_scheme \<times> bool" where
  "lid_watch now c =
     (if \<not> c_pit_valid c then (c, False)
      else (let r = lid_sample now (c_pit_c c) (k_lid_hist c)
            in (c\<lparr>k_lid_hist := r\<rparr>,
                case List.find (\<lambda>(age, was). \<not> age < LID_SPAN_S) (lid_ages now r) of
                  Some x \<Rightarrow> fell_fast (c_pit_c c) (c_setpoint_c c) x | None \<Rightarrow> False)))"

definition lid_event_begin :: "fl \<Rightarrow> ('i, 's, 'w, 'z) control_scheme \<Rightarrow> ('i, 's, 'w, 'z) control_scheme" where
  "lid_event_begin now c =
     db_event PF_LVL_INFO ''LID_EVENT'' (Msg ''Lid opened'' [])
       (learn_reset_window now (c\<lparr>c_lid_event := True, c_lid_event_t := now, k_aim_since := now, k_aim_pit_c := c_pit_c c, k_eta_s := -1\<rparr>))"

definition watch_lid_event :: "fl \<Rightarrow> bool \<Rightarrow> ('i, 's, 'w, 'z) control_scheme \<Rightarrow> ('i, 's, 'w, 'z) control_scheme" where
  "watch_lid_event now dropped c =
     (let c = (if dropped \<and> \<not> c_lid_event c then lid_event_begin now c else c)
      in if c_lid_event c \<and> \<not> dropped \<and> (c_setpoint_c c - 3 \<le> c_pit_c c \<or> 300 < now - c_lid_event_t c)
         then c\<lparr>c_lid_event := False\<rparr> else c)"

definition lid_threshold_c :: "('i, 's, 'w, 'z) control_scheme \<Rightarrow> fl" where
  "lid_threshold_c c =
     (let g = c_cfg c in pf_to_c (pf_from_c (c_setpoint_c c) (units g) * (100 - lid_threshold_pct g) / 100) (units g))"

definition lid_pause :: "fl \<Rightarrow> ('i, 's, 'w, 'z) control_scheme \<Rightarrow> ('i, 's, 'w, 'z) control_scheme" where
  "lid_pause now c =
     (let c = c\<lparr>c_lid_open := True, k_lid_open_until := now + lid_pause_s (c_cfg c), k_lid_low_c := c_pit_c c, c_target_reached := False\<rparr>;
          c = set_out AUGER False c;
          c = fan_on (k_duty_cycle c) c;
          c = learn_reset_window now (c\<lparr>k_cycle := pf_cycle_stop (k_cycle c)\<rparr>)
      in db_event PF_LVL_INFO ''LID_OPEN'' (Msg ''Lid open detected, holding the learned feed'' []) c)"

definition lid_over :: "fl \<Rightarrow> ('i, 's, 'w, 'z) control_scheme \<Rightarrow> ('i, 's, 'w, 'z) control_scheme" where
  "lid_over now c =
     (let c = (if c_pit_valid c \<and> c_pit_c c < k_lid_low_c c then c\<lparr>k_lid_low_c := c_pit_c c\<rparr> else c);
          risen = c_pit_valid c \<and> k_lid_low_c c + lid_resume_rise_c (c_cfg c) \<le> c_pit_c c
      in if risen \<or> k_lid_open_until c < now
         then (let c = c\<lparr>c_lid_open := False\<rparr>; c = fan_on (k_duty_cycle c) c
               in if c_mode c \<noteq> HOLD then begin_cycle now (u_min (c_cfg c)) c else c)
         else c)"

definition watch_lid :: "fl \<Rightarrow> ('i, 's, 'w, 'z) control_scheme \<Rightarrow> ('i, 's, 'w, 'z) control_scheme" where
  "watch_lid now c =
     (if c_mode c = HOLD \<or> c_mode c = SMOKE
      then (let c = (if c_mode c = HOLD \<and> c_setpoint_c c \<le> c_pit_c c then c\<lparr>c_target_reached := True\<rparr> else c);
                c = setpoint_countdown now c;
                thresh = lid_threshold_c c
            in case lid_watch now c of
                 (c, dropped) \<Rightarrow>
                   (let c = watch_lid_event now dropped c;
                        c = (if c_target_reached c \<and> lid_detect (c_cfg c) \<and> \<not> c_lid_open c \<and> (c_pit_c c < thresh \<or> dropped)
                             then lid_pause now c else c)
                    in if c_lid_open c then lid_over now c else c))
      else c)"

section \<open>The auger\<close>

definition feeds :: "pf_mode \<Rightarrow> bool" where
  "feeds m \<longleftrightarrow> m = STARTUP \<or> m = REIGNITE \<or> m = SMOKE \<or> m = HOLD \<or> m = PRIME"

definition auger_stop_counted :: "fl \<Rightarrow> ('i, 's, 'w, 'z) control_scheme \<Rightarrow> ('i, 's, 'w, 'z) control_scheme" where
  "auger_stop_counted now c =
     (set_out AUGER False c)\<lparr>k_auger_total_on_s := k_auger_total_on_s c + (now - k_auger_on_since c)\<rparr>"

definition auger_follow :: "fl \<Rightarrow> ('i, 's, 'w, 'z) control_scheme \<Rightarrow> ('i, 's, 'w, 'z) control_scheme" where
  "auger_follow now c =
     (let want = pf_cycle_auger_on (k_cycle c) now
      in if k_manual_until c AUGER \<le> now
         then (if want \<and> \<not> is_on AUGER c \<and> k_auger_rest_until c \<le> now
               then (set_out AUGER True c)\<lparr>k_auger_on_since := now\<rparr>
               else if \<not> want \<and> is_on AUGER c then auger_stop_counted now c
               else c)
         else c)"

definition feed_step :: "fl \<Rightarrow> ('i, 's, 'w, 'z) control_scheme \<Rightarrow> ('i, 's, 'w, 'z) control_scheme" where
  "feed_step now c =
     (if feeds (c_mode c) \<and> (\<not> c_lid_open c \<or> c_mode c = HOLD)
      then auger_follow now
             (if c_mode c = HOLD then run_hold_cycle now c
              else if c_mode c \<noteq> PRIME \<and> pf_cycle_done (k_cycle c) now then smoke_cycle now c else c)
      else if c_mode c \<noteq> MANUAL \<and> is_on AUGER c \<and> k_manual_until c AUGER \<le> now then set_out AUGER False c
      else c)"

definition auger_rest :: "fl \<Rightarrow> ('i, 's, 'w, 'z) control_scheme \<Rightarrow> ('i, 's, 'w, 'z) control_scheme" where
  "auger_rest now c = (if now < k_auger_rest_until c \<and> is_on AUGER c then auger_stop_counted now c else c)"

definition auger_cap :: "fl \<Rightarrow> ('i, 's, 'w, 'z) control_scheme \<Rightarrow> ('i, 's, 'w, 'z) control_scheme" where
  "auger_cap now c =
     (if is_on AUGER c \<and> auger_max_on_s (c_cfg c) < now - k_auger_on_since c
      then db_event PF_LVL_WARN ''W08_AUGER_CAP'' (Msg ''Auger exceeded maximum continuous on time and was switched off'' [])
             ((auger_stop_counted now c)\<lparr>k_manual_until := (k_manual_until c)(AUGER := 0), k_auger_rest_until := now + 15\<rparr>)
      else c)"

definition expire_manual :: "fl \<Rightarrow> ('i, 's, 'w, 'z) control_scheme \<Rightarrow> ('i, 's, 'w, 'z) control_scheme" where
  "expire_manual now c =
     c\<lparr>k_manual_until := (\<lambda>o1. if k_manual_until c o1 \<noteq> 0 \<and> k_manual_until c o1 \<le> now \<and> c_mode c \<noteq> MANUAL then 0
                              else k_manual_until c o1)\<rparr>"

section \<open>Timed changes of mode\<close>

definition leave_startup :: "fl \<Rightarrow> ('i, 's, 'w, 'z) control_scheme \<Rightarrow> ('i, 's, 'w, 'z) control_scheme" where
  "leave_startup now c =
     (let c = pf_safety_on_startup_exit now c;
          nm = (if c_mode c = REIGNITE then reignite_last (c_safety c) else k_next_mode c);
          nm = (if nm \<noteq> SMOKE \<and> nm \<noteq> HOLD then SMOKE else nm);
          c = (if nm = HOLD \<and> c_setpoint_c c \<le> 0 then c\<lparr>c_setpoint_c := after_startup_setpoint_c (c_cfg c)\<rparr> else c)
      in enter_mode nm now (c\<lparr>k_s_plus := k_s_plus c \<or> splus_default (c_cfg c)\<rparr>))"

definition end_shutdown :: "fl \<Rightarrow> ('i, 's, 'w, 'z) control_scheme \<Rightarrow> ('i, 's, 'w, 'z) control_scheme" where
  "end_shutdown now c =
     (let g = c_cfg c; t = now - k_mode_start c
      in if shutdown_s g < t \<and> (\<not> c_pit_valid c \<or> c_pit_c c \<le> restart_hot_c g \<or> 3 * shutdown_s g < t)
         then (let c = enter_mode STOP now c in if auto_power_off g then c\<lparr>k_power_off_requested := True\<rparr> else c)
         else c)"

definition end_prime :: "fl \<Rightarrow> ('i, 's, 'w, 'z) control_scheme \<Rightarrow> ('i, 's, 'w, 'z) control_scheme" where
  "end_prime now c =
     (if k_prime_duration_s c < now - k_mode_start c
      then (let nm = (if k_next_mode c = STARTUP then STARTUP else STOP);
                c = (if nm = STARTUP then c\<lparr>k_next_mode := after_startup_mode (c_cfg c)\<rparr> else c)
            in enter_mode nm now c)
      else c)"

definition stop_error_fan :: "('i, 's, 'w, 'z) control_scheme \<Rightarrow> ('i, 's, 'w, 'z) control_scheme" where
  "stop_error_fan c = out_all_off (upd_safety (\<lambda>s. s\<lparr>error_fan_until := 0\<rparr>) c)"

definition tend_error :: "fl \<Rightarrow> ('i, 's, 'w, 'z) control_scheme \<Rightarrow> ('i, 's, 'w, 'z) control_scheme" where
  "tend_error now c =
     (let c = (if error_fan_until (c_safety c) \<noteq> 0 \<and> error_fan_until (c_safety c) < now then stop_error_fan c else c);
          s = c_safety c
      in if error_fan_until s \<noteq> 0 \<and> c_pit_valid c \<and> isfinite (error_pit_c s) \<and> error_pit_c s + pf_delta_to_c 10 UnitsF < c_pit_c c
         then tell ''E01_FIRE'' ''Pit Rising in Error'' (Msg ''Fan stopped. Keep the lid closed.'' []) (stop_error_fan c)
         else c)"

definition timed_change :: "fl \<Rightarrow> ('i, 's, 'w, 'z) control_scheme \<Rightarrow> ('i, 's, 'w, 'z) control_scheme" where
  "timed_change now c =
     (case c_mode c of
        STARTUP \<Rightarrow> if pf_safety_startup_done c then leave_startup now c else c
      | REIGNITE \<Rightarrow> if pf_safety_startup_done c then leave_startup now c else c
      | SHUTDOWN \<Rightarrow> end_shutdown now c
      | PRIME \<Rightarrow> end_prime now c
      | ERROR \<Rightarrow> tend_error now c
      | _ \<Rightarrow> c)"

definition run_mode :: "fl \<Rightarrow> ('i, 's, 'w, 'z) control_scheme \<Rightarrow> ('i, 's, 'w, 'z) control_scheme" where
  "run_mode now c =
     (let c = auger_cap now (auger_rest now (feed_step now (watch_lid now c)));
          c = (if c_mode c = SMOKE \<or> c_mode c = HOLD then run_fan_logic now c else c)
      in timed_change now (expire_manual now c))"

end
