(* ===== verification/Control_Restart.thy ===== *)
theory Control_Restart
  imports Control_Run
begin

text \<open>
  Restarts of the daemon in \<open>src/core/control.c\<close>: the snapshot a clean shutdown writes and the next start
  resumes, the checkpoint a power cut leaves, what a start with a hot pit does, and when a relight is refused.
  A snapshot is the document it parses to; cJSON writes a number that is not finite as null.
\<close>

section \<open>The snapshot\<close>

definition resumable :: "pf_mode \<Rightarrow> bool" where
  "resumable m \<longleftrightarrow> m = STARTUP \<or> m = REIGNITE \<or> m = SMOKE \<or> m = HOLD \<or> m = SHUTDOWN \<or> m = MONITOR"

definition jint :: "int \<Rightarrow> json" where "jint i = JNum (int_to_fl i)"

definition nan_1000 :: "fl \<Rightarrow> fl" where "nan_1000 v = (if isnan v then -1000 else v)"

definition snap_control :: "fl \<Rightarrow> ('i, 's, 'w, 'z) control_scheme \<Rightarrow> (string \<times> json) list" where
  "snap_control now c =
     [(''version'', JStr (fw_version (k_feat c))), (''saved_wall'', jnum (k_wall c)),
      (''mode'', JStr (pf_mode_name (c_mode c))), (''next_mode'', JStr (pf_mode_name (k_next_mode c))),
      (''mode_elapsed'', jnum (now - k_mode_start c)), (''setpoint_c'', jnum (c_setpoint_c c)),
      (''s_plus'', JBool (k_s_plus c)), (''pwm_control'', JBool (k_pwm_control c)), (''u_applied'', jnum (c_u_applied c)),
      (''cook_start_wall'', jnum (k_cook_start_wall c)), (''auger_total_on_s'', jnum (k_auger_total_on_s c)),
      (''cook_max_pit_c'', jnum (k_cook_max_pit_c c)), (''ambient_c'', jnum (nan_1000 (c_ambient_c c)))]"

definition snap_safety :: "fl \<Rightarrow> ('i, 's, 'w, 'z) control_scheme \<Rightarrow> (string \<times> json) list" where
  "snap_safety now c =
     (let s = c_safety c
      in [(''ss_baseline_c'', jnum (nan_1000 (ss_baseline_c s))),
          (''ss_left_s'', jnum (if ss_active s then fmax 0 (ss_deadline s - now) else 0)),
          (''ss_elapsed_s'', jnum (if ss_active s then now - ss_start s else 0)),
          (''ss_entry_c'', jnum (nan_1000 (ss_entry_c s))), (''ss_held'', JBool (ss_held s)),
          (''heating'', JBool (heating s)), (''established'', JBool (established s)), (''handover_c'', jnum (handover_c s)),
          (''peak_c'', jnum (nan_1000 (peak_c s))), (''reignite_retries_left'', jint (reignite_retries_left s)),
          (''recoveries'', jint (k_recoveries c)), (''ss_active'', JBool (ss_active s)), (''ss_proven'', JBool (ss_proven s)),
          (''pit_c'', jnum (if c_pit_valid c then c_pit_c c else -1000)),
          (''boot_id'', JStr (cut 64 (fw_boot_id (k_feat c) (k_w c))))])"

definition snap_recipe :: "fl \<Rightarrow> ('i, 's, 'w, 'z) control_scheme \<Rightarrow> (string \<times> json) list" where
  "snap_recipe now c =
     (let r = k_recipe c
      in if rr_active r
         then [(''recipe'', JObj
                 [(''id'', jint (rc_id (rr_r r))), (''step'', jint (int (rr_step r))),
                  (''step_elapsed'', jnum (now - rr_step_start r)),
                  (''at_temp_elapsed'', jnum (if 0 < rr_at_temp_since r then now - rr_at_temp_since r else -1)),
                  (''triggered'', JBool (rr_triggered r)), (''waiting'', JBool (rr_waiting r)),
                  (''lead_fired'', JBool (rr_lead_fired r)), (''lid_seen'', JBool (rr_lid_seen r)),
                  (''flags'', JArr (map jint (take (length (rc_steps (rr_r r))) (take 16 (rr_flags r))))),
                  (''prompt_given'', JBool (rr_prompt_given r)), (''said'', JBool (rr_said r))])]
         else [])"

definition snap_probe :: "pf_notify_probe \<Rightarrow> json" where
  "snap_probe p =
     JObj ([(''label'', JStr (np_label p)), (''target_c'', jnum (np_target_c p)), (''after'', jint (np_after p))]
       @ (if np_meat p \<noteq> [] then [(''meat'', JStr (np_meat p))] else [])
       @ (if np_done p \<noteq> [] then [(''done'', JStr (np_done p))] else [])
       @ (if 0 < np_finish_c p then [(''finish_c'', jnum (np_finish_c p))] else [])
       @ (if 0 < np_rest_c p then [(''rest_c'', jnum (np_rest_c p))] else [])
       @ [(''limit_high_c'', jnum (np_limit_high_c p)), (''limit_low_c'', jnum (np_limit_low_c p))])"

definition asks_nothing :: "pf_notify_probe \<Rightarrow> bool" where
  "asks_nothing p \<longleftrightarrow> np_target_c p \<le> 0 \<and> np_limit_high_c p \<le> 0 \<and> np_limit_low_c p \<le> 0"

definition snap_notify :: "fl \<Rightarrow> ('i, 's, 'w, 'z) control_scheme \<Rightarrow> (string \<times> json) list" where
  "snap_notify now c =
     (let n = k_notify c; t = nt_timer n; csv = pf_probes_in_use_csv 256 (o_bank (k_mod c))
      in (if csv \<noteq> [] then [(''probes_in_use'', JStr csv)] else [])
         @ [(''probes'', JArr (map snap_probe (filter (\<lambda>p. \<not> asks_nothing p) (nt_probes n))))]
         @ (if tm_running t
            then [(''timer'', JObj [(''remaining'', jnum (if tm_paused t then tm_remaining t else tm_end_t t - now)),
                    (''duration'', jnum (tm_duration t)), (''after'', jint (tm_after t)), (''paused'', JBool (tm_paused t))])]
            else []))"

definition pf_control_resume_json :: "fl \<Rightarrow> ('i, 's, 'w, 'z) control_scheme \<Rightarrow> json option" where
  "pf_control_resume_json now c =
     (if resumable (c_mode c)
      then Some (JObj (snap_control now c @ snap_safety now c @ snap_recipe now c @ snap_notify now c)) else None)"

section \<open>Resuming\<close>

definition snap_num :: "string \<Rightarrow> fl \<Rightarrow> json \<Rightarrow> fl" where "snap_num k d o1 = pf_json_num (Some o1) k d"

definition snap_bool :: "string \<Rightarrow> bool \<Rightarrow> json \<Rightarrow> bool" where "snap_bool k d o1 = pf_json_bool (Some o1) k d"

definition snap_mode :: "string \<Rightarrow> json \<Rightarrow> pf_mode option" where
  "snap_mode k o1 = pf_mode_from_name (pf_json_str (Some o1) k [])"

definition snap_age :: "json \<Rightarrow> ('i, 's, 'w, 'z) control_scheme \<Rightarrow> fl" where
  "snap_age o1 c = k_wall c - snap_num ''saved_wall'' 0 o1"

text \<open>What the snapshot sets before the mode is entered, and what it sets after.\<close>

definition resume_wishes :: "json \<Rightarrow> ('i, 's, 'w, 'z) control_scheme \<Rightarrow> ('i, 's, 'w, 'z) control_scheme" where
  "resume_wishes o1 c =
     (let sp = snap_num ''setpoint_c'' 0 o1;
          c = (if 0 < sp then c\<lparr>c_setpoint_c := sp\<rparr> else c)
      in c\<lparr>k_s_plus := snap_bool ''s_plus'' (k_s_plus c) o1, k_pwm_control := snap_bool ''pwm_control'' (k_pwm_control c) o1\<rparr>)"

definition resume_ambient :: "json \<Rightarrow> ('i, 's, 'w, 'z) control_scheme \<Rightarrow> ('i, 's, 'w, 'z) control_scheme" where
  "resume_ambient o1 c =
     (let amb = snap_num ''ambient_c'' (-1000) o1
      in if -999 < amb \<and> amb \<le> AMBIENT_MAX_C \<and> \<not> k_ambient_from_probe c then c\<lparr>c_ambient_c := amb\<rparr> else c)"

definition resume_times :: "fl \<Rightarrow> json \<Rightarrow> ('i, 's, 'w, 'z) control_scheme \<Rightarrow> ('i, 's, 'w, 'z) control_scheme" where
  "resume_times now o1 c =
     (let el = snap_num ''mode_elapsed'' 0 o1; csw = snap_num ''cook_start_wall'' 0 o1;
          c = (if 0 < el then c\<lparr>k_mode_start := now - el\<rparr> else c);
          c = (if 0 < csw then c\<lparr>k_cook_start_wall := csw\<rparr> else c)
      in c\<lparr>k_auger_total_on_s := snap_num ''auger_total_on_s'' 0 o1, k_cook_max_pit_c := snap_num ''cook_max_pit_c'' 0 o1\<rparr>)"

text \<open>\<open>valueint\<close> of a member, saturated to an \<open>int\<close> as cJSON leaves it, in an unsigned char.\<close>

definition snap_int :: "json \<Rightarrow> int" where
  "snap_int v = (case v of JNum x \<Rightarrow> max (- (2 ^ 31)) (min (2 ^ 31 - 1) (fl_to_int x)) mod 256
                 | JBool b \<Rightarrow> if b then 1 else 0 | _ \<Rightarrow> 0)"

definition put_flags :: "json list \<Rightarrow> int list \<Rightarrow> int list" where
  "put_flags vs fl = (let xs = take 16 (map snap_int vs) in xs @ drop (length xs) fl)"

definition resume_step :: "fl \<Rightarrow> json \<Rightarrow> nat \<Rightarrow> json option \<Rightarrow> recipe_run \<Rightarrow> recipe_run" where
  "resume_step now rc step ends r =
     (let ate = snap_num ''at_temp_elapsed'' (-1) rc
      in r\<lparr>rr_active := True, rr_step := step, rr_step_start := now - snap_num ''step_elapsed'' 0 rc,
           rr_at_temp_since := (if 0 \<le> ate then now - ate else 0), rr_triggered := snap_bool ''triggered'' False rc,
           rr_waiting := snap_bool ''waiting'' False rc, rr_lead_fired := snap_bool ''lead_fired'' False rc,
           rr_said := snap_bool ''said'' False rc, rr_prompt_given := snap_bool ''prompt_given'' False rc,
           rr_flags := put_flags (j_children (j_get_ci ''flags'' rc)) (rr_flags r), rr_lid_seen := snap_bool ''lid_seen'' False rc,
           rr_ends := ends, rr_clocks := zero_clocks, rr_wants_prompt := mentions ''prompt'' ends \<or> mentions ''lid'' ends,
           rr_last_eval := 0, rr_eta_s := -1\<rparr>)"

definition resume_recipe :: "fl \<Rightarrow> json \<Rightarrow> ('i, 's, 'w, 'z) control_scheme \<Rightarrow> ('i, 's, 'w, 'z) control_scheme" where
  "resume_recipe now o1 c =
     (case j_get_ci ''recipe'' o1 of
        None \<Rightarrow> c
      | Some rc \<Rightarrow>
          (let rid = pf_json_int (Some rc) ''id'' 0
           in if \<not> 0 < rid then c
              else (case pf_recipe_load (fw_print (k_feat c)) (pf_settings_units (k_settings c)) (fw_recipes (k_feat c) (k_w c)) rid of
                      (r, ok) \<Rightarrow>
                        (let c = upd_recipe (\<lambda>rr. rr\<lparr>rr_r := r\<rparr>) c; step = pf_json_int (Some rc) ''step'' 0;
                             txt = rp_ends (step_at r (nat step))
                         in if ok \<and> 0 \<le> step \<and> step < int (length (rc_steps r))
                            then upd_recipe (resume_step now rc (nat step) (if txt \<noteq> [] then fw_parse (k_feat c) txt else None)) c
                            else c))))"

definition resume_light :: "fl \<Rightarrow> json \<Rightarrow> pf_safety \<Rightarrow> pf_safety" where
  "resume_light now o1 s =
     (let b = snap_num ''ss_baseline_c'' (-1000) o1;
          s = (if -999 < b then s\<lparr>ss_baseline_c := fmin b (ss_baseline_c s)\<rparr> else s);
          s = s\<lparr>ss_proven := snap_bool ''ss_proven'' False o1\<rparr>;
          left = snap_num ''ss_left_s'' 0 o1;
          s = (if 0 < left then s\<lparr>ss_deadline := now + left\<rparr> else s);
          el = snap_num ''ss_elapsed_s'' 0 o1; en = snap_num ''ss_entry_c'' (-1000) o1;
          s = (if 0 < el \<and> -999 < en then s\<lparr>ss_start := now - el, ss_entry_c := en\<rparr> else s)
      in s\<lparr>ss_held := snap_bool ''ss_held'' False o1\<rparr>)"

definition resume_run :: "fl \<Rightarrow> json \<Rightarrow> pf_safety \<Rightarrow> pf_safety" where
  "resume_run pit o1 s =
     (let pk = snap_num ''peak_c'' (-1000) o1;
          s = s\<lparr>heating := snap_bool ''heating'' False o1, established := snap_bool ''established'' True o1,
                handover_c := snap_num ''handover_c'' pit o1\<rparr>
      in if -999 < pk then s\<lparr>peak_c := pk\<rparr> else s)"

definition resume_safety :: "pf_mode \<Rightarrow> fl \<Rightarrow> json \<Rightarrow> ('i, 's, 'w, 'z) control_scheme \<Rightarrow> ('i, 's, 'w, 'z) control_scheme" where
  "resume_safety m now o1 c =
     upd_safety (\<lambda>s.
       let s = (if lighting m then resume_light now o1 s else s);
           s = (if m = SMOKE \<or> m = HOLD then resume_run (c_pit_c c) o1 s else s)
       in s\<lparr>reignite_retries_left := fl_to_int (snap_num ''reignite_retries_left'' (int_to_fl (reignite_retries_left s)) o1)\<rparr>) c"

definition resume_feed :: "pf_mode \<Rightarrow> json \<Rightarrow> ('i, 's, 'w, 'z) control_scheme \<Rightarrow> ('i, 's, 'w, 'z) control_scheme" where
  "resume_feed m o1 c =
     (let u = snap_num ''u_applied'' (c_u_applied c) o1
      in if m = HOLD \<and> 0 < u \<and> u \<le> 1 then c\<lparr>k_u_raw := u, c_u_applied := u\<rparr> else c)"

definition resume_probe :: "services \<Rightarrow> json \<Rightarrow> pf_notify \<Rightarrow> pf_notify" where
  "resume_probe v po n =
     (let label = pf_json_str (Some po) ''label'' []; after = fl_to_int (snap_num ''after'' 0 po); rest = snap_num ''rest_c'' 0 po;
          n = (if 0 < rest then fst (pf_notify_set_rest label rest after v n)
               else fst (pf_notify_set_target label (snap_num ''target_c'' 0 po) after n));
          n = pf_notify_set_target_note label (pf_json_str (Some po) ''meat'' []) (pf_json_str (Some po) ''done'' [])
                (snap_num ''finish_c'' 0 po) n
      in fst (pf_notify_set_limits label (snap_num ''limit_high_c'' 0 po) (snap_num ''limit_low_c'' 0 po) n))"

definition resume_timer :: "fl \<Rightarrow> json \<Rightarrow> pf_notify \<Rightarrow> pf_notify" where
  "resume_timer now o1 n =
     (case j_get_ci ''timer'' o1 of
        None \<Rightarrow> n
      | Some t \<Rightarrow>
          (let rem = snap_num ''remaining'' 0 t
           in if 0 < rem
              then (let n = pf_notify_timer_start rem (fl_to_int (snap_num ''after'' 0 t)) now n;
                        n = n\<lparr>nt_timer := (nt_timer n)\<lparr>tm_duration := snap_num ''duration'' rem t\<rparr>\<rparr>
                    in if snap_bool ''paused'' False t then pf_notify_timer_pause now n else n)
              else n))"

definition resume_notify :: "fl \<Rightarrow> json \<Rightarrow> ('i, 's, 'w, 'z) control_scheme \<Rightarrow> ('i, 's, 'w, 'z) control_scheme" where
  "resume_notify now o1 c =
     (let n = pf_notify_sync (k_sensors c) (k_notify c);
          c = (case pf_json_path (Some o1) ''probes_in_use'' of
                 Some (JStr t) \<Rightarrow> upd_mod (\<lambda>m. m\<lparr>o_bank := pf_probes_set_in_use t (o_bank m)\<rparr>) c | _ \<Rightarrow> c);
          n = fold (resume_probe (services_of c)) (j_children (j_get_ci ''probes'' o1)) n
      in c\<lparr>k_notify := resume_timer now o1 n\<rparr>)"

definition resume_into :: "pf_mode \<Rightarrow> fl \<Rightarrow> json \<Rightarrow> ('i, 's, 'w, 'z) control_scheme \<Rightarrow> ('i, 's, 'w, 'z) control_scheme" where
  "resume_into m now o1 c =
     (let age = snap_age o1 c;
          c = c\<lparr>k_next_mode := (case snap_mode ''next_mode'' o1 of Some nm \<Rightarrow> nm | None \<Rightarrow> STOP)\<rparr>;
          c = enter_mode m now (resume_ambient o1 (resume_wishes o1 c));
          c = resume_feed m o1 (resume_safety m now o1 (resume_recipe now o1 (resume_times now o1 c)));
          c = resume_notify now o1 c
      in db_event PF_LVL_WARN ''W11_RESUMED''
           (Msg ''Resumed %s after a software restart (%.0f s gap)'' [AStr (pf_mode_name m), AFl age]) c)"

definition pf_control_resume :: "fl \<Rightarrow> json option \<Rightarrow> ('i, 's, 'w, 'z) control_scheme \<Rightarrow> ('i, 's, 'w, 'z) control_scheme \<times> bool" where
  "pf_control_resume now doc c =
     (case doc of
        None \<Rightarrow> (c, False)
      | Some o1 \<Rightarrow>
          (case snap_mode ''mode'' o1 of
             None \<Rightarrow> (c, False)
           | Some m \<Rightarrow>
               if \<not> resumable m \<or> snap_age o1 c < 0 \<or> 300 < snap_age o1 c \<or> c_mode c \<noteq> STOP then (c, False)
               else (resume_into m now o1 c, True)))"

section \<open>Starting with a hot pit\<close>

definition pf_control_boot_check :: "bool \<Rightarrow> bool \<Rightarrow> fl \<Rightarrow> ('i, 's, 'w, 'z) control_scheme \<Rightarrow> ('i, 's, 'w, 'z) control_scheme" where
  "pf_control_boot_check unclean resuming now c =
     (if resuming then c
      else if c_pit_valid c \<and> restart_hot_c (c_cfg c) < c_pit_c c
      then enter_mode SHUTDOWN now (db_event PF_LVL_WARN ''W09_HOT_RESTART'' (Msg ''Restart with a hot pit. Shutdown cooldown running.'' []) c)
      else if unclean then db_event PF_LVL_WARN ''W10_UNCLEAN_RESTART'' (Msg ''Restarted after an unclean shutdown'' []) c
      else c)"

section \<open>After a power cut\<close>

text \<open>Why a relight is refused, and the length of the outage as it is then taken to be.\<close>

definition unproven_light :: "pf_mode \<Rightarrow> json \<Rightarrow> bool" where
  "unproven_light m o1 \<longleftrightarrow> m = STARTUP \<and>
     (snap_bool ''ss_active'' False o1 \<and> \<not> snap_bool ''ss_proven'' False o1 \<or>
      snap_bool ''coldstart_active'' False o1 \<and> \<not> snap_bool ''coldstart_reached'' False o1)"

definition pit_kept_heat :: "json \<Rightarrow> ('i, 's, 'w, 'z) control_scheme \<Rightarrow> bool" where
  "pit_kept_heat o1 c =
     (let was = snap_num ''pit_c'' (-1000) o1; amb = snap_num ''ambient_c'' 20 o1;
          amb = (if amb < -40 \<or> 60 < amb then 20 else amb)
      in c_pit_valid c \<and> amb + 20 < was \<and> 0.7 * (was - amb) \<le> c_pit_c c - amb)"

definition clock_unknown :: "json \<Rightarrow> ('i, 's, 'w, 'z) control_scheme \<Rightarrow> bool" where
  "clock_unknown o1 c \<longleftrightarrow>
     cut 64 (fw_boot_id (k_feat c) (k_w c)) \<noteq> pf_json_str (Some o1) ''boot_id'' [] \<and> \<not> fw_synced (k_feat c) (k_w c)"

datatype relight_verdict = Relight | Tuning | Refuse msg

definition relight_verdict :: "pf_mode \<Rightarrow> json \<Rightarrow> ('i, 's, 'w, 'z) control_scheme \<Rightarrow> relight_verdict" where
  "relight_verdict m o1 c =
     (let age = snap_age o1 c;
          late = (if power_loss_max_s (c_cfg c) < age then Refuse (Msg ''Power lost %.0f min'' [AFl (age / 60)]) else Relight)
      in if 1 \<le> pf_json_int (Some o1) ''recoveries'' 0 then Refuse (Msg ''Repeated restarts during the cook'' [])
         else if unproven_light m o1 then Refuse (Msg ''Restart during ignition before the fire was proven'' [])
         else if fw_tuner_interrupted (k_feat c) (k_w c) then Tuning
         else if clock_unknown o1 c \<and> \<not> pit_kept_heat o1 c then Refuse (Msg ''Outage length unknown and the pit has cooled'' [])
         else late)"

definition refuse_relight :: "msg \<Rightarrow> fl \<Rightarrow> ('i, 's, 'w, 'z) control_scheme \<Rightarrow> ('i, 's, 'w, 'z) control_scheme" where
  "refuse_relight why now c =
     (let m = (case why of Msg f args \<Rightarrow> Msg (f @ ''. Not relit: inspect the fire pot before lighting.'') args);
          c = catch_up (pf_safety_set_error ''E08_POWER_LOSS'' m c)
      in enter_mode ERROR now (db_event PF_LVL_ERROR ''E08_POWER_LOSS'' m c))"

definition relight_target :: "pf_mode \<Rightarrow> pf_mode option \<Rightarrow> pf_mode" where
  "relight_target m nm = (if m = REIGNITE then (if nm = Some HOLD then HOLD else SMOKE) else m)"

definition relight_enter :: "pf_mode \<Rightarrow> pf_mode option \<Rightarrow> fl \<Rightarrow> ('i, 's, 'w, 'z) control_scheme \<Rightarrow> ('i, 's, 'w, 'z) control_scheme" where
  "relight_enter m nm now c =
     (if m = STARTUP then enter_mode STARTUP now (c\<lparr>k_next_mode := (case nm of Some n \<Rightarrow> n | None \<Rightarrow> SMOKE)\<rparr>)
      else enter_mode REIGNITE now (upd_safety (\<lambda>s. s\<lparr>reignite_last := relight_target m nm\<rparr>) c))"

definition restart_note :: "fl \<Rightarrow> ('i, 's, 'w, 'z) control_scheme \<Rightarrow> msg" where
  "restart_note age c =
     (let last1 = AStr (pf_mode_name (reignite_last (c_safety c)))
      in if k_restart_reason c \<noteq> []
         then Msg (''%s '' @ mid_dot @ '' Down %.0f s '' @ mid_dot @ '' Relighting, then %s'') [AStr (k_restart_reason c), AFl age, last1]
         else Msg (''Power lost %.0f s '' @ mid_dot @ '' Relighting, then %s'') [AFl age, last1])"

definition relight_now :: "pf_mode \<Rightarrow> fl \<Rightarrow> json \<Rightarrow> ('i, 's, 'w, 'z) control_scheme \<Rightarrow> ('i, 's, 'w, 'z) control_scheme" where
  "relight_now m now o1 c =
     (let age = snap_age o1 c; csw = snap_num ''cook_start_wall'' 0 o1;
          c = c\<lparr>k_recoveries := pf_json_int (Some o1) ''recoveries'' 0 + 1\<rparr>;
          c = upd_safety (\<lambda>s. s\<lparr>reignite_retries_left := pf_json_int (Some o1) ''reignite_retries_left'' (reignite_retries_left s)\<rparr>) c;
          c = relight_enter m (snap_mode ''next_mode'' o1) now (resume_wishes o1 c);
          c = (if 0 < csw then c\<lparr>k_cook_start_wall := csw\<rparr> else c);
          c = c\<lparr>k_auger_total_on_s := snap_num ''auger_total_on_s'' 0 o1, k_cook_max_pit_c := snap_num ''cook_max_pit_c'' 0 o1,
                k_restart_resumed := True\<rparr>
      in db_event PF_LVL_WARN ''W12_POWER_LOSS'' (restart_note age c) c)"

definition pf_control_recover :: "fl \<Rightarrow> json option \<Rightarrow> ('i, 's, 'w, 'z) control_scheme \<Rightarrow> ('i, 's, 'w, 'z) control_scheme \<times> bool" where
  "pf_control_recover now doc c =
     (case doc of
        None \<Rightarrow> (c, False)
      | Some o1 \<Rightarrow>
          (case snap_mode ''mode'' o1 of
             None \<Rightarrow> (c, False)
           | Some m \<Rightarrow>
               if \<not> pf_mode_is_firing m \<or> snap_age o1 c < 0 \<or> \<not> power_loss_recovery (c_cfg c) then (c, False)
               else (case relight_verdict m o1 c of
                       Refuse why \<Rightarrow> (refuse_relight why now c, True)
                     | Tuning \<Rightarrow> (enter_mode SHUTDOWN now (db_event PF_LVL_WARN ''W13_TUNE_INTERRUPTED''
                                     (Msg ''Restart during tuning. Grill shut down.'' []) c), True)
                     | Relight \<Rightarrow> (relight_now m now o1 c, True))))"

section \<open>The checkpoint\<close>

definition checkpoint :: "fl \<Rightarrow> ('i, 's, 'w, 'z) control_scheme \<Rightarrow> ('i, 's, 'w, 'z) control_scheme" where
  "checkpoint now c =
     (if k_checkpoint_path c = [] then c
      else if pf_mode_is_firing (c_mode c)
      then (if now - k_checkpoint_t c < 10 then c
            else (let c = c\<lparr>k_checkpoint_t := now\<rparr>
                  in case pf_control_resume_json now c of
                       Some j \<Rightarrow> (upd_mod (\<lambda>m. m\<lparr>o_file := Some j\<rparr>) c)\<lparr>k_checkpoint_on_disk := True\<rparr>
                     | None \<Rightarrow> c))
      else if k_checkpoint_on_disk c then (upd_mod (\<lambda>m. m\<lparr>o_file := None\<rparr>) c)\<lparr>k_checkpoint_on_disk := False\<rparr>
      else c)"

definition pf_control_set_checkpoint_path :: "string option \<Rightarrow> ('i, 's, 'w, 'z) control_scheme \<Rightarrow> ('i, 's, 'w, 'z) control_scheme" where
  "pf_control_set_checkpoint_path path c =
     c\<lparr>k_checkpoint_path := cut 512 (case path of Some p \<Rightarrow> p | None \<Rightarrow> []),
       k_checkpoint_on_disk := path \<noteq> None \<and> o_file (k_mod c) \<noteq> None\<rparr>"

definition pf_control_note_restart :: "string option \<Rightarrow> ('i, 's, 'w, 'z) control_scheme \<Rightarrow> ('i, 's, 'w, 'z) control_scheme" where
  "pf_control_note_restart reason c =
     c\<lparr>k_restart_reason := cut 96 (case reason of Some r \<Rightarrow> r | None \<Rightarrow> []),
       k_restart_wall := (case reason of Some r \<Rightarrow> k_wall c | None \<Rightarrow> 0)\<rparr>"

end
