(* ===== verification/Control_Step.thy ===== *)
theory Control_Step
  imports Control_Restart
begin

text \<open>
  The control thread of \<open>src/core/control.c\<close> from its start to its end: the state it begins with, the sensors
  read, the snapshot published, and \<open>pf_control_step\<close>, which composes all the rest in the order of the source.
\<close>

section \<open>Start and end\<close>

definition zero_dbg :: pf_ctrl_dbg where
  "zero_dbg = \<lparr>dbg_p = 0, dbg_i = 0, dbg_d = 0, dbg_ff = 0, dbg_error = 0, dbg_derivative = 0, dbg_integral = 0, dbg_note = []\<rparr>"

definition zero_lid_ring :: lid_ring where
  "zero_lid_ring = \<lparr>lh_t = replicate 20 0, lh_c = replicate 20 0, lh_n = 0, lh_head = 0, lh_last = 0\<rparr>"

definition zero_cycle :: pf_cycle where
  "zero_cycle = \<lparr>cy_start = 0, cy_cycle_s = 0, cy_on_s = 0, cy_u_raw = 0, cy_u_applied = 0, cy_saturated = 0, cy_active = False\<rparr>"

text \<open>The memory \<open>memset\<close> leaves, beside the modules and outputs that are there.\<close>

definition blank_control :: "'i outputs \<Rightarrow> events \<Rightarrow> ('s, 'w) outside \<Rightarrow> ('i, 's, 'w) control" where
  "blank_control outs ev m =
     \<lparr>c_cfg = zero_cfg, c_mode = STOP, c_setpoint_c = 0, c_target_reached = False, c_u_applied = 0, c_lid_open = False,
      c_lid_event = False, c_lid_event_t = 0, c_autotune_active = False, c_pit_c = 0, c_pit_valid = False, c_ambient_c = 0,
      c_last_step = 0, c_safety = zero_safety, c_out = outs, c_ev = ev,
      k_sim = False, k_next_mode = STOP, k_mode_start = 0, k_aim_since = 0, k_aim_pit_c = 0, k_eta_s = 0, k_eta_last_t = 0,
      k_checkpoint_path = [], k_checkpoint_t = 0, k_checkpoint_on_disk = False, k_req_pending = False, k_req_mode = STOP,
      k_req_setpoint_c = 0, k_s_plus = False, k_pwm_control = False, k_duty_cycle = 0, k_cycle = zero_cycle,
      k_ccfg = \<lparr>cfg_cycle_s = 0, cfg_u_min = 0, cfg_u_max = 0, cfg_max_on_s = 0\<rparr>, k_ctrl = None, k_dbg = zero_dbg,
      k_u_raw = 0, k_saturated = 0, k_ctrl_reset_needed = False, k_typed_gains = (0, 0, 0), k_fan_pid_active = False,
      k_lid_open_until = 0, k_lid_low_c = 0, k_lid_hist = zero_lid_ring, k_restart_reason = [], k_restart_wall = 0,
      k_restart_resumed = False, k_recoveries = 0, k_auger_rest_until = 0, k_fan_toggle_t = 0, k_fan_update_t = 0,
      k_fan_ramping = False, k_ramp_end_t = 0, k_manual_until = (\<lambda>_. 0), k_prime_duration_s = 0, k_prime_amount_g = 0,
      k_ss_profile = 0, k_pit_rate_c_min = 0, k_pit_rate_last_c = 0, k_pit_rate_last_t = 0, k_notify = pf_notify_init,
      k_recipe = zero_recipe_run, k_learn = zero_learn, k_at = zero_autotune, k_sensors = zero_sensors,
      k_ambient_from_probe = False, k_auger_on_since = 0, k_auger_total_on_s = 0, k_cook_start_wall = 0,
      k_cook_max_pit_c = 0, k_hopper_pct = 0, k_power_off_requested = False, k_mod = m\<rparr>"

definition pf_control_init :: "bool \<Rightarrow> 'i outputs \<Rightarrow> events \<Rightarrow> ('s, 'w) outside \<Rightarrow> ('i, 's, 'w) control" where
  "pf_control_init sim outs ev m =
     (let c = (blank_control outs ev m)\<lparr>k_sim := sim, k_hopper_pct := -1, c_ambient_c := NaN, c_pit_c := NaN\<rparr>;
          c = upd_mod (\<lambda>m. m\<lparr>o_set := controller_fill_defaults (o_tab m) (o_set m)\<rparr>) c;
          c = cycle_cfg_for (reload_cfg c);
          g = c_cfg c;
          c = c\<lparr>k_s_plus := splus_default g, k_pwm_control := pwm_control_default g, k_duty_cycle := pwm_max_duty g,
                c_setpoint_c := after_startup_setpoint_c g\<rparr>;
          c = (pf_safety_reset c)\<lparr>k_notify := pf_notify_init\<rparr>;
          c = fst (controller_load (controller_id g) c)
      in set_pwm_hz (out_all_off (c\<lparr>c_mode := STOP\<rparr>)))"

definition pf_control_shutdown :: "('i, 's, 'w, 'z) control_scheme \<Rightarrow> ('i, 's, 'w, 'z) control_scheme" where
  "pf_control_shutdown c = upd_recipe (\<lambda>r. r\<lparr>rr_ends := None\<rparr>) (controller_destroy (out_all_off c))"

section \<open>Sensors\<close>

definition read_pit :: "('i, 's, 'w, 'z) control_scheme \<Rightarrow> ('i, 's, 'w, 'z) control_scheme" where
  "read_pit c =
     (let s = pf_probes_snapshot (o_bank (k_mod c)); c = c\<lparr>k_sensors := s\<rparr>
      in case (if 0 \<le> sn_primary s then sensor_at s (sn_primary s) else None) of
           Some p \<Rightarrow>
             if pr_valid p
             then c\<lparr>c_pit_c := pr_temp_c p, c_pit_valid := True,
                    k_cook_max_pit_c := (if k_cook_max_pit_c c < pr_temp_c p then pr_temp_c p else k_cook_max_pit_c c)\<rparr>
             else c\<lparr>c_pit_valid := False\<rparr>
         | None \<Rightarrow> c\<lparr>c_pit_valid := False\<rparr>)"

text \<open>The slope of the pit, filtered over thirty seconds.\<close>

definition track_rate :: "('i, 's, 'w, 'z) control_scheme \<Rightarrow> ('i, 's, 'w, 'z) control_scheme" where
  "track_rate c =
     (if \<not> c_pit_valid c then c
      else (let now_t = (if 0 < c_last_step c then c_last_step c else 0);
                dt = now_t - k_pit_rate_last_t c;
                inst = (c_pit_c c - k_pit_rate_last_c c) / dt * 60;
                a = (if 1 < dt / 30 then 1 else dt / 30);
                c = (if 0 < k_pit_rate_last_t c \<and> k_pit_rate_last_t c < now_t
                     then c\<lparr>k_pit_rate_c_min := k_pit_rate_c_min c + (inst - k_pit_rate_c_min c) * a\<rparr> else c)
            in c\<lparr>k_pit_rate_last_c := c_pit_c c, k_pit_rate_last_t := now_t\<rparr>))"

definition ambient_probe :: "('i, 's, 'w, 'z) control_scheme \<Rightarrow> ('i, 's, 'w, 'z) control_scheme" where
  "ambient_probe c =
     (case List.find (\<lambda>p. pr_ambient p \<and> pr_valid p) (sn_p (k_sensors c)) of
        Some p \<Rightarrow> c\<lparr>c_ambient_c := pr_temp_c p, k_ambient_from_probe := \<not> AMBIENT_MAX_C < pr_temp_c p\<rparr>
      | None \<Rightarrow> c\<lparr>k_ambient_from_probe := False\<rparr>)"

definition ambient_weather :: "('i, 's, 'w, 'z) control_scheme \<Rightarrow> ('i, 's, 'w, 'z) control_scheme" where
  "ambient_weather c =
     (if k_ambient_from_probe c then c
      else (case fw_weather (k_feat c) (k_w c) of
              Some t \<Rightarrow> if \<not> isnan t \<and> t \<le> AMBIENT_MAX_C then c\<lparr>c_ambient_c := t, k_ambient_from_probe := True\<rparr> else c
            | None \<Rightarrow> c))"

definition read_ambient :: "('i, 's, 'w, 'z) control_scheme \<Rightarrow> ('i, 's, 'w, 'z) control_scheme" where
  "read_ambient c =
     (let c = ambient_weather (ambient_probe c); s = c_safety c;
          c = (if \<not> k_ambient_from_probe c \<and> ss_active s \<and> \<not> isnan (ss_baseline_c s) \<and> ss_baseline_c s \<le> AMBIENT_MAX_C
               then c\<lparr>c_ambient_c := ss_baseline_c s\<rparr> else c);
          c = (if isnan (c_ambient_c c) \<or> AMBIENT_MAX_C < c_ambient_c c then ambient_provisional c else c)
      in ambient_remember c)"

definition read_sensors :: "('i, 's, 'w, 'z) control_scheme \<Rightarrow> ('i, 's, 'w, 'z) control_scheme" where
  "read_sensors c = (let c = track_rate (read_pit c) in read_ambient (c\<lparr>k_hopper_pct := fw_hopper_pct (k_feat c) (k_w c)\<rparr>))"

section \<open>The snapshot published\<close>

definition status_of_probe :: "pf_notify \<Rightarrow> pf_probe_reading \<Rightarrow> status_notify" where
  "status_of_probe n r =
     (case pf_notify_find n (pr_label r) of
        Some p \<Rightarrow> \<lparr>sy_after = np_after p, sy_eta_s = np_eta_s p, sy_limit_high_c = np_limit_high_c p,
                    sy_limit_low_c = np_limit_low_c p, sy_eta_step_s = np_eta_step_s p, sy_next_step = np_next_step p,
                    sy_meat = np_meat p, sy_done = np_done p, sy_finish_c = np_finish_c p, sy_rest_c = np_rest_c p,
                    sy_resting = np_removed p \<and> np_rest_watch p, sy_rest_peak_c = np_rest_peak_c p,
                    sy_steps = take PF_MAX_STEPS (np_steps p)\<rparr>
      | None \<Rightarrow> \<lparr>sy_after = 0, sy_eta_s = -1, sy_limit_high_c = 0, sy_limit_low_c = 0, sy_eta_step_s = -1, sy_next_step = [],
                  sy_meat = [], sy_done = [], sy_finish_c = 0, sy_rest_c = 0, sy_resting = False, sy_rest_peak_c = 0,
                  sy_steps = []\<rparr>)"

text \<open>Lighting and shutting down are not stages of a recipe.\<close>

definition stage_step :: "pf_recipe_step \<Rightarrow> bool" where "stage_step s \<longleftrightarrow> rp_mode s = HOLD \<or> rp_mode s = SMOKE"

definition status_of_recipe :: "('i, 's, 'w, 'z) control_scheme \<Rightarrow> status_recipe" where
  "status_of_recipe c =
     (let r = k_recipe c; steps = rc_steps (rr_r r); s = cur_step c
      in if \<not> rr_active r then no_status_recipe
         else \<lparr>sr_active = True, sr_waiting = rr_waiting r,
               sr_needs_lid = rr_waiting r \<and> \<not> rr_lid_seen r \<and> mentions ''lid'' (rr_ends r) \<and> mentions ''prompt'' (rr_ends r),
               sr_name = rc_name (rr_r r), sr_step = rr_step r, sr_nsteps = length steps,
               sr_stage = (if rr_step r < length steps \<and> stage_step s then length (filter stage_step (take (rr_step r + 1) steps)) else 0),
               sr_stages = length (filter stage_step steps), sr_step_mode = rp_mode s,
               sr_remaining_s = (if rr_waiting r then -1 else rr_eta_s r), sr_clock_s = (if rr_waiting r then -1 else rr_clock_s r),
               sr_at_temp = (rp_mode s \<noteq> HOLD \<or> 0 < rr_at_temp_since r), sr_id = rc_id (rr_r r), sr_flags = rr_flags r,
               sr_message = rp_message s\<rparr>)"

definition status_of_timer :: "fl \<Rightarrow> pf_timer \<Rightarrow> pf_timer" where
  "status_of_timer now t =
     t\<lparr>tm_end_t := 0, tm_remaining := (if tm_running t then (if tm_paused t then tm_remaining t else tm_end_t t - now) else 0)\<rparr>"

definition status_of :: "fl \<Rightarrow> ('i, 's, 'w, 'z) control_scheme \<Rightarrow> pf_status" where
  "status_of now c =
     (let g = c_cfg c; sf = c_safety c; m = c_mode c; prime = (\<lambda>x. if m = PRIME then x else 0)
      in \<lparr>st_t = now, st_wall = k_wall c, st_mode = m, st_next_mode = k_next_mode c, st_mode_start = k_mode_start c,
          st_aim_since = k_aim_since c, st_setpoint_eta_s = k_eta_s c, st_setpoint_c = c_setpoint_c c, st_s_plus = k_s_plus c,
          st_pwm_control = k_pwm_control c, st_duty_cycle = k_duty_cycle c, st_outputs = pf_outputs_mask (c_out c),
          st_fan_pct = pf_outputs_get_fan_pct (c_out c), st_u_raw = k_u_raw c,
          st_u_applied = (if pf_mode_is_firing m then c_u_applied c else 0), st_saturated = k_saturated c,
          st_cycle_s = cfg_cycle_s (k_ccfg c), st_lid_open = c_lid_open c, st_lid_event = c_lid_event c,
          st_restart_reason = k_restart_reason c, st_restart_wall = k_restart_wall c, st_restart_resumed = k_restart_resumed c,
          st_lid_open_until = k_lid_open_until c, st_target_reached = c_target_reached c, st_shutdown_duration = shutdown_s g,
          st_prime_duration = prime (k_prime_duration_s c), st_prime_amount = prime (k_prime_amount_g c),
          st_ss_active = ss_active sf, st_ss_proven = ss_proven sf, st_ss_baseline_c = ss_baseline_c sf,
          st_ss_deadline = ss_deadline sf, st_heating = (heating sf \<and> (m = HOLD \<or> m = SMOKE)), st_proving = proving sf,
          st_pmode = pmode g, st_cook_start_wall = k_cook_start_wall c, st_error_code = cut 32 (error_code sf),
          st_error_msg = cut 128 (o_text (k_mod c) (error_msg sf)),
          st_controller_id = cut 32 (case ctrl_id c of Some i \<Rightarrow> i | None \<Rightarrow> []), st_dbg = k_dbg c, st_tuning = ctrl_tuning c,
          st_ambient_c = c_ambient_c c, st_reignite_retries_left = reignite_retries_left sf, st_sensors = k_sensors c,
          st_notify = map (status_of_probe (k_notify c)) (take PF_MAX_PROBES (sn_p (k_sensors c))),
          st_timer = status_of_timer now (nt_timer (k_notify c)), st_recipe = status_of_recipe c,
          st_autotune_active = c_autotune_active c, st_autotune_crossings = at_crossings (k_at c),
          st_u_ff = le_u_ff (k_learn c), st_hopper_pct = k_hopper_pct c, st_sim = k_sim c\<rparr>)"

definition publish :: "fl \<Rightarrow> ('i, 's, 'w, 'z) control_scheme \<Rightarrow> ('i, 's, 'w, 'z) control_scheme" where
  "publish now c =
     (let s = status_of now c
      in feature (HistoryRecord s now (history_sample_s (c_cfg c))) (feature (StatusPublish s) c))"

section \<open>A step of the thread\<close>

text \<open>The commands waiting when the step begins, in their order; handling one sends none.\<close>

fun drain_cmds :: "nat \<Rightarrow> fl \<Rightarrow> ('i, 's, 'w, 'z) control_scheme \<Rightarrow> ('i, 's, 'w, 'z) control_scheme" where
  "drain_cmds 0 now c = c"
| "drain_cmds (Suc n) now c =
     (case pf_cmdq_pop (o_cmdq (k_mod c)) of
        (q, None) \<Rightarrow> c
      | (q, Some cmd) \<Rightarrow> drain_cmds n now (handle_cmd now cmd (upd_mod (\<lambda>m. m\<lparr>o_cmdq := q\<rparr>) c)))"

definition idle_overtemp :: "('i, 's, 'w, 'z) control_scheme \<Rightarrow> ('i, 's, 'w, 'z) control_scheme" where
  "idle_overtemp c =
     (if (c_mode c = STOP \<or> c_mode c = ERROR) \<and> c_pit_valid c
      then (if max_temp_c (c_cfg c) < c_pit_c c \<and> \<not> stop_overtemp_said (c_safety c)
            then tell ''E01_OVERTEMP_IDLE'' ''Over Temperature''
                   (Msg ''Pit %.0f with the grill in %s. Keep the lid closed.''
                     [AFl (pf_from_c (c_pit_c c) (units (c_cfg c))), AStr (pf_mode_name (c_mode c))])
                   (upd_safety (\<lambda>s. s\<lparr>stop_overtemp_said := True\<rparr>) c)
            else if c_pit_c c < max_temp_c (c_cfg c) - pf_delta_to_c 20 UnitsF
            then upd_safety (\<lambda>s. s\<lparr>stop_overtemp_said := False\<rparr>) c
            else c)
      else c)"

definition hold_setpoint :: "('i, 's, 'w, 'z) control_scheme \<Rightarrow> ('i, 's, 'w, 'z) control_scheme" where
  "hold_setpoint c =
     (if 0 < c_setpoint_c c
      then (let sp = pf_clamp (c_setpoint_c c) (min_target_c (c_cfg c)) (max_target_c (c_cfg c))
            in if 0.01 < \<bar>sp - c_setpoint_c c\<bar> then c\<lparr>c_setpoint_c := sp\<rparr> else c)
      else c)"

definition supervise :: "fl \<Rightarrow> ('i, 's, 'w, 'z) control_scheme \<Rightarrow> ('i, 's, 'w, 'z) control_scheme" where
  "supervise now c =
     (case pf_safety_tick now c of
        (c, act) \<Rightarrow>
          (let c = catch_up c
           in if act = Some ERROR then enter_mode ERROR now c
              else if act = Some REIGNITE then enter_mode REIGNITE now c else c))"

definition shutdown_input :: "fl \<Rightarrow> ('i, 's, 'w, 'z) control_scheme \<Rightarrow> ('i, 's, 'w, 'z) control_scheme" where
  "shutdown_input now c =
     (if pf_outputs_read_input IN_SHUTDOWN (c_out c) \<and> c_mode c \<noteq> STOP
      then enter_mode (if c_mode c = HOLD \<or> c_mode c = SMOKE then SHUTDOWN else STOP) now c else c)"

definition take_orders :: "fl \<Rightarrow> ('i, 's, 'w, 'z) control_scheme \<Rightarrow> ('i, 's, 'w, 'z) control_scheme" where
  "take_orders now c =
     (let c = (if k_mode_start c = 0 then c\<lparr>k_mode_start := now\<rparr> else c);
          c = drain_cmds (g_len (o_cmdq (k_mod c))) now c
      in apply_request now (read_sensors c))"

definition tend_cook :: "fl \<Rightarrow> ('i, 's, 'w, 'z) control_scheme \<Rightarrow> ('i, 's, 'w, 'z) control_scheme" where
  "tend_cook now c =
     learn_rise_track now (recipe_aftercare (run_recipe now (run_notify now (hold_setpoint (idle_overtemp c)))))"

definition pf_control_step :: "fl \<Rightarrow> ('i, 's, 'w, 'z) control_scheme \<Rightarrow> ('i, 's, 'w, 'z) control_scheme" where
  "pf_control_step now c =
     (let c = supervise now (tend_cook now (take_orders now c));
          c = shutdown_input now (run_mode now c);
          c = checkpoint now (publish now c)
      in c\<lparr>c_last_step := now\<rparr>)"

end
