(* ===== verification/Control_Frames.thy ===== *)
theory Control_Frames
  imports Control_Step
begin

text \<open>
  What each operation of the control thread leaves alone.  An observation of the state is a bystander when it
  does not look at what the working operations write (readings, learning, the relay test, the fan, the cycle,
  the controller, events, alarms); for every such operation it is proved once, inside the locale, that the
  bystander sees no change.  Two bystanders are interpreted: the orders of the grill (mode, recipe, pending
  request, command queue) and the auger (whether it is on, since when, until when it rests).
\<close>

section \<open>Nothing seen to change\<close>

definition same :: "('c \<Rightarrow> 'o) \<Rightarrow> 'c \<Rightarrow> 'c \<Rightarrow> bool" where "same obs c d \<longleftrightarrow> obs d = obs c"

named_theorems same_rule \<comment> \<open>how an operation leaves an observation alone\<close>

lemma same_refl [simp, same_rule]: "same obs c c" by (simp add: same_def)

lemma sameD: "same obs c d \<Longrightarrow> obs d = obs c" by (simp add: same_def)

lemma same_if [same_rule]: "same obs c x \<Longrightarrow> same obs c y \<Longrightarrow> same obs c (if b then x else y)" by simp

lemma same_fst_if [same_rule]: "same obs c (fst x) \<Longrightarrow> same obs c (fst y) \<Longrightarrow> same obs c (fst (if b then x else y))" by simp

lemma same_option [same_rule]:
  "same obs c x \<Longrightarrow> (\<And>y. same obs c (f y)) \<Longrightarrow> same obs c (case z of None \<Rightarrow> x | Some y \<Rightarrow> f y)"
  "same obs c (fst x') \<Longrightarrow> (\<And>y. same obs c (fst (f' y))) \<Longrightarrow> same obs c (fst (case z of None \<Rightarrow> x' | Some y \<Rightarrow> f' y))"
  by (cases z, simp_all)+

lemma same_prod [same_rule]:
  "(\<And>x y. same obs c (f x y)) \<Longrightarrow> same obs c (case z of (x, y) \<Rightarrow> f x y)"
  "(\<And>x y. same obs c (fst (f' x y))) \<Longrightarrow> same obs c (fst (case z of (x, y) \<Rightarrow> f' x y))"
  by (cases z, simp)+

lemma same_let [same_rule]:
  "(\<And>x. same obs c (f x)) \<Longrightarrow> same obs c (Let z f)" "(\<And>x. same obs c (fst (f' x))) \<Longrightarrow> same obs c (fst (Let z f'))"
  by simp_all

lemma same_fst [same_rule]: "same obs c x \<Longrightarrow> same obs c (fst (x, y))" by simp

lemma same_mode_case:
  assumes "same obs c STOP'" "same obs c MONITOR'" "same obs c PRIME'" "same obs c STARTUP'" "same obs c REIGNITE'"
    "same obs c SMOKE'" "same obs c HOLD'" "same obs c SHUTDOWN'" "same obs c MANUAL'" "same obs c ERROR'"
  shows "same obs c (case m of STOP \<Rightarrow> STOP' | MONITOR \<Rightarrow> MONITOR' | PRIME \<Rightarrow> PRIME' | STARTUP \<Rightarrow> STARTUP'
    | REIGNITE \<Rightarrow> REIGNITE' | SMOKE \<Rightarrow> SMOKE' | HOLD \<Rightarrow> HOLD' | SHUTDOWN \<Rightarrow> SHUTDOWN' | MANUAL \<Rightarrow> MANUAL' | ERROR \<Rightarrow> ERROR')"
  using assms by (cases m) simp_all

lemma same_fold: "(\<And>x d. same obs c d \<Longrightarrow> same obs c (f x d)) \<Longrightarrow> same obs c d \<Longrightarrow> same obs c (fold f xs d)"
  by (induction xs arbitrary: d) auto

text \<open>A state bound by a let or a pair: the change so far is none, whatever the state is called.\<close>

lemma same_bound:
  "same obs c x \<Longrightarrow> (\<And>y. same obs c y \<Longrightarrow> same obs c (f y)) \<Longrightarrow> same obs c (Let x f)"
  "same obs c x \<Longrightarrow> (\<And>y. same obs c y \<Longrightarrow> same obs c (fst (f' y))) \<Longrightarrow> same obs c (fst (Let x f'))"
  "same obs c (fst z) \<Longrightarrow> (\<And>y w. same obs c y \<Longrightarrow> same obs c (g y w)) \<Longrightarrow> same obs c (case z of (y, w) \<Rightarrow> g y w)"
  "same obs c (fst z) \<Longrightarrow> (\<And>y w. same obs c y \<Longrightarrow> same obs c (fst (g' y w))) \<Longrightarrow> same obs c (fst (case z of (y, w) \<Rightarrow> g' y w))"
  by (simp, simp, cases z, simp, cases z, simp)

lemma outputs_pwm_state: "g_state (fst (pf_outputs_pwm_frequency hz s)) = g_state s"
  by (simp add: pf_outputs_pwm_frequency_def Let_def split: option.split prod.split)

lemma same_snd:
  "same obs c (snd z) \<Longrightarrow> (\<And>w y. same obs c y \<Longrightarrow> same obs c (f w y)) \<Longrightarrow> same obs c (case z of (w, y) \<Rightarrow> f w y)"
  by (cases z) simp

text \<open>A field of the control record depends on the base record through its extension only.\<close>

lemma base_irrelevant:
  fixes c d :: "('i, 'z) grill_scheme"
  assumes more: "grill.more d = grill.more c" and wires: "wiring (c_out d) = wiring (c_out c)"
    and f: "\<And>v1 v2 v3 v4 v5 v6 v7 v8 v9 v10 v11 v12 v13 v14 v15 v16. wiring v15 = wiring (c_out c) \<Longrightarrow>
      f (c\<lparr>c_cfg := v1, c_mode := v2, c_setpoint_c := v3, c_target_reached := v4, c_u_applied := v5, c_lid_open := v6,
           c_lid_event := v7, c_lid_event_t := v8, c_autotune_active := v9, c_pit_c := v10, c_pit_valid := v11,
           c_ambient_c := v12, c_last_step := v13, c_safety := v14, c_out := v15, c_ev := v16\<rparr>) = f c"
  shows "f d = f c"
proof -
  have "d = c\<lparr>c_cfg := c_cfg d, c_mode := c_mode d, c_setpoint_c := c_setpoint_c d, c_target_reached := c_target_reached d,
      c_u_applied := c_u_applied d, c_lid_open := c_lid_open d, c_lid_event := c_lid_event d, c_lid_event_t := c_lid_event_t d,
      c_autotune_active := c_autotune_active d, c_pit_c := c_pit_c d, c_pit_valid := c_pit_valid d, c_ambient_c := c_ambient_c d,
      c_last_step := c_last_step d, c_safety := c_safety d, c_out := c_out d, c_ev := c_ev d\<rparr>"
    by (rule grill.equality) (simp_all add: more)
  from arg_cong [OF this, of f] show ?thesis by (simp only: f [OF wires])
qed

text \<open>The part of \<open>run_mode\<close> before its timed changes.\<close>

definition run_outputs :: "fl \<Rightarrow> ('i, 's, 'w, 'z) control_scheme \<Rightarrow> ('i, 's, 'w, 'z) control_scheme" where
  "run_outputs now c =
     (let c = auger_cap now (auger_rest now (feed_step now (watch_lid now c)))
      in expire_manual now (if c_mode c = SMOKE \<or> c_mode c = HOLD then run_fan_logic now c else c))"

lemma run_mode_split: "run_mode now c = timed_change now (run_outputs now c)"
  by (simp add: run_mode_def run_outputs_def Let_def)

section \<open>Bystanders\<close>

locale bystander =
  fixes obs :: "('i, 's, 'w, 'z) control_scheme \<Rightarrow> 'o"
  assumes quiet:
    "obs (c\<lparr>c_setpoint_c := v0\<rparr>) = obs c" "obs (c\<lparr>c_target_reached := v1\<rparr>) = obs c"
    "obs (c\<lparr>c_u_applied := v2\<rparr>) = obs c" "obs (c\<lparr>c_lid_open := v3\<rparr>) = obs c"
    "obs (c\<lparr>c_lid_event := v4\<rparr>) = obs c" "obs (c\<lparr>c_lid_event_t := v5\<rparr>) = obs c"
    "obs (c\<lparr>c_autotune_active := v6\<rparr>) = obs c" "obs (c\<lparr>c_pit_c := v7\<rparr>) = obs c"
    "obs (c\<lparr>c_pit_valid := v8\<rparr>) = obs c" "obs (c\<lparr>c_ambient_c := v9\<rparr>) = obs c"
    "obs (c\<lparr>c_last_step := v10\<rparr>) = obs c" "obs (c\<lparr>c_safety := v11\<rparr>) = obs c"
    "obs (c\<lparr>c_ev := v12\<rparr>) = obs c" "obs (c\<lparr>k_aim_since := v13\<rparr>) = obs c"
    "obs (c\<lparr>k_aim_pit_c := v14\<rparr>) = obs c" "obs (c\<lparr>k_eta_s := v15\<rparr>) = obs c"
    "obs (c\<lparr>k_eta_last_t := v16\<rparr>) = obs c" "obs (c\<lparr>k_checkpoint_t := v17\<rparr>) = obs c"
    "obs (c\<lparr>k_checkpoint_on_disk := v18\<rparr>) = obs c" "obs (c\<lparr>k_s_plus := v19\<rparr>) = obs c"
    "obs (c\<lparr>k_pwm_control := v20\<rparr>) = obs c" "obs (c\<lparr>k_duty_cycle := v21\<rparr>) = obs c"
    "obs (c\<lparr>k_cycle := v22\<rparr>) = obs c" "obs (c\<lparr>k_ctrl := v23\<rparr>) = obs c"
    "obs (c\<lparr>k_dbg := v24\<rparr>) = obs c" "obs (c\<lparr>k_u_raw := v25\<rparr>) = obs c"
    "obs (c\<lparr>k_saturated := v26\<rparr>) = obs c" "obs (c\<lparr>k_ctrl_reset_needed := v27\<rparr>) = obs c"
    "obs (c\<lparr>k_typed_gains := v28\<rparr>) = obs c" "obs (c\<lparr>k_fan_pid_active := v29\<rparr>) = obs c"
    "obs (c\<lparr>k_lid_open_until := v30\<rparr>) = obs c" "obs (c\<lparr>k_lid_low_c := v31\<rparr>) = obs c"
    "obs (c\<lparr>k_lid_hist := v32\<rparr>) = obs c" "obs (c\<lparr>k_fan_toggle_t := v33\<rparr>) = obs c"
    "obs (c\<lparr>k_fan_update_t := v34\<rparr>) = obs c" "obs (c\<lparr>k_fan_ramping := v35\<rparr>) = obs c"
    "obs (c\<lparr>k_ramp_end_t := v36\<rparr>) = obs c" "obs (c\<lparr>k_ss_profile := v37\<rparr>) = obs c"
    "obs (c\<lparr>k_pit_rate_c_min := v38\<rparr>) = obs c"
    "obs (c\<lparr>k_pit_rate_last_c := v39\<rparr>) = obs c"
    "obs (c\<lparr>k_pit_rate_last_t := v40\<rparr>) = obs c" "obs (c\<lparr>k_notify := v41\<rparr>) = obs c"
    "obs (c\<lparr>k_learn := v42\<rparr>) = obs c" "obs (c\<lparr>k_at := v43\<rparr>) = obs c"
    "obs (c\<lparr>k_sensors := v44\<rparr>) = obs c" "obs (c\<lparr>k_ambient_from_probe := v45\<rparr>) = obs c"
    "obs (c\<lparr>k_cook_max_pit_c := v46\<rparr>) = obs c" "obs (c\<lparr>k_hopper_pct := v47\<rparr>) = obs c"
    and modules: "o_cmdq m = o_cmdq (k_mod c) \<Longrightarrow> obs (c\<lparr>k_mod := m\<rparr>) = obs c"

context bystander begin

lemma same_fields [same_rule]:
  assumes "same obs c d"
  shows
    "same obs c (d\<lparr>c_setpoint_c := v0\<rparr>)" "same obs c (d\<lparr>c_target_reached := v1\<rparr>)"
    "same obs c (d\<lparr>c_u_applied := v2\<rparr>)" "same obs c (d\<lparr>c_lid_open := v3\<rparr>)"
    "same obs c (d\<lparr>c_lid_event := v4\<rparr>)" "same obs c (d\<lparr>c_lid_event_t := v5\<rparr>)"
    "same obs c (d\<lparr>c_autotune_active := v6\<rparr>)" "same obs c (d\<lparr>c_pit_c := v7\<rparr>)"
    "same obs c (d\<lparr>c_pit_valid := v8\<rparr>)" "same obs c (d\<lparr>c_ambient_c := v9\<rparr>)"
    "same obs c (d\<lparr>c_last_step := v10\<rparr>)" "same obs c (d\<lparr>c_safety := v11\<rparr>)"
    "same obs c (d\<lparr>c_ev := v12\<rparr>)" "same obs c (d\<lparr>k_aim_since := v13\<rparr>)"
    "same obs c (d\<lparr>k_aim_pit_c := v14\<rparr>)" "same obs c (d\<lparr>k_eta_s := v15\<rparr>)"
    "same obs c (d\<lparr>k_eta_last_t := v16\<rparr>)" "same obs c (d\<lparr>k_checkpoint_t := v17\<rparr>)"
    "same obs c (d\<lparr>k_checkpoint_on_disk := v18\<rparr>)" "same obs c (d\<lparr>k_s_plus := v19\<rparr>)"
    "same obs c (d\<lparr>k_pwm_control := v20\<rparr>)" "same obs c (d\<lparr>k_duty_cycle := v21\<rparr>)"
    "same obs c (d\<lparr>k_cycle := v22\<rparr>)" "same obs c (d\<lparr>k_ctrl := v23\<rparr>)"
    "same obs c (d\<lparr>k_dbg := v24\<rparr>)" "same obs c (d\<lparr>k_u_raw := v25\<rparr>)"
    "same obs c (d\<lparr>k_saturated := v26\<rparr>)" "same obs c (d\<lparr>k_ctrl_reset_needed := v27\<rparr>)"
    "same obs c (d\<lparr>k_typed_gains := v28\<rparr>)" "same obs c (d\<lparr>k_fan_pid_active := v29\<rparr>)"
    "same obs c (d\<lparr>k_lid_open_until := v30\<rparr>)" "same obs c (d\<lparr>k_lid_low_c := v31\<rparr>)"
    "same obs c (d\<lparr>k_lid_hist := v32\<rparr>)" "same obs c (d\<lparr>k_fan_toggle_t := v33\<rparr>)"
    "same obs c (d\<lparr>k_fan_update_t := v34\<rparr>)" "same obs c (d\<lparr>k_fan_ramping := v35\<rparr>)"
    "same obs c (d\<lparr>k_ramp_end_t := v36\<rparr>)" "same obs c (d\<lparr>k_ss_profile := v37\<rparr>)"
    "same obs c (d\<lparr>k_pit_rate_c_min := v38\<rparr>)"
    "same obs c (d\<lparr>k_pit_rate_last_c := v39\<rparr>)"
    "same obs c (d\<lparr>k_pit_rate_last_t := v40\<rparr>)" "same obs c (d\<lparr>k_notify := v41\<rparr>)"
    "same obs c (d\<lparr>k_learn := v42\<rparr>)" "same obs c (d\<lparr>k_at := v43\<rparr>)"
    "same obs c (d\<lparr>k_sensors := v44\<rparr>)" "same obs c (d\<lparr>k_ambient_from_probe := v45\<rparr>)"
    "same obs c (d\<lparr>k_cook_max_pit_c := v46\<rparr>)" "same obs c (d\<lparr>k_hopper_pct := v47\<rparr>)"
  using assms by (simp_all add: same_def quiet)

lemma same_modules: "same obs c d \<Longrightarrow> o_cmdq m = o_cmdq (k_mod d) \<Longrightarrow> same obs c (d\<lparr>k_mod := m\<rparr>)"
  by (simp add: same_def modules)

lemma same_upd_mod [same_rule]: "same obs c d \<Longrightarrow> (\<And>m. o_cmdq (f m) = o_cmdq m) \<Longrightarrow> same obs c (upd_mod f d)"
  by (simp add: upd_mod_def same_modules)

lemma same_base [same_rule]:
  assumes "same obs c d"
  shows "same obs c (upd_safety f d)" "same obs c (db_event l a m d)" "same obs c (emit a b m d)"
  using assms by (simp_all add: upd_safety_def db_event_def emit_def same_fields)

lemma same_small [same_rule]:
  assumes "same obs c d"
  shows "same obs c (feature call d)" "same obs c (put_services v d)" "same obs c (tell a b m d)" "same obs c (catch_up d)"
    "same obs c (upd_learn f d)" "same obs c (upd_at f' d)" "same obs c (begin_cycle now u d)"
    "same obs c (begin_fixed now on_s off_s d)" "same obs c (take_feed d)" "same obs c (controller_destroy d)"
    "same obs c (upd_alarms f'' d)"
  using assms
  by (simp_all add: feature_def upd_mod_def put_services_def tell_def catch_up_def upd_learn_def upd_at_def begin_cycle_def
      begin_fixed_def take_feed_def controller_destroy_def upd_alarms_def same_fields same_modules Let_def)

text \<open>Learning and the relay test.\<close>

lemma same_tune_controller [same_rule]: "same obs c d \<Longrightarrow> same obs c (tune_controller a1 a2 a3 a4 a5 d)"
  unfolding tune_controller_def by (assumption | rule same_bound | rule same_rule | simp)+

lemma same_forget_in_controller [same_rule]: "same obs c d \<Longrightarrow> same obs c (forget_in_controller w d)"
  unfolding forget_in_controller_def by (assumption | rule same_bound | rule same_rule | simp)+

lemma same_learn_reset_window [same_rule]: "same obs c d \<Longrightarrow> same obs c (learn_reset_window now d)"
  unfolding learn_reset_window_def by (assumption | rule same_bound | rule same_rule | simp)+

lemma same_learn_track_steady [same_rule]: "same obs c d \<Longrightarrow> same obs c (learn_track_steady now d)"
  unfolding learn_track_steady_def by (assumption | rule same_bound | rule same_rule | simp)+

lemma same_learn_rise_begin [same_rule]: "same obs c d \<Longrightarrow> same obs c (learn_rise_begin d)"
  unfolding learn_rise_begin_def by (assumption | rule same_bound | rule same_rule | simp)+

lemma same_learn_step_begin [same_rule]: "same obs c d \<Longrightarrow> same obs c (learn_step_begin now d)"
  unfolding learn_step_begin_def by (assumption | rule same_bound | rule same_rule | simp)+

lemma same_watch_step [same_rule]: "same obs c d \<Longrightarrow> same obs c (watch_step now d)"
  unfolding watch_step_def by (assumption | rule same_bound | rule same_rule | simp)+

lemma same_rise_over [same_rule]: "same obs c d \<Longrightarrow> same obs c (rise_over d)"
  unfolding rise_over_def by (assumption | rule same_bound | rule same_rule | simp)+

lemma same_rise_marks [same_rule]: "same obs c d \<Longrightarrow> same obs c (rise_marks now fr d)"
  unfolding rise_marks_def by (assumption | rule same_bound | rule same_rule | simp)+

lemma same_file_plant [same_rule]: "same obs c d \<Longrightarrow> same obs c (file_plant K tau theta d)"
  unfolding file_plant_def by (assumption | rule same_bound | rule same_rule | simp)+

lemma same_finish_rise [same_rule]: "same obs c d \<Longrightarrow> same obs c (finish_rise now d)"
  unfolding finish_rise_def by (assumption | rule same_bound | rule same_rule | simp)+

lemma same_learn_rise_track [same_rule]: "same obs c d \<Longrightarrow> same obs c (learn_rise_track now d)"
  unfolding learn_rise_track_def by (assumption | rule same_bound | rule same_rule | simp)+

lemma same_autotune_failed [same_rule]: "same obs c d \<Longrightarrow> same obs c (autotune_failed m d)"
  unfolding autotune_failed_def by (assumption | rule same_bound | rule same_rule | simp)+

lemma same_autotune_file [same_rule]: "same obs c d \<Longrightarrow> same obs c (autotune_file Ku Pu A b d)"
  unfolding autotune_file_def by (assumption | rule same_bound | rule same_rule | simp)+

lemma same_autotune_judge [same_rule]: "same obs c d \<Longrightarrow> same obs c (autotune_judge d)"
  unfolding autotune_judge_def by (assumption | rule same_bound | rule same_rule | simp)+

lemma same_autotune_finish [same_rule]: "same obs c d \<Longrightarrow> same obs c (autotune_finish ok why d)"
  unfolding autotune_finish_def by (assumption | rule same_bound | rule same_rule | simp)+

lemma same_autotune_begin [same_rule]: "same obs c d \<Longrightarrow> same obs c (autotune_begin now centre d)"
  unfolding autotune_begin_def by (assumption | rule same_bound | rule same_rule | simp)+

lemma same_autotune_start [same_rule]: "same obs c d \<Longrightarrow> same obs c (autotune_start now d)"
  unfolding autotune_start_def by (assumption | rule same_bound | rule same_rule | simp)+

lemma same_autotune_watch [same_rule]: "same obs c d \<Longrightarrow> same obs c (fst (autotune_watch now d))"
  unfolding autotune_watch_def by (assumption | rule same_bound | rule same_rule | simp)+

lemma same_autotune_step [same_rule]: "same obs c d \<Longrightarrow> same obs c (fst (autotune_step now d))"
  unfolding autotune_step_def by (assumption | rule same_bound | rule same_rule | simp)+

text \<open>The feed and the ambient estimate.\<close>

lemma same_smoke_cycle [same_rule]: "same obs c d \<Longrightarrow> same obs c (smoke_cycle now d)"
  unfolding smoke_cycle_def by (assumption | rule same_bound | rule same_rule | simp)+

lemma same_select_smartstart_profile [same_rule]: "same obs c d \<Longrightarrow> same obs c (select_smartstart_profile d)"
  unfolding select_smartstart_profile_def by (assumption | rule same_bound | rule same_rule | simp)+

lemma same_ambient_provisional [same_rule]: "same obs c d \<Longrightarrow> same obs c (ambient_provisional d)"
  unfolding ambient_provisional_def by (assumption | rule same_bound | rule same_rule | simp)+

lemma same_ambient_remember [same_rule]: "same obs c d \<Longrightarrow> same obs c (ambient_remember d)"
  unfolding ambient_remember_def by (assumption | rule same_bound | rule same_rule | simp)+

text \<open>What safety is told.\<close>

lemma same_pf_safety_set_error [same_rule]: "same obs c d \<Longrightarrow> same obs c (pf_safety_set_error code m d)"
  unfolding pf_safety_set_error_def by (assumption | rule same_bound | rule same_rule | simp)+

lemma same_pf_safety_reset [same_rule]: "same obs c d \<Longrightarrow> same obs c (pf_safety_reset d)"
  unfolding pf_safety_reset_def by (assumption | rule same_bound | rule same_rule | simp)+

lemma same_pf_safety_on_startup_enter [same_rule]: "same obs c d \<Longrightarrow> same obs c (pf_safety_on_startup_enter now d)"
  unfolding pf_safety_on_startup_enter_def by (assumption | rule same_bound | rule same_rule | simp)+

lemma same_pf_safety_on_startup_exit [same_rule]: "same obs c d \<Longrightarrow> same obs c (pf_safety_on_startup_exit now d)"
  unfolding pf_safety_on_startup_exit_def by (assumption | rule same_bound | rule same_rule | simp)+

lemma same_pf_safety_on_run_enter [same_rule]: "same obs c d \<Longrightarrow> same obs c (pf_safety_on_run_enter prev now d)"
  unfolding pf_safety_on_run_enter_def by (assumption | rule same_bound | rule same_rule | simp)+

text \<open>Controllers.\<close>

lemma same_controller_load [same_rule]: "same obs c d \<Longrightarrow> same obs c (fst (controller_load ident d))"
  unfolding controller_load_def by (assumption | rule same_bound | rule same_rule | simp)+

lemma same_controller_configure [same_rule]: "same obs c d \<Longrightarrow> same obs c (controller_configure d)"
  unfolding controller_configure_def by (assumption | rule same_bound | rule same_rule | simp)+

lemma same_forget_learning [same_rule]: "same obs c d \<Longrightarrow> same obs c (forget_learning what why d)"
  unfolding forget_learning_def by (assumption | rule same_bound | rule same_rule | simp)+

lemma same_controller_fault [same_rule]: "same obs c d \<Longrightarrow> same obs c (controller_fault ident d)"
  unfolding controller_fault_def by (assumption | rule same_bound | rule same_rule | simp)+

lemma same_controller_reset [same_rule]: "same obs c d \<Longrightarrow> same obs c (controller_reset inp d)"
  unfolding controller_reset_def by (assumption | rule same_bound | rule same_rule | simp)+

lemma same_controller_update [same_rule]: "same obs c d \<Longrightarrow> same obs c (fst (controller_update inp d))"
  unfolding controller_update_def by (assumption | rule same_bound | rule same_rule | simp)+

lemma same_ask_controller [same_rule]: "same obs c d \<Longrightarrow> same obs c (fst (ask_controller now d))"
  unfolding ask_controller_def by (assumption | rule same_bound | rule same_rule | simp)+

lemma same_wanted_feed [same_rule]: "same obs c d \<Longrightarrow> same obs c (fst (wanted_feed now d))"
  unfolding wanted_feed_def by (assumption | rule same_bound | rule same_rule | simp)+

lemma same_note_cycle [same_rule]: "same obs c d \<Longrightarrow> same obs c (note_cycle now u d)"
  unfolding note_cycle_def by (assumption | rule same_bound | rule same_rule | simp)+

lemma same_run_hold_cycle [same_rule]: "same obs c d \<Longrightarrow> same obs c (run_hold_cycle now d)"
  unfolding run_hold_cycle_def by (assumption | rule same_bound | rule same_rule | simp)+

text \<open>The way to the set point and the lid.\<close>

lemma same_setpoint_countdown [same_rule]: "same obs c d \<Longrightarrow> same obs c (setpoint_countdown now d)"
  unfolding setpoint_countdown_def by (assumption | rule same_bound | rule same_rule | simp)+

lemma same_lid_watch [same_rule]: "same obs c d \<Longrightarrow> same obs c (fst (lid_watch now d))"
  unfolding lid_watch_def by (assumption | rule same_bound | rule same_rule | simp)+

lemma same_lid_event_begin [same_rule]: "same obs c d \<Longrightarrow> same obs c (lid_event_begin now d)"
  unfolding lid_event_begin_def by (assumption | rule same_bound | rule same_rule | simp)+

lemma same_watch_lid_event [same_rule]: "same obs c d \<Longrightarrow> same obs c (watch_lid_event now dropped d)"
  unfolding watch_lid_event_def by (assumption | rule same_bound | rule same_rule | simp)+

text \<open>The rest of a step.\<close>

lemma same_read_pit [same_rule]: "same obs c d \<Longrightarrow> same obs c (read_pit d)"
  unfolding read_pit_def by (assumption | rule same_bound | rule same_rule | simp)+

lemma same_track_rate [same_rule]: "same obs c d \<Longrightarrow> same obs c (track_rate d)"
  unfolding track_rate_def by (assumption | rule same_bound | rule same_rule | simp)+

lemma same_ambient_probe [same_rule]: "same obs c d \<Longrightarrow> same obs c (ambient_probe d)"
  unfolding ambient_probe_def by (assumption | rule same_bound | rule same_rule | simp)+

lemma same_ambient_weather [same_rule]: "same obs c d \<Longrightarrow> same obs c (ambient_weather d)"
  unfolding ambient_weather_def by (assumption | rule same_bound | rule same_rule | simp)+

lemma same_read_ambient [same_rule]: "same obs c d \<Longrightarrow> same obs c (read_ambient d)"
  unfolding read_ambient_def by (assumption | rule same_bound | rule same_rule | simp)+

lemma same_read_sensors [same_rule]: "same obs c d \<Longrightarrow> same obs c (read_sensors d)"
  unfolding read_sensors_def by (assumption | rule same_bound | rule same_rule | simp)+

lemma same_idle_overtemp [same_rule]: "same obs c d \<Longrightarrow> same obs c (idle_overtemp d)"
  unfolding idle_overtemp_def by (assumption | rule same_bound | rule same_rule | simp)+

lemma same_hold_setpoint [same_rule]: "same obs c d \<Longrightarrow> same obs c (hold_setpoint d)"
  unfolding hold_setpoint_def by (assumption | rule same_bound | rule same_rule | simp)+

lemma same_mirror_targets [same_rule]: "same obs c d \<Longrightarrow> same obs c (mirror_targets d)"
  unfolding mirror_targets_def by (assumption | rule same_bound | rule same_rule | simp)+

lemma same_publish [same_rule]: "same obs c d \<Longrightarrow> same obs c (publish now d)"
  unfolding publish_def by (assumption | rule same_bound | rule same_rule | simp)+

lemma same_checkpoint [same_rule]: "same obs c d \<Longrightarrow> same obs c (checkpoint now d)"
  unfolding checkpoint_def by (assumption | rule same_bound | rule same_rule | simp)+

lemma same_clear_error [same_rule]: "same obs c d \<Longrightarrow> same obs c (clear_error d)"
  unfolding clear_error_def by (assumption | rule same_bound | rule same_rule | simp)+

lemma same_cmd_notify_target [same_rule]: "same obs c d \<Longrightarrow> same obs c (cmd_notify_target cmd d)"
  unfolding cmd_notify_target_def by (assumption | rule same_bound | rule same_rule | simp)+

lemma same_cmd_notify_limits [same_rule]: "same obs c d \<Longrightarrow> same obs c (cmd_notify_limits cmd d)"
  unfolding cmd_notify_limits_def by (assumption | rule same_bound | rule same_rule | simp)+

lemma same_cmd_timer [same_rule]: "same obs c d \<Longrightarrow> same obs c (cmd_timer f d)"
  unfolding cmd_timer_def by (assumption | rule same_bound | rule same_rule | simp)+

lemma same_put_setting [same_rule]: "same obs c d \<Longrightarrow> same obs c (put_setting path v d)"
  unfolding put_setting_def by (assumption | rule same_bound | rule same_rule | simp)+

lemma same_cmd_tuning_apply [same_rule]: "same obs c d \<Longrightarrow> same obs c (cmd_tuning_apply d)"
  unfolding cmd_tuning_apply_def by (assumption | rule same_bound | rule same_rule | simp)+

end

text \<open>A bystander that does not look at the fan, the igniter or the power either.\<close>

locale fan_bystander = bystander obs
  for obs :: "('i, 's, 'w, 'z) control_scheme \<Rightarrow> 'o" +
  assumes fans: "pf_outputs_get AUGER x = pf_outputs_get AUGER (c_out c) \<Longrightarrow> wiring x = wiring (c_out c) \<Longrightarrow>
    obs (c\<lparr>c_out := x\<rparr>) = obs c"
begin

lemma same_fans:
  "same obs c d \<Longrightarrow> pf_outputs_get AUGER x = pf_outputs_get AUGER (c_out d) \<Longrightarrow> wiring x = wiring (c_out d) \<Longrightarrow>
     same obs c (d\<lparr>c_out := x\<rparr>)"
  by (simp add: same_def fans)

lemma same_switches [same_rule]:
  assumes "same obs c d"
  shows "same obs c (set_out FAN on d)" "same obs c (set_out IGNITER on d)" "same obs c (set_out POWER on d)"
    "same obs c (out_fan_pct n d)" "same obs c (set_pwm_hz d)"
  using assms
  by (simp_all add: set_out_def out_fan_pct_def set_pwm_hz_def same_fans pf_outputs_get_def outputs_fan_frame outputs_pwm_state)

lemma same_fan_on [same_rule]: "same obs c d \<Longrightarrow> same obs c (fan_on pct d)"
  unfolding fan_on_def by (assumption | rule same_bound | rule same_rule | simp)+

lemma same_fan_profile [same_rule]: "same obs c d \<Longrightarrow> same obs c (fan_profile now d)"
  unfolding fan_profile_def by (assumption | rule same_bound | rule same_rule | simp)+

lemma same_fan_toggle [same_rule]: "same obs c d \<Longrightarrow> same obs c (fan_toggle on now d)"
  unfolding fan_toggle_def by (assumption | rule same_bound | rule same_rule | simp)+

lemma same_fan_by_pid [same_rule]: "same obs c d \<Longrightarrow> same obs c (fan_by_pid now d)"
  unfolding fan_by_pid_def by (assumption | rule same_bound | rule same_rule | simp)+

lemma same_splus_start [same_rule]: "same obs c d \<Longrightarrow> same obs c (splus_start now d)"
  unfolding splus_start_def by (assumption | rule same_bound | rule same_rule | simp)+

lemma same_splus_ramping [same_rule]: "same obs c d \<Longrightarrow> same obs c (splus_ramping now d)"
  unfolding splus_ramping_def by (assumption | rule same_bound | rule same_rule | simp)+

lemma same_fan_splus [same_rule]: "same obs c d \<Longrightarrow> same obs c (fan_splus now d)"
  unfolding fan_splus_def by (assumption | rule same_bound | rule same_rule | simp)+

lemma same_fan_default [same_rule]: "same obs c d \<Longrightarrow> same obs c (fan_default d)"
  unfolding fan_default_def by (assumption | rule same_bound | rule same_rule | simp)+

lemma same_run_fan_logic [same_rule]: "same obs c d \<Longrightarrow> same obs c (run_fan_logic now d)"
  unfolding run_fan_logic_def by (assumption | rule same_bound | rule same_rule | simp)+

lemma same_lid_over [same_rule]: "same obs c d \<Longrightarrow> same obs c (lid_over now d)"
  unfolding lid_over_def by (assumption | rule same_bound | rule same_rule | simp)+

lemma same_cmd_duty [same_rule]: "same obs c d \<Longrightarrow> same obs c (cmd_duty cmd d)"
  unfolding cmd_duty_def by (assumption | rule same_bound | rule same_rule | simp)+

end

text \<open>One that does not look at the outputs or the books of a cook: of a change of mode it sees the beginning only.\<close>

locale entry_bystander = fan_bystander obs
  for obs :: "('i, 's, 'w, 'z) control_scheme \<Rightarrow> 'o" +
  assumes books:
    "wiring x = wiring (c_out c) \<Longrightarrow> obs (c\<lparr>c_out := x\<rparr>) = obs c"
    "obs (c\<lparr>k_manual_until := v1\<rparr>) = obs c" "obs (c\<lparr>k_next_mode := v2\<rparr>) = obs c"
    "obs (c\<lparr>k_recoveries := v3\<rparr>) = obs c" "obs (c\<lparr>k_auger_rest_until := v4\<rparr>) = obs c"
    "obs (c\<lparr>k_auger_total_on_s := v5\<rparr>) = obs c"
    "obs (c\<lparr>k_cook_start_wall := v6\<rparr>) = obs c"
    "obs (c\<lparr>k_prime_duration_s := v7\<rparr>) = obs c"
    "obs (c\<lparr>k_prime_amount_g := v8\<rparr>) = obs c"
    "obs (c\<lparr>k_power_off_requested := v9\<rparr>) = obs c" "obs (c\<lparr>k_ccfg := v10\<rparr>) = obs c"
    "obs (c\<lparr>k_restart_reason := v11\<rparr>) = obs c" "obs (c\<lparr>k_restart_wall := v12\<rparr>) = obs c"
    "obs (c\<lparr>k_restart_resumed := v13\<rparr>) = obs c"
begin

lemma same_books [same_rule]:
  assumes "same obs c d"
  shows
    "same obs c (d\<lparr>k_manual_until := v1\<rparr>)" "same obs c (d\<lparr>k_next_mode := v2\<rparr>)"
    "same obs c (d\<lparr>k_recoveries := v3\<rparr>)" "same obs c (d\<lparr>k_auger_rest_until := v4\<rparr>)"
    "same obs c (d\<lparr>k_auger_total_on_s := v5\<rparr>)"
    "same obs c (d\<lparr>k_cook_start_wall := v6\<rparr>)"
    "same obs c (d\<lparr>k_prime_duration_s := v7\<rparr>)" "same obs c (d\<lparr>k_prime_amount_g := v8\<rparr>)"
    "same obs c (d\<lparr>k_power_off_requested := v9\<rparr>)" "same obs c (d\<lparr>k_ccfg := v10\<rparr>)"
    "same obs c (d\<lparr>k_restart_reason := v11\<rparr>)" "same obs c (d\<lparr>k_restart_wall := v12\<rparr>)"
    "same obs c (d\<lparr>k_restart_resumed := v13\<rparr>)"
  using assms by (simp_all add: same_def books)

lemma same_outs [same_rule]:
  assumes "same obs c d" shows "same obs c (set_out p on d)" "same obs c (out_all_off d)"
  using assms by (simp_all add: set_out_def out_all_off_def same_def books)

lemma same_expire_manual [same_rule]: "same obs c d \<Longrightarrow> same obs c (expire_manual now d)"
  unfolding expire_manual_def by (assumption | rule same_bound | rule same_rule | simp)+

lemma same_cycle_cfg_for [same_rule]: "same obs c d \<Longrightarrow> same obs c (cycle_cfg_for d)"
  unfolding cycle_cfg_for_def by (assumption | rule same_bound | rule same_rule | simp)+

lemma same_enter_stop [same_rule]: "same obs c d \<Longrightarrow> same obs c (enter_stop d)"
  unfolding enter_stop_def by (assumption | rule same_bound | rule same_rule | simp)+

lemma same_enter_prime [same_rule]: "same obs c d \<Longrightarrow> same obs c (enter_prime now d)"
  unfolding enter_prime_def by (assumption | rule same_bound | rule same_rule | simp)+

lemma same_begin_cook [same_rule]: "same obs c d \<Longrightarrow> same obs c (begin_cook prev d)"
  unfolding begin_cook_def by (assumption | rule same_bound | rule same_rule | simp)+

lemma same_enter_lighting [same_rule]: "same obs c d \<Longrightarrow> same obs c (enter_lighting now d)"
  unfolding enter_lighting_def by (assumption | rule same_bound | rule same_rule | simp)+

lemma same_enter_smoke [same_rule]: "same obs c d \<Longrightarrow> same obs c (enter_smoke prev now d)"
  unfolding enter_smoke_def by (assumption | rule same_bound | rule same_rule | simp)+

lemma same_enter_hold [same_rule]: "same obs c d \<Longrightarrow> same obs c (enter_hold prev now d)"
  unfolding enter_hold_def by (assumption | rule same_bound | rule same_rule | simp)+

lemma same_enter_error [same_rule]: "same obs c d \<Longrightarrow> same obs c (enter_error now d)"
  unfolding enter_error_def by (assumption | rule same_bound | rule same_rule | simp)+

lemma same_cmd_lid [same_rule]: "same obs c d \<Longrightarrow> same obs c (cmd_lid now d)"
  unfolding cmd_lid_def by (assumption | rule same_bound | rule same_rule | simp)+

lemma same_lid_pause [same_rule]: "same obs c d \<Longrightarrow> same obs c (lid_pause now d)"
  unfolding lid_pause_def by (assumption | rule same_bound | rule same_rule | simp)+

lemma same_watch_lid [same_rule]: "same obs c d \<Longrightarrow> same obs c (watch_lid now d)"
  unfolding watch_lid_def by (assumption | rule same_bound | rule same_rule | simp)+

lemma same_auger_stop_counted [same_rule]: "same obs c d \<Longrightarrow> same obs c (auger_stop_counted now d)"
  unfolding auger_stop_counted_def by (assumption | rule same_bound | rule same_rule | simp)+

lemma same_auger_rest [same_rule]: "same obs c d \<Longrightarrow> same obs c (auger_rest now d)"
  unfolding auger_rest_def by (assumption | rule same_bound | rule same_rule | simp)+

lemma same_auger_cap [same_rule]: "same obs c d \<Longrightarrow> same obs c (auger_cap now d)"
  unfolding auger_cap_def by (assumption | rule same_bound | rule same_rule | simp)+

lemma same_stop_error_fan [same_rule]: "same obs c d \<Longrightarrow> same obs c (stop_error_fan d)"
  unfolding stop_error_fan_def by (assumption | rule same_bound | rule same_rule | simp)+

lemma same_tend_error [same_rule]: "same obs c d \<Longrightarrow> same obs c (tend_error now d)"
  unfolding tend_error_def by (assumption | rule same_bound | rule same_rule | simp)+

lemma same_arrive [same_rule]: "same obs c d \<Longrightarrow> same obs c (arrive prev m now d)"
  unfolding arrive_def by (cases m; simp) (assumption | rule same_bound | rule same_rule)+

end

text \<open>One that does not look at the configuration or the clock of a mode either.\<close>

locale work_bystander = entry_bystander obs
  for obs :: "('i, 's, 'w, 'z) control_scheme \<Rightarrow> 'o" +
  assumes clocks:
    "obs (c\<lparr>c_cfg := v0\<rparr>) = obs c" "obs (c\<lparr>k_mode_start := v1\<rparr>) = obs c"
    "obs (c\<lparr>k_auger_on_since := v2\<rparr>) = obs c"
begin

lemma same_clocks [same_rule]:
  assumes "same obs c d"
  shows
    "same obs c (d\<lparr>c_cfg := v0\<rparr>)" "same obs c (d\<lparr>k_mode_start := v1\<rparr>)"
    "same obs c (d\<lparr>k_auger_on_since := v2\<rparr>)"
  using assms by (simp_all add: same_def clocks)

lemma same_reload_cfg [same_rule]: "same obs c d \<Longrightarrow> same obs c (reload_cfg d)"
  unfolding reload_cfg_def by (assumption | rule same_bound | rule same_rule | simp)+

lemma same_pf_control_reload_settings [same_rule]: "same obs c d \<Longrightarrow> same obs c (pf_control_reload_settings d)"
  unfolding pf_control_reload_settings_def by (assumption | rule same_bound | rule same_rule | simp)+

lemma same_auger_follow [same_rule]: "same obs c d \<Longrightarrow> same obs c (auger_follow now d)"
  unfolding auger_follow_def by (assumption | rule same_bound | rule same_rule | simp)+

lemma same_feed_step [same_rule]: "same obs c d \<Longrightarrow> same obs c (feed_step now d)"
  unfolding feed_step_def by (assumption | rule same_bound | rule same_rule | simp)+

lemma same_manual [same_rule]: "same obs c d \<Longrightarrow> same obs c (fold (manual_one cmd till now) os d)"
  by (rule same_fold) (unfold manual_one_def, (assumption | rule same_bound | rule same_rule)+)

lemma same_cmd_manual [same_rule]: "same obs c d \<Longrightarrow> same obs c (cmd_manual cmd now d)"
  unfolding cmd_manual_def by (assumption | rule same_bound | rule same_rule)+

text \<open>Entering a mode changes nothing more for it than the mode.\<close>

lemma same_prologue: "same obs (start_mode m now c) (mode_prologue m now c)"
  unfolding mode_prologue_def
  by (rule same_bound(1) [OF same_refl]) (assumption | rule same_bound | rule same_rule)+

lemma same_start_enter: "same obs (start_mode m now c) (enter_mode m now c)"
  unfolding enter_mode_def by (rule same_rule)+ (rule same_prologue)

lemma same_run_outputs [same_rule]: "same obs c d \<Longrightarrow> same obs c (run_outputs now d)"
  unfolding run_outputs_def by (assumption | rule same_bound | rule same_rule)+

end

text \<open>One that does not look at the mode either.\<close>

locale mode_bystander = work_bystander obs
  for obs :: "('i, 's, 'w, 'z) control_scheme \<Rightarrow> 'o" +
  assumes modes: "obs (c\<lparr>c_mode := m\<rparr>) = obs c"
begin

lemma same_mode [same_rule]: "same obs c d \<Longrightarrow> same obs c (d\<lparr>c_mode := m\<rparr>)"
  by (simp add: same_def modes)

lemma same_start_mode [same_rule]: "same obs c d \<Longrightarrow> same obs c (start_mode m now d)"
  unfolding start_mode_def by (assumption | rule same_bound | rule same_rule | simp)+

lemma same_enter_mode [same_rule]: "same obs c d \<Longrightarrow> same obs c (enter_mode m now d)"
  using same_start_enter [of m now d] same_start_mode [of c d m now] by (simp add: same_def)

lemma same_leave_startup [same_rule]: "same obs c d \<Longrightarrow> same obs c (leave_startup now d)"
  unfolding leave_startup_def by (assumption | rule same_bound | rule same_rule | simp)+

lemma same_end_shutdown [same_rule]: "same obs c d \<Longrightarrow> same obs c (end_shutdown now d)"
  unfolding end_shutdown_def by (assumption | rule same_bound | rule same_rule | simp)+

lemma same_end_prime [same_rule]: "same obs c d \<Longrightarrow> same obs c (end_prime now d)"
  unfolding end_prime_def by (assumption | rule same_bound | rule same_rule | simp)+

lemma same_shutdown_input [same_rule]: "same obs c d \<Longrightarrow> same obs c (shutdown_input now d)"
  unfolding shutdown_input_def by (assumption | rule same_bound | rule same_rule | simp)+

lemma same_force_startup_end [same_rule]: "same obs c d \<Longrightarrow> same obs c (force_startup_end cmd now d)"
  unfolding force_startup_end_def by (assumption | rule same_bound | rule same_rule | simp)+

lemma same_cmd_prime [same_rule]: "same obs c d \<Longrightarrow> same obs c (cmd_prime cmd now d)"
  unfolding cmd_prime_def by (assumption | rule same_bound | rule same_rule | simp)+

lemma same_timed_change [same_rule]: "same obs c d \<Longrightarrow> same obs c (timed_change now d)"
  unfolding timed_change_def by (rule same_mode_case) (assumption | rule same_rule)+

lemma same_run_mode [same_rule]: "same obs c d \<Longrightarrow> same obs c (run_mode now d)"
  unfolding run_mode_split by (rule same_rule)+

lemma same_world_sees: "same_world c d \<Longrightarrow> same obs c d"
  unfolding same_def
  by (rule base_irrelevant) (simp_all add: same_world_def quiet books clocks modes)

lemma same_supervise [same_rule]: "same obs c d \<Longrightarrow> same obs c (supervise now d)"
  unfolding supervise_def
  by (rule same_bound(3)) (simp add: same_def same_world_sees [OF pf_safety_tick_world, unfolded same_def],
    (assumption | rule same_bound | rule same_rule)+)

end

text \<open>One that does not look at the recipe, and one that looks at neither mode nor recipe.\<close>

locale recipe_bystander = work_bystander obs
  for obs :: "('i, 's, 'w, 'z) control_scheme \<Rightarrow> 'o" +
  assumes recipes: "obs (c\<lparr>k_recipe := r\<rparr>) = obs c"
begin

lemma same_upd_recipe [same_rule]: "same obs c d \<Longrightarrow> same obs c (upd_recipe f d)"
  by (simp add: same_def upd_recipe_def recipes)

lemma same_end_recipe [same_rule]: "same obs c d \<Longrightarrow> same obs c (end_recipe d)"
  unfolding end_recipe_def by (assumption | rule same_bound | rule same_rule | simp)+

lemma same_say_step [same_rule]: "same obs c d \<Longrightarrow> same obs c (say_step d)"
  unfolding say_step_def by (assumption | rule same_bound | rule same_rule | simp)+

lemma same_recipe_complete [same_rule]: "same obs c d \<Longrightarrow> same obs c (recipe_complete d)"
  unfolding recipe_complete_def by (assumption | rule same_bound | rule same_rule | simp)+

lemma same_recipe_hold_here [same_rule]: "same obs c d \<Longrightarrow> same obs c (recipe_hold_here s d)"
  unfolding recipe_hold_here_def by (assumption | rule same_bound | rule same_rule | simp)+

lemma same_latch_lid [same_rule]: "same obs c d \<Longrightarrow> same obs c (latch_lid d)"
  unfolding latch_lid_def by (assumption | rule same_bound | rule same_rule | simp)+

lemma same_start_clock [same_rule]: "same obs c d \<Longrightarrow> same obs c (start_clock now d)"
  unfolding start_clock_def by (assumption | rule same_bound | rule same_rule | simp)+

lemma same_say_ready [same_rule]: "same obs c d \<Longrightarrow> same obs c (say_ready d)"
  unfolding say_ready_def by (assumption | rule same_bound | rule same_rule | simp)+

lemma same_say_soon [same_rule]: "same obs c d \<Longrightarrow> same obs c (say_soon d)"
  unfolding say_soon_def by (assumption | rule same_bound | rule same_rule | simp)+

lemma same_step_report [same_rule]: "same obs c d \<Longrightarrow> same obs c (step_report now wait d)"
  unfolding step_report_def by (assumption | rule same_bound | rule same_rule | simp)+

lemma same_recipe_aftercare [same_rule]: "same obs c d \<Longrightarrow> same obs c (recipe_aftercare d)"
  unfolding recipe_aftercare_def by (assumption | rule same_bound | rule same_rule | simp)+

lemma same_cmd_recipe_next [same_rule]: "same obs c d \<Longrightarrow> same obs c (cmd_recipe_next d)"
  unfolding cmd_recipe_next_def by (assumption | rule same_bound | rule same_rule | simp)+

lemma same_cmd_recipe_flag [same_rule]: "same obs c d \<Longrightarrow> same obs c (cmd_recipe_flag cmd d)"
  unfolding cmd_recipe_flag_def by (assumption | rule same_bound | rule same_rule | simp)+

lemma same_set_step [same_rule]: "same obs c d \<Longrightarrow> same obs c (set_step now d)"
  unfolding set_step_def by (assumption | rule same_bound | rule same_rule | simp)+

lemma same_ask_ending [same_rule]: "same obs c d \<Longrightarrow> same obs c (snd (ask_ending now d))"
  by (simp add: ask_ending_def same_def upd_recipe_def recipes split: prod.splits)

lemma same_go_on_alone [same_rule]: "same obs c d \<Longrightarrow> same obs c (snd (go_on_alone now ready done d))"
  by (simp add: go_on_alone_def ask_ending_def same_def upd_recipe_def recipes split: prod.splits)

end

locale step_bystander = mode_bystander obs + recipe_bystander obs
  for obs :: "('i, 's, 'w, 'z) control_scheme \<Rightarrow> 'o"
begin

lemma same_apply_step [same_rule]:
  assumes "same obs c d" shows "same obs c (apply_step now d)"
proof -
  have s: "same obs c (set_step now d)" using assms by (rule same_rule)
  show ?thesis
    unfolding apply_step_def startup_step_def burning_step_def Let_def by (rule same_mode_case) (rule s same_rule)+
qed

lemma same_recipe_steps:
  "same obs c (recipe_begin_step now c)" "same obs c (recipe_advance now c)"
proof (induction now c and now c rule: recipe_begin_step_recipe_advance.induct)
  case (1 now c)
  have "same obs c (apply_step now c)" by (rule same_rule)+
  with 1 show ?case by (subst recipe_begin_step.simps) (simp add: same_def upd_recipe_def recipes)
next
  case (2 now c)
  have "same obs c (recipe_complete (upd_recipe f (say_step c)))" "same obs c (upd_recipe f (say_step c))" for f
    by (rule same_rule)+
  with 2 show ?case by (subst recipe_advance.simps) (simp add: Let_def same_def)
qed

lemma same_recipe_moves [same_rule]:
  assumes "same obs c d" shows "same obs c (recipe_begin_step now d)" "same obs c (recipe_advance now d)"
  using assms same_recipe_steps [of d now] by (simp_all add: same_def)

lemma same_recipe_finish_now [same_rule]: "same obs c d \<Longrightarrow> same obs c (recipe_finish_now now d)"
  unfolding recipe_finish_now_def by (assumption | rule same_bound | rule same_rule | simp)+

lemma same_hold_or_advance [same_rule]: "same obs c d \<Longrightarrow> same obs c (hold_or_advance now d)"
  unfolding hold_or_advance_def by (assumption | rule same_bound | rule same_rule | simp)+

lemma same_end_of_cook [same_rule]: "same obs c d \<Longrightarrow> same obs c (end_of_cook now act d)"
  unfolding end_of_cook_def by (assumption | rule same_bound | rule same_rule | simp)+

lemma same_run_notify [same_rule]: "same obs c d \<Longrightarrow> same obs c (run_notify now d)"
  unfolding run_notify_def by (assumption | rule same_bound | rule same_rule | simp)+

lemma same_cmd_recipe_start [same_rule]: "same obs c d \<Longrightarrow> same obs c (cmd_recipe_start cmd now d)"
  unfolding cmd_recipe_start_def by (assumption | rule same_bound | rule same_rule | simp)+

lemma same_cmd_recipe_back [same_rule]: "same obs c d \<Longrightarrow> same obs c (cmd_recipe_back now d)"
  unfolding cmd_recipe_back_def by (assumption | rule same_bound | rule same_rule | simp)+

lemma same_run_ending [same_rule]: "same obs c d \<Longrightarrow> same obs c (run_ending now d)"
  unfolding run_ending_def by (assumption | rule same_bound same_snd | rule same_rule)+

lemma same_run_recipe [same_rule]: "same obs c d \<Longrightarrow> same obs c (run_recipe now d)"
  unfolding run_recipe_def by (assumption | rule same_bound | rule same_rule)+

end

text \<open>One that does not look at the request either.\<close>

locale asking_bystander = work_bystander obs
  for obs :: "('i, 's, 'w, 'z) control_scheme \<Rightarrow> 'o" +
  assumes asks: "obs (c\<lparr>k_req_pending := b\<rparr>) = obs c" "obs (c\<lparr>k_req_mode := m\<rparr>) = obs c" "obs (c\<lparr>k_req_setpoint_c := sp\<rparr>) = obs c"
begin

lemma same_asks [same_rule]:
  assumes "same obs c d"
  shows "same obs c (d\<lparr>k_req_pending := b\<rparr>)" "same obs c (d\<lparr>k_req_mode := m\<rparr>)" "same obs c (d\<lparr>k_req_setpoint_c := sp\<rparr>)"
  using assms by (simp_all add: same_def asks)

lemma same_pf_control_request [same_rule]: "same obs c d \<Longrightarrow> same obs c (pf_control_request m sp d)"
  unfolding pf_control_request_def by (assumption | rule same_rule)+

lemma same_cmd_setpoint [same_rule]: "same obs c d \<Longrightarrow> same obs c (cmd_setpoint cmd now d)"
  unfolding cmd_setpoint_def by (assumption | rule same_bound | rule same_rule)+

end

text \<open>One that looks at nothing an order changes: it sees no command and no request handled.\<close>

locale order_bystander = step_bystander obs + asking_bystander obs
  for obs :: "('i, 's, 'w, 'z) control_scheme \<Rightarrow> 'o"
begin

lemma same_cmd_mode_change [same_rule]: "same obs c d \<Longrightarrow> same obs c (cmd_mode_change cmd now d)"
  unfolding cmd_mode_change_def by (assumption | rule same_bound | rule same_rule)+

lemma same_handle_cmd [same_rule]: "same obs c d \<Longrightarrow> same obs c (handle_cmd now cmd d)"
  unfolding handle_cmd_def
  by (cases "cmd_type cmd"; simp only: pf_cmd_type.case) (assumption | rule same_bound | rule same_rule | simp)+

lemma same_accept_stop [same_rule]: "same obs c d \<Longrightarrow> same obs c (accept_stop d)"
  unfolding accept_stop_def by (assumption | rule same_bound | rule same_rule)+

lemma same_go_to [same_rule]: "same obs c d \<Longrightarrow> same obs c (go_to m now d)"
  unfolding go_to_def by (assumption | rule same_bound | rule same_rule)+

lemma same_startup_target [same_rule]: "same obs c d \<Longrightarrow> same obs c (startup_target d)"
  unfolding startup_target_def by (assumption | rule same_bound | rule same_rule)+

lemma same_go_to_startup [same_rule]: "same obs c d \<Longrightarrow> same obs c (go_to_startup now d)"
  unfolding go_to_startup_def by (assumption | rule same_bound | rule same_rule)+

lemma same_apply_request [same_rule]: "same obs c d \<Longrightarrow> same obs c (apply_request now d)"
  unfolding apply_request_def by (assumption | rule same_bound | rule same_rule)+

end

section \<open>What is observed\<close>

definition queue :: "('i, 's, 'w, 'z) control_scheme \<Rightarrow> pf_cmd ring" where "queue c = o_cmdq (k_mod c)"

definition asked :: "('i, 's, 'w, 'z) control_scheme \<Rightarrow> bool \<times> pf_mode" where "asked c = (k_req_pending c, k_req_mode c)"

definition auger :: "('i, 's, 'w, 'z) control_scheme \<Rightarrow> bool \<times> fl \<times> fl \<times> pf_cfg" where
  "auger c = (pf_outputs_get AUGER (c_out c), k_auger_on_since c, k_auger_rest_until c, c_cfg c)"

definition since :: "('i, 's, 'w, 'z) control_scheme \<Rightarrow> fl \<times> fl" where "since c = (k_auger_on_since c, k_mode_start c)"

definition override :: "('i, 's, 'w, 'z) control_scheme \<Rightarrow> fl" where "override c = k_manual_until c AUGER"

definition wires :: "('i, 's, 'w, 'z) control_scheme \<Rightarrow> 'i platform_ops option \<times> bool \<times> bool" where "wires c = wiring (c_out c)"

interpretation out: bystander c_out
  by unfold_locales simp_all

interpretation aug: fan_bystander auger
  by unfold_locales (simp_all add: auger_def)

interpretation ov: fan_bystander override
  by unfold_locales (simp_all add: override_def)

interpretation cf: entry_bystander c_cfg
  by unfold_locales simp_all

interpretation si: entry_bystander since
  by unfold_locales (simp_all add: since_def)

interpretation md: recipe_bystander c_mode
  by unfold_locales simp_all

interpretation md: asking_bystander c_mode
  by unfold_locales simp_all

interpretation rec: mode_bystander k_recipe
  by unfold_locales simp_all

interpretation rec: asking_bystander k_recipe
  by unfold_locales simp_all

interpretation qu: order_bystander queue
  by unfold_locales (simp_all add: queue_def)

interpretation wi: order_bystander wires
  by unfold_locales (simp_all add: wires_def)

interpretation ask: step_bystander asked
  by unfold_locales (simp_all add: asked_def)

end
