(* ===== verification/Control_Moves.thy ===== *)
theory Control_Moves
  imports Control_Frames
begin

text \<open>
  The mode machine of the control thread.  What may be ordered and what the grill may do of itself are two
  small relations on modes; every handler of \<open>control.c\<close> makes at most one of these moves, and a whole step is
  the path of the moves of its handlers.
\<close>

section \<open>The moves\<close>

text \<open>What a command, a request or a recipe may bring about.\<close>

inductive order_edge :: "pf_mode \<Rightarrow> pf_mode \<Rightarrow> bool" where
  order_stop: "order_edge m STOP"
| order_light: "m \<noteq> ERROR \<Longrightarrow> order_edge m STARTUP"
| order_burn: "pf_mode_is_firing m \<Longrightarrow> b = SMOKE \<or> b = HOLD \<Longrightarrow> order_edge m b"
| order_cool: "m \<noteq> ERROR \<Longrightarrow> order_edge m SHUTDOWN"
| order_watch: "m \<noteq> ERROR \<Longrightarrow> order_edge m MONITOR"
| order_hands: "m = STOP \<or> m = MONITOR \<Longrightarrow> b = PRIME \<or> b = MANUAL \<Longrightarrow> order_edge m b"

text \<open>The grill's own moves: a relight and a fault.\<close>

inductive mode_edge :: "pf_mode \<Rightarrow> pf_mode \<Rightarrow> bool" where
  ordered: "order_edge m b \<Longrightarrow> mode_edge m b"
| relight: "m = SMOKE \<or> m = HOLD \<Longrightarrow> mode_edge m REIGNITE"
| fault: "m \<noteq> STOP \<Longrightarrow> m \<noteq> ERROR \<Longrightarrow> mode_edge m ERROR"

code_pred order_edge .
code_pred mode_edge .

inductive_cases order_from_error: "order_edge ERROR b"
inductive_cases order_to_error: "order_edge m ERROR"

definition ordered_move :: "pf_mode \<Rightarrow> pf_mode \<Rightarrow> bool" where
  "ordered_move m b \<longleftrightarrow> b = m \<or> order_edge m b"

definition legal_move :: "pf_mode \<Rightarrow> pf_mode \<Rightarrow> bool" where
  "legal_move m b \<longleftrightarrow> b = m \<or> mode_edge m b"

lemma ordered_refl [simp]: "ordered_move m m" by (simp add: ordered_move_def)

lemma ordered_legal: "ordered_move m b \<Longrightarrow> legal_move m b"
  by (auto simp: ordered_move_def legal_move_def intro: mode_edge.intros)

lemma ordered_edges:
  "ordered_move m STOP" "m \<noteq> ERROR \<Longrightarrow> ordered_move m STARTUP" "m \<noteq> ERROR \<Longrightarrow> ordered_move m SHUTDOWN"
  "m \<noteq> ERROR \<Longrightarrow> ordered_move m MONITOR"
  "pf_mode_is_firing m \<Longrightarrow> ordered_move m SMOKE" "pf_mode_is_firing m \<Longrightarrow> ordered_move m HOLD"
  "m = STOP \<or> m = MONITOR \<Longrightarrow> ordered_move m PRIME" "m = STOP \<or> m = MONITOR \<Longrightarrow> ordered_move m MANUAL"
  by (auto simp: ordered_move_def intro: order_edge.intros)

text \<open>An order never makes an error, and in Error nothing but Stop is one.\<close>

lemma ordered_not_error: "ordered_move m ERROR \<Longrightarrow> m = ERROR"
  by (auto simp: ordered_move_def elim: order_to_error)

lemma ordered_from_error: "ordered_move ERROR b \<Longrightarrow> b = ERROR \<or> b = STOP"
  by (auto simp: ordered_move_def pf_mode_is_firing_def elim!: order_from_error)

section \<open>Entering a mode\<close>

lemma modeD: "same c_mode c d \<Longrightarrow> c_mode d = c_mode c" by (rule sameD)

lemma recipeD: "same k_recipe c d \<Longrightarrow> k_recipe d = k_recipe c" by (rule sameD)

lemma upd_mod_mode [simp]: "c_mode (upd_mod f c) = c_mode c" "k_recipe (upd_mod f c) = k_recipe c"
  by (simp_all add: upd_mod_def)

lemma enter_mode_simps [simp]:
  "c_mode (enter_mode m now c) = m" "k_recipe (enter_mode m now c) = k_recipe c"
  using md.same_start_enter [of m now c] rec.same_enter_mode [OF same_refl, of c m now]
  by (simp_all add: same_def start_mode_def)

lemma upd_recipe_simps [simp]:
  "c_mode (upd_recipe f c) = c_mode c" "k_recipe (upd_recipe f c) = f (k_recipe c)"
  "c_cfg (upd_recipe f c) = c_cfg c"
  by (simp_all add: upd_recipe_def)


section \<open>The recipe runner\<close>

lemma recipe_mode_simps [simp]:
  "c_mode (say_step c) = c_mode c" "c_mode (recipe_complete c) = c_mode c" "c_mode (recipe_hold_here s c) = c_mode c"
  "c_mode (end_recipe c) = c_mode c" "c_mode (recipe_aftercare c) = c_mode c" "c_mode (latch_lid c) = c_mode c"
  "c_mode (start_clock now c) = c_mode c" "c_mode (step_report now w c) = c_mode c"
  "c_mode (snd (ask_ending now c)) = c_mode c" "c_mode (snd (go_on_alone now a b c)) = c_mode c"
  by (rule modeD, (rule same_rule)+)+

lemma startup_step_move: "c_mode c \<noteq> ERROR \<Longrightarrow> ordered_move (c_mode c) (c_mode (startup_step now c))"
  by (simp add: startup_step_def Let_def ordered_edges)

lemma burning_step_move:
  assumes "c_mode c \<noteq> ERROR" "m = SMOKE \<or> m = HOLD"
  shows "ordered_move (c_mode c) (c_mode (burning_step m now c))"
proof -
  have "pf_mode_is_firing (c_mode c)" if "\<not> cold_mode (c_mode c)"
    using assms(1) that by (cases "c_mode c") (auto simp: cold_mode_def pf_mode_is_firing_def)
  then show ?thesis using assms by (auto simp: burning_step_def ordered_edges)
qed

lemma apply_step_move:
  assumes "c_mode c \<noteq> ERROR" shows "ordered_move (c_mode c) (c_mode (apply_step now c))"
proof -
  have m: "c_mode (set_step now c) = c_mode c" by (simp add: set_step_def Let_def)
  show ?thesis
    using assms startup_step_move [of "set_step now c" now] burning_step_move [of "set_step now c" SMOKE now]
      burning_step_move [of "set_step now c" HOLD now]
    by (simp add: apply_step_def Let_def m ordered_edges split: pf_mode.split)
qed

lemma recipe_moves:
  "c_mode c \<noteq> ERROR \<Longrightarrow> ordered_move (c_mode c) (c_mode (recipe_begin_step now c))"
  "c_mode c \<noteq> ERROR \<Longrightarrow> ordered_move (c_mode c) (c_mode (recipe_advance now c))"
proof (induction now c and now c rule: recipe_begin_step_recipe_advance.induct)
  case (1 now c)
  then show ?case
    by (subst recipe_begin_step.simps) (simp add: apply_step_move)
next
  case (2 now c)
  then show ?case
    by (subst recipe_advance.simps) (simp add: Let_def)
qed

lemma recipe_finish_move: "c_mode c \<noteq> ERROR \<Longrightarrow> ordered_move (c_mode c) (c_mode (recipe_finish_now now c))"
  by (simp add: recipe_finish_now_def ordered_edges end_recipe_def recipe_moves(1) [of "upd_recipe f c" for f, simplified] split: option.split)

lemma hold_or_advance_move: "c_mode c \<noteq> ERROR \<Longrightarrow> ordered_move (c_mode c) (c_mode (hold_or_advance now c))"
  by (simp add: hold_or_advance_def recipe_moves)

lemma move_pair:
  "c_mode (snd x) = m \<Longrightarrow> (\<And>done d. c_mode d = m \<Longrightarrow> ordered_move m (c_mode (f done d))) \<Longrightarrow>
     ordered_move m (c_mode (case x of (done, c) \<Rightarrow> f done c))"
  by (cases x) simp

lemma move_if:
  "ordered_move m (c_mode x) \<Longrightarrow> ordered_move m (c_mode y) \<Longrightarrow> ordered_move m (c_mode (if b then x else y))"
  by simp

lemma recipe_advance_move: "c_mode d = m \<Longrightarrow> m \<noteq> ERROR \<Longrightarrow> ordered_move m (c_mode (recipe_advance now d))"
  using recipe_moves(2) by blast

lemma run_ending_move:
  fixes c :: "('i, 's, 'w, 'z) control_scheme"
  assumes "c_mode c \<noteq> ERROR" shows "ordered_move (c_mode c) (c_mode (run_ending now c))"
proof -
  define c1 where "c1 = start_clock now (upd_recipe (\<lambda>r. r\<lparr>rr_last_eval := now\<rparr>) c)"
  have c1: "c_mode c1 = c_mode c" by (simp add: c1_def)
  show ?thesis
    unfolding run_ending_def c1_def [symmetric] Let_def
  proof (intro move_pair)
    fix q and d :: "('i, 's, 'w, 'z) control_scheme"
    assume d: "c_mode d = c_mode c"
    then show "ordered_move (c_mode c) (c_mode (if q \<and> cur_flag d = 1 then recipe_hold_here (cur_step d) d
        else case go_on_alone now (if \<not> q \<and> rr_wants_prompt (k_recipe d) then all_but_cook now d else q) q d of
               (again, e) \<Rightarrow> if again
                  then recipe_advance now (step_report now ((if \<not> q \<and> rr_wants_prompt (k_recipe d) then all_but_cook now d else q) \<and> \<not> again) e)
                  else step_report now ((if \<not> q \<and> rr_wants_prompt (k_recipe d) then all_but_cook now d else q) \<and> \<not> again) e))"
      using assms by (intro move_if move_pair) (simp_all add: recipe_advance_move)
  qed (simp add: c1)
qed

lemma run_recipe_move: "ordered_move (c_mode c) (c_mode (run_recipe now c))"
proof -
  have "c_mode c \<noteq> ERROR \<Longrightarrow> ordered_move (c_mode c) (c_mode (hold_or_advance now (latch_lid c)))"
    "c_mode c \<noteq> ERROR \<Longrightarrow> ordered_move (c_mode c) (c_mode (run_ending now (latch_lid c)))"
    using hold_or_advance_move [of "latch_lid c" now] run_ending_move [of "latch_lid c" now] by simp_all
  then show ?thesis
    by (cases "c_mode c = ERROR") (simp add: run_recipe_def, simp only: run_recipe_def Let_def if_False, intro move_if, simp_all)
qed

lemma end_of_cook_move: "ordered_move (c_mode c) (c_mode (end_of_cook now act c))"
  using recipe_finish_move [of c now]
  by (auto simp: end_of_cook_def Let_def ordered_edges pf_mode_is_firing_def)

lemma run_notify_move:
  fixes c :: "('i, 's, 'w, 'z) control_scheme"
  shows "ordered_move (c_mode c) (c_mode (run_notify now c))"
proof -
  have "c_mode (mirror_targets d) = c_mode d" for d :: "('i, 's, 'w, 'z) control_scheme"
    by (rule modeD) (rule same_rule)+
  moreover have m: "c_mode (put_services v (c\<lparr>k_notify := n\<rparr>)) = c_mode c" for v n
    by (rule modeD) (rule same_rule)+
  moreover have "ordered_move (c_mode c) (c_mode (end_of_cook now act (put_services v (c\<lparr>k_notify := n\<rparr>))))" for act v n
    using end_of_cook_move [of "put_services v (c\<lparr>k_notify := n\<rparr>)" now act] by (simp only: m)
  ultimately show ?thesis
    unfolding run_notify_def Let_def by (simp split: prod.splits)
qed

section \<open>Requests and commands\<close>

text \<open>The operations that leave mode and recipe alone, as rewrite rules.\<close>

lemma control_request_simps [simp]:
  "c_mode (pf_control_request m sp c) = c_mode c" "k_recipe (pf_control_request m sp c) = k_recipe c"
  by (simp_all add: pf_control_request_def)

lemma quiet_mode [simp]:
    "c_mode (learn_reset_window now c) = c_mode c" "c_mode (tell a b m c) = c_mode c"
    "c_mode (upd_alarms fa c) = c_mode c" "c_mode (set_out p on c) = c_mode c" "c_mode (clear_error c) = c_mode c"
    "c_mode (read_sensors c) = c_mode c" "c_mode (idle_overtemp c) = c_mode c"
    "c_mode (hold_setpoint c) = c_mode c" "c_mode (learn_rise_track now c) = c_mode c"
    "c_mode (publish now c) = c_mode c" "c_mode (checkpoint now c) = c_mode c"
    "c_mode (expire_manual now c) = c_mode c" "c_mode (run_fan_logic now c) = c_mode c"
    "c_mode (auger_cap now c) = c_mode c" "c_mode (auger_rest now c) = c_mode c"
    "c_mode (feed_step now c) = c_mode c" "c_mode (watch_lid now c) = c_mode c" "c_mode (catch_up c) = c_mode c"
    "c_mode (autotune_start now c) = c_mode c"
    "c_mode (autotune_finish ok why c) = c_mode c" "c_mode (pf_safety_on_startup_exit now c) = c_mode c"
    "c_mode (cmd_setpoint cmd now c) = c_mode c" "c_mode (cmd_duty cmd c) = c_mode c"
    "c_mode (cmd_lid now c) = c_mode c" "c_mode (cmd_notify_target cmd c) = c_mode c"
    "c_mode (cmd_notify_limits cmd c) = c_mode c" "c_mode (cmd_timer ft c) = c_mode c"
    "c_mode (cmd_tuning_apply c) = c_mode c" "c_mode (forget_learning what why c) = c_mode c"
    "c_mode (pf_control_reload_settings c) = c_mode c" "c_mode (reload_cfg c) = c_mode c"
    "c_mode (fst (controller_load ident c)) = c_mode c" "c_mode (tend_error now c) = c_mode c"
    "c_mode (put_services v c) = c_mode c" "c_mode (mirror_targets c) = c_mode c"
    "c_mode (out_fan_pct n c) = c_mode c" "c_mode (fan_on n c) = c_mode c"
  by (rule modeD, (rule same_rule)+)+

lemma quiet_recipe [simp]:
    "k_recipe (learn_reset_window now c) = k_recipe c" "k_recipe (upd_alarms fa c) = k_recipe c"
    "k_recipe (set_out p on c) = k_recipe c" "k_recipe (clear_error c) = k_recipe c"
    "k_recipe (read_sensors c) = k_recipe c" "k_recipe (idle_overtemp c) = k_recipe c"
    "k_recipe (hold_setpoint c) = k_recipe c" "k_recipe (learn_rise_track now c) = k_recipe c"
    "k_recipe (publish now c) = k_recipe c" "k_recipe (checkpoint now c) = k_recipe c"
    "k_recipe (expire_manual now c) = k_recipe c" "k_recipe (run_fan_logic now c) = k_recipe c"
    "k_recipe (auger_cap now c) = k_recipe c" "k_recipe (auger_rest now c) = k_recipe c"
    "k_recipe (feed_step now c) = k_recipe c" "k_recipe (watch_lid now c) = k_recipe c"
    "k_recipe (catch_up c) = k_recipe c" "k_recipe (pf_control_request m1 sp c) = k_recipe c"
    "k_recipe (autotune_start now c) = k_recipe c" "k_recipe (autotune_finish ok why c) = k_recipe c"
    "k_recipe (pf_safety_on_startup_exit now c) = k_recipe c" "k_recipe (cmd_setpoint cmd now c) = k_recipe c"
    "k_recipe (cmd_duty cmd c) = k_recipe c" "k_recipe (cmd_lid now c) = k_recipe c"
    "k_recipe (cmd_notify_target cmd c) = k_recipe c" "k_recipe (cmd_notify_limits cmd c) = k_recipe c"
    "k_recipe (cmd_timer ft c) = k_recipe c" "k_recipe (cmd_tuning_apply c) = k_recipe c"
    "k_recipe (forget_learning what why c) = k_recipe c" "k_recipe (pf_control_reload_settings c) = k_recipe c"
    "k_recipe (reload_cfg c) = k_recipe c" "k_recipe (fst (controller_load ident c)) = k_recipe c"
    "k_recipe (tend_error now c) = k_recipe c" "k_recipe (put_services v c) = k_recipe c"
    "k_recipe (mirror_targets c) = k_recipe c" "k_recipe (out_fan_pct n c) = k_recipe c"
    "k_recipe (fan_on n c) = k_recipe c"
  by (rule recipeD, (rule same_rule)+)+


lemma go_to_move:
  assumes "c_mode c = k" "\<not> refused k m" shows "ordered_move k (c_mode (go_to m now c))"
proof (cases m)
  case HOLD
  with assms show ?thesis
    by (cases "c_mode c") (auto simp: refused_def go_to_def cold_mode_def lighting_def ordered_edges pf_mode_is_firing_def Let_def)
next
  case SMOKE
  with assms show ?thesis
    by (cases "c_mode c") (auto simp: refused_def go_to_def cold_mode_def lighting_def ordered_edges pf_mode_is_firing_def Let_def)
qed (use assms in \<open>auto simp: refused_def go_to_def ordered_edges\<close>)

lemma go_to_startup_move:
  assumes "c_mode c = k" "k \<noteq> ERROR" shows "ordered_move k (c_mode (go_to_startup now c))"
proof -
  have m: "c_mode (startup_target c) = k" using assms by (simp add: startup_target_def Let_def)
  have "\<not> refused k STARTUP" using assms by (simp add: refused_def)
  from go_to_move [OF m this] show ?thesis by (auto simp: go_to_startup_def Let_def m ordered_edges)
qed

lemma accept_stop_mode [simp]: "c_mode (accept_stop c) = c_mode c"
  by (simp add: accept_stop_def Let_def)

lemma recipe_finish_move': "c_mode d = m \<Longrightarrow> m \<noteq> ERROR \<Longrightarrow> ordered_move m (c_mode (recipe_finish_now now d))"
  using recipe_finish_move by blast

lemma apply_request_move: "ordered_move (c_mode c) (c_mode (apply_request now c))"
proof (cases "k_req_pending c")
  case True
  have "\<not> refused (c_mode c) m \<Longrightarrow> m \<noteq> STOP \<Longrightarrow> c_mode c \<noteq> ERROR" for m by (auto simp: refused_def)
  with True show ?thesis
    by (auto simp: apply_request_def Let_def intro!: go_to_move go_to_startup_move recipe_finish_move')
qed (simp add: apply_request_def)

text \<open>A command in Error: nothing but Stop while no recipe is on.\<close>

definition sound :: "('i, 's, 'w, 'z) control_scheme \<Rightarrow> bool" where
  "sound c \<longleftrightarrow> \<not> (c_mode c = ERROR \<and> rr_active (k_recipe c))"

lemma manual_mode: "c_mode (fold (manual_one cmd till now) os c) = c_mode c"
  by (induction os arbitrary: c) (auto simp: manual_one_def Let_def)

lemma recipe_begin_move: "c_mode d = m \<Longrightarrow> m \<noteq> ERROR \<Longrightarrow> ordered_move m (c_mode (recipe_begin_step now d))"
  using recipe_moves(1) by blast

lemma handle_cmd_move:
  assumes "sound c" shows "ordered_move (c_mode c) (c_mode (handle_cmd now cmd c))"
proof (cases "cmd_type cmd")
  case CMD_MODE
  then show ?thesis
    by (auto simp: handle_cmd_def cmd_mode_change_def force_startup_end_def Let_def lighting_def pf_mode_is_firing_def ordered_edges)
next
  case CMD_PRIME
  then show ?thesis by (auto simp: handle_cmd_def cmd_prime_def Let_def ordered_edges)
next
  case CMD_MANUAL_OUTPUT
  then show ?thesis by (simp add: handle_cmd_def cmd_manual_def Let_def manual_mode)
next
  case CMD_RECIPE_START
  then show ?thesis
    by (auto simp: handle_cmd_def cmd_recipe_start_def Let_def intro!: recipe_begin_move split: prod.splits)
next
  case CMD_RECIPE_SKIP
  with assms show ?thesis by (auto simp: handle_cmd_def sound_def intro!: recipe_advance_move)
next
  case CMD_RECIPE_BACK
  with assms show ?thesis by (auto simp: handle_cmd_def cmd_recipe_back_def sound_def intro!: recipe_begin_move)
next
  case CMD_RECIPE_NEXT
  then show ?thesis by (simp add: handle_cmd_def cmd_recipe_next_def Let_def)
next
  case CMD_RECIPE_FLAG
  then show ?thesis by (simp add: handle_cmd_def cmd_recipe_flag_def Let_def)
qed (simp_all add: handle_cmd_def Let_def ordered_edges)

lemma handle_cmd_queue [simp]: "queue (handle_cmd now cmd c) = queue c"
  by (rule sameD) (rule qu.same_handle_cmd [OF same_refl])

lemma handle_cmd_sound:
  assumes "sound c" shows "sound (handle_cmd now cmd c)"
proof (cases "c_mode c = ERROR")
  case False
  then show ?thesis
    using handle_cmd_move [OF assms, of now cmd] ordered_not_error [of "c_mode c"] by (auto simp: sound_def)
next
  case True
  then have off: "\<not> rr_active (k_recipe c)" using assms by (simp add: sound_def)
  have man: "k_recipe (fold (manual_one cmd till now) os c) = k_recipe c" for till os
    by (induction os arbitrary: c) (auto simp: manual_one_def Let_def)
  show ?thesis
    using True off
    by (cases "cmd_type cmd")
      (auto simp: sound_def handle_cmd_def Let_def cmd_mode_change_def lighting_def cmd_manual_def man cmd_prime_def
        cmd_recipe_start_def cmd_recipe_next_def cmd_recipe_flag_def cmd_recipe_back_def)
qed

section \<open>The grill's own moves\<close>

lemma world_mode: "same_world c d \<Longrightarrow> c_mode d = c_mode c" by (simp add: same_world_def)

lemma world_fields:
  fixes c d :: "('i, 's, 'w, 'z) control_scheme"
  assumes "same_world c d"
  shows "k_recipe d = k_recipe c" "k_mod d = k_mod c" "k_manual_until d = k_manual_until c" "k_mode_start d = k_mode_start c"
    "k_auger_rest_until d = k_auger_rest_until c" "k_auger_on_since d = k_auger_on_since c"
  by (rule base_irrelevant [of d c], use assms in \<open>simp add: same_world_def\<close>, use assms in \<open>simp add: same_world_def\<close>, simp)+

text \<open>In Stop and Error a safety tick asks for nothing and switches nothing on.\<close>

lemma tick_idle:
  assumes "c_mode c = STOP \<or> c_mode c = ERROR"
  shows "snd (pf_safety_tick now c) = None"
    and "pf_outputs_get p (c_out (fst (pf_safety_tick now c))) \<Longrightarrow> pf_outputs_get p (c_out c)"
    and "\<not> pf_outputs_get IGNITER (c_out c) \<Longrightarrow> c_out (fst (pf_safety_tick now c)) = c_out c"
proof -
  define d where "d = tick_filter now (tick_igniter now c)"
  have m: "c_mode (tick_igniter now c) = c_mode c" "c_mode d = c_mode c"
    using world_mode [OF tick_igniter_world [of c now]] world_mode [OF tick_filter_world [of "tick_igniter now c" now]]
    by (simp_all add: d_def)
  have i: "tick_overtemp c = go_on c" "tick_probe now (tick_igniter now c) = go_on (tick_igniter now c)"
    "tick_smart_start now d = go_on d"
    using assms m by (auto simp: tick_overtemp_def tick_probe_def lit_mode_def tick_smart_start_def)
  have f: "snd (tick_flame now d) = Some None" "c_out (fst (tick_flame now d)) = c_out d"
    using assms m by (auto simp: tick_flame_def stop_tick_def upd_safety_def)
  have t: "fst (pf_safety_tick now c) = fst (tick_flame now d)" "snd (pf_safety_tick now c) = None"
    using i f by (cases "tick_flame now d"; simp add: pf_safety_tick_def and_then_def go_on_def flip: d_def)+
  then show "snd (pf_safety_tick now c) = None" by simp
  have "c_out d = c_out (tick_igniter now c)" by (simp add: d_def tick_filter_def upd_safety_def Let_def)
  with t f show "pf_outputs_get p (c_out (fst (pf_safety_tick now c))) \<Longrightarrow> pf_outputs_get p (c_out c)"
    using outputs_set_off_mono [of IGNITER "c_out c" p]
    by (auto simp: tick_igniter_def pf_outputs_get_def set_out_def upd_safety_def db_event_def split: if_splits)
  from t f \<open>c_out d = c_out (tick_igniter now c)\<close>
  show "\<not> pf_outputs_get IGNITER (c_out c) \<Longrightarrow> c_out (fst (pf_safety_tick now c)) = c_out c"
    by (simp add: tick_igniter_def upd_safety_def)
qed

text \<open>What a tick asks for, by the mode it is asked in.\<close>

lemma tick_moves:
  assumes "snd (pf_safety_tick now c) = Some m"
  shows "m = ERROR \<or> m = REIGNITE" "mode_edge (c_mode c) m"
proof -
  obtain c' where t: "pf_safety_tick now c = (c', Some m)" using assms by (cases "pf_safety_tick now c") auto
  from tick_cases [OF t] show "m = ERROR \<or> m = REIGNITE" by auto
  moreover have "c_mode c \<noteq> STOP" "c_mode c \<noteq> ERROR" using tick_idle(1) [of c now] assms by auto
  ultimately show "mode_edge (c_mode c) m" using tick_cases [OF t] by (auto intro: mode_edge.intros)
qed

lemma supervise_move: "legal_move (c_mode c) (c_mode (supervise now c))"
proof -
  obtain d r where t: "pf_safety_tick now c = (d, r)" by (cases "pf_safety_tick now c")
  then have m: "c_mode d = c_mode c" using world_mode [OF pf_safety_tick_world [of c now]] by simp
  show ?thesis
  proof (cases r)
    case None
    then show ?thesis using m by (simp add: supervise_def t Let_def legal_move_def)
  next
    case (Some b)
    with t have "snd (pf_safety_tick now c) = Some b" by simp
    from tick_moves [OF this] Some show ?thesis using m by (auto simp: supervise_def t Let_def legal_move_def)
  qed
qed

lemma timed_change_move: "ordered_move (c_mode c) (c_mode (timed_change now c))"
proof -
  have "c_mode c = STARTUP \<or> c_mode c = REIGNITE \<Longrightarrow> ordered_move (c_mode c) (c_mode (leave_startup now c))"
    by (auto simp: leave_startup_def Let_def ordered_edges pf_mode_is_firing_def)
  moreover have "ordered_move (c_mode c) (c_mode (end_shutdown now c))"
    by (simp add: end_shutdown_def Let_def ordered_edges)
  moreover have "c_mode c \<noteq> ERROR \<Longrightarrow> ordered_move (c_mode c) (c_mode (end_prime now c))"
    by (simp add: end_prime_def Let_def ordered_edges)
  ultimately show ?thesis by (cases "c_mode c") (simp_all add: timed_change_def)
qed

lemma run_mode_move: "ordered_move (c_mode c) (c_mode (run_mode now c))"
  using timed_change_move [of "run_outputs now c" now] modeD [OF md.same_run_outputs [OF same_refl, of c now]]
  by (simp add: run_mode_split)

lemma shutdown_input_move: "ordered_move (c_mode c) (c_mode (shutdown_input now c))"
  by (auto simp: shutdown_input_def ordered_edges)


section \<open>A step\<close>

text \<open>The modes a step goes through: after each command, after the request, after the notifications, the recipe,
  the supervision, the running of the mode and the shutdown input.\<close>

fun drain_modes :: "nat \<Rightarrow> fl \<Rightarrow> ('i, 's, 'w, 'z) control_scheme \<Rightarrow> pf_mode list" where
  "drain_modes 0 now c = []"
| "drain_modes (Suc n) now c =
     (case pf_cmdq_pop (o_cmdq (k_mod c)) of
        (q, None) \<Rightarrow> []
      | (q, Some cmd) \<Rightarrow>
          (let c = handle_cmd now cmd (upd_mod (\<lambda>m. m\<lparr>o_cmdq := q\<rparr>) c) in c_mode c # drain_modes n now c))"

definition start_clocked :: "fl \<Rightarrow> ('i, 's, 'w, 'z) control_scheme \<Rightarrow> ('i, 's, 'w, 'z) control_scheme" where
  "start_clocked now c = (if k_mode_start c = 0 then c\<lparr>k_mode_start := now\<rparr> else c)"

definition step_modes :: "fl \<Rightarrow> ('i, 's, 'w, 'z) control_scheme \<Rightarrow> pf_mode list" where
  "step_modes now c =
     (let c0 = start_clocked now c;
          c1 = drain_cmds (g_len (o_cmdq (k_mod c0))) now c0;
          c2 = apply_request now (read_sensors c1);
          c3 = run_notify now (hold_setpoint (idle_overtemp c2));
          c4 = run_recipe now c3;
          c5 = supervise now (learn_rise_track now (recipe_aftercare c4));
          c6 = run_mode now c5
      in drain_modes (g_len (o_cmdq (k_mod c0))) now c0 @
         [c_mode c1, c_mode c2, c_mode c3, c_mode c4, c_mode c5, c_mode c6, c_mode (shutdown_input now c6)])"

lemma legal_refl [simp]: "legal_move m m" by (simp add: legal_move_def)

lemma drain_path:
  assumes "sound c"
  shows "successively legal_move (c_mode c # drain_modes n now c @ [c_mode (drain_cmds n now c)])"
  using assms
proof (induction n arbitrary: c)
  case (Suc n)
  obtain q r where p: "pf_cmdq_pop (o_cmdq (k_mod c)) = (q, r)" by (cases "pf_cmdq_pop (o_cmdq (k_mod c))")
  show ?case
  proof (cases r)
    case (Some cmd)
    define d where "d = upd_mod (\<lambda>m. m\<lparr>o_cmdq := q\<rparr>) c"
    have d: "sound d" "c_mode d = c_mode c" using Suc.prems by (simp_all add: d_def sound_def)
    show ?thesis
      using Suc.IH [OF handle_cmd_sound [OF d(1)], of now cmd] ordered_legal [OF handle_cmd_move [OF d(1), of now cmd]] d(2)
      by (simp add: p Some Let_def flip: d_def)
  qed (simp add: p)
qed simp

lemma start_clocked_simps [simp]: "c_mode (start_clocked now c) = c_mode c" "k_recipe (start_clocked now c) = k_recipe c"
  "k_mod (start_clocked now c) = k_mod c"
  by (simp_all add: start_clocked_def)

lemma step_moves:
  "legal_move (c_mode c) (c_mode (apply_request now (read_sensors c)))"
  "legal_move (c_mode c) (c_mode (run_notify now (hold_setpoint (idle_overtemp c))))"
  "legal_move (c_mode c) (c_mode (run_recipe now c))"
  "legal_move (c_mode c) (c_mode (supervise now (learn_rise_track now (recipe_aftercare c))))"
  "legal_move (c_mode c) (c_mode (run_mode now c))"
  "legal_move (c_mode c) (c_mode (shutdown_input now c))"
  using ordered_legal [OF apply_request_move [of "read_sensors c" now]]
    ordered_legal [OF run_notify_move [of "hold_setpoint (idle_overtemp c)" now]] ordered_legal [OF run_recipe_move [of c now]]
    supervise_move [of "learn_rise_track now (recipe_aftercare c)" now] ordered_legal [OF run_mode_move [of c now]]
    ordered_legal [OF shutdown_input_move [of c now]] by simp_all

lemma path_on: "successively P (x # xs @ [y]) \<Longrightarrow> successively P (y # ys) \<Longrightarrow> successively P (x # xs @ y # ys)"
  by (induction xs arbitrary: x) (auto simp: successively_Cons)

lemma step_mode: "c_mode (pf_control_step now c) = last (step_modes now c)"
  by (simp add: pf_control_step_def step_modes_def tend_cook_def take_orders_def start_clocked_def Let_def)

end
