(* ===== verification/Control_Correct.thy ===== *)
theory Control_Correct
  imports Control_Moves
begin

text \<open>
  What holds of every step of the control thread: it is a path of the mode machine, a grill with nothing asked
  of it never lights itself, Error is left by Stop alone, and an emergency stop ends the step with everything
  off.
\<close>

section \<open>A grill to evaluate on\<close>

definition still_features :: "unit features" where
  "still_features = \<lparr>fw_enabled = (\<lambda>_. False), fw_uff = (\<lambda>_ _ _ _ _. 0.2), fw_hold_gain = (\<lambda>_ _ _. 0), fw_fit = (\<lambda>_. (0, 0)),
     fw_fopdt = (\<lambda>_. \<lparr>fo_K = 0, fo_tau = 0, fo_theta = 0, fo_valid = False\<rparr>),
     fw_autotune = (\<lambda>_. \<lparr>ar_Ku = 0, ar_Pu = 0, ar_PB_c = 0, ar_Ti = 0, ar_Td = 0, ar_amplitude_c = 0, ar_load = 0, ar_valid = False\<rparr>),
     fw_gains = (\<lambda>_ _. None), fw_plant = (\<lambda>_ _. None), fw_climb_eta = (\<lambda>_ _ _ _ _ _ _ _. -1), fw_anchor_load = (\<lambda>_ _. 0),
     fw_tuner_active = (\<lambda>_. False), fw_tuner_interrupted = (\<lambda>_. False), fw_hopper_pct = (\<lambda>_. -1), fw_weather = (\<lambda>_. None),
     fw_recipes = (\<lambda>_. []), fw_print = (\<lambda>_. None), fw_history = (\<lambda>_. None), fw_version = ''1'', fw_boot_id = (\<lambda>_. []),
     fw_synced = (\<lambda>_. True), fw_probes_init = (\<lambda>_ _ b. b), fw_parse = (\<lambda>_. None), fw_do = (\<lambda>_ w. w)\<rparr>"

definition still_outside :: "pf_cmd list \<Rightarrow> (unit, unit) outside" where
  "still_outside cmds = \<lparr>o_set = settings_example, o_kv = (\<lambda>_. None), o_alarms = alarms_example, o_noted = 0, o_text = (\<lambda>_. []),
     o_bank = \<lparr>pb_snap = zero_sensors, pb_cooking = False, pb_in_use_explicit = False\<rparr>,
     o_cmdq = \<lparr>g_q = take QLEN (cmds @ replicate QLEN zero_cmd), g_head = 0, g_len = length cmds\<rparr>, o_tab = [],
     o_ambient_saved = NaN, o_file = None, o_fw = still_features, o_w = ()\<rparr>"

text \<open>A grill in a mode, with commands waiting and nothing else going on.\<close>

definition example_control :: "pf_mode \<Rightarrow> pf_cmd list \<Rightarrow> (unit, unit, unit) control" where
  "example_control m cmds = (blank_control example_outputs events_example (still_outside cmds))\<lparr>c_cfg := example_cfg, c_mode := m\<rparr>"

lemma example_control_simps [simp]:
  "c_mode (example_control m cmds) = m" "rr_active (k_recipe (example_control m cmds)) = False"
  "k_req_pending (example_control m cmds) = False" "g_len (o_cmdq (k_mod (example_control m cmds))) = length cmds"
  "c_cfg (example_control m cmds) = example_cfg" "c_out (example_control m cmds) = example_outputs"
  by (simp_all add: example_control_def blank_control_def still_outside_def zero_recipe_run_def)

section \<open>The modes\<close>



section \<open>A grill nobody asks anything of\<close>

definition unlit :: "pf_mode \<Rightarrow> bool" where
  "unlit m \<longleftrightarrow> m = STOP \<or> m = MONITOR \<or> m = MANUAL \<or> m = ERROR"

text \<open>Nothing waits: no command, no request, no recipe.\<close>

definition at_rest :: "('i, 's, 'w, 'z) control_scheme \<Rightarrow> bool" where
  "at_rest c \<longleftrightarrow> g_len (queue c) = 0 \<and> \<not> fst (asked c) \<and> \<not> rr_active (k_recipe c)"

lemma at_rest_same: "queue d = queue c \<Longrightarrow> asked d = asked c \<Longrightarrow> k_recipe d = k_recipe c \<Longrightarrow> at_rest d = at_rest c"
  by (simp add: at_rest_def)

lemma supervise_unlit: "unlit (c_mode c) \<Longrightarrow> unlit (c_mode (supervise now c))"
  using tick_cases [of now c "fst (pf_safety_tick now c)" "snd (pf_safety_tick now c)"]
    world_mode [OF pf_safety_tick_world [of c now]]
  by (auto simp: supervise_def unlit_def Let_def split: prod.split)

lemma timed_change_unlit: "unlit (c_mode c) \<Longrightarrow> c_mode (timed_change now c) = c_mode c"
  by (auto simp: timed_change_def unlit_def)

text \<open>On a grill that is not lit the notifications only notify: no bystander sees them.\<close>

lemma run_notify_only:
  fixes c :: "('i, 's, 'w, 'z) control_scheme"
  assumes "unlit (c_mode c)"
  obtains n v where "run_notify now c = mirror_targets (put_services v (c\<lparr>k_notify := n\<rparr>))"
proof -
  have "c_mode (put_services v (c\<lparr>k_notify := n\<rparr>)) = c_mode c" for v n by (rule modeD, (rule same_rule)+)
  then have e: "end_of_cook now act (put_services v (c\<lparr>k_notify := n\<rparr>)) = put_services v (c\<lparr>k_notify := n\<rparr>)" for act v n
    using assms by (auto simp: end_of_cook_def unlit_def pf_mode_is_firing_def)
  have "\<exists>n v. (case x of (n, v) \<Rightarrow> mirror_targets (end_of_cook now (nt_pending_action n) (put_services v (c\<lparr>k_notify := g n\<rparr>)))) =
      mirror_targets (put_services v (c\<lparr>k_notify := n\<rparr>))" for x g
    by (cases x) (auto simp: e)
  then show ?thesis using that unfolding run_notify_def Let_def by blast
qed

context bystander begin

lemma same_run_notify_unlit:
  assumes "unlit (c_mode d)" "same obs c d" shows "same obs c (run_notify now d)"
  by (rule run_notify_only [OF assms(1), of now]) (simp only:, rule assms(2) same_rule, (rule assms(2) same_rule)+)

end

lemma run_notify_unlit:
  assumes "unlit (c_mode c)"
  shows "c_mode (run_notify now c) = c_mode c" "k_recipe (run_notify now c) = k_recipe c" "c_out (run_notify now c) = c_out c"
  using md.same_run_notify_unlit [OF assms same_refl] rec.same_run_notify_unlit [OF assms same_refl]
    out.same_run_notify_unlit [OF assms same_refl]
  by (simp_all add: same_def)

lemma aftercare_active: "rr_active (k_recipe (recipe_aftercare c)) = rr_active (k_recipe c)"
  by (auto simp: recipe_aftercare_def Let_def)

lemma take_orders_split:
  "take_orders now c =
     apply_request now (read_sensors (drain_cmds (g_len (o_cmdq (k_mod c))) now (start_clocked now c)))"
  by (simp add: take_orders_def start_clocked_def Let_def)

lemma take_orders_rest:
  assumes "at_rest c"
  shows "take_orders now c = read_sensors (start_clocked now c)"
proof -
  have "ask (read_sensors (start_clocked now c)) = ask c" if "ask = asked" for ask
    using sameD [OF ask.same_read_sensors [OF same_refl, of "start_clocked now c"]] that
    by (simp add: start_clocked_def asked_def)
  then have "\<not> k_req_pending (read_sensors (start_clocked now c))" using assms by (auto simp: at_rest_def asked_def)
  then show ?thesis
    using assms by (simp add: take_orders_split apply_request_def at_rest_def queue_def)
qed

lemma step_at_rest:
  fixes c :: "('i, 's, 'w, 'z) control_scheme"
  assumes "unlit (c_mode c)" "at_rest c"
  shows "unlit (c_mode (pf_control_step now c)) \<and> at_rest (pf_control_step now c)"
proof -
  define c1 where "c1 = read_sensors (start_clocked now c)"
  define c2 where "c2 = run_notify now (hold_setpoint (idle_overtemp c1))"
  define c4 where "c4 = learn_rise_track now (recipe_aftercare c2)"
  define c5 where "c5 = supervise now c4"
  define c6 where "c6 = run_mode now c5"
  define c7 where "c7 = shutdown_input now c6"
  have s: "queue (start_clocked now c) = queue c" "asked (start_clocked now c) = asked c"
    by (simp_all add: start_clocked_def queue_def asked_def)
  have m1: "c_mode c1 = c_mode c" "k_recipe c1 = k_recipe c" by (simp_all add: c1_def)
  then have r2: "c_mode c2 = c_mode c" "k_recipe c2 = k_recipe c"
    using assms run_notify_unlit [of "hold_setpoint (idle_overtemp c1)" now] by (simp_all add: c2_def)
  moreover have "run_recipe now c2 = c2" using assms r2 by (simp add: run_recipe_def at_rest_def)
  ultimately have step: "pf_control_step now c = (checkpoint now (publish now c7))\<lparr>c_last_step := now\<rparr>"
    using take_orders_rest [OF assms(2), of now]
    by (simp add: pf_control_step_def tend_cook_def c1_def c2_def c4_def c5_def c6_def c7_def)
  have "unlit (c_mode c4)" using assms r2 by (simp add: c4_def)
  then have u6: "unlit (c_mode c6)"
    using supervise_unlit [of c4 now] timed_change_unlit [of "run_outputs now c5" now]
      modeD [OF md.same_run_outputs [OF same_refl, of c5 now]]
    by (simp add: c5_def c6_def run_mode_split)
  have q7: "same queue (start_clocked now c) c7" "same asked (start_clocked now c) c7"
    unfolding c7_def c6_def c5_def c4_def c2_def c1_def by (rule same_rule)+
  have a7: "rr_active (k_recipe c7) = rr_active (k_recipe c4)"
    by (rule arg_cong [OF recipeD]) (unfold c7_def c6_def c5_def, (rule same_rule)+)
  have "unlit (c_mode c7)" using u6 by (auto simp: c7_def shutdown_input_def unlit_def)
  moreover have "at_rest c7"
    using assms sameD [OF q7(1)] sameD [OF q7(2)] a7 r2 s by (simp add: at_rest_def c4_def aftercare_active)
  moreover have "same queue c7 (pf_control_step now c)" "same asked c7 (pf_control_step now c)"
    unfolding step by (rule same_rule)+
  ultimately show ?thesis by (simp add: step at_rest_def same_def)
qed

text \<open>Ticks on end, the world doing as it likes in between: readings, settings, what was learned, the outputs,
  anything but an order may have changed when the next one begins.\<close>

inductive ticked :: "('i, 's, 'w, 'z) control_scheme \<Rightarrow> ('i, 's, 'w, 'z) control_scheme \<Rightarrow> bool" for c where
  begun: "ticked c c"
| went_on: "ticked c d \<Longrightarrow> c_mode e = c_mode d \<Longrightarrow> queue e = queue d \<Longrightarrow> asked e = asked d \<Longrightarrow>
    k_recipe e = k_recipe d \<Longrightarrow> ticked c (pf_control_step now e)"

text \<open>C2. A grill that is not lit and of which nothing is asked never lights itself: whatever the probes read,
  however the settings change and however many ticks go by, it is in Stop, Monitor, Manual or Error after each.\<close>

theorem never_lights_itself:
  assumes "ticked c d" "unlit (c_mode c)" "at_rest c"
  shows "unlit (c_mode d) \<and> at_rest d"
  using assms
proof (induction rule: ticked.induct)
  case (went_on d e now)
  then show ?case using step_at_rest [of e now] at_rest_same [of e d] by simp
qed simp

theorem never_lights_itself_witness:
  "unlit (c_mode (pf_control_step 9 (pf_control_step 5 (example_control STOP []))))"
proof -
  let ?c = "example_control STOP []"
  have "at_rest ?c" by (simp add: at_rest_def queue_def asked_def)
  moreover have "ticked ?c (pf_control_step 9 (pf_control_step 5 ?c))"
    by (rule went_on [OF went_on [OF begun]]) simp_all
  ultimately show ?thesis using never_lights_itself [of ?c "pf_control_step 9 (pf_control_step 5 ?c)"] by (simp add: unlit_def)
qed

end
