(* ===== verification/Control_Stop.thy ===== *)
theory Control_Stop
  imports Control_Correct
begin

text \<open>
  What an order does to a step of the control thread: the commands waiting are handled in the order they were
  pushed, a Stop among the last of them ends the step in Stop with everything off, and in Error nothing but a
  Stop is heard.
\<close>

section \<open>The commands waiting\<close>

lemma waiting_step:
  assumes "cmdq_inv (queue c)" "cmdq_list (queue c) = cmd # cmds"
  obtains q where "pf_cmdq_pop (o_cmdq (k_mod c)) = (q, Some cmd)" "cmdq_inv q" "cmdq_list q = cmds"
  using cmdq.pop_items [OF assms(1)] cmdq.pop_invar [OF assms(1)] assms(2)
  by (cases "pf_cmdq_pop (o_cmdq (k_mod c))") (simp add: queue_def)

lemma queue_upd_mod [simp]: "queue (upd_mod (\<lambda>m. m\<lparr>o_cmdq := q\<rparr>) c) = q"
  by (simp add: queue_def upd_mod_def)

text \<open>Draining handles the last command last.\<close>

lemma drain_last:
  assumes "cmdq_inv (queue c)" "cmdq_list (queue c) = cmds @ [cmd]"
  shows "\<exists>d. drain_cmds (Suc (length cmds)) now c = handle_cmd now cmd d \<and> cmdq_list (queue d) = []"
  using assms
proof (induction cmds arbitrary: c)
  case Nil
  then obtain q where q: "pf_cmdq_pop (o_cmdq (k_mod c)) = (q, Some cmd)" "cmdq_list q = []"
    using waiting_step [of c cmd "[]"] by auto
  have "drain_cmds (Suc (length [])) now c = handle_cmd now cmd (upd_mod (\<lambda>m. m\<lparr>o_cmdq := q\<rparr>) c)"
    by (simp add: q)
  with q(2) show ?case by (intro exI [of _ "upd_mod (\<lambda>m. m\<lparr>o_cmdq := q\<rparr>) c"]) simp
next
  case (Cons x xs)
  then obtain q where q: "pf_cmdq_pop (o_cmdq (k_mod c)) = (q, Some x)" "cmdq_inv q" "cmdq_list q = xs @ [cmd]"
    using waiting_step [of c x "xs @ [cmd]"] by auto
  define e where "e = handle_cmd now x (upd_mod (\<lambda>m. m\<lparr>o_cmdq := q\<rparr>) c)"
  have "queue e = q" by (simp add: e_def)
  with q Cons.IH [of e] show ?case by (simp add: e_def)
qed

section \<open>Everything off\<close>

definition unpowered :: "('i, 's, 'w, 'z) control_scheme \<Rightarrow> bool" where
  "unpowered c \<longleftrightarrow> (\<forall>p. \<not> pf_outputs_get p (c_out c))"

text \<open>A grill that stands: in Stop, with everything off, nothing asked for and no recipe.\<close>

definition standing :: "('i, 's, 'w, 'z) control_scheme \<Rightarrow> bool" where
  "standing c \<longleftrightarrow> c_mode c = STOP \<and> unpowered c \<and> \<not> k_req_pending c \<and> \<not> rr_active (k_recipe c)"

lemma unpowered_same: "c_out d = c_out c \<Longrightarrow> unpowered d = unpowered c" by (simp add: unpowered_def)

lemma unpowered_off: "unpowered c \<Longrightarrow> unpowered (set_out p False c)"
  using outputs_set_off_mono [of p "c_out c"] by (auto simp: unpowered_def set_out_def pf_outputs_get_def)

lemma outD: "same c_out c d \<Longrightarrow> c_out d = c_out c" by (rule sameD)

lemma enter_stop_unpowered: "unpowered (enter_mode STOP now c)"
proof -
  define d where "d = mode_prologue STOP now c"
  have "c_out (enter_mode STOP now c) = c_out (enter_stop d)"
    unfolding enter_mode_def arrive_def d_def by (rule outD) (simp, (rule same_rule)+)
  moreover have "c_out (feature f e) = c_out e" for f and e :: "('a, 'b, 'c, 'd) control_scheme"
    by (rule outD) (rule same_rule)+
  ultimately show ?thesis
    by (simp add: unpowered_def enter_stop_def Let_def out_all_off_def pf_outputs_get_def)
qed

lemma stop_cmd_standing:
  assumes "cmd_type cmd = CMD_STOP" shows "standing (handle_cmd now cmd c)"
proof -
  have "c_out (clear_error e) = c_out e" for e :: "('a, 'b, 'c, 'd) control_scheme"
    by (rule outD) (rule same_rule)+
  then show ?thesis
    using assms enter_stop_unpowered [of now c]
    by (simp add: handle_cmd_def standing_def unpowered_def clear_error_def upd_safety_def upd_recipe_def)
qed

section \<open>A standing grill stays so\<close>

lemma aftercare_out: "c_out (recipe_aftercare c) = c_out c"
proof -
  have "c_out (upd_alarms f d) = c_out d" for f and d :: "('a, 'b, 'c, 'd) control_scheme" by (rule outD) (rule same_rule)+
  then show ?thesis by (simp add: recipe_aftercare_def Let_def upd_recipe_def)
qed

lemma supervise_standing:
  assumes "c_mode c = STOP" "unpowered c"
  shows "c_mode (supervise now c) = STOP \<and> unpowered (supervise now c)"
proof -
  obtain d r where t: "pf_safety_tick now c = (d, r)" by (cases "pf_safety_tick now c")
  have "r = None" using tick_idle(1) [of c now] assms t by simp
  moreover have "unpowered d" using tick_idle(2) [of c _ now] assms t by (auto simp: unpowered_def)
  moreover have "c_out (catch_up d) = c_out d" by (rule outD) (rule same_rule)+
  moreover have "c_mode d = STOP" using world_mode [OF pf_safety_tick_world [of c now]] t assms by simp
  ultimately show ?thesis by (simp add: supervise_def t Let_def unpowered_def)
qed

lemma run_mode_standing:
  assumes "c_mode c = STOP" "unpowered c" shows "c_mode (run_mode now c) = STOP \<and> unpowered (run_mode now c)"
proof -
  have off: "\<not> is_on AUGER d" if "unpowered d" for d :: "('a, 'b, 'c, 'd) control_scheme" using that by (simp add: unpowered_def is_on_def)
  have "run_mode now c = expire_manual now c"
    using assms off [OF assms(2)]
    by (simp add: run_mode_def watch_lid_def feed_step_def feeds_def auger_rest_def auger_cap_def timed_change_def)
  moreover have "c_out (expire_manual now c) = c_out c" by (simp add: expire_manual_def)
  ultimately show ?thesis using assms by (simp add: unpowered_def)
qed

text \<open>What a step does after it has taken its orders.\<close>

lemma step_after_orders:
  "pf_control_step now c =
     (checkpoint now (publish now (shutdown_input now (run_mode now (supervise now (tend_cook now (take_orders now c)))))))
       \<lparr>c_last_step := now\<rparr>"
  by (simp add: pf_control_step_def Let_def)

lemma standing_after_orders:
  fixes c :: "('i, 's, 'w, 'z) control_scheme"
  assumes "standing (take_orders now c)"
  shows "c_mode (pf_control_step now c) = STOP" "unpowered (pf_control_step now c)"
proof -
  define c2 where "c2 = take_orders now c"
  define c3 where "c3 = run_notify now (hold_setpoint (idle_overtemp c2))"
  define c4 where "c4 = learn_rise_track now (recipe_aftercare c3)"
  define c6 where "c6 = run_mode now (supervise now c4)"
  have quiet: "c_out (hold_setpoint (idle_overtemp c2)) = c_out c2" "c_out (learn_rise_track now d) = c_out d"
    for d :: "('i, 's, 'w, 'z) control_scheme"
    by (rule outD, (rule same_rule)+)+
  have s2: "c_mode c2 = STOP" "unpowered c2" "\<not> rr_active (k_recipe c2)" using assms by (simp_all add: c2_def standing_def)
  then have s3: "c_mode c3 = STOP" "unpowered c3" "\<not> rr_active (k_recipe c3)"
    using run_notify_unlit [of "hold_setpoint (idle_overtemp c2)" now]
    by (simp_all add: c3_def unlit_def unpowered_def quiet)
  then have "run_recipe now c3 = c3" by (simp add: run_recipe_def)
  moreover have s4: "c_mode c4 = STOP" "unpowered c4" using s3 by (simp_all add: c4_def unpowered_def quiet aftercare_out)
  ultimately have "pf_control_step now c = (checkpoint now (publish now (shutdown_input now c6)))\<lparr>c_last_step := now\<rparr>"
    by (simp add: step_after_orders tend_cook_def c2_def c3_def c4_def c6_def)
  moreover have s6: "c_mode c6 = STOP" "unpowered c6"
    using supervise_standing [OF s4, of now] run_mode_standing [of "supervise now c4" now] by (simp_all add: c6_def)
  moreover have "c_out (checkpoint now (publish now d)) = c_out d" for d :: "('i, 's, 'w, 'z) control_scheme"
    by (rule outD) (rule same_rule)+
  ultimately show "c_mode (pf_control_step now c) = STOP" "unpowered (pf_control_step now c)"
    by (simp_all add: shutdown_input_def unpowered_def)
qed

lemma stop_last_orders:
  assumes "cmdq_inv (queue c)" "cmdq_list (queue c) = cmds @ [cmd]" "cmd_type cmd = CMD_STOP"
  shows "standing (take_orders now c)"
proof -
  have q: "queue (start_clocked now c) = queue c" by (simp add: start_clocked_def queue_def)
  have n: "g_len (o_cmdq (k_mod c)) = Suc (length cmds)"
    using arg_cong [OF assms(2), of length] by (simp add: queue_def)
  obtain d where d: "drain_cmds (Suc (length cmds)) now (start_clocked now c) = handle_cmd now cmd d"
    using drain_last [of "start_clocked now c"] assms q by auto
  define e where "e = handle_cmd now cmd d"
  have s: "standing e" using stop_cmd_standing [OF assms(3)] by (simp add: e_def)
  have "c_out (read_sensors e) = c_out e" "asked (read_sensors e) = asked e" by (rule sameD, (rule same_rule)+)+
  then have "standing (read_sensors e)" using s by (simp add: standing_def unpowered_def asked_def)
  moreover have "take_orders now c = apply_request now (read_sensors e)" by (simp only: take_orders_split n d e_def)
  ultimately show ?thesis by (simp add: apply_request_def standing_def)
qed

text \<open>C1. An emergency stop is not argued with.  Whatever the grill is doing and whatever else waits in the queue
  before it, a Stop taken last ends that very step in Stop, every output off, whether or not the platform obeys
  single switches; nothing of the same step, not the request that was pending, a target met or the recipe, lights
  it again.\<close>

theorem emergency_stop_wins:
  assumes "cmdq_inv (queue c)" "cmdq_list (queue c) = cmds @ [cmd]" "cmd_type cmd = CMD_STOP"
  shows "c_mode (pf_control_step now c) = STOP \<and> (\<forall>p. \<not> pf_outputs_get p (c_out (pf_control_step now c)))"
  using standing_after_orders [OF stop_last_orders [OF assms], of now] by (simp add: unpowered_def)

lemma example_queue:
  "length cmds \<le> QLEN \<Longrightarrow> cmdq_inv (queue (example_control m cmds))"
  "length cmds \<le> QLEN \<Longrightarrow> cmdq_list (queue (example_control m cmds)) = cmds"
  by (auto simp: queue_def example_control_def blank_control_def still_outside_def cmdq_inv_def cmdq_list_def QLEN_def
      nth_append intro!: nth_equalityI)

theorem emergency_stop_wins_witness:
  "c_mode (pf_control_step 5 (example_control HOLD [zero_cmd\<lparr>cmd_type := CMD_SETPOINT, cmd_num := 225\<rparr>, zero_cmd\<lparr>cmd_type := CMD_STOP\<rparr>])) = STOP"
  using emergency_stop_wins [of "example_control HOLD [zero_cmd\<lparr>cmd_type := CMD_SETPOINT, cmd_num := 225\<rparr>, zero_cmd\<lparr>cmd_type := CMD_STOP\<rparr>]"
      "[zero_cmd\<lparr>cmd_type := CMD_SETPOINT, cmd_num := 225\<rparr>]" "zero_cmd\<lparr>cmd_type := CMD_STOP\<rparr>" 5]
  by (simp add: example_queue QLEN_def)

section \<open>Error\<close>

text \<open>What ends an Error: a Stop, the clearing of the error, the request of Stop.\<close>

definition stop_order :: "pf_cmd \<Rightarrow> bool" where
  "stop_order cmd \<longleftrightarrow> cmd_type cmd = CMD_STOP \<or> cmd_type cmd = CMD_CLEAR_ERROR \<or> cmd_type cmd = CMD_MODE \<and> cmd_mode cmd = STOP"

definition held_in_error :: "('i, 's, 'w, 'z) control_scheme \<Rightarrow> bool" where
  "held_in_error c \<longleftrightarrow> c_mode c = ERROR \<and> \<not> rr_active (k_recipe c) \<and> (k_req_pending c \<longrightarrow> k_req_mode c \<noteq> STOP)"

lemma held_iff: "held_in_error c \<longleftrightarrow> c_mode c = ERROR \<and> \<not> rr_active (k_recipe c) \<and> (fst (asked c) \<longrightarrow> snd (asked c) \<noteq> STOP)"
  by (simp add: held_in_error_def asked_def)

lemma asked_fields [simp]: "asked (upd_recipe f c) = asked c" "asked (upd_mod g c) = asked c"
  by (simp_all add: asked_def upd_recipe_def upd_mod_def)

lemma deaf_cmds:
  assumes "c_mode c = ERROR" "\<not> rr_active (k_recipe c)"
  shows "cmd_prime cmd now c = c\<lparr>k_prime_amount_g := cmd_num cmd, k_next_mode := (if strcase_eq (cmd_str cmd) ''Startup'' then STARTUP else STOP)\<rparr>"
    "cmd_manual cmd now c = c" "cmd_lid now c = c" "cmd_recipe_start cmd now c = c" "cmd_recipe_next c = c"
    "cmd_recipe_flag cmd c = c" "cmd_recipe_back now c = c"
    "cmd_mode_change cmd now c = pf_control_request (cmd_mode cmd) (num_c (cmd_num cmd) c) c"
  using assms
  by (simp_all add: cmd_prime_def cmd_manual_def cmd_lid_def cmd_recipe_start_def cmd_recipe_next_def cmd_recipe_flag_def
      cmd_recipe_back_def cmd_mode_change_def lighting_def)

lemma handle_cmd_held:
  fixes c :: "('i, 's, 'w, 'z) control_scheme"
  assumes "held_in_error c" "\<not> stop_order cmd" shows "held_in_error (handle_cmd now cmd c)"
proof -
  have e: "c_mode c = ERROR" "\<not> rr_active (k_recipe c)" using assms(1) by (simp_all add: held_in_error_def)
  have a: "asked (cmd_setpoint cmd now c) = asked c"
  proof -
    have "asked (learn_reset_window now d) = asked d" for d :: "('i, 's, 'w, 'z) control_scheme" by (rule sameD) (rule same_rule)+
    moreover have "asked (upd_safety f d) = asked d" for f and d :: "('i, 's, 'w, 'z) control_scheme" by (simp add: asked_def upd_safety_def)
    ultimately show ?thesis using e by (simp add: cmd_setpoint_def Let_def asked_def)
  qed
  have q: "asked (cmd_duty cmd c) = asked c" "asked (cmd_notify_target cmd c) = asked c" "asked (cmd_notify_limits cmd c) = asked c"
    "asked (cmd_timer f c) = asked c" "asked (cmd_tuning_apply c) = asked c" "asked (forget_learning w m c) = asked c"
    "asked (pf_control_reload_settings c) = asked c" "asked (fst (controller_load i (reload_cfg c))) = asked c"
    "asked (tell t1 t2 t3 c) = asked c" "asked (autotune_start now c) = asked c" "asked (autotune_finish b m' c) = asked c" for f w m i b m' t1 t2 t3
    by (rule sameD, (rule same_rule)+)+
  show ?thesis
    using assms(2) e
    by (cases "cmd_type cmd"; use assms(1) in \<open>simp add: handle_cmd_def held_iff deaf_cmds a q stop_order_def Let_def\<close>)
      (auto simp: asked_def pf_control_request_def)
qed

lemma drain_held:
  assumes "held_in_error c" "cmdq_inv (queue c)" "\<forall>cmd \<in> set (cmdq_list (queue c)). \<not> stop_order cmd"
  shows "held_in_error (drain_cmds n now c)"
  using assms
proof (induction n arbitrary: c)
  case (Suc n)
  show ?case
  proof (cases "cmdq_list (queue c)")
    case Nil
    then show ?thesis using Suc.prems cmdq.pop_empty [OF Suc.prems(2)] by (simp add: queue_def)
  next
    case (Cons cmd cmds)
    then obtain q where q: "pf_cmdq_pop (o_cmdq (k_mod c)) = (q, Some cmd)" "cmdq_inv q" "cmdq_list q = cmds"
      using waiting_step [OF Suc.prems(2)] by metis
    have "held_in_error (upd_mod (\<lambda>m. m\<lparr>o_cmdq := q\<rparr>) c)" using Suc.prems(1) by (simp add: held_iff)
    from handle_cmd_held [OF this, of cmd now] show ?thesis using Suc q Cons by simp
  qed
qed simp

lemma supervise_error: "c_mode c = ERROR \<Longrightarrow> c_mode (supervise now c) = ERROR"
  using tick_idle(1) [of c now] world_mode [OF pf_safety_tick_world [of c now]]
  by (cases "pf_safety_tick now c") (simp add: supervise_def Let_def)



section \<open>A recipe that is still on\<close>

text \<open>The step skipped to is begun as if the grill burnt.\<close>

lemma skip_begins:
  assumes "c_mode c = ERROR" "Suc (rr_step (k_recipe c)) < length (rc_steps (rr_r (k_recipe c)))"
    "flag_at (Suc (rr_step (k_recipe c))) c \<noteq> 2" "rp_mode (step_at (rr_r (k_recipe c)) (Suc (rr_step (k_recipe c)))) = HOLD"
  obtains d where "recipe_advance now c = enter_mode HOLD now d" "wires d = wires c"
proof -
  define e where "e = upd_recipe (\<lambda>r. r\<lparr>rr_step := Suc (rr_step r)\<rparr>) (say_step c)"
  have e: "k_recipe e = (k_recipe c)\<lparr>rr_step := Suc (rr_step (k_recipe c))\<rparr>" by (simp add: e_def)
  have "recipe_advance now c = recipe_begin_step now e"
    using assms(2) by (subst recipe_advance.simps) (simp add: Let_def e_def)
  also have "cur_flag e \<noteq> 2" using assms(3) by (auto simp: cur_flag_def flag_at_def e split: if_splits)
  then have "recipe_begin_step now e = apply_step now e" by (subst recipe_begin_step.simps) simp
  also have "\<dots> = burning_step HOLD now (set_step now e)"
    using assms(4) by (simp add: apply_step_def Let_def cur_step_def e)
  also have "c_mode (set_step now e) = ERROR"
    using modeD [OF md.same_set_step [OF same_refl, of e now]] assms(1) by (simp add: e_def)
  then have "burning_step HOLD now (set_step now e) = enter_mode HOLD now (set_step now e)"
    by (simp add: burning_step_def cold_mode_def lighting_def)
  finally have "recipe_advance now c = enter_mode HOLD now (set_step now e)" .
  moreover have "same wires c (set_step now e)" unfolding e_def by (rule same_rule)+
  ultimately show ?thesis using that [of "set_step now e"] by (simp add: same_def)
qed

lemma enter_hold_feeds:
  fixes c :: "('i, 's, 'w, 'z) control_scheme"
  assumes "outs_work (c_out c)" shows "pf_outputs_get AUGER (c_out (enter_mode HOLD now c))"
proof -
  define d where "d = mode_prologue HOLD now c"
  define x where "x = set_out POWER True (pf_safety_on_run_enter (c_mode c) now d)"
  define y where "y = (fan_on (k_duty_cycle x) x)\<lparr>k_ctrl_reset_needed := True\<rparr>"
  define e where "e = take_feed (begin_cycle now (u_min (c_cfg y)) y)"
  have e: "arrive (c_mode c) HOLD now d = set_out AUGER True e"
    by (simp only: arrive_def pf_mode.case enter_hold_def Let_def x_def y_def e_def)
  have s: "same wires d e" unfolding e_def y_def x_def by (rule same_rule)+
  have "same wires (start_mode HOLD now c) d" by (simp add: d_def wi.same_prologue)
  then have "wires e = wires c" using s by (simp add: same_def wires_def start_mode_def upd_mod_def)
  then have "outs_work (c_out e)" using assms outs_work_wiring [of "c_out e" "c_out c"] by (simp add: wires_def)
  moreover have "c_out (db_event l t m x) = c_out x" for l t m and x :: "('i, 's, 'w, 'z) control_scheme" by (simp add: db_event_def)
  ultimately show ?thesis
    by (simp add: enter_mode_def e flip: d_def) (simp add: set_out_def pf_outputs_get_def outs_work_get)
qed


definition skipping :: "(unit, unit, unit) control" where
  "skipping = (example_control ERROR [])\<lparr>k_recipe := zero_recipe_run\<lparr>rr_active := True,
     rr_r := zero_recipe\<lparr>rc_steps := [zero_step\<lparr>rp_mode := SMOKE\<rparr>, zero_step\<lparr>rp_mode := HOLD\<rparr>]\<rparr>\<rparr>\<rparr>"


end
