(* ===== verification/Control_Feed.thy ===== *)
theory Control_Feed
  imports Control_Stop
begin

text \<open>
  What the auger is found at when a step ends: never on for longer than its cap, at rest for fifteen seconds after
  the cap has stopped it, and on only in a mode that feeds, in Manual or by an override that has not run out.
\<close>

section \<open>The auger within its limits\<close>

definition auger_fine :: "fl \<Rightarrow> ('i, 's, 'w, 'z) control_scheme \<Rightarrow> bool" where
  "auger_fine now c \<longleftrightarrow> (is_on AUGER c \<longrightarrow>
     \<not> auger_max_on_s (c_cfg c) < now - k_auger_on_since c \<and>
     (now < k_auger_rest_until c \<longrightarrow> k_mode_start c = now) \<and>
     (feeds (c_mode c) \<or> c_mode c = MANUAL \<or> \<not> override c \<le> now))"

text \<open>All of it that is looked at.\<close>

definition auger_view :: "('i, 's, 'w, 'z) control_scheme \<Rightarrow> (bool \<times> fl \<times> fl \<times> pf_cfg) \<times> fl \<times> pf_mode \<times> fl" where
  "auger_view c = (auger c, k_mode_start c, c_mode c, override c)"

lemma auger_fine_view: "auger_view d = auger_view c \<Longrightarrow> auger_fine now d = auger_fine now c"
  by (simp add: auger_view_def auger_def auger_fine_def is_on_def)

lemma off_fine: "\<not> is_on AUGER c \<Longrightarrow> auger_fine now c" by (simp add: auger_fine_def)

section \<open>Switching off works\<close>

lemma works_same: "same wires c d \<Longrightarrow> outs_work (c_out d) = outs_work (c_out c)"
  by (rule outs_work_wiring) (simp add: same_def wires_def)

lemma auger_off: "outs_work (c_out c) \<Longrightarrow> \<not> is_on AUGER (set_out AUGER False c)"
  by (simp add: is_on_def set_out_def pf_outputs_get_def outs_work_get)

lemma auger_stopped: "outs_work (c_out c) \<Longrightarrow> \<not> is_on AUGER (auger_stop_counted now c)"
  using auger_off [of c] by (simp add: auger_stop_counted_def is_on_def)

lemma log_on: "is_on p (db_event l t m c) = is_on p c" by (simp add: is_on_def db_event_def)

section \<open>The outputs of a mode\<close>

lemma feed_step_on:
  assumes "outs_work (c_out c)" "is_on AUGER (feed_step now c)"
  shows "feeds (c_mode c) \<or> c_mode c = MANUAL \<or> \<not> override c \<le> now"
  using assms auger_off [OF assms(1)] by (auto simp: feed_step_def override_def split: if_splits)

lemma auger_rest_on:
  assumes "outs_work (c_out c)" "is_on AUGER (auger_rest now c)"
  shows "\<not> now < k_auger_rest_until c" "auger_rest now c = c"
  using assms auger_stopped [OF assms(1)] by (auto simp: auger_rest_def split: if_splits)

lemma auger_cap_on:
  assumes "outs_work (c_out c)" "is_on AUGER (auger_cap now c)"
  shows "\<not> auger_max_on_s (c_cfg c) < now - k_auger_on_since c" "auger_cap now c = c"
proof -
  have "\<not> is_on AUGER ((auger_stop_counted now c)\<lparr>k_manual_until := m, k_auger_rest_until := r\<rparr>)" for m r
    using auger_stopped [OF assms(1)] by (simp add: is_on_def)
  with assms show "\<not> auger_max_on_s (c_cfg c) < now - k_auger_on_since c" "auger_cap now c = c"
    by (auto simp: auger_cap_def log_on split: if_splits)
qed

lemma auger_follow_override: "override (auger_follow now c) = override c"
  by (simp add: auger_follow_def auger_stop_counted_def set_out_def override_def Let_def)

lemma feed_step_override: "override (feed_step now c) = override c"
  using sameD [OF ov.same_run_hold_cycle [OF same_refl, of c now]] sameD [OF ov.same_smoke_cycle [OF same_refl, of c now]]
  by (simp add: feed_step_def auger_follow_override) (simp add: override_def set_out_def)

lemma expire_override: "\<not> override c \<le> now \<Longrightarrow> \<not> override (expire_manual now c) \<le> now"
  by (auto simp: override_def expire_manual_def)

lemma run_outputs_fine:
  assumes "outs_work (c_out c)" shows "auger_fine now (run_outputs now c)"
proof (cases "is_on AUGER (run_outputs now c)")
  case True
  define c1 where "c1 = watch_lid now c"
  define c2 where "c2 = feed_step now c1"
  define c3 where "c3 = auger_rest now c2"
  define c4 where "c4 = auger_cap now c3"
  define c5 where "c5 = (if c_mode c4 = SMOKE \<or> c_mode c4 = HOLD then run_fan_logic now c4 else c4)"
  have r: "run_outputs now c = expire_manual now c5" by (simp add: run_outputs_def Let_def c1_def c2_def c3_def c4_def c5_def)
  have "same wires c c1" "same wires c c2" "same wires c c3"
    unfolding c3_def c2_def c1_def by (rule same_rule)+
  then have w: "outs_work (c_out c1)" "outs_work (c_out c2)" "outs_work (c_out c3)"
    using assms works_same by blast+
  have a5: "auger c5 = auger c4" "c_mode c5 = c_mode c4" "override c5 = override c4"
    unfolding c5_def by (rule sameD, (rule same_rule)+)+
  have a6: "auger (expire_manual now c5) = auger c5" by (simp add: auger_def expire_manual_def)
  have on4: "is_on AUGER c4" using True r a5 a6 by (simp add: auger_def is_on_def)
  from auger_cap_on [OF w(3), of now, folded c4_def, OF on4]
  have cap: "\<not> auger_max_on_s (c_cfg c3) < now - k_auger_on_since c3" "c4 = c3" .
  with on4 auger_rest_on [OF w(2), of now, folded c3_def] have rest: "\<not> now < k_auger_rest_until c2" "c3 = c2" by auto
  with on4 cap feed_step_on [OF w(1), of now, folded c2_def]
  have "feeds (c_mode c1) \<or> c_mode c1 = MANUAL \<or> \<not> override c1 \<le> now" by simp
  moreover have "c_mode c2 = c_mode c1" "override c2 = override c1" by (simp_all add: c2_def feed_step_override)
  ultimately have "feeds (c_mode c5) \<or> c_mode c5 = MANUAL \<or> \<not> override (expire_manual now c5) \<le> now"
    using a5 cap rest expire_override [of c5 now] by auto
  then show ?thesis
    using cap rest a5 a6 by (auto simp: r auger_fine_def auger_def)
qed (rule off_fine)

section \<open>A change of mode\<close>

lemma prologue_facts:
  shows "since (mode_prologue m now c) = (now, now)"
    and "outs_work (c_out c) \<Longrightarrow> \<not> is_on AUGER (mode_prologue m now c)"
proof -
  define c1 where "c1 = start_mode m now c"
  define c2 where "c2 = (if c_autotune_active c1 then autotune_finish False ''Mode changed.'' c1 else c1)"
  define c3 where "c3 = cycle_cfg_for (upd_safety (\<lambda>s. s\<lparr>igniter_locked_out := False, igniter_on_since := 0, primary_invalid_since := 0\<rparr>)
    (learn_reset_window now c2))"
  have p: "mode_prologue m now c = (set_out AUGER False (set_out IGNITER False c3))\<lparr>k_auger_on_since := now\<rparr>"
    by (simp only: mode_prologue_def Let_def c1_def c2_def c3_def)
  have "same since c1 c3" "same wires c1 (set_out IGNITER False c3)" unfolding c3_def c2_def by (rule same_rule)+
  moreover have "k_mode_start c1 = now" "wires c1 = wires c"
    by (simp_all add: c1_def start_mode_def upd_mod_def wires_def)
  ultimately show "since (mode_prologue m now c) = (now, now)"
    "outs_work (c_out c) \<Longrightarrow> \<not> is_on AUGER (mode_prologue m now c)"
    using works_same [of c "set_out IGNITER False c3"] auger_off [of "set_out IGNITER False c3"]
    by (simp_all add: p since_def same_def is_on_def set_out_def)
qed

lemma stays_off: "same auger c d \<Longrightarrow> \<not> is_on AUGER c \<Longrightarrow> \<not> is_on AUGER d"
  by (simp add: same_def auger_def is_on_def)

lemma all_off_on: "\<not> is_on p (out_all_off c)"
  by (simp add: is_on_def out_all_off_def pf_outputs_get_def)

lemma enter_stop_off: "\<not> is_on AUGER (enter_stop c)"
proof -
  have "\<not> is_on AUGER ((out_all_off c)\<lparr>k_s_plus := False, k_next_mode := STOP\<rparr>)" "is_on AUGER (d\<lparr>k_cook_start_wall := w\<rparr>) = is_on AUGER d"
    for d :: "('a, 'b, 'c, 'd) control_scheme" and w
    using all_off_on [of AUGER c] by (simp_all add: is_on_def)
  moreover have "is_on AUGER (feature f d) = is_on AUGER d" for f and d :: "('a, 'b, 'c, 'd) control_scheme"
    by (simp add: is_on_def feature_def upd_mod_def)
  ultimately show ?thesis by (simp add: enter_stop_def Let_def)
qed

lemma arrive_off:
  assumes "\<not> feeds m" "\<not> is_on AUGER c" shows "\<not> is_on AUGER (arrive prev m now c)"
proof -
  have "\<not> is_on AUGER (enter_error now c)"
  proof -
    have "same auger c (fan_on 100 (set_out POWER True (upd_safety f c)))" for f by (rule same_rule)+
    then show ?thesis using stays_off [OF _ assms(2)] all_off_on by (auto simp: enter_error_def Let_def)
  qed
  moreover have "same auger c (set_out POWER False (set_out FAN False c))" "same auger c (fan_on n (set_out POWER True c))" for n
    by (rule same_rule)+
  then have "\<not> is_on AUGER (set_out POWER False (set_out FAN False c))" "\<not> is_on AUGER (fan_on n (set_out POWER True c))" for n
    using stays_off [OF _ assms(2)] by blast+
  ultimately show ?thesis using assms(1) enter_stop_off by (cases m) (simp_all add: arrive_def feeds_def Let_def)
qed

lemma enter_mode_cfg: "c_cfg (enter_mode m now c) = c_cfg c"
proof -
  have "same c_cfg (start_mode m now c) (arrive prev m now (d\<lparr>k_auger_on_since := now\<rparr>))"
    if "same c_cfg (start_mode m now c) d" for prev d
    by (rule cf.same_arrive) (use that in \<open>simp add: same_def\<close>)
  moreover have "same c_cfg (start_mode m now c) (db_event l x n d)" if "same c_cfg (start_mode m now c) d" for l x n d
    using that by (rule same_rule)
  moreover have "same c_cfg (start_mode m now c) (set_out AUGER False (set_out IGNITER False (cycle_cfg_for (upd_safety f (learn_reset_window now
      (if b then autotune_finish False w (start_mode m now c) else start_mode m now c))))))" for f b w
    by (rule same_rule)+
  ultimately have "same c_cfg (start_mode m now c) (enter_mode m now c)"
    by (simp only: enter_mode_def mode_prologue_def Let_def)
  then show ?thesis by (simp add: same_def start_mode_def upd_mod_def)
qed

lemma enter_mode_since: "since (enter_mode m now c) = (now, now)"
proof -
  have "same since (mode_prologue m now c) (enter_mode m now c)" unfolding enter_mode_def by (rule same_rule)+
  then show ?thesis using prologue_facts(1) [of m now c] by (simp add: same_def)
qed

lemma cap_now: "0 \<le> x \<Longrightarrow> \<not> x < Fin t - Fin t" for x :: fl
  by (cases x) (simp_all add: zero_fl_def)

lemma enter_mode_fine:
  assumes "outs_work (c_out c)" "0 \<le> auger_max_on_s (c_cfg (enter_mode m (Fin t) c))"
  shows "auger_fine (Fin t) (enter_mode m (Fin t) c)"
proof -
  have "feeds m \<or> \<not> is_on AUGER (enter_mode m (Fin t) c)"
    using arrive_off [of m "mode_prologue m (Fin t) c"] prologue_facts(2) [OF assms(1)] by (auto simp: enter_mode_def log_on)
  then show ?thesis
    using enter_mode_since [of m "Fin t" c] cap_now [OF assms(2)] by (auto simp: auger_fine_def since_def)
qed

section \<open>A step\<close>

lemma power_off_fine: "auger_fine now (c\<lparr>k_power_off_requested := b\<rparr>) = auger_fine now c"
  by (rule auger_fine_view) (simp add: auger_view_def auger_def override_def)

lemma leave_startup_fine:
  assumes "outs_work (c_out c)" "0 \<le> auger_max_on_s (c_cfg (leave_startup (Fin t) c))"
  shows "auger_fine (Fin t) (leave_startup (Fin t) c)"
proof -
  obtain nm d where e: "leave_startup (Fin t) c = enter_mode nm (Fin t) d" "same wires c d"
  proof -
    define c1 where "c1 = pf_safety_on_startup_exit (Fin t) c"
    define n0 where "n0 = (if c_mode c1 = REIGNITE then reignite_last (c_safety c1) else k_next_mode c1)"
    define nm where "nm = (if n0 \<noteq> SMOKE \<and> n0 \<noteq> HOLD then SMOKE else n0)"
    define c2 where "c2 = (if nm = HOLD \<and> c_setpoint_c c1 \<le> 0 then c1\<lparr>c_setpoint_c := after_startup_setpoint_c (c_cfg c1)\<rparr> else c1)"
    have "leave_startup (Fin t) c = enter_mode nm (Fin t) (c2\<lparr>k_s_plus := k_s_plus c2 \<or> splus_default (c_cfg c2)\<rparr>)"
      by (simp only: leave_startup_def Let_def c1_def c2_def nm_def n0_def)
    moreover have "same wires c (c2\<lparr>k_s_plus := k_s_plus c2 \<or> splus_default (c_cfg c2)\<rparr>)"
      unfolding c2_def c1_def by (rule same_rule)+
    ultimately show ?thesis using that by blast
  qed
  then show ?thesis using assms enter_mode_fine [of d nm t] works_same [of c d] by simp
qed

lemma end_shutdown_fine:
  assumes "outs_work (c_out c)" "auger_fine (Fin t) c" "0 \<le> auger_max_on_s (c_cfg (end_shutdown (Fin t) c))"
  shows "auger_fine (Fin t) (end_shutdown (Fin t) c)"
  using assms enter_mode_fine [OF assms(1), of STOP t] by (auto simp: end_shutdown_def Let_def power_off_fine split: if_splits)

lemma end_prime_fine:
  assumes "outs_work (c_out c)" "auger_fine (Fin t) c" "0 \<le> auger_max_on_s (c_cfg (end_prime (Fin t) c))"
  shows "auger_fine (Fin t) (end_prime (Fin t) c)"
  using assms enter_mode_fine [OF assms(1), of STOP t] enter_mode_fine [of "c\<lparr>k_next_mode := n\<rparr>" STARTUP t for n]
  by (auto simp: end_prime_def Let_def split: if_splits)

lemma stop_error_fan_off: "\<not> is_on AUGER (stop_error_fan c)"
  by (simp add: stop_error_fan_def all_off_on)

lemma tend_error_fine:
  assumes "auger_fine now c" shows "auger_fine now (tend_error now c)"
proof -
  have "is_on AUGER (tell a b m d) = is_on AUGER d" for a b m and d :: "('a, 'b, 'c, 'd) control_scheme"
    using outD [OF out.same_small(3) [OF same_refl], of a b m d] by (simp add: is_on_def)
  with stop_error_fan_off have "tend_error now c = c \<or> \<not> is_on AUGER (tend_error now c)"
    by (auto simp: tend_error_def Let_def)
  then show ?thesis using assms off_fine by metis
qed

lemma timed_change_fine:
  assumes "outs_work (c_out c)" "auger_fine (Fin t) c" "0 \<le> auger_max_on_s (c_cfg (timed_change (Fin t) c))"
  shows "auger_fine (Fin t) (timed_change (Fin t) c)"
  using assms leave_startup_fine [of c t] end_shutdown_fine [of c t] end_prime_fine [of c t] tend_error_fine [of "Fin t" c]
  by (cases "c_mode c") (auto simp: timed_change_def split: if_splits)

lemma shutdown_input_fine:
  assumes "outs_work (c_out c)" "auger_fine (Fin t) c" "0 \<le> auger_max_on_s (c_cfg (shutdown_input (Fin t) c))"
  shows "auger_fine (Fin t) (shutdown_input (Fin t) c)"
  using assms enter_mode_fine [OF assms(1)] by (auto simp: shutdown_input_def split: if_splits)

lemma shutdown_input_cfg: "c_cfg (shutdown_input now c) = c_cfg c"
  by (simp add: shutdown_input_def enter_mode_cfg)

lemma publish_view: "auger_view ((checkpoint now (publish now c))\<lparr>c_last_step := n\<rparr>) = auger_view c"
proof -
  have "auger ((checkpoint now (publish now c))\<lparr>c_last_step := n\<rparr>) = auger c"
    "since ((checkpoint now (publish now c))\<lparr>c_last_step := n\<rparr>) = since c"
    "override ((checkpoint now (publish now c))\<lparr>c_last_step := n\<rparr>) = override c"
    by (rule sameD, (rule same_rule)+)+
  then show ?thesis by (simp add: auger_view_def since_def)
qed


section \<open>A grill standing under an override\<close>

lemma tick_view:
  assumes "c_mode c = STOP" "\<not> is_on IGNITER c"
  shows "auger_view (supervise now c) = auger_view c"
proof -
  obtain d r where t: "pf_safety_tick now c = (d, r)" by (cases "pf_safety_tick now c")
  have "r = None" "c_out d = c_out c" using tick_idle(1,3) [of c now] assms t by (simp_all add: is_on_def)
  moreover have w: "same_world c d" using pf_safety_tick_world [of c now] t by simp
  ultimately have "auger_view d = auger_view c"
    using world_fields [OF w] by (simp add: auger_view_def auger_def override_def same_world_def)
  moreover have "auger (catch_up d) = auger d" "override (catch_up d) = override d" "c_mode (catch_up d) = c_mode d"
    "k_mode_start (catch_up d) = k_mode_start d"
    by (rule sameD, (rule same_rule)+)+ (simp add: catch_up_def put_services_def Let_def)
  ultimately show ?thesis using \<open>r = None\<close> by (simp add: supervise_def t Let_def auger_view_def)
qed

lemma viewI: "same auger c d \<Longrightarrow> same since c d \<Longrightarrow> same c_mode c d \<Longrightarrow> same override c d \<Longrightarrow> auger_view d = auger_view c"
  by (simp add: same_def auger_view_def since_def)

lemma run_mode_overridden:
  assumes "c_mode c = STOP" "auger_fine now c" "\<not> now < k_auger_rest_until c" "\<not> override c \<le> now"
  shows "auger_view (run_mode now c) = auger_view c"
proof -
  have "run_mode now c = expire_manual now c"
    using assms by (auto simp: run_mode_def watch_lid_def feed_step_def feeds_def auger_rest_def auger_cap_def timed_change_def
      auger_fine_def override_def)
  then show ?thesis using assms(4) by (simp add: auger_view_def auger_def override_def expire_manual_def)
qed

lemma override_goes_on:
  fixes c :: "('i, 's, 'w, 'z) control_scheme"
  assumes rest: "at_rest c" "c_mode c = STOP" "\<not> rr_left_running (k_recipe c)" and clock: "k_mode_start c \<noteq> 0"
    and igniter: "\<not> is_on IGNITER c" and fine: "auger_fine now c" "\<not> now < k_auger_rest_until c" "\<not> override c \<le> now"
  shows "auger_view (pf_control_step now c) = auger_view c"
proof -
  define c1 where "c1 = hold_setpoint (idle_overtemp (read_sensors c))"
  define c3 where "c3 = run_notify now c1"
  define c4 where "c4 = learn_rise_track now c3"
  define c5 where "c5 = supervise now c4"
  have m1: "c_mode c1 = STOP" using rest by (simp add: c1_def)
  then have u: "unlit (c_mode c1)" by (simp add: unlit_def)
  have s1: "same auger c c1" "same since c c1" "same c_mode c c1" "same override c c1" "same c_out c c1" "same k_recipe c c1"
    unfolding c1_def by (rule same_rule)+
  have s4: "same auger c c4" "same since c c4" "same c_mode c c4" "same override c c4" "same c_out c c4" "same k_recipe c c3"
    unfolding c4_def c3_def
    by (rule same_rule aug.same_run_notify_unlit si.same_run_notify_unlit md.same_run_notify_unlit ov.same_run_notify_unlit
        out.same_run_notify_unlit rec.same_run_notify_unlit u s1)+
  have r3: "run_recipe now c3 = c3" "recipe_aftercare c3 = c3"
    using rest sameD [OF s4(6)] by (simp_all add: run_recipe_def recipe_aftercare_def at_rest_def)
  have "start_clocked now c = c" using clock by (simp add: start_clocked_def)
  then have "take_orders now c = read_sensors c" using take_orders_rest [OF rest(1)] by simp
  then have step: "pf_control_step now c = (checkpoint now (publish now (shutdown_input now (run_mode now c5))))\<lparr>c_last_step := now\<rparr>"
    using r3 by (simp add: step_after_orders tend_cook_def c1_def [symmetric] c3_def [symmetric] c4_def c5_def)
  have v4: "auger_view c4 = auger_view c" by (rule viewI) (rule s4)+
  moreover have "auger_view c5 = auger_view c4"
    unfolding c5_def by (rule tick_view) (use s4 rest igniter in \<open>simp_all add: same_def is_on_def\<close>)
  ultimately have v5: "auger_view c5 = auger_view c" by simp
  have "auger_view (run_mode now c5) = auger_view c5"
    by (rule run_mode_overridden) (use v5 rest fine auger_fine_view [OF v5] in \<open>simp_all add: auger_view_def auger_def\<close>)
  with v5 have v6: "auger_view (run_mode now c5) = auger_view c" by simp
  then have "shutdown_input now (run_mode now c5) = run_mode now c5" using rest by (simp add: auger_view_def shutdown_input_def)
  then show ?thesis by (simp add: step publish_view v6)
qed

definition overriding :: "(unit, unit, unit) control" where
  "overriding = (example_control STOP [])\<lparr>c_out := example_outputs\<lparr>g_state := (\<lambda>p. p = AUGER)\<rparr>, k_auger_on_since := 5,
     k_mode_start := 1, k_manual_until := (\<lambda>_. 100)\<rparr>"


end
