(* ===== verification/Learning.thy ===== *)
theory Learning
  imports Control_State
begin

text \<open>
  \<open>src/features/learning.c\<close>: what the grill learns across cooks.  Steady holds are observations, from which
  the heat loss at a set point and a straight line of feed over temperature difference are fitted; steps
  give a plant; relay tests fill a library of at most eight entries, one for a set point, between which gains
  and plants are interpolated.  The table of observations is the list of its rows, newest first; the fits are a
  cache that is marked when what it was made from changes.  A row whose numbers SQLite stores as NULL reads as
  zero.
\<close>

section \<open>The state\<close>

definition PRIOR_B :: fl where "PRIOR_B = 0.004"
definition PRIOR_A :: fl where "PRIOR_A = 0"
definition RIDGE :: fl where "RIDGE = 1"
definition MAX_OBS :: nat where "MAX_OBS = 2000"
definition LOSS_BW_C :: fl where "LOSS_BW_C = 25"
definition ANCHOR_W :: fl where "ANCHOR_W = 3"
definition LOSS_PRIOR_W :: fl where "LOSS_PRIOR_W = 1"
definition PF_FOPDT_METHOD :: int where "PF_FOPDT_METHOD = 2"
definition PF_TUNE_ANCHORS :: nat where "PF_TUNE_ANCHORS = 8"
definition PF_PLANT_FROM_CAPTURE :: int where "PF_PLANT_FROM_CAPTURE = 1"
definition PF_PLANT_FROM_RELAY :: int where "PF_PLANT_FROM_RELAY = 2"

record observation =
  ob_ts :: fl
  ob_controller :: string
  ob_sp :: fl
  ob_amb :: fl
  ob_u :: fl
  ob_stdev :: fl
  ob_pellet :: string

record loss_pt =
  lp_sp :: fl
  lp_g :: fl
  lp_w :: fl

record pf_ff_fit =
  ff_a :: fl
  ff_b :: fl
  ff_n :: nat
  ff_rms :: fl

record stored_fopdt = pf_fopdt +
  fo_ts :: fl
  fo_method :: int

record stored_autotune = pf_autotune_result +
  ar_ts :: fl

record pf_tune_anchor =
  ta_sp :: fl
  ta_Ku :: fl
  ta_Pu :: fl
  ta_PB :: fl
  ta_Ti :: fl
  ta_Td :: fl
  ta_K :: fl
  ta_tau :: fl
  ta_theta :: fl
  ta_ts :: fl
  ta_amb :: fl
  ta_wind :: fl
  ta_load :: fl
  ta_runs :: int
  ta_src :: int
  ta_valid :: bool

record pending_plant =
  pp_sp :: fl
  pp_K :: fl
  pp_tau :: fl
  pp_theta :: fl
  pp_valid :: bool

record learning =
  lr_obs :: "observation list"
  lr_pts :: "loss_pt list"
  lr_gmean :: fl
  lr_fit :: pf_ff_fit
  lr_dirty :: bool
  lr_fopdt :: stored_fopdt
  lr_anchors :: "pf_tune_anchor list"
  lr_gen :: nat
  lr_at :: stored_autotune
  lr_pending :: pending_plant

definition zero_fopdt :: stored_fopdt where
  "zero_fopdt = \<lparr>fo_K = 0, fo_tau = 0, fo_theta = 0, fo_valid = False, fo_ts = 0, fo_method = 0\<rparr>"

definition zero_at :: stored_autotune where
  "zero_at = \<lparr>ar_Ku = 0, ar_Pu = 0, ar_PB_c = 0, ar_Ti = 0, ar_Td = 0, ar_amplitude_c = 0, ar_load = 0, ar_valid = False, ar_ts = 0\<rparr>"

definition zero_anchor :: pf_tune_anchor where
  "zero_anchor = \<lparr>ta_sp = 0, ta_Ku = 0, ta_Pu = 0, ta_PB = 0, ta_Ti = 0, ta_Td = 0, ta_K = 0, ta_tau = 0, ta_theta = 0,
     ta_ts = 0, ta_amb = 0, ta_wind = 0, ta_load = 0, ta_runs = 0, ta_src = 0, ta_valid = False\<rparr>"

definition zero_pending :: pending_plant where
  "zero_pending = \<lparr>pp_sp = 0, pp_K = 0, pp_tau = 0, pp_theta = 0, pp_valid = False\<rparr>"

definition blank_learning :: learning where
  "blank_learning = \<lparr>lr_obs = [], lr_pts = [], lr_gmean = 0, lr_fit = \<lparr>ff_a = 0, ff_b = 0, ff_n = 0, ff_rms = 0\<rparr>, lr_dirty = True,
     lr_fopdt = zero_fopdt, lr_anchors = replicate PF_TUNE_ANCHORS zero_anchor, lr_gen = 0, lr_at = zero_at, lr_pending = zero_pending\<rparr>"

text \<open>A double through SQLite: NaN is stored as NULL and NULL reads as zero.\<close>

definition column_double :: "fl \<Rightarrow> fl" where "column_double x = (if isnan x then 0 else x)"

definition db_open :: "services \<Rightarrow> bool" where "db_open v = es_db_open (sv_ev v)"

section \<open>The library in the database\<close>

definition opt_member :: "string \<Rightarrow> bool \<Rightarrow> json \<Rightarrow> (string \<times> json) list" where
  "opt_member k b j = (if b then [(k, j)] else [])"

definition anchor_json :: "pf_tune_anchor \<Rightarrow> json" where
  "anchor_json a = JObj (
     [(''sp'', jnum (ta_sp a)), (''Ku'', jnum (ta_Ku a)), (''Pu'', jnum (ta_Pu a)), (''PB'', jnum (ta_PB a)),
      (''Ti'', jnum (ta_Ti a)), (''Td'', jnum (ta_Td a))] @
     opt_member ''load'' (0 < ta_load a) (jnum (ta_load a)) @
     (if 0 < ta_K a then [(''K'', jnum (ta_K a)), (''tau'', jnum (ta_tau a)), (''theta'', jnum (ta_theta a)),
                          (''psrc'', JNum (int_to_fl (ta_src a)))] else []) @
     [(''ts'', jnum (ta_ts a)), (''runs'', JNum (int_to_fl (ta_runs a)))] @
     opt_member ''amb'' (\<not> isnan (ta_amb a)) (jnum (ta_amb a)) @
     [(''wind'', jnum (ta_wind a))])"

definition anchors_save :: "learning \<times> services \<Rightarrow> learning \<times> services" where
  "anchors_save = (\<lambda>(l, v).
     (l\<lparr>lr_dirty := True\<rparr>, kv_put ''learning'' ''anchors'' (JArr (map anchor_json (filter ta_valid (lr_anchors l)))) v))"

definition load_anchor :: "json \<Rightarrow> pf_tune_anchor" where
  "load_anchor j =
     (let n = (\<lambda>k d. pf_json_num (Some j) k d)
      in \<lparr>ta_sp = n ''sp'' 0, ta_Ku = n ''Ku'' 0, ta_Pu = n ''Pu'' 0, ta_PB = n ''PB'' 0, ta_Ti = n ''Ti'' 0, ta_Td = n ''Td'' 0,
          ta_K = n ''K'' 0, ta_tau = n ''tau'' 0, ta_theta = n ''theta'' 0, ta_ts = n ''ts'' 0, ta_amb = n ''amb'' NaN,
          ta_wind = n ''wind'' 0, ta_load = n ''load'' 0, ta_runs = pf_json_int (Some j) ''runs'' 1,
          ta_src = pf_json_int (Some j) ''psrc'' PF_PLANT_FROM_CAPTURE,
          ta_valid = (0 < n ''PB'' 0 \<and> 0 < n ''Ti'' 0)\<rparr>)"

definition fill_anchors :: "pf_tune_anchor list \<Rightarrow> pf_tune_anchor list" where
  "fill_anchors as = take PF_TUNE_ANCHORS (as @ replicate PF_TUNE_ANCHORS zero_anchor)"

definition load_fopdt :: "json \<Rightarrow> stored_fopdt" where
  "load_fopdt j =
     (let n = (\<lambda>k d. pf_json_num (Some j) k d)
      in \<lparr>fo_K = n ''K'' 0, fo_tau = n ''tau'' 0, fo_theta = n ''theta'' 0, fo_valid = 0 < n ''tau'' 0, fo_ts = n ''ts'' 0,
          fo_method = pf_json_int (Some j) ''m'' 1\<rparr>)"

definition load_autotune :: "json \<Rightarrow> stored_autotune" where
  "load_autotune j =
     (let n = (\<lambda>k d. pf_json_num (Some j) k d)
      in \<lparr>ar_Ku = n ''Ku'' 0, ar_Pu = n ''Pu'' 0, ar_PB_c = n ''PB_c'' 0, ar_Ti = n ''Ti'' 0, ar_Td = n ''Td'' 0,
          ar_amplitude_c = n ''amplitude_c'' 0, ar_load = 0, ar_valid = 0 < n ''Pu'' 0, ar_ts = n ''ts'' 0\<rparr>)"

definition load_kv :: "learning \<times> services \<Rightarrow> learning \<times> services" where
  "load_kv = (\<lambda>(l, v).
     (l\<lparr>lr_fopdt := (case kv_get ''learning'' ''fopdt'' v of Some j \<Rightarrow> load_fopdt j | None \<Rightarrow> zero_fopdt),
        lr_anchors := fill_anchors (map load_anchor (j_children (kv_get ''learning'' ''anchors'' v))),
        lr_at := (case kv_get ''learning'' ''autotune'' v of Some j \<Rightarrow> load_autotune j | None \<Rightarrow> zero_at)\<rparr>, v))"

section \<open>Plants\<close>

text \<open>The relay fixes the point of phase \<open>-pi\<close>; \<open>tau\<close> comes from elsewhere.\<close>

definition plant_from_relay :: "fl \<Rightarrow> fl \<Rightarrow> fl \<Rightarrow> fl \<times> fl" where
  "plant_from_relay Ku Pu tau =
     (let wu = 2 * C_PI / Pu in (fl_sqrt (1 + wu * tau * wu * tau) / Ku, (C_PI - fl_atan (wu * tau)) / wu))"

definition heal_anchor_plant :: "pf_tune_anchor \<Rightarrow> pf_tune_anchor \<times> bool" where
  "heal_anchor_plant a =
     (if \<not> ta_valid a \<or> ta_src a = PF_PLANT_FROM_RELAY then (a, False)
      else if \<not> 0 < ta_Ku a \<or> \<not> 0 < ta_Pu a \<or> \<not> 0 < ta_tau a then (a, False)
      else (case plant_from_relay (ta_Ku a) (ta_Pu a) (ta_tau a) of (K, theta) \<Rightarrow>
              if \<not> 0 < K \<or> \<not> 0 < theta then (a, False)
              else (a\<lparr>ta_K := K, ta_theta := theta, ta_src := PF_PLANT_FROM_RELAY\<rparr>, True)))"

definition pf_learning_init :: "learning \<times> services \<Rightarrow> learning \<times> services" where
  "pf_learning_init x =
     (case load_kv x of (l, v) \<Rightarrow>
        (let healed = map heal_anchor_plant (lr_anchors l);
             l = l\<lparr>lr_anchors := map fst healed\<rparr>;
             (l, v) = (if \<exists>h \<in> set healed. snd h then anchors_save (l, v) else (l, v))
         in (l\<lparr>lr_dirty := True\<rparr>, v)))"

text \<open>A relay's plant replaces a capture's, a capture's never dilutes a relay's, two of a kind are averaged.\<close>

definition anchor_take_plant :: "fl \<Rightarrow> fl \<Rightarrow> fl \<Rightarrow> int \<Rightarrow> pf_tune_anchor \<Rightarrow> pf_tune_anchor" where
  "anchor_take_plant K tau theta src a =
     (if 0 < ta_K a \<and> src = PF_PLANT_FROM_CAPTURE \<and> ta_src a = PF_PLANT_FROM_RELAY then a
      else (let w = (if ta_K a \<le> 0 \<or> src = PF_PLANT_FROM_RELAY \<and> ta_src a \<noteq> PF_PLANT_FROM_RELAY then 1
                     else fmax (1 / int_to_fl (if 0 < ta_runs a then ta_runs a else 1)) 0.25)
            in a\<lparr>ta_src := src, ta_K := ta_K a + (K - ta_K a) * w, ta_tau := ta_tau a + (tau - ta_tau a) * w,
                 ta_theta := ta_theta a + (theta - ta_theta a) * w\<rparr>))"

definition pf_learning_store_fopdt :: "fl \<Rightarrow> fl \<Rightarrow> fl \<Rightarrow> learning \<times> services \<Rightarrow> learning \<times> services" where
  "pf_learning_store_fopdt K tau theta = (\<lambda>(l, v).
     (let o1 = lr_fopdt l; same = fo_valid o1 \<and> PF_FOPDT_METHOD \<le> fo_method o1;
          blend = (\<lambda>x y. if same then 0.5 * (x + y) else x);
          K = blend K (fo_K o1); tau = blend tau (fo_tau o1); theta = blend theta (fo_theta o1); ts = sv_wall v
      in (l\<lparr>lr_fopdt := o1\<lparr>fo_K := K, fo_tau := tau, fo_theta := theta, fo_ts := ts, fo_valid := True, fo_method := PF_FOPDT_METHOD\<rparr>\<rparr>,
          kv_put ''learning'' ''fopdt'' (printed_object [(''K'', decimals 4 K), (''tau'', decimals 1 tau),
            (''theta'', decimals 1 theta), (''ts'', decimals 0 ts), (''m'', int_to_fl PF_FOPDT_METHOD)]) v)))"

definition pf_learning_store_autotune :: "pf_autotune_result \<Rightarrow> learning \<times> services \<Rightarrow> learning \<times> services" where
  "pf_learning_store_autotune r = (\<lambda>(l, v).
     (let s = \<lparr>ar_Ku = ar_Ku r, ar_Pu = ar_Pu r, ar_PB_c = ar_PB_c r, ar_Ti = ar_Ti r, ar_Td = ar_Td r,
                ar_amplitude_c = ar_amplitude_c r, ar_load = ar_load r, ar_valid = 0 < ar_Pu r, ar_ts = sv_wall v\<rparr>
      in (l\<lparr>lr_at := s, lr_gen := (lr_gen l + 1) mod 2 ^ 32\<rparr>,
          kv_put ''learning'' ''autotune'' (printed_object [(''Ku'', decimals 5 (ar_Ku r)), (''Pu'', decimals 1 (ar_Pu r)),
            (''PB_c'', decimals 2 (ar_PB_c r)), (''Ti'', decimals 1 (ar_Ti r)), (''Td'', decimals 1 (ar_Td r)),
            (''amplitude_c'', decimals 2 (ar_amplitude_c r)), (''ts'', decimals 0 (ar_ts s))]) v)))"

section \<open>The library\<close>

definition near :: "fl \<Rightarrow> pf_tune_anchor \<Rightarrow> bool" where "near sp a \<longleftrightarrow> ta_valid a \<and> \<bar>ta_sp a - sp\<bar> < 5"

text \<open>How alone an entry is, weighted by how well it was measured; in a full library the least goes.\<close>

definition nearest_gap :: "pf_tune_anchor list \<Rightarrow> nat \<Rightarrow> fl" where
  "nearest_gap as i =
     foldl (\<lambda>best j. if j = i \<or> \<not> ta_valid (as ! j) then best
                     else (let d = \<bar>ta_sp (as ! i) - ta_sp (as ! j)\<bar> in if d < best then d else best))
       (Fin (10 ^ 9)) [0..<length as]"

definition worth :: "pf_tune_anchor list \<Rightarrow> nat \<Rightarrow> fl" where
  "worth as i = nearest_gap as i * (1 + 0.25 * int_to_fl (if 4 < ta_runs (as ! i) then 4 else ta_runs (as ! i)))"

definition least_useful :: "pf_tune_anchor list \<Rightarrow> nat" where
  "least_useful as =
     fst (foldl (\<lambda>(slot, least) i. if worth as i < least then (i, worth as i) else (slot, least)) (0, PInf) [0..<length as])"

definition slot_of :: "fl \<Rightarrow> pf_tune_anchor list \<Rightarrow> nat option" where
  "slot_of sp as =
     (case find_index (near sp) as of Some i \<Rightarrow> Some i | None \<Rightarrow> find_index (\<lambda>a. \<not> ta_valid a) as)"

definition anchor_slot :: "fl \<Rightarrow> pf_tune_anchor list \<Rightarrow> nat" where
  "anchor_slot sp as = (case slot_of sp as of Some i \<Rightarrow> i | None \<Rightarrow> least_useful as)"

text \<open>What a measurement makes of its entry, before the plant.\<close>

definition refine_weight :: "fl \<Rightarrow> pf_tune_anchor \<Rightarrow> fl" where
  "refine_weight sp a = (if near sp a then fmax (1 / int_to_fl (ta_runs a + 1)) 0.25 else 1)"

definition refine :: "fl \<Rightarrow> pf_autotune_result \<Rightarrow> fl \<Rightarrow> fl \<Rightarrow> fl \<Rightarrow> pf_tune_anchor \<Rightarrow> pf_tune_anchor" where
  "refine sp r amb wind ts a =
     (let w = refine_weight sp a;
          a = (if 1 \<le> w
               then a\<lparr>ta_Ku := ar_Ku r, ta_Pu := ar_Pu r, ta_PB := ar_PB_c r, ta_Ti := ar_Ti r, ta_Td := ar_Td r,
                      ta_load := ar_load r, ta_runs := 1\<rparr>
               else a\<lparr>ta_Ku := ta_Ku a + (ar_Ku r - ta_Ku a) * w, ta_Pu := ta_Pu a + (ar_Pu r - ta_Pu a) * w,
                      ta_PB := ta_PB a + (ar_PB_c r - ta_PB a) * w, ta_Ti := ta_Ti a + (ar_Ti r - ta_Ti a) * w,
                      ta_Td := ta_Td a + (ar_Td r - ta_Td a) * w,
                      ta_load := (if 0 < ar_load r
                                  then if 0 < ta_load a then ta_load a + (ar_load r - ta_load a) * w else ar_load r
                                  else ta_load a),
                      ta_runs := ta_runs a + 1\<rparr>)
      in a\<lparr>ta_sp := sp, ta_ts := ts, ta_amb := amb, ta_wind := wind, ta_valid := True\<rparr>)"

text \<open>The static gain between two settled holds, or through the ambient.\<close>

definition other_hold :: "fl \<Rightarrow> nat \<Rightarrow> pf_tune_anchor list \<Rightarrow> pf_tune_anchor option" where
  "other_hold sp slot as =
     foldl (\<lambda>best i. let b = as ! i
              in if \<not> ta_valid b \<or> i = slot \<or> ta_load b \<le> 0 \<or> \<bar>ta_sp b - sp\<bar> < 30 then best
                 else (case best of None \<Rightarrow> Some b | Some c \<Rightarrow> if \<bar>ta_sp b - sp\<bar> < \<bar>ta_sp c - sp\<bar> then Some b else best))
       None [0..<length as]"

definition static_gain :: "fl \<Rightarrow> fl \<Rightarrow> fl \<Rightarrow> pf_tune_anchor option \<Rightarrow> fl" where
  "static_gain sp load amb best =
     (let by_ambient = (if 0 < load \<and> \<not> isnan amb \<and> 40 < sp - amb then (sp - amb) / load else 0);
          K = (case best of
                 Some b \<Rightarrow> if 0 < load \<and> 0.03 < \<bar>load - ta_load b\<bar> then (sp - ta_sp b) / (load - ta_load b) else by_ambient
               | None \<Rightarrow> by_ambient)
      in if \<not> (80 < K \<and> K < 3000) then 0 else K)"

definition waits :: "fl \<Rightarrow> pending_plant \<Rightarrow> bool" where "waits sp p \<longleftrightarrow> pp_valid p \<and> \<bar>pp_sp p - sp\<bar> < 5"

definition capture_tau :: "fl \<Rightarrow> pf_tune_anchor \<Rightarrow> learning \<Rightarrow> fl" where
  "capture_tau sp a l =
     (if waits sp (lr_pending l) then pp_tau (lr_pending l)
      else if 0 < ta_tau a then ta_tau a
      else if fo_valid (lr_fopdt l) then fo_tau (lr_fopdt l) else 0)"

definition holds_plant :: "fl \<Rightarrow> pf_autotune_result \<Rightarrow> (fl \<times> fl) option" where
  "holds_plant K r =
     (if 0 < ar_Ku r \<and> 0 < ar_Pu r \<and> 0 < K
      then (case pf_plant_from_relay (ar_Ku r) (ar_Pu r) K of
              Some (tau, theta) \<Rightarrow> if 30 < tau \<and> tau < 7200 then Some (tau, theta) else None
            | None \<Rightarrow> None)
      else None)"

text \<open>The plant filed with the measurement, and whether the one that waited is used up.\<close>

definition file_anchor_plant :: "fl \<Rightarrow> pf_autotune_result \<Rightarrow> fl \<Rightarrow> nat \<Rightarrow> pf_tune_anchor list \<Rightarrow> learning \<Rightarrow> pf_tune_anchor \<Rightarrow> pf_tune_anchor \<times> bool" where
  "file_anchor_plant sp r amb slot as l a =
     (let tau_src = capture_tau sp a l; p = lr_pending l;
          K = static_gain sp (ar_load r) amb (other_hold sp slot as)
      in case holds_plant K r of
           Some (tau, theta) \<Rightarrow> (anchor_take_plant K tau theta PF_PLANT_FROM_RELAY a, True)
         | None \<Rightarrow>
             (if 0 < ar_Ku r \<and> 0 < ar_Pu r \<and> 0 < tau_src
              then (case plant_from_relay (ar_Ku r) (ar_Pu r) tau_src of (K, theta) \<Rightarrow>
                      (anchor_take_plant K tau_src theta PF_PLANT_FROM_RELAY a, True))
              else if waits sp p
              then (anchor_take_plant (pp_K p) (pp_tau p) (pp_theta p) PF_PLANT_FROM_CAPTURE a, True)
              else (a, False)))"

definition pf_learning_store_anchor :: "fl \<Rightarrow> pf_autotune_result \<Rightarrow> fl \<Rightarrow> fl \<Rightarrow> learning \<times> services \<Rightarrow> learning \<times> services" where
  "pf_learning_store_anchor sp r amb wind = (\<lambda>(l, v).
     (if ar_PB_c r \<le> 0 \<or> ar_Ti r \<le> 0 then (l, v)
      else (let as = lr_anchors l; slot = anchor_slot sp as; a = refine sp r amb wind (sv_wall v) (as ! slot)
            in case file_anchor_plant sp r amb slot as l a of (a, used) \<Rightarrow>
                 anchors_save (l\<lparr>lr_anchors := as[slot := a],
                   lr_pending := (if used then (lr_pending l)\<lparr>pp_valid := False\<rparr> else lr_pending l)\<rparr>, v))))"

definition pf_learning_anchor_load :: "fl \<Rightarrow> learning \<Rightarrow> fl" where
  "pf_learning_anchor_load sp l = (case List.find (near sp) (lr_anchors l) of Some a \<Rightarrow> ta_load a | None \<Rightarrow> 0)"

definition pf_learning_remove_anchor :: "fl \<Rightarrow> learning \<times> services \<Rightarrow> (learning \<times> services) \<times> int" where
  "pf_learning_remove_anchor sp = (\<lambda>(l, v).
     (case find_index (near sp) (lr_anchors l) of
        Some i \<Rightarrow> (anchors_save (l\<lparr>lr_anchors := (lr_anchors l)[i := zero_anchor]\<rparr>, v), 0)
      | None \<Rightarrow> ((l, v), -1)))"

definition pf_learning_put_anchor :: "pf_tune_anchor \<Rightarrow> learning \<times> services \<Rightarrow> learning \<times> services" where
  "pf_learning_put_anchor a = (\<lambda>(l, v).
     (if \<not> ta_valid a \<or> ta_PB a \<le> 0 \<or> ta_Ti a \<le> 0 then (l, v)
      else (case slot_of (ta_sp a) (lr_anchors l) of
              Some i \<Rightarrow> anchors_save (l\<lparr>lr_anchors := (lr_anchors l)[i := a\<lparr>ta_valid := True\<rparr>]\<rparr>, v)
            | None \<Rightarrow> (l, v))))"

definition pf_learning_store_anchor_plant :: "fl \<Rightarrow> fl \<Rightarrow> fl \<Rightarrow> fl \<Rightarrow> learning \<times> services \<Rightarrow> learning \<times> services" where
  "pf_learning_store_anchor_plant sp K tau theta = (\<lambda>(l, v).
     (if \<not> 0 < K \<or> \<not> 0 < tau then (l, v)
      else (case find_index (\<lambda>a. ta_valid a \<and> \<not> 5 \<le> \<bar>ta_sp a - sp\<bar>) (lr_anchors l) of
              Some i \<Rightarrow> anchors_save (l\<lparr>lr_anchors := (lr_anchors l)[i := anchor_take_plant K tau theta PF_PLANT_FROM_CAPTURE (lr_anchors l ! i)]\<rparr>, v)
            | None \<Rightarrow> (l\<lparr>lr_pending := \<lparr>pp_sp = sp, pp_K = K, pp_tau = tau, pp_theta = theta, pp_valid = True\<rparr>\<rparr>, v))))"

section \<open>The fits\<close>

text \<open>\<open>pow(0.5, x)\<close>.\<close>

fun half_pow :: "fl \<Rightarrow> fl" where
  "half_pow (Fin r) = Fin (2 powr (- r))"
| "half_pow PInf = 0"
| "half_pow NInf = PInf"
| "half_pow NaN = NaN"

definition half_life :: "settings \<Rightarrow> fl" where
  "half_life st = (let h = pf_set_num ''learning.half_life_obs'' 60 st; h = (if \<not> 1 \<le> h then 60 else h) in if h < 5 then 5 else h)"

text \<open>The newest rows: temperature difference, feed, set point and weight of each.\<close>

definition obs_rows :: "settings \<Rightarrow> learning \<Rightarrow> (fl \<times> fl \<times> fl \<times> fl) list" where
  "obs_rows st l =
     map (\<lambda>(rank, r). (column_double (ob_sp r - ob_amb r), column_double (ob_u r), column_double (ob_sp r),
                       half_pow (num rank / half_life st)))
       (enumerate 0 (take MAX_OBS (lr_obs l)))"

definition obs_points :: "(fl \<times> fl \<times> fl \<times> fl) list \<Rightarrow> loss_pt list" where
  "obs_points rows =
     map (\<lambda>(x, y, sp, w). \<lparr>lp_sp = sp, lp_g = y / x, lp_w = w\<rparr>) (filter (\<lambda>(x, y, sp, w). 15 < x \<and> 0 < y \<and> y < 1) rows)"

definition anchor_ambient :: "pf_tune_anchor \<Rightarrow> fl" where
  "anchor_ambient a = (if isnan (ta_amb a) \<or> ta_amb a < -30 \<or> 60 < ta_amb a then 20 else ta_amb a)"

definition anchor_points :: "pf_tune_anchor list \<Rightarrow> loss_pt list" where
  "anchor_points as =
     map (\<lambda>a. \<lparr>lp_sp = ta_sp a, lp_g = ta_load a / (ta_sp a - anchor_ambient a), lp_w = ANCHOR_W\<rparr>)
       (filter (\<lambda>a. ta_valid a \<and> 0 < ta_load a \<and> 15 < ta_sp a - anchor_ambient a) as)"

definition point_mean :: "loss_pt list \<Rightarrow> fl" where
  "point_mean ps =
     (let gw = fl_sum (map lp_w ps); gs = fl_sum (map (\<lambda>p. lp_w p * lp_g p) ps) in if 0 < gw then gs / gw else PRIOR_B)"

text \<open>The sums of the normal equations, the prior's two virtual points first.\<close>

definition XP :: fl where "XP = 100"

definition normal_sums :: "(fl \<times> fl \<times> fl \<times> fl) list \<Rightarrow> fl \<times> fl \<times> fl \<times> fl \<times> fl" where
  "normal_sums rows =
     foldl (\<lambda>(sw, sx, sy, sxx, sxy) (x, y, sp, w). (sw + w, sx + w * x, sy + w * y, sxx + w * x * x, sxy + w * x * y))
       (RIDGE + RIDGE, 0 + RIDGE * XP, RIDGE * PRIOR_A + RIDGE * (PRIOR_A + PRIOR_B * XP), 0 + RIDGE * XP * XP,
        0 + RIDGE * XP * (PRIOR_A + PRIOR_B * XP)) rows"

definition fit_line :: "fl \<times> fl \<times> fl \<times> fl \<times> fl \<Rightarrow> fl \<times> fl" where
  "fit_line = (\<lambda>(sw, sx, sy, sxx, sxy).
     (let det = sw * sxx - sx * sx; scale = sw * sxx;
          b = (if 0 < scale \<and> scale * Fin (1 / 10 ^ 9) < det then (sw * sxy - sx * sy) / det else PRIOR_B);
          a = (if 0 < sw then (sy - b * sx) / sw else 0);
          (a, b) = (if \<not> isfinite b \<or> \<not> isfinite a then (0, PRIOR_B) else (a, b))
      in if b < 0 then (if 0 < sw then sy / sw else 0, 0) else (a, b)))"

definition refit :: "settings \<Rightarrow> learning \<Rightarrow> learning" where
  "refit st l =
     (let rows = obs_rows st l;
          ps = obs_points rows @ anchor_points (lr_anchors l);
          n = length rows;
          (a, b) = fit_line (normal_sums rows);
          ss = fl_sum (map (\<lambda>(x, y, _). let e = y - (a + b * x) in e * e) rows)
      in l\<lparr>lr_pts := ps, lr_gmean := point_mean ps,
           lr_fit := \<lparr>ff_a = a, ff_b = b, ff_n = n, ff_rms = (if n \<noteq> 0 then fl_sqrt (ss / num n) else 0)\<rparr>, lr_dirty := False\<rparr>)"

definition pf_learning_fit :: "services \<Rightarrow> learning \<Rightarrow> learning \<times> pf_ff_fit" where
  "pf_learning_fit v l = (let l = (if lr_dirty l \<and> db_open v then refit (sv_set v) l else l) in (l, lr_fit l))"

text \<open>The loss at a set point, and how much evidence was near it.\<close>

definition near_weight :: "fl \<Rightarrow> loss_pt \<Rightarrow> fl" where
  "near_weight sp p = (let d = (sp - lp_sp p) / LOSS_BW_C in lp_w p * fl_exp (-0.5 * d * d))"

definition loss_at :: "fl \<Rightarrow> learning \<Rightarrow> fl \<times> fl" where
  "loss_at sp l =
     (let base = (if lr_pts l \<noteq> [] then lr_gmean l else PRIOR_B);
          (sw, s, evid) = foldl (\<lambda>(sw, s, evid) p. let w = near_weight sp p in (sw + w, s + w * lp_g p, evid + w))
             (LOSS_PRIOR_W, LOSS_PRIOR_W * base, 0) (lr_pts l)
      in (s / sw, evid))"

definition uff_raw :: "fl \<Rightarrow> fl \<Rightarrow> learning \<Rightarrow> fl" where
  "uff_raw sp amb l =
     (let dT = sp - amb; dT = (if dT < 0 then 0 else dT)
      in if lr_pts l = [] then PRIOR_B * dT * 0.85
         else (case loss_at sp l of (g, evid) \<Rightarrow> (let trust = evid / (evid + 0.5) in g * dT * (0.85 + 0.15 * trust))))"

definition pf_learning_uff :: "fl \<Rightarrow> fl \<Rightarrow> fl \<Rightarrow> fl \<Rightarrow> services \<Rightarrow> learning \<Rightarrow> learning \<times> fl \<times> nat" where
  "pf_learning_uff sp amb u_lo u_hi v l =
     (case pf_learning_fit v l of (l, f) \<Rightarrow>
        (let u = uff_raw sp (if isnan amb then 20 else amb) l
         in (l, pf_clamp u u_lo (fmax u_lo (u_hi - 0.15)), ff_n f)))"

definition pf_learning_hold_gain :: "fl \<Rightarrow> fl \<Rightarrow> services \<Rightarrow> learning \<Rightarrow> learning \<times> fl" where
  "pf_learning_hold_gain sp min_support v l =
     (let l = fst (pf_learning_fit v l); (g, evid) = (if lr_pts l \<noteq> [] then loss_at sp l else (0, 0))
      in (l, if Fin (1 / 10 ^ 5) < g \<and> min_support \<le> evid then 1 / g else 0))"

definition pf_learning_enabled :: "services \<Rightarrow> bool" where
  "pf_learning_enabled v = pf_set_bool ''learning.enabled'' True (sv_set v)"

definition pf_learning_observe :: "string \<Rightarrow> fl \<Rightarrow> fl \<Rightarrow> fl \<Rightarrow> fl \<Rightarrow> string \<Rightarrow> services \<Rightarrow> learning \<Rightarrow> learning" where
  "pf_learning_observe ctl sp amb u stdev pellet v l =
     (if \<not> pf_learning_enabled v \<or> \<not> db_open v then l
      else l\<lparr>lr_obs := \<lparr>ob_ts = sv_wall v, ob_controller = ctl, ob_sp = sp, ob_amb = amb, ob_u = u, ob_stdev = stdev, ob_pellet = pellet\<rparr> # lr_obs l,
             lr_dirty := True\<rparr>)"

section \<open>What the library answers\<close>

text \<open>The entries on either side of a set point, the nearest on each.\<close>

definition lower :: "fl \<Rightarrow> pf_tune_anchor list \<Rightarrow> pf_tune_anchor option" where
  "lower sp as =
     foldl (\<lambda>lo a. if ta_sp a \<le> sp \<and> (case lo of None \<Rightarrow> True | Some b \<Rightarrow> ta_sp b < ta_sp a) then Some a else lo) None as"

definition upper :: "fl \<Rightarrow> pf_tune_anchor list \<Rightarrow> pf_tune_anchor option" where
  "upper sp as =
     foldl (\<lambda>hi a. if sp \<le> ta_sp a \<and> (case hi of None \<Rightarrow> True | Some b \<Rightarrow> ta_sp a < ta_sp b) then Some a else hi) None as"

text \<open>How far between the two, when they are two.\<close>

definition between :: "fl \<Rightarrow> pf_tune_anchor option \<Rightarrow> pf_tune_anchor option \<Rightarrow> (pf_tune_anchor \<times> pf_tune_anchor \<times> fl) option" where
  "between sp lo hi =
     (case (lo, hi) of
        (Some a, Some b) \<Rightarrow> if ta_sp a < ta_sp b then Some (a, b, (sp - ta_sp a) / (ta_sp b - ta_sp a)) else None
      | _ \<Rightarrow> None)"

definition mix :: "fl \<Rightarrow> fl \<Rightarrow> fl \<Rightarrow> fl" where "mix f x y = x + f * (y - x)"

definition pf_learning_gains :: "fl \<Rightarrow> learning \<Rightarrow> (fl \<times> fl \<times> fl) option" where
  "pf_learning_gains sp l =
     (let as = filter ta_valid (lr_anchors l); lo = lower sp as; hi = upper sp as
      in case between sp lo hi of
           Some (a, b, f) \<Rightarrow> Some (mix f (ta_PB a) (ta_PB b), mix f (ta_Ti a) (ta_Ti b), mix f (ta_Td a) (ta_Td b))
         | None \<Rightarrow> (case (if lo \<noteq> None then lo else hi) of Some a \<Rightarrow> Some (ta_PB a, ta_Ti a, ta_Td a) | None \<Rightarrow> None))"

definition pf_learning_plant :: "fl \<Rightarrow> learning \<Rightarrow> (fl \<times> fl \<times> fl) option" where
  "pf_learning_plant sp l =
     (let as = filter (\<lambda>a. ta_valid a \<and> 0 < ta_K a \<and> 0 < ta_tau a) (lr_anchors l); lo = lower sp as; hi = upper sp as;
          one = (\<lambda>a. Some (ta_K a, ta_tau a, ta_theta a))
      in case (if lo \<noteq> None then lo else hi) of
           Some a \<Rightarrow>
             (case between sp lo hi of
                Some (a, b, f) \<Rightarrow> if 0 \<le> f then Some (mix f (ta_K a) (ta_K b), mix f (ta_tau a) (ta_tau b), mix f (ta_theta a) (ta_theta b))
                                  else one a
              | None \<Rightarrow> one a)
         | None \<Rightarrow>
             (let p = lr_fopdt l
              in if \<not> fo_valid p \<or> fo_method p < PF_FOPDT_METHOD then None else Some (fo_K p, fo_tau p, fo_theta p)))"

definition pf_learning_fopdt :: "learning \<Rightarrow> stored_fopdt" where "pf_learning_fopdt l = lr_fopdt l"
definition pf_learning_autotune :: "learning \<Rightarrow> stored_autotune" where "pf_learning_autotune l = lr_at l"
definition pf_learning_autotune_gen :: "learning \<Rightarrow> nat" where "pf_learning_autotune_gen l = lr_gen l"

text \<open>The list shown, sorted by insertion from the right.\<close>

definition sink_anchor :: "pf_tune_anchor \<Rightarrow> pf_tune_anchor list \<Rightarrow> pf_tune_anchor list" where
  "sink_anchor a xs =
     (let later = takeWhile (\<lambda>b. ta_sp a < ta_sp b) (rev xs)
      in take (length xs - length later) xs @ a # rev later)"

definition pf_learning_anchor_list :: "nat \<Rightarrow> learning \<Rightarrow> pf_tune_anchor list" where
  "pf_learning_anchor_list n l = foldl (\<lambda>out a. sink_anchor a out) [] (take n (filter ta_valid (lr_anchors l)))"

section \<open>How long a climb takes\<close>

definition pf_learning_time_to :: "fl \<Rightarrow> fl \<Rightarrow> fl \<Rightarrow> fl \<Rightarrow> services \<Rightarrow> learning \<Rightarrow> learning \<times> fl" where
  "pf_learning_time_to from_c to_c amb u_hi v l =
     (if \<not> from_c < to_c then (l, -1)
      else (case pf_learning_plant to_c l of
              None \<Rightarrow> (l, -1)
            | Some (K, tau, theta) \<Rightarrow>
                (if \<not> 0 < tau then (l, -1)
                 else (case pf_learning_fit v l of (l, f) \<Rightarrow>
                   (if ff_n f < 3 \<or> \<not> Fin (1 / 10 ^ 6) < ff_b f then (l, -1)
                    else (let u_hi = (if \<not> 0 < u_hi then 0.9 else u_hi);
                              t_inf = amb + (u_hi - ff_a f) / ff_b f
                          in if \<not> to_c + 1 < t_inf \<or> \<not> from_c < t_inf then (l, -1)
                             else (let t = theta + tau * fl_ln ((t_inf - from_c) / (t_inf - to_c))
                                   in (l, if 0 < t \<and> t < 86400 \<and> isfinite t then t else -1))))))))"

text \<open>The climb under the controller's own law, a second at a time.  Rings hold the feed on its way and the
  controller's model of it.\<close>

definition CLIMB_S :: nat where "CLIMB_S = 21600"
definition RING :: nat where "RING = 1024"

record climb =
  cl_ring :: "fl list"
  cl_mring :: "fl list"
  cl_T :: fl
  cl_mdl :: fl
  cl_derv :: fl
  cl_star :: "nat option"

record climb_plan =
  cp_K :: fl
  cp_tau :: fl
  cp_th :: nat
  cp_PB :: fl
  cp_Td :: fl
  cp_t0 :: fl
  cp_now :: fl
  cp_to :: fl
  cp_amb :: fl
  cp_u_lo :: fl
  cp_u_hi :: fl

definition climb_uff :: "climb_plan \<Rightarrow> fl" where
  "climb_uff p = pf_clamp ((cp_to p - cp_amb p) / cp_K p) (cp_u_lo p) (cp_u_hi p)"

definition climb_feed :: "climb_plan \<Rightarrow> nat \<Rightarrow> climb \<Rightarrow> fl" where
  "climb_feed p t s =
     (if 0 < cp_PB p
      then (let surplus = pf_clamp (cp_K p * (cl_mdl s - cl_mring s ! ((t + RING - cp_th p) mod RING))) (-100) 100;
                e = (cl_T s - cp_to p) + surplus
            in pf_clamp (climb_uff p - e / cp_PB p - cp_Td p * cl_derv s / cp_PB p) (cp_u_lo p) (cp_u_hi p))
      else if cl_T s < cp_to p then cp_u_hi p else climb_uff p)"

definition climb_second :: "climb_plan \<Rightarrow> nat \<Rightarrow> climb \<Rightarrow> climb" where
  "climb_second p t s =
     (let u = climb_feed p t s;
          u_in = cl_ring s ! ((t + RING - cp_th p) mod RING);
          dT = (- (cl_T s - cp_amb p) + cp_K p * u_in) / cp_tau p;
          T = cl_T s + dT;
          mdl = cl_mdl s + (u - cl_mdl s) / cp_tau p
      in s\<lparr>cl_ring := (cl_ring s)[t mod RING := u], cl_T := T,
           cl_derv := cl_derv s + (dT - cl_derv s) / (fmax 20 (cp_Td p / 4) + 1),
           cl_mdl := mdl, cl_mring := (cl_mring s)[t mod RING := mdl],
           cl_star := (if cl_star s = None \<and> cp_now p \<le> T \<and> cp_t0 p + 1 < T then Some t else cl_star s)\<rparr>)"

text \<open>The seconds left bound the run; the second it arrives and the second the real pit stands at.\<close>

fun climb_run :: "climb_plan \<Rightarrow> nat \<Rightarrow> climb \<Rightarrow> (nat \<times> nat option) option" where
  "climb_run p 0 s = None"
| "climb_run p (Suc n) s =
     (let t = CLIMB_S - Suc n; s = climb_second p t s
      in if cp_to p - 1 \<le> cl_T s then Some (t, cl_star s) else climb_run p n s)"

definition climb_start :: "climb_plan \<Rightarrow> climb" where
  "climb_start p =
     (let u_pre = pf_clamp ((cp_t0 p - cp_amb p) / cp_K p) 0 (cp_u_hi p)
      in \<lparr>cl_ring = replicate RING u_pre, cl_mring = replicate RING u_pre, cl_T = cp_t0 p, cl_mdl = u_pre, cl_derv = 0, cl_star = None\<rparr>)"

definition climb_paced :: "climb_plan \<Rightarrow> fl \<Rightarrow> fl \<Rightarrow> nat \<Rightarrow> nat \<Rightarrow> fl" where
  "climb_paced p theta elapsed arrive star =
     (let t = num (arrive - star); gone = cp_now p - cp_t0 p
      in if cp_t0 p + 5 < cp_now p \<and> cp_th p < star \<and> num (cp_th p) < elapsed
         then (let t = t * pf_clamp (elapsed / num star) 0.5 3;
                   avg = gone / fmax 30 (elapsed - theta);
                   by_rate = (if Fin (1 / 10 ^ 4) < avg then (cp_to p - cp_now p) / avg else t);
                   w = pf_clamp (gone / (cp_to p - cp_t0 p)) 0 1
               in (1 - w) * t + w * by_rate)
         else t)"

definition climb_left :: "climb_plan \<Rightarrow> fl \<Rightarrow> fl \<Rightarrow> fl" where
  "climb_left p theta elapsed =
     (case climb_run p CLIMB_S (climb_start p) of
        None \<Rightarrow> -1
      | Some (arrive, star) \<Rightarrow>
          (let t = (case star of
                      Some s \<Rightarrow> if cp_now p \<le> cp_t0 p + 1 then num arrive - fmin elapsed (num (cp_th p))
                                else climb_paced p theta elapsed arrive s
                    | None \<Rightarrow> num arrive - fmin elapsed (num (cp_th p)))
           in if 0 < t then t else 0))"

definition pf_learning_climb_eta :: "fl \<Rightarrow> fl \<Rightarrow> fl \<Rightarrow> fl \<Rightarrow> fl \<Rightarrow> fl \<Rightarrow> fl \<Rightarrow> learning \<Rightarrow> fl" where
  "pf_learning_climb_eta t0 elapsed now_c to_c amb u_lo u_hi l =
     (if \<not> now_c + 1 < to_c then 0
      else (case pf_learning_plant to_c l of
              None \<Rightarrow> -1
            | Some (K, tau, theta) \<Rightarrow>
                (if \<not> 0 < tau \<or> \<not> 0 < K then -1
                 else (let (band, deriv) = (case pf_learning_gains to_c l of
                                         Some (b, i, d) \<Rightarrow> if 0 < b then (b, d) else (0, 0) | None \<Rightarrow> (0, 0));
                           u_hi = (if \<not> 0 < u_hi then 0.9 else u_hi);
                           u_lo = (if \<not> 0 \<le> u_lo \<or> u_hi \<le> u_lo then 0.1 else u_lo);
                           t0 = (if \<not> isfinite t0 \<or> now_c < t0 then now_c else t0);
                           elapsed = (if \<not> 0 \<le> elapsed then 0 else elapsed);
                           theta = fmin (fmax 0 theta) 900
                       in if \<not> to_c + 1 < amb + K * u_hi then -1
                          else climb_left \<lparr>cp_K = K, cp_tau = tau, cp_th = nat (fl_to_int (theta + 0.5)), cp_PB = band, cp_Td = deriv,
                                 cp_t0 = t0, cp_now = now_c, cp_to = to_c, cp_amb = amb, cp_u_lo = u_lo, cp_u_hi = u_hi\<rparr> theta elapsed))))"

section \<open>Clearing\<close>

definition pf_learning_clear_anchors :: "learning \<times> services \<Rightarrow> learning \<times> services" where
  "pf_learning_clear_anchors = (\<lambda>(l, v). anchors_save (l\<lparr>lr_anchors := replicate PF_TUNE_ANCHORS zero_anchor\<rparr>, v))"

definition pf_learning_forget :: "learning \<times> services \<Rightarrow> learning \<times> services" where
  "pf_learning_forget = (\<lambda>(l, v). (l\<lparr>lr_obs := (if db_open v then [] else lr_obs l), lr_dirty := True\<rparr>, v))"

definition kv_drop :: "string \<Rightarrow> string \<Rightarrow> services \<Rightarrow> services" where
  "kv_drop ns key v = (if db_open v then v\<lparr>sv_kv := (sv_kv v)((ns, key) := None)\<rparr> else v)"

definition pf_learning_clear_tuning :: "learning \<times> services \<Rightarrow> learning \<times> services" where
  "pf_learning_clear_tuning = (\<lambda>(l, v).
     anchors_save (l\<lparr>lr_fopdt := zero_fopdt, lr_at := zero_at, lr_anchors := replicate PF_TUNE_ANCHORS zero_anchor\<rparr>,
       kv_drop ''learning'' ''autotune'' (kv_drop ''learning'' ''fopdt'' v)))"

definition pf_learning_reset :: "learning \<times> services \<Rightarrow> learning \<times> services" where
  "pf_learning_reset x = pf_learning_forget (pf_learning_clear_tuning x)"

section \<open>What is shown\<close>

definition rounded :: "fl \<Rightarrow> fl \<Rightarrow> json" where "rounded k x = jnum (fl_round (x * k) / k)"

definition example_json :: "pf_units \<Rightarrow> learning \<Rightarrow> fl \<Rightarrow> json" where
  "example_json u l spf =
     (let spc = pf_f_to_c spf; (g, evid) = loss_at spc l
      in JObj [(''setpoint'', jnum (fl_round (pf_from_c spc u))), (''u'', rounded 1000 (uff_raw spc 20 l)),
               (''loss'', rounded 100000 g), (''support'', rounded 10 evid)])"

definition observation_json :: "pf_units \<Rightarrow> observation \<Rightarrow> json" where
  "observation_json u r =
     JObj [(''ts'', jnum (column_double (ob_ts r))), (''controller'', JStr (ob_controller r)),
           (''setpoint'', jnum (fl_round (pf_from_c (column_double (ob_sp r)) u))),
           (''ambient'', jnum (fl_round (pf_from_c (column_double (ob_amb r)) u))),
           (''u'', rounded 1000 (column_double (ob_u r))), (''pellet'', JStr (ob_pellet r))]"

definition pf_learning_json :: "services \<Rightarrow> learning \<Rightarrow> learning \<times> json" where
  "pf_learning_json v l =
     (let u = pf_settings_units (sv_set v); (l, f) = pf_learning_fit v l; p = lr_fopdt l; s = lr_at l
      in (l, JObj [
         (''enabled'', JBool (pf_learning_enabled v)),
         (''feedforward'', JObj [(''a'', jnum (ff_a f)), (''b_per_degC'', jnum (ff_b f)), (''observations'', jnum (num (ff_n f))),
            (''rms'', jnum (ff_rms f)), (''examples'', JArr (map (example_json u l) [180, 225, 270, 315])),
            (''example_ambient'', jnum (fl_round (pf_from_c 20 u)))]),
         (''plant'', JObj [(''valid'', JBool (fo_valid p)), (''K'', jnum (if fo_valid p then pf_delta_from_c (fo_K p) u else 0)),
            (''tau'', jnum (fo_tau p)), (''theta'', jnum (fo_theta p)), (''ts'', jnum (fo_ts p))]),
         (''autotune'', JObj [(''valid'', JBool (ar_valid s)), (''Ku'', jnum (ar_Ku s)), (''Pu'', jnum (ar_Pu s)),
            (''PB'', if ar_valid s then rounded 10 (pf_delta_from_c (ar_PB_c s) u) else jnum 0), (''Ti'', jnum (fl_round (ar_Ti s))),
            (''Td'', jnum (fl_round (ar_Td s))),
            (''amplitude'', if ar_valid s then rounded 10 (pf_delta_from_c (ar_amplitude_c s) u) else jnum 0), (''ts'', jnum (ar_ts s))]),
         (''recent'', JArr (if db_open v then map (observation_json u) (take 20 (lr_obs l)) else []))]))"

section \<open>Backup\<close>

definition PF_TUNE_EXPORT_KIND :: string where "PF_TUNE_EXPORT_KIND = ''pifire-tuning''"
definition PF_TUNE_EXPORT_VER :: fl where "PF_TUNE_EXPORT_VER = 1"

definition anchor_export :: "pf_tune_anchor \<Rightarrow> json" where
  "anchor_export a = JObj (
     [(''setpoint_c'', jnum (ta_sp a)), (''Ku'', jnum (ta_Ku a)), (''Pu'', jnum (ta_Pu a)), (''PB_c'', jnum (ta_PB a)),
      (''Ti'', jnum (ta_Ti a)), (''Td'', jnum (ta_Td a))] @
     (if 0 < ta_K a then [(''K'', jnum (ta_K a)), (''tau'', jnum (ta_tau a)), (''theta'', jnum (ta_theta a)),
                          (''plant_src'', JNum (int_to_fl (ta_src a)))] else []) @
     opt_member ''load'' (0 < ta_load a) (jnum (ta_load a)) @
     [(''ts'', jnum (ta_ts a)), (''runs'', JNum (int_to_fl (ta_runs a)))] @
     opt_member ''ambient_c'' (\<not> isnan (ta_amb a)) (jnum (ta_amb a)) @
     [(''wind'', jnum (ta_wind a))])"

text \<open>The version of the daemon is in it where the build defines one.\<close>

definition pf_learning_export :: "string option \<Rightarrow> services \<Rightarrow> learning \<Rightarrow> learning \<times> json" where
  "pf_learning_export daemon v l =
     (let st = sv_set v; cid = fst (pf_set_str ''controller.selected'' 40 ''adaptive'' st);
          cfg = pf_set_dup (sn 96 (''controller.config.'' @ take 40 cid)) st;
          (l, f) = pf_learning_fit v l; m = lr_fopdt l
      in (l, JObj (
         [(''kind'', JStr PF_TUNE_EXPORT_KIND), (''version'', jnum PF_TUNE_EXPORT_VER), (''exported_at'', jnum (sv_wall v)),
          (''units'', JStr ''C''), (''grill'', JStr (fst (pf_set_str ''globals.grill_name'' 64 ''PiFire'' st)))] @
         (case daemon of Some d \<Rightarrow> [(''daemon'', JStr d)] | None \<Rightarrow> []) @
         [(''controller'', JObj ((''id'', JStr cid) # (case cfg of Some j \<Rightarrow> [(''config'', j)] | None \<Rightarrow> []))),
          (''feedforward'', JObj [(''a'', jnum (ff_a f)), (''b'', jnum (ff_b f)), (''n'', jnum (num (ff_n f))), (''rms'', jnum (ff_rms f))])] @
         opt_member ''plant'' (fo_valid m)
           (JObj [(''K'', jnum (fo_K m)), (''tau'', jnum (fo_tau m)), (''theta'', jnum (fo_theta m)), (''ts'', jnum (fo_ts m))]) @
         [(''anchors'', JArr (map anchor_export (filter ta_valid (pf_learning_anchor_list PF_TUNE_ANCHORS l))))])))"

definition import_anchor :: "fl \<Rightarrow> json \<Rightarrow> pf_tune_anchor" where
  "import_anchor wall j =
     (let n = (\<lambda>k d. pf_json_num (Some j) k d)
      in \<lparr>ta_sp = n ''setpoint_c'' 0, ta_Ku = n ''Ku'' 0, ta_Pu = n ''Pu'' 0, ta_PB = n ''PB_c'' 0, ta_Ti = n ''Ti'' 0,
          ta_Td = n ''Td'' 0, ta_K = n ''K'' 0, ta_tau = n ''tau'' 0, ta_theta = n ''theta'' 0, ta_ts = n ''ts'' wall,
          ta_amb = n ''ambient_c'' NaN, ta_wind = n ''wind'' 0, ta_load = n ''load'' 0, ta_runs = pf_json_int (Some j) ''runs'' 1,
          ta_src = pf_json_int (Some j) ''plant_src'' PF_PLANT_FROM_CAPTURE, ta_valid = True\<rparr>)"

definition import_one_anchor :: "json \<Rightarrow> (learning \<times> services) \<times> nat \<Rightarrow> (learning \<times> services) \<times> nat" where
  "import_one_anchor j = (\<lambda>(x, k).
     (let a = import_anchor (sv_wall (snd x)) j
      in if ta_sp a \<le> 0 \<or> ta_PB a \<le> 0 \<or> ta_Ti a \<le> 0 then (x, k) else (pf_learning_put_anchor a x, k + 1)))"

definition pf_learning_import :: "json \<Rightarrow> learning \<times> services \<Rightarrow> (learning \<times> services) \<times> (string + nat)" where
  "pf_learning_import doc x =
     (if \<not> j_is_obj (Some doc) \<or> pf_json_str (Some doc) ''kind'' [] \<noteq> PF_TUNE_EXPORT_KIND
      then (x, Inl ''that is not a PiFire tuning backup'')
      else if PF_TUNE_EXPORT_VER < pf_json_num (Some doc) ''version'' 0
      then (x, Inl ''that backup was written by a newer version of PiFire'')
      else (case j_get ''anchors'' doc of
              Some (JArr es) \<Rightarrow>
                (case fold import_one_anchor es (pf_learning_clear_anchors x, 0) of
                   (x, k) \<Rightarrow>
                     (case j_get ''plant'' doc of
                        Some (JObj ms) \<Rightarrow>
                          (let n = (\<lambda>k. pf_json_num (Some (JObj ms)) k 0)
                           in (pf_learning_store_fopdt (n ''K'') (n ''tau'') (n ''theta'') x, Inr k))
                      | _ \<Rightarrow> (x, Inr k)))
            | _ \<Rightarrow> (x, Inl ''the backup has no tuning library in it'')))"

end
