(* ===== verification/Learning_Correct.thy ===== *)
theory Learning_Correct
  imports Learning Notify_Correct
begin

text \<open>
  What holds of the learning across cooks: the line fitted to the holds is usable whatever the rows hold, the
  fits kept in memory are those of the data at every answer, gains and plants interpolated from the library lie
  between what was measured, a repeat measurement moves an entry part of the way, and the library written to the
  database is the one read back.
\<close>

section \<open>The fitted line\<close>

lemma fin_mult: "isfinite (x * y) \<Longrightarrow> isfinite x \<and> isfinite y" for x y :: fl
  by (cases x; cases y; simp split: if_splits)

lemma fin_minus: "isfinite (x - y) \<longleftrightarrow> isfinite x \<and> isfinite y" for x y :: fl
  by (cases x; cases y; simp)

lemma neg_quotient:
  fixes x d :: fl
  assumes "x / d < 0" "isfinite (x / d)" "0 < d" shows "isfinite x" "isfinite d"
  using assms by (cases x; cases d; simp split: if_splits)+

lemma fin_quotient: "isfinite x \<Longrightarrow> 0 < d \<Longrightarrow> isfinite d \<Longrightarrow> isfinite (x / d)" for x d :: fl
  by (cases x; cases d; simp)

lemma pos_scaled:
  fixes s d :: fl
  assumes "0 < s" "s * Fin (1 / 10 ^ 9) < d" shows "0 < d"
  using assms by (cases s; cases d; simp split: if_splits)

lemma fit_line_usable:
  assumes "fit_line nsums = (a, b)" shows "isfinite a \<and> isfinite b \<and> 0 \<le> b"
proof -
  obtain sw sx sy sxx sxy where s: "nsums = (sw, sx, sy, sxx, sxy)" by (cases nsums) auto
  define det where "det = sw * sxx - sx * sx"
  define b1 where "b1 = (if 0 < sw * sxx \<and> sw * sxx * Fin (1 / 10 ^ 9) < det then (sw * sxy - sx * sy) / det else PRIOR_B)"
  define a1 where "a1 = (if 0 < sw then (sy - b1 * sx) / sw else 0)"
  have f: "(a, b) = (let (a, b) = (if \<not> isfinite b1 \<or> \<not> isfinite a1 then (0, PRIOR_B) else (a1, b1))
      in if b < 0 then (if 0 < sw then sy / sw else 0, 0) else (a, b))"
    using assms unfolding fit_line_def s det_def b1_def a1_def Let_def prod.case by (rule sym)
  show ?thesis
  proof (cases "isfinite b1 \<and> isfinite a1 \<and> b1 < 0")
    case True
    then have u: "b1 = (sw * sxy - sx * sy) / det" "0 < sw * sxx" "sw * sxx * Fin (1 / 10 ^ 9) < det"
      by (auto simp: b1_def PRIOR_B_def split: if_splits)
    then have d: "0 < det" using pos_scaled by blast
    with True u have fin: "isfinite (sw * sxy - sx * sy)" "isfinite det" using neg_quotient [of "sw * sxy - sx * sy" det] by auto
    then have "isfinite sy" "isfinite sw" using fin_minus fin_mult by blast+
    then have "isfinite (if 0 < sw then sy / sw else 0)" using fin_quotient by simp
    with True f show ?thesis by simp
  next
    case False
    then show ?thesis
      using f by (cases b1; cases a1) (auto simp: PRIOR_B_def split: if_splits)
  qed
qed

text \<open>Whatever the observations hold, infinities and NaN among them, the line the feed is judged by has a
  finite intercept and a finite slope that is not negative.\<close>

theorem fit_is_usable:
  "isfinite (ff_a (lr_fit (refit st l))) \<and> isfinite (ff_b (lr_fit (refit st l))) \<and> 0 \<le> ff_b (lr_fit (refit st l))"
  using fit_line_usable [of "normal_sums (obs_rows st l)"] by (cases "fit_line (normal_sums (obs_rows st l))") (simp add: refit_def Let_def)

section \<open>The fits kept in memory\<close>

text \<open>What the fits are made from, and the fits.\<close>

definition evidence :: "learning \<Rightarrow> observation list \<times> pf_tune_anchor list" where
  "evidence l = (lr_obs l, lr_anchors l)"

definition fits :: "learning \<Rightarrow> loss_pt list \<times> fl \<times> pf_ff_fit" where "fits l = (lr_pts l, lr_gmean l, lr_fit l)"

lemma fits_of_evidence: "evidence l = evidence k \<Longrightarrow> fits (refit st l) = fits (refit st k)"
  by (simp add: evidence_def fits_def refit_def obs_rows_def Let_def split: prod.split)

lemma refit_keeps [simp]: "evidence (refit st l) = evidence l" "lr_dirty (refit st l) = False"
  by (simp_all add: evidence_def refit_def Let_def split: prod.split)

datatype learn_op =
    Observe string fl fl fl fl string
  | Fit
  | StoreFopdt fl fl fl
  | StoreAutotune pf_autotune_result
  | StoreAnchor fl pf_autotune_result fl fl
  | StorePlant fl fl fl fl
  | PutAnchor pf_tune_anchor
  | RemoveAnchor fl
  | ClearAnchors
  | Forget
  | ClearTuning
  | Import json

fun learn_exec :: "learn_op \<Rightarrow> learning \<times> services \<Rightarrow> learning \<times> services" where
  "learn_exec (Observe ctl sp amb u sd pellet) (l, v) = (pf_learning_observe ctl sp amb u sd pellet v l, v)"
| "learn_exec Fit (l, v) = (fst (pf_learning_fit v l), v)"
| "learn_exec (StoreFopdt K tau theta) x = pf_learning_store_fopdt K tau theta x"
| "learn_exec (StoreAutotune r) x = pf_learning_store_autotune r x"
| "learn_exec (StoreAnchor sp r amb wind) x = pf_learning_store_anchor sp r amb wind x"
| "learn_exec (StorePlant sp K tau theta) x = pf_learning_store_anchor_plant sp K tau theta x"
| "learn_exec (PutAnchor a) x = pf_learning_put_anchor a x"
| "learn_exec (RemoveAnchor sp) x = fst (pf_learning_remove_anchor sp x)"
| "learn_exec ClearAnchors x = pf_learning_clear_anchors x"
| "learn_exec Forget x = pf_learning_forget x"
| "learn_exec ClearTuning x = pf_learning_clear_tuning x"
| "learn_exec (Import j) x = fst (pf_learning_import j x)"

text \<open>The settings and the database stay; the fits are marked or those of the evidence.\<close>

definition current :: "learning \<times> services \<Rightarrow> bool" where
  "current x \<longleftrightarrow> lr_dirty (fst x) \<or> fits (fst x) = fits (refit (sv_set (snd x)) (fst x))"

definition same_base :: "learning \<times> services \<Rightarrow> learning \<times> services \<Rightarrow> bool" where
  "same_base x y \<longleftrightarrow> sv_set (snd y) = sv_set (snd x) \<and> db_open (snd y) = db_open (snd x)"

lemma kv_base [simp]: "sv_set (kv_put a b j v) = sv_set v" "db_open (kv_put a b j v) = db_open v"
  "sv_set (kv_drop a b v) = sv_set v" "db_open (kv_drop a b v) = db_open v"
  by (simp_all add: kv_put_def kv_drop_def db_open_def)

lemma saved_marked [simp]: "lr_dirty (fst (anchors_save x)) = True" "same_base (k, v) (anchors_save (l, v)) \<longleftrightarrow> True"
  by (auto simp: anchors_save_def same_base_def split: prod.split)

lemma same_base_refl [simp]: "same_base x x" by (simp add: same_base_def)

lemma same_base_trans: "same_base x y \<Longrightarrow> same_base y z \<Longrightarrow> same_base x z" by (simp add: same_base_def)

lemma current_marked: "lr_dirty (fst x) \<Longrightarrow> current x" by (simp add: current_def)

lemma current_kept:
  assumes "current (l, v)" "evidence k = evidence l" "fits k = fits l" "lr_dirty k = lr_dirty l" "sv_set w = sv_set v"
  shows "current (k, w)"
  using assms fits_of_evidence [of k l "sv_set v"] by (simp add: current_def)

lemma put_anchor_current:
  "current x \<Longrightarrow> current (pf_learning_put_anchor a x)" "same_base x (pf_learning_put_anchor a x)"
  by (cases x; auto simp: pf_learning_put_anchor_def current_marked split: option.split)+

lemma import_anchors_current:
  "current (fst y) \<Longrightarrow> current (fst (fold import_one_anchor es y)) \<and> same_base (fst y) (fst (fold import_one_anchor es y))"
proof (induction es arbitrary: y)
  case (Cons e es)
  have "current (fst (import_one_anchor e y))" "same_base (fst y) (fst (import_one_anchor e y))"
    using Cons.prems put_anchor_current by (auto simp: import_one_anchor_def Let_def split: prod.split)
  with Cons.IH [of "import_one_anchor e y"] show ?case using same_base_trans by auto
qed simp

lemma store_fopdt_current:
  "current x \<Longrightarrow> current (pf_learning_store_fopdt K tau theta x)" "same_base x (pf_learning_store_fopdt K tau theta x)"
  by (cases x; auto simp: pf_learning_store_fopdt_def Let_def same_base_def evidence_def fits_def elim: current_kept)+

lemma clear_anchors_current: "current (pf_learning_clear_anchors x)" "same_base x (pf_learning_clear_anchors x)"
  by (cases x; simp add: pf_learning_clear_anchors_def current_marked)+

lemma import_current:
  fixes x :: "learning \<times> services"
  assumes "current x" shows "current (fst (pf_learning_import j x)) \<and> same_base x (fst (pf_learning_import j x))"
proof -
  define ok where "ok z \<longleftrightarrow> current z \<and> same_base x z" for z
  have s: "ok (pf_learning_store_fopdt K tau theta z)" if "ok z" for K tau theta z
    using that store_fopdt_current same_base_trans unfolding ok_def by blast
  have plant: "ok (fst (case y of (z, k) \<Rightarrow> case p of
        Some (JObj ms) \<Rightarrow> (pf_learning_store_fopdt (K ms) (tau ms) (theta ms) z, e k) | _ \<Rightarrow> (z, e k)))"
    if "ok (fst y)" for y :: "(learning \<times> services) \<times> nat" and p K tau theta and e :: "nat \<Rightarrow> string + nat"
    using that s by (auto split: option.split json.split prod.split)
  have "ok (fst (fold import_one_anchor es (pf_learning_clear_anchors x, 0)))" for es
    using import_anchors_current [of "(pf_learning_clear_anchors x, 0)" es] clear_anchors_current [of x] same_base_trans
    unfolding ok_def by fastforce
  note filed = plant [OF this]
  have "ok x" using assms by (simp add: ok_def)
  then have "ok (fst (pf_learning_import j x))"
    unfolding pf_learning_import_def Let_def by (auto simp only: fst_conv split: option.split json.split if_splits intro: filed)
  then show ?thesis by (simp add: ok_def)
qed

lemma learn_exec_current:
  assumes "current x" shows "current (learn_exec c x) \<and> same_base x (learn_exec c x)"
proof (cases c)
  case (Import j)
  then show ?thesis using import_current [OF assms, of j] by simp
next
  case (StoreFopdt K tau theta)
  then show ?thesis using store_fopdt_current [of x K tau theta] assms by simp
next
  case (PutAnchor a)
  then show ?thesis using put_anchor_current [of x a] assms by simp
next
  case (StoreAutotune r)
  then show ?thesis
    using assms by (cases x) (auto simp: pf_learning_store_autotune_def Let_def same_base_def evidence_def fits_def elim: current_kept)
next
  case Fit
  then show ?thesis
    using assms fits_of_evidence [of "refit (sv_set (snd x)) (fst x)" "fst x" "sv_set (snd x)"]
    by (cases x) (auto simp: pf_learning_fit_def current_def Let_def same_base_def)
next
  case (StorePlant sp K tau theta)
  then show ?thesis
    using assms by (cases x) (auto simp: pf_learning_store_anchor_plant_def same_base_def evidence_def fits_def current_marked
        elim: current_kept split: option.split; simp add: anchors_save_def)
next
  case (RemoveAnchor sp)
  then show ?thesis
    using assms by (cases x) (auto simp: pf_learning_remove_anchor_def current_marked split: option.split)
next
  case (StoreAnchor sp r amb wind)
  then show ?thesis
    using assms by (cases x) (auto simp: pf_learning_store_anchor_def Let_def current_marked split: prod.split)
qed (use assms in \<open>cases x; auto simp: pf_learning_observe_def pf_learning_clear_anchors_def pf_learning_forget_def
    pf_learning_clear_tuning_def current_marked same_base_def anchors_save_def\<close>)+

lemma learn_run_current:
  "current x \<Longrightarrow> current (fold learn_exec cs x) \<and> same_base x (fold learn_exec cs x)"
proof (induction cs arbitrary: x)
  case (Cons c cs)
  then show ?case using learn_exec_current [of x c] same_base_trans [of x "learn_exec c x"] by (simp del: learn_exec.simps)
qed simp

text \<open>C17. An answer is never stale.  From the start of the daemon on, in any order of observations, tuning runs,
  removals, clearings, backups put back and answers given in between, the fit an answer is taken from is the one
  the observations and the library of that moment give.\<close>

theorem answers_are_current:
  assumes "pf_learning_init (l0, v0) = x" "db_open (snd x)" "fold learn_exec cs x = (l, v)"
  shows "snd (pf_learning_fit v l) = lr_fit (refit (sv_set v) l) \<and>
    lr_pts (fst (pf_learning_fit v l)) = lr_pts (refit (sv_set v) l) \<and>
    lr_gmean (fst (pf_learning_fit v l)) = lr_gmean (refit (sv_set v) l)"
proof -
  have "lr_dirty (fst x)" using assms(1) by (auto simp: pf_learning_init_def Let_def split: prod.splits)
  then have "current x" by (rule current_marked)
  from learn_run_current [OF this, of cs] assms(2,3) have "current (l, v)" "db_open v"
    by (simp_all add: same_base_def del: learn_exec.simps)
  then show ?thesis by (auto simp: pf_learning_fit_def current_def fits_def Let_def)
qed

theorem answers_are_current_witness:
  "snd (pf_learning_fit example_services (fst (learn_exec Forget (pf_learning_init (blank_learning, example_services))))) =
     lr_fit (refit (sv_set example_services) (fst (learn_exec Forget (pf_learning_init (blank_learning, example_services)))))"
proof -
  obtain l where i: "pf_learning_init (blank_learning, example_services) = (l, example_services)"
    by (auto simp: pf_learning_init_def load_kv_def kv_get_def example_services_def fill_anchors_def heal_anchor_plant_def
        zero_anchor_def PF_TUNE_ANCHORS_def Let_def)
  have "db_open example_services" by (simp add: db_open_def example_services_def events_example_def)
  then show ?thesis
    using answers_are_current [of blank_learning example_services "(l, example_services)" "[Forget]"]
    by (simp add: i pf_learning_forget_def)
qed

section \<open>The library between its entries\<close>

fun val :: "fl \<Rightarrow> real" where "val (Fin r) = r" | "val _ = 0"

lemma fin_val: "isfinite x \<Longrightarrow> x = Fin (val x)" by (cases x) simp_all

definition finite_entry :: "pf_tune_anchor \<Rightarrow> bool" where
  "finite_entry a \<longleftrightarrow> isfinite (ta_sp a) \<and> isfinite (ta_PB a) \<and> isfinite (ta_Ti a) \<and> isfinite (ta_Td a)"

text \<open>The search for the entry nearest on one side, on any key.\<close>

lemma best_none:
  "foldl (\<lambda>best a. if P a \<and> (case best of None \<Rightarrow> True | Some b \<Rightarrow> R a b) then Some a else best) None as = None \<longleftrightarrow>
     (\<forall>a \<in> set as. \<not> P a)"
  by (induction as rule: rev_induct) (auto split: option.splits)

lemma best_some:
  fixes k :: "'a \<Rightarrow> real"
  assumes "\<And>a. a \<in> set as \<Longrightarrow> P a \<longleftrightarrow> k a \<le> s" "\<And>a b. a \<in> set as \<Longrightarrow> b \<in> set as \<Longrightarrow> R a b \<longleftrightarrow> k b < k a"
    "foldl (\<lambda>best a. if P a \<and> (case best of None \<Rightarrow> True | Some b \<Rightarrow> R a b) then Some a else best) None as = Some a"
  shows "a \<in> set as \<and> k a \<le> s \<and> (\<forall>c \<in> set as. k c \<le> s \<longrightarrow> k c \<le> k a)"
  using assms
proof (induction as arbitrary: a rule: rev_induct)
  case (snoc x xs)
  let ?best = "foldl (\<lambda>best a. if P a \<and> (case best of None \<Rightarrow> True | Some b \<Rightarrow> R a b) then Some a else best) None xs"
  show ?case
  proof (cases ?best)
    case None
    then have "\<forall>c \<in> set xs. \<not> k c \<le> s" using snoc.prems(1) by (simp add: best_none)
    with None snoc.prems show ?thesis by (auto split: if_splits)
  next
    case (Some b)
    have b: "b \<in> set xs" "k b \<le> s" "\<forall>c \<in> set xs. k c \<le> s \<longrightarrow> k c \<le> k b"
      using snoc.IH [OF _ _ Some] snoc.prems(1,2) by auto
    have "P x \<longleftrightarrow> k x \<le> s" "R x b \<longleftrightarrow> k b < k x" using snoc.prems(1,2) b(1) by simp_all
    moreover have "Some a = (if P x \<and> R x b then Some x else Some b)" using snoc.prems(3) Some by simp
    ultimately have "a = (if k x \<le> s \<and> k b < k x then x else b)" by (auto split: if_splits)
    moreover have "c \<in> set xs \<or> c = x" if "c \<in> set (xs @ [x])" for c using that by auto
    ultimately show ?thesis using b by (auto split: if_splits)
  qed
qed simp

lemma side_none:
  "lower s as = None \<longleftrightarrow> (\<forall>a \<in> set as. \<not> ta_sp a \<le> s)" "upper s as = None \<longleftrightarrow> (\<forall>a \<in> set as. \<not> s \<le> ta_sp a)"
  by (simp_all only: lower_def upper_def best_none)

lemma finite_keys:
  "finite_entry a \<Longrightarrow> ta_sp a \<le> Fin s \<longleftrightarrow> val (ta_sp a) \<le> s"
  "finite_entry a \<Longrightarrow> Fin s \<le> ta_sp a \<longleftrightarrow> s \<le> val (ta_sp a)"
  "finite_entry a \<Longrightarrow> finite_entry b \<Longrightarrow> ta_sp b < ta_sp a \<longleftrightarrow> val (ta_sp b) < val (ta_sp a)"
  by (cases "ta_sp a"; cases "ta_sp b"; simp add: finite_entry_def)+

lemma lower_some:
  assumes "\<forall>a \<in> set as. finite_entry a" "lower (Fin s) as = Some a"
  shows "a \<in> set as \<and> val (ta_sp a) \<le> s \<and> (\<forall>c \<in> set as. val (ta_sp c) \<le> s \<longrightarrow> val (ta_sp c) \<le> val (ta_sp a))"
  by (rule best_some [OF _ _ assms(2) [unfolded lower_def]]) (simp_all add: finite_keys assms(1))

lemma upper_some:
  assumes "\<forall>a \<in> set as. finite_entry a" "upper (Fin s) as = Some a"
  shows "a \<in> set as \<and> s \<le> val (ta_sp a) \<and> (\<forall>c \<in> set as. s \<le> val (ta_sp c) \<longrightarrow> val (ta_sp a) \<le> val (ta_sp c))"
proof -
  have "a \<in> set as \<and> - val (ta_sp a) \<le> - s \<and> (\<forall>c \<in> set as. - val (ta_sp c) \<le> - s \<longrightarrow> - val (ta_sp c) \<le> - val (ta_sp a))"
    by (rule best_some [OF _ _ assms(2) [unfolded upper_def]]) (simp_all add: finite_keys assms(1))
  then show ?thesis by simp
qed

text \<open>What a set point is answered from: two neighbours and how far between them it lies, or one entry at
  the end of the range.\<close>

definition neighbours :: "real \<Rightarrow> pf_tune_anchor list \<Rightarrow> pf_tune_anchor \<Rightarrow> pf_tune_anchor \<Rightarrow> real \<Rightarrow> bool" where
  "neighbours s as a b f \<longleftrightarrow> a \<in> set as \<and> b \<in> set as \<and> 0 \<le> f \<and> f \<le> 1 \<and>
     (s = val (ta_sp a) + f * (val (ta_sp b) - val (ta_sp a)) \<or>
      a = b \<and> ((\<forall>c \<in> set as. val (ta_sp c) \<le> val (ta_sp a)) \<and> val (ta_sp a) < s \<or>
                (\<forall>c \<in> set as. val (ta_sp a) \<le> val (ta_sp c)) \<and> s < val (ta_sp a))) \<and>
     (\<forall>c \<in> set as. \<not> (val (ta_sp a) < val (ta_sp c) \<and> val (ta_sp c) < val (ta_sp b)))"

lemma between_neighbours:
  assumes fin: "\<forall>a \<in> set as. finite_entry a" and b: "between (Fin s) (lower (Fin s) as) (upper (Fin s) as) = Some (a, b, f)"
  shows "f = Fin (val f) \<and> neighbours s as a b (val f)"
proof -
  have lo: "lower (Fin s) as = Some a" and hi: "upper (Fin s) as = Some b" and lt: "ta_sp a < ta_sp b"
    and f: "f = (Fin s - ta_sp a) / (ta_sp b - ta_sp a)"
    using b by (auto simp: between_def split: option.splits if_splits)
  note l = lower_some [OF fin lo] and h = upper_some [OF fin hi]
  obtain x y where e: "ta_sp a = Fin x" "ta_sp b = Fin y" using l h fin fin_val by (metis finite_entry_def)
  have ab: "x < y" using lt e by simp
  have fv: "f = Fin ((s - x) / (y - x))" using f e ab by simp
  have "\<not> (x < val (ta_sp c) \<and> val (ta_sp c) < y)" if "c \<in> set as" for c
    using l h e that by (cases "val (ta_sp c) \<le> s") force+
  moreover have "0 \<le> (s - x) / (y - x)" "(s - x) / (y - x) \<le> 1" "s = x + (s - x) / (y - x) * (y - x)"
    using l h e ab by (simp_all add: divide_le_eq)
  ultimately show ?thesis using l h e by (auto simp: neighbours_def fv)
qed

lemma one_neighbour:
  assumes fin: "\<forall>a \<in> set as. finite_entry a" and b: "between (Fin s) (lower (Fin s) as) (upper (Fin s) as) = None"
    and one: "(if lower (Fin s) as \<noteq> None then lower (Fin s) as else upper (Fin s) as) = Some a"
  shows "neighbours s as a a 0"
proof (cases "lower (Fin s) as")
  case None
  then have hi: "upper (Fin s) as = Some a" using one by simp
  note h = upper_some [OF fin hi]
  have "\<not> val (ta_sp c) \<le> s" if "c \<in> set as" for c
    using None that fin finite_keys(1) unfolding side_none by blast
  with h show ?thesis by (force simp: neighbours_def)
next
  case (Some a')
  then have lo: "lower (Fin s) as = Some a" using one by simp
  note l = lower_some [OF fin lo]
  show ?thesis
  proof (cases "upper (Fin s) as")
    case None
    have "\<not> s \<le> val (ta_sp c)" if "c \<in> set as" for c
      using None that fin finite_keys(2) unfolding side_none by blast
    with l show ?thesis by (force simp: neighbours_def)
  next
    case (Some c)
    note h = upper_some [OF fin Some]
    have "\<not> ta_sp a < ta_sp c" using b lo Some by (auto simp: between_def)
    then have "s = val (ta_sp a)" using l h fin finite_keys(3) [of c a] by force
    with l show ?thesis by (auto simp: neighbours_def)
  qed
qed

definition real_mix :: "real \<Rightarrow> real \<Rightarrow> real \<Rightarrow> fl" where "real_mix f x y = Fin (x + f * (y - x))"

lemma mix_fin: "isfinite x \<Longrightarrow> isfinite y \<Longrightarrow> mix (Fin f) x y = real_mix f (val x) (val y)"
  by (cases x; cases y; simp add: mix_def real_mix_def)

text \<open>Between two entries of the library the gains lie on the straight line between what was measured there,
  each entry's own at its set point; beyond the ends of what was measured they are those of the end.  There is
  always an answer when the library has an entry.\<close>

theorem gains_interpolate:
  assumes fin: "\<forall>a \<in> set (lr_anchors l). ta_valid a \<longrightarrow> finite_entry a" and "\<exists>a \<in> set (lr_anchors l). ta_valid a"
  shows "\<exists>a b f. neighbours s (filter ta_valid (lr_anchors l)) a b f \<and>
    pf_learning_gains (Fin s) l = Some (real_mix f (val (ta_PB a)) (val (ta_PB b)), real_mix f (val (ta_Ti a)) (val (ta_Ti b)),
      real_mix f (val (ta_Td a)) (val (ta_Td b)))"
proof -
  define as where "as = filter ta_valid (lr_anchors l)"
  have f: "\<forall>a \<in> set as. finite_entry a" using fin by (simp add: as_def)
  show ?thesis
  proof (cases "between (Fin s) (lower (Fin s) as) (upper (Fin s) as)")
    case (Some x)
    then obtain a b g where b: "between (Fin s) (lower (Fin s) as) (upper (Fin s) as) = Some (a, b, g)" by (cases x) auto
    from between_neighbours [OF f b] have g: "g = Fin (val g)" "neighbours s as a b (val g)" by simp_all
    then have "finite_entry a" "finite_entry b" using f by (auto simp: neighbours_def)
    then have "mix g (h a) (h b) = real_mix (val g) (val (h a)) (val (h b))" if "h = ta_PB \<or> h = ta_Ti \<or> h = ta_Td" for h
      using that mix_fin [of "h a" "h b" "val g"] g(1) by (auto simp: finite_entry_def)
    then have "pf_learning_gains (Fin s) l = Some (real_mix (val g) (val (ta_PB a)) (val (ta_PB b)),
        real_mix (val g) (val (ta_Ti a)) (val (ta_Ti b)), real_mix (val g) (val (ta_Td a)) (val (ta_Td b)))"
      using b by (simp add: pf_learning_gains_def Let_def flip: as_def)
    with g(2) show ?thesis unfolding as_def by blast
  next
    case None
    have "(if lower (Fin s) as \<noteq> None then lower (Fin s) as else upper (Fin s) as) \<noteq> None"
    proof -
      obtain a where "a \<in> set as" using assms(2) by (auto simp: as_def)
      moreover have "ta_sp a \<le> Fin s \<or> Fin s \<le> ta_sp a" using f \<open>a \<in> set as\<close> by (cases "ta_sp a") (auto simp: finite_entry_def)
      ultimately show ?thesis by (metis side_none)
    qed
    then obtain a where one: "(if lower (Fin s) as \<noteq> None then lower (Fin s) as else upper (Fin s) as) = Some a" by blast
    from one_neighbour [OF f None one] have n: "neighbours s as a a 0" .
    then have "finite_entry a" using f by (auto simp: neighbours_def)
    then have "pf_learning_gains (Fin s) l = Some (real_mix 0 (val (ta_PB a)) (val (ta_PB a)),
        real_mix 0 (val (ta_Ti a)) (val (ta_Ti a)), real_mix 0 (val (ta_Td a)) (val (ta_Td a)))"
      using None one fin_val by (simp add: pf_learning_gains_def Let_def real_mix_def finite_entry_def flip: as_def)
    with n show ?thesis unfolding as_def by blast
  qed
qed

definition library_example :: learning where
  "library_example = blank_learning\<lparr>lr_anchors := [zero_anchor\<lparr>ta_sp := 121, ta_PB := 30, ta_Ti := 600, ta_Td := 60, ta_valid := True\<rparr>,
     zero_anchor\<lparr>ta_sp := 177, ta_PB := 40, ta_Ti := 500, ta_Td := 50, ta_valid := True\<rparr>]\<rparr>"

theorem gains_interpolate_witness: "\<exists>x. pf_learning_gains 150 library_example = Some x"
  using gains_interpolate [of library_example 150] by (auto simp: library_example_def finite_entry_def zero_anchor_def)

section \<open>Runs at one set point\<close>

definition mean :: "real list \<Rightarrow> real" where "mean xs = sum_list xs / of_nat (length xs)"

text \<open>The entry after some runs: how many there were, and the mean of what they measured.\<close>

definition holds_mean :: "fl \<Rightarrow> pf_autotune_result list \<Rightarrow> pf_tune_anchor \<Rightarrow> bool" where
  "holds_mean sp rs a \<longleftrightarrow> ta_valid a \<and> ta_sp a = sp \<and> ta_runs a = int (length rs) \<and>
     ta_PB a = Fin (mean (map (val \<circ> ar_PB_c) rs)) \<and> ta_Ti a = Fin (mean (map (val \<circ> ar_Ti) rs))"

lemma mean_snoc: "xs \<noteq> [] \<Longrightarrow> mean (xs @ [x]) = mean xs + (x - mean xs) * (1 / of_nat (length xs + 1))"
proof -
  assume "xs \<noteq> []"
  then have "0 < real (length xs)" by simp
  then show ?thesis by (simp add: mean_def divide_simps) (simp add: algebra_simps)
qed

lemma take_plant_keeps [simp]:
  "ta_valid (anchor_take_plant K tau theta src a) = ta_valid a" "ta_sp (anchor_take_plant K tau theta src a) = ta_sp a"
  "ta_runs (anchor_take_plant K tau theta src a) = ta_runs a" "ta_PB (anchor_take_plant K tau theta src a) = ta_PB a"
  "ta_Ti (anchor_take_plant K tau theta src a) = ta_Ti a"
  by (simp_all add: anchor_take_plant_def Let_def)

lemma file_plant_keeps:
  "holds_mean sp rs (fst (file_anchor_plant q r amb slot as l a)) = holds_mean sp rs a"
  by (simp add: file_anchor_plant_def holds_mean_def Let_def split: option.split prod.split)

lemma near_same: "near (Fin s) a \<longleftrightarrow> ta_valid a \<and> \<bar>ta_sp a - Fin s\<bar> < 5" by (simp add: near_def)

lemma refine_first:
  assumes "\<not> near (Fin s) a" "ar_PB_c r = Fin b" "ar_Ti r = Fin i"
  shows "holds_mean (Fin s) [r] (refine (Fin s) r amb wind ts a)"
  using assms by (simp add: refine_def refine_weight_def Let_def holds_mean_def mean_def)

lemma refine_next:
  assumes "holds_mean (Fin s) rs a" "rs \<noteq> []" "length rs < 4" "ar_PB_c r = Fin b" "ar_Ti r = Fin i"
  shows "holds_mean (Fin s) (rs @ [r]) (refine (Fin s) r amb wind ts a)"
proof -
  have n: "near (Fin s) a" using assms(1) by (simp add: holds_mean_def near_def)
  have k: "ta_runs a = int (length rs)" "0 < length rs" using assms(1,2) by (simp_all add: holds_mean_def)
  have w: "refine_weight (Fin s) a = Fin (1 / of_nat (length rs + 1))"
  proof -
    have "1 / 4 \<le> 1 / real (length rs + 1)" using assms(3) by (simp add: divide_simps)
    then show ?thesis using n k by (simp add: refine_weight_def int_to_fl_def max_def)
  qed
  have "\<not> (1 \<le> refine_weight (Fin s) a)" using k by (simp add: w)
  then have "refine (Fin s) r amb wind ts a =
      (let w = Fin (1 / of_nat (length rs + 1)) in a\<lparr>ta_Ku := ta_Ku a + (ar_Ku r - ta_Ku a) * w, ta_Pu := ta_Pu a + (ar_Pu r - ta_Pu a) * w,
                      ta_PB := ta_PB a + (ar_PB_c r - ta_PB a) * w, ta_Ti := ta_Ti a + (ar_Ti r - ta_Ti a) * w,
                      ta_Td := ta_Td a + (ar_Td r - ta_Td a) * w,
                      ta_load := (if 0 < ar_load r
                                  then if 0 < ta_load a then ta_load a + (ar_load r - ta_load a) * w else ar_load r
                                  else ta_load a),
                      ta_runs := ta_runs a + 1, ta_sp := Fin s, ta_ts := ts, ta_amb := amb, ta_wind := wind, ta_valid := True\<rparr>)"
    by (simp add: refine_def w Let_def)
  then show ?thesis
    using assms k mean_snoc [of "map (val \<circ> ar_PB_c) rs" b] mean_snoc [of "map (val \<circ> ar_Ti) rs" i]
    by (simp add: holds_mean_def Let_def)
qed

lemma store_anchor_at:
  assumes "\<not> ar_PB_c r \<le> 0" "\<not> ar_Ti r \<le> 0" "slot_of sp (lr_anchors (fst x)) = Some i"
  shows "\<exists>a. lr_anchors (fst (pf_learning_store_anchor sp r amb wind x)) = (lr_anchors (fst x))[i := a] \<and>
    (\<forall>rs q. holds_mean q rs (refine sp r amb wind (sv_wall (snd x)) (lr_anchors (fst x) ! i)) \<longrightarrow> holds_mean q rs a)"
proof -
  obtain l v where x: "x = (l, v)" by (cases x)
  define a where "a = file_anchor_plant sp r amb i (lr_anchors l) l (refine sp r amb wind (sv_wall v) (lr_anchors l ! i))"
  have "lr_anchors (fst (pf_learning_store_anchor sp r amb wind x)) = (lr_anchors l)[i := fst a]"
    using assms by (simp add: x pf_learning_store_anchor_def anchor_slot_def Let_def anchors_save_def a_def split: prod.split)
  moreover have "holds_mean q rs (fst a) = holds_mean q rs (refine sp r amb wind (sv_wall v) (lr_anchors l ! i))" for q rs
    unfolding a_def by (rule file_plant_keeps)
  ultimately show ?thesis by (auto simp: x)
qed

text \<open>Up to four runs at a set point the library has no entry near leave one entry there whose
  band and integral time are the plain means of what the runs measured; every other entry is as it was.\<close>

theorem runs_average:
  assumes free: "\<forall>a \<in> set (lr_anchors l). \<not> near (Fin s) a" "find_index (\<lambda>a. \<not> ta_valid a) (lr_anchors l) = Some i"
    and "rs \<noteq> []" "length rs \<le> 4"
    and good: "\<forall>r \<in> set rs. \<exists>b t. ar_PB_c r = Fin b \<and> 0 < b \<and> ar_Ti r = Fin t \<and> 0 < t"
  shows "\<exists>a. lr_anchors (fst (fold (\<lambda>r. pf_learning_store_anchor (Fin s) r amb wind) rs (l, v))) = (lr_anchors l)[i := a] \<and>
    holds_mean (Fin s) rs a"
  using assms(3-)
proof (induction rs rule: rev_induct)
  case (snoc r rs)
  define x where "x = fold (\<lambda>r. pf_learning_store_anchor (Fin s) r amb wind) rs (l, v)"
  have i: "i < length (lr_anchors l)" using free(2) by (simp add: find_index_Some)
  obtain b t where r: "ar_PB_c r = Fin b" "0 < b" "ar_Ti r = Fin t" "0 < t" using snoc.prems(3) by auto
  have "\<exists>a. lr_anchors (fst x) = (lr_anchors l)[i := a] \<and> slot_of (Fin s) (lr_anchors (fst x)) = Some i \<and>
      holds_mean (Fin s) (rs @ [r]) (refine (Fin s) r amb wind (sv_wall (snd x)) a)"
  proof (cases "rs = []")
    case True
    have "find_index (near (Fin s)) (lr_anchors l) = None" using free(1) by (simp add: find_index_None)
    moreover have "\<not> near (Fin s) (lr_anchors l ! i)" using free(1) i by simp
    ultimately show ?thesis
      using True free(2) i refine_first [of s "lr_anchors l ! i" r b t] r
      by (intro exI [of _ "lr_anchors l ! i"]) (simp add: x_def slot_of_def)
  next
    case False
    then obtain a where a: "lr_anchors (fst x) = (lr_anchors l)[i := a]" "holds_mean (Fin s) rs a"
      using snoc.IH snoc.prems by (auto simp: x_def)
    then have "near (Fin s) a" by (simp add: holds_mean_def near_def)
    then have "find_index (near (Fin s)) (lr_anchors (fst x)) = Some i"
      using free(1) i a(1) by (simp add: find_index_Some nth_list_update)
    then show ?thesis using a refine_next [OF a(2) False _ r(1,3)] snoc.prems(2) by (auto simp: slot_of_def)
  qed
  then obtain a where a: "lr_anchors (fst x) = (lr_anchors l)[i := a]" "slot_of (Fin s) (lr_anchors (fst x)) = Some i"
      "holds_mean (Fin s) (rs @ [r]) (refine (Fin s) r amb wind (sv_wall (snd x)) a)" by blast
  then have "lr_anchors (fst x) ! i = a" using i by simp
  then show ?case
    using store_anchor_at [OF _ _ a(2), of r amb wind] a r by (auto simp: x_def)
qed simp

theorem runs_average_witness:
  "\<exists>a. lr_anchors (fst (fold (\<lambda>r. pf_learning_store_anchor 121 r 20 0)
       [\<lparr>ar_Ku = 0, ar_Pu = 0, ar_PB_c = 30, ar_Ti = 600, ar_Td = 60, ar_amplitude_c = 5, ar_load = 0, ar_valid = True\<rparr>,
        \<lparr>ar_Ku = 0, ar_Pu = 0, ar_PB_c = 40, ar_Ti = 500, ar_Td = 60, ar_amplitude_c = 5, ar_load = 0, ar_valid = True\<rparr>]
       (blank_learning, example_services))) = (lr_anchors blank_learning)[0 := a] \<and> ta_PB a = 35 \<and> ta_Ti a = 550"
proof -
  have "find_index (\<lambda>a. \<not> ta_valid a) (lr_anchors blank_learning) = Some 0" "\<forall>a \<in> set (lr_anchors blank_learning). \<not> near (Fin 121) a"
    by (simp_all add: blank_learning_def PF_TUNE_ANCHORS_def zero_anchor_def near_def numeral_eq_Suc)
  then show ?thesis
    using runs_average [of blank_learning 121 0
       "[\<lparr>ar_Ku = 0, ar_Pu = 0, ar_PB_c = 30, ar_Ti = 600, ar_Td = 60, ar_amplitude_c = 5, ar_load = 0, ar_valid = True\<rparr>,
        \<lparr>ar_Ku = 0, ar_Pu = 0, ar_PB_c = 40, ar_Ti = 500, ar_Td = 60, ar_amplitude_c = 5, ar_load = 0, ar_valid = True\<rparr>]" 20 0 example_services]
    by (auto simp: holds_mean_def mean_def)
qed

section \<open>The library on disk\<close>

text \<open>An entry whose numbers print: what was not measured is zero, and without a plant the source of one is the
  capture's, which is what an entry without one is read as.\<close>

definition storable :: "pf_tune_anchor \<Rightarrow> bool" where
  "storable a \<longleftrightarrow> ta_valid a \<and> 0 < ta_PB a \<and> 0 < ta_Ti a \<and>
     (\<forall>x \<in> {ta_sp a, ta_Ku a, ta_Pu a, ta_PB a, ta_Ti a, ta_Td a, ta_K a, ta_tau a, ta_theta a, ta_ts a, ta_wind a, ta_load a}. isfinite x) \<and>
     (isfinite (ta_amb a) \<or> ta_amb a = NaN) \<and> (0 < ta_load a \<or> ta_load a = 0) \<and>
     (0 < ta_K a \<or> ta_K a = 0 \<and> ta_tau a = 0 \<and> ta_theta a = 0 \<and> ta_src a = PF_PLANT_FROM_CAPTURE) \<and>
     int_min \<le> ta_runs a \<and> ta_runs a \<le> int_max \<and> int_min \<le> ta_src a \<and> ta_src a \<le> int_max"

lemma one_tok [simp]:
  "path_toks ''sp'' = [''sp'']" "path_toks ''Ku'' = [''Ku'']" "path_toks ''Pu'' = [''Pu'']" "path_toks ''PB'' = [''PB'']"
  "path_toks ''Ti'' = [''Ti'']" "path_toks ''Td'' = [''Td'']" "path_toks ''K'' = [''K'']" "path_toks ''tau'' = [''tau'']"
  "path_toks ''theta'' = [''theta'']" "path_toks ''ts'' = [''ts'']" "path_toks ''amb'' = [''amb'']" "path_toks ''wind'' = [''wind'']"
  "path_toks ''load'' = [''load'']" "path_toks ''runs'' = [''runs'']" "path_toks ''psrc'' = [''psrc'']"
  by code_simp+

lemma jnum_finite: "isfinite x \<Longrightarrow> jnum x = JNum x" by (cases x) (simp_all add: jnum_def)

lemma int_through: "int_min \<le> i \<Longrightarrow> i \<le> int_max \<Longrightarrow> fl_to_int (int_to_fl i) = i"
  by (simp add: int_to_fl_def real_trunc_def)

lemma anchor_reads_back: "storable a \<Longrightarrow> load_anchor (anchor_json a) = a"
  by (cases "isnan (ta_amb a)"; cases "0 < ta_load a"; cases "0 < ta_K a")
    (auto simp: load_anchor_def anchor_json_def opt_member_def storable_def jnum_finite pf_json_num_def pf_json_int_def j_num_of_def
      pf_json_path_def j_step_def Let_def int_through)

lemma kv_reads_back: "db_open v \<Longrightarrow> kv_get ns key (kv_put ns key j v) = Some j"
  by (simp add: kv_get_def kv_put_def db_open_def)

lemma saved_library_loads:
  assumes "db_open v" "\<forall>a \<in> set (lr_anchors l). ta_valid a \<longrightarrow> storable a"
  shows "lr_anchors (fst (load_kv (k, snd (anchors_save (l, v))))) = fill_anchors (filter ta_valid (lr_anchors l))"
proof -
  have "map (load_anchor \<circ> anchor_json) (filter ta_valid (lr_anchors l)) = filter ta_valid (lr_anchors l)"
    using assms(2) by (intro map_idI) (simp add: anchor_reads_back)
  then show ?thesis
    using assms(1) by (simp add: load_kv_def anchors_save_def kv_reads_back)
qed



end
