(* ===== verification/Adaptive.thy ===== *)
theory Adaptive
  imports Controller Tuning
begin

text \<open>
  \<open>src/controllers/adaptive.c\<close>: the controller that runs on what was learned, a feed forward with a PID on the
  predicted error.  A first-order model with a dead time says how much of the feed has yet to arrive; what the
  relay tests measured gives the gains; a monitor watches ten minutes of hold at a time and corrects the band and
  the integral time, near the tuning it corrects.  The record the C code keeps is flat and so is this one,
  declared in parts.  The text it stores is the value it parses to.
\<close>

unbundle bit_operations_syntax

section \<open>The state\<close>

definition WINDOW_S :: fl where "WINDOW_S = 600"
definition DEADBAND_C :: fl where "DEADBAND_C = 1.5"
definition LEARN_MIN :: fl where "LEARN_MIN = 0.7"
definition LEARN_MAX :: fl where "LEARN_MAX = 1.6"
definition TI_LEARN_MIN :: fl where "TI_LEARN_MIN = 0.4"
definition TI_LEARN_MAX :: fl where "TI_LEARN_MAX = 1.25"
definition OFFSET_C :: fl where "OFFSET_C = 1"
definition APPROACH_FLOOR :: bool where "APPROACH_FLOOR = False"
definition BAND_RULES_GEN :: int where "BAND_RULES_GEN = 2"
definition IBAND_C :: fl where "IBAND_C = 8.5"
definition THETA_MIN :: fl where "THETA_MIN = 40"
definition THETA_MAX :: fl where "THETA_MAX = 240"
definition THETA_DEFAULT :: fl where "THETA_DEFAULT = 90"
definition K_DEFAULT :: fl where "K_DEFAULT = 330"
definition TAU_DEFAULT :: fl where "TAU_DEFAULT = 1000"
definition K_MIN :: fl where "K_MIN = 60"
definition K_MAX :: fl where "K_MAX = 900"
definition TAU_MIN :: fl where "TAU_MIN = 120"
definition TAU_MAX :: fl where "TAU_MAX = 3000"
definition PF_MDL_RING :: nat where "PF_MDL_RING = 64"
definition LEARNED_REC_GEN :: fl where "LEARNED_REC_GEN = 2"
definition SURPLUS_MAX :: fl where "SURPLUS_MAX = 100"
definition PF_SCALE_BANDS :: nat where "PF_SCALE_BANDS = 4"

text \<open>What the controller reaches through its \<open>env\<close>: its stored text, when the database is open, as it parses,
  the clock \<open>time\<close> reads, and the formatting of a note.\<close>

record ad_env =
  ae_open :: bool
  ae_learned :: "json option"
  ae_time :: fl
  ae_print :: "msg \<Rightarrow> string"

record window =
  win_start :: fl
  win_abs_sum :: fl
  win_sum :: fl
  win_sum1 :: fl
  win_sum2 :: fl
  win_peak :: fl
  win_n :: nat
  win_n1 :: nat
  win_n2 :: nat
  win_changes :: nat
  win_sat :: nat
  last_sign :: int

record ad_learned =
  a_env :: "ad_env option"
  l_PB_c :: fl
  l_Ti :: fl
  l_Td :: fl
  l_valid :: bool
  l_ts :: fl
  l_src :: string
  band_learned :: "fl list"
  band_anchor :: "fl list"
  ti_learned :: "fl list"
  ti_anchor :: "fl list"
  a_K :: fl
  a_tau :: fl
  a_theta :: fl

record ad_gains = ad_learned +
  a_units :: pf_units
  auto_tune :: bool
  cfg_PB_c :: fl
  cfg_Ti :: fl
  cfg_Td :: fl
  ff_gain :: fl
  band_PB_c :: fl
  band_Ti :: fl
  sch_PB_c :: fl
  sch_Ti :: fl
  sch_Td :: fl
  sch_valid :: bool
  a_PB_c :: fl
  a_Ti :: fl
  a_Td :: fl
  a_kp :: fl
  a_ki :: fl
  a_kd :: fl
  a_inter :: fl

record ad_t = ad_gains +
  arrived :: bool
  last_err :: fl
  a_last_t :: fl
  a_last_pit :: fl
  derv_f :: fl
  a_p :: fl
  a_i :: fl
  a_d :: fl
  a_ff :: fl
  a_u :: fl
  a_have_last :: bool
  a_setpoint_c :: fl
  a_win :: window
  step_t :: fl
  step_size :: fl
  step_peak :: fl
  step_open :: bool
  settled_n :: nat
  mdl :: fl
  ring_t :: "fl list"
  ring_y :: "fl list"
  ring_n :: nat
  ring_head :: nat
  surplus :: fl
  in_band :: bool

definition zero_window :: window where
  "zero_window = \<lparr>win_start = 0, win_abs_sum = 0, win_sum = 0, win_sum1 = 0, win_sum2 = 0, win_peak = 0, win_n = 0,
     win_n1 = 0, win_n2 = 0, win_changes = 0, win_sat = 0, last_sign = 0\<rparr>"

definition ad_zero :: "ad_env option \<Rightarrow> ad_t" where
  "ad_zero e = \<lparr>a_env = e, l_PB_c = 0, l_Ti = 0, l_Td = 0, l_valid = False, l_ts = 0, l_src = [],
     band_learned = replicate PF_SCALE_BANDS 0, band_anchor = replicate PF_SCALE_BANDS 0,
     ti_learned = replicate PF_SCALE_BANDS 0, ti_anchor = replicate PF_SCALE_BANDS 0, a_K = 0, a_tau = 0, a_theta = 0,
     a_units = UnitsF, auto_tune = False, cfg_PB_c = 0, cfg_Ti = 0, cfg_Td = 0, ff_gain = 0, band_PB_c = 0, band_Ti = 0,
     sch_PB_c = 0, sch_Ti = 0, sch_Td = 0, sch_valid = False, a_PB_c = 0, a_Ti = 0, a_Td = 0, a_kp = 0, a_ki = 0, a_kd = 0,
     a_inter = 0, arrived = False, last_err = 0, a_last_t = 0, a_last_pit = 0, derv_f = 0, a_p = 0, a_i = 0, a_d = 0, a_ff = 0,
     a_u = 0, a_have_last = False, a_setpoint_c = 0, a_win = zero_window, step_t = 0, step_size = 0, step_peak = 0,
     step_open = False, settled_n = 0, mdl = 0, ring_t = replicate PF_MDL_RING 0, ring_y = replicate PF_MDL_RING 0,
     ring_n = 0, ring_head = 0, surplus = 0, in_band = False\<rparr>"

definition clampd :: "fl \<Rightarrow> fl \<Rightarrow> fl \<Rightarrow> fl" where
  "clampd v lo hi = (if v < lo then lo else if hi < v then hi else v)"

definition BAND_EDGE_C :: "fl list" where "BAND_EDGE_C = [93.3, 135, 204.4]"

fun band_below :: "fl \<Rightarrow> fl list \<Rightarrow> nat" where
  "band_below sp [] = 0"
| "band_below sp (e # es) = (if sp < e then 0 else Suc (band_below sp es))"

definition band_of :: "fl \<Rightarrow> nat" where "band_of sp = band_below sp BAND_EDGE_C"

section \<open>The tuning in force\<close>

definition anchor_PB :: "'a ad_gains_scheme \<Rightarrow> fl" where
  "anchor_PB s =
     (if sch_valid s \<and> 0 < sch_PB_c s then sch_PB_c s
      else if auto_tune s \<and> l_valid s \<and> 0 < l_PB_c s then l_PB_c s
      else if 0 < cfg_PB_c s then cfg_PB_c s else l_PB_c s)"

definition anchor_Ti :: "'a ad_gains_scheme \<Rightarrow> fl" where
  "anchor_Ti s =
     (if sch_valid s \<and> 0 < sch_Ti s then sch_Ti s
      else if auto_tune s \<and> l_valid s \<and> 0 < l_Ti s then l_Ti s
      else if 0 < cfg_Ti s then cfg_Ti s else l_Ti s)"

text \<open>The integrator is rescaled so that what it contributes does not jump.\<close>

definition recompute :: "'a ad_gains_scheme \<Rightarrow> 'a ad_gains_scheme" where
  "recompute s =
     (let learned = auto_tune s \<and> l_valid s;
          band = (if auto_tune s \<and> 0 < band_PB_c s then band_PB_c s else anchor_PB s);
          ti = (if auto_tune s \<and> 0 < band_Ti s then band_Ti s
                else if sch_valid s then sch_Ti s else if learned then l_Ti s else cfg_Ti s);
          td = (if sch_valid s then sch_Td s else if learned then l_Td s else cfg_Td s);
          kp = (if 0 < band then - 1 / band else 0);
          ki = (if 0 < ti then kp / ti else 0)
      in s\<lparr>a_PB_c := band, a_Ti := ti, a_Td := td, a_kp := kp, a_ki := ki, a_kd := kp * td,
           a_inter := (if a_ki s \<noteq> 0 \<and> ki \<noteq> 0 then a_inter s * (a_ki s / ki) else a_inter s)\<rparr>)"

definition use_band :: "fl \<Rightarrow> 'a ad_gains_scheme \<Rightarrow> 'a ad_gains_scheme" where
  "use_band sp s =
     (let b = band_of sp; v = band_learned s ! b; a0 = band_anchor s ! b; a = anchor_PB s;
          want = (if 0 < v then if 0 < a0 \<and> 0 < a then clampd (a * (v / a0)) (a * LEARN_MIN) (a * LEARN_MAX) else v else 0);
          tv = ti_learned s ! b; ta0 = ti_anchor s ! b; ta = anchor_Ti s;
          want_ti = (if 0 < tv \<and> 0 < ta0 \<and> 0 < ta then clampd (ta * (tv / ta0)) (ta * TI_LEARN_MIN) (ta * TI_LEARN_MAX) else 0)
      in recompute (s\<lparr>band_PB_c := want, band_Ti := want_ti\<rparr>))"

section \<open>The stored record\<close>

text \<open>Text with \<open>nan\<close> or \<open>inf\<close> in it does not parse.\<close>

fun finite_member :: "json \<Rightarrow> bool" where
  "finite_member (JNum x) = isfinite x"
| "finite_member (JArr xs) = (\<forall>x \<in> set xs. finite_member x)"
| "finite_member _ = True"

definition printed :: "(string \<times> json) list \<Rightarrow> json option" where
  "printed ms = (if \<forall>m \<in> set ms. finite_member (snd m) then Some (JObj ms) else None)"

definition four :: "nat \<Rightarrow> fl list \<Rightarrow> json" where
  "four n xs = JArr (map (\<lambda>x. JNum (decimals n x)) xs)"

definition learned_json :: "'a ad_learned_scheme \<Rightarrow> json option" where
  "learned_json s = printed
     [(''PB_c'', JNum (decimals 2 (l_PB_c s))), (''Ti'', JNum (decimals 1 (l_Ti s))), (''Td'', JNum (decimals 1 (l_Td s))),
      (''band_learned'', four 2 (band_learned s)), (''band_anchor'', four 2 (band_anchor s)),
      (''ti_learned'', four 1 (ti_learned s)), (''ti_anchor'', four 1 (ti_anchor s)),
      (''valid'', JBool (l_valid s)), (''ts'', JNum (decimals 0 (l_ts s))), (''src'', JStr (l_src s)),
      (''theta'', JNum (decimals 0 (a_theta s))), (''K'', JNum (decimals 1 (a_K s))), (''tau'', JNum (decimals 0 (a_tau s))),
      (''m'', JNum LEARNED_REC_GEN), (''bg'', JNum (int_to_fl BAND_RULES_GEN))]"

definition save_learned :: "'a ad_learned_scheme \<Rightarrow> 'a ad_learned_scheme" where
  "save_learned s =
     (case a_env s of
        Some e \<Rightarrow> if ae_open e then s\<lparr>a_env := Some (e\<lparr>ae_learned := learned_json s\<rparr>)\<rparr> else s
      | None \<Rightarrow> s)"

text \<open>The \<open>i\<close>-th number of a list, where it is positive.\<close>

definition positive_at :: "json option \<Rightarrow> nat \<Rightarrow> fl" where
  "positive_at j i =
     (let xs = j_children j
      in if i < length xs then (case xs ! i of JNum x \<Rightarrow> if 0 < x then x else 0 | _ \<Rightarrow> 0) else 0)"

definition positives :: "json option \<Rightarrow> fl list" where
  "positives j = map (positive_at j) [0..<PF_SCALE_BANDS]"

definition stored_text :: "ad_env option \<Rightarrow> json option" where
  "stored_text e = (case e of Some v \<Rightarrow> if ae_open v then ae_learned v else None | None \<Rightarrow> None)"

definition load_plant :: "json \<Rightarrow> 'a ad_learned_scheme \<Rightarrow> 'a ad_learned_scheme" where
  "load_plant j s =
     (let n = pf_pid_cfg_num (Some j)
      in if LEARNED_REC_GEN \<le> n ''m'' 0
         then s\<lparr>a_theta := clampd (n ''theta'' THETA_DEFAULT) THETA_MIN THETA_MAX, a_K := clampd (n ''K'' K_DEFAULT) K_MIN K_MAX,
                a_tau := clampd (n ''tau'' TAU_DEFAULT) TAU_MIN TAU_MAX\<rparr>
         else s\<lparr>a_theta := THETA_DEFAULT, a_K := K_DEFAULT, a_tau := TAU_DEFAULT\<rparr>)"

definition load_lessons :: "json \<Rightarrow> 'a ad_learned_scheme \<Rightarrow> 'a ad_learned_scheme" where
  "load_lessons j s =
     (let old = fl_to_int (pf_pid_cfg_num (Some j) ''bg'' 1) < BAND_RULES_GEN;
          bands = (\<lambda>k. let a = j_get_ci k j in if old \<or> \<not> j_is_arr a then None else a)
      in s\<lparr>band_learned := positives (bands ''band_learned''), band_anchor := positives (bands ''band_anchor''),
           ti_learned := positives (j_get_ci ''ti_learned'' j), ti_anchor := positives (j_get_ci ''ti_anchor'' j)\<rparr>)"

definition load_learned :: "'a ad_learned_scheme \<Rightarrow> 'a ad_learned_scheme" where
  "load_learned s =
     (let none = replicate PF_SCALE_BANDS 0;
          s = s\<lparr>band_learned := none, band_anchor := none, ti_learned := none, ti_anchor := none\<rparr>
      in case stored_text (a_env s) of
           None \<Rightarrow> s
         | Some j \<Rightarrow>
             (let n = pf_pid_cfg_num (Some j); s = s\<lparr>l_PB_c := n ''PB_c'' 0, l_Ti := n ''Ti'' 0, l_Td := n ''Td'' 0\<rparr>;
                  s = load_plant j ((load_lessons j s)\<lparr>l_ts := n ''ts'' 0\<rparr>)
              in s\<lparr>l_valid := (j_get_ci ''valid'' j = Some (JBool True) \<and> 0 < l_PB_c s \<and> 0 < l_Ti s),
                   l_src := take 7 (case j_get_ci ''src'' j of Some (JStr t) \<Rightarrow> t | _ \<Rightarrow> [])\<rparr>))"

definition ad_config :: "json option \<Rightarrow> 'a ad_gains_scheme \<Rightarrow> 'a ad_gains_scheme" where
  "ad_config c s =
     (let u = pf_pid_cfg_units c
      in recompute (s\<lparr>a_units := u, cfg_PB_c := pf_delta_to_c (pf_pid_cfg_num c ''PB'' 80) u, cfg_Ti := pf_pid_cfg_num c ''Ti'' 400,
           cfg_Td := pf_pid_cfg_num c ''Td'' 30, ff_gain := pf_pid_cfg_num c ''ff_gain'' 1,
           auto_tune := (case c of None \<Rightarrow> True
                         | Some j \<Rightarrow> (case j_get_ci ''auto_tune'' j of Some v \<Rightarrow> v = JBool True | None \<Rightarrow> True))\<rparr>))"

definition ad_create :: "ad_env option \<Rightarrow> json option \<Rightarrow> ad_t" where
  "ad_create e c =
     ad_config c (load_learned ((ad_zero e)\<lparr>a_theta := THETA_DEFAULT, a_K := K_DEFAULT, a_tau := TAU_DEFAULT\<rparr>))"

section \<open>A new set point\<close>

definition window_reset :: "fl \<Rightarrow> ad_t \<Rightarrow> ad_t" where
  "window_reset now s = s\<lparr>a_win := zero_window\<lparr>win_start := now\<rparr>\<rparr>"

definition far_off :: "pf_ctrl_in \<Rightarrow> bool" where
  "far_off inp \<longleftrightarrow> IBAND_C < \<bar>in_pit_c inp - in_setpoint_c inp\<bar>"

definition open_step :: "pf_ctrl_in \<Rightarrow> ad_t \<Rightarrow> ad_t" where
  "open_step inp s =
     (let change = a_have_last s \<and> fl_differ (a_setpoint_c s) (in_setpoint_c inp);
          s = (if change \<or> far_off inp
               then s\<lparr>step_t := in_now_s inp, step_peak := 0, step_open := True, settled_n := 0,
                      step_size := in_setpoint_c inp - (if change then a_setpoint_c s else in_pit_c inp)\<rparr>
               else s)
      in s\<lparr>arrived := (\<not> (far_off inp \<or> change \<and> IBAND_C < \<bar>in_setpoint_c inp - a_setpoint_c s\<bar>)),
           a_setpoint_c := in_setpoint_c inp\<rparr>)"

definition seed_integral :: "pf_ctrl_in \<Rightarrow> ad_t \<Rightarrow> fl" where
  "seed_integral inp s =
     (if a_ki s \<noteq> 0 \<and> \<bar>last_err s\<bar> \<le> IBAND_C
      then clampd (in_u_prev_applied inp - ff_gain s * in_u_ff inp - a_kp s * last_err s) (- 0.15) 0.15 / a_ki s
      else 0)"

definition ad_reset :: "ad_t \<Rightarrow> pf_ctrl_in \<Rightarrow> ad_t" where
  "ad_reset s inp =
     (let s = use_band (in_setpoint_c inp) (open_step inp s);
          s = s\<lparr>a_last_t := in_now_s inp, a_last_pit := in_pit_c inp, derv_f := 0,
                last_err := in_pit_c inp - in_setpoint_c inp, a_have_last := True\<rparr>;
          s = (window_reset (in_now_s inp) s)\<lparr>mdl := clampd (in_u_prev_applied inp) 0 1, ring_n := 0, ring_head := 0, surplus := 0\<rparr>
      in s\<lparr>a_inter := seed_integral inp s, in_band := (\<bar>last_err s\<bar> \<le> IBAND_C)\<rparr>)"

section \<open>Learning from a window\<close>

definition adjust_ti :: "fl \<Rightarrow> ad_t \<Rightarrow> ad_t" where
  "adjust_ti faster s =
     (let a = anchor_Ti s; base = (if 0 < a_Ti s then a_Ti s else a);
          want = clampd (base / faster) (a * TI_LEARN_MIN) (a * TI_LEARN_MAX); b = band_of (a_setpoint_c s)
      in if \<not> 0 < base \<or> \<not> 0 < a \<or> \<not> 0 < faster then s
         else if \<bar>want - a_Ti s\<bar> < 0.5 then s
         else save_learned (recompute (s\<lparr>ti_learned := (ti_learned s)[b := want], ti_anchor := (ti_anchor s)[b := a], band_Ti := want\<rparr>)))"

definition adjust_band :: "fl \<Rightarrow> ad_t \<Rightarrow> ad_t" where
  "adjust_band tighter s =
     (let base = (if 0 < a_PB_c s then a_PB_c s else anchor_PB s); a = anchor_PB s;
          want = (if 0 < a then clampd (base / tighter) (a * LEARN_MIN) (a * LEARN_MAX) else base / tighter);
          b = band_of (a_setpoint_c s)
      in if \<not> 0 < base \<or> \<not> 0 < tighter then s
         else if \<bar>want - a_PB_c s\<bar> < Fin (1 / 10 ^ 6) then s
         else save_learned (recompute (s\<lparr>band_learned := (band_learned s)[b := want],
                band_anchor := (band_anchor s)[b := (if 0 < a then a else want)], band_PB_c := want\<rparr>)))"

definition sign_of :: "fl \<Rightarrow> int" where
  "sign_of e = (if DEADBAND_C < e then 1 else if e < - DEADBAND_C then -1 else 0)"

definition win_add :: "pf_ctrl_in \<Rightarrow> fl \<Rightarrow> window \<Rightarrow> window" where
  "win_add inp e w =
     (let w = w\<lparr>win_abs_sum := win_abs_sum w + \<bar>e\<bar>, win_sum := win_sum w + e, win_n := win_n w + 1\<rparr>;
          w = (if in_now_s inp - win_start w < WINDOW_S / 2 then w\<lparr>win_sum1 := win_sum1 w + e, win_n1 := win_n1 w + 1\<rparr>
               else w\<lparr>win_sum2 := win_sum2 w + e, win_n2 := win_n2 w + 1\<rparr>);
          w = (if win_peak w < \<bar>e\<bar> then w\<lparr>win_peak := \<bar>e\<bar>\<rparr> else w);
          w = (if in_saturated inp \<noteq> 0 then w\<lparr>win_sat := win_sat w + 1\<rparr> else w);
          sg = sign_of e;
          w = (if sg \<noteq> 0 \<and> last_sign w \<noteq> 0 \<and> sg \<noteq> last_sign w then w\<lparr>win_changes := win_changes w + 1\<rparr> else w)
      in if sg \<noteq> 0 then w\<lparr>last_sign := sg\<rparr> else w)"

definition watch_step_out :: "pf_ctrl_in \<Rightarrow> fl \<Rightarrow> ad_t \<Rightarrow> ad_t" where
  "watch_step_out inp e s =
     (if \<not> step_open s then s
      else (let over = (if 0 < step_size s then e else - e);
                s = (if step_peak s < over then s\<lparr>step_peak := over\<rparr> else s);
                s = s\<lparr>settled_n := (if \<bar>e\<bar> < 2 then settled_n s + 1 else 0)\<rparr>;
                timeout = 3600 < in_now_s inp - step_t s
            in if 3 \<le> settled_n s \<or> timeout
               then (let s = s\<lparr>step_open := False\<rparr>
                     in if \<not> timeout \<and> 5 < step_peak s \<and> 0.15 * \<bar>step_size s\<bar> < step_peak s then adjust_band 0.9 s else s)
               else s))"

definition off_to_one_side :: "window \<Rightarrow> bool" where
  "off_to_one_side w \<longleftrightarrow>
     OFFSET_C < \<bar>win_sum w / num (win_n w)\<bar> \<and> win_changes w = 0 \<and> 0 < win_n1 w \<and> 0 < win_n2 w \<and>
     \<bar>win_sum1 w / num (win_n1 w)\<bar> \<le> \<bar>win_sum2 w / num (win_n2 w)\<bar>"

definition judge_window :: "pf_ctrl_in \<Rightarrow> ad_t \<Rightarrow> ad_t" where
  "judge_window inp s =
     (let w = a_win s; mean_abs = win_abs_sum w / num (win_n w); mean_signed = win_sum w / num (win_n w);
          free = win_sat w < win_n w div 4; recent = step_open s \<or> in_now_s inp - step_t s < 1200
      in if 3 \<le> win_changes w \<and> 3 \<le> win_peak w
         then (let s = adjust_band 0.85 s in if 0 < band_Ti s then adjust_ti (1 / 1.15) s else s)
         else if 3 < mean_abs \<and> win_changes w \<le> 1 \<and> free \<and> \<not> recent \<and> in_target_reached inp
         then adjust_band (if 6 < mean_abs then 1.25 else 1.15) s
         else if off_to_one_side w \<and> free \<and> \<not> recent \<and> in_target_reached inp \<and> arrived s
         then adjust_ti (if 2.5 < \<bar>mean_signed\<bar> then 1.5 else 1.3) s
         else s)"

definition monitor :: "pf_ctrl_in \<Rightarrow> fl \<Rightarrow> ad_t \<Rightarrow> ad_t" where
  "monitor inp e s =
     (if \<not> auto_tune s then s
      else if in_tuning inp \<or> in_lid inp then window_reset (in_now_s inp) s
      else (let s = watch_step_out inp e (s\<lparr>a_win := win_add inp e (a_win s)\<rparr>); w = a_win s
            in if in_now_s inp - win_start w < WINDOW_S \<or> win_n w < 10 then s
               else window_reset (in_now_s inp) (judge_window inp s)))"

section \<open>The prediction\<close>

text \<open>What the model said at \<open>want\<close>, from its samples, newest first; now where they do not reach back so far.\<close>

fun model_at :: "fl \<Rightarrow> fl \<Rightarrow> (fl \<times> fl) option \<Rightarrow> (fl \<times> fl) list \<Rightarrow> fl" where
  "model_at want now_y after [] = now_y"
| "model_at want now_y after ((t, y) # earlier) =
     (if t \<le> want
      then (case after of Some (t', y') \<Rightarrow> if t < t' then y + (y' - y) * (want - t) / (t' - t) else y | None \<Rightarrow> y)
      else model_at want now_y (Some (t, y)) earlier)"

definition samples :: "ad_t \<Rightarrow> (fl \<times> fl) list" where
  "samples s = map (\<lambda>k. let i = (ring_head s + 2 * PF_MDL_RING - 1 - k) mod PF_MDL_RING in (ring_t s ! i, ring_y s ! i)) [0..<ring_n s]"

definition keep_sample :: "fl \<Rightarrow> ad_t \<Rightarrow> ad_t" where
  "keep_sample now s =
     s\<lparr>ring_t := (ring_t s)[ring_head s := now], ring_y := (ring_y s)[ring_head s := mdl s],
       ring_head := (ring_head s + 1) mod PF_MDL_RING, ring_n := (if ring_n s < PF_MDL_RING then ring_n s + 1 else ring_n s)\<rparr>"

definition model_step :: "pf_ctrl_in \<Rightarrow> fl \<Rightarrow> ad_t \<Rightarrow> ad_t" where
  "model_step inp dt s =
     (if \<not> 0 < a_tau s \<or> \<not> 0 < a_K s \<or> \<not> 0 < dt then s\<lparr>surplus := 0\<rparr>
      else (let drive = clampd (in_u_prev_applied inp) 0 1;
                s = keep_sample (in_now_s inp) (s\<lparr>mdl := mdl s + (drive - mdl s) * (dt / a_tau s)\<rparr>);
                before = model_at (in_now_s inp - clampd (a_theta s) THETA_MIN THETA_MAX) (mdl s) None (samples s)
            in s\<lparr>surplus := clampd (a_K s * (mdl s - before)) (- SURPLUS_MAX) SURPLUS_MAX\<rparr>))"

section \<open>A demand\<close>

definition take_schedule :: "pf_ctrl_in \<Rightarrow> ad_t \<Rightarrow> ad_t" where
  "take_schedule inp s =
     (let sch = 0 < in_sched_PB_c inp \<and> 0 < in_sched_Ti inp
      in if sch \<noteq> sch_valid s \<or>
            sch \<and> (fl_differ (in_sched_PB_c inp) (sch_PB_c s) \<or> fl_differ (in_sched_Ti inp) (sch_Ti s) \<or> fl_differ (in_sched_Td inp) (sch_Td s))
         then use_band (in_setpoint_c inp)
                (s\<lparr>sch_valid := sch, sch_PB_c := in_sched_PB_c inp, sch_Ti := in_sched_Ti inp, sch_Td := in_sched_Td inp\<rparr>)
         else s)"

definition take_plant :: "pf_ctrl_in \<Rightarrow> ad_t \<Rightarrow> ad_t" where
  "take_plant inp s =
     (let s = (if 0 < in_sched_K inp \<and> 0 < in_sched_tau inp
               then s\<lparr>a_K := clampd (in_sched_K inp) K_MIN K_MAX, a_tau := clampd (in_sched_tau inp) TAU_MIN TAU_MAX,
                      a_theta := (if 0 < in_sched_theta inp then clampd (in_sched_theta inp) THETA_MIN THETA_MAX else a_theta s)\<rparr>
               else s)
      in if 0 < in_hold_K inp \<and> \<not> in_tuning inp then s\<lparr>a_K := clampd (in_hold_K inp) K_MIN K_MAX\<rparr> else s)"

definition ad_dt :: "pf_ctrl_in \<Rightarrow> ad_t \<Rightarrow> fl" where
  "ad_dt inp s =
     (let dt = in_now_s inp - a_last_t s in if dt \<le> 0 then if 0 < in_cycle_time_s inp then in_cycle_time_s inp else 1 else dt)"

text \<open>Coming into the band, the integral keeps at most 0.15 of a feed; arriving, it starts over.\<close>

definition trim_integral :: "fl \<Rightarrow> ad_t \<Rightarrow> ad_t" where
  "trim_integral e_true s =
     (let now_in = \<bar>e_true\<bar> \<le> IBAND_C; lim = 0.15 / \<bar>a_ki s\<bar>;
          s = (if now_in \<and> \<not> in_band s \<and> a_ki s \<noteq> 0
               then (let s = (if lim < a_inter s then s\<lparr>a_inter := lim\<rparr> else s)
                     in if a_inter s < - lim then s\<lparr>a_inter := - lim\<rparr> else s)
               else s)
      in s\<lparr>in_band := now_in\<rparr>)"

definition arrive_at :: "fl \<Rightarrow> ad_t \<Rightarrow> ad_t" where
  "arrive_at e_true s =
     (if arrived s then s
      else if 0 \<le> step_size s \<and> 0 \<le> e_true \<or> step_size s < 0 \<and> e_true \<le> 0 then s\<lparr>arrived := True, a_inter := 0\<rparr>
      else if \<not> step_open s then s\<lparr>arrived := True\<rparr> else s)"

definition integrate :: "pf_ctrl_in \<Rightarrow> fl \<Rightarrow> fl \<Rightarrow> fl \<Rightarrow> ad_t \<Rightarrow> ad_t" where
  "integrate inp e_true e dt s =
     (let push = 0 < in_saturated inp \<and> e < 0 \<or> in_saturated inp < 0 \<and> 0 < e;
          s = (if \<not> isfinite (a_inter s) then s\<lparr>a_inter := 0\<rparr> else s);
          e_int = (if arrived s \<and> 0 < e_true \<and> e < e_true then e_true else e);
          s = (if \<not> push \<and> isfinite e_int \<and> isfinite dt then s\<lparr>a_inter := a_inter s + e_int * dt\<rparr> else s);
          s = (if e_true < - IBAND_C \<and> a_inter s < 0 then s\<lparr>a_inter := 0\<rparr> else s);
          s = (if IBAND_C < e_true \<and> 0 < a_inter s then s\<lparr>a_inter := 0\<rparr> else s);
          s = s\<lparr>a_i := a_ki s * a_inter s\<rparr>;
          s = (if 0.5 < a_i s then s\<lparr>a_i := 0.5, a_inter := (if a_ki s \<noteq> 0 then 0.5 / a_ki s else 0)\<rparr> else s)
      in if a_i s < - 0.5 then s\<lparr>a_i := - 0.5, a_inter := (if a_ki s \<noteq> 0 then - 0.5 / a_ki s else 0)\<rparr> else s)"

definition rate_term :: "fl \<Rightarrow> fl \<Rightarrow> ad_t \<Rightarrow> ad_t" where
  "rate_term derv dt s =
     (let s = (if \<not> isfinite (derv_f s) then s\<lparr>derv_f := 0\<rparr> else s); tf = fmax 20 (a_Td s / 4);
          s = (if isfinite derv then s\<lparr>derv_f := derv_f s + (derv - derv_f s) * dt / (tf + dt)\<rparr> else s)
      in s\<lparr>a_d := a_kd s * derv_f s\<rparr>)"

definition approach_floor :: "pf_ctrl_in \<Rightarrow> fl \<Rightarrow> ad_t \<Rightarrow> ad_t" where
  "approach_floor inp e_true s =
     (if APPROACH_FLOOR \<and> \<not> in_tuning inp \<and> \<not> in_target_reached inp \<and> e_true < 0 \<and> isfinite (in_ambient_c inp) \<and>
         in_ambient_c inp + 5 < in_setpoint_c inp
      then (let rise = in_pit_c inp - in_ambient_c inp;
                hold = (if 0 < a_ff s then a_ff s * rise / (in_setpoint_c inp - in_ambient_c inp) else 0);
                hold = (if 0 < a_K s \<and> hold < rise / a_K s then rise / a_K s else hold);
                hold = clampd hold 0 (fmax (a_ff s) (in_u_max inp - 0.15))
            in if a_u s < hold then s\<lparr>a_u := hold\<rparr> else s)
      else s)"

definition print_note :: "msg \<Rightarrow> ad_t \<Rightarrow> string" where
  "print_note m s = (case a_env s of Some e \<Rightarrow> ae_print e m | None \<Rightarrow> [])"

definition ad_note :: "ad_t \<Rightarrow> string" where
  "ad_note s = print_note (Msg ''ff %.2f PB %.0f Ti %.0f Td %.0f%s%s''
     [AFl (a_ff s), AFl (pf_delta_from_c (a_PB_c s) (a_units s)), AFl (a_Ti s), AFl (a_Td s),
      AStr (if sch_valid s then '' tuned'' else if auto_tune s \<and> l_valid s then '' learned'' else ''''),
      AStr (if 0.5 < surplus s then '' holding back'' else '''')]) s"

definition before_law :: "pf_ctrl_in \<Rightarrow> ad_t \<Rightarrow> ad_t" where
  "before_law inp s =
     take_plant inp (take_schedule inp
       (if \<not> a_have_last s \<or> fl_differ (a_setpoint_c s) (in_setpoint_c inp) then ad_reset s inp else s))"

definition the_law :: "pf_ctrl_in \<Rightarrow> fl \<Rightarrow> ad_t \<Rightarrow> ad_t" where
  "the_law inp dt s =
     (let e_true = in_pit_c inp - in_setpoint_c inp; e = e_true + surplus s;
          s = s\<lparr>a_ff := ff_gain s * in_u_ff inp, a_p := a_kp s * e\<rparr>;
          s = integrate inp e_true e dt (arrive_at e_true (trim_integral e_true s));
          s = rate_term ((in_pit_c inp - a_last_pit s) / dt) dt s;
          s = approach_floor inp e_true (s\<lparr>a_u := clampd (a_ff s + a_p s + a_i s + a_d s) (- 1) 2\<rparr>)
      in s\<lparr>a_last_t := in_now_s inp, a_last_pit := in_pit_c inp, last_err := e\<rparr>)"

definition ad_update :: "ad_t \<Rightarrow> pf_ctrl_in \<Rightarrow> ad_t \<times> fl \<times> pf_ctrl_dbg" where
  "ad_update s inp =
     (let s = before_law inp s; dt = ad_dt inp s; s = model_step inp dt s;
          derv = (in_pit_c inp - a_last_pit s) / dt; s = the_law inp dt s; e = last_err s;
          s = monitor inp (in_pit_c inp - in_setpoint_c inp) s
      in (s, a_u s, \<lparr>dbg_p = a_p s, dbg_i = a_i s, dbg_d = a_d s, dbg_ff = a_ff s, dbg_error = e, dbg_derivative = derv,
                    dbg_integral = a_inter s, dbg_note = ad_note s\<rparr>))"

definition ad_configure :: "ad_t \<Rightarrow> json option \<Rightarrow> ad_t" where
  "ad_configure s c = (ad_config c s)\<lparr>a_have_last := False\<rparr>"

section \<open>Being told, and forgetting\<close>

definition ad_forget :: "ad_t \<Rightarrow> 32 word \<Rightarrow> ad_t" where
  "ad_forget s what =
     (let s = (if what AND PF_FORGET_TUNING \<noteq> 0
               then s\<lparr>l_PB_c := 0, l_Ti := 0, l_Td := 0, l_valid := False, l_ts := 0, l_src := [],
                      a_theta := THETA_DEFAULT, a_K := K_DEFAULT, a_tau := TAU_DEFAULT\<rparr>
               else s);
          s = (if what AND PF_FORGET_REFINEMENT \<noteq> 0
               then window_reset (a_last_t s) (s\<lparr>band_learned := replicate PF_SCALE_BANDS 0, band_anchor := replicate PF_SCALE_BANDS 0, band_PB_c := 0\<rparr>)
               else s)
      in save_learned (recompute s))"

definition ad_state_json :: "ad_t \<Rightarrow> json option" where
  "ad_state_json s = printed
     [(''kp'', JNum (a_kp s)), (''ki'', JNum (a_ki s)), (''kd'', JNum (a_kd s)), (''ff'', JNum (decimals 4 (a_ff s))),
      (''p'', JNum (decimals 4 (a_p s))), (''i'', JNum (decimals 4 (a_i s))), (''d'', JNum (decimals 4 (a_d s))),
      (''u'', JNum (decimals 4 (a_u s))), (''PB_c'', JNum (decimals 2 (a_PB_c s))), (''Ti'', JNum (decimals 1 (a_Ti s))),
      (''Td'', JNum (decimals 1 (a_Td s))), (''learned'', JBool (l_valid s)), (''auto_tune'', JBool (auto_tune s)),
      (''learned_ts'', JNum (decimals 0 (l_ts s))), (''src'', JStr (l_src s)), (''surplus'', JNum (decimals 2 (surplus s))),
      (''mdl'', JNum (decimals 3 (mdl s))), (''K'', JNum (decimals 0 (a_K s))), (''tau'', JNum (decimals 0 (a_tau s))),
      (''theta'', JNum (decimals 0 (a_theta s)))]"

text \<open>A relay test replaces what was known; the fit of a rise stays near what was typed and is averaged.\<close>

definition told_plant :: "fl \<Rightarrow> fl \<Rightarrow> fl \<Rightarrow> ad_t \<Rightarrow> ad_t" where
  "told_plant K tau theta s =
     s\<lparr>a_theta := (if 0 < theta then clampd theta THETA_MIN THETA_MAX else a_theta s),
       a_K := (if 0 < K then clampd K K_MIN K_MAX else a_K s), a_tau := (if 0 < tau then clampd tau TAU_MIN TAU_MAX else a_tau s)\<rparr>"

definition designed :: "fl \<Rightarrow> fl \<Rightarrow> fl \<Rightarrow> fl \<Rightarrow> fl \<Rightarrow> ad_t \<Rightarrow> (fl \<times> fl \<times> fl) option" where
  "designed Ku Pu K tau theta s =
     (if 0 < Ku \<and> 0 < Pu then Some (pf_tuning_from_relay_plant pf_tuning_rule_selected Ku Pu (a_K s) (a_tau s) (a_theta s))
      else if 0 < K \<and> 0 < tau \<and> 0 < theta then Some (pf_tuning_from_plant K tau theta) else None)"

definition within_bounds :: "bool \<Rightarrow> ad_t \<Rightarrow> fl \<times> fl \<times> fl \<Rightarrow> fl \<times> fl \<times> fl" where
  "within_bounds relay s = (\<lambda>(band, ti, td).
     (let near = (if relay then (band, ti, td)
                  else (clampd band (cfg_PB_c s * 0.5) (cfg_PB_c s * 1.5), clampd ti (cfg_Ti s * 0.5) (cfg_Ti s * 2), clampd td 0 (cfg_Td s * 2)))
      in case near of (band, ti, td) \<Rightarrow>
           (let band = clampd band 15 400; ti = clampd ti 60 3600; td = clampd td 0 240
            in if l_valid s \<and> \<not> relay then (0.5 * (band + l_PB_c s), 0.5 * (ti + l_Ti s), 0.5 * (td + l_Td s)) else (band, ti, td))))"

text \<open>Half of what was learned around the set point is kept as a hint.\<close>

definition keep_hint :: "fl \<Rightarrow> ad_t \<Rightarrow> ad_t" where
  "keep_hint band s =
     (let b = band_of (a_setpoint_c s); v = band_learned s ! b; a0 = band_anchor s ! b; r = (if 0 < v \<and> 0 < a0 then v / a0 else 0)
      in if 0 < r
         then s\<lparr>band_learned := (band_learned s)[b := band * clampd (1 + 0.5 * (r - 1)) LEARN_MIN LEARN_MAX],
                band_anchor := (band_anchor s)[b := band]\<rparr>
         else s\<lparr>band_learned := (band_learned s)[b := 0], band_anchor := (band_anchor s)[b := 0]\<rparr>)"

definition ad_now :: "ad_t \<Rightarrow> fl" where "ad_now s = (case a_env s of Some e \<Rightarrow> ae_time e | None \<Rightarrow> 0)"

definition ad_apply_tuning :: "ad_t \<Rightarrow> fl \<Rightarrow> fl \<Rightarrow> fl \<Rightarrow> fl \<Rightarrow> fl \<Rightarrow> ad_t" where
  "ad_apply_tuning s Ku Pu K tau theta =
     (let relay = 0 < Ku \<and> 0 < Pu; s = told_plant K tau theta s
      in case designed Ku Pu K tau theta s of
           None \<Rightarrow> s
         | Some (band, ti, td) \<Rightarrow>
             (if \<not> 0 < band \<or> \<not> 0 < ti then s
              else (case within_bounds relay s (band, ti, td) of (band, ti, td) \<Rightarrow>
                (let s = s\<lparr>l_PB_c := band, l_Ti := ti, l_Td := td, l_valid := True, l_ts := ad_now s,
                           l_src := (if relay then ''relay'' else ''model'')\<rparr>
                 in save_learned (recompute (keep_hint band s))))))"

text \<open>The option schema, without the texts the settings page shows.\<close>

definition ad_schema :: json where
  "ad_schema = JArr
     [JObj [(''option_name'', JStr ''PB''), (''option_type'', JStr ''float''), (''option_default'', JNum 80)],
      JObj [(''option_name'', JStr ''Ti''), (''option_type'', JStr ''float''), (''option_default'', JNum 400)],
      JObj [(''option_name'', JStr ''Td''), (''option_type'', JStr ''float''), (''option_default'', JNum 30)],
      JObj [(''option_name'', JStr ''ff_gain''), (''option_type'', JStr ''float''), (''option_default'', JNum 1)]]"

definition pf_controller_adaptive :: "ad_env option \<Rightarrow> ad_t pf_controller_ops" where
  "pf_controller_adaptive e = \<lparr>op_abi = PF_CONTROLLER_ABI, op_id = Some ''adaptive'', op_schema = Some ad_schema,
     op_recommend = (20, 0.08, 0.9), op_create = Some (\<lambda>c. Some (ad_create e c)), op_reset = Some ad_reset,
     op_update = Some (\<lambda>s inp dbg. ad_update s inp), op_configure = Some ad_configure, op_state_json = Some ad_state_json,
     op_apply_tuning = Some ad_apply_tuning, op_forget = Some ad_forget\<rparr>"

end
