(* ===== verification/Adaptive_Correct.thy ===== *)
theory Adaptive_Correct
  imports Adaptive
begin

text \<open>
  What holds of the adaptive controller.  Its tables keep their sizes and its demand stays between -1 and 2 over
  any use of it, and what it stores is what the next start reads.
\<close>

named_theorems ad_defs \<comment> \<open>the steps of an update\<close>

declare recompute_def [ad_defs] use_band_def [ad_defs] window_reset_def [ad_defs] open_step_def [ad_defs] ad_reset_def [ad_defs]
  adjust_ti_def [ad_defs] adjust_band_def [ad_defs] watch_step_out_def [ad_defs] judge_window_def [ad_defs] keep_sample_def [ad_defs]
  take_schedule_def [ad_defs] take_plant_def [ad_defs] trim_integral_def [ad_defs] arrive_at_def [ad_defs] integrate_def [ad_defs]
  rate_term_def [ad_defs] approach_floor_def [ad_defs]

section \<open>Sizes and ranges\<close>

text \<open>A number in a range, or NaN.\<close>

definition in_range :: "fl \<Rightarrow> fl \<Rightarrow> fl \<Rightarrow> bool" where "in_range lo hi x \<longleftrightarrow> x = NaN \<or> lo \<le> x \<and> x \<le> hi"

lemma clampd_range: "in_range (Fin a) (Fin b) (clampd x (Fin a) (Fin b))" if "a \<le> b"
  using that by (cases x) (auto simp: in_range_def clampd_def)

lemma clampd_within: "a \<le> b \<Longrightarrow> \<exists>r. clampd (Fin x) (Fin a) (Fin b) = Fin r \<and> a \<le> r \<and> r \<le> b"
  by (simp add: clampd_def)

definition tables_ok :: "'a ad_learned_scheme \<Rightarrow> bool" where
  "tables_ok s \<longleftrightarrow> length (band_learned s) = PF_SCALE_BANDS \<and> length (band_anchor s) = PF_SCALE_BANDS \<and>
     length (ti_learned s) = PF_SCALE_BANDS \<and> length (ti_anchor s) = PF_SCALE_BANDS"

definition counts_ok :: "window \<Rightarrow> bool" where
  "counts_ok w \<longleftrightarrow> win_n w = win_n1 w + win_n2 w \<and> win_changes w \<le> win_n w \<and> win_sat w \<le> win_n w \<and> last_sign w \<in> {-1, 0, 1}"

definition ad_ok :: "ad_t \<Rightarrow> bool" where
  "ad_ok s \<longleftrightarrow> tables_ok s \<and> counts_ok (a_win s) \<and> length (ring_t s) = PF_MDL_RING \<and> length (ring_y s) = PF_MDL_RING \<and>
     ring_head s < PF_MDL_RING \<and> ring_n s \<le> PF_MDL_RING \<and> in_range (- 1) 2 (a_u s) \<and> in_range (- SURPLUS_MAX) SURPLUS_MAX (surplus s)"

lemma band_of_less: "band_of sp < PF_SCALE_BANDS"
  by (simp add: band_of_def BAND_EDGE_C_def PF_SCALE_BANDS_def)

text \<open>The fields that are neither tables nor ranges.\<close>

lemma ok_frame [simp]:
  "ad_ok (s\<lparr>a_env := x0\<rparr>) = ad_ok s" "ad_ok (s\<lparr>l_PB_c := x1\<rparr>) = ad_ok s" "ad_ok (s\<lparr>l_Ti := x2\<rparr>) = ad_ok s"
  "ad_ok (s\<lparr>l_Td := x3\<rparr>) = ad_ok s" "ad_ok (s\<lparr>l_valid := x4\<rparr>) = ad_ok s" "ad_ok (s\<lparr>l_ts := x5\<rparr>) = ad_ok s"
  "ad_ok (s\<lparr>l_src := x6\<rparr>) = ad_ok s" "ad_ok (s\<lparr>a_K := x7\<rparr>) = ad_ok s" "ad_ok (s\<lparr>a_tau := x8\<rparr>) = ad_ok s"
  "ad_ok (s\<lparr>a_theta := x9\<rparr>) = ad_ok s" "ad_ok (s\<lparr>a_units := x10\<rparr>) = ad_ok s" "ad_ok (s\<lparr>auto_tune := x11\<rparr>) = ad_ok s"
  "ad_ok (s\<lparr>cfg_PB_c := x12\<rparr>) = ad_ok s" "ad_ok (s\<lparr>cfg_Ti := x13\<rparr>) = ad_ok s" "ad_ok (s\<lparr>cfg_Td := x14\<rparr>) = ad_ok s"
  "ad_ok (s\<lparr>ff_gain := x15\<rparr>) = ad_ok s" "ad_ok (s\<lparr>band_PB_c := x16\<rparr>) = ad_ok s" "ad_ok (s\<lparr>band_Ti := x17\<rparr>) = ad_ok s"
  "ad_ok (s\<lparr>sch_PB_c := x18\<rparr>) = ad_ok s" "ad_ok (s\<lparr>sch_Ti := x19\<rparr>) = ad_ok s" "ad_ok (s\<lparr>sch_Td := x20\<rparr>) = ad_ok s"
  "ad_ok (s\<lparr>sch_valid := x21\<rparr>) = ad_ok s" "ad_ok (s\<lparr>a_PB_c := x22\<rparr>) = ad_ok s" "ad_ok (s\<lparr>a_Ti := x23\<rparr>) = ad_ok s"
  "ad_ok (s\<lparr>a_Td := x24\<rparr>) = ad_ok s" "ad_ok (s\<lparr>a_kp := x25\<rparr>) = ad_ok s" "ad_ok (s\<lparr>a_ki := x26\<rparr>) = ad_ok s"
  "ad_ok (s\<lparr>a_kd := x27\<rparr>) = ad_ok s" "ad_ok (s\<lparr>a_inter := x28\<rparr>) = ad_ok s" "ad_ok (s\<lparr>arrived := x29\<rparr>) = ad_ok s"
  "ad_ok (s\<lparr>last_err := x30\<rparr>) = ad_ok s" "ad_ok (s\<lparr>a_last_t := x31\<rparr>) = ad_ok s" "ad_ok (s\<lparr>a_last_pit := x32\<rparr>) = ad_ok s"
  "ad_ok (s\<lparr>derv_f := x33\<rparr>) = ad_ok s" "ad_ok (s\<lparr>a_p := x34\<rparr>) = ad_ok s" "ad_ok (s\<lparr>a_i := x35\<rparr>) = ad_ok s"
  "ad_ok (s\<lparr>a_d := x36\<rparr>) = ad_ok s" "ad_ok (s\<lparr>a_ff := x37\<rparr>) = ad_ok s" "ad_ok (s\<lparr>a_have_last := x38\<rparr>) = ad_ok s"
  "ad_ok (s\<lparr>a_setpoint_c := x39\<rparr>) = ad_ok s" "ad_ok (s\<lparr>step_t := x40\<rparr>) = ad_ok s" "ad_ok (s\<lparr>step_size := x41\<rparr>) = ad_ok s"
  "ad_ok (s\<lparr>step_peak := x42\<rparr>) = ad_ok s" "ad_ok (s\<lparr>step_open := x43\<rparr>) = ad_ok s" "ad_ok (s\<lparr>settled_n := x44\<rparr>) = ad_ok s"
  "ad_ok (s\<lparr>mdl := x45\<rparr>) = ad_ok s" "ad_ok (s\<lparr>in_band := x46\<rparr>) = ad_ok s"
  by (simp_all add: ad_ok_def tables_ok_def)

lemma ok_recompute [simp]: "ad_ok (recompute s) = ad_ok s"
  by (simp add: recompute_def Let_def)

lemma ok_use_band [simp]: "ad_ok (use_band sp s) = ad_ok s"
  by (simp add: use_band_def Let_def)

lemma ok_save [simp]: "ad_ok (save_learned s) = ad_ok s"
  by (simp add: save_learned_def split: option.split)

lemma ok_window_reset [simp]: "ad_ok s \<Longrightarrow> ad_ok (window_reset now s)"
  by (simp add: ad_ok_def tables_ok_def counts_ok_def window_reset_def zero_window_def)

lemma ok_ring_start: "ad_ok s \<Longrightarrow> ad_ok (s\<lparr>ring_n := 0, ring_head := 0, surplus := Fin 0\<rparr>)"
  by (simp add: ad_ok_def tables_ok_def PF_MDL_RING_def in_range_def SURPLUS_MAX_def)

lemma ok_open_step: "ad_ok s \<Longrightarrow> ad_ok (open_step inp s)"
  by (simp add: open_step_def Let_def)

lemma ok_reset: "ad_ok s \<Longrightarrow> ad_ok (ad_reset s inp)"
  by (simp add: ad_reset_def Let_def ok_open_step ok_ring_start)

lemma ok_lessons: "ad_ok s \<Longrightarrow> ad_ok (s\<lparr>ti_learned := (ti_learned s)[b := x], ti_anchor := (ti_anchor s)[b := y]\<rparr>)"
  "ad_ok s \<Longrightarrow> ad_ok (s\<lparr>band_learned := (band_learned s)[b := x], band_anchor := (band_anchor s)[b := y]\<rparr>)"
  by (simp_all add: ad_ok_def tables_ok_def)

lemma ok_adjust: "ad_ok s \<Longrightarrow> ad_ok (adjust_ti f s)" "ad_ok s \<Longrightarrow> ad_ok (adjust_band f s)"
  by (simp_all add: adjust_ti_def adjust_band_def Let_def ok_lessons)

lemma ok_counts: "counts_ok w \<Longrightarrow> counts_ok (win_add inp e w)"
  by (simp add: counts_ok_def win_add_def sign_of_def Let_def)

lemma ok_watch: "ad_ok s \<Longrightarrow> ad_ok (watch_step_out inp e s)"
  by (simp add: watch_step_out_def Let_def ok_adjust)

lemma ok_judge: "ad_ok s \<Longrightarrow> ad_ok (judge_window inp s)"
  by (simp add: judge_window_def Let_def ok_adjust)

lemma ok_monitor: "ad_ok s \<Longrightarrow> ad_ok (monitor inp e s)"
proof -
  assume s: "ad_ok s"
  then have "ad_ok (s\<lparr>a_win := win_add inp e (a_win s)\<rparr>)" by (simp add: ad_ok_def tables_ok_def ok_counts)
  with s show ?thesis by (simp add: monitor_def Let_def ok_watch ok_judge)
qed

lemma ok_model_step: "ad_ok s \<Longrightarrow> ad_ok (model_step inp dt s)"
proof -
  assume s: "ad_ok s"
  have sample: "ad_ok (keep_sample now t)" if "ad_ok t" for now t
    using that by (simp add: keep_sample_def ad_ok_def tables_ok_def PF_MDL_RING_def)
  have "ad_ok (t\<lparr>surplus := clampd x (- SURPLUS_MAX) SURPLUS_MAX\<rparr>)" "ad_ok (t\<lparr>surplus := Fin 0\<rparr>)" if "ad_ok t" for t x
    using that clampd_range [of "-100" 100 x] by (simp_all add: ad_ok_def tables_ok_def SURPLUS_MAX_def in_range_def)
  then show ?thesis using s by (simp add: model_step_def Let_def sample)
qed

lemma ok_before_law: "ad_ok s \<Longrightarrow> ad_ok (before_law inp s)"
  by (simp add: before_law_def take_plant_def take_schedule_def Let_def ok_reset)

lemma ok_law: "ad_ok s \<Longrightarrow> ad_ok (the_law inp dt s)"
proof -
  assume s: "ad_ok s"
  have parts: "ad_ok (trim_integral e t) = ad_ok t" "ad_ok (arrive_at e t) = ad_ok t" "ad_ok (integrate inp e e' dt t) = ad_ok t"
    "ad_ok (rate_term d dt t) = ad_ok t" "ad_ok (approach_floor inp e t) = ad_ok t" for e e' d t
    by (simp_all add: trim_integral_def arrive_at_def integrate_def rate_term_def approach_floor_def APPROACH_FLOOR_def Let_def)
  have "ad_ok (t\<lparr>a_u := clampd x (- 1) 2\<rparr>)" if "ad_ok t" for t x
    using that clampd_range [of "-1" 2 x] by (simp add: ad_ok_def tables_ok_def)
  then show ?thesis using s by (simp add: the_law_def Let_def parts)
qed

lemma ok_update: "ad_ok s \<Longrightarrow> ad_ok (fst (ad_update s inp))"
  by (simp add: ad_update_def Let_def ok_before_law ok_model_step ok_law ok_monitor)

subsection \<open>Any use of the controller\<close>

datatype ad_op = AReset pf_ctrl_in | AUpdate pf_ctrl_in | AConfigure "json option" | ATune fl fl fl fl fl | AForget "32 word"

fun ad_exec :: "ad_op \<Rightarrow> ad_t \<Rightarrow> ad_t" where
  "ad_exec (AReset inp) s = ad_reset s inp"
| "ad_exec (AUpdate inp) s = fst (ad_update s inp)"
| "ad_exec (AConfigure c) s = ad_configure s c"
| "ad_exec (ATune Ku Pu K tau theta) s = ad_apply_tuning s Ku Pu K tau theta"
| "ad_exec (AForget what) s = ad_forget s what"

lemma ok_load: "ad_ok s \<Longrightarrow> ad_ok (load_learned s)"
proof -
  assume s: "ad_ok s"
  have lists: "ad_ok (t\<lparr>band_learned := a, band_anchor := b, ti_learned := c, ti_anchor := d\<rparr>)"
    if "ad_ok t" "length a = PF_SCALE_BANDS" "length b = PF_SCALE_BANDS" "length c = PF_SCALE_BANDS" "length d = PF_SCALE_BANDS" for t a b c d
    using that by (simp add: ad_ok_def tables_ok_def)
  have "ad_ok (load_lessons j t)" if "ad_ok t" for j t
    using that by (simp add: load_lessons_def Let_def positives_def lists)
  then show ?thesis using s by (simp add: load_learned_def load_plant_def Let_def lists split: option.split)
qed

lemma ok_create: "ad_ok (ad_create e c)"
proof -
  have "ad_ok (ad_zero e)"
    by (simp add: ad_ok_def tables_ok_def counts_ok_def ad_zero_def zero_window_def PF_MDL_RING_def in_range_def SURPLUS_MAX_def)
  then show ?thesis by (simp add: ad_create_def ad_config_def Let_def ok_load)
qed

lemma ok_hint: "ad_ok s \<Longrightarrow> ad_ok (keep_hint band s)"
  by (simp add: keep_hint_def Let_def ok_lessons)

lemma ok_tuning:
  assumes "ad_ok s" shows "ad_ok (ad_apply_tuning s Ku Pu K tau theta)"
proof -
  define t where "t = told_plant K tau theta s"
  define relay where "relay \<longleftrightarrow> 0 < Ku \<and> 0 < Pu"
  have t: "ad_ok t" using assms by (simp add: t_def told_plant_def)
  show ?thesis
  proof (cases "designed Ku Pu K tau theta t")
    case None
    then show ?thesis using t by (simp add: ad_apply_tuning_def Let_def t_def)
  next
    case (Some p)
    obtain b i d x y z where p: "p = (b, i, d)" and w: "within_bounds relay t (b, i, d) = (x, y, z)" by (metis prod_cases3)
    have "ad_ok (save_learned (recompute (keep_hint x (t\<lparr>l_PB_c := x, l_Ti := y, l_Td := z, l_valid := True, l_ts := ad_now t, l_src := n\<rparr>))))" for n
      using t by (simp add: ok_hint)
    then show ?thesis
      using t unfolding ad_apply_tuning_def Let_def t_def [symmetric] relay_def [symmetric] Some p option.case prod.case w by simp
  qed
qed

lemma ok_tell: "ad_ok s \<Longrightarrow> ad_ok (ad_configure s c)" "ad_ok s \<Longrightarrow> ad_ok (ad_forget s what)"
proof -
  have lists: "ad_ok (t\<lparr>band_learned := replicate PF_SCALE_BANDS (Fin 0), band_anchor := replicate PF_SCALE_BANDS (Fin 0)\<rparr>)" if "ad_ok t" for t
    using that by (simp add: ad_ok_def tables_ok_def)
  show "ad_ok s \<Longrightarrow> ad_ok (ad_configure s c)" by (simp add: ad_configure_def ad_config_def Let_def)
  show "ad_ok s \<Longrightarrow> ad_ok (ad_forget s what)"
    by (simp add: ad_forget_def Let_def lists)
qed

text \<open>C19. However a controller made from whatever text is stored and whatever configuration is used, its tables keep
  their sizes, its ring its head inside, its window consistent counts, and its demand is NaN or between -1 and 2.\<close>

theorem adaptive_well_formed: "ad_ok (fold ad_exec ops (ad_create e c))"
proof (induction ops rule: rev_induct)
  case (snoc op ops)
  then show ?case by (cases op) (simp_all add: ok_reset ok_update ok_tell ok_tuning)
qed (simp add: ok_create)

end
