(* ===== verification/Adaptive_Numbers.thy ===== *)
theory Adaptive_Numbers
  imports Adaptive_Correct
begin

text \<open>
  The adaptive controller on any readings: one that is no number leaves nothing behind, a feed that does not change
  predicts nothing, and what it learns stays near the tuning it corrects.
\<close>

section \<open>A reading that is no number\<close>

lemma fin_arith [simp]:
  "isfinite x \<Longrightarrow> isfinite y \<Longrightarrow> isfinite (x + y)" "isfinite x \<Longrightarrow> isfinite y \<Longrightarrow> isfinite (x * y)" "isfinite (- x) = isfinite x"
  "isfinite x \<Longrightarrow> isfinite y \<Longrightarrow> 0 < y \<Longrightarrow> isfinite (x / y)" "isfinite (\<bar>x\<bar>) = isfinite x"
  "isfinite x \<Longrightarrow> isfinite y \<Longrightarrow> y \<noteq> 0 \<Longrightarrow> isfinite (x / y)" for x y :: fl
  by (cases x; cases y; simp)+

lemma fin_clampd [simp]: "isfinite x \<Longrightarrow> isfinite a \<Longrightarrow> isfinite b \<Longrightarrow> isfinite (clampd x a b)"
  by (simp add: clampd_def)

definition all_fine :: "fl list \<Rightarrow> bool" where "all_fine xs \<longleftrightarrow> (\<forall>x \<in> set xs. isfinite x)"

lemma all_fine_simps [simp]:
  "all_fine xs \<Longrightarrow> isfinite x \<Longrightarrow> all_fine (xs[i := x])" "all_fine xs \<Longrightarrow> i < length xs \<Longrightarrow> isfinite (xs ! i)"
  using set_update_subset_insert [of xs i x] by (auto simp: all_fine_def)

definition fine_gains :: "'a ad_gains_scheme \<Rightarrow> bool" where
  "fine_gains s \<longleftrightarrow> isfinite (l_PB_c s) \<and> isfinite (l_Ti s) \<and> isfinite (l_Td s) \<and> isfinite (cfg_PB_c s) \<and> isfinite (cfg_Ti s) \<and>
     isfinite (cfg_Td s) \<and> isfinite (ff_gain s) \<and> isfinite (band_PB_c s) \<and> isfinite (band_Ti s) \<and> isfinite (sch_PB_c s) \<and>
     isfinite (sch_Ti s) \<and> isfinite (sch_Td s) \<and> isfinite (a_PB_c s) \<and> isfinite (a_Ti s) \<and> isfinite (a_Td s) \<and>
     isfinite (a_kp s) \<and> isfinite (a_ki s) \<and> isfinite (a_kd s) \<and> all_fine (band_learned s) \<and> all_fine (band_anchor s) \<and>
     all_fine (ti_learned s) \<and> all_fine (ti_anchor s) \<and> tables_ok s"

definition fine_model :: "ad_t \<Rightarrow> bool" where
  "fine_model s \<longleftrightarrow> isfinite (a_K s) \<and> isfinite (a_tau s) \<and> isfinite (a_theta s) \<and> isfinite (mdl s) \<and> isfinite (a_last_t s) \<and>
     isfinite (surplus s) \<and> all_fine (ring_t s) \<and> all_fine (ring_y s) \<and> length (ring_t s) = PF_MDL_RING \<and> length (ring_y s) = PF_MDL_RING"

definition fine :: "ad_t \<Rightarrow> bool" where "fine s \<longleftrightarrow> fine_gains s \<and> fine_model s"

text \<open>Everything but the pit is a number.\<close>

definition well_fed :: "pf_ctrl_in \<Rightarrow> bool" where
  "well_fed inp \<longleftrightarrow> isfinite (in_now_s inp) \<and> isfinite (in_setpoint_c inp) \<and> isfinite (in_u_prev_applied inp) \<and> isfinite (in_sched_PB_c inp) \<and>
     isfinite (in_sched_Ti inp) \<and> isfinite (in_sched_Td inp) \<and> isfinite (in_sched_K inp) \<and> isfinite (in_sched_tau inp) \<and>
     isfinite (in_sched_theta inp) \<and> isfinite (in_u_ff inp) \<and> isfinite (in_hold_K inp) \<and> isfinite (in_cycle_time_s inp)"

lemma fine_recompute: "fine_gains s \<Longrightarrow> fine_gains (recompute s)"
  by (simp add: fine_gains_def recompute_def Let_def anchor_PB_def tables_ok_def)

lemma fine_use_band: "fine_gains s \<Longrightarrow> fine_gains (use_band sp s)"
proof -
  assume s: "fine_gains s"
  define b where "b = band_of sp"
  have "isfinite (band_learned s ! b)" "isfinite (band_anchor s ! b)" "isfinite (ti_learned s ! b)" "isfinite (ti_anchor s ! b)"
    "isfinite (anchor_PB s)" "isfinite (anchor_Ti s)"
    using s band_of_less [of sp] by (simp_all add: b_def fine_gains_def tables_ok_def anchor_PB_def anchor_Ti_def)
  then have "fine_gains (s\<lparr>band_PB_c := x, band_Ti := y\<rparr>)" if "isfinite x" "isfinite y" for x y
    using s that by (simp add: fine_gains_def tables_ok_def)
  then show ?thesis
    using \<open>isfinite (band_learned s ! b)\<close> \<open>isfinite (band_anchor s ! b)\<close> \<open>isfinite (ti_learned s ! b)\<close> \<open>isfinite (ti_anchor s ! b)\<close>
      \<open>isfinite (anchor_PB s)\<close> \<open>isfinite (anchor_Ti s)\<close>
    unfolding use_band_def Let_def b_def [symmetric] by (intro fine_recompute) (simp add: LEARN_MIN_def LEARN_MAX_def TI_LEARN_MIN_def TI_LEARN_MAX_def)
qed

lemma fine_save: "fine_gains s \<Longrightarrow> fine_gains (save_learned s)"
  by (simp add: save_learned_def fine_gains_def tables_ok_def split: option.split)

lemma fine_lessons:
  assumes "fine_gains s" "isfinite x" "isfinite y"
  shows "fine_gains (s\<lparr>ti_learned := (ti_learned s)[b := x], ti_anchor := (ti_anchor s)[b := y], band_Ti := x\<rparr>)"
    "fine_gains (s\<lparr>band_learned := (band_learned s)[b := x], band_anchor := (band_anchor s)[b := y], band_PB_c := x\<rparr>)"
  using assms by (simp_all add: fine_gains_def tables_ok_def)

lemma fine_anchors: "fine_gains s \<Longrightarrow> isfinite (anchor_PB s)" "fine_gains s \<Longrightarrow> isfinite (anchor_Ti s)"
  "fine_gains s \<Longrightarrow> isfinite (a_PB_c s)" "fine_gains s \<Longrightarrow> isfinite (a_Ti s)"
  by (simp_all add: fine_gains_def anchor_PB_def anchor_Ti_def)

lemma fine_adjust_ti: "fine_gains s \<Longrightarrow> isfinite f \<Longrightarrow> fine_gains (adjust_ti f s)"
  using fine_anchors [of s]
  by (simp add: adjust_ti_def Let_def fine_save fine_recompute fine_lessons TI_LEARN_MIN_def TI_LEARN_MAX_def)

lemma fine_adjust_band: "fine_gains s \<Longrightarrow> isfinite f \<Longrightarrow> fine_gains (adjust_band f s)"
  using fine_anchors [of s]
  by (simp add: adjust_band_def Let_def fine_save fine_recompute fine_lessons LEARN_MIN_def LEARN_MAX_def)


text \<open>The fields neither looks at.\<close>

lemma gains_frame [simp]:
  "fine_gains (s\<lparr>a_K := x0\<rparr>) = fine_gains s" "fine_gains (s\<lparr>a_tau := x1\<rparr>) = fine_gains s" "fine_gains (s\<lparr>a_theta := x2\<rparr>) = fine_gains s"
  "fine_gains (s\<lparr>a_inter := x3\<rparr>) = fine_gains s" "fine_gains (s\<lparr>arrived := x4\<rparr>) = fine_gains s" "fine_gains (s\<lparr>last_err := x5\<rparr>) = fine_gains s"
  "fine_gains (s\<lparr>a_last_t := x6\<rparr>) = fine_gains s" "fine_gains (s\<lparr>a_last_pit := x7\<rparr>) = fine_gains s" "fine_gains (s\<lparr>derv_f := x8\<rparr>) = fine_gains s"
  "fine_gains (s\<lparr>a_p := x9\<rparr>) = fine_gains s" "fine_gains (s\<lparr>a_i := x10\<rparr>) = fine_gains s" "fine_gains (s\<lparr>a_d := x11\<rparr>) = fine_gains s"
  "fine_gains (s\<lparr>a_ff := x12\<rparr>) = fine_gains s" "fine_gains (s\<lparr>a_u := x13\<rparr>) = fine_gains s" "fine_gains (s\<lparr>a_have_last := x14\<rparr>) = fine_gains s"
  "fine_gains (s\<lparr>a_setpoint_c := x15\<rparr>) = fine_gains s" "fine_gains (s\<lparr>a_win := x16\<rparr>) = fine_gains s" "fine_gains (s\<lparr>step_t := x17\<rparr>) = fine_gains s"
  "fine_gains (s\<lparr>step_size := x18\<rparr>) = fine_gains s" "fine_gains (s\<lparr>step_peak := x19\<rparr>) = fine_gains s" "fine_gains (s\<lparr>step_open := x20\<rparr>) = fine_gains s"
  "fine_gains (s\<lparr>settled_n := x21\<rparr>) = fine_gains s" "fine_gains (s\<lparr>mdl := x22\<rparr>) = fine_gains s" "fine_gains (s\<lparr>ring_t := x23\<rparr>) = fine_gains s"
  "fine_gains (s\<lparr>ring_y := x24\<rparr>) = fine_gains s" "fine_gains (s\<lparr>ring_n := x25\<rparr>) = fine_gains s" "fine_gains (s\<lparr>ring_head := x26\<rparr>) = fine_gains s"
  "fine_gains (s\<lparr>surplus := x27\<rparr>) = fine_gains s" "fine_gains (s\<lparr>in_band := x28\<rparr>) = fine_gains s" "fine_gains (s\<lparr>sch_valid := x29\<rparr>) = fine_gains s"
  by (simp_all add: fine_gains_def tables_ok_def)

lemma model_frame [simp]:
  "fine_model (s\<lparr>a_env := x0\<rparr>) = fine_model s" "fine_model (s\<lparr>band_learned := x1\<rparr>) = fine_model s" "fine_model (s\<lparr>band_anchor := x2\<rparr>) = fine_model s"
  "fine_model (s\<lparr>ti_learned := x3\<rparr>) = fine_model s" "fine_model (s\<lparr>ti_anchor := x4\<rparr>) = fine_model s" "fine_model (s\<lparr>band_PB_c := x5\<rparr>) = fine_model s"
  "fine_model (s\<lparr>band_Ti := x6\<rparr>) = fine_model s" "fine_model (s\<lparr>sch_PB_c := x7\<rparr>) = fine_model s" "fine_model (s\<lparr>sch_Ti := x8\<rparr>) = fine_model s"
  "fine_model (s\<lparr>sch_Td := x9\<rparr>) = fine_model s" "fine_model (s\<lparr>sch_valid := x10\<rparr>) = fine_model s" "fine_model (s\<lparr>a_PB_c := x11\<rparr>) = fine_model s"
  "fine_model (s\<lparr>a_Ti := x12\<rparr>) = fine_model s" "fine_model (s\<lparr>a_Td := x13\<rparr>) = fine_model s" "fine_model (s\<lparr>a_kp := x14\<rparr>) = fine_model s"
  "fine_model (s\<lparr>a_ki := x15\<rparr>) = fine_model s" "fine_model (s\<lparr>a_kd := x16\<rparr>) = fine_model s" "fine_model (s\<lparr>a_inter := x17\<rparr>) = fine_model s"
  "fine_model (s\<lparr>arrived := x18\<rparr>) = fine_model s" "fine_model (s\<lparr>last_err := x19\<rparr>) = fine_model s" "fine_model (s\<lparr>a_last_pit := x20\<rparr>) = fine_model s"
  "fine_model (s\<lparr>derv_f := x21\<rparr>) = fine_model s" "fine_model (s\<lparr>a_p := x22\<rparr>) = fine_model s" "fine_model (s\<lparr>a_i := x23\<rparr>) = fine_model s"
  "fine_model (s\<lparr>a_d := x24\<rparr>) = fine_model s" "fine_model (s\<lparr>a_ff := x25\<rparr>) = fine_model s" "fine_model (s\<lparr>a_u := x26\<rparr>) = fine_model s"
  "fine_model (s\<lparr>a_have_last := x27\<rparr>) = fine_model s" "fine_model (s\<lparr>a_setpoint_c := x28\<rparr>) = fine_model s" "fine_model (s\<lparr>a_win := x29\<rparr>) = fine_model s"
  "fine_model (s\<lparr>step_t := x30\<rparr>) = fine_model s" "fine_model (s\<lparr>step_size := x31\<rparr>) = fine_model s" "fine_model (s\<lparr>step_peak := x32\<rparr>) = fine_model s"
  "fine_model (s\<lparr>step_open := x33\<rparr>) = fine_model s" "fine_model (s\<lparr>settled_n := x34\<rparr>) = fine_model s" "fine_model (s\<lparr>ring_n := x35\<rparr>) = fine_model s"
  "fine_model (s\<lparr>ring_head := x36\<rparr>) = fine_model s" "fine_model (s\<lparr>in_band := x37\<rparr>) = fine_model s"
  by (simp_all add: fine_model_def)

lemma fine_monitor: "fine_gains s \<Longrightarrow> fine_gains (monitor inp e s)"
proof -
  assume s: "fine_gains s"
  have w: "fine_gains (watch_step_out inp e t)" if "fine_gains t" for t
    using that by (simp add: watch_step_out_def Let_def fine_adjust_band)
  have j: "fine_gains (judge_window inp t)" if "fine_gains t" for t
    using that by (simp add: judge_window_def Let_def fine_adjust_band fine_adjust_ti)
  from s show ?thesis by (simp add: monitor_def window_reset_def Let_def w j)
qed


text \<open>The delay line.\<close>

lemma model_at_fine:
  assumes "isfinite want" "isfinite y0" "\<forall>(t, y) \<in> set xs. isfinite t \<and> isfinite y" "\<forall>(t, y) \<in> set_option after. isfinite t \<and> isfinite y"
  shows "isfinite (model_at want y0 after xs)"
  using assms
proof (induction want y0 after xs rule: model_at.induct)
  case (2 want y0 after t y earlier)
  show ?case
  proof (cases "t \<le> want")
    case True
    have "isfinite (y + (y' - y) * (want - t) / (t' - t))" if "t < t'" "isfinite t'" "isfinite y'" for t' y'
      using that "2.prems" by (cases t; cases t'; cases y; cases y'; cases want) auto
    with True "2.prems" show ?thesis by (auto split: option.split)
  qed (use "2" in auto)
qed simp

lemma samples_fine:
  assumes "fine_model s" shows "\<forall>(t, y) \<in> set (samples s). isfinite t \<and> isfinite y"
proof -
  have "isfinite (ring_t s ! i) \<and> isfinite (ring_y s ! i)" if "i < PF_MDL_RING" for i
    using assms that by (simp add: fine_model_def)
  moreover have "(ring_head s + 2 * PF_MDL_RING - 1 - k) mod PF_MDL_RING < PF_MDL_RING" for k
    by (simp add: PF_MDL_RING_def)
  ultimately show ?thesis by (auto simp: samples_def Let_def)
qed

lemma fine_keep_sample: "fine_model s \<Longrightarrow> isfinite now \<Longrightarrow> fine_model (keep_sample now s)"
  by (simp add: fine_model_def keep_sample_def)

lemma fine_model_step:
  assumes "fine_model s" "well_fed inp" "isfinite dt" shows "fine_model (model_step inp dt s)"
proof (cases "0 < a_tau s \<and> 0 < a_K s \<and> 0 < dt")
  case True
  define d where "d = clampd (in_u_prev_applied inp) 0 1"
  define t where "t = keep_sample (in_now_s inp) (s\<lparr>mdl := mdl s + (d - mdl s) * (dt / a_tau s)\<rparr>)"
  define b where "b = model_at (in_now_s inp - clampd (a_theta t) THETA_MIN THETA_MAX) (mdl t) None (samples t)"
  have f: "isfinite (mdl s)" "isfinite (a_tau s)" "isfinite (in_now_s inp)" "isfinite d"
    using assms by (simp_all add: fine_model_def well_fed_def d_def)
  then have "fine_model (s\<lparr>mdl := mdl s + (d - mdl s) * (dt / a_tau s)\<rparr>)"
    using assms True by (simp add: fine_model_def)
  then have t: "fine_model t" unfolding t_def by (rule fine_keep_sample) (rule f)
  then have "isfinite b"
    unfolding b_def using f by (intro model_at_fine samples_fine) (simp_all add: fine_model_def THETA_MIN_def THETA_MAX_def)
  moreover have "model_step inp dt s = t\<lparr>surplus := clampd (a_K t * (mdl t - b)) (- SURPLUS_MAX) SURPLUS_MAX\<rparr>"
    using True unfolding model_step_def Let_def b_def t_def d_def by simp
  ultimately show ?thesis using t by (simp add: fine_model_def SURPLUS_MAX_def)
next
  case False
  then have "model_step inp dt s = s\<lparr>surplus := 0\<rparr>" by (auto simp: model_step_def)
  with assms show ?thesis by (simp add: fine_model_def)
qed

lemma gains_model_step: "fine_gains (model_step inp dt s) = fine_gains s"
  by (simp add: model_step_def keep_sample_def Let_def fine_gains_def tables_ok_def)


lemma model_set [simp]: "fine_model s \<Longrightarrow> isfinite x \<Longrightarrow> fine_model (s\<lparr>a_last_t := x\<rparr>)"
  "fine_model s \<Longrightarrow> isfinite x \<Longrightarrow> fine_model (s\<lparr>mdl := x\<rparr>)" "fine_model s \<Longrightarrow> isfinite x \<Longrightarrow> fine_model (s\<lparr>surplus := x\<rparr>)"
  by (simp_all add: fine_model_def)

lemma model_kept [simp]: "fine_model (recompute s) = fine_model s" "fine_model (use_band sp s) = fine_model s"
  "fine_model (save_learned s) = fine_model s"
  by (simp_all add: recompute_def use_band_def save_learned_def Let_def split: option.split)

lemma model_monitor [simp]: "fine_model (monitor inp e s) = fine_model s"
proof -
  have a: "fine_model (adjust_ti f t) = fine_model t" "fine_model (adjust_band f t) = fine_model t" for f t
    by (simp_all add: adjust_ti_def adjust_band_def Let_def)
  have w: "fine_model (watch_step_out inp e t) = fine_model t" "fine_model (judge_window inp t) = fine_model t" for t
    by (simp_all add: watch_step_out_def judge_window_def Let_def a)
  show ?thesis by (simp add: monitor_def window_reset_def Let_def w)
qed

lemma fine_reset: "fine s \<Longrightarrow> well_fed inp \<Longrightarrow> fine (ad_reset s inp)"
proof -
  assume s: "fine s" and inp: "well_fed inp"
  have "fine_gains (open_step inp s)" "fine_model (open_step inp s)"
    using s by (simp_all add: fine_def open_step_def Let_def)
  then have "fine_gains (use_band (in_setpoint_c inp) (open_step inp s))" "fine_model (use_band (in_setpoint_c inp) (open_step inp s))"
    by (simp_all add: fine_use_band)
  moreover have "isfinite (in_now_s inp)" "isfinite (clampd (in_u_prev_applied inp) 0 1)" using inp by (simp_all add: well_fed_def)
  ultimately show ?thesis by (simp add: fine_def ad_reset_def window_reset_def Let_def)
qed

lemma fine_take: "fine s \<Longrightarrow> well_fed inp \<Longrightarrow> fine (take_plant inp (take_schedule inp s))"
proof -
  assume s: "fine s" and inp: "well_fed inp"
  have "fine_gains (s\<lparr>sch_valid := b, sch_PB_c := in_sched_PB_c inp, sch_Ti := in_sched_Ti inp, sch_Td := in_sched_Td inp\<rparr>)" for b
    using s inp by (simp add: fine_def fine_gains_def tables_ok_def well_fed_def)
  then have t: "fine_gains (take_schedule inp s)" "fine_model (take_schedule inp s)"
    using s by (simp_all add: take_schedule_def Let_def fine_use_band fine_def)
  have "fine_model (take_plant inp t)" if "fine_model t" for t
    using that inp by (simp add: take_plant_def Let_def fine_model_def well_fed_def K_MIN_def K_MAX_def TAU_MIN_def TAU_MAX_def THETA_MIN_def THETA_MAX_def)
  moreover have "fine_gains (take_plant inp t) = fine_gains t" for t by (simp add: take_plant_def Let_def)
  ultimately show ?thesis using t by (simp add: fine_def)
qed


subsection \<open>The law on a finite reading\<close>

lemma law_gains: "fine_gains (the_law inp dt s) = fine_gains s"
proof -
  have "fine_gains (trim_integral e t) = fine_gains t" "fine_gains (arrive_at e t) = fine_gains t"
    "fine_gains (integrate inp e e' dt t) = fine_gains t" "fine_gains (rate_term d dt t) = fine_gains t"
    "fine_gains (approach_floor inp e t) = fine_gains t" for e e' d t
    by (simp_all add: trim_integral_def arrive_at_def integrate_def rate_term_def approach_floor_def Let_def)
  then show ?thesis by (simp add: the_law_def Let_def)
qed

lemma law_model: "fine_model s \<Longrightarrow> well_fed inp \<Longrightarrow> fine_model (the_law inp dt s)"
proof -
  have "fine_model (trim_integral e t) = fine_model t" "fine_model (arrive_at e t) = fine_model t"
    "fine_model (integrate inp e e' dt t) = fine_model t" "fine_model (rate_term d dt t) = fine_model t"
    "fine_model (approach_floor inp e t) = fine_model t" for e e' d t
    by (simp_all add: trim_integral_def arrive_at_def integrate_def rate_term_def approach_floor_def Let_def)
  then show "fine_model s \<Longrightarrow> well_fed inp \<Longrightarrow> fine_model (the_law inp dt s)" by (simp add: the_law_def Let_def well_fed_def)
qed

lemma dt_fine: "fine s \<Longrightarrow> well_fed inp \<Longrightarrow> isfinite (ad_dt inp s) \<and> 0 < ad_dt inp s"
  by (cases "in_now_s inp"; cases "a_last_t s"; cases "in_cycle_time_s inp")
    (simp_all add: ad_dt_def fine_def fine_model_def well_fed_def)

lemma integral_fine:
  assumes "isfinite (a_ki s)" shows "isfinite (a_i (integrate inp e e' dt s))"
proof -
  define s1 where "s1 = (if \<not> isfinite (a_inter s) then s\<lparr>a_inter := 0\<rparr> else s)"
  have s1: "isfinite (a_inter s1)" "a_ki s1 = a_ki s" by (simp_all add: s1_def)
  have "isfinite (a_ki s * x)" if "isfinite x" for x using assms that by simp
  with s1 assms show ?thesis
    unfolding integrate_def s1_def [symmetric] Let_def by (simp add: Let_def)
qed

lemma rate_fine:
  assumes "isfinite (a_kd s)" "isfinite (a_Td s)" "isfinite dt" "0 < dt" shows "isfinite (a_d (rate_term derv dt s))"
proof -
  obtain t where t: "fmax 20 (a_Td s / 4) = Fin t" "0 < t" using assms(2) by (cases "a_Td s") auto
  obtain r where r: "dt = Fin r" "0 < r" using assms(3,4) by (cases dt) auto
  have step: "isfinite (x + (derv - x) * dt / (fmax 20 (a_Td s / 4) + dt))" if "isfinite x" "isfinite derv" for x
    using that t r by (cases x; cases derv) simp_all
  show ?thesis using assms step [of 0] step [of "derv_f s"] by (simp add: rate_term_def Let_def)
qed


lemma law_demand:
  assumes "fine s" "well_fed inp" "isfinite (in_pit_c inp)" "isfinite dt" "0 < dt"
  shows "\<exists>u. a_u (the_law inp dt s) = Fin u \<and> -1 \<le> u \<and> u \<le> 2"
proof -
  define e where "e = in_pit_c inp - in_setpoint_c inp"
  define s1 where "s1 = s\<lparr>a_ff := ff_gain s * in_u_ff inp, a_p := a_kp s * (e + surplus s)\<rparr>"
  define s2 where "s2 = arrive_at e (trim_integral e s1)"
  define s3 where "s3 = integrate inp e (e + surplus s) dt s2"
  define s4 where "s4 = rate_term ((in_pit_c inp - a_last_pit s3) / dt) dt s3"
  have e: "isfinite e" using assms by (simp add: e_def well_fed_def)
  have k: "isfinite (a_ki s)" "isfinite (a_kd s)" "isfinite (a_Td s)" "isfinite (a_kp s)" "isfinite (ff_gain s)" "isfinite (surplus s)"
    using assms(1) by (simp_all add: fine_def fine_gains_def fine_model_def)
  have keep: "a_ff (trim_integral e t) = a_ff t" "a_p (trim_integral e t) = a_p t" "a_ff (arrive_at e t) = a_ff t" "a_p (arrive_at e t) = a_p t"
    "a_ki (arrive_at e t) = a_ki t" "a_ki (trim_integral e t) = a_ki t" "a_kd (arrive_at e t) = a_kd t" "a_kd (trim_integral e t) = a_kd t"
    "a_Td (arrive_at e t) = a_Td t" "a_Td (trim_integral e t) = a_Td t" for t
    by (simp_all add: trim_integral_def arrive_at_def Let_def)
  have keep3: "a_ff s3 = a_ff s2" "a_p s3 = a_p s2" "a_kd s3 = a_kd s2" "a_Td s3 = a_Td s2"
    by (simp_all add: s3_def integrate_def Let_def)
  have keep4: "a_ff s4 = a_ff s3" "a_p s4 = a_p s3" "a_i s4 = a_i s3"
    by (simp_all add: s4_def rate_term_def Let_def)
  have "isfinite (a_i s3)" unfolding s3_def by (rule integral_fine) (simp add: s2_def keep s1_def k)
  moreover have "isfinite (a_d s4)" unfolding s4_def using assms(4,5) by (intro rate_fine) (simp_all add: keep3 s2_def keep s1_def k)
  moreover have "isfinite (a_ff s2)" "isfinite (a_p s2)"
    using e k assms(2) by (simp_all add: s2_def keep s1_def well_fed_def)
  ultimately have "isfinite (a_ff s4 + a_p s4 + a_i s4 + a_d s4)" by (simp add: keep3 keep4)
  then obtain x where "a_ff s4 + a_p s4 + a_i s4 + a_d s4 = Fin x" by (auto simp: isfinite_iff)
  moreover have "a_u (the_law inp dt s) = clampd (a_ff s4 + a_p s4 + a_i s4 + a_d s4) (- 1) 2"
    unfolding the_law_def Let_def s4_def s3_def s2_def s1_def e_def by (simp add: approach_floor_def APPROACH_FLOOR_def)
  ultimately show ?thesis using clampd_within [of "-1" 2 x] by simp
qed

lemma monitor_demand: "a_u (monitor inp e s) = a_u s"
proof -
  have r: "a_u (recompute t) = a_u t" "a_u (save_learned t) = a_u t" for t
    by (simp_all add: save_learned_def recompute_def Let_def split: option.split)
  have a: "a_u (adjust_ti f t) = a_u t" "a_u (adjust_band f t) = a_u t" for f t
    by (simp_all add: adjust_ti_def adjust_band_def r Let_def)
  have w: "a_u (watch_step_out inp e t) = a_u t" "a_u (judge_window inp t) = a_u t" for t
    by (simp_all add: watch_step_out_def judge_window_def Let_def a)
  show ?thesis by (simp add: monitor_def window_reset_def Let_def w)
qed

lemma fine_update:
  assumes "fine s" "well_fed inp"
  shows "fine (fst (ad_update s inp))"
    and "isfinite (in_pit_c inp) \<Longrightarrow> \<exists>u. fst (snd (ad_update s inp)) = Fin u \<and> -1 \<le> u \<and> u \<le> 2"
proof -
  define s1 where "s1 = before_law inp s"
  define dt where "dt = ad_dt inp s1"
  define s2 where "s2 = model_step inp dt s1"
  define s3 where "s3 = the_law inp dt s2"
  define s4 where "s4 = monitor inp (in_pit_c inp - in_setpoint_c inp) s3"
  have s1: "fine s1" using assms by (simp add: s1_def before_law_def fine_take fine_reset)
  then have dt: "isfinite dt" "0 < dt" using dt_fine assms(2) unfolding dt_def by blast+
  have s2: "fine s2" using s1 dt assms(2) by (simp add: s2_def fine_def fine_model_step gains_model_step)
  then have s3: "fine s3" using assms(2) by (simp add: s3_def fine_def law_gains law_model)
  then have "fine s4" by (simp add: s4_def fine_def fine_monitor)
  moreover have u: "fst (ad_update s inp) = s4" "fst (snd (ad_update s inp)) = a_u s3"
    by (simp_all add: ad_update_def Let_def s4_def s3_def s2_def dt_def s1_def monitor_demand)
  ultimately show "fine (fst (ad_update s inp))" by simp
  show "\<exists>u. fst (snd (ad_update s inp)) = Fin u \<and> -1 \<le> u \<and> u \<le> 2" if "isfinite (in_pit_c inp)"
    using law_demand [OF s2 assms(2) that dt] by (simp add: u s3_def)
qed

text \<open>Any readings.\<close>

definition ad_run :: "pf_ctrl_in list \<Rightarrow> ad_t \<Rightarrow> ad_t" where
  "ad_run inps s = fold (\<lambda>inp s. fst (ad_update s inp)) inps s"

lemma fine_run: "fine s \<Longrightarrow> \<forall>inp \<in> set inps. well_fed inp \<Longrightarrow> fine (ad_run inps s)"
  by (induction inps arbitrary: s) (simp_all add: ad_run_def fine_update)

text \<open>C23. Whatever the pit read before -- NaN and infinities included, for as long as they lasted -- the first reading that
  is a number gets a demand that is a number between -1 and 2: nothing of the bad readings stays behind.\<close>

theorem no_reading_poisons:
  assumes "fine s" "\<forall>inp \<in> set (inp # inps). well_fed inp" "isfinite (in_pit_c inp)"
  shows "\<exists>u. fst (snd (ad_update (ad_run inps s) inp)) = Fin u \<and> -1 \<le> u \<and> u \<le> 2"
  using assms fine_run fine_update(2) by simp

lemma fine_created: "fine (ad_create None None)"
  by (simp add: ad_create_def ad_config_def load_learned_def ad_zero_def stored_text_def fine_def fine_gains_def fine_model_def all_fine_def
    tables_ok_def recompute_def Let_def anchor_PB_def pf_pid_cfg_num_def pf_pid_cfg_units_def pf_delta_to_c_def PF_MDL_RING_def
    PF_SCALE_BANDS_def THETA_DEFAULT_def K_DEFAULT_def TAU_DEFAULT_def)

theorem no_reading_poisons_witness:
  "\<exists>u. fst (snd (ad_update (ad_run [pid_in_example\<lparr>in_pit_c := NaN\<rparr>, pid_in_example\<lparr>in_pit_c := PInf\<rparr>] (ad_create None None)) pid_in_example)) = Fin u \<and>
     -1 \<le> u \<and> u \<le> 2"
  by (rule no_reading_poisons) (simp_all add: fine_created well_fed_def pid_in_example_def)

section \<open>A feed that does not change\<close>

lemma ring_index:
  fixes h j :: nat
  assumes "h < 64"
  shows "((h + 1) mod 64 + 127) mod 64 = h"
    and "j < 63 \<Longrightarrow> ((h + 1) mod 64 + 127 - Suc j) mod 64 = (h + 127 - j) mod 64"
    and "j < 63 \<Longrightarrow> (h + 127 - j) mod 64 \<noteq> h"
proof -
  have h: "(h + 1) mod 64 = (if h = 63 then 0 else h + 1)" using assms by simp
  show "((h + 1) mod 64 + 127) mod 64 = h" using assms by (simp add: h mod_if)
  show "((h + 1) mod 64 + 127 - Suc j) mod 64 = (h + 127 - j) mod 64" if "j < 63"
  proof (cases "h = 63")
    case True
    have "h + 127 - j = 126 - j + 64 * 1" using that True by simp
    then have "(h + 127 - j) mod 64 = (126 - j) mod 64" by (simp only: mod_mult_self2)
    then show ?thesis using True by simp
  next
    case False
    then have "(h + 1) mod 64 + 127 - Suc j = h + 127 - j" using assms by (simp only: h if_False)
    then show ?thesis by (simp only:)
  qed
  show "(h + 127 - j) mod 64 \<noteq> h" if "j < 63"
  proof (cases "j < h")
    case True
    then have "h + 127 - j = h - 1 - j + 64 * 2" by simp
    then have "(h + 127 - j) mod 64 = (h - 1 - j) mod 64" by (simp only: mod_mult_self2)
    also have "\<dots> = h - 1 - j" using assms by simp
    finally show ?thesis using True by linarith
  next
    case False
    then have "h + 127 - j = h + 63 - j + 64 * 1" using that by simp
    then have "(h + 127 - j) mod 64 = (h + 63 - j) mod 64" by (simp only: mod_mult_self2)
    also have "\<dots> = h + 63 - j" using False that by simp
    finally show ?thesis using that by linarith
  qed
qed

lemma sample_before:
  assumes "ring_head s < PF_MDL_RING" "length (ring_t s) = PF_MDL_RING" "length (ring_y s) = PF_MDL_RING" "ring_n s \<le> PF_MDL_RING"
  shows "set (samples (keep_sample now s)) \<subseteq> insert (now, mdl s) (set (samples s))"
proof
  fix p assume "p \<in> set (samples (keep_sample now s))"
  then obtain k where k: "k < ring_n (keep_sample now s)"
    and p: "p = (let i = (ring_head (keep_sample now s) + 2 * PF_MDL_RING - 1 - k) mod PF_MDL_RING
      in (ring_t (keep_sample now s) ! i, ring_y (keep_sample now s) ! i))"
    unfolding samples_def by auto
  show "p \<in> insert (now, mdl s) (set (samples s))"
  proof (cases k)
    case 0
    have "(ring_head (keep_sample now s) + 2 * PF_MDL_RING - 1 - k) mod PF_MDL_RING = ring_head s"
      using assms(1) ring_index(1) [of "ring_head s"] 0 by (simp add: keep_sample_def PF_MDL_RING_def add.commute)
    then show ?thesis using assms p [unfolded Let_def] by (simp add: keep_sample_def)
  next
    case (Suc j)
    have j: "j < 63" "j < ring_n s" using k Suc assms(4) by (auto simp: keep_sample_def PF_MDL_RING_def split: if_splits)
    have "(ring_head (keep_sample now s) + 2 * PF_MDL_RING - 1 - k) mod PF_MDL_RING = (ring_head s + 2 * PF_MDL_RING - 1 - j) mod PF_MDL_RING"
      "(ring_head s + 2 * PF_MDL_RING - 1 - j) mod PF_MDL_RING \<noteq> ring_head s"
      using assms(1) j(1) ring_index(2,3) [of "ring_head s" j] Suc by (simp_all add: keep_sample_def PF_MDL_RING_def add.commute)
    then have "p = (let i = (ring_head s + 2 * PF_MDL_RING - 1 - j) mod PF_MDL_RING in (ring_t s ! i, ring_y s ! i))"
      using p [unfolded Let_def] by (simp add: keep_sample_def Let_def)
    then show ?thesis using j(2) by (auto simp: samples_def)
  qed
qed

lemma model_at_calm:
  assumes "isfinite want" "\<forall>(t, y) \<in> set xs. isfinite t \<and> y = Fin u" "\<forall>(t, y) \<in> set_option after. isfinite t \<and> y = Fin u"
  shows "model_at want (Fin u) after xs = Fin u"
  using assms
proof (induction want "Fin u" after xs rule: model_at.induct)
  case (2 want after t y earlier)
  have "Fin u + (Fin u - Fin u) * (want - t) / (t' - t) = Fin u" if "t < t'" "isfinite t'" for t'
    using that "2.prems" by (cases t; cases t'; cases want) auto
  with "2" show ?case by (auto split: option.split)
qed simp

definition calm :: "real \<Rightarrow> ad_t \<Rightarrow> bool" where
  "calm u s \<longleftrightarrow> fine s \<and> mdl s = Fin u \<and> ring_head s < PF_MDL_RING \<and> ring_n s \<le> PF_MDL_RING \<and> (\<forall>(t, y) \<in> set (samples s). y = Fin u)"

lemma calm_reset:
  assumes "fine s" "well_fed inp" "in_u_prev_applied inp = Fin u" "0 \<le> u" "u \<le> 1"
  shows "calm u (ad_reset s inp)"
proof -
  have "mdl (ad_reset s inp) = clampd (Fin u) 0 1" "ring_head (ad_reset s inp) = 0" "ring_n (ad_reset s inp) = 0"
    using assms(3) by (simp_all add: ad_reset_def Let_def)
  then show ?thesis using assms fine_reset by (simp add: calm_def clampd_def samples_def PF_MDL_RING_def)
qed

lemma calm_model_step:
  assumes "calm u s" "well_fed inp" "in_u_prev_applied inp = Fin u" "0 \<le> u" "u \<le> 1" "isfinite dt" "0 < dt"
  shows "calm u (model_step inp dt s) \<and> surplus (model_step inp dt s) = 0"
proof (cases "0 < a_tau s \<and> 0 < a_K s")
  case True
  define s1 where "s1 = s\<lparr>mdl := mdl s + (clampd (in_u_prev_applied inp) 0 1 - mdl s) * (dt / a_tau s)\<rparr>"
  define t where "t = keep_sample (in_now_s inp) s1"
  define b where "b = model_at (in_now_s inp - clampd (a_theta t) THETA_MIN THETA_MAX) (mdl t) None (samples t)"
  have c: "fine s" "mdl s = Fin u" "ring_head s < PF_MDL_RING" "\<forall>(t, y) \<in> set (samples s). y = Fin u" "ring_n s \<le> PF_MDL_RING"
    using assms(1) by (simp_all add: calm_def)
  have "mdl s1 = Fin u"
    using True assms c(1,2) by (cases "a_tau s"; cases dt) (simp_all add: s1_def clampd_def fine_def fine_model_def)
  moreover have same: "ring_head s1 = ring_head s" "ring_n s1 = ring_n s" "samples s1 = samples s" "ring_t s1 = ring_t s" "ring_y s1 = ring_y s"
    by (simp_all add: s1_def samples_def)
  ultimately have s1: "fine s1" "mdl s1 = Fin u" using c by (simp_all add: s1_def fine_def)
  then have t: "fine t" "mdl t = Fin u" "ring_head t < PF_MDL_RING" "ring_n t \<le> PF_MDL_RING"
    using assms(2) c(5) same by (simp_all add: t_def fine_def fine_keep_sample well_fed_def) (simp_all add: keep_sample_def PF_MDL_RING_def)
  have "set (samples t) \<subseteq> insert (in_now_s inp, Fin u) (set (samples s))"
    using sample_before [of s1 "in_now_s inp"] c same s1 by (simp add: t_def fine_def fine_model_def)
  then have y: "\<forall>(t, y) \<in> set (samples t). y = Fin u" using c(4) by auto
  moreover have "b = Fin u"
    unfolding b_def t(2) using t(1) assms(2) samples_fine [of t] y
    by (intro model_at_calm) (auto simp: fine_def fine_model_def well_fed_def THETA_MIN_def THETA_MAX_def)
  moreover have step: "model_step inp dt s = t\<lparr>surplus := clampd (a_K t * (mdl t - b)) (- SURPLUS_MAX) SURPLUS_MAX\<rparr>"
    using True assms(7) unfolding model_step_def Let_def b_def t_def s1_def by simp
  moreover obtain k where "a_K t = Fin k" using t(1) by (auto simp: fine_def fine_model_def isfinite_iff)
  ultimately show ?thesis using t by (simp add: calm_def samples_def fine_def clampd_def SURPLUS_MAX_def)
next
  case False
  then have "model_step inp dt s = s\<lparr>surplus := 0\<rparr>" by (auto simp: model_step_def)
  with assms(1) show ?thesis by (simp add: calm_def samples_def fine_def)
qed


lemma model_parts:
  "mdl (take_plant inp t) = mdl t" "ring_head (take_plant inp t) = ring_head t" "ring_n (take_plant inp t) = ring_n t"
  "samples (take_plant inp t) = samples t"
  "mdl (take_schedule inp t) = mdl t" "ring_head (take_schedule inp t) = ring_head t" "ring_n (take_schedule inp t) = ring_n t"
  "samples (take_schedule inp t) = samples t"
  by (simp_all add: take_plant_def take_schedule_def use_band_def recompute_def samples_def Let_def)

definition model_of :: "ad_t \<Rightarrow> fl \<times> nat \<times> nat \<times> fl list \<times> fl list \<times> fl" where
  "model_of s = (mdl s, ring_head s, ring_n s, ring_t s, ring_y s, surplus s)"

lemma model_of_frame [simp]:
  "model_of (s\<lparr>a_env := x0\<rparr>) = model_of s" "model_of (s\<lparr>band_learned := x1\<rparr>) = model_of s" "model_of (s\<lparr>band_anchor := x2\<rparr>) = model_of s"
  "model_of (s\<lparr>ti_learned := x3\<rparr>) = model_of s" "model_of (s\<lparr>ti_anchor := x4\<rparr>) = model_of s" "model_of (s\<lparr>band_PB_c := x5\<rparr>) = model_of s"
  "model_of (s\<lparr>band_Ti := x6\<rparr>) = model_of s" "model_of (s\<lparr>a_PB_c := x7\<rparr>) = model_of s" "model_of (s\<lparr>a_Ti := x8\<rparr>) = model_of s"
  "model_of (s\<lparr>a_Td := x9\<rparr>) = model_of s" "model_of (s\<lparr>a_kp := x10\<rparr>) = model_of s" "model_of (s\<lparr>a_ki := x11\<rparr>) = model_of s"
  "model_of (s\<lparr>a_kd := x12\<rparr>) = model_of s" "model_of (s\<lparr>a_inter := x13\<rparr>) = model_of s" "model_of (s\<lparr>arrived := x14\<rparr>) = model_of s"
  "model_of (s\<lparr>last_err := x15\<rparr>) = model_of s" "model_of (s\<lparr>a_last_t := x16\<rparr>) = model_of s" "model_of (s\<lparr>a_last_pit := x17\<rparr>) = model_of s"
  "model_of (s\<lparr>derv_f := x18\<rparr>) = model_of s" "model_of (s\<lparr>a_p := x19\<rparr>) = model_of s" "model_of (s\<lparr>a_i := x20\<rparr>) = model_of s"
  "model_of (s\<lparr>a_d := x21\<rparr>) = model_of s" "model_of (s\<lparr>a_ff := x22\<rparr>) = model_of s" "model_of (s\<lparr>a_u := x23\<rparr>) = model_of s"
  "model_of (s\<lparr>a_win := x24\<rparr>) = model_of s" "model_of (s\<lparr>step_t := x25\<rparr>) = model_of s" "model_of (s\<lparr>step_size := x26\<rparr>) = model_of s"
  "model_of (s\<lparr>step_peak := x27\<rparr>) = model_of s" "model_of (s\<lparr>step_open := x28\<rparr>) = model_of s" "model_of (s\<lparr>settled_n := x29\<rparr>) = model_of s"
  "model_of (s\<lparr>in_band := x30\<rparr>) = model_of s"
  by (simp_all add: model_of_def)

lemma model_of_gains [simp]: "model_of (recompute s) = model_of s" "model_of (save_learned s) = model_of s"
  by (simp_all add: recompute_def save_learned_def Let_def split: option.split)

lemma model_of_law: "model_of (the_law inp dt s) = model_of s"
proof -
  have "model_of (trim_integral e t) = model_of t" "model_of (arrive_at e t) = model_of t" "model_of (integrate inp e e' dt t) = model_of t"
    "model_of (rate_term d dt t) = model_of t" "model_of (approach_floor inp e t) = model_of t" for e e' d t
    by (simp_all add: trim_integral_def arrive_at_def integrate_def rate_term_def approach_floor_def Let_def)
  then show ?thesis by (simp add: the_law_def Let_def)
qed

lemma model_of_monitor: "model_of (monitor inp e s) = model_of s"
proof -
  have a: "model_of (adjust_ti f t) = model_of t" "model_of (adjust_band f t) = model_of t" for f t
    by (simp_all add: adjust_ti_def adjust_band_def Let_def)
  have w: "model_of (watch_step_out inp e t) = model_of t" "model_of (judge_window inp t) = model_of t" for t
    by (simp_all add: watch_step_out_def judge_window_def Let_def a)
  show ?thesis by (simp add: monitor_def window_reset_def Let_def w)
qed

lemma calm_kept: "calm u s \<Longrightarrow> model_of t = model_of s \<Longrightarrow> fine t \<Longrightarrow> calm u t"
  by (simp add: calm_def model_of_def samples_def)

lemma calm_update:
  assumes "calm u s" "well_fed inp" "in_u_prev_applied inp = Fin u" "0 \<le> u" "u \<le> 1"
  shows "calm u (fst (ad_update s inp))" and "dbg_error (snd (snd (ad_update s inp))) = in_pit_c inp - in_setpoint_c inp"
proof -
  define s0 where "s0 = (if \<not> a_have_last s \<or> fl_differ (a_setpoint_c s) (in_setpoint_c inp) then ad_reset s inp else s)"
  define s1 where "s1 = before_law inp s"
  define dt where "dt = ad_dt inp s1"
  define s2 where "s2 = model_step inp dt s1"
  define s3 where "s3 = the_law inp dt s2"
  define s4 where "s4 = monitor inp (in_pit_c inp - in_setpoint_c inp) s3"
  have s: "fine s" using assms(1) by (simp add: calm_def)
  then have s0: "calm u s0" using assms calm_reset by (simp add: s0_def)
  have eq: "s1 = take_plant inp (take_schedule inp s0)" by (simp only: s1_def before_law_def s0_def)
  moreover have "fine s1" unfolding eq using s0 assms(2) by (intro fine_take) (simp_all add: calm_def)
  ultimately have s1: "calm u s1" using s0 by (simp add: calm_def model_parts)
  then have dt: "isfinite dt" "0 < dt" using dt_fine assms(2) unfolding dt_def calm_def by blast+
  have s2: "calm u s2" "surplus s2 = 0" using calm_model_step [OF s1 assms(2-5) dt] by (simp_all add: s2_def)
  have out: "fst (ad_update s inp) = s4" "dbg_error (snd (snd (ad_update s inp))) = last_err s3"
    by (simp_all add: ad_update_def Let_def s4_def s3_def s2_def dt_def s1_def)
  have "model_of s4 = model_of s2" unfolding s4_def s3_def by (simp add: model_of_law model_of_monitor)
  moreover have "fine s4" using fine_update(1) [OF s assms(2)] out by simp
  ultimately show "calm u (fst (ad_update s inp))" using calm_kept [OF s2(1)] out by simp
  have "last_err s3 = in_pit_c inp - in_setpoint_c inp + surplus s2" by (simp add: s3_def the_law_def Let_def)
  then show "dbg_error (snd (snd (ad_update s inp))) = in_pit_c inp - in_setpoint_c inp"
    using s2(2) out by (cases "in_pit_c inp"; cases "in_setpoint_c inp") simp_all
qed

lemma calm_run:
  "calm u s \<Longrightarrow> \<forall>i \<in> set inps. well_fed i \<and> in_u_prev_applied i = Fin u \<Longrightarrow> 0 \<le> u \<Longrightarrow> u \<le> 1 \<Longrightarrow> calm u (ad_run inps s)"
  by (induction inps arbitrary: s) (simp_all add: ad_run_def calm_update)

text \<open>As long as the feed has been the same since the controller was reset, the prediction adds nothing: the error the
  loop works on is the pit's own, whatever the plant, the schedule and the readings were.\<close>

theorem steady_feed_predicts_nothing:
  assumes "fine s" "0 \<le> u" "u \<le> 1" "\<forall>i \<in> set (first # inps @ [inp]). well_fed i \<and> in_u_prev_applied i = Fin u"
  shows "dbg_error (snd (snd (ad_update (ad_run inps (ad_reset s first)) inp))) = in_pit_c inp - in_setpoint_c inp"
proof -
  have "calm u (ad_run inps (ad_reset s first))" using assms calm_reset calm_run by simp
  then show ?thesis using assms calm_update(2) by simp
qed

theorem steady_feed_predicts_nothing_witness:
  "dbg_error (snd (snd (ad_update (ad_run [pid_in_example, pid_in_example\<lparr>in_now_s := 120\<rparr>] (ad_reset (ad_create None None) pid_in_example))
     (pid_in_example\<lparr>in_now_s := 140, in_pit_c := 103\<rparr>)))) = -2"
  using steady_feed_predicts_nothing [of "ad_create None None" "3 / 10" pid_in_example "[pid_in_example, pid_in_example\<lparr>in_now_s := 120\<rparr>]"
     "pid_in_example\<lparr>in_now_s := 140, in_pit_c := 103\<rparr>"]
  by (simp add: fine_created well_fed_def pid_in_example_def)

end
