(* ===== verification/Adaptive_Learning.thy ===== *)
theory Adaptive_Learning
  imports Adaptive_Numbers
begin

text \<open>
  What the monitor of the adaptive controller learns: corrections of a tuning, which stay within a proportion of
  it, and what becomes of them when a new tuning arrives or when they are to be forgotten.  What is stored is what
  the next start reads.
\<close>

section \<open>Corrections stay near the tuning\<close>

text \<open>What was typed is usable, what is marked as measured was measured, and a lesson has what it was learned against.\<close>

definition taught :: "'a ad_gains_scheme \<Rightarrow> bool" where
  "taught s \<longleftrightarrow> 0 < cfg_PB_c s \<and> 0 < cfg_Ti s \<and> (l_valid s \<longrightarrow> 0 < l_PB_c s \<and> 0 < l_Ti s) \<and>
     (sch_valid s \<longrightarrow> 0 < sch_PB_c s \<and> 0 < sch_Ti s) \<and> fine_gains s \<and>
     (\<forall>b < PF_SCALE_BANDS. 0 < band_learned s ! b \<longrightarrow> 0 < band_anchor s ! b)"

definition band_near :: "'a ad_gains_scheme \<Rightarrow> bool" where
  "band_near s \<longleftrightarrow> (0 < band_PB_c s \<longrightarrow> LEARN_MIN * anchor_PB s \<le> band_PB_c s \<and> band_PB_c s \<le> LEARN_MAX * anchor_PB s) \<and>
     (0 < band_Ti s \<longrightarrow> TI_LEARN_MIN * anchor_Ti s \<le> band_Ti s \<and> band_Ti s \<le> TI_LEARN_MAX * anchor_Ti s)"

definition in_force :: "'a ad_gains_scheme \<Rightarrow> bool" where
  "in_force s \<longleftrightarrow> a_PB_c s = (if auto_tune s \<and> 0 < band_PB_c s then band_PB_c s else anchor_PB s) \<and>
     a_Ti s = (if auto_tune s \<and> 0 < band_Ti s then band_Ti s else anchor_Ti s)"

definition near_tune :: "'a ad_gains_scheme \<Rightarrow> bool" where "near_tune s \<longleftrightarrow> taught s \<and> band_near s \<and> in_force s"

lemma anchors_frame [simp]:
  "anchor_PB (s\<lparr>a_env := x0PB\<rparr>) = anchor_PB s" "anchor_Ti (s\<lparr>a_env := x0Ti\<rparr>) = anchor_Ti s" "anchor_PB (s\<lparr>a_K := x1PB\<rparr>) = anchor_PB s"
  "anchor_Ti (s\<lparr>a_K := x1Ti\<rparr>) = anchor_Ti s" "anchor_PB (s\<lparr>a_tau := x2PB\<rparr>) = anchor_PB s" "anchor_Ti (s\<lparr>a_tau := x2Ti\<rparr>) = anchor_Ti s"
  "anchor_PB (s\<lparr>a_theta := x3PB\<rparr>) = anchor_PB s" "anchor_Ti (s\<lparr>a_theta := x3Ti\<rparr>) = anchor_Ti s" "anchor_PB (s\<lparr>band_learned := x4PB\<rparr>) = anchor_PB s"
  "anchor_Ti (s\<lparr>band_learned := x4Ti\<rparr>) = anchor_Ti s" "anchor_PB (s\<lparr>band_anchor := x5PB\<rparr>) = anchor_PB s" "anchor_Ti (s\<lparr>band_anchor := x5Ti\<rparr>) = anchor_Ti s"
  "anchor_PB (s\<lparr>ti_learned := x6PB\<rparr>) = anchor_PB s" "anchor_Ti (s\<lparr>ti_learned := x6Ti\<rparr>) = anchor_Ti s" "anchor_PB (s\<lparr>ti_anchor := x7PB\<rparr>) = anchor_PB s"
  "anchor_Ti (s\<lparr>ti_anchor := x7Ti\<rparr>) = anchor_Ti s" "anchor_PB (s\<lparr>band_PB_c := x8PB\<rparr>) = anchor_PB s" "anchor_Ti (s\<lparr>band_PB_c := x8Ti\<rparr>) = anchor_Ti s"
  "anchor_PB (s\<lparr>band_Ti := x9PB\<rparr>) = anchor_PB s" "anchor_Ti (s\<lparr>band_Ti := x9Ti\<rparr>) = anchor_Ti s" "anchor_PB (s\<lparr>a_inter := x10PB\<rparr>) = anchor_PB s"
  "anchor_Ti (s\<lparr>a_inter := x10Ti\<rparr>) = anchor_Ti s"
  by (simp_all add: anchor_PB_def anchor_Ti_def)

lemma near_frame [simp]:
  "near_tune (s\<lparr>a_K := x0\<rparr>) = near_tune s" "near_tune (s\<lparr>a_tau := x1\<rparr>) = near_tune s" "near_tune (s\<lparr>a_theta := x2\<rparr>) = near_tune s"
  "near_tune (s\<lparr>a_inter := x3\<rparr>) = near_tune s" "near_tune (s\<lparr>arrived := x4\<rparr>) = near_tune s" "near_tune (s\<lparr>last_err := x5\<rparr>) = near_tune s"
  "near_tune (s\<lparr>a_last_t := x6\<rparr>) = near_tune s" "near_tune (s\<lparr>a_last_pit := x7\<rparr>) = near_tune s" "near_tune (s\<lparr>derv_f := x8\<rparr>) = near_tune s"
  "near_tune (s\<lparr>a_p := x9\<rparr>) = near_tune s" "near_tune (s\<lparr>a_i := x10\<rparr>) = near_tune s" "near_tune (s\<lparr>a_d := x11\<rparr>) = near_tune s"
  "near_tune (s\<lparr>a_ff := x12\<rparr>) = near_tune s" "near_tune (s\<lparr>a_u := x13\<rparr>) = near_tune s" "near_tune (s\<lparr>a_have_last := x14\<rparr>) = near_tune s"
  "near_tune (s\<lparr>a_setpoint_c := x15\<rparr>) = near_tune s" "near_tune (s\<lparr>a_win := x16\<rparr>) = near_tune s" "near_tune (s\<lparr>step_t := x17\<rparr>) = near_tune s"
  "near_tune (s\<lparr>step_size := x18\<rparr>) = near_tune s" "near_tune (s\<lparr>step_peak := x19\<rparr>) = near_tune s" "near_tune (s\<lparr>step_open := x20\<rparr>) = near_tune s"
  "near_tune (s\<lparr>settled_n := x21\<rparr>) = near_tune s" "near_tune (s\<lparr>mdl := x22\<rparr>) = near_tune s" "near_tune (s\<lparr>ring_t := x23\<rparr>) = near_tune s"
  "near_tune (s\<lparr>ring_y := x24\<rparr>) = near_tune s" "near_tune (s\<lparr>ring_n := x25\<rparr>) = near_tune s" "near_tune (s\<lparr>ring_head := x26\<rparr>) = near_tune s"
  "near_tune (s\<lparr>surplus := x27\<rparr>) = near_tune s" "near_tune (s\<lparr>in_band := x28\<rparr>) = near_tune s"
  by (simp_all add: near_tune_def taught_def band_near_def in_force_def anchor_PB_def anchor_Ti_def)

lemma anchors_positive: "taught s \<Longrightarrow> 0 < anchor_PB s" "taught s \<Longrightarrow> 0 < anchor_Ti s"
  by (simp_all add: taught_def anchor_PB_def anchor_Ti_def)

lemma anchors_fine: "taught s \<Longrightarrow> isfinite (anchor_PB s)" "taught s \<Longrightarrow> isfinite (anchor_Ti s)"
  "taught s \<Longrightarrow> isfinite (a_PB_c s)" "taught s \<Longrightarrow> isfinite (a_Ti s)"
  by (simp_all add: taught_def fine_anchors)

lemma anchors_recompute [simp]: "anchor_PB (recompute s) = anchor_PB s" "anchor_Ti (recompute s) = anchor_Ti s"
  by (simp_all add: recompute_def anchor_PB_def anchor_Ti_def Let_def)

lemma recompute_fields [simp]:
  "band_PB_c (recompute s) = band_PB_c s" "band_Ti (recompute s) = band_Ti s" "auto_tune (recompute s) = auto_tune s"
  by (simp_all add: recompute_def Let_def)

lemma near_recompute: "taught s \<Longrightarrow> band_near s \<Longrightarrow> near_tune (recompute s)"
proof -
  assume s: "taught s" "band_near s"
  have "taught (recompute s)" using s(1) fine_recompute [of s] by (simp add: taught_def) (simp add: recompute_def Let_def)
  moreover have "band_near (recompute s)" using s(2) by (simp add: band_near_def)
  moreover have "in_force (recompute s)"
  proof -
    have "(if sch_valid s then sch_Ti s else if auto_tune s \<and> l_valid s then l_Ti s else cfg_Ti s) = anchor_Ti s"
      using s(1) by (simp add: taught_def anchor_Ti_def)
    moreover have "a_PB_c (recompute s) = (if auto_tune s \<and> 0 < band_PB_c s then band_PB_c s else anchor_PB s)"
      "a_Ti (recompute s) = (if auto_tune s \<and> 0 < band_Ti s then band_Ti s
         else if sch_valid s then sch_Ti s else if auto_tune s \<and> l_valid s then l_Ti s else cfg_Ti s)"
      by (simp_all only: recompute_def Let_def ad_gains.simps ad_gains.ext_inject ad_gains.surjective) simp_all
    ultimately show ?thesis by (simp only: in_force_def recompute_fields anchors_recompute) 
  qed
  ultimately show ?thesis by (simp add: near_tune_def)
qed

lemma clampd_near:
  assumes "isfinite x" "isfinite a" "0 < a" "0 < lo" "lo \<le> hi"
  shows "0 < clampd x (a * Fin lo) (a * Fin hi) \<and> Fin lo * a \<le> clampd x (a * Fin lo) (a * Fin hi) \<and>
    clampd x (a * Fin lo) (a * Fin hi) \<le> Fin hi * a"
proof -
  obtain r where a: "a = Fin r" "0 < r" using assms(2,3) by (cases a) auto
  obtain y where x: "x = Fin y" using assms(1) by (cases x) auto
  have "r * lo \<le> r * hi" "0 < r * lo" "0 < r * hi" using a assms(4,5) by simp_all
  then show ?thesis by (auto simp: a x clampd_def mult.commute [of lo] mult.commute [of hi] not_less)
qed

lemma near_use_band:
  assumes "taught s" shows "near_tune (use_band sp s)"
proof -
  define b where "b = band_of sp"
  define v where "v = band_learned s ! b"
  define w where "w = (if 0 < v then if 0 < band_anchor s ! b \<and> 0 < anchor_PB s then clampd (anchor_PB s * (v / band_anchor s ! b)) (anchor_PB s * LEARN_MIN) (anchor_PB s * LEARN_MAX) else v else 0)"
  define t where "t = (if 0 < ti_learned s ! b \<and> 0 < ti_anchor s ! b \<and> 0 < anchor_Ti s
     then clampd (anchor_Ti s * (ti_learned s ! b / ti_anchor s ! b)) (anchor_Ti s * TI_LEARN_MIN) (anchor_Ti s * TI_LEARN_MAX) else 0)"
  have b: "b < PF_SCALE_BANDS" by (simp add: b_def band_of_less)
  have f: "fine_gains s" "isfinite (anchor_PB s)" "isfinite (anchor_Ti s)" using assms by (simp_all add: taught_def fine_anchors)
  have n: "isfinite v" "isfinite (band_anchor s ! b)" "isfinite (ti_learned s ! b)" "isfinite (ti_anchor s ! b)"
    using f(1) b by (simp_all add: v_def fine_gains_def tables_ok_def)
  have w: "isfinite w" "0 < w \<longrightarrow> LEARN_MIN * anchor_PB s \<le> w \<and> w \<le> LEARN_MAX * anchor_PB s"
    using n f anchors_positive [OF assms] assms b clampd_near [of "anchor_PB s * (v / band_anchor s ! b)" "anchor_PB s" "7 / 10" "8 / 5"]
    by (simp_all add: w_def LEARN_MIN_def LEARN_MAX_def) (auto simp: taught_def v_def)
  have t: "isfinite t" "0 < t \<longrightarrow> TI_LEARN_MIN * anchor_Ti s \<le> t \<and> t \<le> TI_LEARN_MAX * anchor_Ti s"
    using n f anchors_positive [OF assms] clampd_near [of "anchor_Ti s * (ti_learned s ! b / ti_anchor s ! b)" "anchor_Ti s" "2 / 5" "5 / 4"]
    by (simp_all add: t_def TI_LEARN_MIN_def TI_LEARN_MAX_def)
  have "use_band sp s = recompute (s\<lparr>band_PB_c := w, band_Ti := t\<rparr>)"
    by (simp add: use_band_def Let_def w_def t_def v_def b_def)
  moreover have "taught (s\<lparr>band_PB_c := w, band_Ti := t\<rparr>)"
    using assms w(1) t(1) by (simp add: taught_def fine_gains_def tables_ok_def)
  moreover have "band_near (s\<lparr>band_PB_c := w, band_Ti := t\<rparr>)"
    using w(2) t(2) by (simp add: band_near_def)
  ultimately show ?thesis using near_recompute by metis
qed

lemma near_save: "near_tune s \<Longrightarrow> near_tune (save_learned s)"
  by (simp add: save_learned_def near_tune_def taught_def band_near_def in_force_def fine_gains_def tables_ok_def split: option.split)
    (simp add: anchor_PB_def anchor_Ti_def)

lemma lesson_at:
  fixes xs ys :: "fl list"
  assumes "\<forall>b < n. 0 < xs ! b \<longrightarrow> 0 < ys ! b" "length xs = n" "length ys = n" "0 < (y :: fl)"
  shows "\<forall>c < n. 0 < xs[b := x] ! c \<longrightarrow> 0 < ys[b := y] ! c"
proof (intro allI impI)
  fix c assume "c < n" "0 < xs[b := x] ! c"
  then show "0 < ys[b := y] ! c" using assms by (cases "c = b") simp_all
qed

lemma near_adjust_band:
  assumes "near_tune s" "isfinite f" shows "near_tune (adjust_band f s)"
proof -
  define a where "a = anchor_PB s"
  define base where "base = (if 0 < a_PB_c s then a_PB_c s else a)"
  define w where "w = clampd (base / f) (a * LEARN_MIN) (a * LEARN_MAX)"
  define b where "b = band_of (a_setpoint_c s)"
  define t where "t = s\<lparr>band_learned := (band_learned s)[b := w], band_anchor := (band_anchor s)[b := a], band_PB_c := w\<rparr>"
  have s: "taught s" "band_near s" using assms(1) by (simp_all add: near_tune_def)
  have a: "0 < a" "isfinite a" using s(1) by (simp_all add: a_def anchors_positive anchors_fine del: zero_fl_def)
  have base: "isfinite base" using a s(1) by (simp add: base_def anchors_fine)
  have "adjust_band f s = s \<or> adjust_band f s = save_learned (recompute t)"
    using a(1) by (simp add: adjust_band_def Let_def w_def base_def a_def b_def t_def)
  moreover have "near_tune (save_learned (recompute t))" if "0 < f"
  proof (intro near_save near_recompute)
    have w: "isfinite w" "0 < w" "LEARN_MIN * a \<le> w" "w \<le> LEARN_MAX * a"
      using that assms(2) base a clampd_near [of "base / f" a "7 / 10" "8 / 5"] by (simp_all add: w_def LEARN_MIN_def LEARN_MAX_def)
    have "fine_gains t" unfolding t_def using s(1) w(1) a(2) by (intro fine_lessons) (simp_all add: taught_def)
    then show "taught t" using s(1) lesson_at [of PF_SCALE_BANDS "band_learned s" "band_anchor s" a b w] a(1)
      by (simp add: taught_def) (simp add: t_def fine_gains_def tables_ok_def)
    show "band_near t" using s(2) w by (simp add: t_def band_near_def a_def)
  qed
  moreover have "adjust_band f s = s" if "\<not> 0 < f" using that by (simp add: adjust_band_def Let_def)
  ultimately show ?thesis using assms(1) by metis
qed

lemma near_adjust_ti:
  assumes "near_tune s" "isfinite f" shows "near_tune (adjust_ti f s)"
proof -
  define a where "a = anchor_Ti s"
  define base where "base = (if 0 < a_Ti s then a_Ti s else a)"
  define w where "w = clampd (base / f) (a * TI_LEARN_MIN) (a * TI_LEARN_MAX)"
  define b where "b = band_of (a_setpoint_c s)"
  define t where "t = s\<lparr>ti_learned := (ti_learned s)[b := w], ti_anchor := (ti_anchor s)[b := a], band_Ti := w\<rparr>"
  have s: "taught s" "band_near s" using assms(1) by (simp_all add: near_tune_def)
  have a: "0 < a" "isfinite a" using s(1) by (simp_all add: a_def anchors_positive anchors_fine del: zero_fl_def)
  have base: "isfinite base" using a s(1) by (simp add: base_def anchors_fine)
  have "adjust_ti f s = s \<or> adjust_ti f s = save_learned (recompute t)"
    by (simp add: adjust_ti_def Let_def w_def base_def a_def b_def t_def)
  moreover have "near_tune (save_learned (recompute t))" if "0 < f"
  proof (intro near_save near_recompute)
    have w: "isfinite w" "TI_LEARN_MIN * a \<le> w" "w \<le> TI_LEARN_MAX * a"
      using that assms(2) base a clampd_near [of "base / f" a "2 / 5" "5 / 4"] by (simp_all add: w_def TI_LEARN_MIN_def TI_LEARN_MAX_def)
    have "fine_gains t" unfolding t_def using s(1) w(1) a(2) by (intro fine_lessons) (simp_all add: taught_def)
    then show "taught t" using s(1) by (simp add: taught_def) (simp add: t_def)
    show "band_near t" using s(2) w by (simp add: t_def band_near_def a_def)
  qed
  moreover have "adjust_ti f s = s" if "\<not> 0 < f" using that by (simp add: adjust_ti_def Let_def)
  ultimately show ?thesis using assms(1) by metis
qed


lemma near_monitor: "near_tune s \<Longrightarrow> near_tune (monitor inp e s)"
proof -
  assume s: "near_tune s"
  have w: "near_tune (watch_step_out inp e t)" if "near_tune t" for t
    using that by (simp add: watch_step_out_def Let_def near_adjust_band)
  have j: "near_tune (judge_window inp t)" if "near_tune t" for t
    using that by (simp add: judge_window_def Let_def near_adjust_band near_adjust_ti)
  from s show ?thesis by (simp add: monitor_def window_reset_def Let_def w j)
qed

lemma near_reset: "near_tune s \<Longrightarrow> near_tune (ad_reset s inp)"
proof -
  assume "near_tune s"
  then have "near_tune (open_step inp s)" by (simp add: open_step_def Let_def)
  then have "taught (open_step inp s)" by (simp add: near_tune_def)
  then have "near_tune (use_band (in_setpoint_c inp) (open_step inp s))" by (rule near_use_band)
  then show ?thesis by (simp add: ad_reset_def window_reset_def Let_def)
qed

lemma near_schedule:
  assumes "near_tune s" "well_fed inp" shows "near_tune (take_schedule inp s)"
proof -
  define sch where "sch = (0 < in_sched_PB_c inp \<and> 0 < in_sched_Ti inp)"
  define t where "t = s\<lparr>sch_valid := sch, sch_PB_c := in_sched_PB_c inp, sch_Ti := in_sched_Ti inp, sch_Td := in_sched_Td inp\<rparr>"
  have t: "taught t"
    using assms by (simp add: near_tune_def taught_def t_def sch_def well_fed_def fine_gains_def tables_ok_def)
  show ?thesis
    using assms(1) near_use_band [OF t] unfolding take_schedule_def Let_def sch_def [symmetric] t_def [symmetric] by simp
qed

lemma near_law: "near_tune (the_law inp dt s) = near_tune s"
proof -
  have "near_tune (trim_integral e t) = near_tune t" "near_tune (arrive_at e t) = near_tune t"
    "near_tune (integrate inp e e' dt t) = near_tune t" "near_tune (rate_term d dt t) = near_tune t"
    "near_tune (approach_floor inp e t) = near_tune t" for e e' d t
    by (simp_all add: trim_integral_def arrive_at_def integrate_def rate_term_def approach_floor_def Let_def)
  then show ?thesis by (simp add: the_law_def Let_def)
qed

lemma near_update: "near_tune s \<Longrightarrow> well_fed inp \<Longrightarrow> near_tune (fst (ad_update s inp))"
proof -
  assume s: "near_tune s" and inp: "well_fed inp"
  have "near_tune (take_plant inp t) = near_tune t" "near_tune (model_step inp dt t) = near_tune t" for t dt
    by (simp_all add: take_plant_def model_step_def keep_sample_def Let_def)
  then show ?thesis
    using s inp by (simp add: ad_update_def before_law_def Let_def near_monitor near_law near_schedule near_reset)
qed


lemma near_created: "near_tune (ad_create None None)"
proof -
  define s where "s = load_learned ((ad_zero None)\<lparr>a_theta := THETA_DEFAULT, a_K := K_DEFAULT, a_tau := TAU_DEFAULT\<rparr>)"
  define t where "t = s\<lparr>a_units := UnitsF, cfg_PB_c := pf_delta_to_c 80 UnitsF, cfg_Ti := 400, cfg_Td := 30, ff_gain := 1, auto_tune := True\<rparr>"
  have s: "s = (ad_zero None)\<lparr>a_theta := THETA_DEFAULT, a_K := K_DEFAULT, a_tau := TAU_DEFAULT\<rparr>"
    by (simp add: s_def load_learned_def ad_zero_def stored_text_def Let_def)
  have "taught t" "band_near t"
    by (simp_all add: t_def s ad_zero_def taught_def band_near_def fine_gains_def tables_ok_def all_fine_def pf_delta_to_c_def PF_SCALE_BANDS_def)
  moreover have "ad_create None None = recompute t"
    by (simp add: ad_create_def ad_config_def s_def [symmetric] t_def Let_def pf_pid_cfg_num_def pf_pid_cfg_units_def)
  ultimately show ?thesis using near_recompute by metis
qed


section \<open>New tunings and forgetting\<close>

lemma forget_bits: "PF_FORGET_REFINEMENT AND PF_FORGET_TUNING = 0" "PF_FORGET_REFINEMENT AND PF_FORGET_REFINEMENT \<noteq> 0"
  by (simp_all add: PF_FORGET_REFINEMENT_def PF_FORGET_TUNING_def)

lemma save_in_force: "a_PB_c (save_learned s) = a_PB_c s" "a_Ti (save_learned s) = a_Ti s"
  by (simp_all add: save_learned_def split: option.split)

text \<open>C29. Corrections outlive what replaces them: a tuning just measured leaves the band in force as it was while a
  correction of the old one stands, and forgetting the refinements leaves the learned integral time in force.\<close>

theorem corrections_outlive:
  assumes "in_force s" "auto_tune s" "0 < band_PB_c s" "0 < band_Ti s"
  shows "a_PB_c (ad_apply_tuning s Ku Pu K tau theta) = a_PB_c s \<and> a_Ti (ad_forget s PF_FORGET_REFINEMENT) = a_Ti s"
proof
  have r: "a_PB_c (recompute t) = band_PB_c t" if "auto_tune t" "0 < band_PB_c t" for t :: ad_t
    using that by (simp add: recompute_def Let_def)
  have r': "a_Ti (recompute t) = band_Ti t" if "auto_tune t" "0 < band_Ti t" for t :: ad_t
    using that by (simp add: recompute_def Let_def)
  have s: "a_PB_c s = band_PB_c s" "a_Ti s = band_Ti s" using assms by (simp_all add: in_force_def)
  define t where "t = told_plant K tau theta s"
  have t: "a_PB_c t = a_PB_c s" "auto_tune t" "band_PB_c t = band_PB_c s" using assms by (simp_all add: t_def told_plant_def)
  have h: "auto_tune (keep_hint b r) = auto_tune r" "band_PB_c (keep_hint b r) = band_PB_c r" for b r
    by (simp_all add: keep_hint_def Let_def)
  have "a_PB_c (save_learned (recompute (keep_hint b (t\<lparr>l_PB_c := b, l_Ti := i, l_Td := d, l_valid := True, l_ts := ad_now t, l_src := n\<rparr>)))) = a_PB_c s" for b i d n
    using t s assms by (simp add: save_in_force r h)
  then show "a_PB_c (ad_apply_tuning s Ku Pu K tau theta) = a_PB_c s"
    using t(1) unfolding ad_apply_tuning_def Let_def t_def [symmetric] by (simp split: option.split prod.split)
  show "a_Ti (ad_forget s PF_FORGET_REFINEMENT) = a_Ti s"
    using assms s by (simp add: ad_forget_def forget_bits save_in_force r' window_reset_def Let_def)
qed

theorem corrections_outlive_witness:
  "a_PB_c (ad_apply_tuning ((ad_create None None)\<lparr>band_PB_c := 30, band_Ti := 200, a_PB_c := 30, a_Ti := 200\<rparr>) (1 / 20) 600 0 0 0) = 30"
proof -
  define s where "s = (ad_create None None)\<lparr>band_PB_c := 30, band_Ti := 200, a_PB_c := 30, a_Ti := 200\<rparr>"
  have "auto_tune (ad_create None None)" by (simp add: ad_create_def ad_config_def Let_def)
  then have "in_force s" "auto_tune s" "0 < band_PB_c s" "0 < band_Ti s" by (simp_all add: s_def in_force_def)
  from corrections_outlive [OF this, of "1 / 20" 600 0 0 0] show ?thesis by (simp add: s_def)
qed

section \<open>What is stored\<close>

lemma decimals_fine: "isfinite (decimals n x) = isfinite x" by (cases x) simp_all

lemma rint_nonneg: "0 \<le> r \<Longrightarrow> 0 \<le> rint r"
  by (simp add: rint_def Let_def)

lemma decimals_nonneg: "0 \<le> x \<Longrightarrow> isfinite x \<Longrightarrow> 0 \<le> decimals n x"
  using rint_nonneg by (cases x) simp_all

lemma positives_back:
  assumes "all_fine xs" "\<forall>x \<in> set xs. 0 \<le> x" "length xs = PF_SCALE_BANDS"
  shows "positives (Some (four n xs)) = map (decimals n) xs"
proof (rule nth_equalityI)
  show "length (positives (Some (four n xs))) = length (map (decimals n) xs)" using assms(3) by (simp add: positives_def)
  fix i assume "i < length (positives (Some (four n xs)))"
  then have i: "i < length xs" using assms(3) by (simp add: positives_def)
  then have "isfinite (xs ! i)" "0 \<le> xs ! i" using assms by simp_all
  then have "0 \<le> decimals n (xs ! i)" "isfinite (decimals n (xs ! i))"
    using decimals_nonneg [of "xs ! i" n] decimals_fine [of n "xs ! i"] by simp_all
  then show "positives (Some (four n xs)) ! i = map (decimals n) xs ! i"
    using i assms(3) by (cases "decimals n (xs ! i)") (simp_all add: positives_def positive_at_def four_def)
qed

text \<open>What is stored: a record whose numbers print, lessons that are none or positive.\<close>

definition prints :: "ad_t \<Rightarrow> bool" where
  "prints s \<longleftrightarrow> (\<forall>x \<in> {l_PB_c s, l_Ti s, l_Td s, l_ts s, a_theta s, a_K s, a_tau s}. isfinite x) \<and>
     (\<forall>xs \<in> {band_learned s, band_anchor s, ti_learned s, ti_anchor s}. all_fine xs \<and> length xs = PF_SCALE_BANDS \<and> (\<forall>x \<in> set xs. 0 \<le> x))"

lemma four_prints: "all_fine xs \<Longrightarrow> finite_member (four n xs)"
  by (simp add: four_def all_fine_def decimals_fine)

lemma member_names:
  "strcase_eq ''band_learned'' ''PB_c'' = False" "strcase_eq ''band_learned'' ''Ti'' = False" "strcase_eq ''band_learned'' ''Td'' = False"
  "strcase_eq ''band_anchor'' ''PB_c'' = False" "strcase_eq ''band_anchor'' ''Ti'' = False" "strcase_eq ''band_anchor'' ''Td'' = False"
  "strcase_eq ''band_anchor'' ''band_learned'' = False" "strcase_eq ''ti_learned'' ''PB_c'' = False" "strcase_eq ''ti_learned'' ''Ti'' = False"
  "strcase_eq ''ti_learned'' ''Td'' = False" "strcase_eq ''ti_learned'' ''band_learned'' = False" "strcase_eq ''ti_learned'' ''band_anchor'' = False"
  "strcase_eq ''ti_anchor'' ''PB_c'' = False" "strcase_eq ''ti_anchor'' ''Ti'' = False" "strcase_eq ''ti_anchor'' ''Td'' = False"
  "strcase_eq ''ti_anchor'' ''band_learned'' = False" "strcase_eq ''ti_anchor'' ''band_anchor'' = False" "strcase_eq ''ti_anchor'' ''ti_learned'' = False"
  "strcase_eq ''valid'' ''PB_c'' = False" "strcase_eq ''valid'' ''Ti'' = False" "strcase_eq ''valid'' ''Td'' = False"
  "strcase_eq ''valid'' ''band_learned'' = False" "strcase_eq ''valid'' ''band_anchor'' = False" "strcase_eq ''valid'' ''ti_learned'' = False"
  "strcase_eq ''valid'' ''ti_anchor'' = False" "strcase_eq ''src'' ''PB_c'' = False" "strcase_eq ''src'' ''Ti'' = False" "strcase_eq ''src'' ''Td'' = False"
  "strcase_eq ''src'' ''band_learned'' = False" "strcase_eq ''src'' ''band_anchor'' = False" "strcase_eq ''src'' ''ti_learned'' = False"
  "strcase_eq ''src'' ''ti_anchor'' = False" "strcase_eq ''src'' ''valid'' = False" "strcase_eq ''src'' ''ts'' = False" "strcase_eq k k = True"
  by (simp_all add: strcase_eq_def tolower_char_def)

definition learned_members :: "ad_t \<Rightarrow> (string \<times> json) list" where
  "learned_members s =
     [(''PB_c'', JNum (decimals 2 (l_PB_c s))), (''Ti'', JNum (decimals 1 (l_Ti s))), (''Td'', JNum (decimals 1 (l_Td s))),
      (''band_learned'', four 2 (band_learned s)), (''band_anchor'', four 2 (band_anchor s)),
      (''ti_learned'', four 1 (ti_learned s)), (''ti_anchor'', four 1 (ti_anchor s)),
      (''valid'', JBool (l_valid s)), (''ts'', JNum (decimals 0 (l_ts s))), (''src'', JStr (l_src s)),
      (''theta'', JNum (decimals 0 (a_theta s))), (''K'', JNum (decimals 1 (a_K s))), (''tau'', JNum (decimals 0 (a_tau s))),
      (''m'', JNum LEARNED_REC_GEN), (''bg'', JNum (int_to_fl BAND_RULES_GEN))]"

lemma stored_members: "prints s \<Longrightarrow> learned_json s = Some (JObj (learned_members s))"
  by (simp add: learned_json_def printed_def learned_members_def prints_def decimals_fine four_prints LEARNED_REC_GEN_def int_to_fl_def)

lemma members_read:
  "pf_pid_cfg_num (Some (JObj (learned_members s))) ''PB_c'' d = decimals 2 (l_PB_c s)"
  "pf_pid_cfg_num (Some (JObj (learned_members s))) ''Ti'' d = decimals 1 (l_Ti s)"
  "pf_pid_cfg_num (Some (JObj (learned_members s))) ''Td'' d = decimals 1 (l_Td s)"
  "pf_pid_cfg_num (Some (JObj (learned_members s))) ''ts'' d = decimals 0 (l_ts s)"
  "pf_pid_cfg_num (Some (JObj (learned_members s))) ''theta'' d = decimals 0 (a_theta s)"
  "pf_pid_cfg_num (Some (JObj (learned_members s))) ''K'' d = decimals 1 (a_K s)"
  "pf_pid_cfg_num (Some (JObj (learned_members s))) ''tau'' d = decimals 0 (a_tau s)"
  "pf_pid_cfg_num (Some (JObj (learned_members s))) ''m'' d = LEARNED_REC_GEN"
  "pf_pid_cfg_num (Some (JObj (learned_members s))) ''bg'' d = int_to_fl BAND_RULES_GEN"
  "j_get_ci ''band_learned'' (JObj (learned_members s)) = Some (four 2 (band_learned s))"
  "j_get_ci ''band_anchor'' (JObj (learned_members s)) = Some (four 2 (band_anchor s))"
  "j_get_ci ''ti_learned'' (JObj (learned_members s)) = Some (four 1 (ti_learned s))"
  "j_get_ci ''ti_anchor'' (JObj (learned_members s)) = Some (four 1 (ti_anchor s))"
  "j_get_ci ''valid'' (JObj (learned_members s)) = Some (JBool (l_valid s))"
  "j_get_ci ''src'' (JObj (learned_members s)) = Some (JStr (l_src s))"
  by (simp_all add: learned_members_def pf_pid_cfg_num_def member_names)

text \<open>What the controller stores is what the next start reads: the tuning and every lesson as printed, the plant within
  its limits.\<close>

theorem stored_tuning_reads_back:
  assumes "prints s" "a_env s = Some e" "ae_open e" "t = load_learned (r\<lparr>a_env := a_env (save_learned s)\<rparr>)"
  shows "l_PB_c t = decimals 2 (l_PB_c s) \<and> l_Ti t = decimals 1 (l_Ti s) \<and> l_Td t = decimals 1 (l_Td s) \<and>
    band_learned t = map (decimals 2) (band_learned s) \<and> band_anchor t = map (decimals 2) (band_anchor s) \<and>
    ti_learned t = map (decimals 1) (ti_learned s) \<and> ti_anchor t = map (decimals 1) (ti_anchor s) \<and>
    a_K t = clampd (decimals 1 (a_K s)) K_MIN K_MAX \<and> a_tau t = clampd (decimals 0 (a_tau s)) TAU_MIN TAU_MAX \<and>
    a_theta t = clampd (decimals 0 (a_theta s)) THETA_MIN THETA_MAX \<and>
    (l_valid t \<longleftrightarrow> l_valid s \<and> 0 < decimals 2 (l_PB_c s) \<and> 0 < decimals 1 (l_Ti s)) \<and> l_src t = take 7 (l_src s)"
proof -
  have p: "positives (Some (four 2 (band_learned s))) = map (decimals 2) (band_learned s)"
    "positives (Some (four 2 (band_anchor s))) = map (decimals 2) (band_anchor s)"
    "positives (Some (four 1 (ti_learned s))) = map (decimals 1) (ti_learned s)"
    "positives (Some (four 1 (ti_anchor s))) = map (decimals 1) (ti_anchor s)"
    using assms(1) by (simp_all add: prints_def positives_back)
  have a: "j_is_arr (Some (four n xs))" for n xs by (simp add: four_def)
  have g: "\<not> fl_to_int (int_to_fl BAND_RULES_GEN) < BAND_RULES_GEN" "LEARNED_REC_GEN \<le> LEARNED_REC_GEN"
    by (simp_all add: BAND_RULES_GEN_def int_to_fl_def real_trunc_def int_min_def int_max_def LEARNED_REC_GEN_def)
  have "stored_text (a_env (r\<lparr>a_env := a_env (save_learned s)\<rparr>)) = Some (JObj (learned_members s))"
    using assms(1-3) by (simp add: save_learned_def stored_text_def stored_members)
  then show ?thesis
    unfolding assms(4) by (simp add: load_learned_def load_plant_def load_lessons_def members_read p a g Let_def del: j_get_ci.simps One_nat_def)
qed

theorem stored_tuning_reads_back_witness:
  "l_PB_c (load_learned ((ad_zero None)\<lparr>a_env := a_env (save_learned
     ((ad_zero (Some \<lparr>ae_open = True, ae_learned = None, ae_time = 0, ae_print = (\<lambda>_. [])\<rparr>))\<lparr>l_PB_c := 30\<rparr>))\<rparr>)) = 30"
proof -
  define s where "s = (ad_zero (Some \<lparr>ae_open = True, ae_learned = None, ae_time = 0, ae_print = (\<lambda>_. [])\<rparr>))\<lparr>l_PB_c := 30\<rparr>"
  have "prints s" "a_env s = Some \<lparr>ae_open = True, ae_learned = None, ae_time = 0, ae_print = (\<lambda>_. [])\<rparr>"
    by (simp_all add: s_def prints_def ad_zero_def all_fine_def)
  from stored_tuning_reads_back [OF this _ refl, of "ad_zero None"] show ?thesis
    by (simp add: s_def rint_def)
qed

end
