(* ===== verification/Probe_Io.thy ===== *)
theory Probe_Io
  imports Sensors Json
begin

text \<open>
  What the probe drivers share: the samples of \<open>include/pifire/probe.h\<close> and the world they read, which the
  drivers of \<open>src/hal/i2c.c\<close> and \<open>src/hal/spi.c\<close> pass on to the kernel.  The world is a type variable; a transfer
  gives the bytes that came back, or none when it failed.
\<close>

type_synonym octet = "8 word"

definition PF_MAX_PORTS :: nat where "PF_MAX_PORTS = 8"
definition PF_MAX_DEVICES :: nat where "PF_MAX_DEVICES = 8"
definition PF_LABEL_LEN :: nat where "PF_LABEL_LEN = 32"
definition PF_NAME_LEN :: nat where "PF_NAME_LEN = 64"

datatype pf_sample_kind = SAMPLE_INVALID | SAMPLE_MV | SAMPLE_CELSIUS | SAMPLE_OHMS | SAMPLE_SKIP

record pf_probe_sample =
  sa_kind :: pf_sample_kind
  sa_value :: fl

record 'w probe_bus =
  b_open :: "'w \<Rightarrow> string \<Rightarrow> 'w \<times> int"   \<comment> \<open>the device file; a descriptor, negative when it cannot be opened\<close>
  b_i2c_write :: "'w \<Rightarrow> int \<Rightarrow> octet \<Rightarrow> octet list \<Rightarrow> 'w \<times> bool"   \<comment> \<open>whether it succeeded\<close>
  b_i2c_read :: "'w \<Rightarrow> int \<Rightarrow> octet \<Rightarrow> octet list \<Rightarrow> nat \<Rightarrow> 'w \<times> octet list option"   \<comment> \<open>\<open>pf_i2c_write_read\<close>\<close>
  b_spi :: "'w \<Rightarrow> int \<Rightarrow> octet list \<Rightarrow> 'w \<times> octet list option"   \<comment> \<open>\<open>pf_spi_xfer\<close>\<close>
  b_sleep :: "'w \<Rightarrow> nat \<Rightarrow> 'w"   \<comment> \<open>milliseconds\<close>
  b_now :: "'w \<Rightarrow> fl"

text \<open>A transfer counts as answered only with as many bytes as were asked for, as the kernel does it.\<close>

definition pf_i2c_write_read :: "'w probe_bus \<Rightarrow> 'w \<Rightarrow> int \<Rightarrow> octet \<Rightarrow> octet list \<Rightarrow> nat \<Rightarrow> 'w \<times> octet list option" where
  "pf_i2c_write_read b w fd addr wbuf n =
     (case b_i2c_read b w fd addr wbuf n of
        (w, Some r) \<Rightarrow> (w, if length r = n then Some r else None)
      | (w, None) \<Rightarrow> (w, None))"

definition pf_spi_xfer :: "'w probe_bus \<Rightarrow> 'w \<Rightarrow> int \<Rightarrow> octet list \<Rightarrow> 'w \<times> octet list option" where
  "pf_spi_xfer b w fd tx =
     (case b_spi b w fd tx of
        (w, Some r) \<Rightarrow> (w, if length r = length tx then Some r else None)
      | (w, None) \<Rightarrow> (w, None))"

text \<open>Two bytes as a 16-bit number, high octet first, unsigned and signed.\<close>

definition be16 :: "octet \<Rightarrow> octet \<Rightarrow> 16 word" where "be16 h l = word_cat h l"

definition le16 :: "octet \<Rightarrow> octet \<Rightarrow> int" where "le16 l h = uint l + 256 * uint h"

definition les16 :: "octet \<Rightarrow> octet \<Rightarrow> int" where
  "les16 l h = (let v = le16 l h in if 32768 \<le> v then v - 65536 else v)"

lemma le16_range: "0 \<le> le16 l h \<and> le16 l h \<le> 65535"
proof -
  have "uint l < 2 ^ 8" "uint h < 2 ^ 8" using uint_lt2p [of l] uint_lt2p [of h] by simp_all
  then show ?thesis by (simp add: le16_def)
qed

section \<open>Unsigned numbers in any base\<close>

text \<open>\<open>strtoul (s, NULL, 0)\<close>: hexadecimal after \<open>0x\<close>, octal after \<open>0\<close>, else decimal; out of range it saturates.\<close>

definition base_digit :: "char \<Rightarrow> nat option" where
  "base_digit c = (let k = of_char c in if 48 \<le> k \<and> k \<le> 57 then Some (k - 48)
     else if 65 \<le> k \<and> k \<le> 70 then Some (k - 55) else if 97 \<le> k \<and> k \<le> 102 then Some (k - 87) else None)"

fun base_digits :: "nat \<Rightarrow> string \<Rightarrow> nat \<Rightarrow> nat" where
  "base_digits base [] acc = acc"
| "base_digits base (c # cs) acc =
     (case base_digit c of Some d \<Rightarrow> (if d < base then base_digits base cs (base * acc + d) else acc) | None \<Rightarrow> acc)"

definition is_hex_text :: "string \<Rightarrow> bool" where
  "is_hex_text s = (case s of z # x # d # _ \<Rightarrow> z = CHR ''0'' \<and> (x = CHR ''x'' \<or> x = CHR ''X'') \<and> base_digit d \<noteq> None | _ \<Rightarrow> False)"

definition strtoul0 :: "string \<Rightarrow> nat" where
  "strtoul0 s =
     (let (neg, r) = take_sign (dropWhile is_space s);
          v = (if is_hex_text r then base_digits 16 (drop 2 r) 0
               else if take 1 r = ''0'' then base_digits 8 (drop 1 r) 0 else base_digits 10 r 0)
      in if 2 ^ 64 \<le> v then 2 ^ 64 - 1 else if neg \<and> v \<noteq> 0 then 2 ^ 64 - v else v)"

definition bus_addr :: "json \<Rightarrow> string \<Rightarrow> octet" where
  "bus_addr d dflt = of_nat (strtoul0 (pf_json_str (Some d) ''config.i2c_bus_addr'' dflt))"

lemma default_addresses: "strtoul0 ''0x48'' = 72" "strtoul0 ''0x67'' = 103"
  by (simp_all add: strtoul0_def take_sign_def is_space_def is_hex_text_def base_digit_def Let_def)

end
