(* ===== verification/Wired_Probes.thy ===== *)
theory Wired_Probes
  imports Probe_Io Platform_Sim
begin

unbundle bit_operations_syntax

text \<open>
  The other wired probes: \<open>src/probes/max31865.c\<close> (a resistance over SPI), \<open>src/probes/mcp9600.c\<close> (a thermocouple
  over I2C), \<open>src/probes/ds18b20.c\<close> (a thermometer the kernel reads, on a helper thread of its own),
  \<open>src/probes/virtual.c\<close> and \<open>src/probes/sim_probe.c\<close>.
\<close>

text \<open>The first sample of what a driver is handed; with no port it does nothing.\<close>

definition put_first :: "pf_probe_sample list \<Rightarrow> pf_probe_sample \<Rightarrow> pf_probe_sample list" where
  "put_first out x = (case out of [] \<Rightarrow> [] | _ # xs \<Rightarrow> x # xs)"

definition invalid_first :: "pf_probe_sample list \<Rightarrow> pf_probe_sample list" where
  "invalid_first out = (case out of [] \<Rightarrow> [] | x # xs \<Rightarrow> x\<lparr>sa_kind := SAMPLE_INVALID\<rparr> # xs)"

definition celsius :: "fl \<Rightarrow> pf_probe_sample" where "celsius c = \<lparr>sa_kind = SAMPLE_CELSIUS, sa_value = c\<rparr>"

section \<open>MAX31865\<close>

record max_t =
  max_fd :: int
  max_ref_resistor :: fl
  max_errors :: int
  max_cfg :: octet
  max_fault :: octet

definition max_reg_write :: "'w probe_bus \<Rightarrow> max_t \<Rightarrow> octet \<Rightarrow> octet \<Rightarrow> 'w \<Rightarrow> 'w" where
  "max_reg_write b s reg val w = fst (pf_spi_xfer b w (max_fd s) [reg OR 0x80, val])"

definition max_reg_read :: "'w probe_bus \<Rightarrow> max_t \<Rightarrow> octet \<Rightarrow> nat \<Rightarrow> 'w \<Rightarrow> 'w \<times> octet list option" where
  "max_reg_read b s reg n w =
     (case pf_spi_xfer b w (max_fd s) (reg # replicate (min n 7) 0) of
        (w, Some rx) \<Rightarrow> (w, Some (tl rx)) | (w, None) \<Rightarrow> (w, None))"

definition max_create :: "'w probe_bus \<Rightarrow> json \<Rightarrow> 'w \<Rightarrow> 'w \<times> max_t option" where
  "max_create b d w =
     (let cs = pf_json_int (Some d) ''config.cs'' 1; wires = pf_json_int (Some d) ''config.wires'' 2;
          ref = pf_json_num (Some d) ''config.ref_resistor'' 4300;
          (w, fd) = b_open b w (''/dev/spidev0.'' @ show_int cs)
      in if fd < 0 then (w, None)
         else let cfg = 0x80 OR 0x40 OR (if wires = 3 then 0x10 else 0);
                  s = \<lparr>max_fd = fd, max_ref_resistor = ref, max_errors = 0, max_cfg = cfg, max_fault = 0\<rparr>
              in (b_sleep b (max_reg_write b s 0 (cfg OR 2) w) 100, Some s))"

definition max_destroy :: "'w probe_bus \<Rightarrow> max_t \<Rightarrow> 'w \<Rightarrow> 'w" where
  "max_destroy b s w = max_reg_write b s 0 0 w"

text \<open>A reading with the fault bit set is cleared, and everything the configuration held is written back.\<close>

definition max_clear_fault :: "'w probe_bus \<Rightarrow> max_t \<Rightarrow> 'w \<Rightarrow> 'w \<times> max_t" where
  "max_clear_fault b s w =
     (let (w, r) = max_reg_read b s 7 1 w;
          s = s\<lparr>max_fault := case r of Some (f # _) \<Rightarrow> f | _ \<Rightarrow> 0\<rparr>
      in (max_reg_write b s 0 (max_cfg s OR 2) w, s))"

definition max_ohms :: "16 word \<Rightarrow> fl \<Rightarrow> fl" where
  "max_ohms rtd ref = int_to_fl (uint rtd) / 32768 * ref"

definition max_read :: "'w probe_bus \<Rightarrow> max_t \<Rightarrow> pf_probe_sample list \<Rightarrow> 'w \<Rightarrow> 'w \<times> max_t \<times> pf_probe_sample list \<times> int" where
  "max_read b s out w =
     (if out = [] then (w, s, out, 0)
      else let out = invalid_first out
           in case max_reg_read b s 1 2 w of
                (w, None) \<Rightarrow> (w, s\<lparr>max_errors := max_errors s + 1\<rparr>, out, - 1)
              | (w, Some r) \<Rightarrow>
                  (let s = s\<lparr>max_errors := 0\<rparr>; rtd = drop_bit 1 (be16 (r ! 0) (r ! 1))
                   in if (r ! 1) AND 1 \<noteq> 0 then (case max_clear_fault b s w of (w, s) \<Rightarrow> (w, s, out, 0))
                      else let s = s\<lparr>max_fault := 0\<rparr>
                           in if rtd = 0 \<or> rtd = 0x7fff then (w, s, out, 0)
                              else (w, s, put_first out \<lparr>sa_kind = SAMPLE_OHMS, sa_value = max_ohms rtd (max_ref_resistor s)\<rparr>, 0)))"

section \<open>MCP9600\<close>

record mcp_t =
  mcp_fd :: int
  mcp_addr :: octet
  mcp_errors :: int

text \<open>The index of the type's first letter; \<open>strchr\<close> finds the end of the text for an empty one, at 8.\<close>

definition tc_index :: "string \<Rightarrow> nat" where
  "tc_index ty = (case ty of [] \<Rightarrow> 8 | c # _ \<Rightarrow> (case find_index_from 0 ((=) c) ''KJTNSEBR'' of Some i \<Rightarrow> i | None \<Rightarrow> 0))"

definition mcp_create :: "'w probe_bus \<Rightarrow> json \<Rightarrow> 'w \<Rightarrow> 'w \<times> mcp_t option" where
  "mcp_create b d w =
     (let addr = bus_addr d ''0x67''; ty = pf_json_str (Some d) ''config.tc_type'' ''K'';
          bus = pf_json_int (Some d) ''config.i2c_bus'' 1;
          (w, fd) = b_open b w (''/dev/i2c-'' @ show_int bus)
      in if fd < 0 then (w, None)
         else (fst (b_i2c_write b w fd addr [5, push_bit 4 (of_nat (tc_index ty))]),
               Some \<lparr>mcp_fd = fd, mcp_addr = addr, mcp_errors = 0\<rparr>))"

definition mcp_read :: "'w probe_bus \<Rightarrow> mcp_t \<Rightarrow> pf_probe_sample list \<Rightarrow> 'w \<Rightarrow> 'w \<times> mcp_t \<times> pf_probe_sample list \<times> int" where
  "mcp_read b s out w =
     (if out = [] then (w, s, out, 0)
      else let out = invalid_first out
           in case pf_i2c_write_read b w (mcp_fd s) (mcp_addr s) [0] 2 of
                (w, None) \<Rightarrow> (w, s\<lparr>mcp_errors := mcp_errors s + 1\<rparr>, out, - 1)
              | (w, Some r) \<Rightarrow>
                  (let s = s\<lparr>mcp_errors := 0\<rparr>; (w, st) = pf_i2c_write_read b w (mcp_fd s) (mcp_addr s) [4] 1
                   in if (case st of Some q \<Rightarrow> (q ! 0) AND 0x10 \<noteq> 0 | None \<Rightarrow> False) then (w, s, out, 0)
                      else (w, s, put_first out (celsius (int_to_fl (sint (be16 (r ! 0) (r ! 1))) / 16)), 0)))"

section \<open>DS18B20\<close>

record ds_t =
  ds_id :: string
  ds_found :: string
  ds_temp_c :: fl
  ds_valid :: bool
  ds_last_ok :: fl

definition ds_create :: "json \<Rightarrow> ds_t" where
  "ds_create d = \<lparr>ds_id = fst (pf_strlcpy [] (pf_json_str (Some d) ''config.hardware_id'' []) 32), ds_found = [],
     ds_temp_c = 0, ds_valid = False, ds_last_ok = 0\<rparr>"

text \<open>The first thermometer of the bus directory that is the one configured, or any; none when there is no bus.\<close>

definition find_device :: "string list option \<Rightarrow> ds_t \<Rightarrow> ds_t \<times> bool" where
  "find_device names s =
     (case names of None \<Rightarrow> (s, False)
      | Some ns \<Rightarrow>
          (case filter (\<lambda>n. take 3 n = ''28-'' \<and> (ds_id s = [] \<or> ds_id s = n)) ns of
             [] \<Rightarrow> (s, False)
           | n # _ \<Rightarrow> (s\<lparr>ds_found := fst (pf_strlcpy [] n 32)\<rparr>, True)))"

text \<open>The value of the text that the kernel gave, and whether a thermometer can have measured it (85 is what it
  says before its first conversion).\<close>

definition ds_value :: "string option \<Rightarrow> fl" where
  "ds_value txt = (case txt of Some (c # cs) \<Rightarrow> (case strtod (c # cs) of Some v \<Rightarrow> v | None \<Rightarrow> 0) / 1000 | _ \<Rightarrow> NaN)"

definition ds_good :: "fl \<Rightarrow> bool" where "ds_good t \<longleftrightarrow> \<not> isnan t \<and> - 55 < t \<and> t < 125 \<and> t \<noteq> 85"

definition ds_take :: "string option \<Rightarrow> fl \<Rightarrow> ds_t \<Rightarrow> ds_t" where
  "ds_take txt now s =
     (let t = ds_value txt
      in if ds_good t then s\<lparr>ds_temp_c := t, ds_valid := True, ds_last_ok := now\<rparr>
         else if 10 < now - ds_last_ok s
         then (if txt = None then s\<lparr>ds_valid := False, ds_found := []\<rparr> else s\<lparr>ds_valid := False\<rparr>)
         else s)"

text \<open>One round of the thread: the names on the bus, the file of a thermometer and the time are the world's.\<close>

definition ds_round :: "string list option \<Rightarrow> (string \<Rightarrow> string option) \<Rightarrow> fl \<Rightarrow> ds_t \<Rightarrow> ds_t" where
  "ds_round names src now s =
     (let (s, found) = (if ds_found s \<noteq> [] then (s, True) else find_device names s)
      in if found then ds_take (src (''/sys/bus/w1/devices/'' @ ds_found s @ ''/temperature'')) now s else s)"

definition ds_read :: "ds_t \<Rightarrow> pf_probe_sample list \<Rightarrow> pf_probe_sample list \<times> int" where
  "ds_read s out = (if ds_valid s then put_first out (celsius (ds_temp_c s)) else invalid_first out, 0)"

section \<open>Virtual and simulated probes\<close>

record virt_t =
  vt_mode :: string
  vt_labels :: "string list"

definition virt_create :: "json \<Rightarrow> virt_t" where
  "virt_create d =
     \<lparr>vt_mode = fst (pf_strlcpy [] (pf_json_str (Some d) ''config.mode'' ''average'') 16),
      vt_labels = take 8 (List.map_filter (\<lambda>j. case j of JStr l \<Rightarrow> Some (fst (pf_strlcpy [] l PF_LABEL_LEN)) | _ \<Rightarrow> None)
                            (j_children (pf_json_path (Some d) ''config.probes_list'')))\<rparr>"

definition pf_virtual_inputs :: "virt_t \<Rightarrow> nat \<Rightarrow> string list" where
  "pf_virtual_inputs v n = take n (vt_labels v)"

record simp_t =
  sp_noise :: fl
  sp_seed :: "32 word"

definition simp_create :: simp_t where "simp_create = \<lparr>sp_noise = Fin (15 / 100), sp_seed = 12345\<rparr>"

definition sim_noise :: "simp_t \<Rightarrow> simp_t \<times> fl" where
  "sim_noise s =
     (let seed = sp_seed s * 1103515245 + 12345
      in (s\<lparr>sp_seed := seed\<rparr>, (int_to_fl (uint (drop_bit 8 seed AND 0xffff)) / 65535 - Fin (1 / 2)) * 2 * sp_noise s))"

text \<open>The ports from the \<open>i\<close>-th on: the pit first, then the foods.\<close>

fun sim_fill :: "nat \<Rightarrow> sim_state \<Rightarrow> pf_probe_sample list \<Rightarrow> simp_t \<Rightarrow> simp_t \<times> pf_probe_sample list" where
  "sim_fill i m [] s = (s, [])"
| "sim_fill i m (x # xs) s =
     (if 4 \<le> i then (case sim_fill (Suc i) m xs s of (s, ys) \<Rightarrow> (s, x\<lparr>sa_kind := SAMPLE_INVALID\<rparr> # ys))
      else let (s, e) = sim_noise s; t = (if i = 0 then sim_pit_c m else sim_food_c m ! (i - 1))
           in case sim_fill (Suc i) m xs s of (s, ys) \<Rightarrow> (s, celsius (t + e) # ys))"

definition sim_probe_read :: "sim_state option \<Rightarrow> simp_t \<Rightarrow> pf_probe_sample list \<Rightarrow> simp_t \<times> pf_probe_sample list \<times> int" where
  "sim_probe_read model s out =
     (case model of
        None \<Rightarrow> (s, map (sa_kind_update (\<lambda>_. SAMPLE_INVALID)) out, - 1)
      | Some m \<Rightarrow> (case sim_fill 0 m out s of (s, ys) \<Rightarrow> (s, ys, 0)))"

end
