(* ===== verification/Wireless_Probes.thy ===== *)
theory Wireless_Probes
  imports Probe_Io
begin

unbundle bit_operations_syntax

text \<open>
  The Bluetooth probes: \<open>src/probes/ble/chefiq.c\<close> (passive advertisements), \<open>src/probes/ble/ibbq.c\<close> and
  \<open>src/probes/ble/meater.c\<close> (connections).  What the transport of \<open>src/probes/ble/bluez.c\<close> knows of a device is a
  record that the drivers read, and what they write to a characteristic is a list of frames.
\<close>

record ble_link =
  bl_connected :: bool
  bl_rssi :: int
  bl_battery :: int
  bl_services :: "string list"

type_synonym frame = "string \<times> octet list"

definition sample_if :: "bool \<Rightarrow> fl \<Rightarrow> pf_probe_sample" where
  "sample_if ok v = \<lparr>sa_kind = if ok then SAMPLE_CELSIUS else SAMPLE_INVALID, sa_value = v\<rparr>"

section \<open>Chef iQ\<close>

definition MAX_PROBE_PAYLOAD :: nat where "MAX_PROBE_PAYLOAD = 18"

record pf_chefiq_reading =
  cr_has_temps :: bool
  cr_food_c :: fl
  cr_ambient_c :: fl
  cr_tip_c :: "fl list"
  cr_ntips :: nat
  cr_has_battery :: bool
  cr_battery_pct :: int
  cr_soc_c :: int
  cr_packet_type :: int
  cr_ver_major :: int
  cr_ver_minor :: int
  cr_ver_patch :: int

definition no_chefiq :: pf_chefiq_reading where
  "no_chefiq = \<lparr>cr_has_temps = False, cr_food_c = NaN, cr_ambient_c = NaN, cr_tip_c = replicate 4 NaN, cr_ntips = 0,
     cr_has_battery = False, cr_battery_pct = 0, cr_soc_c = 0, cr_packet_type = 0, cr_ver_major = 0, cr_ver_minor = 0,
     cr_ver_patch = 0\<rparr>"

definition s16_tenths :: "octet \<Rightarrow> octet \<Rightarrow> fl" where
  "s16_tenths l h = (let c = int_to_fl (les16 l h) / 10 in if c < - 40 \<or> 600 < c then NaN else c)"

definition tenths_at :: "octet list \<Rightarrow> nat \<Rightarrow> fl" where
  "tenths_at msg i = (if i + 2 \<le> length msg then s16_tenths (msg ! i) (msg ! (i + 1)) else NaN)"

definition battery_at :: "octet list \<Rightarrow> nat \<Rightarrow> pf_chefiq_reading \<Rightarrow> pf_chefiq_reading" where
  "battery_at msg i r = r\<lparr>cr_has_battery := True, cr_battery_pct := uint (msg ! i), cr_soc_c := uint (msg ! (i + 1))\<rparr>"

text \<open>The tips that fit into the message.\<close>

definition tips_at :: "octet list \<Rightarrow> nat \<Rightarrow> nat \<Rightarrow> pf_chefiq_reading \<Rightarrow> pf_chefiq_reading" where
  "tips_at msg tips n r =
     (let k = length (takeWhile (\<lambda>i. tips + i * 2 + 2 \<le> length msg) [0..<n])
      in r\<lparr>cr_tip_c := map (\<lambda>i. if i < k then tenths_at msg (tips + i * 2) else cr_tip_c r ! i) [0..<4], cr_ntips := k\<rparr>)"

definition chefiq_temps :: "octet list \<Rightarrow> nat \<Rightarrow> nat \<Rightarrow> nat \<Rightarrow> nat \<Rightarrow> pf_chefiq_reading \<Rightarrow> pf_chefiq_reading" where
  "chefiq_temps msg amb food tips n r =
     (tips_at msg tips n (r\<lparr>cr_ambient_c := tenths_at msg amb, cr_food_c := tenths_at msg food\<rparr>))\<lparr>cr_has_temps := True\<rparr>"

definition chefiq_head :: "octet list \<Rightarrow> pf_chefiq_reading" where
  "chefiq_head msg =
     no_chefiq\<lparr>cr_packet_type := uint (msg ! 0 AND 0x0F), cr_ver_major := uint (drop_bit 4 (msg ! 1)),
       cr_ver_minor := uint (msg ! 1 AND 0x0F), cr_ver_patch := uint (drop_bit 4 (msg ! 0))\<rparr>"

definition pf_chefiq_parse :: "octet list \<Rightarrow> pf_chefiq_reading \<times> int" where
  "pf_chefiq_parse msg =
     (if length msg < 2 \<or> MAX_PROBE_PAYLOAD < length msg then (no_chefiq, - 1)
      else let r = chefiq_head msg;
               fmt = (if 3 \<le> cr_ver_major r then 3 else if cr_ver_major r = 2 then 2 else 1 :: nat)
           in if cr_packet_type r \<noteq> 0 \<and> cr_packet_type r \<noteq> 1 \<and> cr_packet_type r \<noteq> 3 then (r, - 1)
              else if cr_packet_type r = 1
              then if fmt = 3 then (chefiq_temps msg 2 4 6 4 r, 0)
                   else if length msg < 14 then (r, - 1)
                   else if fmt = 2 then (chefiq_temps msg 4 6 8 3 (battery_at msg 2 r), 0)
                   else (chefiq_temps msg 12 10 0 0 (battery_at msg 8 r), 0)
              else if cr_packet_type r = 3 \<and> fmt = 3 \<and> 10 \<le> length msg then (battery_at msg 8 r, 0)
              else (r, 0))"

record cq_t =
  cq_food_c :: fl
  cq_ambient_c :: fl
  cq_valid :: bool
  cq_battery :: int
  cq_last_update :: fl

definition cq_create :: cq_t where
  "cq_create = \<lparr>cq_food_c = NaN, cq_ambient_c = NaN, cq_valid = False, cq_battery = - 1, cq_last_update = 0\<rparr>"

definition cq_ports :: "string list" where "cq_ports = [''BT_Probe'', ''BT_Ambient'']"

definition cq_on_disconnected :: "cq_t \<Rightarrow> cq_t" where "cq_on_disconnected s = s\<lparr>cq_valid := False\<rparr>"

definition cq_on_value :: "octet list \<Rightarrow> fl \<Rightarrow> cq_t \<Rightarrow> cq_t" where
  "cq_on_value msg now s =
     (case pf_chefiq_parse msg of (r, rc) \<Rightarrow>
        if rc \<noteq> 0 then s
        else let s = (if cr_has_temps r
                      then s\<lparr>cq_food_c := if isnan (cr_food_c r) then cq_food_c s else cr_food_c r,
                             cq_ambient_c := if isnan (cr_ambient_c r) then cq_ambient_c s else cr_ambient_c r,
                             cq_valid := \<not> isnan (cr_food_c r), cq_last_update := now\<rparr>
                      else s)
             in if cr_has_battery r then s\<lparr>cq_battery := cr_battery_pct r\<rparr> else s)"

definition cq_fresh :: "fl \<Rightarrow> cq_t \<Rightarrow> bool" where "cq_fresh now s \<longleftrightarrow> cq_valid s \<and> now - cq_last_update s < 45"

definition cq_read :: "fl \<Rightarrow> cq_t \<Rightarrow> pf_probe_sample list \<Rightarrow> pf_probe_sample list \<times> int" where
  "cq_read now s out =
     (let fresh = cq_fresh now s
      in ((out[0 := sample_if fresh (cq_food_c s)])[1 := sample_if (fresh \<and> \<not> isnan (cq_ambient_c s)) (cq_ambient_c s)],
          if fresh then 0 else - 1))"

definition cq_link :: "ble_link \<Rightarrow> cq_t \<Rightarrow> int \<times> int" where "cq_link l s = (bl_rssi l, cq_battery s)"

section \<open>iBBQ\<close>

definition pf_ble_uuid16 :: "string \<Rightarrow> string" where
  "pf_ble_uuid16 s = map tolower_char (''0000'' @ s @ ''-0000-1000-8000-00805f9b34fb'')"

record ibbq_t =
  ib_nprobes :: int
  ib_units :: pf_units
  ib_temp_c :: "fl list"
  ib_valid :: "bool list"
  ib_batt :: int

definition ib_create :: "json \<Rightarrow> pf_units \<Rightarrow> ibbq_t" where
  "ib_create d u =
     (let n = pf_json_int (Some d) ''config.num_probes'' 4
      in \<lparr>ib_nprobes = if n < 1 \<or> 6 < n then 4 else n, ib_units = u, ib_temp_c = replicate 6 0,
          ib_valid = replicate 6 False, ib_batt = - 1\<rparr>)"

definition ib_ports :: "ibbq_t \<Rightarrow> string list" where
  "ib_ports s = take (nat (ib_nprobes s)) [''BT0'', ''BT1'', ''BT2'', ''BT3'', ''BT4'', ''BT5'']"

definition LOGIN :: "octet list" where
  "LOGIN = [0x21, 0x07, 0x06, 0x05, 0x04, 0x03, 0x02, 0x01, 0xb8, 0x22, 0x00, 0x00, 0x00, 0x00, 0x00]"
definition RT_ON :: "octet list" where "RT_ON = [0x0B, 0x01, 0x00, 0x00, 0x00, 0x00]"
definition UNITS_F :: "octet list" where "UNITS_F = [0x02, 0x01, 0x00, 0x00, 0x00, 0x00]"
definition UNITS_C :: "octet list" where "UNITS_C = [0x02, 0x00, 0x00, 0x00, 0x00, 0x00]"
definition BATT :: "octet list" where "BATT = [0x08, 0x24, 0x00, 0x00, 0x00, 0x00]"
definition X0823 :: "octet list" where "X0823 = [0x08, 0x23, 0x00, 0x00, 0x00, 0x00]"
definition X0825 :: "octet list" where "X0825 = [0x08, 0x25, 0x00, 0x00, 0x00, 0x00]"

definition units_frame :: "pf_units \<Rightarrow> frame" where
  "units_frame u = (pf_ble_uuid16 ''fff5'', if u = UnitsC then UNITS_C else UNITS_F)"

definition ib_on_connected :: "ibbq_t \<Rightarrow> frame list" where
  "ib_on_connected s =
     (let f5 = pf_ble_uuid16 ''fff5''
      in [(pf_ble_uuid16 ''fff2'', LOGIN), (f5, X0823), (f5, BATT), (f5, X0825), (f5, RT_ON), (f5, UNITS_F),
          units_frame (ib_units s), (f5, BATT)])"

definition ib_on_disconnected :: "ibbq_t \<Rightarrow> ibbq_t" where
  "ib_on_disconnected s = s\<lparr>ib_valid := replicate 6 False\<rparr>"

definition ib_set_units :: "pf_units \<Rightarrow> ble_link \<Rightarrow> ibbq_t \<Rightarrow> ibbq_t \<times> frame list" where
  "ib_set_units u l s = (s\<lparr>ib_units := u\<rparr>, if bl_connected l then [units_frame u] else [])"

definition ib_take_temp :: "octet list \<Rightarrow> nat \<Rightarrow> ibbq_t \<Rightarrow> ibbq_t" where
  "ib_take_temp msg i s =
     (let v = le16 (msg ! (2 * i)) (msg ! (2 * i + 1))
      in if v = 65535 \<or> v = 65526 then s\<lparr>ib_valid := (ib_valid s)[i := False]\<rparr>
         else s\<lparr>ib_temp_c := (ib_temp_c s)[i := int_to_fl v / 10], ib_valid := (ib_valid s)[i := True]\<rparr>)"

definition ib_battery_frame :: "octet list \<Rightarrow> ibbq_t \<Rightarrow> ibbq_t" where
  "ib_battery_frame msg s =
     (let cur = le16 (msg ! 1) (msg ! 2); mx = le16 (msg ! 3) (msg ! 4); mx = (if mx = 0 then 6580 else mx);
          pct = fl_to_int (100 * int_to_fl cur / int_to_fl mx)
      in s\<lparr>ib_batt := if 100 < pct then 100 else pct\<rparr>)"

definition ib_on_value :: "string \<Rightarrow> octet list \<Rightarrow> ibbq_t \<Rightarrow> ibbq_t" where
  "ib_on_value uuid msg s =
     (if strcase_eq uuid (pf_ble_uuid16 ''fff4'')
      then foldl (\<lambda>s i. ib_take_temp msg i s) s (filter (\<lambda>i. i * 2 + 1 < length msg) [0..<6])
      else if strcase_eq uuid (pf_ble_uuid16 ''fff1'') \<and> 5 \<le> length msg \<and> msg ! 0 = 0x24 then ib_battery_frame msg s
      else s)"

fun ib_fill :: "bool \<Rightarrow> ibbq_t \<Rightarrow> nat \<Rightarrow> pf_probe_sample list \<Rightarrow> pf_probe_sample list" where
  "ib_fill conn s i [] = []"
| "ib_fill conn s i (x # xs) =
     (if 6 \<le> i then x # xs
      else (if conn \<and> ib_valid s ! i then sample_if True (ib_temp_c s ! i) else x\<lparr>sa_kind := SAMPLE_INVALID\<rparr>)
             # ib_fill conn s (Suc i) xs)"

definition ib_read :: "ble_link \<Rightarrow> ibbq_t \<Rightarrow> pf_probe_sample list \<Rightarrow> pf_probe_sample list \<times> int" where
  "ib_read l s out = (ib_fill (bl_connected l) s 0 out, if bl_connected l then 0 else - 1)"

definition ib_link :: "ble_link \<Rightarrow> ibbq_t \<Rightarrow> int \<times> int" where
  "ib_link l s = (bl_rssi l, if 0 \<le> ib_batt s then ib_batt s else bl_battery l)"

section \<open>MEATER\<close>

record meater_t =
  mt_tip_c :: fl
  mt_ambient_c :: fl
  mt_valid :: bool
  mt_pro :: bool

definition mt_create :: meater_t where
  "mt_create = \<lparr>mt_tip_c = 0, mt_ambient_c = 0, mt_valid = False, mt_pro = False\<rparr>"

definition mt_ports :: "string list" where "mt_ports = [''BT_Tip'', ''BT_Ambient'']"

definition pf_ble_has_service :: "ble_link \<Rightarrow> string \<Rightarrow> bool" where
  "pf_ble_has_service l prefix \<longleftrightarrow> (\<exists>u \<in> set (bl_services l). has_prefix_ci prefix u)"

definition mt_on_connected :: "ble_link \<Rightarrow> meater_t \<Rightarrow> meater_t" where
  "mt_on_connected l s = s\<lparr>mt_pro := pf_ble_has_service l ''c9e2746c'' \<and> \<not> pf_ble_has_service l ''a75cc7fc''\<rparr>"

definition mt_on_disconnected :: "meater_t \<Rightarrow> meater_t" where "mt_on_disconnected s = s\<lparr>mt_valid := False\<rparr>"

definition pro_c :: "int \<Rightarrow> fl" where
  "pro_c v = (if 0 < v then int_to_fl (v + 8) / 32 else if v < 0 then int_to_fl (v - 8) / 32 else 0)"

definition pro_temps :: "octet list \<Rightarrow> fl \<times> fl" where
  "pro_temps msg =
     (foldl (\<lambda>mn i. let c = pro_c (les16 (msg ! (2 * i)) (msg ! (2 * i + 1))) in if c < mn then c else mn) (Fin (10 ^ 9)) [0..<5],
      pro_c (les16 (msg ! 10) (msg ! 11)))"

definition original_temps :: "octet list \<Rightarrow> fl \<times> fl" where
  "original_temps msg =
     (let t = le16 (msg ! 0) (msg ! 1); ra = le16 (msg ! 2) (msg ! 3); oa = le16 (msg ! 4) (msg ! 5);
          minoa = (if oa < 48 then oa else 48);
          ambient_raw = int_to_fl t + fmax 0 (int_to_fl ((ra - minoa) * 16 * 589) / 1487)
      in ((int_to_fl t + 8) / 16, (int_to_fl (fl_to_int ambient_raw) + 8) / 16))"

definition mt_on_value :: "octet list \<Rightarrow> meater_t \<Rightarrow> meater_t" where
  "mt_on_value msg s =
     (if length msg < (if mt_pro s then 12 else 6) then s
      else let (tip, amb) = (if mt_pro s then pro_temps msg else original_temps msg)
           in s\<lparr>mt_tip_c := tip, mt_ambient_c := amb, mt_valid := True\<rparr>)"

definition mt_read :: "ble_link \<Rightarrow> meater_t \<Rightarrow> pf_probe_sample list \<Rightarrow> pf_probe_sample list \<times> int" where
  "mt_read l s out =
     (let ok = bl_connected l \<and> mt_valid s
      in ((out[0 := sample_if ok (mt_tip_c s)])[1 := sample_if ok (mt_ambient_c s)], if bl_connected l then 0 else - 1))"

definition mt_link :: "ble_link \<Rightarrow> int \<times> int" where "mt_link l = (bl_rssi l, bl_battery l)"

end
