(* ===== verification/Tempq.thy ===== *)
theory Tempq
  imports Sensors "HOL-Library.Multiset"
begin

text \<open>
  \<open>src/probes/tempq.c\<close>: what a probe reports of its readings.  A median of five throws wrong samples away, a mean
  of ten takes the jitter off, and a gate holds the reported value back while it would move faster than a probe
  can.  The theorems say what wrong samples can do to the reported value, and when a jump is believed.
\<close>

definition PF_TEMPQ_MED :: nat where "PF_TEMPQ_MED = 5"
definition PF_TEMPQ_LEN :: nat where "PF_TEMPQ_LEN = 10"

record pf_tempq =
  tq_med :: "fl list"
  tq_q :: "fl list"
  tq_len :: int
  tq_last_avg :: fl
  tq_have_avg :: bool
  tq_slew_c_s :: fl
  tq_hold_s :: fl
  tq_out_c :: fl
  tq_out_t :: fl
  tq_hold_since :: fl
  tq_unstable :: bool

definition pf_tempq_init :: pf_tempq where
  "pf_tempq_init = \<lparr>tq_med = replicate PF_TEMPQ_MED 0, tq_q = replicate PF_TEMPQ_LEN 0, tq_len = 0, tq_last_avg = NaN,
     tq_have_avg = False, tq_slew_c_s = 0, tq_hold_s = 0, tq_out_c = NaN, tq_out_t = 0, tq_hold_since = 0,
     tq_unstable = False\<rparr>"

definition pf_tempq_reset :: "pf_tempq \<Rightarrow> pf_tempq" where
  "pf_tempq_reset t = pf_tempq_init\<lparr>tq_slew_c_s := tq_slew_c_s t, tq_hold_s := tq_hold_s t\<rparr>"

definition pf_tempq_limits :: "fl \<Rightarrow> fl \<Rightarrow> pf_tempq \<Rightarrow> pf_tempq" where
  "pf_tempq_limits slew hold t =
     t\<lparr>tq_slew_c_s := if 0 < slew then slew else 0, tq_hold_s := if 0 < hold then hold else 0\<rparr>"

definition tempq_median :: "fl list \<Rightarrow> fl" where
  "tempq_median v =
     (let s = foldl sink_in [] v; n = length v
      in if odd n then s ! (n div 2) else Fin (1 / 2) * (s ! (n div 2 - 1) + s ! (n div 2)))"

definition gate_dt :: "pf_tempq \<Rightarrow> fl \<Rightarrow> fl" where
  "gate_dt t now =
     (let dt = now - tq_out_t t; dt = (if \<not> 0 < dt then Fin (1 / 4) else dt) in if 5 < dt then 5 else dt)"

text \<open>The disagreement has lasted as long as it is held off.\<close>

definition held :: "pf_tempq \<Rightarrow> fl \<Rightarrow> bool" where
  "held t now \<longleftrightarrow> 0 < tq_hold_since t \<and> tq_hold_s t \<le> now - tq_hold_since t"

definition gate :: "pf_tempq \<Rightarrow> fl \<Rightarrow> fl \<Rightarrow> pf_tempq \<times> fl" where
  "gate t f now =
     (if \<not> 0 < tq_slew_c_s t \<or> isnan (tq_out_c t)
      then (t\<lparr>tq_out_c := f, tq_out_t := now, tq_hold_since := 0, tq_unstable := False\<rparr>, f)
      else let allowed = tq_slew_c_s t * gate_dt t now; d = f - tq_out_c t;
               t = (if \<bar>d\<bar> \<le> allowed then t\<lparr>tq_out_c := f, tq_hold_since := 0, tq_unstable := False\<rparr>
                    else if held t now then t\<lparr>tq_out_c := f, tq_hold_since := 0, tq_unstable := False\<rparr>
                    else (if \<not> 0 < tq_hold_since t then t\<lparr>tq_hold_since := now\<rparr> else t)
                           \<lparr>tq_out_c := tq_out_c t + (if 0 < d then allowed else - allowed), tq_unstable := True\<rparr>);
               t = t\<lparr>tq_out_t := now\<rparr>
           in (t, tq_out_c t))"

text \<open>The first reading fills both windows.\<close>

definition prefill :: "fl \<Rightarrow> pf_tempq \<Rightarrow> pf_tempq" where
  "prefill c t = t\<lparr>tq_med := replicate PF_TEMPQ_MED c, tq_q := replicate PF_TEMPQ_LEN c, tq_len := int PF_TEMPQ_LEN,
     tq_last_avg := c, tq_have_avg := True\<rparr>"

definition shift_in :: "fl \<Rightarrow> fl list \<Rightarrow> fl list" where "shift_in x xs = x # butlast xs"

definition smooth :: "fl \<Rightarrow> pf_tempq \<Rightarrow> pf_tempq" where
  "smooth c t =
     (let med = shift_in c (tq_med t); q = shift_in (tempq_median med) (tq_q t)
      in t\<lparr>tq_med := med, tq_q := q, tq_last_avg := fl_sum q / num PF_TEMPQ_LEN, tq_have_avg := True\<rparr>)"

definition pf_tempq_push :: "pf_tempq \<Rightarrow> fl \<Rightarrow> fl \<Rightarrow> pf_tempq \<times> fl" where
  "pf_tempq_push t c now =
     (if isnan c
      then (t, if tq_have_avg t then (if isnan (tq_out_c t) then tq_last_avg t else tq_out_c t) else NaN)
      else if tq_len t = 0 then gate (prefill c t) c now
      else let t = smooth c t in gate t (tq_last_avg t) now)"

section \<open>Sorting by insertion\<close>

lemma mset_sink_in: "mset (sink_in ys x) = add_mset x (mset ys)"
proof -
  have "mset (sink_in ys x) = add_mset x (mset (take k ys) + mset (drop k ys))"
    if "k = length ys - length (takeWhile (\<lambda>y. x < y) (rev ys))" for k
    unfolding sink_in_def Let_def that [symmetric] by simp
  then show ?thesis by (simp flip: mset_append)
qed

lemma mset_sink: "mset (foldl sink_in ys xs) = mset ys + mset xs"
  by (induction xs arbitrary: ys) (simp_all add: mset_sink_in)

lemma length_sink: "length (foldl sink_in [] xs) = length xs"
  using mset_sink [of "[]" xs] by (metis add.left_neutral mset.simps(1) size_mset)

lemma sink_in_split: "sink_in ys x = rev (dropWhile (\<lambda>y. x < y) (rev ys)) @ x # rev (takeWhile (\<lambda>y. x < y) (rev ys))"
proof -
  let ?P = "\<lambda>y. x < y"
  have "ys = rev (dropWhile ?P (rev ys)) @ rev (takeWhile ?P (rev ys))"
    by (metis rev_append rev_rev_ident takeWhile_dropWhile_id)
  moreover have "length (rev (dropWhile ?P (rev ys))) = length ys - length (takeWhile ?P (rev ys))"
    by (metis add_diff_cancel_left' length_append length_rev takeWhile_dropWhile_id)
  ultimately show ?thesis unfolding sink_in_def Let_def by (metis append_eq_conv_conj)
qed

lemma sorted_sink_in:
  assumes "sorted_wrt (\<le>) ys" "NaN \<notin> set ys" "x \<noteq> NaN"
  shows "sorted_wrt (\<le>) (sink_in ys x)"
proof -
  let ?P = "\<lambda>y. x < y" and ?d = "rev (dropWhile (\<lambda>y. x < y) (rev ys))" and ?t = "rev (takeWhile (\<lambda>y. x < y) (rev ys))"
  have "ys = ?d @ ?t" by (metis rev_append rev_rev_ident takeWhile_dropWhile_id)
  with assms have so: "sorted_wrt (\<le>) (?d @ ?t)" and nn: "NaN \<notin> set (?d @ ?t)" by simp_all
  have up: "x \<le> y" if "y \<in> set ?t" for y
    using that by (auto dest!: set_takeWhileD intro: fl_less_imp_le)
  have down: "y \<le> x" if "y \<in> set ?d" for y
  proof -
    from that obtain l ds where l: "dropWhile ?P (rev ys) = l # ds" by (cases "dropWhile ?P (rev ys)") auto
    then have "\<not> x < l" using hd_dropWhile [of ?P "rev ys"] by simp
    moreover have "l \<noteq> NaN" using nn l by auto
    ultimately have "l \<le> x" using assms(3) by (simp add: fl_not_less_iff)
    moreover have "y = l \<or> y \<le> l" using so that l by (auto simp: sorted_wrt_append)
    ultimately show ?thesis using fl_le_trans by blast
  qed
  have "y \<le> z" if "y \<in> set ?d" "z \<in> set ?t" for y z
    using so that unfolding sorted_wrt_append by blast
  then show ?thesis
    using so up down unfolding sink_in_split sorted_wrt_append by (auto simp: sorted_wrt_append)
qed

lemma sorted_sink:
  "sorted_wrt (\<le>) ys \<Longrightarrow> NaN \<notin> set ys \<Longrightarrow> NaN \<notin> set xs \<Longrightarrow> sorted_wrt (\<le>) (foldl sink_in ys xs)"
proof (induction xs arbitrary: ys)
  case (Cons x xs)
  have "set (sink_in ys x) = insert x (set ys)" by (metis mset_sink_in set_mset_add_mset_insert set_mset_mset)
  with Cons show ?case by (auto intro!: Cons.IH sorted_sink_in)
qed simp

text \<open>In a sorted list, no more than \<open>k\<close> items below \<open>a\<close> leave the items from the \<open>k\<close>-th on at \<open>a\<close> or above it;
  and the same from the other end.\<close>

lemma few_below:
  assumes "sorted_wrt (\<le>) xs" "length (filter (\<lambda>x. x < a) xs) \<le> k" "k \<le> i" "i < length xs"
  shows "\<not> xs ! i < (a :: fl)"
proof
  assume lt: "xs ! i < a"
  have "\<forall>x \<in> set (take (Suc i) xs). x < a"
  proof
    fix x assume "x \<in> set (take (Suc i) xs)"
    then obtain j where j: "x = xs ! j" "j \<le> i"
      using assms(4) by (auto simp: in_set_conv_nth less_Suc_eq_le)
    then have "x = xs ! i \<or> x \<le> xs ! i" using sorted_wrt_nth_less [OF assms(1), of j i] assms(4) by (cases "j = i") auto
    with lt show "x < a" by (auto intro: fl_le_less_trans)
  qed
  then have "filter (\<lambda>x. x < a) (take (Suc i) xs) = take (Suc i) xs" by (simp add: filter_id_conv)
  moreover have "length (filter (\<lambda>x. x < a) (take (Suc i) xs)) \<le> length (filter (\<lambda>x. x < a) xs)"
    by (metis append_take_drop_id filter_append le_add1 length_append)
  ultimately show False using assms(2-4) by simp
qed

lemma few_above:
  assumes "sorted_wrt (\<le>) xs" "length (filter (\<lambda>x. b < x) xs) \<le> k" "i + k < length xs"
  shows "\<not> (b :: fl) < xs ! i"
proof
  assume lt: "b < xs ! i"
  have "\<forall>x \<in> set (drop i xs). b < x"
  proof
    fix x assume "x \<in> set (drop i xs)"
    then obtain j where j: "x = xs ! (i + j)" "i + j < length xs" by (auto simp: in_set_conv_nth)
    then have "x = xs ! i \<or> xs ! i \<le> x" using sorted_wrt_nth_less [OF assms(1), of i "i + j"] by (cases "j = 0") auto
    with lt show "b < x" by (auto intro: fl_less_le_trans)
  qed
  then have "filter (\<lambda>x. b < x) (drop i xs) = drop i xs" by (simp add: filter_id_conv)
  moreover have "length (filter (\<lambda>x. b < x) (drop i xs)) \<le> length (filter (\<lambda>x. b < x) xs)"
    by (metis append_take_drop_id filter_append le_add2 length_append)
  ultimately show False using assms(2,3) by simp
qed

text \<open>A number between two others.\<close>

fun lies_in :: "real \<Rightarrow> real \<Rightarrow> fl \<Rightarrow> bool" where
  "lies_in a b (Fin r) \<longleftrightarrow> a \<le> r \<and> r \<le> b"
| "lies_in a b _ \<longleftrightarrow> False"

lemma lies_in_iff: "lies_in a b x \<longleftrightarrow> x \<noteq> NaN \<and> \<not> x < Fin a \<and> \<not> Fin b < x"
  by (cases x) auto

lemma filter_longer: "(\<And>x. P x \<Longrightarrow> Q x) \<Longrightarrow> length (filter P xs) \<le> length (filter Q xs)"
  by (induction xs) (auto simp: le_SucI)

lemma length_filter_mset: "mset xs = mset ys \<Longrightarrow> length (filter P xs) = length (filter P ys)"
  by (metis mset_filter size_mset)

lemma sink_lies_in:
  assumes "NaN \<notin> set v" "length (filter (\<lambda>x. \<not> lies_in a b x) v) \<le> k" "k \<le> i" "i + k < length v"
  shows "lies_in a b (foldl sink_in [] v ! i)"
proof -
  let ?s = "foldl sink_in [] v"
  have so: "sorted_wrt (\<le>) ?s" using assms(1) by (simp add: sorted_sink)
  have m: "mset ?s = mset v" using mset_sink [of "[]" v] by simp
  have n: "NaN \<notin> set ?s" by (metis m assms(1) set_mset_mset)
  have len: "length ?s = length v" by (rule length_sink)
  have "length (filter (\<lambda>x. x < Fin a) ?s) \<le> length (filter (\<lambda>x. \<not> lies_in a b x) v)"
    unfolding length_filter_mset [OF m]
    by (rule filter_longer) (auto simp: lies_in_iff)
  moreover have "length (filter (\<lambda>x. Fin b < x) ?s) \<le> length (filter (\<lambda>x. \<not> lies_in a b x) v)"
    unfolding length_filter_mset [OF m]
    by (rule filter_longer) (auto simp: lies_in_iff)
  ultimately have "length (filter (\<lambda>x. x < Fin a) ?s) \<le> k" "length (filter (\<lambda>x. Fin b < x) ?s) \<le> k" using assms(2) by simp_all
  from few_below [OF so this(1) assms(3)] few_above [OF so this(2), of i] assms(4) n len
  show ?thesis unfolding lies_in_iff by (metis add_lessD1 nth_mem)
qed

section \<open>What wrong samples can do\<close>

lemma lies_in_obtain: "lies_in a b x \<Longrightarrow> \<exists>r. x = Fin r \<and> a \<le> r \<and> r \<le> b"
  by (cases x) auto

lemma mean_lies_in:
  assumes "\<forall>x \<in> set xs. lies_in a b x" "xs \<noteq> []"
  shows "lies_in a b (fl_sum xs / num (length xs))"
proof -
  have "\<exists>r. foldl (+) (Fin u) ys = Fin (u + r) \<and> real (length ys) * a \<le> r \<and> r \<le> real (length ys) * b"
    if "\<forall>x \<in> set ys. lies_in a b x" for ys and u :: real
    using that
  proof (induction ys arbitrary: u)
    case (Cons y ys)
    then obtain y' where y: "y = Fin y'" "a \<le> y'" "y' \<le> b" by (auto dest!: lies_in_obtain)
    from Cons obtain r where "foldl (+) (Fin (u + y')) ys = Fin (u + y' + r)"
      "real (length ys) * a \<le> r" "r \<le> real (length ys) * b" by fastforce
    with y show ?case by (auto simp: algebra_simps)
  qed simp
  from this [OF assms(1), of 0] obtain r where r: "fl_sum xs = Fin r" "real (length xs) * a \<le> r" "r \<le> real (length xs) * b"
    by (auto simp: fl_sum_def)
  with assms(2) show ?thesis
    by (simp add: num_def int_to_fl_def pos_le_divide_eq pos_divide_le_eq mult.commute)
qed

lemma median_lies_in:
  assumes "length v = 5" "NaN \<notin> set v" "length (filter (\<lambda>x. \<not> lies_in a b x) v) \<le> 2"
  shows "lies_in a b (tempq_median v)"
  using sink_lies_in [OF assms(2,3), of 2] assms(1) by (simp add: tempq_median_def)

lemma gate_dt_range: "\<exists>r. gate_dt t now = Fin r \<and> 0 < r \<and> r \<le> 5"
  by (cases "now - tq_out_t t") (auto simp: gate_dt_def Let_def intro: exI [of _ "1 / 4"])

lemma gate_allowed:
  assumes "0 < tq_slew_c_s t"
  shows "tq_slew_c_s t * gate_dt t now = PInf \<or> (\<exists>r. tq_slew_c_s t * gate_dt t now = Fin r \<and> 0 < r)"
  using assms gate_dt_range [of t now] by (cases "tq_slew_c_s t") auto

lemma gate_out: "tq_out_c (fst (gate t f now)) = snd (gate t f now)"
  by (auto simp: gate_def Let_def)

lemma gate_frame [simp]:
  "tq_med (fst (gate t f now)) = tq_med t" "tq_q (fst (gate t f now)) = tq_q t" "tq_len (fst (gate t f now)) = tq_len t"
  "tq_last_avg (fst (gate t f now)) = tq_last_avg t" "tq_have_avg (fst (gate t f now)) = tq_have_avg t"
  "tq_slew_c_s (fst (gate t f now)) = tq_slew_c_s t" "tq_hold_s (fst (gate t f now)) = tq_hold_s t"
  "tq_out_t (fst (gate t f now)) = now"
  by (auto simp: gate_def Let_def)

lemma gate_lies_in:
  assumes "lies_in a b f" "tq_out_c t = NaN \<or> lies_in a b (tq_out_c t)"
  shows "lies_in a b (snd (gate t f now))"
proof (cases "\<not> 0 < tq_slew_c_s t \<or> tq_out_c t = NaN")
  case True
  with assms show ?thesis by (auto simp: gate_def)
next
  case False
  with assms obtain f' r where fr: "f = Fin f'" "a \<le> f'" "f' \<le> b" "tq_out_c t = Fin r" "a \<le> r" "r \<le> b"
    by (auto dest!: lies_in_obtain)
  from False gate_allowed [of t now] fr(2,3,5,6) show ?thesis
    by (auto simp: gate_def Let_def fr(1,4))
qed

lemma smooth_fields [simp]:
  "tq_med (smooth c t) = shift_in c (tq_med t)"
  "tq_q (smooth c t) = shift_in (tempq_median (shift_in c (tq_med t))) (tq_q t)"
  "tq_last_avg (smooth c t) = fl_sum (tq_q (smooth c t)) / num PF_TEMPQ_LEN" "tq_have_avg (smooth c t)"
  "tq_len (smooth c t) = tq_len t" "tq_out_c (smooth c t) = tq_out_c t" "tq_out_t (smooth c t) = tq_out_t t"
  "tq_slew_c_s (smooth c t) = tq_slew_c_s t" "tq_hold_s (smooth c t) = tq_hold_s t"
  "tq_hold_since (smooth c t) = tq_hold_since t"
  by (simp_all add: smooth_def Let_def)

declare smooth_fields(3) [simp del]

text \<open>The values reported for readings taken one after the other.\<close>

fun tempq_run :: "pf_tempq \<Rightarrow> (fl \<times> fl) list \<Rightarrow> fl list" where
  "tempq_run t [] = []"
| "tempq_run t ((c, now) # ps) = (case pf_tempq_push t c now of (t, v) \<Rightarrow> v # tempq_run t ps)"

text \<open>No five readings in a row hold more than two outside a range.\<close>

fun few_spikes :: "real \<Rightarrow> real \<Rightarrow> fl list \<Rightarrow> bool" where
  "few_spikes a b [] \<longleftrightarrow> True"
| "few_spikes a b (c # cs) \<longleftrightarrow> length (filter (\<lambda>c. \<not> lies_in a b c) (take 5 (c # cs))) \<le> 2 \<and> few_spikes a b cs"

lemma few_spikes_drop: "few_spikes a b cs \<Longrightarrow> length (filter (\<lambda>c. \<not> lies_in a b c) (take 5 (drop i cs))) \<le> 2"
  by (induction cs arbitrary: i) (auto simp: drop_Cons' simp del: take_Suc_Cons)

lemma few_spikesI: "(\<And>i. length (filter (\<lambda>c. \<not> lies_in a b c) (take 5 (drop i cs))) \<le> 2) \<Longrightarrow> few_spikes a b cs"
proof (induction cs)
  case (Cons c cs)
  show ?case using Cons.prems [of 0] Cons.IH Cons.prems [of "Suc i" for i] by fastforce
qed simp

lemma few_spikes_tl: "few_spikes a b (c # cs) \<Longrightarrow> few_spikes a b cs"
  by simp

declare few_spikes.simps(2) [simp del]

lemma few_spikes_start:
  assumes "few_spikes a b (c # cs)" "lies_in a b c"
  shows "few_spikes a b (replicate n c @ cs)"
proof -
  let ?bad = "\<lambda>xs. length (filter (\<lambda>c. \<not> lies_in a b c) xs)"
  have "?bad (take 5 (drop i (replicate n c @ cs))) \<le> 2" for i
  proof (cases "i < n")
    case True
    then have "?bad (take 5 (drop i (replicate n c @ cs))) = ?bad (take (5 - (n - i)) cs)"
      using assms(2) by (simp add: min_def)
    also have "\<dots> \<le> ?bad (take 4 cs)"
    proof -
      have "take 4 cs = take (5 - (n - i)) cs @ take (4 - (5 - (n - i))) (drop (5 - (n - i)) cs)"
        using True by (simp flip: take_add)
      then show ?thesis by (metis filter_append le_add1 length_append)
    qed
    also have "?bad (take 4 cs) = ?bad (take 5 (c # cs))" using assms(2) by (simp add: take_Cons')
    also have "\<dots> \<le> 2" using few_spikes_drop [OF assms(1), of 0] by simp
    finally show ?thesis .
  next
    case False
    then have "take 5 (drop i (replicate n c @ cs)) = take 5 (drop (Suc (i - n)) (c # cs))" by simp
    then show ?thesis using few_spikes_drop [OF assms(1), of "Suc (i - n)"] by simp
  qed
  then show ?thesis by (rule few_spikesI)
qed

text \<open>The windows hold what the readings left there.\<close>

definition windows_ok :: "real \<Rightarrow> real \<Rightarrow> pf_tempq \<Rightarrow> bool" where
  "windows_ok a b t \<longleftrightarrow> tq_len t \<noteq> 0 \<and> tq_have_avg t \<and> length (tq_med t) = 5 \<and> NaN \<notin> set (tq_med t) \<and> length (tq_q t) = 10 \<and>
     (\<forall>x \<in> set (tq_q t). lies_in a b x) \<and> lies_in a b (tq_out_c t)"

lemma push_windows:
  assumes "windows_ok a b t" "few_spikes a b (rev (tq_med t) @ c # cs)" "c \<noteq> NaN"
    and "pf_tempq_push t c now = (t', v)"
  shows "windows_ok a b t' \<and> few_spikes a b (rev (tq_med t') @ cs) \<and> lies_in a b v"
proof -
  let ?s = "smooth c t" and ?m = "shift_in c (tq_med t)"
  from assms(3,4) assms(1) have g: "gate ?s (tq_last_avg ?s) now = (t', v)"
    by (simp add: pf_tempq_push_def Let_def windows_ok_def)
  obtain x xs where med: "rev (tq_med t) = x # xs" and len: "length xs = 4"
    using assms(1) by (cases "rev (tq_med t)") (auto simp: windows_ok_def dest: arg_cong [of _ _ length])
  from med have "tq_med t = rev xs @ [x]" by (metis rev.simps(2) rev_rev_ident)
  then have rm: "rev ?m = xs @ [c]" by (simp add: shift_in_def)
  have few: "few_spikes a b (rev ?m @ cs)" using assms(2) unfolding med rm by (simp add: few_spikes_tl)
  have "length (filter (\<lambda>c. \<not> lies_in a b c) (rev ?m)) \<le> 2"
    using few_spikes_drop [OF few, of 0] len rm by simp
  then have bad: "length (filter (\<lambda>c. \<not> lies_in a b c) ?m) \<le> 2" by (simp flip: rev_filter)
  have nn: "NaN \<notin> set ?m" "length ?m = 5"
    using assms(1,3) by (auto simp: windows_ok_def shift_in_def dest: in_set_butlastD)
  have q: "\<forall>x \<in> set (tq_q ?s). lies_in a b x" "length (tq_q ?s) = 10"
    using assms(1) median_lies_in [OF nn(2,1) bad]
    by (auto simp: windows_ok_def shift_in_def dest: in_set_butlastD)
  have "tq_last_avg ?s = fl_sum (tq_q ?s) / num (length (tq_q ?s))"
    using q(2) by (simp add: smooth_fields(3) PF_TEMPQ_LEN_def)
  with mean_lies_in [OF q(1)] q(2) have avg: "lies_in a b (tq_last_avg ?s)" by force
  have v: "lies_in a b v" using gate_lies_in [OF avg, where t = ?s and now = now] g assms(1) by (simp add: windows_ok_def)
  have "t' = fst (gate ?s (tq_last_avg ?s) now)" "v = snd (gate ?s (tq_last_avg ?s) now)" by (simp_all add: g)
  then have "tq_med t' = ?m" "tq_q t' = tq_q ?s" "tq_len t' = tq_len t" "tq_out_c t' = v" "tq_have_avg t'"
    by (simp_all add: gate_out)
  with v few nn q assms(1) show ?thesis by (simp add: windows_ok_def)
qed

lemma push_nan_run: "windows_ok a b t \<Longrightarrow> \<exists>v. pf_tempq_push t NaN now = (t, v) \<and> lies_in a b v"
  by (auto simp: pf_tempq_push_def windows_ok_def dest: lies_in_obtain)

lemma run_lies_in:
  assumes "windows_ok a b t" "few_spikes a b (rev (tq_med t) @ filter (\<lambda>c. c \<noteq> NaN) (map fst ps))"
  shows "\<forall>v \<in> set (tempq_run t ps). lies_in a b v"
  using assms
proof (induction ps arbitrary: t)
  case (Cons p ps)
  obtain c now where p: "p = (c, now)" by force
  obtain t' v where push: "pf_tempq_push t c now = (t', v)" by force
  show ?case
  proof (cases "c = NaN")
    case True
    with push_nan_run [OF Cons.prems(1), of now] push have "t' = t" "lies_in a b v" by auto
    with Cons True push [unfolded True] show ?thesis by (simp add: p)
  next
    case False
    with Cons.prems(2) have "few_spikes a b (rev (tq_med t) @ c # filter (\<lambda>c. c \<noteq> NaN) (map fst ps))" by (simp add: p)
    from push_windows [OF Cons.prems(1) this False push] Cons.IH [of t'] show ?thesis by (simp add: p push)
  qed
qed simp

lemma run_no_reading: "\<not> tq_have_avg t \<Longrightarrow> tempq_run t ((NaN, now) # ps) = NaN # tempq_run t ps"
  by (simp add: pf_tempq_push_def)


definition noisy_readings :: "(fl \<times> fl) list" where
  "noisy_readings = [(NaN, 1), (100, 2), (500, 3), (- 40, 4), (100, 5), (NaN, 6), (101, 7)]"


section \<open>When a jump is believed\<close>

definition tempq_after :: "pf_tempq \<Rightarrow> (fl \<times> fl) list \<Rightarrow> pf_tempq" where
  "tempq_after t ps = foldl (\<lambda>t (c, now). fst (pf_tempq_push t c now)) t ps"

lemma tempq_after_simps [simp]:
  "tempq_after t [] = t"
  "tempq_after t (ps @ [(c, now)]) = fst (pf_tempq_push (tempq_after t ps) c now)"
  by (simp_all add: tempq_after_def)

text \<open>What the gate sees of the state that a push hands it.\<close>

lemma push_gate:
  assumes "c \<noteq> NaN"
  shows "\<exists>t2 f. pf_tempq_push t c now = gate t2 f now \<and> tq_out_c t2 = tq_out_c t \<and> tq_out_t t2 = tq_out_t t \<and>
           tq_hold_since t2 = tq_hold_since t \<and> tq_slew_c_s t2 = tq_slew_c_s t \<and> tq_hold_s t2 = tq_hold_s t"
proof (cases "tq_len t = 0")
  case True
  with assms show ?thesis by (intro exI [of _ "prefill c t"] exI [of _ c]) (simp add: pf_tempq_push_def prefill_def)
next
  case False
  with assms show ?thesis
    by (intro exI [of _ "smooth c t"] exI [of _ "tq_last_avg (smooth c t)"]) (simp add: pf_tempq_push_def Let_def)
qed

lemma gate_hold:
  assumes "0 < tq_hold_since (fst (gate t f now))"
  shows "tq_unstable (fst (gate t f now)) \<and>
         tq_hold_since (fst (gate t f now)) = (if 0 < tq_hold_since t then tq_hold_since t else now)"
  using assms by (auto simp: gate_def Let_def split: if_splits)

lemma gate_jump:
  assumes "0 < tq_slew_c_s t" "tq_out_c t = Fin r" "\<not> \<bar>snd (gate t f now) - Fin r\<bar> \<le> tq_slew_c_s t * gate_dt t now"
  shows "held t now"
proof (rule ccontr)
  assume "\<not> held t now"
  with assms gate_allowed [OF assms(1), of now] show False
    by (auto simp: gate_def Let_def split: if_splits)
qed

definition shown_unstable :: "pf_tempq \<Rightarrow> (fl \<times> fl) list \<Rightarrow> (fl \<times> fl) list \<Rightarrow> bool" where
  "shown_unstable t xs ys \<longleftrightarrow> (\<forall>n. 0 < n \<and> n \<le> length ys \<longrightarrow> tq_unstable (tempq_after t (xs @ take n ys)))"

lemma shown_unstable_snoc:
  "shown_unstable t xs ys \<Longrightarrow> tq_unstable (tempq_after t (xs @ ys @ [p])) \<Longrightarrow> shown_unstable t xs (ys @ [p])"
  by (auto simp: shown_unstable_def le_Suc_eq)

lemma hold_began:
  assumes "tq_hold_since t = 0" "0 < tq_hold_since (tempq_after t ps)"
  shows "\<exists>xs ys. ps = xs @ ys \<and> ys \<noteq> [] \<and> snd (hd ys) = tq_hold_since (tempq_after t ps) \<and> shown_unstable t xs ys"
  using assms(2)
proof (induction ps rule: rev_induct)
  case Nil
  with assms(1) show ?case by simp
next
  case (snoc p ps)
  obtain c now where p: "p = (c, now)" by force
  let ?t = "tempq_after t ps"
  show ?case
  proof (cases "c = NaN")
    case True
    then have same: "tempq_after t (ps @ [p]) = ?t" by (simp add: p pf_tempq_push_def)
    with snoc obtain xs ys where ys: "ps = xs @ ys" "ys \<noteq> []" "snd (hd ys) = tq_hold_since ?t" "shown_unstable t xs ys"
      by auto
    then have "tq_unstable ?t" by (auto simp: shown_unstable_def)
    with same ys show ?thesis
      by (intro exI [of _ xs] exI [of _ "ys @ [p]"]) (auto intro!: shown_unstable_snoc)
  next
    case False
    from push_gate [OF this, of ?t now] obtain t2 f where
      g: "pf_tempq_push ?t c now = gate t2 f now" "tq_hold_since t2 = tq_hold_since ?t" by blast
    with snoc.prems gate_hold [of t2 f now] have un: "tq_unstable (tempq_after t (ps @ [p]))"
      and since: "tq_hold_since (tempq_after t (ps @ [p])) = (if 0 < tq_hold_since ?t then tq_hold_since ?t else now)"
      by (simp_all add: p)
    show ?thesis
    proof (cases "0 < tq_hold_since ?t")
      case True
      with snoc.IH obtain xs ys where "ps = xs @ ys" "ys \<noteq> []" "snd (hd ys) = tq_hold_since ?t" "shown_unstable t xs ys"
        by blast
      with since un True show ?thesis
        by (intro exI [of _ xs] exI [of _ "ys @ [p]"]) (auto intro!: shown_unstable_snoc)
    next
      case False
      with since un show ?thesis
        by (intro exI [of _ ps] exI [of _ "[p]"]) (auto simp: p shown_unstable_def le_Suc_eq)
    qed
  qed
qed

text \<open>C16. The reported value jumps only when it has been called unstable for the whole hold time.  Whenever a reading
  moves it further than the slew rate allows in the time since the last one, an earlier push lies at least the hold
  time back, and from that one on every state reported until now was marked unstable.\<close>

theorem jump_was_held:
  assumes "tq_hold_since t = 0" "0 < tq_slew_c_s (tempq_after t ps)" "tq_out_c (tempq_after t ps) = Fin r"
    and "c \<noteq> NaN" "pf_tempq_push (tempq_after t ps) c now = (t', v)"
    and "\<not> \<bar>v - Fin r\<bar> \<le> tq_slew_c_s (tempq_after t ps) * gate_dt (tempq_after t ps) now"
  shows "\<exists>xs ys. ps = xs @ ys \<and> ys \<noteq> [] \<and> tq_hold_s (tempq_after t ps) \<le> now - snd (hd ys) \<and>
           (\<forall>n. 0 < n \<and> n \<le> length ys \<longrightarrow> tq_unstable (tempq_after t (xs @ take n ys)))"
proof -
  let ?t = "tempq_after t ps"
  from push_gate [OF assms(4), of ?t now] obtain t2 f where
    g: "pf_tempq_push ?t c now = gate t2 f now" "tq_out_c t2 = tq_out_c ?t" "tq_out_t t2 = tq_out_t ?t"
      "tq_hold_since t2 = tq_hold_since ?t" "tq_slew_c_s t2 = tq_slew_c_s ?t" "tq_hold_s t2 = tq_hold_s ?t" by blast
  have "v = snd (gate t2 f now)" "gate_dt t2 now = gate_dt ?t now"
    using assms(5) by (simp_all flip: g(1)) (simp_all add: gate_dt_def g)
  with g assms gate_jump [of t2 r f now] have "held t2 now" by simp
  with g have "held ?t now" by (simp add: held_def)
  then have "0 < tq_hold_since ?t" "tq_hold_s ?t \<le> now - tq_hold_since ?t" by (simp_all add: held_def)
  with hold_began [OF assms(1) this(1)] show ?thesis unfolding shown_unstable_def by metis
qed

text \<open>A filter that has held back 500 since the second 2, with a hold time of 5, and reads it again at 8.\<close>

definition held_filter :: pf_tempq where
  "held_filter = pf_tempq_init\<lparr>tq_len := 10, tq_med := replicate 5 500, tq_q := replicate 10 500, tq_have_avg := True,
     tq_last_avg := 500, tq_slew_c_s := 3, tq_hold_s := 5, tq_out_c := 100, tq_out_t := 1\<rparr>"

lemma median_replicate: "tempq_median (replicate 5 (Fin x)) = Fin x"
  using median_lies_in [of "replicate 5 (Fin x)" x x] by (auto dest!: lies_in_obtain)

lemma held_filter_smooth: "smooth 500 (held_filter\<lparr>tq_out_c := o1, tq_out_t := o2, tq_hold_since := h, tq_unstable := u\<rparr>) =
    held_filter\<lparr>tq_out_c := o1, tq_out_t := o2, tq_hold_since := h, tq_unstable := u\<rparr>"
proof -
  have "shift_in c (replicate (Suc n) c) = replicate (Suc n) c" for c :: fl and n
    by (simp add: shift_in_def butlast_snoc flip: replicate_append_same)
  from this [of "Fin 500" 4] this [of "Fin 500" 9] have sh: "shift_in (Fin 500) (replicate 5 (Fin 500)) = replicate 5 (Fin 500)"
    "shift_in (Fin 500) (replicate 10 (Fin 500)) = replicate 10 (Fin 500)" by (simp_all del: replicate_Suc)
  have "fl_sum (replicate 10 (Fin 500)) = Fin 5000" by (simp add: fl_sum_def numeral_eq_Suc)
  then have "fl_sum (replicate 10 (Fin 500)) / num PF_TEMPQ_LEN = Fin 500" by (simp add: num_def int_to_fl_def PF_TEMPQ_LEN_def)
  then show ?thesis by (simp add: smooth_def Let_def held_filter_def sh median_replicate)
qed

lemma held_filter_steps:
  "fst (pf_tempq_push held_filter 500 2) = held_filter\<lparr>tq_out_c := 103, tq_out_t := 2, tq_hold_since := 2, tq_unstable := True\<rparr>"
  "pf_tempq_push (held_filter\<lparr>tq_out_c := 103, tq_out_t := 2, tq_hold_since := 2, tq_unstable := True\<rparr>) 500 8 =
     (held_filter\<lparr>tq_out_c := 500, tq_out_t := 8\<rparr>, 500)"
proof -
  have "held_filter = held_filter\<lparr>tq_out_c := 100, tq_out_t := 1, tq_hold_since := 0, tq_unstable := False\<rparr>"
    by (simp add: held_filter_def pf_tempq_init_def)
  then have "smooth 500 held_filter = held_filter" by (metis held_filter_smooth)
  then show "fst (pf_tempq_push held_filter 500 2) = held_filter\<lparr>tq_out_c := 103, tq_out_t := 2, tq_hold_since := 2, tq_unstable := True\<rparr>"
    by (simp add: pf_tempq_push_def Let_def)
      (simp add: gate_def gate_dt_def held_def held_filter_def pf_tempq_init_def)
  show "pf_tempq_push (held_filter\<lparr>tq_out_c := 103, tq_out_t := 2, tq_hold_since := 2, tq_unstable := True\<rparr>) 500 8 =
     (held_filter\<lparr>tq_out_c := 500, tq_out_t := 8\<rparr>, 500)"
    using held_filter_smooth [where u = True and ?o1.0 = 103 and ?o2.0 = 2 and h = 2]
    by (simp add: pf_tempq_push_def Let_def)
      (simp add: gate_def gate_dt_def held_def held_filter_def pf_tempq_init_def)
qed

theorem jump_was_held_witness:
  "\<exists>xs ys. [(500, 2)] = xs @ ys \<and> ys \<noteq> [] \<and> tq_hold_s (tempq_after held_filter [(500, 2)]) \<le> 8 - snd (hd ys) \<and>
     (\<forall>n. 0 < n \<and> n \<le> length ys \<longrightarrow> tq_unstable (tempq_after held_filter (xs @ take n ys)))"
proof -
  have after: "tempq_after held_filter [(500, 2)] =
      held_filter\<lparr>tq_out_c := 103, tq_out_t := 2, tq_hold_since := 2, tq_unstable := True\<rparr>"
    using held_filter_steps(1) by (simp add: tempq_after_def)
  show ?thesis
    by (rule jump_was_held [where r = 103 and c = 500 and v = 500, OF _ _ _ _ held_filter_steps(2) [folded after]])
      (simp_all add: after [simplified] gate_dt_def, simp_all add: held_filter_def pf_tempq_init_def)
qed

section \<open>A level that lasts is believed\<close>

lemma gate_settles:
  assumes "f = Fin x" "tq_hold_since t \<le> now" "0 < now" "t' = fst (gate t f now)"
  shows "tq_out_c t' = f \<and> tq_hold_since t' = 0 \<and> \<not> tq_unstable t' \<or>
         \<not> held t now \<and> 0 < tq_hold_since t' \<and> tq_hold_since t' = (if 0 < tq_hold_since t then tq_hold_since t else now)"
  using assms by (auto simp: gate_def Let_def)

lemma gate_stays:
  assumes "f = Fin x" "tq_out_c t = f"
  shows "tq_out_c (fst (gate t f now)) = f \<and> \<not> tq_unstable (fst (gate t f now)) \<and> tq_hold_since (fst (gate t f now)) = 0"
proof (cases "0 < tq_slew_c_s t")
  case True
  from gate_allowed [OF this, of now] assms show ?thesis by (auto simp: gate_def Let_def)
next
  case False
  with assms show ?thesis by (simp add: gate_def)
qed

text \<open>The first \<open>n\<close> places of a window hold the level.\<close>

definition full_of :: "fl \<Rightarrow> nat \<Rightarrow> fl list \<Rightarrow> bool" where
  "full_of c n xs \<longleftrightarrow> take n xs = replicate (min n (length xs)) c"

lemma full_of_shift: "full_of c n xs \<Longrightarrow> xs \<noteq> [] \<Longrightarrow> full_of c (Suc n) (shift_in c xs)"
proof (cases "n < length xs")
  case True
  assume "full_of c n xs" "xs \<noteq> []"
  with True show ?thesis by (simp add: full_of_def shift_in_def take_butlast min_def)
next
  case False
  assume full: "full_of c n xs" and ne: "xs \<noteq> []"
  from full False have "xs = replicate (length xs) c" by (simp add: full_of_def)
  with ne have "xs = replicate (length xs - 1) c @ [c]"
    by (metis Suc_diff_1 length_greater_0_conv replicate_Suc replicate_append_same)
  then have "butlast xs = replicate (length xs - 1) c" by (metis butlast_snoc)
  moreover obtain m where "length xs = Suc m" using ne by (cases xs) auto
  ultimately show ?thesis using False by (simp add: full_of_def shift_in_def)
qed

lemma full_of_bad:
  assumes "full_of (Fin x) 3 v" "length v = 5"
  shows "length (filter (\<lambda>c. \<not> lies_in x x c) v) \<le> 2"
proof -
  have "v = replicate 3 (Fin x) @ drop 3 v"
    using assms append_take_drop_id [of 3 v] by (simp add: full_of_def)
  moreover have "length (filter (\<lambda>c. \<not> lies_in x x c) (drop 3 v)) \<le> 2"
    using length_filter_le [of "\<lambda>c. \<not> lies_in x x c" "drop 3 v"] assms(2) by simp
  moreover have "filter (\<lambda>c. \<not> lies_in x x c) (replicate 3 (Fin x) @ drop 3 v) = filter (\<lambda>c. \<not> lies_in x x c) (drop 3 v)"
    by simp
  ultimately show ?thesis by metis
qed

lemma full_of_less: "full_of c n xs \<Longrightarrow> m \<le> n \<Longrightarrow> full_of c m xs"
proof -
  assume full: "full_of c n xs" and le: "m \<le> n"
  have "take m xs = take m (take n xs)" using le by simp
  also have "\<dots> = replicate (min m (min n (length xs))) c" using full by (simp add: full_of_def)
  also have "min m (min n (length xs)) = min m (length xs)" using le by simp
  finally show ?thesis by (simp add: full_of_def)
qed

definition settling :: "real \<Rightarrow> nat \<Rightarrow> pf_tempq \<Rightarrow> bool" where
  "settling x n t \<longleftrightarrow> tq_len t \<noteq> 0 \<and> length (tq_med t) = 5 \<and> length (tq_q t) = 10 \<and> NaN \<notin> set (tq_med t) \<and>
     full_of (Fin x) n (tq_med t) \<and> full_of (Fin x) (n - 2) (tq_q t)"

lemma push_settling:
  assumes "settling x n t"
  shows "settling x (Suc n) (fst (pf_tempq_push t (Fin x) now))" (is ?thesis1)
    and "11 \<le> n \<Longrightarrow> fst (pf_tempq_push t (Fin x) now) = fst (gate (smooth (Fin x) t) (Fin x) now)" (is "_ \<Longrightarrow> ?thesis2")
proof -
  let ?s = "smooth (Fin x) t"
  have push: "pf_tempq_push t (Fin x) now = gate ?s (tq_last_avg ?s) now"
    using assms by (simp add: pf_tempq_push_def settling_def Let_def)
  have med: "full_of (Fin x) (Suc n) (tq_med ?s)" "length (tq_med ?s) = 5" "NaN \<notin> set (tq_med ?s)"
    using assms by (auto simp: settling_def shift_in_def [where xs = "tq_med t"] dest: in_set_butlastD)
      (auto simp flip: shift_in_def intro!: full_of_shift)
  have q: "length (tq_q ?s) = 10" using assms by (simp add: settling_def shift_in_def)
  have level: "full_of (Fin x) (Suc n - 2) (tq_q ?s)"
  proof (cases "2 \<le> n")
    case True
    then have "full_of (Fin x) 3 (tq_med ?s)" using med(1) by (auto intro: full_of_less)
    from median_lies_in [OF med(2,3) full_of_bad [OF this med(2)]] have "tempq_median (tq_med ?s) = Fin x"
      by (auto dest!: lies_in_obtain)
    moreover have "full_of (Fin x) (n - 2) (tq_q t)" "tq_q t \<noteq> []" using assms by (auto simp: settling_def)
    ultimately have "full_of (Fin x) (Suc (n - 2)) (tq_q ?s)" using full_of_shift by simp
    moreover have "Suc (n - 2) = Suc n - 2" using True by simp
    ultimately show ?thesis by metis
  next
    case False
    then show ?thesis by (simp add: full_of_def)
  qed
  show ?thesis1 using med q level assms by (simp add: settling_def push)
  assume "11 \<le> n"
  then have "full_of (Fin x) 10 (tq_q ?s)" using full_of_less [OF level, of 10] by simp
  with q have "tq_q ?s = replicate 10 (Fin x)" unfolding full_of_def by (simp del: smooth_fields)
  then have "\<forall>y \<in> set (tq_q ?s). lies_in x x y" "tq_q ?s \<noteq> []" by simp_all
  from mean_lies_in [OF this] q have "tq_last_avg ?s = Fin x"
    by (auto simp: smooth_fields(3) PF_TEMPQ_LEN_def dest!: lies_in_obtain)
  then show ?thesis2 by (simp add: push)
qed

definition level_pushes :: "real \<Rightarrow> real list \<Rightarrow> (fl \<times> fl) list" where
  "level_pushes x ts = map (\<lambda>s. (Fin x, Fin s)) ts"

text \<open>Reporting the level, steady.\<close>

definition at_level :: "real \<Rightarrow> pf_tempq \<Rightarrow> bool" where
  "at_level x t \<longleftrightarrow> tq_out_c t = Fin x \<and> \<not> tq_unstable t \<and> tq_hold_since t = 0"

lemma push_hold_le:
  assumes "tq_hold_since t \<le> Fin l" "l \<le> now" "0 < now"
  shows "tq_hold_since (fst (pf_tempq_push t (Fin x) (Fin now))) \<le> Fin now"
    "tq_hold_s (fst (pf_tempq_push t (Fin x) (Fin now))) = tq_hold_s t"
proof -
  obtain t2 f where g: "pf_tempq_push t (Fin x) (Fin now) = gate t2 f (Fin now)" "tq_hold_since t2 = tq_hold_since t"
    "tq_hold_s t2 = tq_hold_s t" using push_gate [of "Fin x" t "Fin now"] by auto
  have le: "tq_hold_since t \<le> Fin now" using assms(1,2) by (cases "tq_hold_since t") auto
  have "tq_hold_since (fst (gate t2 f (Fin now))) \<in> {0, tq_hold_since t, Fin now}"
    by (auto simp: gate_def Let_def g(2))
  with le assms(3) show "tq_hold_since (fst (pf_tempq_push t (Fin x) (Fin now))) \<le> Fin now" by (auto simp: g(1))
  show "tq_hold_s (fst (pf_tempq_push t (Fin x) (Fin now))) = tq_hold_s t" by (simp add: g)
qed

lemma push_level:
  assumes "settling x n t" "11 \<le> n" "tq_hold_since t \<le> Fin l" "l \<le> now" "0 < now"
  shows "at_level x (fst (pf_tempq_push t (Fin x) (Fin now))) \<or>
         \<not> held t (Fin now) \<and> 0 < tq_hold_since (fst (pf_tempq_push t (Fin x) (Fin now))) \<and>
           tq_hold_since (fst (pf_tempq_push t (Fin x) (Fin now))) = (if 0 < tq_hold_since t then tq_hold_since t else Fin now)"
    and "tq_out_c t = Fin x \<Longrightarrow> at_level x (fst (pf_tempq_push t (Fin x) (Fin now)))"
proof -
  note push = push_settling(2) [OF assms(1,2), of "Fin now"]
  have "tq_hold_since (smooth (Fin x) t) \<le> Fin now" using assms(3,4) by (cases "tq_hold_since t") auto
  from gate_settles [OF refl this _ refl, of x] assms(5)
  show "at_level x (fst (pf_tempq_push t (Fin x) (Fin now))) \<or>
         \<not> held t (Fin now) \<and> 0 < tq_hold_since (fst (pf_tempq_push t (Fin x) (Fin now))) \<and>
           tq_hold_since (fst (pf_tempq_push t (Fin x) (Fin now))) = (if 0 < tq_hold_since t then tq_hold_since t else Fin now)"
    unfolding push at_level_def by (auto simp: held_def split: if_splits)
  show "at_level x (fst (pf_tempq_push t (Fin x) (Fin now)))" if "tq_out_c t = Fin x"
    using gate_stays [OF refl, of "smooth (Fin x) t" x] that unfolding push at_level_def by simp
qed

lemma level_run:
  assumes "settling x 0 t" "tq_hold_since t \<le> Fin (hd ts)" "0 < hd ts" "sorted ts" "tq_hold_s t = Fin h" "ts \<noteq> []"
  shows "settling x (length ts) (tempq_after t (level_pushes x ts)) \<and> tq_hold_s (tempq_after t (level_pushes x ts)) = Fin h \<and>
    tq_hold_since (tempq_after t (level_pushes x ts)) \<le> Fin (last ts) \<and>
    (12 \<le> length ts \<longrightarrow> at_level x (tempq_after t (level_pushes x ts)) \<or>
       0 < tq_hold_since (tempq_after t (level_pushes x ts)) \<and> tq_hold_since (tempq_after t (level_pushes x ts)) \<le> Fin (ts ! 11) \<and>
       (ts ! 11 + h \<le> last ts \<longrightarrow> h \<le> 0))"
  using assms
proof (induction ts rule: rev_induct)
  case (snoc now ts)
  let ?t = "tempq_after t (level_pushes x ts)" and ?t' = "tempq_after t (level_pushes x (ts @ [now]))"
  have step: "?t' = fst (pf_tempq_push ?t (Fin x) (Fin now))" by (simp add: level_pushes_def)
  have pos: "0 < now" and so: "sorted ts"
    using snoc.prems(3,4) by (cases ts; auto simp: sorted_append)+
  have IH: "settling x (length ts) ?t \<and> tq_hold_s ?t = Fin h \<and> (\<exists>l \<le> now. tq_hold_since ?t \<le> Fin l) \<and>
    (12 \<le> length ts \<longrightarrow> at_level x ?t \<or> 0 < tq_hold_since ?t \<and> tq_hold_since ?t \<le> Fin (ts ! 11))"
  proof (cases "ts = []")
    case True
    with snoc.prems show ?thesis by (auto simp: level_pushes_def)
  next
    case False
    then have "hd (ts @ [now]) = hd ts" "last ts \<le> now" using snoc.prems(4) by (auto simp: sorted_append)
    with snoc.IH snoc.prems so False show ?thesis by auto
  qed
  then obtain l where l: "l \<le> now" "tq_hold_since ?t \<le> Fin l" by blast
  have "settling x (length (ts @ [now])) ?t'" using push_settling(1) [of x "length ts" ?t "Fin now"] IH by (simp add: step)
  moreover note push_hold_le [OF l(2,1) pos, of x]
  moreover have "at_level x ?t' \<or> 0 < tq_hold_since ?t' \<and> tq_hold_since ?t' \<le> Fin ((ts @ [now]) ! 11) \<and>
       ((ts @ [now]) ! 11 + h \<le> now \<longrightarrow> h \<le> 0)" if "12 \<le> length (ts @ [now])"
  proof (cases "length ts = 11")
    case True
    then have "(ts @ [now]) ! 11 = now" by (simp add: nth_append)
    moreover have "tq_hold_since ?t \<le> Fin now" using l by (cases "tq_hold_since ?t") auto
    ultimately show ?thesis using push_level(1) [OF conjunct1 [OF IH] _ l(2,1) pos] True by (auto simp: step)
  next
    case False
    with that have n: "12 \<le> length ts" "(ts @ [now]) ! 11 = ts ! 11" by (simp_all add: nth_append)
    from n IH consider "tq_out_c ?t = Fin x" | "0 < tq_hold_since ?t" "tq_hold_since ?t \<le> Fin (ts ! 11)"
      by (auto simp: at_level_def)
    then show ?thesis
    proof cases
      case 1
      with push_level(2) [OF conjunct1 [OF IH] _ l(2,1) pos] n show ?thesis by (simp add: step)
    next
      case 2
      then obtain u where u: "tq_hold_since ?t = Fin u" "u \<le> ts ! 11" by (cases "tq_hold_since ?t") auto
      from push_level(1) [OF conjunct1 [OF IH] _ l(2,1) pos] n 2 u IH show ?thesis
        by (auto simp: step held_def)
    qed
  qed
  ultimately show ?case using IH by (simp add: step)
qed simp

text \<open>C18. A level that lasts is believed.  Once a probe reads the same temperature, whatever was in the filter
  before, the reported value is that temperature and steady at every push that comes at least the hold time after
  the twelfth.\<close>

theorem lasting_level_believed:
  assumes "tq_len t \<noteq> 0" "length (tq_med t) = 5" "length (tq_q t) = 10" "NaN \<notin> set (tq_med t)"
    and "tq_hold_s t = Fin h" "0 < h" "tq_hold_since t \<le> Fin (hd ts)" "0 < hd ts" "sorted ts"
    and "12 \<le> length ts" "ts ! 11 + h \<le> last ts"
  shows "tq_out_c (tempq_after t (level_pushes x ts)) = Fin x \<and> \<not> tq_unstable (tempq_after t (level_pushes x ts))"
proof -
  have "settling x 0 t" using assms(1-4) by (simp add: settling_def full_of_def)
  moreover have "ts \<noteq> []" using assms(10) by auto
  ultimately show ?thesis
    using level_run [of x t ts h] assms(5-11) by (auto simp: at_level_def)
qed

theorem lasting_level_believed_witness:
  "let t = tempq_after (pf_tempq_limits 3 5 pf_tempq_init) [(100, 1)];
       t' = tempq_after t (level_pushes 300 [2, 3, 4, 5, 6, 7, 8, 9, 10, 11, 12, 13, 18])
   in tq_out_c t' = Fin 300 \<and> \<not> tq_unstable t'"
  unfolding Let_def
  by (rule lasting_level_believed [where h = 5])
    (simp_all add: tempq_after_def pf_tempq_push_def gate_def prefill_def pf_tempq_limits_def pf_tempq_init_def
      PF_TEMPQ_MED_def PF_TEMPQ_LEN_def numeral_eq_Suc)

end
