(* ===== verification/Drivers_Correct.thy ===== *)
theory Drivers_Correct
  imports Wired_Probes Wireless_Probes Tempq
begin

unbundle bit_operations_syntax

text \<open>
  What the drivers of the probes promise: a fault of the RTD converter is cleared without losing its wiring, a
  thermometer's reading is one it can have measured and is recent, a Chef iQ packet is read as it was sent and an
  old one is not reported.
\<close>

section \<open>The RTD converter\<close>

text \<open>An SPI bus that keeps what was sent, newest first, and answers each transfer as it likes.\<close>

definition logging_bus :: "(octet list list \<Rightarrow> octet list option) \<Rightarrow> octet list list probe_bus" where
  "logging_bus answer = \<lparr>b_open = (\<lambda>w p. (w, 3)), b_i2c_write = (\<lambda>w fd a d. (w, False)), b_i2c_read = (\<lambda>w fd a d n. (w, None)),
     b_spi = (\<lambda>w fd tx. (tx # w, answer (tx # w))), b_sleep = (\<lambda>w ms. w), b_now = (\<lambda>w. 0)\<rparr>"

fun max_reads :: "nat \<Rightarrow> 'w probe_bus \<Rightarrow> max_t \<Rightarrow> 'w \<Rightarrow> 'w \<times> max_t" where
  "max_reads 0 b s w = (w, s)"
| "max_reads (Suc n) b s w = (case max_read b s [\<lparr>sa_kind = SAMPLE_INVALID, sa_value = 0\<rparr>] w of (w, s, _) \<Rightarrow> max_reads n b s w)"

text \<open>A transfer to the configuration register keeps the bits that were set up.\<close>

definition keeps_cfg :: "octet \<Rightarrow> octet list \<Rightarrow> bool" where
  "keeps_cfg cfg tx \<longleftrightarrow> (case tx of r # v # _ \<Rightarrow> r = 0x80 \<longrightarrow> v AND cfg = cfg | _ \<Rightarrow> True)"

lemma logging_bus_simps [simp]:
  "b_open (logging_bus f) w p = (w, 3)" "b_sleep (logging_bus f) w ms = w"
  by (simp_all add: logging_bus_def)

lemma spi_log: "fst (pf_spi_xfer (logging_bus f) w fd tx) = tx # w"
  by (auto simp: pf_spi_xfer_def logging_bus_def split: option.splits)

lemma reg_read_log: "fst (max_reg_read (logging_bus f) s reg n w) = (reg # replicate (min n 7) 0) # w"
proof -
  have "fst (case p of (w, Some rx) \<Rightarrow> (w, Some (tl rx)) | (w, None) \<Rightarrow> (w, None)) = fst p" for p :: "octet list list \<times> octet list option"
    by (cases p; cases "snd p") auto
  then show ?thesis unfolding max_reg_read_def by (simp add: spi_log)
qed

lemma reg_write_log: "max_reg_write (logging_bus f) s reg val w = [reg OR 0x80, val] # w"
  by (simp add: max_reg_write_def spi_log)

lemma or_keeps: "(cfg OR x) AND cfg = (cfg :: octet)"
  by (rule bit_word_eqI) (auto simp: bit_simps)

lemma clear_fault_log:
  "\<exists>s'. max_clear_fault (logging_bus f) s w = ([0x80, max_cfg s OR 2] # [7, 0] # w, s') \<and> max_cfg s' = max_cfg s"
proof -
  obtain r where "max_reg_read (logging_bus f) s 7 1 w = ([7, 0] # w, r)"
    using reg_read_log [of f s 7 1 w] by (cases "max_reg_read (logging_bus f) s 7 1 w") auto
  then show ?thesis by (simp add: max_clear_fault_def Let_def reg_write_log)
qed

lemma max_read_log:
  "\<exists>txs s' out rc. max_read (logging_bus f) s [x] w = (txs @ w, s', out, rc) \<and> max_cfg s' = max_cfg s \<and>
     (\<forall>tx \<in> set txs. keeps_cfg (max_cfg s) tx)"
proof -
  obtain r where rd: "max_reg_read (logging_bus f) s 1 2 w = ([1, 0, 0] # w, r)"
    using reg_read_log [of f s 1 2 w] by (cases "max_reg_read (logging_bus f) s 1 2 w") (auto simp: numeral_eq_Suc)
  show ?thesis
  proof (cases r)
    case None
    then show ?thesis
      by (intro exI [of _ "[[1, 0, 0]]"]) (simp add: max_read_def rd keeps_cfg_def)
  next
    case (Some bs)
    from clear_fault_log [of f "s\<lparr>max_errors := 0\<rparr>" "[1, 0, 0] # w"] obtain s' where
      s': "max_clear_fault (logging_bus f) (s\<lparr>max_errors := 0\<rparr>) ([1, 0, 0] # w) =
        ([0x80, max_cfg s OR 2] # [7, 0] # [1, 0, 0] # w, s')" "max_cfg s' = max_cfg s" by auto
    show ?thesis
    proof (cases "(bs ! 1) AND 1 = 0")
      case True
      with Some show ?thesis
        by (intro exI [of _ "[[1, 0, 0]]"]) (simp add: max_read_def rd Let_def keeps_cfg_def)
    next
      case False
      with Some s' show ?thesis
        by (intro exI [of _ "[[0x80, max_cfg s OR 2], [7, 0], [1, 0, 0]]"])
          (simp add: max_read_def rd Let_def keeps_cfg_def or_keeps)
    qed
  qed
qed

lemma max_reads_log:
  "\<exists>txs s'. max_reads n (logging_bus f) s w = (txs @ w, s') \<and> (\<forall>tx \<in> set txs. keeps_cfg (max_cfg s) tx)"
proof (induction n arbitrary: s w)
  case (Suc n)
  obtain txs s' out rc where one: "max_read (logging_bus f) s [\<lparr>sa_kind = SAMPLE_INVALID, sa_value = 0\<rparr>] w = (txs @ w, s', out, rc)"
    "max_cfg s' = max_cfg s" "\<forall>tx \<in> set txs. keeps_cfg (max_cfg s) tx"
    using max_read_log by metis
  obtain txs2 s2 where rest: "max_reads n (logging_bus f) s' (txs @ w) = (txs2 @ txs @ w, s2)"
    "\<forall>tx \<in> set txs2. keeps_cfg (max_cfg s') tx" using Suc.IH by metis
  with one show ?case by (intro exI [of _ "txs2 @ txs"] exI [of _ s2]) auto
qed simp

text \<open>A fault of a three-wire probe is cleared without losing its wiring: whatever the converter answers, every
  write to its configuration from the start on keeps the bias, the automatic conversion and the third wire.\<close>

theorem fault_clear_keeps_wires:
  assumes "pf_json_int (Some d) ''config.wires'' 2 = 3" "max_create (logging_bus f) d [] = (w, Some s)"
    and "max_reads n (logging_bus f) s w = (w', s')" "[0x80, v] \<in> set w'"
  shows "v AND 0xD0 = 0xD0"
proof -
  have cfg: "max_cfg s = 0xD0" and w: "w = [[0x80, 0xD2]]"
    using assms(1,2) by (auto simp: max_create_def Let_def reg_write_log)
  from max_reads_log [of n f s w] assms(3) obtain txs where "w' = txs @ w" "\<forall>tx \<in> set txs. keeps_cfg (max_cfg s) tx" by auto
  then have "keeps_cfg 0xD0 [0x80, v]" using assms(4) w cfg by (auto simp: keeps_cfg_def)
  then show ?thesis by (simp add: keeps_cfg_def)
qed

definition three_wires :: json where "three_wires = JObj [(''config'', JObj [(''wires'', JNum 3)])]"

theorem fault_clear_keeps_wires_witness:
  "\<exists>v. [0x80, v] \<in> set (fst (max_reads 1 (logging_bus (\<lambda>w. Some (replicate (length (hd w)) 1)))
       \<lparr>max_fd = 3, max_ref_resistor = 4300, max_errors = 0, max_cfg = 0xD0, max_fault = 0\<rparr> [[0x80, 0xD2]])) \<and> v AND 0xD0 = 0xD0"
proof -
  let ?b = "logging_bus (\<lambda>w. Some (replicate (length (hd w)) 1))"
  let ?s = "\<lparr>max_fd = 3, max_ref_resistor = 4300, max_errors = 0, max_cfg = 0xD0, max_fault = 0\<rparr>"
  obtain txs s' where r: "max_reads 1 ?b ?s [[0x80, 0xD2]] = (txs @ [[0x80, 0xD2]], s')" using max_reads_log by metis
  have wires: "pf_json_int (Some three_wires) ''config.wires'' 2 = 3" by code_simp
  have "pf_json_num (Some three_wires) ''config.ref_resistor'' 4300 = 4300" by code_simp
  then have "max_create ?b three_wires [] = ([[0x80, 0xD2]], Some ?s)"
    using wires by (simp add: max_create_def Let_def reg_write_log)
  from fault_clear_keeps_wires [OF wires this r, of "0xD2"] show ?thesis
    unfolding r by (intro exI [of _ "0xD2"]) simp
qed

section \<open>The thermometer on its own bus\<close>

type_synonym ds_event = "string list option \<times> (string \<Rightarrow> string option) \<times> fl"

definition ds_rounds :: "ds_event list \<Rightarrow> ds_t \<Rightarrow> ds_t" where
  "ds_rounds es s = foldl (\<lambda>s (names, src, now). ds_round names src now s) s es"

definition ds_inv :: "ds_event list \<Rightarrow> ds_t \<Rightarrow> bool" where
  "ds_inv es s \<longleftrightarrow> (ds_valid s \<longrightarrow> ds_found s \<noteq> [] \<and> ds_good (ds_temp_c s) \<and>
     (\<exists>names src path. (names, src, ds_last_ok s) \<in> set es \<and> ds_value (src path) = ds_temp_c s))"

lemma find_device_frame:
  assumes "find_device names s = (s', found)"
  shows "ds_valid s' = ds_valid s \<and> ds_temp_c s' = ds_temp_c s \<and> ds_last_ok s' = ds_last_ok s \<and> (found \<longrightarrow> ds_found s' \<noteq> [])"
proof (cases "\<exists>ns n rest. names = Some ns \<and> filter (\<lambda>n. take 3 n = ''28-'' \<and> (ds_id s = [] \<or> ds_id s = n)) ns = n # rest")
  case True
  then obtain ns n rest where ns: "names = Some ns" "filter (\<lambda>n. take 3 n = ''28-'' \<and> (ds_id s = [] \<or> ds_id s = n)) ns = n # rest"
    by blast
  then have "n \<in> set (filter (\<lambda>n. take 3 n = ''28-'' \<and> (ds_id s = [] \<or> ds_id s = n)) ns)" by simp
  then have "n \<noteq> []" by auto
  then have "fst (pf_strlcpy [] n 32) \<noteq> []" by (cases n) (auto simp: pf_strlcpy_def Let_def)
  with ns assms show ?thesis by (auto simp: find_device_def)
next
  case False
  with assms show ?thesis by (auto simp: find_device_def split: option.splits list.splits)
qed

lemma ds_take_inv:
  assumes "ds_inv es s" "ds_found s \<noteq> []"
  shows "ds_inv (es @ [(names, src, now)]) (ds_take (src path) now s)"
proof (cases "ds_good (ds_value (src path))")
  case True
  then have "ds_take (src path) now s = s\<lparr>ds_temp_c := ds_value (src path), ds_valid := True, ds_last_ok := now\<rparr>"
    by (simp add: ds_take_def Let_def)
  with True assms(2) show ?thesis unfolding ds_inv_def by auto
next
  case False
  with assms show ?thesis by (auto simp: ds_take_def Let_def ds_inv_def)
qed

lemma ds_take_recent: "ds_valid (ds_take txt (Fin now) s) \<Longrightarrow> \<not> 10 < Fin now - ds_last_ok (ds_take txt (Fin now) s)"
  by (auto simp: ds_take_def Let_def split: if_splits)

lemma ds_round_inv:
  assumes "ds_inv es s"
  shows "ds_inv (es @ [(names, src, now)]) (ds_round names src now s)"
    and "now = Fin r \<Longrightarrow> ds_valid (ds_round names src now s) \<Longrightarrow> \<not> 10 < now - ds_last_ok (ds_round names src now s)"
proof -
  obtain s' found where fd: "(if ds_found s \<noteq> [] then (s, True) else find_device names s) = (s', found)" by force
  then have s': "ds_inv es s'" "found \<longrightarrow> ds_found s' \<noteq> []" "\<not> found \<longrightarrow> \<not> ds_valid s'"
    using assms find_device_frame [of names s s' found] by (auto simp: ds_inv_def split: if_splits)
  define P where "P = ''/sys/bus/w1/devices/'' @ ds_found s' @ ''/temperature''"
  have rd: "ds_round names src now s = (if found then ds_take (src P) now s' else s')"
    unfolding ds_round_def fd P_def by simp
  have "ds_inv (es @ [(names, src, now)]) s'" if "\<not> found" using s'(3) that by (simp add: ds_inv_def)
  then show "ds_inv (es @ [(names, src, now)]) (ds_round names src now s)"
    unfolding rd using ds_take_inv [OF s'(1)] s'(2) by simp
  show "\<not> 10 < now - ds_last_ok (ds_round names src now s)" if "now = Fin r" "ds_valid (ds_round names src now s)"
    using that(2) s'(3) ds_take_recent [of "src P" r s'] unfolding rd that(1) [symmetric]
    by (cases found) simp_all
qed

lemma ds_rounds_inv: "ds_inv es (ds_rounds es (ds_create d))"
proof (induction es rule: rev_induct)
  case Nil
  show ?case by (simp add: ds_rounds_def ds_inv_def ds_create_def)
next
  case (snoc e es)
  obtain names src now where "e = (names, src, now)" by (cases e) auto
  with ds_round_inv(1) [OF snoc] show ?case by (simp add: ds_rounds_def)
qed

text \<open>What the one-wire thermometer reports is a temperature it can have measured, and recent: after any rounds of
  its thread, a reading lies strictly between -55 and 125 degrees, is not the 85 of a fresh start, and was read from
  the kernel at most ten seconds before the last round.\<close>

theorem thermometer_recent:
  assumes "s = ds_rounds (es @ [(names, src, Fin now)]) (ds_create d)" "ds_read s [x] = ([y], rc)" "sa_kind x \<noteq> SAMPLE_CELSIUS"
    and "sa_kind y = SAMPLE_CELSIUS"
  shows "lies_in (- 55) 125 (sa_value y) \<and> sa_value y \<noteq> 85 \<and>
    (\<exists>ns f path t. (ns, f, t) \<in> set (es @ [(names, src, Fin now)]) \<and> ds_value (f path) = sa_value y \<and> \<not> 10 < Fin now - t)"
proof -
  let ?es = "es @ [(names, src, Fin now)]" and ?s0 = "ds_rounds es (ds_create d)"
  have s: "s = ds_round names src (Fin now) ?s0" using assms(1) by (simp add: ds_rounds_def)
  have v: "ds_valid s" "sa_value y = ds_temp_c s"
    using assms(2-4) by (auto simp: ds_read_def put_first_def invalid_first_def celsius_def split: if_splits)
  from ds_round_inv(1) [OF ds_rounds_inv, of es names src "Fin now" d] s have inv: "ds_inv ?es s" by simp
  from ds_round_inv(2) [OF ds_rounds_inv refl, of names src now es d] s v have "\<not> 10 < Fin now - ds_last_ok s" by metis
  moreover from inv v obtain ns f path where
    e: "(ns, f, ds_last_ok s) \<in> set ?es" "ds_value (f path) = ds_temp_c s" "ds_good (ds_temp_c s)" by (auto simp: ds_inv_def)
  moreover have "lies_in (- 55) 125 (ds_temp_c s) \<and> ds_temp_c s \<noteq> 85"
    using e(3) by (cases "ds_temp_c s") (auto simp: ds_good_def)
  ultimately show ?thesis unfolding v(2) by blast
qed

definition warm_text :: "string \<Rightarrow> string option" where "warm_text path = Some ''21500''"

theorem thermometer_recent_witness:
  "\<exists>y. fst (ds_read (ds_rounds ([] @ [(Some [''28-1''], warm_text, Fin 3)]) (ds_create (JObj [])))
              [\<lparr>sa_kind = SAMPLE_INVALID, sa_value = 0\<rparr>]) = [y] \<and> lies_in (- 55) 125 (sa_value y) \<and> sa_value y \<noteq> 85 \<and>
    (\<exists>ns f path t. (ns, f, t) \<in> set ([] @ [(Some [''28-1''], warm_text, Fin 3)]) \<and> ds_value (f path) = sa_value y \<and> \<not> 10 < Fin 3 - t)"
proof -
  let ?s = "ds_rounds ([] @ [(Some [''28-1''], warm_text, Fin 3)]) (ds_create (JObj []))"
  have s: "?s = \<lparr>ds_id = [], ds_found = ''28-1'', ds_temp_c = Fin (43 / 2), ds_valid = True, ds_last_ok = Fin 3\<rparr>"
    by (simp add: ds_rounds_def ds_round_def ds_create_def find_device_def pf_strlcpy_def Let_def warm_text_def ds_take_def
        ds_value_def ds_good_def strtod_def take_sign_def is_space_def has_prefix_ci_def strcase_eq_def tolower_char_def
        digit_val_def strtod_exp_def pow10_def pf_json_str_def pf_json_path_def path_toks_def j_step_def)
  have r: "ds_read ?s [\<lparr>sa_kind = SAMPLE_INVALID, sa_value = 0\<rparr>] = ([celsius (Fin (43 / 2))], 0)"
    unfolding s by (simp add: ds_read_def put_first_def)
  from thermometer_recent [OF refl r] show ?thesis unfolding r by (simp add: celsius_def)
qed

section \<open>Chef iQ\<close>

definition le_bytes :: "int \<Rightarrow> octet list" where "le_bytes v = [word_of_int v, word_of_int (v div 256)]"

lemma les16_le_bytes: "- 32768 \<le> v \<Longrightarrow> v < 32768 \<Longrightarrow> les16 (word_of_int v) (word_of_int (v div 256)) = v"
proof -
  assume v: "- 32768 \<le> v" "v < 32768"
  have parts: "uint (word_of_int v :: octet) + 256 * uint (word_of_int (v div 256) :: octet) = v mod 65536"
    using zmod_zmult2_eq [of 256 v 256] by (simp add: uint_word_of_int)
  show ?thesis
  proof (cases "v < 0")
    case True
    have "v mod 65536 = (v + 65536) mod 65536" by simp
    also have "\<dots> = v + 65536" using v True by (intro mod_pos_pos_trivial) simp_all
    finally show ?thesis unfolding les16_def le16_def parts using v by (simp add: Let_def)
  next
    case False
    then have "v mod 65536 = v" using v by (intro mod_pos_pos_trivial) simp_all
    then show ?thesis unfolding les16_def le16_def parts using v False by (simp add: Let_def)
  qed
qed

text \<open>A temperature packet as the probes of the third protocol send it.\<close>

definition v3_packet :: "int \<Rightarrow> int \<Rightarrow> int \<Rightarrow> int \<Rightarrow> int list \<Rightarrow> octet list" where
  "v3_packet patch version amb food tips =
     [word_of_int (16 * patch + 1), word_of_int (16 * version)] @ le_bytes amb @ le_bytes food @ concat (map le_bytes tips)"

lemma low_nibble: "uint (x AND 0x0F :: octet) = uint x mod 16"
proof -
  have "x AND 0x0F = take_bit 4 x" by (simp add: take_bit_eq_mask mask_eq_exp_minus_1)
  then have "uint (x AND 0x0F) = uint (take_bit 4 x)" by (simp only:)
  also have "\<dots> = uint x mod 16" by (simp only: unsigned_take_bit_eq) (simp add: take_bit_eq_mod)
  finally show ?thesis .
qed

lemma high_nibble: "uint (drop_bit 4 x :: octet) = uint x div 16"
  by (simp add: drop_bit_eq_div uint_div_distrib)

lemma byte_of: "0 \<le> v \<Longrightarrow> v < 256 \<Longrightarrow> uint (word_of_int v :: octet) = v"
  by (simp add: uint_word_of_int)

lemma tenths_of:
  assumes "- 400 \<le> v" "v \<le> 6000"
  shows "s16_tenths (word_of_int v) (word_of_int (v div 256)) = Fin (real_of_int v / 10)"
proof -
  have "les16 (word_of_int v) (word_of_int (v div 256)) = v" using assms by (intro les16_le_bytes) simp_all
  with assms show ?thesis by (simp add: s16_tenths_def Let_def int_to_fl_def)
qed

text \<open>A Chef iQ packet is read as it was sent: for every version of the third protocol or later, the food and
  ambient temperatures and the four tips come back as the tenths of a degree that the probe put in, over the whole
  range that a reading may have.\<close>

theorem chefiq_reads_back:
  assumes "0 \<le> patch" "patch < 16" "3 \<le> version" "version < 16" "length tips = 4" "\<forall>v \<in> set (amb # food # tips). - 400 \<le> v \<and> v \<le> 6000"
  shows "\<exists>r. pf_chefiq_parse (v3_packet patch version amb food tips) = (r, 0) \<and> cr_has_temps r \<and> cr_ver_major r = version \<and>
    cr_food_c r = Fin (food / 10) \<and> cr_ambient_c r = Fin (amb / 10) \<and> cr_tip_c r = map (\<lambda>v. Fin (real_of_int v / 10)) tips \<and> cr_ntips r = 4"
proof -
  from assms(5) obtain a b c d where tips: "tips = [a, b, c, d]"
    by (auto simp: length_Suc_conv numeral_eq_Suc)
  define M where "M = v3_packet patch version amb food tips"
  have msg: "M = [word_of_int (16 * patch + 1), word_of_int (16 * version), word_of_int amb, word_of_int (amb div 256),
      word_of_int food, word_of_int (food div 256), word_of_int a, word_of_int (a div 256), word_of_int b, word_of_int (b div 256),
      word_of_int c, word_of_int (c div 256), word_of_int d, word_of_int (d div 256)]"
    by (simp add: M_def v3_packet_def le_bytes_def tips)
  have heads: "uint (word_of_int (16 * patch + 1) :: octet) = 16 * patch + 1" "uint (word_of_int (16 * version) :: octet) = 16 * version"
    by (rule byte_of; use assms(1-4) in simp)+
  have "uint (M ! 0) = 16 * patch + 1" "uint (M ! 1) = 16 * version"
    unfolding msg by (simp_all only: nth_Cons_0 nth_Cons_Suc One_nat_def heads)
  then have pt: "cr_packet_type (chefiq_head M) = 1" and ver: "cr_ver_major (chefiq_head M) = version"
    by (simp_all add: chefiq_head_def low_nibble high_nibble)
  have len: "length M = 14" unfolding msg by simp
  have parse: "pf_chefiq_parse M = (chefiq_temps M 2 4 6 4 (chefiq_head M), 0)"
    using assms(3) by (simp add: pf_chefiq_parse_def len MAX_PROBE_PAYLOAD_def Let_def pt ver)
  have "tenths_at M 2 = Fin (amb / 10)" "tenths_at M 4 = Fin (food / 10)" "tenths_at M 6 = Fin (a / 10)"
    "tenths_at M 8 = Fin (b / 10)" "tenths_at M 10 = Fin (c / 10)" "tenths_at M 12 = Fin (d / 10)"
    using assms(6) unfolding tips by (simp_all add: tenths_at_def len) (simp_all add: msg tenths_of)
  then show ?thesis
    using ver unfolding M_def [symmetric] by (simp add: parse chefiq_temps_def tips_at_def len tips upt_rec numeral_eq_Suc Let_def)
qed

theorem chefiq_reads_back_witness:
  "\<exists>r. pf_chefiq_parse (v3_packet 0 5 1072 (- 35) [551, 552, 553, 554]) = (r, 0) \<and> cr_has_temps r \<and> cr_ver_major r = 5 \<and>
    cr_food_c r = Fin (of_int (- 35) / 10) \<and> cr_ambient_c r = Fin (of_int 1072 / 10) \<and>
    cr_tip_c r = map (\<lambda>v. Fin (real_of_int v / 10)) [551, 552, 553, 554] \<and> cr_ntips r = 4"
  by (rule chefiq_reads_back) simp_all

text \<open>What reaches the driver: a packet at a time, or the end of the advertisements.\<close>

datatype cq_event = Packet "octet list" fl | Gone

definition cq_step :: "cq_t \<Rightarrow> cq_event \<Rightarrow> cq_t" where
  "cq_step s e = (case e of Packet msg now \<Rightarrow> cq_on_value msg now s | Gone \<Rightarrow> cq_on_disconnected s)"

lemma s16_tenths_range: "s16_tenths l h = NaN \<or> lies_in (- 40) 600 (s16_tenths l h)"
  by (auto simp: s16_tenths_def Let_def int_to_fl_def)

lemma tenths_at_range: "tenths_at msg i = NaN \<or> lies_in (- 40) 600 (tenths_at msg i)"
  using s16_tenths_range by (auto simp: tenths_at_def)

lemma parse_food_range:
  "cr_food_c (fst (pf_chefiq_parse msg)) = NaN \<or> lies_in (- 40) 600 (cr_food_c (fst (pf_chefiq_parse msg)))"
  "cr_ambient_c (fst (pf_chefiq_parse msg)) = NaN \<or> lies_in (- 40) 600 (cr_ambient_c (fst (pf_chefiq_parse msg)))"
proof -
  have frame: "cr_food_c (tips_at msg t n r) = cr_food_c r" "cr_ambient_c (tips_at msg t n r) = cr_ambient_c r"
    "cr_food_c (battery_at msg i r) = cr_food_c r" "cr_ambient_c (battery_at msg i r) = cr_ambient_c r"
    "cr_food_c (chefiq_head msg) = NaN" "cr_ambient_c (chefiq_head msg) = NaN" for t n i r
    by (simp_all add: tips_at_def battery_at_def chefiq_head_def no_chefiq_def Let_def)
  show "cr_food_c (fst (pf_chefiq_parse msg)) = NaN \<or> lies_in (- 40) 600 (cr_food_c (fst (pf_chefiq_parse msg)))"
    "cr_ambient_c (fst (pf_chefiq_parse msg)) = NaN \<or> lies_in (- 40) 600 (cr_ambient_c (fst (pf_chefiq_parse msg)))"
    using tenths_at_range [of msg] by (auto simp: pf_chefiq_parse_def Let_def chefiq_temps_def frame no_chefiq_def)
qed

definition cq_inv :: "cq_event list \<Rightarrow> cq_t \<Rightarrow> bool" where
  "cq_inv es s \<longleftrightarrow> (cq_valid s \<longrightarrow> lies_in (- 40) 600 (cq_food_c s) \<and>
     (\<exists>msg. Packet msg (cq_last_update s) \<in> set es \<and> cr_food_c (fst (pf_chefiq_parse msg)) = cq_food_c s))"

lemma cq_step_inv:
  assumes "cq_inv es s"
  shows "cq_inv (es @ [e]) (cq_step s e)"
proof (cases e)
  case Gone
  then show ?thesis by (simp add: cq_step_def cq_on_disconnected_def cq_inv_def)
next
  case (Packet msg now)
  obtain r rc where p: "pf_chefiq_parse msg = (r, rc)" by force
  have "cr_food_c r = NaN \<or> lies_in (- 40) 600 (cr_food_c r)" using parse_food_range(1) [of msg] p by simp
  with assms show ?thesis
    unfolding cq_step_def Packet cq_event.case cq_on_value_def p prod.case Let_def cq_inv_def
    using p by (auto split: if_splits)
qed

lemma cq_run_inv: "cq_inv es (foldl cq_step cq_create es)"
proof (induction es rule: rev_induct)
  case Nil
  show ?case by (simp add: cq_inv_def cq_create_def)
qed (simp add: cq_step_inv)

text \<open>C30. An old reading of the meat is not reported: whatever packets came and whenever the probe fell silent, a food
  temperature that the driver reports lies between -40 and 600 degrees and was in a packet received less than 45
  seconds before.\<close>

theorem chefiq_food_is_recent:
  assumes "cq_read now (foldl cq_step cq_create es) [x, y] = ([x', y'], rc)" "sa_kind x' = SAMPLE_CELSIUS"
  shows "lies_in (- 40) 600 (sa_value x') \<and>
    (\<exists>msg t. Packet msg t \<in> set es \<and> now - t < 45 \<and> cr_food_c (fst (pf_chefiq_parse msg)) = sa_value x')"
proof -
  let ?s = "foldl cq_step cq_create es"
  from assms have "cq_valid ?s" "now - cq_last_update ?s < 45" "sa_value x' = cq_food_c ?s"
    by (auto simp: cq_read_def Let_def cq_fresh_def sample_if_def split: if_splits)
  with cq_run_inv [of es] show ?thesis unfolding cq_inv_def by metis
qed

definition warm_packet :: "octet list" where "warm_packet = v3_packet 0 5 1072 551 [551, 552, 553, 554]"

theorem chefiq_food_is_recent_witness:
  "\<exists>x'. fst (cq_read 40 (foldl cq_step cq_create [Packet warm_packet 2])
          [\<lparr>sa_kind = SAMPLE_INVALID, sa_value = 0\<rparr>, \<lparr>sa_kind = SAMPLE_INVALID, sa_value = 0\<rparr>]) ! 0 = x' \<and>
    lies_in (- 40) 600 (sa_value x') \<and> (\<exists>msg t. Packet msg t \<in> set [Packet warm_packet 2] \<and> 40 - t < 45 \<and>
      cr_food_c (fst (pf_chefiq_parse msg)) = sa_value x')"
proof -
  have p: "pf_chefiq_parse warm_packet = (\<lparr>cr_has_temps = True, cr_food_c = Fin (551 / 10), cr_ambient_c = Fin (1072 / 10),
      cr_tip_c = [Fin (551 / 10), Fin (552 / 10), Fin (553 / 10), Fin (554 / 10)], cr_ntips = 4, cr_has_battery = False,
      cr_battery_pct = 0, cr_soc_c = 0, cr_packet_type = 1, cr_ver_major = 5, cr_ver_minor = 0, cr_ver_patch = 0\<rparr>, 0)"
    by code_simp
  have s: "foldl cq_step cq_create [Packet warm_packet 2] =
      \<lparr>cq_food_c = Fin (551 / 10), cq_ambient_c = Fin (1072 / 10), cq_valid = True, cq_battery = - 1, cq_last_update = 2\<rparr>"
    by (simp add: cq_step_def cq_on_value_def p Let_def cq_create_def)
  have r: "cq_read 40 (foldl cq_step cq_create [Packet warm_packet 2])
      [\<lparr>sa_kind = SAMPLE_INVALID, sa_value = 0\<rparr>, \<lparr>sa_kind = SAMPLE_INVALID, sa_value = 0\<rparr>] =
      ([\<lparr>sa_kind = SAMPLE_CELSIUS, sa_value = Fin (551 / 10)\<rparr>, \<lparr>sa_kind = SAMPLE_CELSIUS, sa_value = Fin (1072 / 10)\<rparr>], 0)"
    unfolding s by (simp add: cq_read_def Let_def cq_fresh_def sample_if_def)
  from chefiq_food_is_recent [OF r] show ?thesis unfolding r by simp
qed

text \<open>The ambient sensor has no such rule: it is reported as it last was, as long as the food sensor goes on.\<close>

lemma stale_ambient_reported:
  "cq_read 1000 (foldl cq_step cq_create [Packet warm_packet 2, Packet (v3_packet 0 5 32767 551 [551, 552, 553, 554]) 990])
     [\<lparr>sa_kind = SAMPLE_INVALID, sa_value = 0\<rparr>, \<lparr>sa_kind = SAMPLE_INVALID, sa_value = 0\<rparr>] =
   ([\<lparr>sa_kind = SAMPLE_CELSIUS, sa_value = Fin (551 / 10)\<rparr>, \<lparr>sa_kind = SAMPLE_CELSIUS, sa_value = Fin (1072 / 10)\<rparr>], 0)"
  by code_simp

end
