(* ===== verification/Env.thy ===== *)
theory Env
  imports Util Json
begin

text \<open>
  \<open>src/core/env.c\<close>: the services that every plugin is handed, with a namespace of its own for what it stores.  The
  names live in a table of sixteen, and an environment is its place in that table.
\<close>

record env_table =
  et_names :: "string list"
  et_used :: nat

definition no_envs :: env_table where "no_envs = \<lparr>et_names = replicate 16 [], et_used = 0\<rparr>"

definition pf_env_init :: "string \<Rightarrow> env_table \<Rightarrow> env_table \<times> nat" where
  "pf_env_init ns t =
     (let slot = (if et_used t < 16 then et_used t else 15)
      in (\<lparr>et_names = (et_names t)[slot := fst (pf_strlcpy [] ns 64)],
           et_used = if et_used t < 16 then et_used t + 1 else et_used t\<rparr>, slot))"

definition env_ns :: "env_table \<Rightarrow> nat \<Rightarrow> string" where "env_ns t slot = et_names t ! slot"

type_synonym kv_store = "string \<times> string \<Rightarrow> json option"

definition env_kv_get :: "env_table \<Rightarrow> nat \<Rightarrow> string \<Rightarrow> kv_store \<Rightarrow> json option" where
  "env_kv_get t slot key kv = kv (env_ns t slot, key)"

definition env_kv_put :: "env_table \<Rightarrow> nat \<Rightarrow> string \<Rightarrow> json \<Rightarrow> kv_store \<Rightarrow> kv_store" where
  "env_kv_put t slot key v kv = kv((env_ns t slot, key) \<mapsto> v)"

text \<open>The table after environments were made one after the other, and the slot of each.\<close>

definition env_inits :: "string list \<Rightarrow> env_table \<times> nat list" where
  "env_inits nss = foldl (\<lambda>(t, slots) ns. case pf_env_init ns t of (t, s) \<Rightarrow> (t, slots @ [s])) (no_envs, []) nss"

lemma env_inits_snoc:
  "env_inits (nss @ [ns]) = (case env_inits nss of (t, slots) \<Rightarrow> case pf_env_init ns t of (t, s) \<Rightarrow> (t, slots @ [s]))"
  by (simp add: env_inits_def split: prod.splits)

lemma copy_short: "length s < n \<Longrightarrow> fst (pf_strlcpy [] s n) = s"
  by (simp add: pf_strlcpy_whole)

lemma env_inits_shape:
  assumes "\<forall>ns \<in> set nss. length ns < 64"
  shows "length (snd (env_inits nss)) = length nss \<and> length (et_names (fst (env_inits nss))) = 16 \<and>
    et_used (fst (env_inits nss)) = min 16 (length nss) \<and>
    (\<forall>i < length nss. snd (env_inits nss) ! i = min 15 i) \<and>
    (\<forall>i < length nss. et_names (fst (env_inits nss)) ! min 15 i = (if i < 15 then nss ! i else last nss))"
  using assms
proof (induction nss rule: rev_induct)
  case Nil
  show ?case by (simp add: env_inits_def no_envs_def)
next
  case (snoc ns nss)
  obtain t slots where e: "env_inits nss = (t, slots)" by force
  with snoc have ih: "length slots = length nss" "length (et_names t) = 16" "et_used t = min 16 (length nss)"
    "\<forall>i < length nss. slots ! i = min 15 i" "\<forall>i < length nss. et_names t ! min 15 i = (if i < 15 then nss ! i else last nss)"
    by simp_all
  have nm: "fst (pf_strlcpy [] ns 64) = ns" using snoc.prems by (intro copy_short) simp
  have slot: "(if et_used t < 16 then et_used t else 15) = min 15 (length nss)" using ih(3) by auto
  show ?case
    unfolding env_inits_snoc e prod.case pf_env_init_def Let_def slot nm fst_conv snd_conv
    using ih by (auto simp: nth_append nth_list_update less_Suc_eq min_def split: if_splits)
qed

text \<open>The namespace table runs out without saying so.  The first fifteen environments keep their names for good;
  from the sixteenth on they all share the last place, so the namespace of each is that of whichever was made last,
  and what one of them stores is found under the name of another.\<close>

theorem late_environments_share_a_name:
  assumes "\<forall>ns \<in> set nss. length ns < 64" "i < length nss" "env_inits nss = (t, slots)"
  shows "env_ns t (slots ! i) = (if i < 15 then nss ! i else last nss) \<and>
    (15 \<le> i \<longrightarrow> env_kv_put t (slots ! i) key v kv = kv((last nss, key) \<mapsto> v))"
proof -
  have "env_ns t (slots ! i) = (if i < 15 then nss ! i else last nss)"
    using env_inits_shape [OF assms(1)] assms(2,3) by (simp add: env_ns_def)
  then show ?thesis by (simp add: env_kv_put_def)
qed

definition many_reloads :: "string list" where
  "many_reloads = [''platform'', ''display'', ''distance'', ''probe.adc''] @ replicate 11 ''probe.adc'' @ [''controller.adaptive'', ''probe.adc'']"

theorem late_environments_share_a_name_witness:
  "env_ns (fst (env_inits many_reloads)) (snd (env_inits many_reloads) ! 15) = ''probe.adc'' \<and>
   env_kv_put (fst (env_inits many_reloads)) (snd (env_inits many_reloads) ! 15) ''learned'' JNull Map.empty =
     [(''probe.adc'', ''learned'') \<mapsto> JNull]"
proof -
  have ok: "\<forall>ns \<in> set many_reloads. length ns < 64" "15 < length many_reloads" "last many_reloads = ''probe.adc''"
    by (simp_all add: many_reloads_def)
  show ?thesis
    using late_environments_share_a_name [OF ok(1,2) prod.collapse [symmetric], of "''learned''" JNull Map.empty] ok(3) by simp
qed

end
