(* ===== verification/Thermistor.thy ===== *)
theory Thermistor
  imports Common
begin

text \<open>
  \<open>src/probes/shh.c\<close>: from the voltage of a divider to the resistance of a probe, and between resistance and
  temperature by the Steinhart-Hart equation \<open>1/T = A + B ln R + C (ln R)\<^sup>3\<close>, with the coefficients solved from
  three points.
\<close>

record pf_shh =
  sh_A :: fl
  sh_B :: fl
  sh_C :: fl

definition pf_shh_mv_to_ohms :: "fl \<Rightarrow> fl \<Rightarrow> fl \<Rightarrow> fl" where
  "pf_shh_mv_to_ohms mv Rd Vs =
     (if \<not> 0 < mv \<or> Vs * 1000 * Fin (101 / 100) < mv then - 1
      else let Vo = mv / 1000; denom = Vs - Vo
           in if denom < Fin (2 / 1000) then - 1 else Vo * Rd / denom)"

definition KELVIN :: fl where "KELVIN = Fin (27315 / 100)"

definition pf_shh_ohms_to_c :: "fl \<Rightarrow> pf_shh \<Rightarrow> fl" where
  "pf_shh_ohms_to_c ohms p =
     (if \<not> 0 < ohms then NaN
      else let l = fl_ln ohms; invT = sh_A p + sh_B p * l + sh_C p * l * l * l
           in if invT = 0 then NaN
              else let c = 1 / invT - KELVIN; f = pf_c_to_f c
                   in if f < - 58 \<or> 750 < f then NaN else c)"

definition inv_t :: "fl \<Rightarrow> pf_shh \<Rightarrow> fl" where
  "inv_t L p = sh_A p + sh_B p * L + sh_C p * L * L * L"

text \<open>The cube root of the mathematics library, of either sign.\<close>

fun fl_cbrt :: "fl \<Rightarrow> fl" where
  "fl_cbrt (Fin a) = Fin (root 3 a)"
| "fl_cbrt x = x"

definition closed_form :: "fl \<Rightarrow> pf_shh \<Rightarrow> fl option" where
  "closed_form target p =
     (let x = 1 / (2 * sh_C p) * (sh_A p - target);
          disc = (sh_B p / (3 * sh_C p)) ^ 3 + x * x
      in if 0 \<le> disc
         then let y = fl_sqrt disc; r = fl_exp (fl_cbrt (y - x) - fl_cbrt (y + x))
              in if \<not> isnan r \<and> \<not> isinf r then Some r else None
         else None)"

text \<open>Sixty halvings of the bracket where the sign changes.\<close>

definition bisect_step :: "fl \<Rightarrow> pf_shh \<Rightarrow> fl \<times> fl \<Rightarrow> fl \<times> fl" where
  "bisect_step target p = (\<lambda>(a, b).
     let m = Fin (1 / 2) * (a + b); fm = inv_t m p - target
     in if (0 \<le> fm) = (0 \<le> inv_t a p - target) then (m, b) else (a, m))"

definition bisected :: "fl \<Rightarrow> pf_shh \<Rightarrow> fl \<Rightarrow> fl \<Rightarrow> fl" where
  "bisected target p a b = (case (bisect_step target p ^^ 60) (a, b) of (a, b) \<Rightarrow> fl_exp (Fin (1 / 2) * (a + b)))"

definition crosses :: "fl \<Rightarrow> fl \<Rightarrow> bool" where
  "crosses prev_f f \<longleftrightarrow> prev_f \<le> 0 \<and> 0 \<le> f \<or> 0 \<le> prev_f \<and> f \<le> 0"

text \<open>The walk over \<open>L\<close> in steps of 0.02 up to \<open>log(1e7)\<close>; the first argument is fuel.\<close>

fun scan_root :: "nat \<Rightarrow> fl \<Rightarrow> pf_shh \<Rightarrow> fl \<Rightarrow> fl \<Rightarrow> fl \<Rightarrow> fl" where
  "scan_root 0 target p prev_L prev_f L = NaN"
| "scan_root (Suc n) target p prev_L prev_f L =
     (if L \<le> fl_ln 10000000
      then let f = inv_t L p - target
           in if crosses prev_f f \<and> (0 < sh_B p + 3 * sh_C p * L * L) = (0 < sh_B p)
              then bisected target p prev_L L
              else scan_root n target p L f (L + Fin (2 / 100))
      else NaN)"

definition SCAN_FUEL :: nat where "SCAN_FUEL = 1250"

definition pf_shh_c_to_ohms :: "fl \<Rightarrow> pf_shh \<Rightarrow> fl" where
  "pf_shh_c_to_ohms c p =
     (let target = 1 / (c + KELVIN)
      in if sh_C p = 0 then fl_exp ((target - sh_A p) / sh_B p)
         else case closed_form target p of
                Some r \<Rightarrow> r
              | None \<Rightarrow> scan_root SCAN_FUEL target p 0 (inv_t 0 p - target) (Fin (2 / 100)))"

definition pf_shh_solve :: "fl \<Rightarrow> fl \<Rightarrow> fl \<Rightarrow> fl \<Rightarrow> fl \<Rightarrow> fl \<Rightarrow> pf_shh \<Rightarrow> pf_shh \<times> int" where
  "pf_shh_solve t1 r1 t2 r2 t3 r3 out =
     (if \<not> (0 < r1 \<and> 0 < r2 \<and> 0 < r3) then (out, - 1)
      else let L1 = fl_ln r1; L2 = fl_ln r2; L3 = fl_ln r3;
               Y1 = 1 / (t1 + KELVIN); Y2 = 1 / (t2 + KELVIN); Y3 = 1 / (t3 + KELVIN)
           in if L1 = L2 \<or> L1 = L3 \<or> L2 = L3 then (out, - 1)
              else let g2 = (Y2 - Y1) / (L2 - L1);
                       g3 = (Y3 - Y1) / (L3 - L1);
                       C = (g3 - g2) / (L3 - L2) / (L1 + L2 + L3);
                       B = g2 - C * (L1 * L1 + L1 * L2 + L2 * L2);
                       A = Y1 - (B + L1 * L1 * C) * L1
                   in (\<lparr>sh_A = A, sh_B = B, sh_C = C\<rparr>, if isnan A \<or> isnan B \<or> isnan C then - 1 else 0))"

section \<open>The divider\<close>

lemma mv_to_ohms_between:
  "0 < v \<Longrightarrow> v < Vs \<Longrightarrow> 1 / 500 \<le> Vs - v \<Longrightarrow>
   pf_shh_mv_to_ohms (Fin (1000 * v)) (Fin Rd) (Fin Vs) = Fin (v * Rd / (Vs - v))"
  by (simp add: pf_shh_mv_to_ohms_def)

lemma mv_to_ohms_rail: "1000 * (Vs - 1 / 500) < mv \<Longrightarrow> pf_shh_mv_to_ohms (Fin mv) Rd (Fin Vs) = - 1"
  by (auto simp: pf_shh_mv_to_ohms_def Let_def)

lemma divider_exact:
  assumes "0 < R" "0 < Rd" "1 / 500 \<le> Vs * Rd / (R + Rd)"
  shows "pf_shh_mv_to_ohms (Fin (1000 * (Vs * R / (R + Rd)))) (Fin Rd) (Fin Vs) = Fin R"
proof -
  have Vs: "0 < Vs"
  proof (rule ccontr)
    assume "\<not> 0 < Vs"
    then have "Vs * Rd / (R + Rd) \<le> 0" using assms by (simp add: divide_nonpos_pos mult_nonpos_nonneg)
    with assms(3) have "1 / 500 \<le> (0::real)" by (rule order_trans)
    then show False by simp
  qed
  have split: "Vs - Vs * R / (R + Rd) = Vs * Rd / (R + Rd)" using assms by (simp add: field_simps)
  define v where "v = Vs * R / (R + Rd)"
  have v: "0 < v" "v < Vs" using assms(1,2) Vs by (simp_all add: v_def divide_less_eq)
  have room: "1 / 500 \<le> Vs - v" using assms(3) unfolding v_def split .
  have "Vs * R / S * Rd / (Vs * Rd / S) = R" if "S \<noteq> 0" for S using assms Vs that by simp
  then have "v * Rd / (Vs - v) = R" using assms Vs split by (simp add: v_def)
  with mv_to_ohms_between [OF v room] show ?thesis by (simp flip: v_def)
qed

text \<open>The resistance in the divider is read back exactly from the voltage it makes, as long as two millivolts
  are left under the supply; and a voltage closer to the supply than that, which is what an empty jack shows, is
  never a resistance.\<close>

theorem divider_reads_back:
  assumes "0 < R" "0 < Rd" "1 / 500 \<le> Vs * Rd / (R + Rd)" "1000 * (Vs - 1 / 500) < mv"
  shows "pf_shh_mv_to_ohms (Fin (1000 * (Vs * R / (R + Rd)))) (Fin Rd) (Fin Vs) = Fin R \<and>
         pf_shh_mv_to_ohms (Fin mv) (Fin Rd) (Fin Vs) = - 1"
  using divider_exact [OF assms(1-3)] mv_to_ohms_rail [OF assms(4)] by simp

theorem divider_reads_back_witness:
  "pf_shh_mv_to_ohms (Fin (1000 * (3 * 20000 / (20000 + 10000)))) (Fin 10000) (Fin 3) = Fin 20000 \<and>
   pf_shh_mv_to_ohms (Fin 2999) (Fin 10000) (Fin 3) = - 1"
  by (rule divider_reads_back) simp_all

section \<open>Resistance and temperature\<close>

lemma inv_t_Fin [simp]:
  "inv_t (Fin L) \<lparr>sh_A = Fin A, sh_B = Fin B, sh_C = Fin C\<rparr> = Fin (A + B * L + C * L ^ 3)"
  by (simp add: inv_t_def power3_eq_cube algebra_simps)

lemma ohms_to_c_at:
  assumes "A + B * L + C * L ^ 3 = 1 / (c + 27315 / 100)" "- 50 \<le> c" "c \<le> 3590 / 9"
  shows "pf_shh_ohms_to_c (Fin (exp L)) \<lparr>sh_A = Fin A, sh_B = Fin B, sh_C = Fin C\<rparr> = Fin c"
proof -
  have "A + B * L + C * L * L * L = 1 / (c + 27315 / 100)"
    using assms(1) by (simp add: power3_eq_cube algebra_simps)
  then show ?thesis
    using assms(2,3) by (simp add: pf_shh_ohms_to_c_def Let_def pf_c_to_f_def KELVIN_def)
qed

text \<open>Cardano: the difference of the two cube roots solves the cubic.\<close>

lemma cube_root_cubed: "root 3 a ^ 3 = (a::real)"
  by (rule odd_real_root_pow) simp

lemma cubic_solved:
  fixes x k y :: real
  assumes "y * y = k ^ 3 + x * x"
  shows "(root 3 (y - x) - root 3 (y + x)) ^ 3 = - 2 * x - 3 * k * (root 3 (y - x) - root 3 (y + x))"
proof -
  have "root 3 (y - x) * root 3 (y + x) = root 3 ((y - x) * (y + x))" by (simp add: real_root_mult)
  also have "(y - x) * (y + x) = k ^ 3" using assms by (simp add: algebra_simps)
  also have "root 3 (k ^ 3) = k" by (rule odd_real_root_power_cancel) simp
  finally have uv: "root 3 (y - x) * root 3 (y + x) = k" .
  have "(u - v) ^ 3 = u ^ 3 - v ^ 3 - 3 * (u * v) * (u - v)" for u v :: real
    by (simp add: power3_eq_cube algebra_simps)
  from this [of "root 3 (y - x)" "root 3 (y + x)"] show ?thesis
    by (simp add: cube_root_cubed uv)
qed

lemma closed_form_solves:
  assumes "C \<noteq> 0" "0 \<le> (B / (3 * C)) ^ 3 + (1 / (2 * C) * (A - g)) * (1 / (2 * C) * (A - g))"
  shows "\<exists>L. closed_form (Fin g) \<lparr>sh_A = Fin A, sh_B = Fin B, sh_C = Fin C\<rparr> = Some (Fin (exp L)) \<and>
             A + B * L + C * L ^ 3 = g"
proof -
  define k x where "k = B / (3 * C)" and "x = 1 / (2 * C) * (A - g)"
  define y where "y = sqrt (k ^ 3 + x * x)"
  define L where "L = root 3 (y - x) - root 3 (y + x)"
  have pos: "0 \<le> k ^ 3 + x * x" using assms(2) unfolding k_def x_def .
  then have "y * y = k ^ 3 + x * x" unfolding y_def by simp
  then have "L ^ 3 = - 2 * x - 3 * k * L" unfolding L_def by (rule cubic_solved)
  then have "C * L ^ 3 = C * (- 2 * x - 3 * k * L)" by simp
  also have "\<dots> = - (A - g) - B * L" using assms(1) by (simp add: k_def x_def field_simps)
  finally have "A + B * L + C * L ^ 3 = g" by simp
  moreover have "closed_form (Fin g) \<lparr>sh_A = Fin A, sh_B = Fin B, sh_C = Fin C\<rparr> = Some (Fin (exp L))"
    using assms(1) pos by (simp add: closed_form_def Let_def k_def x_def y_def L_def)
  ultimately show ?thesis by blast
qed

text \<open>Every fit of a thermistor has \<open>B\<close> positive and \<open>C\<close> not negative, and the closed form answers.\<close>

lemma c_to_ohms_at:
  assumes "0 < B" "0 \<le> C" "c + 27315 / 100 \<noteq> 0"
  shows "\<exists>L. pf_shh_c_to_ohms (Fin c) \<lparr>sh_A = Fin A, sh_B = Fin B, sh_C = Fin C\<rparr> = Fin (exp L) \<and>
             A + B * L + C * L ^ 3 = 1 / (c + 27315 / 100)"
proof (cases "C = 0")
  case True
  let ?L = "(1 / (c + 27315 / 100) - A) / B"
  have "pf_shh_c_to_ohms (Fin c) \<lparr>sh_A = Fin A, sh_B = Fin B, sh_C = Fin C\<rparr> = Fin (exp ?L)"
    using assms True by (simp add: pf_shh_c_to_ohms_def Let_def KELVIN_def)
  moreover have "A + B * ?L + C * ?L ^ 3 = 1 / (c + 27315 / 100)" using assms True by simp
  ultimately show ?thesis by blast
next
  case False
  let ?g = "1 / (c + 27315 / 100)"
  have "0 \<le> (B / (3 * C)) ^ 3" using assms by simp
  then have "0 \<le> (B / (3 * C)) ^ 3 + (1 / (2 * C) * (A - ?g)) * (1 / (2 * C) * (A - ?g))"
    by (rule add_nonneg_nonneg) (rule zero_le_square)
  from closed_form_solves [OF False this]
  obtain L where L: "closed_form (Fin ?g) \<lparr>sh_A = Fin A, sh_B = Fin B, sh_C = Fin C\<rparr> = Some (Fin (exp L))"
      "A + B * L + C * L ^ 3 = ?g" by blast
  have "1 / (Fin c + KELVIN) = Fin ?g" using assms(3) by (simp add: KELVIN_def)
  then have "pf_shh_c_to_ohms (Fin c) \<lparr>sh_A = Fin A, sh_B = Fin B, sh_C = Fin C\<rparr> = Fin (exp L)"
    using False L(1) by (simp add: pf_shh_c_to_ohms_def Let_def)
  with L(2) show ?thesis by blast
qed

lemma rising_cubic:
  fixes L M :: real
  assumes "0 < B" "0 \<le> C" "L < M"
  shows "A + B * L + C * L ^ 3 < A + B * M + C * M ^ 3"
proof -
  have "L ^ 3 \<le> M ^ 3" using assms(3) by (intro power_mono_odd) auto
  then have "C * L ^ 3 \<le> C * M ^ 3" using assms(2) by (rule mult_left_mono)
  moreover have "B * L < B * M" using assms by simp
  ultimately show ?thesis by simp
qed

lemma ohms_to_c_inversion:
  assumes "0 < R" "pf_shh_ohms_to_c (Fin R) \<lparr>sh_A = Fin A, sh_B = Fin B, sh_C = Fin C\<rparr> = Fin c"
  shows "A + B * ln R + C * ln R ^ 3 = 1 / (c + 27315 / 100) \<and> c + 27315 / 100 \<noteq> 0"
proof -
  have "A + B * ln R + C * ln R * ln R * ln R = A + B * ln R + C * ln R ^ 3"
    by (simp add: power3_eq_cube algebra_simps)
  with assms show ?thesis
    by (auto simp: pf_shh_ohms_to_c_def Let_def KELVIN_def split: if_splits)
qed

text \<open>C27. For the fit of a thermistor the two conversions undo each other: the resistance worked out for a
  temperature in the range of a probe reads back as that temperature, and a resistance that reads as a temperature
  is the one worked out for it.\<close>

theorem resistance_round_trip:
  assumes "0 < B" "0 \<le> C" "p = \<lparr>sh_A = Fin A, sh_B = Fin B, sh_C = Fin C\<rparr>"
  shows "(- 50 \<le> c \<and> c \<le> 3590 / 9 \<longrightarrow> pf_shh_ohms_to_c (pf_shh_c_to_ohms (Fin c) p) p = Fin c) \<and>
         (0 < R \<and> pf_shh_ohms_to_c (Fin R) p = Fin d \<longrightarrow> pf_shh_c_to_ohms (Fin d) p = Fin R)"
proof (intro conjI impI)
  assume c: "- 50 \<le> c \<and> c \<le> 3590 / 9"
  then have "c + 27315 / 100 \<noteq> 0" by simp
  from c_to_ohms_at [OF assms(1,2) this] obtain L where
    "pf_shh_c_to_ohms (Fin c) p = Fin (exp L)" "A + B * L + C * L ^ 3 = 1 / (c + 27315 / 100)"
    unfolding assms(3) by blast
  with c show "pf_shh_ohms_to_c (pf_shh_c_to_ohms (Fin c) p) p = Fin c"
    unfolding assms(3) by (simp only: ohms_to_c_at)
next
  assume R: "0 < R \<and> pf_shh_ohms_to_c (Fin R) p = Fin d"
  then have d: "A + B * ln R + C * ln R ^ 3 = 1 / (d + 27315 / 100) \<and> d + 27315 / 100 \<noteq> 0"
    unfolding assms(3) by (intro ohms_to_c_inversion) auto
  from c_to_ohms_at [OF assms(1,2) conjunct2 [OF d]] obtain L where
    L: "pf_shh_c_to_ohms (Fin d) p = Fin (exp L)" "A + B * L + C * L ^ 3 = 1 / (d + 27315 / 100)"
    unfolding assms(3) by blast
  have "L = ln R"
    using rising_cubic [OF assms(1,2), of L "ln R" A] rising_cubic [OF assms(1,2), of "ln R" L A] L(2) d by fastforce
  with L(1) R show "pf_shh_c_to_ohms (Fin d) p = Fin R" by simp
qed

theorem resistance_round_trip_witness:
  "let p = \<lparr>sh_A = Fin (1 / 1000), sh_B = Fin (2 / 10000), sh_C = Fin (1 / 10000000)\<rparr>
   in pf_shh_ohms_to_c (pf_shh_c_to_ohms 25 p) p = 25"
  using resistance_round_trip [of "2 / 10000" "1 / 10000000" _ "1 / 1000" 25 1 1] by (simp add: Let_def)

section \<open>A fit through three points\<close>

lemma newton_cubic:
  fixes L1 L2 L3 Y1 Y2 Y3 :: real
  assumes "L1 \<noteq> L2" "L1 \<noteq> L3" "L2 \<noteq> L3" "L1 + L2 + L3 \<noteq> 0"
    and "g2 = (Y2 - Y1) / (L2 - L1)" "g3 = (Y3 - Y1) / (L3 - L1)" "C = (g3 - g2) / (L3 - L2) / (L1 + L2 + L3)"
    and "B = g2 - C * (L1 * L1 + L1 * L2 + L2 * L2)" "A = Y1 - (B + L1 * L1 * C) * L1"
  shows "A + B * L1 + C * L1 ^ 3 = Y1 \<and> A + B * L2 + C * L2 ^ 3 = Y2 \<and> A + B * L3 + C * L3 ^ 3 = Y3"
proof -
  have g2: "Y2 = Y1 + g2 * (L2 - L1)" and g3: "Y3 = Y1 + g3 * (L3 - L1)" using assms by simp_all
  have C: "g3 = g2 + C * (L3 - L2) * (L1 + L2 + L3)" using assms(3,4,7) by simp
  show ?thesis unfolding g2 g3 C assms(9) assms(8)
    by (simp add: power3_eq_cube algebra_simps)
qed

lemma solve_flat:
  assumes "L1 \<noteq> L2" "\<not> isfinite C" "B = Fin g - C * Fin (L1 * L1 + L1 * L2 + L2 * L2)"
  shows "Fin y - (B + Fin (L1 * L1) * C) * Fin L1 = NaN"
proof -
  have "0 < (L1 - L2) * (L1 - L2)" using assms(1) by (auto simp: zero_less_mult_iff)
  moreover have "0 \<le> (L1 + L2) * (L1 + L2)" "0 \<le> L1 * L1" "0 \<le> L2 * L2" by simp_all
  ultimately have q: "0 < L1 * L1 + L1 * L2 + L2 * L2" by (simp add: algebra_simps)
  show ?thesis
  proof (cases "L1 = 0")
    case True
    with assms(2,3) q show ?thesis by (cases C) simp_all
  next
    case False
    then have "0 < L1 * L1" by (auto simp: zero_less_mult_iff)
    with assms(2,3) q show ?thesis by (cases C) simp_all
  qed
qed

lemma solve_coefficients:
  assumes "pf_shh_solve (Fin t1) (Fin r1) (Fin t2) (Fin r2) (Fin t3) (Fin r3) out = (p, 0)"
    "t1 + 27315 / 100 \<noteq> 0" "t2 + 27315 / 100 \<noteq> 0" "t3 + 27315 / 100 \<noteq> 0"
  shows "0 < r1 \<and> 0 < r2 \<and> 0 < r3 \<and> (\<exists>A B C. p = \<lparr>sh_A = Fin A, sh_B = Fin B, sh_C = Fin C\<rparr> \<and>
     A + B * ln r1 + C * ln r1 ^ 3 = 1 / (t1 + 27315 / 100) \<and> A + B * ln r2 + C * ln r2 ^ 3 = 1 / (t2 + 27315 / 100) \<and>
     A + B * ln r3 + C * ln r3 ^ 3 = 1 / (t3 + 27315 / 100))"
proof -
  define L1 L2 L3 where "L1 = ln r1" and "L2 = ln r2" and "L3 = ln r3"
  define Y1 Y2 Y3 where Y: "Y1 = 1 / (t1 + 27315 / 100)" "Y2 = 1 / (t2 + 27315 / 100)" "Y3 = 1 / (t3 + 27315 / 100)"
  have pos: "0 < r1" "0 < r2" "0 < r3" and ne: "L1 \<noteq> L2" "L1 \<noteq> L3" "L2 \<noteq> L3"
    using assms(1) by (auto simp: pf_shh_solve_def Let_def L1_def L2_def L3_def split: if_splits)
  define g2 g3 where g: "g2 = (Y2 - Y1) / (L2 - L1)" "g3 = (Y3 - Y1) / (L3 - L1)"
  define C where C: "C = (g3 - g2) / (L3 - L2) / (L1 + L2 + L3)"
  define B A where B: "B = g2 - C * (L1 * L1 + L1 * L2 + L2 * L2)" and A: "A = Y1 - (B + L1 * L1 * C) * L1"
  note run = assms(1) [unfolded pf_shh_solve_def Let_def KELVIN_def]
  have s: "L1 + L2 + L3 \<noteq> 0"
  proof
    assume "L1 + L2 + L3 = 0"
    then have nf: "\<not> isfinite (Fin ((g3 - g2) / (L3 - L2)) / Fin (L1 + L2 + L3))" by simp
    from solve_flat [OF ne(1) nf refl, of Y1 g2] run pos ne assms(2-4) show False
      by (simp add: L1_def L2_def L3_def g Y)
  qed
  have "p = \<lparr>sh_A = Fin A, sh_B = Fin B, sh_C = Fin C\<rparr>"
    using run pos ne s assms(2-4) by (simp add: L1_def L2_def L3_def g Y A B C)
  with newton_cubic [OF ne s g C B A] pos show ?thesis by (auto simp: L1_def L2_def L3_def Y)
qed



section \<open>The walk ends\<close>

lemma ln_ten_million: "ln (10000000 :: real) \<le> 24"
proof -
  have "(2::real) \<le> exp 1" using exp_ge_add_one_self [of 1] by simp
  then have "(2::real) ^ 24 \<le> exp 1 ^ 24" by (intro power_mono) auto
  also have "exp 1 ^ 24 = exp (24 :: real)" by (simp flip: exp_of_nat_mult)
  finally have "(10000000 :: real) \<le> exp 24" by simp
  then have "ln (10000000 :: real) \<le> ln (exp 24)" by (subst ln_le_cancel_iff) simp_all
  then show ?thesis by simp
qed

lemma scan_fuel:
  "24 < l + real n * (2 / 100) \<Longrightarrow> scan_root (n + m) g p a f (Fin l) = scan_root n g p a f (Fin l)"
proof (induction n arbitrary: a f l)
  case 0
  then have "\<not> l \<le> ln 10000000" using ln_ten_million by simp
  then show ?case by (cases m) simp_all
next
  case (Suc n)
  have "24 < (l + 2 / 100) + real n * (2 / 100)"
    using Suc.prems unfolding of_nat_Suc distrib_right by linarith
  from Suc.IH [OF this] show ?case by (simp add: Let_def)
qed

lemma scan_fuel_enough: "SCAN_FUEL \<le> n \<Longrightarrow> scan_root n g p a f (Fin (2 / 100)) = scan_root SCAN_FUEL g p a f (Fin (2 / 100))"
  using scan_fuel [of "2 / 100" SCAN_FUEL "n - SCAN_FUEL" g p a f] by (simp add: SCAN_FUEL_def)

end
