(* ===== verification/Probe_Layer.thy ===== *)
theory Probe_Layer
  imports Thermistor Tempq Wired_Probes
begin

text \<open>
  \<open>src/probes/probes.c\<close> and \<open>src/probes/registry.c\<close>: the devices built from the settings, the probes on their ports,
  and the poll that reads the devices and publishes the readings.  The drivers are records of functions; their
  instances and the world they read are type variables.
\<close>

section \<open>Drivers\<close>

record ('i, 'w) pf_probe_ops =
  po_abi :: nat
  po_id :: "string option"
  po_poll_ms :: int
  po_create :: "('w \<Rightarrow> json \<Rightarrow> 'w \<times> 'i option) option"
  po_destroy :: "('w \<Rightarrow> 'i \<Rightarrow> 'w) option"
  po_ports :: "('i \<Rightarrow> string list) option"
  po_read :: "('w \<Rightarrow> 'i \<Rightarrow> pf_probe_sample list \<Rightarrow> 'w \<times> 'i \<times> pf_probe_sample list \<times> int) option"
  po_link :: "('w \<Rightarrow> 'i \<Rightarrow> (int \<times> int) option) option"

definition PF_PROBE_ABI :: nat where "PF_PROBE_ABI = 1"
definition MAX_DRIVERS :: nat where "MAX_DRIVERS = 32"

definition pf_probe_driver_find :: "('i, 'w) pf_probe_ops list \<Rightarrow> string \<Rightarrow> ('i, 'w) pf_probe_ops option" where
  "pf_probe_driver_find tab id1 = List.find (\<lambda>p. po_id p = Some id1) tab"

definition driver_add :: "('i, 'w) pf_probe_ops option \<Rightarrow> ('i, 'w) pf_probe_ops list \<Rightarrow> ('i, 'w) pf_probe_ops list \<times> bool" where
  "driver_add ops tab =
     (case ops of None \<Rightarrow> (tab, False)
      | Some p \<Rightarrow>
          if po_abi p \<noteq> PF_PROBE_ABI then (tab, False)
          else case po_id p of None \<Rightarrow> (tab, False)
          | Some i \<Rightarrow>
              if po_create p = None \<or> po_read p = None \<or> po_ports p = None then (tab, False)
              else if pf_probe_driver_find tab i \<noteq> None then (tab, False)
              else if MAX_DRIVERS \<le> length tab then (tab, False)
              else (tab @ [p], True))"

text \<open>The built-in drivers first; then the directory, each entry with what its export function gave, if it loaded.\<close>

definition plugin_file :: "string \<Rightarrow> bool" where
  "plugin_file name \<longleftrightarrow> 4 \<le> length name \<and> drop (length name - 3) name = ''.so''"

definition pf_probe_drivers_init ::
    "('i, 'w) pf_probe_ops list \<Rightarrow> (string \<times> ('i, 'w) pf_probe_ops option option) list \<Rightarrow> ('i, 'w) pf_probe_ops list" where
  "pf_probe_drivers_init builtin dir =
     fold (\<lambda>(name, ex) tab. if plugin_file name then (case ex of Some p \<Rightarrow> fst (driver_add p tab) | None \<Rightarrow> tab) else tab)
       dir (fold (\<lambda>p tab. fst (driver_add (Some p) tab)) builtin [])"

section \<open>Devices and probes\<close>

record ('i, 'w) device_t =
  dv_name :: string
  dv_ops :: "('i, 'w) pf_probe_ops"
  dv_inst :: 'i
  dv_ports :: "string list"
  dv_rd :: "fl list"
  dv_vs :: fl
  dv_next_poll :: fl
  dv_wireless :: bool
  dv_rssi :: int
  dv_battery :: int

record probe_priv_t =
  pp_dev :: int
  pp_port :: int
  pp_shh :: pf_shh
  pp_q :: pf_tempq

record ('i, 'w) probe_layer =
  pl_dev :: "('i, 'w) device_t list"
  pl_bank :: probe_bank
  pl_priv :: "probe_priv_t list"

definition index_of :: "('a \<Rightarrow> bool) \<Rightarrow> 'a list \<Rightarrow> int" where
  "index_of p xs = (case find_index_from 0 p xs of Some i \<Rightarrow> int i | None \<Rightarrow> - 1)"

definition find_port :: "('i, 'w) device_t \<Rightarrow> string \<Rightarrow> int" where
  "find_port d port = index_of ((=) port) (dv_ports d)"

text \<open>\<open>teardown\<close>: every instance is destroyed, and the readings are gone, and with their number the probes'
  private part (the list holds the entries of \<open>g_priv\<close> up to the number of probes); whether a cook is on is not touched.\<close>

definition teardown :: "('i, 'w) probe_layer \<Rightarrow> 'w \<Rightarrow> 'w \<times> ('i, 'w) probe_layer" where
  "teardown l w =
     (foldl (\<lambda>w d. case po_destroy (dv_ops d) of Some f \<Rightarrow> f w (dv_inst d) | None \<Rightarrow> w) w (pl_dev l),
      l\<lparr>pl_dev := [], pl_priv := [], pl_bank := (pl_bank l)\<lparr>pb_snap := zero_sensors\<lparr>sn_primary := - 1\<rparr>\<rparr>\<rparr>)"

definition port_rd :: "json \<Rightarrow> string \<Rightarrow> fl" where
  "port_rd d port = pf_json_num (Some d) (sn 48 (''config.'' @ port @ ''_rd'')) 10000"

definition add_device ::
    "('i, 'w) pf_probe_ops list \<Rightarrow> json \<Rightarrow> 'w \<times> ('i, 'w) device_t list \<Rightarrow> 'w \<times> ('i, 'w) device_t list" where
  "add_device tab d = (\<lambda>(w, devs).
     if PF_MAX_DEVICES \<le> length devs then (w, devs)
     else let md = pf_json_str (Some d) ''module'' []; name = pf_json_str (Some d) ''device'' md
          in case pf_probe_driver_find tab md of
               None \<Rightarrow> (w, devs)
             | Some p \<Rightarrow>
                 (case the (po_create p) w d of
                    (w, None) \<Rightarrow> (w, devs)
                  | (w, Some inst) \<Rightarrow>
                      let ports = take PF_MAX_PORTS (the (po_ports p) inst)
                      in (w, devs @ [\<lparr>dv_name = fst (pf_strlcpy [] name PF_LABEL_LEN), dv_ops = p, dv_inst = inst, dv_ports = ports,
                           dv_rd = map (port_rd d) ports, dv_vs = pf_json_num (Some d) ''config.voltage_ref'' (Fin (328 / 100)),
                           dv_next_poll = 0, dv_wireless = False, dv_rssi = 0, dv_battery = 0\<rparr>])))"

definition role_of :: "string \<Rightarrow> pf_probe_role" where
  "role_of t = (if strcase_eq t ''Primary'' then PROBE_PRIMARY else if strcase_eq t ''Aux'' then PROBE_AUX else PROBE_FOOD)"

definition read_info :: "json \<Rightarrow> pf_probe_reading" where
  "read_info i =
     (let label = fst (pf_strlcpy [] (pf_json_str (Some i) ''label'' ''?'') PF_LABEL_LEN)
      in zero_reading\<lparr>pr_label := label,
           pr_name := fst (pf_strlcpy [] (pf_json_str (Some i) ''name'' label) PF_NAME_LEN),
           pr_device := fst (pf_strlcpy [] (pf_json_str (Some i) ''device'' []) PF_LABEL_LEN),
           pr_port := fst (pf_strlcpy [] (pf_json_str (Some i) ''port'' []) 16),
           pr_role := role_of (pf_json_str (Some i) ''type'' ''Food''),
           pr_enabled := pf_json_bool (Some i) ''enabled'' True,
           pr_home := pf_json_bool (Some i) ''show_on_home'' True,
           pr_ambient := pf_json_bool (Some i) ''ambient'' False,
           pr_temp_c := NaN, pr_raw_c := NaN\<rparr>)"

text \<open>The profile is the name of one of the profiles or an object in its place.\<close>

definition profile_of :: "json option \<Rightarrow> json \<Rightarrow> json option" where
  "profile_of profiles i =
     (case (j_get ''profile'' i, profiles) of
        (Some (JStr s), Some ps) \<Rightarrow> j_get s ps
      | (p, _) \<Rightarrow> p)"

definition PF_PIT_SLEW_C_S :: fl where "PF_PIT_SLEW_C_S = 3"
definition PF_FOOD_SLEW_C_S :: fl where "PF_FOOD_SLEW_C_S = 2"
definition PF_SLEW_HOLD_S :: fl where "PF_SLEW_HOLD_S = 10"

definition read_priv :: "('i, 'w) device_t list \<Rightarrow> json option \<Rightarrow> json \<Rightarrow> probe_priv_t" where
  "read_priv devs profiles i =
     (let r = read_info i; dev = index_of (\<lambda>d. dv_name d = pr_device r) devs; p = profile_of profiles i
      in \<lparr>pp_dev = dev, pp_port = if dev < 0 then 0 else find_port (devs ! nat dev) (pr_port r),
          pp_shh = \<lparr>sh_A = pf_json_num p ''A'' 0, sh_B = pf_json_num p ''B'' 0, sh_C = pf_json_num p ''C'' 0\<rparr>,
          pp_q = pf_tempq_limits (if pr_role r = PROBE_PRIMARY then PF_PIT_SLEW_C_S else PF_FOOD_SLEW_C_S) PF_SLEW_HOLD_S
                   pf_tempq_init\<rparr>)"

definition find_primary :: "pf_probe_reading list \<Rightarrow> int" where
  "find_primary ps = index_of (\<lambda>r. pr_role r = PROBE_PRIMARY \<and> pr_enabled r) ps"

text \<open>\<open>strcasestr\<close>: whether a text occurs in another, whatever the case of the letters.\<close>

definition occurs_ci :: "string \<Rightarrow> string \<Rightarrow> bool" where
  "occurs_ci needle hay \<longleftrightarrow> (\<exists>i \<in> set [0..<Suc (length hay)]. has_prefix_ci needle (drop i hay))"

section \<open>Companions and the ambient reference\<close>

definition on_wireless :: "('i, 'w) device_t list \<Rightarrow> probe_priv_t \<Rightarrow> bool" where
  "on_wireless devs pv \<longleftrightarrow> 0 \<le> pp_dev pv \<and> po_link (dv_ops (devs ! nat (pp_dev pv))) \<noteq> None"

text \<open>The ambient sensor on the same wireless device as the \<open>i\<close>-th probe, if that is not one itself.\<close>

definition companion_of :: "('i, 'w) device_t list \<Rightarrow> probe_priv_t list \<Rightarrow> pf_probe_reading list \<Rightarrow> nat \<Rightarrow> int" where
  "companion_of devs pvs ps i =
     (if \<not> on_wireless devs (pvs ! i) \<or> occurs_ci ''Ambient'' (pr_port (ps ! i)) then - 1
      else index_of (\<lambda>j. j \<noteq> i \<and> pp_dev (pvs ! j) = pp_dev (pvs ! i) \<and> pr_enabled (ps ! j) \<and> pr_role (ps ! j) \<noteq> PROBE_PRIMARY \<and>
                         occurs_ci ''Ambient'' (pr_port (ps ! j))) [0..<length ps])"

definition pair_companions :: "('i, 'w) device_t list \<Rightarrow> probe_priv_t list \<Rightarrow> pf_probe_reading list \<Rightarrow> pf_probe_reading list" where
  "pair_companions devs pvs ps =
     map (\<lambda>i. (ps ! i)\<lparr>pr_companion := companion_of devs pvs ps i, pr_battery := - 1,
                       pr_is_companion := (\<exists>k \<in> set [0..<length ps]. companion_of devs pvs ps k = int i)\<rparr>) [0..<length ps]"

definition shares_device :: "pf_probe_reading list \<Rightarrow> nat \<Rightarrow> bool" where
  "shares_device ps i \<longleftrightarrow>
     (\<exists>j \<in> set [0..<length ps]. j \<noteq> i \<and> pr_device (ps ! i) \<noteq> [] \<and> pr_device (ps ! j) = pr_device (ps ! i))"

definition name_ambient :: "pf_probe_reading list \<Rightarrow> pf_probe_reading list" where
  "name_ambient ps =
     map (\<lambda>i. let r = ps ! i
              in if pr_ambient r \<or> pr_role r \<noteq> PROBE_AUX \<or> pr_is_companion r \<or> \<not> occurs_ci ''ambient'' (pr_name r) then r
                 else if shares_device ps i then r else r\<lparr>pr_ambient := True\<rparr>) [0..<length ps]"

text \<open>\<open>pf_probes_init\<close>; the probe map and the profiles are what the settings hold.\<close>

definition pf_probes_init ::
    "('i, 'w) pf_probe_ops list \<Rightarrow> json option \<Rightarrow> json option \<Rightarrow> ('i, 'w) probe_layer \<Rightarrow> 'w \<Rightarrow> 'w \<times> ('i, 'w) probe_layer \<times> int" where
  "pf_probes_init tab pmap profiles l w =
     (case teardown l w of (w, l) \<Rightarrow>
        (case pmap of None \<Rightarrow> (w, l, - 1)
         | Some m \<Rightarrow>
             (case fold (add_device tab) (j_children (j_get ''probe_devices'' m)) (w, []) of (w, devs) \<Rightarrow>
                let infos = take PF_MAX_PROBES (j_children (j_get ''probe_info'' m));
                    ps = map read_info infos; pvs = map (read_priv devs profiles) infos;
                    ps2 = name_ambient (pair_companions devs pvs ps)
                in (w, l\<lparr>pl_dev := devs, pl_priv := pvs,
                         pl_bank := (pl_bank l)\<lparr>pb_snap := \<lparr>sn_t = 0, sn_primary = find_primary ps, sn_p = ps2\<rparr>\<rparr>\<rparr>, 0))))"

definition pf_probes_shutdown :: "('i, 'w) probe_layer \<Rightarrow> 'w \<Rightarrow> 'w \<times> ('i, 'w) probe_layer" where
  "pf_probes_shutdown l w = teardown l w"

section \<open>The poll\<close>

text \<open>What a driver is told before a read: the ports that an enabled probe is on are wanted, the others not.\<close>

definition wanted_samples :: "probe_priv_t list \<Rightarrow> pf_probe_reading list \<Rightarrow> nat \<Rightarrow> nat \<Rightarrow> pf_probe_sample list" where
  "wanted_samples pvs ps i nports =
     map (\<lambda>p. \<lparr>sa_kind = if \<exists>k \<in> set [0..<length ps]. pr_enabled (ps ! k) \<and> pp_dev (pvs ! k) = int i \<and> pp_port (pvs ! k) = int p
                          then SAMPLE_INVALID else SAMPLE_SKIP, sa_value = 0\<rparr>) [0..<nports]"

definition read_device ::
    "fl \<Rightarrow> pf_probe_sample list \<Rightarrow> ('i, 'w) device_t \<Rightarrow> 'w \<Rightarrow> 'w \<times> ('i, 'w) device_t \<times> pf_probe_sample list" where
  "read_device now smp d w =
     (let poll_ms = po_poll_ms (dv_ops d);
          d = d\<lparr>dv_next_poll := now + int_to_fl (if 0 < poll_ms then poll_ms else 250) / 1000\<rparr>
      in case the (po_read (dv_ops d)) w (dv_inst d) smp of (w, inst, out, rc) \<Rightarrow>
           let out = (if rc < 0 then map (\<lambda>x. x\<lparr>sa_kind := SAMPLE_INVALID\<rparr>) out else out);
               d = d\<lparr>dv_inst := inst\<rparr>
           in (w, (case po_link (dv_ops d) of
                     None \<Rightarrow> d
                   | Some f \<Rightarrow> (case f w inst of
                       Some (r, b) \<Rightarrow> d\<lparr>dv_wireless := True, dv_rssi := if rc < 0 then 0 else r, dv_battery := b\<rparr>
                     | None \<Rightarrow> d\<lparr>dv_wireless := False, dv_rssi := 0, dv_battery := - 1\<rparr>)), out))"

text \<open>The devices that are due, one after the other, with the samples of each or none when it was not read.\<close>

fun read_devices ::
    "fl \<Rightarrow> probe_priv_t list \<Rightarrow> pf_probe_reading list \<Rightarrow> nat \<Rightarrow> ('i, 'w) device_t list \<Rightarrow> 'w \<Rightarrow>
     'w \<times> ('i, 'w) device_t list \<times> pf_probe_sample list option list" where
  "read_devices now pvs ps i [] w = (w, [], [])"
| "read_devices now pvs ps i (d # ds) w =
     (if now < dv_next_poll d
      then (case read_devices now pvs ps (Suc i) ds w of (w, ds, out) \<Rightarrow> (w, d # ds, None # out))
      else (case read_device now (wanted_samples pvs ps i (length (dv_ports d))) d w of (w, d, smp) \<Rightarrow>
              (case read_devices now pvs ps (Suc i) ds w of (w, ds, out) \<Rightarrow> (w, d # ds, Some smp # out))))"

text \<open>What a sample is worth: the temperature, if it makes one, and the resistance.\<close>

definition sample_value :: "pf_probe_sample \<Rightarrow> fl \<Rightarrow> fl \<Rightarrow> pf_shh \<Rightarrow> fl \<times> fl" where
  "sample_value s rd vs shh =
     (case sa_kind s of
        SAMPLE_MV \<Rightarrow> (let ohms = pf_shh_mv_to_ohms (sa_value s) rd vs in (if 0 < ohms then pf_shh_ohms_to_c ohms shh else NaN, ohms))
      | SAMPLE_OHMS \<Rightarrow> (pf_shh_ohms_to_c (sa_value s) shh, sa_value s)
      | SAMPLE_CELSIUS \<Rightarrow> (sa_value s, 0)
      | _ \<Rightarrow> (NaN, 0))"

definition take_reading :: "bool \<Rightarrow> bool \<Rightarrow> fl \<Rightarrow> fl \<Rightarrow> pf_tempq \<Rightarrow> pf_probe_reading \<Rightarrow> pf_probe_reading \<times> pf_tempq" where
  "take_reading cooking explicit now c q r =
     (if \<not> isnan c
      then (case pf_tempq_push q c now of (q, v) \<Rightarrow>
              (r\<lparr>pr_temp_c := v, pr_unstable := tq_unstable q, pr_valid := True, pr_last_valid_t := now,
                 pr_in_use := pr_in_use r \<or> cooking \<and> pr_enabled r \<and> \<not> explicit \<or> pr_enabled r \<and> 0 < pr_target_c r\<rparr>, q))
      else if 10 < now - pr_last_valid_t r
      then (r\<lparr>pr_valid := False, pr_temp_c := NaN, pr_unstable := False\<rparr>, pf_tempq_reset q)
      else (r\<lparr>pr_valid := False\<rparr>, q))"

definition put_reading :: "nat \<Rightarrow> pf_probe_reading \<Rightarrow> pf_sensors \<Rightarrow> pf_sensors" where
  "put_reading n r s = s\<lparr>sn_p := (sn_p s)[n := r]\<rparr>"

definition put_tempq :: "nat \<Rightarrow> pf_tempq \<Rightarrow> probe_priv_t list \<Rightarrow> probe_priv_t list" where
  "put_tempq n q pvs = pvs[n := (pvs ! n)\<lparr>pp_q := q\<rparr>]"

text \<open>The device of a probe, and its sample, when the device was read.\<close>

definition polled_sample ::
    "('i, 'w) device_t list \<Rightarrow> pf_probe_sample list option list \<Rightarrow> probe_priv_t \<Rightarrow> (('i, 'w) device_t \<times> pf_probe_sample) option" where
  "polled_sample devs out pv =
     (if pp_dev pv < 0 \<or> pp_port pv < 0 then None
      else case out ! nat (pp_dev pv) of None \<Rightarrow> None
           | Some smp \<Rightarrow> Some (devs ! nat (pp_dev pv), smp ! nat (pp_port pv)))"

definition publish_probe ::
    "('i \<Rightarrow> virt_t) \<Rightarrow> ('i, 'w) device_t list \<Rightarrow> pf_probe_sample list option list \<Rightarrow> bool \<Rightarrow> bool \<Rightarrow> fl \<Rightarrow> nat \<Rightarrow>
     pf_sensors \<times> probe_priv_t list \<Rightarrow> pf_sensors \<times> probe_priv_t list" where
  "publish_probe vt devs out cooking explicit now n = (\<lambda>(s, pvs).
     let r = sn_p s ! n; pv = pvs ! n
     in if \<not> pr_enabled r then (s, pvs)
        else case polled_sample devs out pv of
          None \<Rightarrow> (s, pvs)
        | Some (d, x) \<Rightarrow>
            (let (c, ohms) = sample_value x (dv_rd d ! nat (pp_port pv)) (dv_vs d) (pp_shh pv);
                 c = (if po_id (dv_ops d) = Some ''virtual''
                      then virtual_value (vt_mode (vt (dv_inst d))) s n (pf_virtual_inputs (vt (dv_inst d)) 8) else c);
                 r = r\<lparr>pr_wireless := dv_wireless d, pr_rssi := if dv_wireless d then dv_rssi d else 0,
                       pr_battery := if dv_wireless d then dv_battery d else - 1, pr_raw_c := c,
                       pr_ohms := if 0 < ohms then ohms else 0\<rparr>;
                 (r, q) = take_reading cooking explicit now c (pp_q pv) r
             in (put_reading n r s, put_tempq n q pvs)))"

text \<open>The two halves of \<open>pf_probes_poll\<close>: the devices are read outside the lock, while other operations may
  come, and the readings are published under it.\<close>

definition poll_read :: "fl \<Rightarrow> ('i, 'w) probe_layer \<Rightarrow> 'w \<Rightarrow> 'w \<times> ('i, 'w) probe_layer \<times> pf_probe_sample list option list" where
  "poll_read now l w =
     (case read_devices now (pl_priv l) (sn_p (pb_snap (pl_bank l))) 0 (pl_dev l) w of
        (w, devs, out) \<Rightarrow> (w, l\<lparr>pl_dev := devs\<rparr>, out))"

definition poll_publish :: "('i \<Rightarrow> virt_t) \<Rightarrow> fl \<Rightarrow> pf_probe_sample list option list \<Rightarrow> ('i, 'w) probe_layer \<Rightarrow> ('i, 'w) probe_layer" where
  "poll_publish vt now out l =
     (let b = pl_bank l; s = (pb_snap b)\<lparr>sn_t := now\<rparr>
      in case fold (publish_probe vt (pl_dev l) out (pb_cooking b) (pb_in_use_explicit b) now) [0..<length (sn_p s)] (s, pl_priv l) of
           (s, pvs) \<Rightarrow> l\<lparr>pl_bank := b\<lparr>pb_snap := s\<rparr>, pl_priv := pvs\<rparr>)"

definition pf_probes_poll :: "('i \<Rightarrow> virt_t) \<Rightarrow> fl \<Rightarrow> ('i, 'w) probe_layer \<Rightarrow> 'w \<Rightarrow> 'w \<times> ('i, 'w) probe_layer" where
  "pf_probes_poll vt now l w =
     (case poll_read now l w of (w, l, out) \<Rightarrow> (w, poll_publish vt now out l))"

end
