(* ===== verification/Ads1x15.thy ===== *)
theory Ads1x15
  imports Probe_Io Tempq Thermistor
begin

unbundle bit_operations_syntax

text \<open>
  \<open>src/probes/ads1x15.c\<close>: the analogue converter on the I2C bus that reads the wired probes.  A reading is the mean
  of the middle half of sixteen conversions, scaled by what the supply rail is found to be.  The theorems say what
  wrong conversions can do to a reading, that the rail cancels, and that a conversion is never taken before the chip
  has finished it.
\<close>

definition REG_CONVERSION :: octet where "REG_CONVERSION = 0"
definition REG_CONFIG :: octet where "REG_CONFIG = 1"
definition OVERSAMPLE :: nat where "OVERSAMPLE = 16"
definition REF_OVERSAMPLE :: nat where "REF_OVERSAMPLE = 8"
definition REF_EVERY_S :: fl where "REF_EVERY_S = 1"

record ads_t =
  ads_fd :: int
  ads_addr :: octet
  ads_is1015 :: bool
  ads_errors :: int
  ads_timeouts :: int
  ads_vs_cfg :: fl
  ads_vs_meas :: fl
  ads_ref_t :: fl
  ads_spread_mv :: "fl list"

definition ads_create :: "'w probe_bus \<Rightarrow> json \<Rightarrow> 'w \<Rightarrow> 'w \<times> ads_t option" where
  "ads_create b d w =
     (let addr = bus_addr d ''0x48'';
          is1015 = (pf_json_str (Some d) ''config.variant'' ''ads1115'' = ''ads1015'');
          bus = pf_json_int (Some d) ''config.i2c_bus'' 1;
          vs = pf_json_num (Some d) ''config.voltage_ref'' (Fin (328 / 100));
          (w, fd) = b_open b w (''/dev/i2c-'' @ show_int bus)
      in if fd < 0 then (w, None)
         else (w, Some \<lparr>ads_fd = fd, ads_addr = addr, ads_is1015 = is1015, ads_errors = 0, ads_timeouts = 0,
                        ads_vs_cfg = vs, ads_vs_meas = 0, ads_ref_t = 0, ads_spread_mv = replicate 4 0\<rparr>))"

definition ads_ports :: "string list" where "ads_ports = [''ADC0'', ''ADC1'', ''ADC2'', ''ADC3'']"

text \<open>The configuration word that starts a single conversion of a channel.\<close>

definition start_word :: "nat \<Rightarrow> 16 word" where
  "start_word ch = 0x8000 OR push_bit 12 (of_nat (4 + ch)) OR 0x0200 OR 0x0100 OR 0x00C0 OR 0x0003"

text \<open>Whether the chip reported itself idle within so many polls; none when the bus failed.\<close>

fun wait_ready :: "nat \<Rightarrow> 'w probe_bus \<Rightarrow> ads_t \<Rightarrow> 'w \<Rightarrow> 'w \<times> bool option" where
  "wait_ready 0 b s w = (w, Some False)"
| "wait_ready (Suc n) b s w =
     (case pf_i2c_write_read b w (ads_fd s) (ads_addr s) [REG_CONFIG] 2 of
        (w, Some cr) \<Rightarrow> (if (cr ! 0) AND 0x80 \<noteq> 0 then (w, Some True) else wait_ready n b s (b_sleep b w 1))
      | (w, None) \<Rightarrow> (w, None))"

definition raw_to_mv :: "bool \<Rightarrow> 16 word \<Rightarrow> fl" where
  "raw_to_mv is1015 raw =
     (let mv = (if is1015 then int_to_fl (sint raw div 16) * 2 else int_to_fl (sint raw) * Fin (125 / 1000))
      in if mv < 0 then 0 else mv)"

definition convert_once :: "'w probe_bus \<Rightarrow> nat \<Rightarrow> ads_t \<Rightarrow> 'w \<Rightarrow> 'w \<times> ads_t \<times> fl option" where
  "convert_once b ch s w =
     (let cfg = start_word ch
      in case b_i2c_write b w (ads_fd s) (ads_addr s) [REG_CONFIG, ucast (drop_bit 8 cfg), ucast cfg] of
           (w, False) \<Rightarrow> (w, s, None)
         | (w, True) \<Rightarrow>
             (case wait_ready 12 b s (b_sleep b w (if ads_is1015 s then 1 else 2)) of
                (w, None) \<Rightarrow> (w, s, None)
              | (w, Some False) \<Rightarrow> (w, s\<lparr>ads_timeouts := ads_timeouts s + 1\<rparr>, None)
              | (w, Some True) \<Rightarrow>
                  (case pf_i2c_write_read b w (ads_fd s) (ads_addr s) [REG_CONVERSION] 2 of
                     (w, Some r) \<Rightarrow> (w, s, Some (raw_to_mv (ads_is1015 s) (be16 (r ! 0) (r ! 1))))
                   | (w, None) \<Rightarrow> (w, s, None))))"

text \<open>The conversions that came out of so many attempts.\<close>

fun conversions :: "nat \<Rightarrow> 'w probe_bus \<Rightarrow> nat \<Rightarrow> ads_t \<Rightarrow> 'w \<Rightarrow> 'w \<times> ads_t \<times> fl list" where
  "conversions 0 b ch s w = (w, s, [])"
| "conversions (Suc n) b ch s w =
     (case convert_once b ch s w of (w, s, r) \<Rightarrow>
        (case conversions n b ch s w of (w, s, v) \<Rightarrow> (w, s, (case r of Some mv \<Rightarrow> mv # v | None \<Rightarrow> v))))"

text \<open>The mean of the middle half of what was converted, and the spread of all of it.\<close>

definition middle_mean :: "fl list \<Rightarrow> fl" where
  "middle_mean v =
     (let v = foldl sink_in [] v; k = length v; lo = k div 4; hi = k - k div 4
      in fl_sum (take (hi - lo) (drop lo v)) / num (hi - lo))"

definition spread_of :: "fl list \<Rightarrow> fl" where
  "spread_of v = (let v = foldl sink_in [] v in v ! (length v - 1) - v ! 0)"

definition read_channel :: "'w probe_bus \<Rightarrow> nat \<Rightarrow> nat \<Rightarrow> ads_t \<Rightarrow> 'w \<Rightarrow> 'w \<times> ads_t \<times> (fl \<times> fl) option" where
  "read_channel b ch n s w =
     (let n = min n OVERSAMPLE
      in case conversions n b ch s w of (w, s, v) \<Rightarrow>
           if length v < n div 2 \<or> length v < 1 then (w, s, None)
           else (w, s, Some (middle_mean v, spread_of v)))"

text \<open>The rail, read once a second from the first port that no probe is on.\<close>

definition read_rail :: "'w probe_bus \<Rightarrow> pf_probe_sample list \<Rightarrow> ads_t \<Rightarrow> 'w \<Rightarrow> 'w \<times> ads_t" where
  "read_rail b smp s w =
     (let now = b_now b w
      in if \<not> REF_EVERY_S \<le> now - ads_ref_t s then (w, s)
         else let s = s\<lparr>ads_ref_t := now\<rparr>
              in case find_index_from 0 (\<lambda>x. sa_kind x = SAMPLE_SKIP) (take 4 smp) of
                   None \<Rightarrow> (w, s\<lparr>ads_vs_meas := 0\<rparr>)
                 | Some ch \<Rightarrow>
                     (case read_channel b ch REF_OVERSAMPLE s w of
                        (w, s, None) \<Rightarrow> (w, s\<lparr>ads_vs_meas := 0\<rparr>)
                      | (w, s, Some (ref, _)) \<Rightarrow>
                          if 0 < ads_vs_cfg s \<and> ads_vs_cfg s * 900 \<le> ref \<and> ref \<le> ads_vs_cfg s * 1100
                          then let v = ref / 1000
                               in (w, s\<lparr>ads_vs_meas := if 0 < ads_vs_meas s
                                          then ads_vs_meas s + (v - ads_vs_meas s) * Fin (2 / 10) else v\<rparr>)
                          else (w, s\<lparr>ads_vs_meas := 0\<rparr>)))"

definition scale_mv :: "ads_t \<Rightarrow> fl \<Rightarrow> fl" where
  "scale_mv s mv = (if 0 < ads_vs_meas s then mv * (ads_vs_cfg s / ads_vs_meas s) else mv)"

text \<open>One port after the other; the number counts those that were read.\<close>

fun read_ports :: "'w probe_bus \<Rightarrow> nat \<Rightarrow> pf_probe_sample list \<Rightarrow> ads_t \<Rightarrow> 'w \<Rightarrow> 'w \<times> ads_t \<times> pf_probe_sample list \<times> nat" where
  "read_ports b i [] s w = (w, s, [], 0)"
| "read_ports b i (x # xs) s w =
     (if 4 \<le> i then (w, s, x # xs, 0)
      else if sa_kind x = SAMPLE_SKIP
      then (case read_ports b (Suc i) xs s w of (w, s, ys, n) \<Rightarrow> (w, s, x # ys, n))
      else (case read_channel b i OVERSAMPLE s w of
              (w, s, Some (mv, spread)) \<Rightarrow>
                (case read_ports b (Suc i) xs (s\<lparr>ads_spread_mv := (ads_spread_mv s)[i := spread]\<rparr>) w of
                   (w, s', ys, n) \<Rightarrow> (w, s', \<lparr>sa_kind = SAMPLE_MV, sa_value = scale_mv s mv\<rparr> # ys, Suc n))
            | (w, s, None) \<Rightarrow>
                (case read_ports b (Suc i) xs s w of (w, s, ys, n) \<Rightarrow> (w, s, x\<lparr>sa_kind := SAMPLE_INVALID\<rparr> # ys, n))))"

definition ads_read :: "'w probe_bus \<Rightarrow> ads_t \<Rightarrow> pf_probe_sample list \<Rightarrow> 'w \<Rightarrow> 'w \<times> ads_t \<times> pf_probe_sample list \<times> int" where
  "ads_read b s smp w =
     (case read_rail b smp s w of (w, s) \<Rightarrow>
        (case read_ports b 0 smp s w of (w, s, out, n) \<Rightarrow>
           if n = 0
           then if \<forall>x \<in> set (take 4 smp). sa_kind x = SAMPLE_SKIP then (w, s, out, 0)
                else (w, s\<lparr>ads_errors := ads_errors s + 1\<rparr>, out, - 1)
           else (w, s\<lparr>ads_errors := 0\<rparr>, out, 0)))"

definition ads_connected :: "ads_t \<Rightarrow> bool" where "ads_connected s \<longleftrightarrow> ads_errors s < 5"

section \<open>Wrong conversions\<close>

lemma raw_to_mv_number:
  "raw_to_mv d raw = Fin (max 0 (if d then of_int (sint raw div 16) * 2 else of_int (sint raw) / 8))"
  by (auto simp: raw_to_mv_def Let_def int_to_fl_def max_def)

lemma convert_once_number: "convert_once b ch s w = (w', s', Some mv) \<Longrightarrow> mv \<noteq> NaN"
  by (auto simp: convert_once_def Let_def raw_to_mv_number split: prod.splits bool.splits option.splits)

lemma conversions_numbers: "conversions n b ch s w = (w', s', v) \<Longrightarrow> NaN \<notin> set v"
proof (induction n arbitrary: s w w' s' v)
  case (Suc n)
  then show ?case
    using convert_once_number [of b ch s w]
    by (auto split: prod.splits option.splits)
qed simp

lemma middle_mean_lies_in:
  assumes "NaN \<notin> set v" "length (filter (\<lambda>x. \<not> lies_in a b x) v) \<le> length v div 4" "v \<noteq> []"
  shows "lies_in a b (middle_mean v)"
proof -
  let ?s = "foldl sink_in [] v" and ?lo = "length v div 4"
  let ?m = "take (length v - ?lo - ?lo) (drop ?lo ?s)"
  have len: "length ?m = length v - ?lo - ?lo" by (simp add: length_sink)
  have pos: "0 < length v - ?lo - ?lo" using assms(3) by (cases v) auto
  have "lies_in a b x" if "x \<in> set ?m" for x
  proof -
    from that obtain j where j: "x = ?m ! j" "j < length v - ?lo - ?lo" using len by (auto simp: in_set_conv_nth)
    then have "x = ?s ! (?lo + j)" by (simp add: length_sink)
    moreover have "lies_in a b (?s ! (?lo + j))" by (rule sink_lies_in [OF assms(1,2)]) (use j in simp_all)
    ultimately show ?thesis by simp
  qed
  then have "\<forall>x \<in> set ?m. lies_in a b x" "?m \<noteq> []" using len pos by auto
  from mean_lies_in [OF this] show ?thesis unfolding len by (simp add: middle_mean_def Let_def length_sink)
qed

text \<open>C24. Wrong conversions are thrown away: whatever the bus and the chip answer, when at least half of the
  conversions of a reading come out and no more than a quarter of those lie outside a range, the reading is made
  and lies in it.\<close>

theorem reading_ignores_wrong_conversions:
  assumes "conversions (min n OVERSAMPLE) bus ch s w = (w', s', v)" "1 \<le> length v" "min n OVERSAMPLE div 2 \<le> length v"
    and "4 * length (filter (\<lambda>x. \<not> lies_in a b x) v) \<le> length v"
  shows "\<exists>mv spread. read_channel bus ch n s w = (w', s', Some (mv, spread)) \<and> lies_in a b mv"
proof -
  have "length (filter (\<lambda>x. \<not> lies_in a b x) v) \<le> length v div 4" using assms(4) by simp
  from middle_mean_lies_in [OF conversions_numbers [OF assms(1)] this] assms(1-3) show ?thesis
    by (auto simp: read_channel_def Let_def)
qed

section \<open>The rail\<close>

text \<open>The rail cancels: once the rail is known, the voltage that a probe makes at its port reads back as the
  probe's own resistance, whatever the rail it is fed from, as long as the rail is known as it is.\<close>

theorem rail_cancels:
  assumes "ads_vs_meas s = Fin V" "ads_vs_cfg s = Fin vs" "0 < V" "0 < R" "0 < Rd" "1 / 500 \<le> vs * Rd / (R + Rd)"
  shows "pf_shh_mv_to_ohms (scale_mv s (Fin (1000 * (V * R / (R + Rd))))) (Fin Rd) (Fin vs) = Fin R"
proof -
  have "1000 * (V * R / (R + Rd)) * (vs / V) = 1000 * (vs * R / (R + Rd))" using assms(3) by simp
  with assms(1-3) have "scale_mv s (Fin (1000 * (V * R / (R + Rd)))) = Fin (1000 * (vs * R / (R + Rd)))"
    by (simp add: scale_mv_def)
  then show ?thesis using divider_exact [OF assms(4-6)] by simp
qed

section \<open>The conversion that was asked for\<close>

text \<open>
  The chip as its data sheet describes it: a write that sets the top bit of an idle chip starts a conversion of the
  channel named by the multiplexer bits, which takes some time; the top bit reads 1 when it is idle; and the
  conversion register holds the last conversion that was finished.
\<close>

record chip =
  chip_left :: nat
  chip_mux :: nat
  chip_result :: "16 word"
  chip_volts :: "nat \<Rightarrow> 16 word"
  chip_time :: nat

definition chip_run :: "chip \<Rightarrow> nat \<Rightarrow> chip" where
  "chip_run c ms =
     (if chip_left c = 0 then c
      else if chip_left c \<le> ms then c\<lparr>chip_left := 0, chip_result := chip_volts c (chip_mux c)\<rparr>
      else c\<lparr>chip_left := chip_left c - ms\<rparr>)"

definition chip_write :: "chip \<Rightarrow> int \<Rightarrow> octet \<Rightarrow> octet list \<Rightarrow> chip \<times> bool" where
  "chip_write c fd addr data =
     (case data of [r, h, l] \<Rightarrow>
        (if r = REG_CONFIG \<and> bit h 7 \<and> chip_left c = 0
         then (c\<lparr>chip_mux := unat (drop_bit 4 h AND 7) - 4, chip_left := chip_time c\<rparr>, True) else (c, True))
      | _ \<Rightarrow> (c, True))"

definition chip_read :: "chip \<Rightarrow> int \<Rightarrow> octet \<Rightarrow> octet list \<Rightarrow> nat \<Rightarrow> chip \<times> octet list option" where
  "chip_read c fd addr data n =
     (c, Some (if data = [REG_CONFIG] then [if chip_left c = 0 then 0x80 else 0, 0]
               else [ucast (drop_bit 8 (chip_result c)), ucast (chip_result c)]))"

definition chip_bus :: "chip probe_bus" where
  "chip_bus = \<lparr>b_open = (\<lambda>c p. (c, 3)), b_i2c_write = chip_write, b_i2c_read = chip_read, b_spi = (\<lambda>c fd tx. (c, None)),
     b_sleep = chip_run, b_now = (\<lambda>c. 0)\<rparr>"

lemma be16_bytes: "be16 (ucast (drop_bit 8 x)) (ucast x) = x" for x :: "16 word"
  unfolding be16_def by (rule bit_word_eqI) (auto simp: bit_word_cat_iff bit_ucast_iff bit_drop_bit_eq bit_simps)

lemma chip_bus_simps [simp]:
  "b_i2c_write chip_bus = chip_write" "b_i2c_read chip_bus = chip_read" "b_sleep chip_bus = chip_run"
  by (simp_all add: chip_bus_def)

lemma chip_run_add: "chip_run (chip_run c i) j = chip_run c (i + j)"
  by (auto simp: chip_run_def)

lemma chip_run_left [simp]: "chip_left (chip_run c ms) = chip_left c - ms"
  by (auto simp: chip_run_def)

lemma chip_run_none [simp]: "chip_left c = 0 \<Longrightarrow> chip_run c ms = c" "chip_run c 0 = c"
  by (auto simp: chip_run_def)

lemma chip_status: "pf_i2c_write_read chip_bus c fd addr [REG_CONFIG] 2 = (c, Some [if chip_left c = 0 then 0x80 else 0, 0])"
  by (simp add: pf_i2c_write_read_def chip_read_def)

lemma chip_answer:
  "pf_i2c_write_read chip_bus c fd addr [REG_CONVERSION] 2 =
     (c, Some [ucast (drop_bit 8 (chip_result c)), ucast (chip_result c)])"
  by (simp add: pf_i2c_write_read_def chip_read_def REG_CONFIG_def REG_CONVERSION_def)

lemma wait_ready_chip:
  "wait_ready n chip_bus s c =
     (if chip_left c < n then (chip_run c (chip_left c), Some True) else (chip_run c n, Some False))"
proof (induction n arbitrary: c)
  case (Suc n)
  show ?case
  proof (cases "chip_left c = 0")
    case True
    then show ?thesis by (simp add: chip_status)
  next
    case False
    then show ?thesis by (auto simp: chip_status Suc.IH chip_run_add)
  qed
qed simp

lemma start_word_bytes:
  assumes "ch < 4"
  shows "bit (ucast (drop_bit 8 (start_word ch)) :: octet) 7"
    "unat (drop_bit 4 (ucast (drop_bit 8 (start_word ch)) :: octet) AND 7) - 4 = ch"
proof -
  from assms have "ch = 0 \<or> ch = 1 \<or> ch = 2 \<or> ch = 3" by auto
  then show "bit (ucast (drop_bit 8 (start_word ch)) :: octet) 7"
    "unat (drop_bit 4 (ucast (drop_bit 8 (start_word ch)) :: octet) AND 7) - 4 = ch"
    by (elim disjE; simp add: start_word_def; code_simp)+
qed

lemma convert_on_chip:
  assumes "ch < 4" "chip_left c = 0" "0 < chip_time c"
  shows "\<exists>c'. convert_once chip_bus ch s c =
    (if chip_time c \<le> (if ads_is1015 s then 1 else 2) + 11
     then (c', s, Some (raw_to_mv (ads_is1015 s) (chip_volts c ch)))
     else (c', s\<lparr>ads_timeouts := ads_timeouts s + 1\<rparr>, None)) \<and>
    (chip_time c \<le> (if ads_is1015 s then 1 else 2) + 11 \<longrightarrow> chip_left c' = 0) \<and>
    chip_volts c' = chip_volts c \<and> chip_time c' = chip_time c"
proof -
  define first where "first = (if ads_is1015 s then 1 else 2 :: nat)"
  define c0 where "c0 = c\<lparr>chip_mux := ch, chip_left := chip_time c\<rparr>"
  have wr: "chip_write c (ads_fd s) (ads_addr s) [REG_CONFIG, ucast (drop_bit 8 (start_word ch)), ucast (start_word ch)] = (c0, True)"
    using assms start_word_bytes [OF assms(1)] by (simp add: chip_write_def c0_def)
  have wait: "wait_ready 12 chip_bus s (chip_run c0 first) =
      (if chip_time c - first < 12 then (chip_run c0 (first + (chip_time c - first)), Some True)
       else (chip_run c0 (first + 12), Some False))"
    unfolding wait_ready_chip chip_run_add by (simp add: c0_def)
  have all: "chip_time c \<le> first + (chip_time c - first)" by simp
  have end_state: "chip_result (chip_run c0 (first + (chip_time c - first))) = chip_volts c ch"
    using assms(3) all by (simp add: chip_run_def c0_def)
  have same: "chip_volts (chip_run c0 ms) = chip_volts c" "chip_time (chip_run c0 ms) = chip_time c"
    "chip_left c0 = chip_time c" for ms
    by (simp_all add: chip_run_def c0_def)
  show ?thesis
    unfolding convert_once_def Let_def chip_bus_simps wr
    by (auto simp: wait chip_answer be16_bytes end_state same simp flip: first_def)
qed

text \<open>C25. A conversion is never taken early: on an idle chip the value that comes back is that of the channel that
  was asked for, however long the chip takes up to the last poll, and from there on the attempt fails and is counted.\<close>

theorem conversion_is_of_its_channel:
  assumes "ch < 4" "chip_left c = 0" "0 < chip_time c"
  shows "snd (convert_once chip_bus ch s c) =
    (if chip_time c \<le> (if ads_is1015 s then 1 else 2) + 11
     then (s, Some (raw_to_mv (ads_is1015 s) (chip_volts c ch)))
     else (s\<lparr>ads_timeouts := ads_timeouts s + 1\<rparr>, None))"
  using convert_on_chip [OF assms, of s] by auto

definition idle_chip :: chip where
  "idle_chip = \<lparr>chip_left = 0, chip_mux = 0, chip_result = 7, chip_volts = (\<lambda>ch. of_nat (8000 * ch)), chip_time = 3\<rparr>"

definition steady_ads :: ads_t where
  "steady_ads = \<lparr>ads_fd = 3, ads_addr = 0x48, ads_is1015 = False, ads_errors = 0, ads_timeouts = 0,
      ads_vs_cfg = 3, ads_vs_meas = Fin (29 / 10), ads_ref_t = 0, ads_spread_mv = replicate 4 0\<rparr>"

theorem conversion_is_of_its_channel_witness:
  "snd (convert_once chip_bus 2 steady_ads idle_chip) = (steady_ads, Some (raw_to_mv False 16000))"
  by (subst conversion_is_of_its_channel) (simp_all add: steady_ads_def idle_chip_def)

theorem rail_cancels_witness:
  "pf_shh_mv_to_ohms (scale_mv steady_ads (Fin (1000 * (29 / 10 * 20000 / (20000 + 10000))))) (Fin 10000) (Fin 3) = Fin 20000"
  by (rule rail_cancels [where V = "29 / 10" and vs = 3]) (simp_all add: steady_ads_def)

lemma conversions_on_chip:
  "ch < 4 \<Longrightarrow> chip_left c = 0 \<Longrightarrow> 0 < chip_time c \<Longrightarrow> chip_time c \<le> (if ads_is1015 s then 1 else 2) + 11 \<Longrightarrow>
   \<exists>c'. conversions n chip_bus ch s c = (c', s, replicate n (raw_to_mv (ads_is1015 s) (chip_volts c ch)))"
proof (induction n arbitrary: c)
  case (Suc n)
  from convert_on_chip [OF Suc.prems(1-3), of s] Suc.prems(4) obtain c1 where
    c1: "convert_once chip_bus ch s c = (c1, s, Some (raw_to_mv (ads_is1015 s) (chip_volts c ch)))"
      "chip_left c1 = 0" "chip_volts c1 = chip_volts c" "chip_time c1 = chip_time c" by auto
  with Suc.prems Suc.IH [of c1] show ?case by auto
qed simp

theorem reading_ignores_wrong_conversions_witness:
  "\<exists>c mv spread. read_channel chip_bus 2 16 steady_ads idle_chip = (c, steady_ads, Some (mv, spread)) \<and> lies_in 2000 2000 mv"
proof -
  from conversions_on_chip [of 2 idle_chip steady_ads 16] obtain c where
    "conversions 16 chip_bus 2 steady_ads idle_chip = (c, steady_ads, replicate 16 (Fin 2000))"
    by (auto simp: idle_chip_def steady_ads_def raw_to_mv_number)
  then have c: "conversions (min 16 OVERSAMPLE) chip_bus 2 steady_ads idle_chip = (c, steady_ads, replicate 16 (Fin 2000))"
    by (simp add: OVERSAMPLE_def)
  show ?thesis
    using reading_ignores_wrong_conversions [OF c, of 2000 2000] by (auto simp: OVERSAMPLE_def)
qed

end
