(* ===== verification/Probe_Drivers.thy ===== *)
theory Probe_Drivers
  imports Probe_Layer Ads1x15 Wireless_Probes
begin

text \<open>
  The built-in drivers as the records of functions that the probe layer calls, over one type of instances, and the
  table that \<open>src/probes/registry.c\<close> makes of them.  The interface between the layer and its drivers is the locale
  \<open>probe_driver\<close>: a read fills as many samples as it was given, and a temperature it reports is a number.
\<close>

text \<open>The world of the drivers: the buses, the simulated grill, the Bluetooth transport and the units in force.\<close>

record 'x probe_world =
  pw_bus :: "'x probe_bus"
  pw_sim :: "'x \<Rightarrow> sim_state option"
  pw_ble :: "'x \<Rightarrow> nat \<Rightarrow> ble_link"
  pw_register :: "'x \<Rightarrow> string \<Rightarrow> string \<Rightarrow> 'x \<times> nat option"   \<comment> \<open>\<open>pf_ble_register\<close>: the name to match, the address\<close>
  pw_unregister :: "'x \<Rightarrow> nat \<Rightarrow> 'x"
  pw_units :: "'x \<Rightarrow> pf_units"

datatype driver_inst =
  SimProbe simp_t | Ads ads_t | Max31865 max_t | Mcp9600 mcp_t | Ds18b20 ds_t | Virtual virt_t
  | Ibbq nat ibbq_t | Meater nat meater_t | Chefiq nat cq_t

type_synonym 'x probe_driver_ops = "(driver_inst, 'x) pf_probe_ops"

definition no_virt :: virt_t where "no_virt = \<lparr>vt_mode = [], vt_labels = []\<rparr>"

definition virt_of :: "driver_inst \<Rightarrow> virt_t" where
  "virt_of i = (case i of Virtual v \<Rightarrow> v | _ \<Rightarrow> no_virt)"

text \<open>A driver with the fields that all of them set the same way.\<close>

definition driver :: "string \<Rightarrow> int \<Rightarrow> ('x \<Rightarrow> json \<Rightarrow> 'x \<times> driver_inst option) \<Rightarrow> (driver_inst \<Rightarrow> string list) \<Rightarrow>
    ('x \<Rightarrow> driver_inst \<Rightarrow> pf_probe_sample list \<Rightarrow> 'x \<times> driver_inst \<times> pf_probe_sample list \<times> int) \<Rightarrow> 'x probe_driver_ops" where
  "driver id1 poll create ports rd = \<lparr>po_abi = PF_PROBE_ABI, po_id = Some id1, po_poll_ms = poll, po_create = Some create,
     po_destroy = None, po_ports = Some ports, po_read = Some rd, po_link = None\<rparr>"

definition map_inst :: "('s \<Rightarrow> driver_inst) \<Rightarrow> 'x \<times> 's option \<Rightarrow> 'x \<times> driver_inst option" where
  "map_inst f = (\<lambda>(w, s). (w, map_option f s))"

definition sim_driver :: "'x probe_world \<Rightarrow> 'x probe_driver_ops" where
  "sim_driver W = driver ''sim'' 250 (\<lambda>w d. (w, Some (SimProbe simp_create))) (\<lambda>i. ads_ports)
     (\<lambda>w i smp. case i of
        SimProbe s \<Rightarrow> (case sim_probe_read (pw_sim W w) s smp of (s, out, rc) \<Rightarrow> (w, SimProbe s, out, rc))
      | _ \<Rightarrow> (w, i, smp, - 1))"

definition ads_driver :: "'x probe_world \<Rightarrow> 'x probe_driver_ops" where
  "ads_driver W = driver ''ads1x15'' 250 (\<lambda>w d. map_inst Ads (ads_create (pw_bus W) d w)) (\<lambda>i. ads_ports)
     (\<lambda>w i smp. case i of
        Ads s \<Rightarrow> (case ads_read (pw_bus W) s smp w of (w, s, out, rc) \<Rightarrow> (w, Ads s, out, rc))
      | _ \<Rightarrow> (w, i, smp, - 1))"

definition max_driver :: "'x probe_world \<Rightarrow> 'x probe_driver_ops" where
  "max_driver W = (driver ''max31865'' 250 (\<lambda>w d. map_inst Max31865 (max_create (pw_bus W) d w)) (\<lambda>i. [''RTD0''])
     (\<lambda>w i smp. case i of
        Max31865 s \<Rightarrow> (case max_read (pw_bus W) s smp w of (w, s, out, rc) \<Rightarrow> (w, Max31865 s, out, rc))
      | _ \<Rightarrow> (w, i, smp, - 1)))
     \<lparr>po_destroy := Some (\<lambda>w i. case i of Max31865 s \<Rightarrow> max_destroy (pw_bus W) s w | _ \<Rightarrow> w)\<rparr>"

definition mcp_driver :: "'x probe_world \<Rightarrow> 'x probe_driver_ops" where
  "mcp_driver W = driver ''mcp9600'' 500 (\<lambda>w d. map_inst Mcp9600 (mcp_create (pw_bus W) d w)) (\<lambda>i. [''KTT0''])
     (\<lambda>w i smp. case i of
        Mcp9600 s \<Rightarrow> (case mcp_read (pw_bus W) s smp w of (w, s, out, rc) \<Rightarrow> (w, Mcp9600 s, out, rc))
      | _ \<Rightarrow> (w, i, smp, - 1))"

definition ds_driver :: "'x probe_world \<Rightarrow> 'x probe_driver_ops" where
  "ds_driver W = driver ''ds18b20'' 1000 (\<lambda>w d. (w, Some (Ds18b20 (ds_create d)))) (\<lambda>i. [''DS0''])
     (\<lambda>w i smp. case i of
        Ds18b20 s \<Rightarrow> (case ds_read s smp of (out, rc) \<Rightarrow> (w, i, out, rc))
      | _ \<Rightarrow> (w, i, smp, - 1))"

definition virt_driver :: "'x probe_world \<Rightarrow> 'x probe_driver_ops" where
  "virt_driver W = driver ''virtual'' 250 (\<lambda>w d. (w, Some (Virtual (virt_create d)))) (\<lambda>i. [''VIRT0''])
     (\<lambda>w i smp. (w, i, invalid_first smp, 0))"

text \<open>The address the settings give a Bluetooth device, and the registration with the transport.\<close>

definition ble_create :: "'x probe_world \<Rightarrow> string \<Rightarrow> (nat \<Rightarrow> driver_inst) \<Rightarrow> json \<Rightarrow> 'x \<Rightarrow> 'x \<times> driver_inst option" where
  "ble_create W name f d w =
     map_inst f (pw_register W w name (fst (pf_strlcpy [] (pf_json_str (Some d) ''config.hardware_id'' []) 20)))"

definition ble_handle :: "driver_inst \<Rightarrow> nat option" where
  "ble_handle i = (case i of Ibbq h _ \<Rightarrow> Some h | Meater h _ \<Rightarrow> Some h | Chefiq h _ \<Rightarrow> Some h | _ \<Rightarrow> None)"

definition ble_destroy :: "'x probe_world \<Rightarrow> 'x \<Rightarrow> driver_inst \<Rightarrow> 'x" where
  "ble_destroy W w i = (case ble_handle i of Some h \<Rightarrow> pw_unregister W w h | None \<Rightarrow> w)"

definition ibbq_driver :: "'x probe_world \<Rightarrow> 'x probe_driver_ops" where
  "ibbq_driver W = (driver ''ibbq'' 1000 (\<lambda>w d. ble_create W ''BBQ'' (\<lambda>h. Ibbq h (ib_create d (pw_units W w))) d w)
     (\<lambda>i. case i of Ibbq h s \<Rightarrow> ib_ports s | _ \<Rightarrow> [])
     (\<lambda>w i smp. case i of
        Ibbq h s \<Rightarrow> (case ib_read (pw_ble W w h) s smp of (out, rc) \<Rightarrow> (w, i, out, rc))
      | _ \<Rightarrow> (w, i, smp, - 1)))
     \<lparr>po_destroy := Some (ble_destroy W), po_link := Some (\<lambda>w i. case i of Ibbq h s \<Rightarrow> Some (ib_link (pw_ble W w h) s) | _ \<Rightarrow> None)\<rparr>"

definition meater_driver :: "'x probe_world \<Rightarrow> 'x probe_driver_ops" where
  "meater_driver W = (driver ''meater'' 1000 (\<lambda>w d. ble_create W ''MEATER'' (\<lambda>h. Meater h mt_create) d w) (\<lambda>i. mt_ports)
     (\<lambda>w i smp. case i of
        Meater h s \<Rightarrow> (case mt_read (pw_ble W w h) s smp of (out, rc) \<Rightarrow> (w, i, out, rc))
      | _ \<Rightarrow> (w, i, smp, - 1)))
     \<lparr>po_destroy := Some (ble_destroy W), po_link := Some (\<lambda>w i. case i of Meater h s \<Rightarrow> Some (mt_link (pw_ble W w h)) | _ \<Rightarrow> None)\<rparr>"

definition chefiq_driver :: "'x probe_world \<Rightarrow> 'x probe_driver_ops" where
  "chefiq_driver W = (driver ''chefiq'' 1000 (\<lambda>w d. ble_create W ''CQ'' (\<lambda>h. Chefiq h cq_create) d w) (\<lambda>i. cq_ports)
     (\<lambda>w i smp. case i of
        Chefiq h s \<Rightarrow> (case cq_read (b_now (pw_bus W) w) s smp of (out, rc) \<Rightarrow> (w, i, out, rc))
      | _ \<Rightarrow> (w, i, smp, - 1)))
     \<lparr>po_destroy := Some (ble_destroy W), po_link := Some (\<lambda>w i. case i of Chefiq h s \<Rightarrow> Some (cq_link (pw_ble W w h) s) | _ \<Rightarrow> None)\<rparr>"

definition builtin_drivers :: "'x probe_world \<Rightarrow> 'x probe_driver_ops list" where
  "builtin_drivers W = [sim_driver W, ads_driver W, max_driver W, mcp_driver W, ds_driver W, virt_driver W, ibbq_driver W,
     meater_driver W, chefiq_driver W]"

text \<open>What reaches an instance between the polls: a round of the thermometer's thread, a value over Bluetooth.\<close>

datatype inst_event =
  DsRound "string list option" "string \<Rightarrow> string option" fl
  | BleValue string "octet list" fl | BleUp ble_link | BleDown | SetUnits pf_units ble_link

definition inst_step :: "inst_event \<Rightarrow> driver_inst \<Rightarrow> driver_inst" where
  "inst_step e i =
     (case (i, e) of
        (Ds18b20 s, DsRound names src now) \<Rightarrow> Ds18b20 (ds_round names src now s)
      | (Chefiq h s, BleValue uuid msg now) \<Rightarrow> Chefiq h (cq_on_value msg now s)
      | (Chefiq h s, BleDown) \<Rightarrow> Chefiq h (cq_on_disconnected s)
      | (Ibbq h s, BleValue uuid msg now) \<Rightarrow> Ibbq h (ib_on_value uuid msg s)
      | (Ibbq h s, BleDown) \<Rightarrow> Ibbq h (ib_on_disconnected s)
      | (Ibbq h s, SetUnits u lk) \<Rightarrow> Ibbq h (fst (ib_set_units u lk s))
      | (Meater h s, BleValue uuid msg now) \<Rightarrow> Meater h (mt_on_value msg s)
      | (Meater h s, BleUp lk) \<Rightarrow> Meater h (mt_on_connected lk s)
      | (Meater h s, BleDown) \<Rightarrow> Meater h (mt_on_disconnected s)
      | _ \<Rightarrow> i)"

definition deliver :: "nat \<Rightarrow> inst_event \<Rightarrow> (driver_inst, 'w) probe_layer \<Rightarrow> (driver_inst, 'w) probe_layer" where
  "deliver n e l =
     (if n < length (pl_dev l)
      then l\<lparr>pl_dev := (pl_dev l)[n := (pl_dev l ! n)\<lparr>dv_inst := inst_step e (dv_inst (pl_dev l ! n))\<rparr>]\<rparr> else l)"

end
