(* ===== verification/Probe_Layer_Correct.thy ===== *)
theory Probe_Layer_Correct
  imports Probe_Drivers
begin

text \<open>
  The contract between the probe layer and its drivers (the locale \<open>probe_driver\<close>), which every built-in driver
  keeps, and what it makes of the readings: a reading marked valid is always a number, whatever the devices answer.
\<close>

section \<open>The contract of a driver\<close>

locale probe_driver =
  fixes ops :: "('i, 'w) pf_probe_ops" and good :: "'i \<Rightarrow> bool"
  assumes create_good: "the (po_create ops) w d = (w', Some i) \<Longrightarrow> good i"
    and read_length: "the (po_read ops) w i smp = (w', i', out, rc) \<Longrightarrow> length out = length smp"
    and read_good: "the (po_read ops) w i smp = (w', i', out, rc) \<Longrightarrow> good i \<Longrightarrow> good i'"
    and read_number: "the (po_read ops) w i smp = (w', i', out, rc) \<Longrightarrow> good i \<Longrightarrow> \<forall>x \<in> set smp. sa_kind x \<noteq> SAMPLE_CELSIUS \<Longrightarrow>
      x \<in> set out \<Longrightarrow> sa_kind x = SAMPLE_CELSIUS \<Longrightarrow> isfinite (sa_value x)"

text \<open>No temperature among the samples but numbers.\<close>

definition numbers :: "pf_probe_sample list \<Rightarrow> bool" where
  "numbers out \<longleftrightarrow> (\<forall>x \<in> set out. sa_kind x = SAMPLE_CELSIUS \<longrightarrow> isfinite (sa_value x))"

lemma wanted_no_celsius: "\<forall>x \<in> set (wanted_samples pvs ps i n). sa_kind x \<noteq> SAMPLE_CELSIUS"
  by (auto simp: wanted_samples_def)

context probe_driver
begin

lemma read_device_ok:
  assumes "dv_ops d = ops" "good (dv_inst d)" "read_device now (wanted_samples pvs ps i n) d w = (w', d', out)"
  shows "good (dv_inst d') \<and> numbers out \<and> length out = n \<and> dv_ops d' = ops \<and> dv_name d' = dv_name d \<and> dv_ports d' = dv_ports d"
proof -
  obtain w1 i1 o1 rc where rd: "the (po_read ops) w (dv_inst d) (wanted_samples pvs ps i n) = (w1, i1, o1, rc)"
    by (metis prod_cases4)
  have len: "length o1 = n" using read_length [OF rd] by (simp add: wanted_samples_def)
  have num: "numbers o1" using read_number [OF rd assms(2) wanted_no_celsius] by (simp add: numbers_def)
  then have "numbers (if rc < 0 then map (\<lambda>x. x\<lparr>sa_kind := SAMPLE_INVALID\<rparr>) o1 else o1)" by (auto simp: numbers_def)
  with assms rd len read_good [OF rd assms(2)] show ?thesis
    by (auto simp: read_device_def Let_def split: option.splits)
qed

end

section \<open>The built-in drivers keep it\<close>

definition good_inst :: "driver_inst \<Rightarrow> bool" where
  "good_inst i =
     (case i of
        SimProbe s \<Rightarrow> isfinite (sp_noise s)
      | Ds18b20 s \<Rightarrow> ds_valid s \<longrightarrow> isfinite (ds_temp_c s)
      | Ibbq h s \<Rightarrow> length (ib_temp_c s) = 6 \<and> (\<forall>t \<in> set (ib_temp_c s). isfinite t)
      | Meater h s \<Rightarrow> isfinite (mt_tip_c s) \<and> isfinite (mt_ambient_c s)
      | Chefiq h s \<Rightarrow> (cq_valid s \<longrightarrow> isfinite (cq_food_c s)) \<and> (cq_ambient_c s = NaN \<or> isfinite (cq_ambient_c s))
      | _ \<Rightarrow> True)"

lemma length_put_first [simp]: "length (put_first out x) = length out" "length (invalid_first out) = length out"
  by (cases out; simp add: put_first_def invalid_first_def)+

lemma set_put_first: "x \<in> set (put_first out y) \<Longrightarrow> x = y \<or> x \<in> set out"
  by (cases out) (auto simp: put_first_def)

lemma set_invalid_first: "x \<in> set (invalid_first out) \<Longrightarrow> sa_kind x = SAMPLE_INVALID \<or> x \<in> set out"
  by (cases out) (auto simp: invalid_first_def)

lemma read_ports_ok:
  "read_ports b i smp s w = (w', s', out, n) \<Longrightarrow> length out = length smp \<and>
     ((\<forall>x \<in> set smp. sa_kind x \<noteq> SAMPLE_CELSIUS) \<longrightarrow> (\<forall>x \<in> set out. sa_kind x \<noteq> SAMPLE_CELSIUS))"
proof (induction smp arbitrary: i s w w' s' out n)
  case (Cons x xs)
  then show ?case by (fastforce split: if_splits prod.splits option.splits)
qed simp

lemma ads_read_ok:
  assumes "ads_read b s smp w = (w', s', out, rc)"
  shows "length out = length smp \<and>
     ((\<forall>x \<in> set smp. sa_kind x \<noteq> SAMPLE_CELSIUS) \<longrightarrow> (\<forall>x \<in> set out. sa_kind x \<noteq> SAMPLE_CELSIUS))"
proof -
  obtain w1 s1 where r: "read_rail b smp s w = (w1, s1)" by force
  obtain w2 s2 o2 n2 where p: "read_ports b 0 smp s1 w1 = (w2, s2, o2, n2)" by (metis prod_cases4)
  have "o2 = out" using assms by (auto simp: ads_read_def r p split: if_splits)
  with read_ports_ok [OF p] show ?thesis by simp
qed

text \<open>How each of them reads, and what a sample that it leaves as a temperature can be.\<close>

definition reads_well :: "driver_inst \<Rightarrow> pf_probe_sample list \<Rightarrow> driver_inst \<Rightarrow> pf_probe_sample list \<Rightarrow> bool" where
  "reads_well i smp i' out \<longleftrightarrow> length out = length smp \<and> (good_inst i \<longrightarrow> good_inst i' \<and>
     ((\<forall>x \<in> set smp. sa_kind x \<noteq> SAMPLE_CELSIUS) \<longrightarrow> numbers out))"

lemma silent_numbers: "\<forall>x \<in> set smp. sa_kind x \<noteq> SAMPLE_CELSIUS \<Longrightarrow> numbers smp"
  by (simp add: numbers_def)

lemma probe_driverI:
  assumes "\<And>w d w' i. the (po_create ops) w d = (w', Some i) \<Longrightarrow> good_inst i"
    and "\<And>w i smp w' i' out rc. the (po_read ops) w i smp = (w', i', out, rc) \<Longrightarrow> reads_well i smp i' out"
  shows "probe_driver ops good_inst"
proof
  fix w d w' i smp i' out rc x
  show "good_inst i" if "the (po_create ops) w d = (w', Some i)" using assms(1) [OF that] .
  show "length out = length smp" if "the (po_read ops) w i smp = (w', i', out, rc)"
    using assms(2) [OF that] by (simp add: reads_well_def)
  show "good_inst i'" if "the (po_read ops) w i smp = (w', i', out, rc)" "good_inst i"
    using assms(2) [OF that(1)] that(2) by (simp add: reads_well_def)
  show "isfinite (sa_value x)" if "the (po_read ops) w i smp = (w', i', out, rc)" "good_inst i"
      "\<forall>x \<in> set smp. sa_kind x \<noteq> SAMPLE_CELSIUS" "x \<in> set out" "sa_kind x = SAMPLE_CELSIUS"
    using assms(2) [OF that(1)] that(2-5) unfolding reads_well_def numbers_def by blast
qed

lemma reads_well_silent:
  "good_inst i' \<or> \<not> good_inst i \<Longrightarrow> length out = length smp \<Longrightarrow>
   (\<forall>x \<in> set smp. sa_kind x \<noteq> SAMPLE_CELSIUS) \<longrightarrow> (\<forall>x \<in> set out. sa_kind x \<noteq> SAMPLE_CELSIUS) \<Longrightarrow> reads_well i smp i' out"
  by (auto simp: reads_well_def numbers_def)

interpretation ads: probe_driver "ads_driver W" good_inst for W
proof (rule probe_driverI)
  fix w d w' i smp i' out rc
  show "good_inst i" if "the (po_create (ads_driver W)) w d = (w', Some i)"
    using that by (auto simp: ads_driver_def driver_def map_inst_def good_inst_def split: prod.splits)
  show "reads_well i smp i' out" if "the (po_read (ads_driver W)) w i smp = (w', i', out, rc)"
    using that by (auto simp: ads_driver_def driver_def good_inst_def intro!: reads_well_silent
        split: driver_inst.splits prod.splits dest: ads_read_ok)
qed

lemma max_read_ok:
  assumes "max_read b s smp w = (w', s', out, rc)"
  shows "length out = length smp \<and>
     ((\<forall>x \<in> set smp. sa_kind x \<noteq> SAMPLE_CELSIUS) \<longrightarrow> (\<forall>x \<in> set out. sa_kind x \<noteq> SAMPLE_CELSIUS))"
  using assms
  by (auto simp: max_read_def Let_def split: if_splits prod.splits option.splits
      dest!: set_put_first set_invalid_first)

interpretation max: probe_driver "max_driver W" good_inst for W
proof (rule probe_driverI)
  fix w d w' i smp i' out rc
  show "good_inst i" if "the (po_create (max_driver W)) w d = (w', Some i)"
    using that by (auto simp: max_driver_def driver_def map_inst_def good_inst_def split: prod.splits)
  show "reads_well i smp i' out" if "the (po_read (max_driver W)) w i smp = (w', i', out, rc)"
    using that by (auto simp: max_driver_def driver_def good_inst_def intro!: reads_well_silent
        split: driver_inst.splits prod.splits dest: max_read_ok)
qed

lemma mcp_read_ok:
  assumes "mcp_read b s smp w = (w', s', out, rc)"
  shows "length out = length smp \<and> ((\<forall>x \<in> set smp. sa_kind x \<noteq> SAMPLE_CELSIUS) \<longrightarrow> numbers out)"
  using assms
  by (auto simp: mcp_read_def Let_def numbers_def celsius_def int_to_fl_def split: if_splits prod.splits option.splits
      dest!: set_put_first set_invalid_first)

interpretation mcp: probe_driver "mcp_driver W" good_inst for W
proof (rule probe_driverI)
  fix w d w' i smp i' out rc
  show "good_inst i" if "the (po_create (mcp_driver W)) w d = (w', Some i)"
    using that by (auto simp: mcp_driver_def driver_def map_inst_def good_inst_def split: prod.splits)
  show "reads_well i smp i' out" if "the (po_read (mcp_driver W)) w i smp = (w', i', out, rc)"
    using that by (auto simp: mcp_driver_def driver_def good_inst_def reads_well_def numbers_def
        split: driver_inst.splits prod.splits dest: mcp_read_ok)
qed

interpretation ds: probe_driver "ds_driver W" good_inst for W
proof (rule probe_driverI)
  fix w d w' i smp i' out rc
  show "good_inst i" if "the (po_create (ds_driver W)) w d = (w', Some i)"
    using that by (auto simp: ds_driver_def driver_def good_inst_def ds_create_def)
  show "reads_well i smp i' out" if "the (po_read (ds_driver W)) w i smp = (w', i', out, rc)"
    using that by (auto simp: ds_driver_def driver_def good_inst_def reads_well_def numbers_def ds_read_def celsius_def
        split: driver_inst.splits prod.splits if_splits dest!: set_put_first set_invalid_first)
qed

interpretation virt: probe_driver "virt_driver W" good_inst for W
proof (rule probe_driverI)
  fix w d w' i smp i' out rc
  show "good_inst i" if "the (po_create (virt_driver W)) w d = (w', Some i)"
    using that by (auto simp: virt_driver_def driver_def good_inst_def)
  show "reads_well i smp i' out" if "the (po_read (virt_driver W)) w i smp = (w', i', out, rc)"
    using that by (auto simp: virt_driver_def driver_def reads_well_def numbers_def dest!: set_invalid_first)
qed

lemma ib_fill_ok:
  "length (ib_temp_c s) = 6 \<Longrightarrow> \<forall>t \<in> set (ib_temp_c s). isfinite t \<Longrightarrow> \<forall>x \<in> set smp. sa_kind x \<noteq> SAMPLE_CELSIUS \<Longrightarrow>
   numbers (ib_fill conn s i smp)"
  by (induction smp arbitrary: i) (auto simp: numbers_def sample_if_def)

lemma length_ib_fill [simp]: "length (ib_fill conn s i smp) = length smp"
  by (induction smp arbitrary: i) auto

interpretation ibbq: probe_driver "ibbq_driver W" good_inst for W
proof (rule probe_driverI)
  fix w d w' i smp i' out rc
  show "good_inst i" if "the (po_create (ibbq_driver W)) w d = (w', Some i)"
    using that by (auto simp: ibbq_driver_def driver_def ble_create_def map_inst_def good_inst_def ib_create_def Let_def
        split: prod.splits)
  show "reads_well i smp i' out" if "the (po_read (ibbq_driver W)) w i smp = (w', i', out, rc)"
    using that by (auto simp: ibbq_driver_def driver_def good_inst_def reads_well_def ib_read_def
        split: driver_inst.splits prod.splits intro: ib_fill_ok silent_numbers)
qed

lemma put_sample_numbers:
  assumes "numbers smp" "p \<Longrightarrow> isfinite a"
  shows "numbers (smp[i := sample_if p a])"
  unfolding numbers_def
proof (intro ballI impI)
  fix x assume "x \<in> set (smp[i := sample_if p a])" "sa_kind x = SAMPLE_CELSIUS"
  moreover have "x = sample_if p a \<or> x \<in> set smp"
    using set_update_subset_insert [of smp i "sample_if p a"] calculation(1) by blast
  ultimately show "isfinite (sa_value x)" using assms by (auto simp: numbers_def sample_if_def split: if_splits)
qed

lemma two_samples_ok:
  "\<forall>x \<in> set smp. sa_kind x \<noteq> SAMPLE_CELSIUS \<Longrightarrow> (p \<Longrightarrow> isfinite a) \<Longrightarrow> (q \<Longrightarrow> isfinite b) \<Longrightarrow>
   numbers ((smp[0 := sample_if p a])[1 := sample_if q b])"
  by (intro put_sample_numbers silent_numbers)

interpretation meater: probe_driver "meater_driver W" good_inst for W
proof (rule probe_driverI)
  fix w d w' i smp i' out rc
  show "good_inst i" if "the (po_create (meater_driver W)) w d = (w', Some i)"
    using that by (auto simp: meater_driver_def driver_def ble_create_def map_inst_def good_inst_def mt_create_def
        split: prod.splits)
  show "reads_well i smp i' out" if "the (po_read (meater_driver W)) w i smp = (w', i', out, rc)"
    using that by (auto simp: meater_driver_def driver_def good_inst_def reads_well_def mt_read_def Let_def
        split: driver_inst.splits prod.splits intro: two_samples_ok [unfolded One_nat_def] silent_numbers)
qed

interpretation chefiq: probe_driver "chefiq_driver W" good_inst for W
proof (rule probe_driverI)
  fix w d w' i smp i' out rc
  show "good_inst i" if "the (po_create (chefiq_driver W)) w d = (w', Some i)"
    using that by (auto simp: chefiq_driver_def driver_def ble_create_def map_inst_def good_inst_def cq_create_def
        split: prod.splits)
  show "reads_well i smp i' out" if "the (po_read (chefiq_driver W)) w i smp = (w', i', out, rc)"
    using that by (auto simp: chefiq_driver_def driver_def good_inst_def reads_well_def cq_read_def Let_def cq_fresh_def
        split: driver_inst.splits prod.splits intro: two_samples_ok [unfolded One_nat_def] silent_numbers)
qed

text \<open>The simulator keeps it as long as its grill's temperatures are numbers.\<close>

definition sim_ok :: "'x probe_world \<Rightarrow> bool" where
  "sim_ok W \<longleftrightarrow> (\<forall>w m. pw_sim W w = Some m \<longrightarrow> isfinite (sim_pit_c m) \<and> length (sim_food_c m) = 3 \<and> (\<forall>t \<in> set (sim_food_c m). isfinite t))"

lemma sim_noise_ok: "isfinite (sp_noise s) \<Longrightarrow> isfinite (snd (sim_noise s)) \<and> sp_noise (fst (sim_noise s)) = sp_noise s"
  by (auto simp: sim_noise_def Let_def isfinite_iff int_to_fl_def)

lemma isfinite_plus: "isfinite a \<Longrightarrow> isfinite b \<Longrightarrow> isfinite (a + b)"
  by (auto simp: isfinite_iff)

lemma sim_fill_ok:
  "sim_fill i m smp s = (s', out) \<Longrightarrow> isfinite (sp_noise s) \<Longrightarrow> isfinite (sim_pit_c m) \<Longrightarrow> length (sim_food_c m) = 3 \<Longrightarrow>
   \<forall>t \<in> set (sim_food_c m). isfinite t \<Longrightarrow> numbers out \<and> length out = length smp \<and> sp_noise s' = sp_noise s"
proof (induction smp arbitrary: i s s' out)
  case (Cons x xs)
  show ?case
  proof (cases "4 \<le> i")
    case True
    with Cons show ?thesis by (fastforce simp: numbers_def split: prod.splits)
  next
    case False
    obtain s1 e where e: "sim_noise s = (s1, e)" by force
    obtain s2 ys where ys: "sim_fill (Suc i) m xs s1 = (s2, ys)" by force
    let ?t = "if i = 0 then sim_pit_c m else sim_food_c m ! (i - 1)"
    from sim_noise_ok [OF Cons.prems(2)] e have s1: "isfinite e" "sp_noise s1 = sp_noise s" by simp_all
    have "isfinite ?t" using False Cons.prems(3-5) by auto
    with s1 have "isfinite (?t + e)" by (simp add: isfinite_plus)
    moreover from Cons.IH [OF ys] s1 Cons.prems have "numbers ys \<and> length ys = length xs \<and> sp_noise s2 = sp_noise s1" by simp
    moreover have "out = celsius (?t + e) # ys" "s' = s2" using Cons.prems(1) False e ys by auto
    ultimately show ?thesis using s1 by (simp add: numbers_def celsius_def)
  qed
qed (simp add: numbers_def)

lemma length_sim_fill: "sim_fill i m smp s = (s', out) \<Longrightarrow> length out = length smp"
  by (induction smp arbitrary: i s s' out) (auto simp: Let_def split: if_splits prod.splits)

lemma sim_keeps:
  assumes "sim_ok W"
  shows "probe_driver (sim_driver W) good_inst"
proof (rule probe_driverI)
  fix w d w' i smp i' out rc
  show "good_inst i" if "the (po_create (sim_driver W)) w d = (w', Some i)"
    using that by (auto simp: sim_driver_def driver_def good_inst_def simp_create_def)
  assume rd: "the (po_read (sim_driver W)) w i smp = (w', i', out, rc)"
  show "reads_well i smp i' out"
  proof (cases i)
    case (SimProbe s)
    show ?thesis
    proof (cases "pw_sim W w")
      case None
      with rd SimProbe show ?thesis by (auto simp: sim_driver_def driver_def sim_probe_read_def intro!: reads_well_silent)
    next
      case (Some m)
      obtain s' ys where f: "sim_fill 0 m smp s = (s', ys)" by force
      with rd SimProbe Some have "i' = SimProbe s'" "out = ys" by (auto simp: sim_driver_def driver_def sim_probe_read_def)
      with sim_fill_ok [OF f] length_sim_fill [OF f] assms Some SimProbe show ?thesis
        by (auto simp: reads_well_def good_inst_def sim_ok_def)
    qed
  qed (use rd in \<open>auto simp: sim_driver_def driver_def intro!: reads_well_silent\<close>)
qed

lemma builtin_keeps: "sim_ok W \<Longrightarrow> p \<in> set (builtin_drivers W) \<Longrightarrow> probe_driver p good_inst"
  using sim_keeps ads.probe_driver_axioms max.probe_driver_axioms mcp.probe_driver_axioms ds.probe_driver_axioms
    virt.probe_driver_axioms ibbq.probe_driver_axioms meater.probe_driver_axioms chefiq.probe_driver_axioms
  by (auto simp: builtin_drivers_def)

end
