(* ===== verification/Probe_Numbers.thy ===== *)
theory Probe_Numbers
  imports Probe_Layer_Correct Drivers_Correct
begin

text \<open>
  A reading that the probe layer calls valid is a number.  The invariant: every device's instance keeps its driver's
  contract, every filter holds numbers, and so does every valid reading; a poll, an event of a device and the
  operations of the cook keep it.
\<close>

section \<open>The filter holds numbers\<close>

definition q_ok :: "pf_tempq \<Rightarrow> bool" where
  "q_ok q \<longleftrightarrow> isfinite (tq_slew_c_s q) \<and> 0 < tq_slew_c_s q \<and>
     (if tq_len q = 0 then tq_out_c q = NaN
      else length (tq_med q) = 5 \<and> length (tq_q q) = 10 \<and> list_all isfinite (tq_med q) \<and> list_all isfinite (tq_q q) \<and> isfinite (tq_out_c q))"

lemma sum_finite: "list_all isfinite xs \<Longrightarrow> isfinite a \<Longrightarrow> isfinite (foldl (+) a xs)"
  by (induction xs arbitrary: a) (auto simp: isfinite_plus)

lemma mean_finite: "list_all isfinite xs \<Longrightarrow> n \<noteq> 0 \<Longrightarrow> isfinite (fl_sum xs / num n)"
  using sum_finite [of xs 0] by (auto simp: fl_sum_def num_def int_to_fl_def isfinite_iff)

lemma sink_set: "set (foldl sink_in [] v) = set v"
  using mset_sink [of "[]" v] by (metis add.left_neutral mset.simps(1) set_mset_mset)

lemma sink_nth_finite: "list_all isfinite v \<Longrightarrow> i < length v \<Longrightarrow> isfinite (foldl sink_in [] v ! i)"
  using nth_mem [of i "foldl sink_in [] v"] by (simp add: length_sink sink_set list_all_iff)

lemma median_finite: "list_all isfinite v \<Longrightarrow> length v = 5 \<Longrightarrow> isfinite (tempq_median v)"
  using sink_nth_finite [of v 2] by (simp add: tempq_median_def)

lemma gate_finite:
  assumes "isfinite f" "isfinite (tq_slew_c_s t)" "0 < tq_slew_c_s t" "tq_out_c t = NaN \<or> isfinite (tq_out_c t)"
  shows "isfinite (snd (gate t f now))"
proof -
  obtain s where s: "tq_slew_c_s t = Fin s" using assms(2) by (auto simp: isfinite_iff)
  obtain d where d: "gate_dt t now = Fin d" using gate_dt_range [of t now] by auto
  from assms s d show ?thesis by (auto simp: gate_def Let_def isfinite_iff)
qed

lemma shift_in_finite: "list_all isfinite xs \<Longrightarrow> isfinite x \<Longrightarrow> list_all isfinite (shift_in x xs)"
  by (auto simp: shift_in_def list_all_iff dest: in_set_butlastD)

lemma push_ok:
  assumes "q_ok q" "isfinite c" "pf_tempq_push q c now = (q', v)"
  shows "q_ok q' \<and> isfinite v"
proof (cases "tq_len q = 0")
  have cn: "c \<noteq> NaN" using assms(2) by auto
  case True
  with assms(3) cn have g: "gate (prefill c q) c now = (q', v)" by (simp add: pf_tempq_push_def)
  have "isfinite (snd (gate (prefill c q) c now))"
    using assms(1,2) True by (intro gate_finite) (auto simp: q_ok_def prefill_def)
  moreover have "q' = fst (gate (prefill c q) c now)" "v = snd (gate (prefill c q) c now)" by (simp_all add: g)
  ultimately show ?thesis
    using assms(1,2) by (simp add: q_ok_def gate_out)
      (simp add: prefill_def PF_TEMPQ_MED_def PF_TEMPQ_LEN_def list_all_iff)
next
  case False
  let ?s = "smooth c q"
  have cn: "c \<noteq> NaN" using assms(2) by auto
  with False assms(3) have g: "gate ?s (tq_last_avg ?s) now = (q', v)" by (simp add: pf_tempq_push_def Let_def)
  have med: "list_all isfinite (tq_med ?s)" "length (tq_med ?s) = 5"
    using assms(1,2) False by (auto simp: q_ok_def shift_in_finite) (simp add: shift_in_def)
  have q: "list_all isfinite (tq_q ?s)" "length (tq_q ?s) = 10"
    using assms(1) False median_finite [OF med] by (auto simp: q_ok_def shift_in_finite) (simp add: shift_in_def)
  have avg: "isfinite (tq_last_avg ?s)" using mean_finite [OF q(1)] by (simp add: smooth_fields(3) PF_TEMPQ_LEN_def)
  have "isfinite (snd (gate ?s (tq_last_avg ?s) now))"
    using assms(1) False by (intro gate_finite avg) (auto simp: q_ok_def)
  moreover have "q' = fst (gate ?s (tq_last_avg ?s) now)" "v = snd (gate ?s (tq_last_avg ?s) now)" by (simp_all add: g)
  ultimately show ?thesis
    using assms(1) False med q by (simp add: q_ok_def gate_out)
qed

lemma reset_ok: "q_ok q \<Longrightarrow> q_ok (pf_tempq_reset q)"
  by (simp add: q_ok_def pf_tempq_reset_def pf_tempq_init_def)

section \<open>What a sample is worth\<close>

lemma ohms_to_c_finite: "pf_shh_ohms_to_c ohms p = NaN \<or> isfinite (pf_shh_ohms_to_c ohms p)"
proof -
  have "x = NaN \<or> isfinite x" if "\<not> pf_c_to_f x < - 58" "\<not> 750 < pf_c_to_f x" for x
    using that by (cases x) (auto simp: pf_c_to_f_def)
  then show ?thesis by (auto simp: pf_shh_ohms_to_c_def Let_def)
qed

lemma sample_value_finite:
  "(sa_kind x = SAMPLE_CELSIUS \<Longrightarrow> isfinite (sa_value x)) \<Longrightarrow>
   fst (sample_value x rd vs p) = NaN \<or> isfinite (fst (sample_value x rd vs p))"
  using ohms_to_c_finite by (cases "sa_kind x") (auto simp: sample_value_def Let_def)

definition valid_numbers :: "pf_sensors \<Rightarrow> bool" where
  "valid_numbers s \<longleftrightarrow> (\<forall>r \<in> set (sn_p s). pr_valid r \<longrightarrow> isfinite (pr_temp_c r))"

lemma find_index_from_Some: "find_index_from i p xs = Some j \<Longrightarrow> i \<le> j \<and> j < i + length xs \<and> p (xs ! (j - i))"
proof (induction xs arbitrary: i)
  case (Cons x xs)
  show ?case
  proof (cases "p x")
    case True
    with Cons.prems show ?thesis by simp
  next
    case False
    with Cons.prems have "find_index_from (Suc i) p xs = Some j" by simp
    from Cons.IH [OF this] show ?thesis by (auto simp: nth_Cons')
  qed
qed simp

lemma virtual_inputs_finite: "valid_numbers s \<Longrightarrow> list_all isfinite (virtual_inputs s self labels)"
  unfolding virtual_inputs_def list_all_iff
proof
  fix x assume v: "valid_numbers s" and "x \<in> set (List.map_filter (\<lambda>l. case find_index_from 0 (\<lambda>(j, r). j \<noteq> self \<and> pr_label r = l \<and> pr_valid r)
      (enumerate 0 (sn_p s)) of Some j \<Rightarrow> Some (pr_temp_c (sn_p s ! j)) | None \<Rightarrow> None) (take 8 labels))"
  then obtain l j where j: "find_index_from 0 (\<lambda>(j, r). j \<noteq> self \<and> pr_label r = l \<and> pr_valid r) (enumerate 0 (sn_p s)) = Some j"
    and x: "x = pr_temp_c (sn_p s ! j)"
    by (auto simp: List.map_filter_def split: option.splits)
  from find_index_from_Some [OF j] have "j < length (sn_p s)" "pr_valid (sn_p s ! j)" by (auto simp: nth_enumerate_eq)
  with v x show "isfinite x" by (auto simp: valid_numbers_def)
qed

lemma foldl_choice_finite:
  "list_all isfinite xs \<Longrightarrow> isfinite a \<Longrightarrow> isfinite (foldl (\<lambda>m v. if p m v then v else m) a xs)"
  by (induction xs arbitrary: a) auto

lemma virtual_value_finite:
  assumes "valid_numbers s"
  shows "virtual_value md s self labels = NaN \<or> isfinite (virtual_value md s self labels)"
proof -
  let ?v = "virtual_inputs s self labels"
  have fin: "list_all isfinite ?v" by (rule virtual_inputs_finite [OF assms])
  show ?thesis
  proof (cases "?v = []")
    case True
    then show ?thesis by (simp add: virtual_value_def)
  next
    case False
    then have ht: "isfinite (hd ?v)" "list_all isfinite (tl ?v)" using fin by (cases ?v; simp)+
    have k: "length ?v div 2 < length ?v" "length ?v div 2 - 1 < length ?v" using False by (cases ?v; simp)+
    have half: "isfinite (Fin (1 / 2) * (a + b))" if "isfinite a" "isfinite b" for a b
      using that by (cases a; cases b) simp_all
    have mean: "isfinite (fl_sum ?v / int_to_fl (int (length ?v)))"
      using mean_finite [OF fin, of "length ?v"] False by (simp add: num_def)
    show ?thesis
      using False foldl_choice_finite [OF ht(2,1), of "\<lambda>m v. v > m"] foldl_choice_finite [OF ht(2,1), of "\<lambda>m v. v < m"]
        sink_nth_finite [OF fin k(1)] half [OF sink_nth_finite [OF fin k(2)] sink_nth_finite [OF fin k(1)]] mean
      unfolding virtual_value_def Let_def by auto
  qed
qed

section \<open>The invariant\<close>

text \<open>A probe names no device and no port that are not there.\<close>

definition in_range :: "('i, 'w) device_t list \<Rightarrow> probe_priv_t \<Rightarrow> bool" where
  "in_range devs pv \<longleftrightarrow> 0 \<le> pp_dev pv \<and> 0 \<le> pp_port pv \<longrightarrow>
     pp_dev pv < int (length devs) \<and> pp_port pv < int (length (dv_ports (devs ! nat (pp_dev pv))))"

definition device_ok :: "(driver_inst, 'w) device_t \<Rightarrow> bool" where
  "device_ok d \<longleftrightarrow> probe_driver (dv_ops d) good_inst \<and> good_inst (dv_inst d)"

definition layer_ok :: "(driver_inst, 'w) probe_layer \<Rightarrow> bool" where
  "layer_ok l \<longleftrightarrow> list_all device_ok (pl_dev l) \<and> length (pl_priv l) = length (sn_p (pb_snap (pl_bank l))) \<and>
     list_all (\<lambda>pv. q_ok (pp_q pv) \<and> in_range (pl_dev l) pv) (pl_priv l) \<and> valid_numbers (pb_snap (pl_bank l))"

text \<open>What reading the devices leaves of them.\<close>

definition same_shape :: "('i, 'w) device_t list \<Rightarrow> ('i, 'w) device_t list \<Rightarrow> bool" where
  "same_shape ds ds' \<longleftrightarrow> map dv_ports ds' = map dv_ports ds \<and> map dv_ops ds' = map dv_ops ds"

definition sample_of :: "(driver_inst, 'w) device_t \<Rightarrow> pf_probe_sample list option \<Rightarrow> bool" where
  "sample_of d smp \<longleftrightarrow> (case smp of None \<Rightarrow> True | Some out \<Rightarrow> numbers out \<and> length out = length (dv_ports d))"

lemma read_devices_ok:
  "list_all device_ok ds \<Longrightarrow> read_devices now pvs ps i ds w = (w', ds', out) \<Longrightarrow>
   list_all device_ok ds' \<and> same_shape ds ds' \<and> list_all2 sample_of ds' out"
proof (induction ds arbitrary: i w w' ds' out)
  case Nil
  then show ?case by (simp add: same_shape_def)
next
  case (Cons d ds)
  show ?case
  proof (cases "now < dv_next_poll d")
    case True
    obtain w2 ds2 out2 where r: "read_devices now pvs ps (Suc i) ds w = (w2, ds2, out2)" by (metis prod_cases3)
    with True Cons.prems have "ds' = d # ds2" "out = None # out2" by auto
    with Cons.IH [OF _ r] Cons.prems(1) show ?thesis by (simp add: same_shape_def sample_of_def)
  next
    case False
    obtain w1 d1 smp where o: "read_device now (wanted_samples pvs ps i (length (dv_ports d))) d w = (w1, d1, smp)" by (metis prod_cases3)
    obtain w2 ds2 out2 where r: "read_devices now pvs ps (Suc i) ds w1 = (w2, ds2, out2)" by (metis prod_cases3)
    from False o r Cons.prems have eq: "ds' = d1 # ds2" "out = Some smp # out2" by auto
    have ok: "probe_driver (dv_ops d) good_inst" "good_inst (dv_inst d)" using Cons.prems(1) by (simp_all add: device_ok_def)
    from probe_driver.read_device_ok [OF ok(1) refl ok(2) o]
    have "device_ok d1 \<and> sample_of d1 (Some smp) \<and> dv_ports d1 = dv_ports d \<and> dv_ops d1 = dv_ops d"
      using ok(1) by (simp add: device_ok_def sample_of_def)
    with Cons.IH [OF _ r] Cons.prems(1) eq show ?thesis by (simp add: same_shape_def)
  qed
qed

lemma in_range_shape: "same_shape ds ds' \<Longrightarrow> in_range ds pv \<Longrightarrow> in_range ds' pv"
proof -
  assume sh: "same_shape ds ds'" and "in_range ds pv"
  have len: "length ds' = length ds" using sh by (metis same_shape_def length_map)
  show ?thesis
    unfolding in_range_def
  proof
    assume p: "0 \<le> pp_dev pv \<and> 0 \<le> pp_port pv"
    with \<open>in_range ds pv\<close> have r: "pp_dev pv < int (length ds)" "pp_port pv < int (length (dv_ports (ds ! nat (pp_dev pv))))"
      unfolding in_range_def by blast+
    then have n: "nat (pp_dev pv) < length ds" using p by (simp add: nat_less_iff)
    have "dv_ports (ds' ! nat (pp_dev pv)) = map dv_ports ds' ! nat (pp_dev pv)" using n len by simp
    also have "map dv_ports ds' = map dv_ports ds" using sh by (simp add: same_shape_def)
    also have "map dv_ports ds ! nat (pp_dev pv) = dv_ports (ds ! nat (pp_dev pv))" using n by simp
    finally show "pp_dev pv < int (length ds') \<and> pp_port pv < int (length (dv_ports (ds' ! nat (pp_dev pv))))"
      using r len by simp
  qed
qed

lemma in_range_q: "in_range devs (pv\<lparr>pp_q := q\<rparr>) \<longleftrightarrow> in_range devs pv"
  by (simp add: in_range_def)

lemma list_all_update: "list_all p xs \<Longrightarrow> p x \<Longrightarrow> list_all p (xs[n := x])"
  using set_update_subset_insert [of xs n x] by (auto simp: list_all_iff)

text \<open>One probe is published.\<close>

definition readings_ok :: "('i, 'w) device_t list \<Rightarrow> pf_sensors \<times> probe_priv_t list \<Rightarrow> bool" where
  "readings_ok devs = (\<lambda>(s, pvs). length pvs = length (sn_p s) \<and> valid_numbers s \<and>
     list_all (\<lambda>pv. q_ok (pp_q pv) \<and> in_range devs pv) pvs)"

lemma take_reading_ok:
  assumes "c = NaN \<or> isfinite c" "q_ok q" "take_reading ck ex now c q r = (r', q')"
  shows "q_ok q' \<and> (pr_valid r' \<longrightarrow> isfinite (pr_temp_c r'))"
proof (cases "c = NaN")
  case True
  with assms(2,3) show ?thesis by (auto simp: take_reading_def reset_ok split: if_splits)
next
  case False
  obtain q1 v where p: "pf_tempq_push q c now = (q1, v)" by force
  with assms False push_ok [OF assms(2) _ p] show ?thesis by (auto simp: take_reading_def)
qed

lemma publish_ok:
  assumes "readings_ok devs (s, pvs)" "list_all2 sample_of devs out" "n < length (sn_p s)"
  shows "readings_ok devs (publish_probe vt devs out ck ex now n (s, pvs)) \<and>
    length (sn_p (fst (publish_probe vt devs out ck ex now n (s, pvs)))) = length (sn_p s)"
proof (cases "\<not> pr_enabled (sn_p s ! n) \<or> polled_sample devs out (pvs ! n) = None")
  case True
  then have "publish_probe vt devs out ck ex now n (s, pvs) = (s, pvs)"
    by (auto simp: publish_probe_def Let_def)
  with assms(1) show ?thesis by simp
next
  case False
  then obtain d x where dx: "polled_sample devs out (pvs ! n) = Some (d, x)" by (metis old.prod.exhaust option.exhaust)
  let ?pv = "pvs ! n" and ?r = "sn_p s ! n"
  from assms have len: "n < length pvs" "length pvs = length (sn_p s)" by (simp_all add: readings_ok_def)
  with assms(1) have pv: "q_ok (pp_q ?pv)" "in_range devs ?pv" by (simp_all add: readings_ok_def list_all_length)
  obtain smp where smp: "0 \<le> pp_dev ?pv" "0 \<le> pp_port ?pv" "out ! nat (pp_dev ?pv) = Some smp" "d = devs ! nat (pp_dev ?pv)"
    "x = smp ! nat (pp_port ?pv)"
    using dx by (auto simp: polled_sample_def split: if_splits option.splits)
  with pv(2) have rng: "nat (pp_dev ?pv) < length devs" "nat (pp_port ?pv) < length (dv_ports d)" by (auto simp: in_range_def)
  with assms(2) smp have "numbers smp" "length smp = length (dv_ports d)"
    using list_all2_nthD [OF assms(2) rng(1)] by (simp_all add: sample_of_def)
  with smp(5) rng(2) have x: "sa_kind x = SAMPLE_CELSIUS \<Longrightarrow> isfinite (sa_value x)" by (simp add: numbers_def)
  obtain c ohms where sv: "sample_value x (dv_rd d ! nat (pp_port ?pv)) (dv_vs d) (pp_shh ?pv) = (c, ohms)" by force
  define c' where "c' = (if po_id (dv_ops d) = Some ''virtual''
    then virtual_value (vt_mode (vt (dv_inst d))) s n (pf_virtual_inputs (vt (dv_inst d)) 8) else c)"
  have "c = NaN \<or> isfinite c" using sample_value_finite [OF x] sv by (metis fst_conv)
  then have c': "c' = NaN \<or> isfinite c'"
    using assms(1) virtual_value_finite [of s] by (simp add: c'_def readings_ok_def)
  define r1 where "r1 = ?r\<lparr>pr_wireless := dv_wireless d, pr_rssi := if dv_wireless d then dv_rssi d else 0,
    pr_battery := if dv_wireless d then dv_battery d else - 1, pr_raw_c := c', pr_ohms := if 0 < ohms then ohms else 0\<rparr>"
  obtain r2 q2 where tk: "take_reading ck ex now c' (pp_q ?pv) r1 = (r2, q2)" by force
  have pub: "publish_probe vt devs out ck ex now n (s, pvs) = (put_reading n r2 s, put_tempq n q2 pvs)"
    using False dx sv tk unfolding publish_probe_def prod.case Let_def c'_def r1_def by simp
  from take_reading_ok [OF c' pv(1) tk] have r2: "q_ok q2" "pr_valid r2 \<longrightarrow> isfinite (pr_temp_c r2)" by simp_all
  have "\<forall>r \<in> set ((sn_p s)[n := r2]). pr_valid r \<longrightarrow> isfinite (pr_temp_c r)"
    using assms(1) r2(2) set_update_subset_insert [of "sn_p s" n r2] by (auto simp: readings_ok_def valid_numbers_def)
  moreover have "list_all (\<lambda>pv. q_ok (pp_q pv) \<and> in_range devs pv) (pvs[n := (pvs ! n)\<lparr>pp_q := q2\<rparr>])"
    using assms(1) r2(1) pv(2) by (intro list_all_update) (simp_all add: readings_ok_def in_range_q)
  ultimately show ?thesis
    using len unfolding pub by (simp add: readings_ok_def put_reading_def put_tempq_def valid_numbers_def)
qed

lemma publish_all_ok:
  "readings_ok devs (s, pvs) \<Longrightarrow> list_all2 sample_of devs out \<Longrightarrow> \<forall>n \<in> set ns. n < length (sn_p s) \<Longrightarrow>
   readings_ok devs (fold (publish_probe vt devs out ck ex now) ns (s, pvs)) \<and>
   length (sn_p (fst (fold (publish_probe vt devs out ck ex now) ns (s, pvs)))) = length (sn_p s)"
proof (induction ns arbitrary: s pvs)
  case (Cons n ns)
  obtain s1 p1 where one: "publish_probe vt devs out ck ex now n (s, pvs) = (s1, p1)" by force
  from publish_ok [OF Cons.prems(1,2), of n vt ck ex now] Cons.prems(3) one
  have ok: "readings_ok devs (s1, p1)" "length (sn_p s1) = length (sn_p s)" by simp_all
  from Cons.IH [OF ok(1) Cons.prems(2)] ok(2) Cons.prems(3) one show ?case by simp
qed simp

section \<open>Building the layer\<close>

lemma index_of_range: "- 1 \<le> index_of p xs \<and> index_of p xs < int (length xs)"
  by (auto simp: index_of_def dest!: find_index_from_Some split: option.splits)

lemma read_priv_ok: "q_ok (pp_q (read_priv devs profiles i)) \<and> in_range devs (read_priv devs profiles i)"
  by (auto simp: read_priv_def Let_def q_ok_def pf_tempq_limits_def pf_tempq_init_def in_range_def find_port_def
      PF_PIT_SLEW_C_S_def PF_FOOD_SLEW_C_S_def PF_SLEW_HOLD_S_def index_of_range [THEN conjunct2])

lemma read_info_invalid [simp]: "\<not> pr_valid (read_info i)"
  by (simp add: read_info_def Let_def zero_reading_def)

lemma named_invalid: "\<forall>r \<in> set ps. \<not> pr_valid r \<Longrightarrow> \<forall>r \<in> set (name_ambient (pair_companions devs pvs ps)). \<not> pr_valid r"
  by (auto simp: name_ambient_def pair_companions_def Let_def)

lemma length_named [simp]: "length (name_ambient (pair_companions devs pvs ps)) = length ps"
  by (simp add: name_ambient_def pair_companions_def)

lemma add_device_ok:
  assumes "sim_ok W" "set tab \<subseteq> set (builtin_drivers W)" "list_all device_ok (snd wd)"
  shows "list_all device_ok (snd (add_device tab d wd))"
proof -
  obtain w devs where wd: "wd = (w, devs)" by force
  define md where "md = pf_json_str (Some d) ''module'' []"
  show ?thesis
  proof (cases "PF_MAX_DEVICES \<le> length devs")
    case True
    with assms(3) show ?thesis by (simp add: add_device_def wd)
  next
    case False
    show ?thesis
    proof (cases "pf_probe_driver_find tab md")
      case None
      with False assms(3) show ?thesis by (simp add: add_device_def wd Let_def md_def)
    next
      case (Some p)
      then have "p \<in> set tab" by (auto simp: pf_probe_driver_find_def find_Some_iff in_set_conv_nth)
      with assms(1,2) have drv: "probe_driver p good_inst" by (auto intro: builtin_keeps)
      obtain w1 oi where c: "the (po_create p) w d = (w1, oi)" by force
      show ?thesis
      proof (cases oi)
        case None
        with False Some c assms(3) show ?thesis by (simp add: add_device_def wd Let_def md_def)
      next
        case (Some inst)
        from probe_driver.create_good [OF drv c [unfolded Some]] have "good_inst inst" .
        with False \<open>pf_probe_driver_find tab md = Some p\<close> c Some assms(3) drv show ?thesis
          by (simp add: add_device_def wd Let_def md_def device_ok_def)
      qed
    qed
  qed
qed

lemma add_devices_ok:
  "sim_ok W \<Longrightarrow> set tab \<subseteq> set (builtin_drivers W) \<Longrightarrow> list_all device_ok (snd wd) \<Longrightarrow>
   list_all device_ok (snd (fold (add_device tab) ds wd))"
  by (induction ds arbitrary: wd) (simp_all add: add_device_ok)

lemma teardown_layer: "snd (teardown l w) = l\<lparr>pl_dev := [], pl_priv := [], pl_bank := (pl_bank l)\<lparr>pb_snap := zero_sensors\<lparr>sn_primary := - 1\<rparr>\<rparr>\<rparr>"
  by (simp add: teardown_def)

lemma init_ok:
  assumes "sim_ok W" "set tab \<subseteq> set (builtin_drivers W)" "pf_probes_init tab (Some m) profiles l w = (w', l', rc)"
  shows "layer_ok l'"
proof -
  obtain w1 l1 where t: "teardown l w = (w1, l1)" by force
  obtain w2 devs where d: "fold (add_device tab) (j_children (j_get ''probe_devices'' m)) (w1, []) = (w2, devs)" by force
  from add_devices_ok [OF assms(1,2), of "(w1, [])"] d have devs: "list_all device_ok devs" by (metis list.pred_inject(1) snd_conv)
  let ?is = "take PF_MAX_PROBES (j_children (j_get ''probe_info'' m))"
  let ?ps = "map read_info ?is" and ?pvs = "map (read_priv devs profiles) ?is"
  have l': "pl_dev l' = devs" "pl_priv l' = ?pvs" "sn_p (pb_snap (pl_bank l')) = name_ambient (pair_companions devs ?pvs ?ps)"
    using assms(3) by (auto simp: pf_probes_init_def t d Let_def)
  have "\<forall>r \<in> set (name_ambient (pair_companions devs ?pvs ?ps)). \<not> pr_valid r" by (rule named_invalid) auto
  then show ?thesis
    using devs by (simp add: layer_ok_def l' valid_numbers_def list_all_iff read_priv_ok)
qed

lemma builtin_table: "pf_probe_drivers_init (builtin_drivers W) [] = builtin_drivers W"
  by (simp add: pf_probe_drivers_init_def builtin_drivers_def driver_add_def pf_probe_driver_find_def sim_driver_def ads_driver_def
      max_driver_def mcp_driver_def ds_driver_def virt_driver_def ibbq_driver_def meater_driver_def chefiq_driver_def driver_def
      PF_PROBE_ABI_def MAX_DRIVERS_def)

section \<open>What happens between the polls\<close>

definition six_numbers :: "ibbq_t \<Rightarrow> bool" where
  "six_numbers s \<longleftrightarrow> length (ib_temp_c s) = 6 \<and> list_all isfinite (ib_temp_c s)"

lemma ib_take_temp_good:
  assumes "six_numbers s"
  shows "six_numbers (ib_take_temp msg i s)"
proof -
  have "isfinite (int_to_fl v / 10)" for v by (simp add: int_to_fl_def)
  with assms show ?thesis by (simp add: six_numbers_def ib_take_temp_def Let_def list_all_update)
qed

lemma ib_take_temps_good: "six_numbers s \<Longrightarrow> six_numbers (foldl (\<lambda>s i. ib_take_temp msg i s) s is)"
  by (induction "is" arbitrary: s) (simp_all add: ib_take_temp_good)

lemma ib_on_value_good:
  assumes "six_numbers s"
  shows "six_numbers (ib_on_value uuid msg s)"
proof -
  have "six_numbers (ib_battery_frame msg s)" using assms by (simp add: six_numbers_def ib_battery_frame_def Let_def)
  with ib_take_temps_good [OF assms] assms show ?thesis by (simp add: ib_on_value_def)
qed

lemma good_ibbq: "good_inst (Ibbq h s) \<longleftrightarrow> six_numbers s"
  by (simp add: good_inst_def six_numbers_def list_all_iff)

lemma pro_c_finite: "isfinite (pro_c v)"
  by (simp add: pro_c_def int_to_fl_def)

lemma least_finite: "isfinite a \<Longrightarrow> (\<And>i. isfinite (f i)) \<Longrightarrow> isfinite (foldl (\<lambda>mn i. let c = f i in if c < mn then c else mn) a is)"
  by (induction "is" arbitrary: a) (simp_all add: Let_def)

lemma mt_on_value_good:
  assumes "isfinite (mt_tip_c s) \<and> isfinite (mt_ambient_c s)"
  shows "isfinite (mt_tip_c (mt_on_value msg s)) \<and> isfinite (mt_ambient_c (mt_on_value msg s))"
proof -
  have "isfinite (fst (pro_temps msg)) \<and> isfinite (snd (pro_temps msg))"
    by (simp only: pro_temps_def fst_conv snd_conv) (intro conjI least_finite pro_c_finite, simp)
  moreover have "isfinite (fst (original_temps msg)) \<and> isfinite (snd (original_temps msg))"
    by (simp add: original_temps_def Let_def int_to_fl_def)
  ultimately show ?thesis using assms by (auto simp: mt_on_value_def split: prod.splits)
qed

lemma cq_on_value_good:
  assumes "(cq_valid s \<longrightarrow> isfinite (cq_food_c s)) \<and> (cq_ambient_c s = NaN \<or> isfinite (cq_ambient_c s))"
  shows "(cq_valid (cq_on_value msg now s) \<longrightarrow> isfinite (cq_food_c (cq_on_value msg now s))) \<and>
    (cq_ambient_c (cq_on_value msg now s) = NaN \<or> isfinite (cq_ambient_c (cq_on_value msg now s)))"
proof -
  obtain r rc where p: "pf_chefiq_parse msg = (r, rc)" by force
  have fin: "lies_in a b x \<Longrightarrow> isfinite x" for a b x by (cases x) auto
  have "cr_food_c r = NaN \<or> isfinite (cr_food_c r)" "cr_ambient_c r = NaN \<or> isfinite (cr_ambient_c r)"
    using parse_food_range [of msg] p fin by fastforce+
  with assms show ?thesis by (auto simp: cq_on_value_def p Let_def)
qed

lemma ds_round_good: "(ds_valid s \<longrightarrow> isfinite (ds_temp_c s)) \<Longrightarrow> ds_valid (ds_round names src now s) \<Longrightarrow> isfinite (ds_temp_c (ds_round names src now s))"
proof -
  assume v: "ds_valid s \<longrightarrow> isfinite (ds_temp_c s)" and valid: "ds_valid (ds_round names src now s)"
  have good: "ds_good t \<Longrightarrow> isfinite t" for t by (cases t) (auto simp: ds_good_def)
  have take: "(ds_valid s1 \<longrightarrow> isfinite (ds_temp_c s1)) \<Longrightarrow> ds_valid (ds_take tx now s1) \<Longrightarrow> isfinite (ds_temp_c (ds_take tx now s1))" for tx s1
    using good by (auto simp: ds_take_def Let_def split: if_splits)
  obtain s' found where fd: "(if ds_found s \<noteq> [] then (s, True) else find_device names s) = (s', found)" by force
  have "ds_valid s' \<longrightarrow> isfinite (ds_temp_c s')" using v find_device_frame [of names s s' found] fd by (auto split: if_splits)
  with take valid show ?thesis unfolding ds_round_def fd prod.case by (cases found) simp_all
qed

lemma inst_step_good:
  assumes "good_inst i"
  shows "good_inst (inst_step e i)"
proof (cases i)
  case (Ibbq h s)
  with assms have six: "six_numbers s" by (simp add: good_ibbq)
  then have "six_numbers (ib_on_disconnected s)" "six_numbers (fst (ib_set_units u lk s))" for u lk
    by (simp_all add: six_numbers_def ib_on_disconnected_def ib_set_units_def)
  with six ib_on_value_good [OF six] Ibbq show ?thesis by (cases e) (simp_all add: inst_step_def good_ibbq)
next
  case (Ds18b20 s)
  with assms ds_round_good show ?thesis by (cases e) (simp_all add: inst_step_def good_inst_def)
next
  case (Chefiq h s)
  with assms cq_on_value_good show ?thesis by (cases e) (simp_all add: inst_step_def good_inst_def cq_on_disconnected_def)
next
  case (Meater h s)
  with assms mt_on_value_good show ?thesis
    by (cases e) (simp_all add: inst_step_def good_inst_def mt_on_connected_def mt_on_disconnected_def)
qed (use assms in \<open>cases e; simp add: inst_step_def\<close>)+

section \<open>Whatever happens\<close>

text \<open>
  What the threads do to the layer.  A poll is two steps, with other operations between them; while its devices
  are being read the layer is not rebuilt (\<open>teardown\<close> waits for the readers).  The state holds what a poll has
  read and not published yet.
\<close>

datatype layer_op =
  ReadDevices fl | PublishReadings | Cooking bool | InUse string | Event nat inst_event | Rebuild "json option" "json option"

record 'w layer_state =
  ls_world :: 'w
  ls_layer :: "(driver_inst, 'w) probe_layer"
  ls_read :: "(fl \<times> pf_probe_sample list option list) option"

definition with_bank :: "(probe_bank \<Rightarrow> probe_bank) \<Rightarrow> ('i, 'w) probe_layer \<Rightarrow> ('i, 'w) probe_layer" where
  "with_bank f l = l\<lparr>pl_bank := f (pl_bank l)\<rparr>"

definition layer_step :: "'w probe_driver_ops list \<Rightarrow> layer_op \<Rightarrow> 'w layer_state \<Rightarrow> 'w layer_state" where
  "layer_step tab p s =
     (case p of
        ReadDevices now \<Rightarrow>
          (if ls_read s \<noteq> None then s
           else case poll_read now (ls_layer s) (ls_world s) of
             (w, l, out) \<Rightarrow> s\<lparr>ls_world := w, ls_layer := l, ls_read := Some (now, out)\<rparr>)
      | PublishReadings \<Rightarrow>
          (case ls_read s of None \<Rightarrow> s
           | Some (now, out) \<Rightarrow> s\<lparr>ls_layer := poll_publish virt_of now out (ls_layer s), ls_read := None\<rparr>)
      | Cooking b \<Rightarrow> s\<lparr>ls_layer := with_bank (pf_probes_set_cooking b) (ls_layer s)\<rparr>
      | InUse csv \<Rightarrow> s\<lparr>ls_layer := with_bank (pf_probes_set_in_use csv) (ls_layer s)\<rparr>
      | Event n e \<Rightarrow> s\<lparr>ls_layer := deliver n e (ls_layer s)\<rparr>
      | Rebuild m profiles \<Rightarrow>
          (if ls_read s \<noteq> None then s
           else case pf_probes_init tab m profiles (ls_layer s) (ls_world s) of (w, l, rc) \<Rightarrow> s\<lparr>ls_world := w, ls_layer := l\<rparr>))"

definition state_ok :: "'w layer_state \<Rightarrow> bool" where
  "state_ok s \<longleftrightarrow> layer_ok (ls_layer s) \<and>
     (case ls_read s of None \<Rightarrow> True | Some (now, out) \<Rightarrow> list_all2 sample_of (pl_dev (ls_layer s)) out)"

lemma poll_read_ok:
  assumes "layer_ok l" "poll_read now l w = (w', l', out)"
  shows "layer_ok l' \<and> list_all2 sample_of (pl_dev l') out"
proof -
  obtain w1 devs out1 where r: "read_devices now (pl_priv l) (sn_p (pb_snap (pl_bank l))) 0 (pl_dev l) w = (w1, devs, out1)"
    by (metis prod_cases3)
  then have eq: "l' = l\<lparr>pl_dev := devs\<rparr>" "out = out1" using assms(2) by (auto simp: poll_read_def)
  have "list_all device_ok devs \<and> same_shape (pl_dev l) devs \<and> list_all2 sample_of devs out1"
    using assms(1) by (intro read_devices_ok [OF _ r]) (simp add: layer_ok_def)
  with assms(1) eq show ?thesis
    by (auto simp: layer_ok_def list_all_iff intro: in_range_shape)
qed

lemma poll_publish_ok:
  assumes "layer_ok l" "list_all2 sample_of (pl_dev l) out"
  shows "layer_ok (poll_publish vt now out l)"
proof -
  let ?s = "(pb_snap (pl_bank l))\<lparr>sn_t := now\<rparr>"
  obtain s pvs where f: "fold (publish_probe vt (pl_dev l) out (pb_cooking (pl_bank l)) (pb_in_use_explicit (pl_bank l)) now)
      [0..<length (sn_p ?s)] (?s, pl_priv l) = (s, pvs)" by force
  have "readings_ok (pl_dev l) (?s, pl_priv l)"
    using assms(1) by (simp add: layer_ok_def readings_ok_def valid_numbers_def)
  from publish_all_ok [OF this assms(2), of "[0..<length (sn_p ?s)]" vt] f
  have "readings_ok (pl_dev l) (s, pvs)" by (metis atLeastLessThan_iff set_upt)
  with assms(1) f show ?thesis
    by (simp add: poll_publish_def Let_def layer_ok_def readings_ok_def)
qed

lemma with_bank_dev [simp]: "pl_dev (with_bank f l) = pl_dev l"
  by (simp add: with_bank_def)

lemma set_flags_ok: "layer_ok l \<Longrightarrow> layer_ok (with_bank (pf_probes_set_cooking b) l)" "layer_ok l \<Longrightarrow> layer_ok (with_bank (pf_probes_set_in_use csv) l)"
  by (auto simp: layer_ok_def with_bank_def valid_numbers_def pf_probes_set_cooking_def pf_probes_set_in_use_def Let_def)

lemma deliver_ok:
  assumes "layer_ok l"
  shows "layer_ok (deliver n e l)" "list_all2 sample_of (pl_dev l) out \<Longrightarrow> list_all2 sample_of (pl_dev (deliver n e l)) out"
proof -
  define d where "d = (pl_dev l ! n)\<lparr>dv_inst := inst_step e (dv_inst (pl_dev l ! n))\<rparr>"
  have del: "deliver n e l = (if n < length (pl_dev l) then l\<lparr>pl_dev := (pl_dev l)[n := d]\<rparr> else l)"
    by (simp add: deliver_def d_def)
  have ports: "n < length (pl_dev l) \<Longrightarrow> same_shape (pl_dev l) ((pl_dev l)[n := d])"
    by (simp add: same_shape_def d_def map_update list_update_same_conv)
  have "n < length (pl_dev l) \<Longrightarrow> device_ok d"
    using assms by (simp add: layer_ok_def list_all_length device_ok_def d_def inst_step_good)
  with assms have "n < length (pl_dev l) \<Longrightarrow> list_all device_ok ((pl_dev l)[n := d])"
    by (simp add: layer_ok_def list_all_update)
  moreover have "n < length (pl_dev l) \<Longrightarrow> list_all (\<lambda>pv. q_ok (pp_q pv) \<and> in_range ((pl_dev l)[n := d]) pv) (pl_priv l)"
    using assms in_range_shape [OF ports] by (simp add: layer_ok_def list_all_iff)
  ultimately show "layer_ok (deliver n e l)"
    using assms by (simp add: del layer_ok_def)
  show "list_all2 sample_of (pl_dev (deliver n e l)) out" if "list_all2 sample_of (pl_dev l) out"
    using that by (auto simp: del list_all2_conv_all_nth nth_list_update d_def sample_of_def split: option.splits)
qed

lemma rebuild_ok:
  assumes "sim_ok W" "pf_probes_init (builtin_drivers W) m profiles l w = (w', l', rc)"
  shows "layer_ok l'"
proof (cases m)
  case None
  with assms(2) have "l' = snd (teardown l w)" by (auto simp: pf_probes_init_def split: prod.splits)
  then show ?thesis by (simp add: teardown_layer layer_ok_def zero_sensors_def valid_numbers_def)
next
  case (Some n)
  with init_ok [OF assms(1) order_refl] assms(2) show ?thesis by auto
qed

lemma layer_step_ok:
  assumes "sim_ok W" "state_ok s"
  shows "state_ok (layer_step (builtin_drivers W) p s)"
proof (cases p)
  case (ReadDevices now)
  obtain w l out where r: "poll_read now (ls_layer s) (ls_world s) = (w, l, out)" by (metis prod_cases3)
  with assms(2) poll_read_ok [OF _ r] ReadDevices show ?thesis by (simp add: layer_step_def state_ok_def)
next
  case PublishReadings
  with assms(2) poll_publish_ok show ?thesis by (auto simp: layer_step_def state_ok_def split: option.splits)
next
  case (Cooking b)
  with assms(2) set_flags_ok(1) [of "ls_layer s" b] show ?thesis
    by (auto simp: layer_step_def state_ok_def split: option.splits)
next
  case (InUse csv)
  with assms(2) set_flags_ok(2) [of "ls_layer s" csv] show ?thesis
    by (auto simp: layer_step_def state_ok_def split: option.splits)
next
  case (Event n e)
  with assms(2) deliver_ok show ?thesis by (auto simp: layer_step_def state_ok_def split: option.splits)
next
  case (Rebuild m profiles)
  obtain w l rc where r: "pf_probes_init (builtin_drivers W) m profiles (ls_layer s) (ls_world s) = (w, l, rc)" by (metis prod_cases3)
  with assms(2) rebuild_ok [OF assms(1) r] Rebuild r show ?thesis
    by (cases "ls_read s") (simp_all add: layer_step_def state_ok_def)
qed

lemma layer_steps_ok: "sim_ok W \<Longrightarrow> state_ok s \<Longrightarrow> state_ok (fold (layer_step (builtin_drivers W)) ops s)"
  by (induction ops arbitrary: s) (simp_all add: layer_step_ok)

text \<open>The layer as a start leaves it, whatever it was before.\<close>

definition started :: "'w probe_driver_ops list \<Rightarrow> json option \<Rightarrow> json option \<Rightarrow> (driver_inst, 'w) probe_layer \<Rightarrow> 'w \<Rightarrow> 'w layer_state" where
  "started tab m profiles l w =
     (case pf_probes_init tab m profiles l w of (w, l, rc) \<Rightarrow> \<lparr>ls_world = w, ls_layer = l, ls_read = None\<rparr>)"

lemma started_ok: "sim_ok W \<Longrightarrow> state_ok (started (builtin_drivers W) m profiles l w)"
  using rebuild_ok [of W m profiles l w] by (auto simp: started_def state_ok_def split: prod.splits)


text \<open>A grill with the simulated sensor board alone, and one probe on its first port.\<close>

definition quiet_world :: "unit probe_world" where
  "quiet_world = \<lparr>pw_bus = \<lparr>b_open = \<lambda>w p. (w, - 1), b_i2c_write = \<lambda>w fd a bs. (w, False), b_i2c_read = \<lambda>w fd a bs n. (w, None),
     b_spi = \<lambda>w fd bs. (w, None), b_sleep = \<lambda>w n. w, b_now = \<lambda>w. 0\<rparr>, pw_sim = \<lambda>w. Some (pf_sim_reset 20),
     pw_ble = \<lambda>w h. \<lparr>bl_connected = False, bl_rssi = 0, bl_battery = - 1, bl_services = []\<rparr>, pw_register = \<lambda>w n a. (w, None),
     pw_unregister = \<lambda>w h. w, pw_units = \<lambda>w. UnitsC\<rparr>"

definition one_probe :: json where
  "one_probe = JObj [(''probe_devices'', JArr [JObj [(''module'', JStr ''sim''), (''device'', JStr ''board'')]]),
     (''probe_info'', JArr [JObj [(''label'', JStr ''Grill''), (''device'', JStr ''board''), (''port'', JStr ''ADC0''),
        (''type'', JStr ''Primary'')]])]"

definition no_layer :: "(driver_inst, 'w) probe_layer" where
  "no_layer = \<lparr>pl_dev = [], pl_bank = \<lparr>pb_snap = zero_sensors, pb_cooking = False, pb_in_use_explicit = False\<rparr>, pl_priv = []\<rparr>"

definition first_poll :: "unit layer_state" where
  "first_poll = fold (layer_step (pf_probe_drivers_init (builtin_drivers quiet_world) [])) [Cooking True, ReadDevices 1, PublishReadings]
     (started (pf_probe_drivers_init (builtin_drivers quiet_world) []) (Some one_probe) None no_layer ())"

lemma one_probe_parts:
  "j_children (j_get ''probe_devices'' one_probe) = [JObj [(''module'', JStr ''sim''), (''device'', JStr ''board'')]]"
  "j_children (j_get ''probe_info'' one_probe) =
     [JObj [(''label'', JStr ''Grill''), (''device'', JStr ''board''), (''port'', JStr ''ADC0''), (''type'', JStr ''Primary'')]]"
  by code_simp+

lemma board_names:
  "pf_json_str (Some (JObj [(''module'', JStr ''sim''), (''device'', JStr ''board'')])) ''module'' [] = ''sim''"
  "fst (pf_strlcpy [] (pf_json_str (Some (JObj [(''module'', JStr ''sim''), (''device'', JStr ''board'')])) ''device'' ''sim'') PF_LABEL_LEN) = ''board''"
  by code_simp+

definition pit_probe :: json where
  "pit_probe = JObj [(''label'', JStr ''Grill''), (''device'', JStr ''board''), (''port'', JStr ''ADC0''), (''type'', JStr ''Primary'')]"

lemma pit_info: "pr_device (read_info pit_probe) = ''board''" "pr_port (read_info pit_probe) = ''ADC0''"
  "pr_enabled (read_info pit_probe)"
  by code_simp+

definition board :: "(driver_inst, unit) device_t" where
  "board = \<lparr>dv_name = ''board'', dv_ops = sim_driver quiet_world, dv_inst = SimProbe simp_create, dv_ports = ads_ports,
     dv_rd = map (port_rd (JObj [(''module'', JStr ''sim''), (''device'', JStr ''board'')])) ads_ports, dv_vs = pf_json_num (Some (JObj [(''module'', JStr ''sim''), (''device'', JStr ''board'')])) ''config.voltage_ref'' (Fin (328 / 100)),
     dv_next_poll = 0, dv_wireless = False, dv_rssi = 0, dv_battery = 0\<rparr>"

lemma board_added:
  "add_device (builtin_drivers quiet_world) (JObj [(''module'', JStr ''sim''), (''device'', JStr ''board'')]) ((), []) = ((), [board])"
proof -
  have find: "pf_probe_driver_find (builtin_drivers quiet_world) ''sim'' = Some (sim_driver quiet_world)"
    by (simp add: pf_probe_driver_find_def builtin_drivers_def sim_driver_def driver_def)
  show ?thesis
    by (simp add: add_device_def PF_MAX_DEVICES_def board_names find board_def Let_def)
      (simp add: sim_driver_def driver_def ads_ports_def PF_MAX_PORTS_def)
qed

lemma pit_priv: "pp_dev (read_priv [board] None pit_probe) = 0" "pp_port (read_priv [board] None pit_probe) = 0"
  by (simp_all add: read_priv_def Let_def pit_info board_def find_port_def index_of_def ads_ports_def)

lemma board_started:
  "\<exists>s. ls_world s = () \<and> pl_dev (ls_layer s) = [board] \<and> pl_priv (ls_layer s) = [read_priv [board] None pit_probe] \<and>
       length (sn_p (pb_snap (pl_bank (ls_layer s)))) = 1 \<and> pr_enabled (sn_p (pb_snap (pl_bank (ls_layer s))) ! 0) \<and> ls_read s = None \<and>
       started (builtin_drivers quiet_world) (Some one_probe) None no_layer () = s"
  by (simp add: started_def pf_probes_init_def teardown_def no_layer_def one_probe_parts board_added PF_MAX_PROBES_def
      flip: pit_probe_def) (simp add: name_ambient_def pair_companions_def Let_def pit_info)

lemma board_read:
  "\<exists>w d v rest. read_device now (x # xs) board w = (w, d, celsius v # rest) \<and> isfinite v \<and> dv_ops d = sim_driver quiet_world"
proof -
  obtain s e where n: "sim_noise simp_create = (s, e)" by force
  obtain s2 ys where f: "sim_fill 1 (pf_sim_reset 20) xs s = (s2, ys)" by force
  have "isfinite e" using sim_noise_ok(1) [of simp_create] n by (simp add: simp_create_def)
  then have "isfinite (20 + e)" by (simp add: isfinite_plus)
  with n f show ?thesis
    by (simp add: read_device_def Let_def board_def sim_driver_def driver_def sim_probe_read_def quiet_world_def)
      (auto simp: pf_sim_reset_def)
qed

lemma taken_valid: "c \<noteq> NaN \<Longrightarrow> pr_valid (fst (take_reading ck ex now c q r))"
  by (simp add: take_reading_def split: prod.splits)

lemma board_published:
  assumes "dv_ops d = sim_driver quiet_world" "isfinite v" "pr_enabled r" "pp_dev pv = 0" "pp_port pv = 0"
  shows "\<exists>r' q. publish_probe vt [d] [Some (celsius v # rest)] ck ex now 0 (s\<lparr>sn_p := [r]\<rparr>, [pv]) =
    (s\<lparr>sn_p := [r']\<rparr>, q) \<and> pr_valid r'"
proof -
  have v: "v \<noteq> NaN" using assms(2) by auto
  define r1 where "r1 = r\<lparr>pr_wireless := dv_wireless d, pr_rssi := if dv_wireless d then dv_rssi d else 0,
    pr_battery := if dv_wireless d then dv_battery d else - 1, pr_raw_c := v, pr_ohms := 0\<rparr>"
  obtain r2 q2 where t: "take_reading ck ex now v (pp_q pv) r1 = (r2, q2)" by force
  have "pr_valid r2" using taken_valid [OF v, of ck ex now "pp_q pv" r1] t by simp
  moreover have "publish_probe vt [d] [Some (celsius v # rest)] ck ex now 0 (s\<lparr>sn_p := [r]\<rparr>, [pv]) =
    (put_reading 0 r2 (s\<lparr>sn_p := [r]\<rparr>), put_tempq 0 q2 [pv])"
    using assms t by (cases "dv_wireless d")
      (simp_all add: publish_probe_def Let_def polled_sample_def sample_value_def celsius_def sim_driver_def driver_def r1_def)
  ultimately show ?thesis by (auto simp: put_reading_def)
qed

lemma first_poll_valid: "\<exists>r. r \<in> set (sn_p (pf_probes_snapshot (pl_bank (ls_layer first_poll)))) \<and> pr_valid r"
proof -
  obtain s where s: "pl_dev (ls_layer s) = [board]" "pl_priv (ls_layer s) = [read_priv [board] None pit_probe]"
    "length (sn_p (pb_snap (pl_bank (ls_layer s)))) = 1" "pr_enabled (sn_p (pb_snap (pl_bank (ls_layer s))) ! 0)" "ls_read s = None"
    "started (builtin_drivers quiet_world) (Some one_probe) None no_layer () = s"
    using board_started by blast
  obtain r0 where r0: "sn_p (pb_snap (pl_bank (ls_layer s))) = [r0]" "pr_enabled r0" using s(3,4) by (auto simp: length_Suc_conv)
  let ?pv = "read_priv [board] None pit_probe" and ?b = "pf_probes_set_cooking True (pl_bank (ls_layer s))"
  have b: "sn_p (pb_snap ?b) = [r0]" by (simp add: pf_probes_set_cooking_def r0)
  obtain w d v rest where rd: "read_device 1 (wanted_samples [?pv] [r0] 0 4) board () = (w, d, celsius v # rest)" "isfinite v"
    "dv_ops d = sim_driver quiet_world"
    using board_read [of 1 "hd (wanted_samples [?pv] [r0] 0 4)" "tl (wanted_samples [?pv] [r0] 0 4)"]
    by (auto simp: wanted_samples_def upt_rec)
  obtain r' q where p: "publish_probe virt_of [d] [Some (celsius v # rest)] (pb_cooking ?b) (pb_in_use_explicit ?b) 1 0
      (((pb_snap ?b)\<lparr>sn_t := 1\<rparr>)\<lparr>sn_p := [r0]\<rparr>, [?pv]) = (((pb_snap ?b)\<lparr>sn_t := 1\<rparr>)\<lparr>sn_p := [r']\<rparr>, q)" "pr_valid r'"
    using board_published [OF rd(3,2) r0(2) pit_priv] by blast
  have same: "((pb_snap ?b)\<lparr>sn_t := 1\<rparr>)\<lparr>sn_p := [r0]\<rparr> = (pb_snap ?b)\<lparr>sn_t := 1\<rparr>"
    using b by (cases "pb_snap ?b") simp
  have nine: "dv_next_poll board = 0" "length (dv_ports board) = 4" by (simp_all add: board_def ads_ports_def)
  have "sn_p (pb_snap (pl_bank (ls_layer first_poll))) = [r']"
    using s b rd(1) p(1) [unfolded same] nine
    by (simp add: first_poll_def builtin_table layer_step_def with_bank_def poll_read_def poll_publish_def Let_def)
  with p(2) show ?thesis by (simp add: pf_probes_snapshot_def)
qed


end
