(* ===== verification/Probe_Chosen.thy ===== *)
theory Probe_Chosen
  imports Probe_Numbers
begin

text \<open>
  Which probes are part of a cook.  A cook that has named them keeps exactly those, whatever the polls read, until it
  ends; but a reload of the probes in the middle of it (the settings of a probe were changed) forgets the names and
  keeps the note that they were given, so that no probe is in use for the rest of the cook.
\<close>

section \<open>No probe has a target\<close>

text \<open>The snapshot's \<open>target_c\<close> is zero from the start on; nothing in the layer sets it.\<close>

definition no_targets :: "pf_probe_reading list \<Rightarrow> bool" where
  "no_targets rs \<longleftrightarrow> (\<forall>r \<in> set rs. pr_target_c r = 0)"

text \<open>What a poll leaves of a reading as far as the cook is concerned.\<close>

definition same_role :: "bool \<Rightarrow> pf_probe_reading \<Rightarrow> pf_probe_reading \<Rightarrow> bool" where
  "same_role ex r r' \<longleftrightarrow> pr_label r' = pr_label r \<and> pr_enabled r' = pr_enabled r \<and> pr_target_c r' = pr_target_c r \<and>
     (ex \<and> pr_target_c r = 0 \<longrightarrow> pr_in_use r' = pr_in_use r)"

lemma same_role_refl [simp]: "same_role ex r r"
  by (simp add: same_role_def)

lemma same_role_trans: "same_role ex a b \<Longrightarrow> same_role ex b c \<Longrightarrow> same_role ex a c"
  by (auto simp: same_role_def)

lemma take_reading_role: "same_role ex r (fst (take_reading ck ex now c q r))"
  by (auto simp: take_reading_def same_role_def split: prod.splits)

lemma publish_role:
  "list_all2 (same_role ex) (sn_p s) (sn_p (fst (publish_probe vt devs out ck ex now n (s, pvs))))"
proof (cases "\<not> pr_enabled (sn_p s ! n) \<or> polled_sample devs out (pvs ! n) = None")
  case True
  then show ?thesis by (auto simp: publish_probe_def Let_def list_all2_refl)
next
  case False
  then obtain d x where dx: "polled_sample devs out (pvs ! n) = Some (d, x)" "pr_enabled (sn_p s ! n)" by auto
  obtain c ohms where sv: "sample_value x (dv_rd d ! nat (pp_port (pvs ! n))) (dv_vs d) (pp_shh (pvs ! n)) = (c, ohms)" by force
  define c' where "c' = (if po_id (dv_ops d) = Some ''virtual''
    then virtual_value (vt_mode (vt (dv_inst d))) s n (pf_virtual_inputs (vt (dv_inst d)) 8) else c)"
  define r1 where "r1 = (sn_p s ! n)\<lparr>pr_wireless := dv_wireless d, pr_rssi := if dv_wireless d then dv_rssi d else 0,
    pr_battery := if dv_wireless d then dv_battery d else - 1, pr_raw_c := c', pr_ohms := if 0 < ohms then ohms else 0\<rparr>"
  obtain r2 q2 where tk: "take_reading ck ex now c' (pp_q (pvs ! n)) r1 = (r2, q2)" by force
  have pub: "publish_probe vt devs out ck ex now n (s, pvs) = (put_reading n r2 s, put_tempq n q2 pvs)"
    using dx sv tk unfolding publish_probe_def prod.case Let_def c'_def r1_def by simp
  have "same_role ex (sn_p s ! n) r1" by (simp add: r1_def same_role_def)
  moreover have "same_role ex r1 r2" using take_reading_role [of ex r1 ck now c' "pp_q (pvs ! n)"] tk by simp
  ultimately have "same_role ex (sn_p s ! n) r2" by (rule same_role_trans)
  then show ?thesis
    unfolding pub by (auto simp: put_reading_def list_all2_conv_all_nth)
      (metis nth_list_update_eq nth_list_update_neq same_role_refl)
qed

lemma publish_all_role:
  "list_all2 (same_role ex) (sn_p s) (sn_p (fst (fold (publish_probe vt devs out ck ex now) ns (s, pvs))))"
proof (induction ns arbitrary: s pvs)
  case (Cons n ns)
  obtain s1 p1 where one: "publish_probe vt devs out ck ex now n (s, pvs) = (s1, p1)" by force
  from publish_role [of ex s vt devs out ck now n pvs] one have "list_all2 (same_role ex) (sn_p s) (sn_p s1)" by simp
  then show ?case
    using list_all2_trans [OF same_role_trans _ Cons.IH [of s1 p1]] one by simp
qed (simp add: list_all2_refl)

section \<open>The probes of the cook\<close>

definition chosen :: "string set \<Rightarrow> probe_bank \<Rightarrow> bool" where
  "chosen L b \<longleftrightarrow> pb_in_use_explicit b \<and> no_targets (sn_p (pb_snap b)) \<and>
     (\<forall>r \<in> set (sn_p (pb_snap b)). pr_in_use r \<longleftrightarrow> pr_label r \<in> L \<and> pr_enabled r)"

definition bank_of :: "'w layer_state \<Rightarrow> probe_bank" where "bank_of s = pl_bank (ls_layer s)"

lemma publish_bank:
  "pb_in_use_explicit (pl_bank (poll_publish vt now out l)) = pb_in_use_explicit (pl_bank l) \<and>
   list_all2 (same_role (pb_in_use_explicit (pl_bank l))) (sn_p (pb_snap (pl_bank l))) (sn_p (pb_snap (pl_bank (poll_publish vt now out l))))"
proof -
  let ?b = "pl_bank l" and ?s = "(pb_snap (pl_bank l))\<lparr>sn_t := now\<rparr>"
  obtain s pvs where f: "fold (publish_probe vt (pl_dev l) out (pb_cooking ?b) (pb_in_use_explicit ?b) now)
      [0..<length (sn_p ?s)] (?s, pl_priv l) = (s, pvs)" by force
  have "list_all2 (same_role (pb_in_use_explicit ?b)) (sn_p ?s) (sn_p s)"
    using publish_all_role [of "pb_in_use_explicit ?b" ?s vt "pl_dev l" out "pb_cooking ?b" now "[0..<length (sn_p ?s)]" "pl_priv l"] f
    by simp
  with f show ?thesis by (simp add: poll_publish_def Let_def)
qed

lemma role_set: "list_all2 (same_role ex) rs rs' \<Longrightarrow> r' \<in> set rs' \<Longrightarrow> \<exists>r \<in> set rs. same_role ex r r'"
  by (metis in_set_conv_nth list_all2_conv_all_nth)

lemma named_fresh:
  "\<forall>r \<in> set ps. pr_target_c r = 0 \<and> \<not> pr_in_use r \<Longrightarrow>
   \<forall>r \<in> set (name_ambient (pair_companions devs pvs ps)). pr_target_c r = 0 \<and> \<not> pr_in_use r"
  by (auto simp: name_ambient_def pair_companions_def Let_def)

lemma info_fresh: "pr_target_c (read_info i) = 0 \<and> \<not> pr_in_use (read_info i)"
  by (simp add: read_info_def Let_def zero_reading_def)

lemma init_bank:
  assumes "pf_probes_init tab m profiles l w = (w', l', rc)"
  shows "pb_in_use_explicit (pl_bank l') = pb_in_use_explicit (pl_bank l)"
    "\<forall>r \<in> set (sn_p (pb_snap (pl_bank l'))). pr_target_c r = 0 \<and> \<not> pr_in_use r"
proof -
  obtain w1 l1 where t: "teardown l w = (w1, l1)" by force
  have l1: "pl_bank l1 = (pl_bank l)\<lparr>pb_snap := zero_sensors\<lparr>sn_primary := - 1\<rparr>\<rparr>" using teardown_layer [of l w] t by simp
  have "pb_in_use_explicit (pl_bank l') = pb_in_use_explicit (pl_bank l) \<and>
    (\<forall>r \<in> set (sn_p (pb_snap (pl_bank l'))). pr_target_c r = 0 \<and> \<not> pr_in_use r)"
  proof (cases m)
    case None
    with assms t l1 show ?thesis by (auto simp: pf_probes_init_def zero_sensors_def)
  next
    case (Some pm)
    obtain w2 devs where d: "fold (add_device tab) (j_children (j_get ''probe_devices'' pm)) (w1, []) = (w2, devs)" by force
    let ?is = "take PF_MAX_PROBES (j_children (j_get ''probe_info'' pm))"
    have "sn_p (pb_snap (pl_bank l')) = name_ambient (pair_companions devs (map (read_priv devs profiles) ?is) (map read_info ?is))"
      "pb_in_use_explicit (pl_bank l') = pb_in_use_explicit (pl_bank l1)"
      using assms by (auto simp: pf_probes_init_def t d Some Let_def)
    moreover have "\<forall>r \<in> set (map read_info ?is). pr_target_c r = 0 \<and> \<not> pr_in_use r" using info_fresh by auto
    note named_fresh [OF this, of devs "map (read_priv devs profiles) ?is"]
    ultimately show ?thesis unfolding l1 by (metis probe_bank.select_convs(3) probe_bank.surjective probe_bank.update_convs(1))
  qed
  then show "pb_in_use_explicit (pl_bank l') = pb_in_use_explicit (pl_bank l)"
    "\<forall>r \<in> set (sn_p (pb_snap (pl_bank l'))). pr_target_c r = 0 \<and> \<not> pr_in_use r" by simp_all
qed

text \<open>What may happen in the middle of a cook: it does not end and it names no probes.\<close>

fun in_cook :: "layer_op \<Rightarrow> bool" where
  "in_cook (Cooking b) \<longleftrightarrow> b"
| "in_cook (InUse csv) \<longleftrightarrow> False"
| "in_cook p \<longleftrightarrow> True"

fun reloads :: "layer_op \<Rightarrow> bool" where
  "reloads (Rebuild m profiles) \<longleftrightarrow> True"
| "reloads p \<longleftrightarrow> False"

lemma read_bank: "poll_read now l w = (w', l', out) \<Longrightarrow> pl_bank l' = pl_bank l"
  by (auto simp: poll_read_def split: prod.splits)

lemma quiet_step:
  assumes "in_cook p" "\<not> reloads p"
  shows "pb_in_use_explicit (bank_of (layer_step tab p s)) = pb_in_use_explicit (bank_of s)"
    "list_all2 (same_role (pb_in_use_explicit (bank_of s))) (sn_p (pb_snap (bank_of s))) (sn_p (pb_snap (bank_of (layer_step tab p s))))"
proof -
  have refl: "list_all2 (same_role ex) rs rs" for ex rs by (simp add: list_all2_refl)
  have "pb_in_use_explicit (bank_of (layer_step tab p s)) = pb_in_use_explicit (bank_of s) \<and>
    list_all2 (same_role (pb_in_use_explicit (bank_of s))) (sn_p (pb_snap (bank_of s))) (sn_p (pb_snap (bank_of (layer_step tab p s))))"
  proof (cases p)
    case PublishReadings
    show ?thesis
    proof (cases "ls_read s")
      case (Some no)
      obtain now out where no: "no = (now, out)" by force
      have "bank_of (layer_step tab p s) = pl_bank (poll_publish virt_of now out (ls_layer s))"
        by (simp add: PublishReadings layer_step_def bank_of_def Some no)
      then show ?thesis using publish_bank [of virt_of now out "ls_layer s"] by (simp add: bank_of_def)
    qed (simp add: PublishReadings layer_step_def refl)
  next
    case (ReadDevices now)
    obtain w l out where r: "poll_read now (ls_layer s) (ls_world s) = (w, l, out)" by (metis prod_cases3)
    have "bank_of (layer_step tab p s) = bank_of s"
      using read_bank [OF r] by (simp add: ReadDevices layer_step_def r bank_of_def)
    then show ?thesis by (simp add: refl)
  next
    case (Cooking b)
    with assms(1) show ?thesis by (simp add: layer_step_def bank_of_def with_bank_def pf_probes_set_cooking_def refl)
  next
    case (Event n e)
    then show ?thesis by (simp add: layer_step_def bank_of_def deliver_def refl)
  qed (use assms in simp_all)
  then show "pb_in_use_explicit (bank_of (layer_step tab p s)) = pb_in_use_explicit (bank_of s)"
    "list_all2 (same_role (pb_in_use_explicit (bank_of s))) (sn_p (pb_snap (bank_of s))) (sn_p (pb_snap (bank_of (layer_step tab p s))))"
    by simp_all
qed

lemma reload_bank:
  assumes "ls_read s = None"
  shows "pb_in_use_explicit (bank_of (layer_step tab (Rebuild m profiles) s)) = pb_in_use_explicit (bank_of s)"
    "\<forall>r \<in> set (sn_p (pb_snap (bank_of (layer_step tab (Rebuild m profiles) s)))). pr_target_c r = 0 \<and> \<not> pr_in_use r"
proof -
  obtain w l rc where r: "pf_probes_init tab m profiles (ls_layer s) (ls_world s) = (w, l, rc)" by (metis prod_cases3)
  have b: "bank_of (layer_step tab (Rebuild m profiles) s) = pl_bank l"
    using assms by (simp add: layer_step_def r bank_of_def)
  show "pb_in_use_explicit (bank_of (layer_step tab (Rebuild m profiles) s)) = pb_in_use_explicit (bank_of s)"
    using init_bank(1) [OF r] unfolding b by (simp add: bank_of_def)
  show "\<forall>r \<in> set (sn_p (pb_snap (bank_of (layer_step tab (Rebuild m profiles) s)))). pr_target_c r = 0 \<and> \<not> pr_in_use r"
    using init_bank(2) [OF r] unfolding b .
qed

lemma targets_step:
  assumes "no_targets (sn_p (pb_snap (bank_of s)))"
  shows "no_targets (sn_p (pb_snap (bank_of (layer_step tab p s))))"
proof (cases "in_cook p \<and> \<not> reloads p")
  case True
  then show ?thesis
    using role_set [OF quiet_step(2)] assms unfolding no_targets_def same_role_def by metis
next
  case False
  then consider (end_cook) "p = Cooking False" | (names) csv where "p = InUse csv" | (reload) m profiles where "p = Rebuild m profiles"
    by (cases p) auto
  then show ?thesis
  proof cases
    case reload
    then show ?thesis
    proof (cases "ls_read s = None")
      case True
      with reload_bank(2) [OF True] reload show ?thesis by (simp add: no_targets_def)
    next
      case False
      with reload assms show ?thesis by (simp add: layer_step_def)
    qed
  qed (use assms in \<open>auto simp: layer_step_def bank_of_def no_targets_def with_bank_def pf_probes_set_cooking_def
    pf_probes_set_in_use_def Let_def\<close>)
qed

lemma targets_steps: "no_targets (sn_p (pb_snap (bank_of s))) \<Longrightarrow> no_targets (sn_p (pb_snap (bank_of (fold (layer_step tab) ops s))))"
  by (induction ops arbitrary: s) (simp_all add: targets_step)

lemma started_targets: "no_targets (sn_p (pb_snap (bank_of (started tab m profiles l w))))"
proof -
  obtain w' l' rc where r: "pf_probes_init tab m profiles l w = (w', l', rc)" by (metis prod_cases3)
  from init_bank(2) [OF r] show ?thesis by (simp add: started_def r bank_of_def no_targets_def)
qed

lemma chosen_step:
  assumes "chosen L (bank_of s)" "in_cook p" "\<not> reloads p"
  shows "chosen L (bank_of (layer_step tab p s))"
proof -
  have ex: "pb_in_use_explicit (bank_of s)" "pb_in_use_explicit (bank_of (layer_step tab p s))"
    using assms(1) quiet_step(1) [OF assms(2,3), where tab = tab and s = s] by (simp_all add: chosen_def)
  have "pr_in_use r \<longleftrightarrow> pr_label r \<in> L \<and> pr_enabled r" "pr_target_c r = 0" if r: "r \<in> set (sn_p (pb_snap (bank_of (layer_step tab p s))))" for r
  proof -
    from role_set [OF quiet_step(2) [OF assms(2,3), where tab = tab and s = s] r] ex(1) obtain r0 where
      "r0 \<in> set (sn_p (pb_snap (bank_of s)))" "same_role True r0 r" by auto
    with assms(1) show "pr_in_use r \<longleftrightarrow> pr_label r \<in> L \<and> pr_enabled r" "pr_target_c r = 0"
      by (auto simp: chosen_def no_targets_def same_role_def)
  qed
  with ex(2) show ?thesis by (simp add: chosen_def no_targets_def)
qed

lemma chosen_steps:
  "chosen L (bank_of s) \<Longrightarrow> \<forall>p \<in> set ops. in_cook p \<and> \<not> reloads p \<Longrightarrow> chosen L (bank_of (fold (layer_step tab) ops s))"
  by (induction ops arbitrary: s) (simp_all add: chosen_step)

lemma named_step:
  assumes "no_targets (sn_p (pb_snap (bank_of s)))"
  shows "chosen (set (csv_items csv [])) (bank_of (layer_step tab (InUse csv) s))"
  using assms by (auto simp: layer_step_def bank_of_def with_bank_def pf_probes_set_in_use_def chosen_def no_targets_def)

lemma forgotten_step:
  assumes "chosen {} (bank_of s)" "in_cook p"
  shows "chosen {} (bank_of (layer_step tab p s))"
proof (cases "reloads p \<and> ls_read s = None")
  case True
  then obtain m profiles where p: "p = Rebuild m profiles" by (cases p) auto
  from reload_bank [of s tab m profiles] True assms(1) show ?thesis
    unfolding p by (simp add: chosen_def no_targets_def)
next
  case False
  show ?thesis
  proof (cases "reloads p")
    case True
    with False assms(1) show ?thesis by (cases p) (auto simp: layer_step_def)
  next
    case False
    with chosen_step [OF assms] show ?thesis .
  qed
qed

lemma forgotten_steps:
  "chosen {} (bank_of s) \<Longrightarrow> \<forall>p \<in> set ops. in_cook p \<Longrightarrow> chosen {} (bank_of (fold (layer_step tab) ops s))"
  by (induction ops arbitrary: s) (simp_all add: forgotten_step)

section \<open>Named probes stay, unless the probes are reloaded\<close>


text \<open>C22. A reload of the probes in a cook that has named them loses the names and not the note that they were given:
  from then on, until the cook ends or names its probes again, no probe is in use, whatever the probes read.\<close>

theorem reload_forgets_named:
  assumes "s1 = fold (layer_step tab) ops1 (layer_step tab (InUse csv) s0)" "\<forall>p \<in> set ops1. in_cook p" "ls_read s1 = None"
    "s = fold (layer_step tab) ops2 (layer_step tab (Rebuild m profiles) s1)" "\<forall>p \<in> set ops2. in_cook p"
    "r \<in> set (sn_p (pf_probes_snapshot (pl_bank (ls_layer s))))"
  shows "\<not> pr_in_use r \<and> pb_in_use_explicit (pl_bank (ls_layer s))"
proof -
  have ex: "pb_in_use_explicit (bank_of (fold (layer_step tab) ops s))" if "\<forall>p \<in> set ops. in_cook p" "pb_in_use_explicit (bank_of s)" for ops s
    using that
  proof (induction ops arbitrary: s)
    case (Cons p ops)
    have "pb_in_use_explicit (bank_of (layer_step tab p s))"
    proof (cases "reloads p")
      case True
      then obtain m profiles where p: "p = Rebuild m profiles" by (cases p) auto
      then show ?thesis
        using reload_bank(1) [of s tab m profiles] Cons.prems(2) by (cases "ls_read s") (simp_all add: layer_step_def)
    qed (use Cons.prems quiet_step(1) [where p = p and tab = tab and s = s] in auto)
    with Cons show ?case by simp
  qed simp
  have "pb_in_use_explicit (bank_of (layer_step tab (InUse csv) s0))"
    by (simp add: layer_step_def bank_of_def with_bank_def pf_probes_set_in_use_def)
  with ex [OF assms(2)] have "pb_in_use_explicit (bank_of s1)" by (simp add: assms(1))
  with reload_bank [OF assms(3), of tab m profiles] have "chosen {} (bank_of (layer_step tab (Rebuild m profiles) s1))"
    by (simp add: chosen_def no_targets_def)
  from forgotten_steps [OF this assms(5)] have "chosen {} (bank_of s)" by (simp add: assms(4))
  with assms(6) show ?thesis by (simp add: chosen_def bank_of_def pf_probes_snapshot_def)
qed

section \<open>One probe on the simulated board\<close>

lemma quiet_length:
  "\<forall>p \<in> set ops. in_cook p \<and> \<not> reloads p \<Longrightarrow>
   length (sn_p (pb_snap (bank_of (fold (layer_step tab) ops s)))) = length (sn_p (pb_snap (bank_of s)))"
proof (induction ops arbitrary: s)
  case (Cons p ops)
  then have "length (sn_p (pb_snap (bank_of (layer_step tab p s)))) = length (sn_p (pb_snap (bank_of s)))"
    using list_all2_lengthD [OF quiet_step(2) [where p = p and tab = tab and s = s]] by simp
  with Cons show ?case by simp
qed simp

lemma one_probe_length:
  "pf_probes_init tab (Some one_probe) None l w = (w', l', rc) \<Longrightarrow> length (sn_p (pb_snap (pl_bank l'))) = 1"
  by (auto simp: pf_probes_init_def one_probe_parts Let_def PF_MAX_PROBES_def split: prod.splits)

definition quiet_start :: "unit layer_state" where
  "quiet_start = started (builtin_drivers quiet_world) (Some one_probe) None no_layer ()"

definition named_start :: "unit layer_state" where
  "named_start = layer_step (builtin_drivers quiet_world) (InUse ''Grill'') quiet_start"

lemma named_start_length: "length (sn_p (pb_snap (bank_of named_start))) = 1"
proof -
  obtain w l rc where r: "pf_probes_init (builtin_drivers quiet_world) (Some one_probe) None no_layer () = (w, l, rc)" by (metis prod_cases3)
  from one_probe_length [OF r] show ?thesis
    by (simp add: named_start_def quiet_start_def started_def r layer_step_def bank_of_def with_bank_def pf_probes_set_in_use_def)
qed

lemma single_member: "length xs = 1 \<Longrightarrow> hd xs \<in> set xs"
  by (cases xs) auto

definition cook_polls :: "layer_op list" where "cook_polls = [Cooking True, ReadDevices 1, PublishReadings]"

lemma cook_polls_quiet: "\<forall>p \<in> set cook_polls. in_cook p \<and> \<not> reloads p"
  by (simp add: cook_polls_def)


theorem reload_forgets_named_witness:
  "\<exists>r \<in> set (sn_p (pf_probes_snapshot (pl_bank (ls_layer (fold (layer_step (builtin_drivers quiet_world)) cook_polls
       (layer_step (builtin_drivers quiet_world) (Rebuild (Some one_probe) None) named_start)))))). \<not> pr_in_use r"
proof -
  let ?tab = "builtin_drivers quiet_world"
  let ?s1 = "layer_step ?tab (Rebuild (Some one_probe) None) named_start"
  let ?s = "fold (layer_step ?tab) cook_polls ?s1"
  have free: "ls_read named_start = None"
    by (simp add: named_start_def quiet_start_def started_def layer_step_def split: prod.splits)
  obtain w l rc where r: "pf_probes_init ?tab (Some one_probe) None (ls_layer named_start) (ls_world named_start) = (w, l, rc)"
    by (metis prod_cases3)
  have "length (sn_p (pb_snap (bank_of ?s1))) = 1" 
    using one_probe_length [OF r] by (simp only: layer_step_def layer_op.case free r prod.case bank_of_def) simp
  then have "length (sn_p (pf_probes_snapshot (pl_bank (ls_layer ?s)))) = 1"
    using quiet_length [OF cook_polls_quiet, where tab = ?tab and s = ?s1] by (simp add: bank_of_def pf_probes_snapshot_def)
  from single_member [OF this] have m: "hd (sn_p (pf_probes_snapshot (pl_bank (ls_layer ?s)))) \<in>
    set (sn_p (pf_probes_snapshot (pl_bank (ls_layer ?s))))" .
  have s1: "named_start = fold (layer_step ?tab) [] (layer_step ?tab (InUse ''Grill'') quiet_start)" by (simp add: named_start_def)
  have "\<forall>p \<in> set cook_polls. in_cook p" using cook_polls_quiet by simp
  then have "\<not> pr_in_use (hd (sn_p (pf_probes_snapshot (pl_bank (ls_layer ?s)))))"
    by (intro conjunct1 [OF reload_forgets_named [OF s1 _ free refl _ m]]) simp_all
  with m show ?thesis by blast
qed

end
